(* ===== verification/Prelude.thy ===== *)
theory Prelude
  imports Complex_Main "HOL-Library.Sublist"
begin

text \<open>
  What the components share: the values an asynchronous function of the agent can throw, the type
  of its effects, the pieces of the JavaScript standard library the sources use on strings, numbers
  and untyped JSON values, and the lemmas about them.

  Conventions. A JavaScript \<open>string\<close> is a \<^typ>\<open>string\<close>; the texts the modelled code inspects are
  ASCII (signal names, labels, ids, states), so a \<^typ>\<open>char\<close> is one code unit; a literal outside
  ASCII is written as its UTF-8 bytes and never measured. A \<open>number\<close> that the code only uses as an
  integer is an \<^typ>\<open>int\<close>; a \<open>number\<close> of an untyped value is a \<open>jsnum\<close>. \<open>null\<close> and \<open>undefined\<close> of a
  declared optional field are both \<^const>\<open>None\<close> where the code does not tell them apart.
\<close>

named_theorems io_defs "the definitions of the effect combinators"
named_theorems js_defs "the definitions of the JavaScript helpers that proofs unfold"

section \<open>Thrown values\<close>

text \<open>
  The error classes the sources distinguish with \<open>instanceof\<close> or by a property; \<open>SystemError\<close> is a Node error
  with its \<open>code\<close>. \<open>ForeignThrow\<close>
  is anything else that can be thrown, with the number its \<open>status\<close> property holds, if any, and the
  text \<open>String(error)\<close> gives.
\<close>

datatype js_error =
    Error string
  | DockerApiError int string
  | ApiRequestError int string
  | ReleaseJobDeferredError string
  | DatabaseReadinessError string string
  | SystemError string string
  | ForeignThrow "int option" string

text \<open>\<open>(error as { status?: unknown } | null)?.status\<close>, when it is a number.\<close>

fun error_status :: "js_error \<Rightarrow> int option" where
  "error_status (DockerApiError s _) = Some s"
| "error_status (ApiRequestError s _) = Some s"
| "error_status (ForeignThrow s _) = s"
| "error_status _ = None"

text \<open>\<open>error instanceof Error ? error.message : fallback\<close>.\<close>

fun error_message :: "js_error \<Rightarrow> string \<Rightarrow> string" where
  "error_message (Error m) _ = m"
| "error_message (DockerApiError _ m) _ = m"
| "error_message (ApiRequestError _ m) _ = m"
| "error_message (ReleaseJobDeferredError m) _ = m"
| "error_message (DatabaseReadinessError m _) _ = m"
| "error_message (SystemError _ m) _ = m"
| "error_message (ForeignThrow _ _) fallback = fallback"

text \<open>\<open>error instanceof Error ? error.message : String(error)\<close>.\<close>

fun error_text :: "js_error \<Rightarrow> string" where
  "error_text (ForeignThrow _ t) = t"
| "error_text e = error_message e []"

section \<open>Effects\<close>

text \<open>
  An asynchronous function is a function of the world \<open>'w\<close> it runs in: \<^const>\<open>None\<close> is a call that
  never settles, \<^term>\<open>Some (Inl e, w')\<close> a rejection with \<open>e\<close>, \<^term>\<open>Some (Inr x, w')\<close> a result,
  each with the world it leaves. The operations of the Docker daemon, the control plane, the clock
  and the file system are parameters of the model, arbitrary functions of this type; whatever else
  runs between two awaits of the modelled function is part of what such an operation may do to the
  world.
\<close>

type_synonym ('w, 'a) io = "'w \<Rightarrow> ((js_error + 'a) \<times> 'w) option"

definition io_return :: "'a \<Rightarrow> ('w, 'a) io" where [io_defs]:
  "io_return x = (\<lambda>w. Some (Inr x, w))"

definition io_throw :: "js_error \<Rightarrow> ('w, 'a) io" where [io_defs]:
  "io_throw e = (\<lambda>w. Some (Inl e, w))"

definition io_bind :: "('w, 'a) io \<Rightarrow> ('a \<Rightarrow> ('w, 'b) io) \<Rightarrow> ('w, 'b) io" where
  "io_bind m f = (\<lambda>w. Option.bind (m w)
     (\<lambda>(r, w'). case r of Inl e \<Rightarrow> Some (Inl e, w') | Inr x \<Rightarrow> f x w'))"

text \<open>\<open>try { m } catch (e) { h(e) }\<close>, and \<open>try { m } finally { g }\<close> with a \<open>g\<close> that returns nothing.\<close>

text \<open>A synchronous call that may throw.\<close>

definition io_either :: "js_error + 'a \<Rightarrow> ('w, 'a) io" where
  "io_either r = (case r of Inl e \<Rightarrow> io_throw e | Inr x \<Rightarrow> io_return x)"

definition io_catch :: "('w, 'a) io \<Rightarrow> (js_error \<Rightarrow> ('w, 'a) io) \<Rightarrow> ('w, 'a) io" where
  "io_catch m h = (\<lambda>w. Option.bind (m w)
     (\<lambda>(r, w'). case r of Inl e \<Rightarrow> h e w' | Inr x \<Rightarrow> Some (Inr x, w')))"

definition io_finally :: "('w, 'a) io \<Rightarrow> ('w, unit) io \<Rightarrow> ('w, 'a) io" where
  "io_finally m g = (\<lambda>w. Option.bind (m w)
     (\<lambda>(r, w'). Option.bind (g w')
       (\<lambda>(s, w''). case s of Inl e \<Rightarrow> Some (Inl e, w'') | Inr _ \<Rightarrow> Some (r, w''))))"

text \<open>A call whose rejection is a value: \<open>try { return Inr(m) } catch (e) { return Inl(e) }\<close>.\<close>

definition io_try :: "('w, 'a) io \<Rightarrow> ('w, js_error + 'a) io" where
  "io_try m = (\<lambda>w. map_option (\<lambda>(r, w'). (Inr r, w')) (m w))"

lemma io_try_Some_iff [simp]: "io_try m w = Some (r, w') \<longleftrightarrow> (\<exists>s. m w = Some (s, w') \<and> r = Inr s)"
  by (auto simp: io_try_def)

lemma io_try_None_iff [simp]: "io_try m w = None \<longleftrightarrow> m w = None"
  by (simp add: io_try_def)

text \<open>\<open>for (const x of xs) { f(x) }\<close>.\<close>

primrec io_for :: "'a list \<Rightarrow> ('a \<Rightarrow> ('w, unit) io) \<Rightarrow> ('w, unit) io" where
  "io_for [] f = io_return ()"
| "io_for (x # xs) f = io_bind (f x) (\<lambda>_. io_for xs f)"

lemma io_bind_return [simp]: "io_bind (io_return x) f = f x"
  by (simp add: io_bind_def io_return_def)

lemma io_bind_throw [simp]: "io_bind (io_throw e) f = io_throw e"
  by (simp add: io_bind_def io_throw_def)

lemma io_bind_assoc: "io_bind (io_bind m f) g = io_bind m (\<lambda>x. io_bind (f x) g)"
  by (rule ext) (auto simp: io_bind_def split: Option.bind_splits sum.splits)

lemma io_bind_Some_iff:
  "io_bind m f w = Some (r, w2) \<longleftrightarrow>
     (\<exists>e w1. m w = Some (Inl e, w1) \<and> r = Inl e \<and> w2 = w1) \<or>
     (\<exists>x w1. m w = Some (Inr x, w1) \<and> f x w1 = Some (r, w2))"
  by (auto simp: io_bind_def split: Option.bind_splits sum.splits)

lemma io_bind_sum_Some_iff:
  "io_bind m (\<lambda>x. case x of Inl a \<Rightarrow> g a | Inr b \<Rightarrow> h b) w = Some (r, w2) \<longleftrightarrow>
     (\<exists>e w1. m w = Some (Inl e, w1) \<and> r = Inl e \<and> w2 = w1) \<or>
     (\<exists>a w1. m w = Some (Inr (Inl a), w1) \<and> g a w1 = Some (r, w2)) \<or>
     (\<exists>b w1. m w = Some (Inr (Inr b), w1) \<and> h b w1 = Some (r, w2))"
  by (auto simp: io_bind_def split: Option.bind_splits sum.splits)

lemma io_bind_None_iff:
  "io_bind m f w = None \<longleftrightarrow> m w = None \<or> (\<exists>x w1. m w = Some (Inr x, w1) \<and> f x w1 = None)"
  by (auto simp: io_bind_def split: Option.bind_splits sum.splits)

lemma io_bind_InrE:
  assumes "io_bind m f w = Some (Inr y, w2)"
  obtains x w1 where "m w = Some (Inr x, w1)" and "f x w1 = Some (Inr y, w2)"
  using assms by (auto simp: io_bind_Some_iff)

lemma io_catch_Some_iff:
  "io_catch m h w = Some (r, w2) \<longleftrightarrow>
     (\<exists>e w1. m w = Some (Inl e, w1) \<and> h e w1 = Some (r, w2)) \<or>
     (\<exists>x. m w = Some (Inr x, w2) \<and> r = Inr x)"
  by (auto simp: io_catch_def split: Option.bind_splits sum.splits)

lemma io_return_Some_iff [simp]: "io_return x w = Some (r, w') \<longleftrightarrow> r = Inr x \<and> w' = w"
  by (auto simp: io_return_def)

lemma io_throw_Some_iff [simp]: "io_throw e w = Some (r, w') \<longleftrightarrow> r = Inl e \<and> w' = w"
  by (auto simp: io_throw_def)

lemma io_return_not_None [simp]: "io_return x w \<noteq> None" "io_throw e w \<noteq> None"
  by (auto simp: io_return_def io_throw_def)

text \<open>Loops whose end depends on the world are \<^theory_text>\<open>partial_function (option)\<close>; these are the rules it needs.\<close>

lemma io_bind_mono [partial_function_mono]:
  fixes m :: "('x \<Rightarrow> 'y option) \<Rightarrow> ('w, 'a) io" and g :: "('x \<Rightarrow> 'y option) \<Rightarrow> 'a \<Rightarrow> ('w, 'b) io"
  assumes "\<And>w. mono_option (\<lambda>f. m f w)" and "\<And>x w. mono_option (\<lambda>f. g f x w)"
  shows "mono_option (\<lambda>f. io_bind (m f) (g f) w)"
  unfolding io_bind_def
proof (rule bind_mono [OF assms(1)])
  fix y :: "(js_error + 'a) \<times> 'w"
  obtain r w' where y: "y = (r, w')" by (cases y)
  show "mono_option (\<lambda>f. case y of (r, w') \<Rightarrow>
      (case r of Inl e \<Rightarrow> Some (Inl e, w') | Inr x \<Rightarrow> g f x w'))"
    unfolding y by (cases r) (simp_all add: assms(2) option.const_mono)
qed

lemma if_app_mono [partial_function_mono]:
  assumes "mono_option (\<lambda>f. F f w)" and "mono_option (\<lambda>f. G f w)"
  shows "mono_option (\<lambda>f. (if c then F f else G f) w)"
  using assms by (cases c) simp_all

lemma case_option_app_mono [partial_function_mono]:
  assumes "mono_option (\<lambda>f. F f w)" and "\<And>x. mono_option (\<lambda>f. G f x w)"
  shows "mono_option (\<lambda>f. (case v of None \<Rightarrow> F f | Some x \<Rightarrow> G f x) w)"
  using assms by (cases v) simp_all

lemma case_sum_app_mono [partial_function_mono]:
  assumes "\<And>x. mono_option (\<lambda>f. F f x w)" and "\<And>x. mono_option (\<lambda>f. G f x w)"
  shows "mono_option (\<lambda>f. (case v of Inl x \<Rightarrow> F f x | Inr x \<Rightarrow> G f x) w)"
  using assms by (cases v) simp_all

lemma case_prod_app_mono [partial_function_mono]:
  assumes "\<And>x y. mono_option (\<lambda>f. F f x y w)"
  shows "mono_option (\<lambda>f. (case v of (x, y) \<Rightarrow> F f x y) w)"
  using assms by (cases v) simp_all

lemma io_catch_mono [partial_function_mono]:
  fixes m :: "('x \<Rightarrow> 'y option) \<Rightarrow> ('w, 'a) io" and h :: "('x \<Rightarrow> 'y option) \<Rightarrow> js_error \<Rightarrow> ('w, 'a) io"
  assumes "\<And>w. mono_option (\<lambda>f. m f w)" and "\<And>e w. mono_option (\<lambda>f. h f e w)"
  shows "mono_option (\<lambda>f. io_catch (m f) (h f) w)"
  unfolding io_catch_def
proof (rule bind_mono [OF assms(1)])
  fix y :: "(js_error + 'a) \<times> 'w"
  obtain r w' where y: "y = (r, w')" by (cases y)
  show "mono_option (\<lambda>f. case y of (r, w') \<Rightarrow>
      (case r of Inl e \<Rightarrow> h f e w' | Inr x \<Rightarrow> Some (Inr x, w')))"
    unfolding y by (cases r) (simp_all add: assms(2) option.const_mono)
qed

text \<open>
  \<open>for (;;) { body }\<close>: the body is given what the loop keeps from one round to the next, and either
  goes on (\<^const>\<open>Inl\<close>) or leaves with a result (\<^const>\<open>Inr\<close>). A loop that never leaves is \<^const>\<open>None\<close>.
\<close>

partial_function (option) io_loop ::
    "('s \<Rightarrow> ('w, 's + 'a) io) \<Rightarrow> 's \<Rightarrow> 'w \<Rightarrow> ((js_error + 'a) \<times> 'w) option" where
  "io_loop body s w =
     io_bind (body s) (\<lambda>r. case r of Inl s' \<Rightarrow> io_loop body s' | Inr x \<Rightarrow> io_return x) w"

declare io_loop.simps [code]

text \<open>What the loop's end satisfies: an invariant of the rounds, and what leaving establishes.\<close>

lemma io_loop_partial:
  assumes run: "io_loop body s w = Some (r, w')" and init: "I s w"
    and step: "\<And>s w s' w'. I s w \<Longrightarrow> body s w = Some (Inr (Inl s'), w') \<Longrightarrow> I s' w'"
    and leave: "\<And>s w x w'. I s w \<Longrightarrow> body s w = Some (Inr (Inr x), w') \<Longrightarrow> Q (Inr x) w'"
    and fail: "\<And>s w e w'. I s w \<Longrightarrow> body s w = Some (Inl e, w') \<Longrightarrow> Q (Inl e) w'"
  shows "Q r w'"
proof -
  have "body = body \<longrightarrow> I s w \<longrightarrow> Q (fst (r, w')) (snd (r, w'))"
  proof (rule io_loop.raw_induct [where P = "\<lambda>b s w y. b = body \<longrightarrow> I s w \<longrightarrow> Q (fst y) (snd y)", OF _ run],
      intro impI)
    fix f b s w y
    assume IH: "\<And>b s w y. f b s w = Some y \<Longrightarrow> b = body \<longrightarrow> I s w \<longrightarrow> Q (fst y) (snd y)"
      and round: "io_bind (b s) (\<lambda>r. case r of Inl s' \<Rightarrow> f b s' | Inr x \<Rightarrow> io_return x) w = Some y"
      and b: "b = body" and I: "I s w"
    obtain r w2 where y: "y = (r, w2)" by (cases y)
    from round [unfolded b y] consider (err) e where "body s w = Some (Inl e, w2)" "r = Inl e"
      | (again) s' w1 where "body s w = Some (Inr (Inl s'), w1)" "f body s' w1 = Some (r, w2)"
      | (out) x where "body s w = Some (Inr (Inr x), w2)" "r = Inr x"
      by (auto simp: io_bind_sum_Some_iff)
    then show "Q (fst y) (snd y)"
    proof cases
      case again
      from IH [OF again(2)] step [OF I again(1)] y show ?thesis by simp
    qed (use I fail leave y in auto)
  qed
  with init show ?thesis by simp
qed

text \<open>A loop ends when every round does and each round that goes on makes a measure smaller.\<close>

lemma io_loop_settles:
  assumes "I s w"
    and "\<And>s w. I s w \<Longrightarrow> \<exists>r w'. body s w = Some (r, w') \<and>
           (\<forall>s'. r = Inr (Inl s') \<longrightarrow> I s' w' \<and> (m s' w' :: nat) < m s w)"
  shows "\<exists>r w'. io_loop body s w = Some (r, w')"
  using assms(1)
proof (induction "m s w" arbitrary: s w rule: less_induct)
  case less
  from assms(2) [OF less.prems] obtain r w' where b: "body s w = Some (r, w')"
    and next1: "\<forall>s'. r = Inr (Inl s') \<longrightarrow> I s' w' \<and> m s' w' < m s w" by blast
  show ?case
  proof (cases "\<exists>s'. r = Inr (Inl s')")
    case True
    then obtain s' where "r = Inr (Inl s')" ..
    with next1 less.hyps b show ?thesis by (subst io_loop.simps) (auto simp: io_bind_def)
  next
    case False
    with b show ?thesis
      by (subst io_loop.simps) (auto simp: io_bind_def io_return_def split: sum.splits)
  qed
qed

section \<open>Optional values\<close>

text \<open>\<open>a ?? b\<close>.\<close>

definition or_else :: "'a option \<Rightarrow> 'a option \<Rightarrow> 'a option" where
  "or_else a b = (case a of None \<Rightarrow> b | Some x \<Rightarrow> Some x)"

lemma or_else_None_iff [simp]: "or_else a b = None \<longleftrightarrow> a = None \<and> b = None"
  by (cases a) (auto simp: or_else_def)

section \<open>Strings and numbers\<close>

fun show_nat :: "nat \<Rightarrow> string" where
  "show_nat n = (if n < 10 then [char_of (48 + n)] else show_nat (n div 10) @ [char_of (48 + n mod 10)])"

declare show_nat.simps [simp del]

text \<open>\<open>String(n)\<close> of an integer below \<open>1e21\<close> in size.\<close>

definition show_int :: "int \<Rightarrow> string" where
  "show_int i = (if i < 0 then ''-'' @ show_nat (nat (- i)) else show_nat (nat i))"

definition is_digit :: "char \<Rightarrow> bool" where [js_defs]:
  "is_digit c \<longleftrightarrow> 48 \<le> (of_char c :: nat) \<and> (of_char c :: nat) \<le> 57"

definition digit_value :: "char \<Rightarrow> nat" where [js_defs]:
  "digit_value c = of_char c - 48"

text \<open>The value of a string of decimal digits.\<close>

definition digits_value :: "string \<Rightarrow> nat" where
  "digits_value s = foldl (\<lambda>acc c. acc * 10 + digit_value c) 0 s"

lemma show_nat_not_Nil [simp]: "show_nat n \<noteq> []"
  by (subst show_nat.simps) simp

lemma is_digit_char_of: "d < 10 \<Longrightarrow> is_digit (char_of (48 + d :: nat))"
  by (simp add: is_digit_def)

lemma show_nat_digits: "list_all is_digit (show_nat n)"
proof (induction n rule: show_nat.induct)
  case (1 n)
  then show ?case
    by (subst show_nat.simps) (auto intro: is_digit_char_of)
qed

lemma digits_value_show_nat [simp]: "digits_value (show_nat n) = n"
proof (induction n rule: show_nat.induct)
  case (1 n)
  then show ?case
    by (subst show_nat.simps) (auto simp: digits_value_def digit_value_def)
qed

lemma show_nat_inject [simp]: "show_nat m = show_nat n \<longleftrightarrow> m = n"
  by (metis digits_value_show_nat)

lemma show_nat_no_dash: "CHR ''-'' \<notin> set (show_nat n)"
  using show_nat_digits [of n] by (auto simp: list_all_iff is_digit_def)

text \<open>\<open>Array.prototype.join\<close>.\<close>

fun join :: "string \<Rightarrow> string list \<Rightarrow> string" where
  "join sep [] = []"
| "join sep [x] = x"
| "join sep (x # y # xs) = x @ sep @ join sep (y # xs)"

text \<open>\<open>String.prototype.startsWith\<close>, \<open>includes\<close>, \<open>indexOf\<close> of a character, \<open>split\<close> on a character.\<close>

definition starts_with :: "string \<Rightarrow> string \<Rightarrow> bool" where [js_defs]:
  "starts_with s p \<longleftrightarrow> prefix p s"

fun contains :: "string \<Rightarrow> string \<Rightarrow> bool" where
  "contains [] p \<longleftrightarrow> p = []"
| "contains (c # s) p \<longleftrightarrow> prefix p (c # s) \<or> contains s p"

fun index_of :: "'a list \<Rightarrow> 'a \<Rightarrow> nat option" where
  "index_of [] c = None"
| "index_of (x # xs) c = (if x = c then Some 0 else map_option Suc (index_of xs c))"

fun split_on :: "'a \<Rightarrow> 'a list \<Rightarrow> 'a list list" where
  "split_on c [] = [[]]"
| "split_on c (x # xs) =
     (if x = c then [] # split_on c xs
      else (case split_on c xs of [] \<Rightarrow> [[x]] | y # ys \<Rightarrow> (x # y) # ys))"

text \<open>\<open>String.prototype.trim\<close> on ASCII.\<close>

definition is_space :: "char \<Rightarrow> bool" where [js_defs]:
  "is_space c \<longleftrightarrow> (of_char c :: nat) \<in> {9, 10, 11, 12, 13, 32}"

definition trim :: "string \<Rightarrow> string" where
  "trim s = rev (dropWhile is_space (rev (dropWhile is_space s)))"

text \<open>\<open>Number.parseInt(s, 10)\<close>: leading white space, a sign and the digits that follow.\<close>

definition parse_int :: "string \<Rightarrow> int option" where
  "parse_int s =
     (let t = dropWhile is_space s; neg = prefix ''-'' t; u = (if neg \<or> prefix ''+'' t then tl t else t);
          ds = takeWhile is_digit u
      in if ds = [] then None else Some (if neg then - int (digits_value ds) else int (digits_value ds)))"

text \<open>\<open>toLowerCase\<close> and \<open>toUpperCase\<close> on ASCII.\<close>

definition to_lower_char :: "char \<Rightarrow> char" where
  "to_lower_char c = (let n = (of_char c :: nat) in if 65 \<le> n \<and> n \<le> 90 then char_of (n + 32) else c)"

definition to_upper_char :: "char \<Rightarrow> char" where
  "to_upper_char c = (let n = (of_char c :: nat) in if 97 \<le> n \<and> n \<le> 122 then char_of (n - 32) else c)"

definition to_lower :: "string \<Rightarrow> string" where "to_lower s = map to_lower_char s"
definition to_upper :: "string \<Rightarrow> string" where "to_upper s = map to_upper_char s"

text \<open>\<open>slice(0, n)\<close> and \<open>slice(n)\<close> are \<^const>\<open>take\<close> and \<^const>\<open>drop\<close>. \<open>[...new Set(xs)]\<close> keeps first occurrences.\<close>

fun distinct_firsts :: "'a list \<Rightarrow> 'a list" where
  "distinct_firsts [] = []"
| "distinct_firsts (x # xs) = x # removeAll x (distinct_firsts xs)"

lemma set_distinct_firsts [simp]: "set (distinct_firsts xs) = set xs"
  by (induction xs) auto

lemma distinct_distinct_firsts [simp]: "distinct (distinct_firsts xs)"
  by (induction xs) (auto simp: distinct_removeAll)

lemma join_split_on: "join [c] (split_on c s) = s"
proof (induction s)
  case (Cons x xs)
  then show ?case by (cases "split_on c xs"; cases "tl (split_on c xs)") (auto simp: neq_Nil_conv)
qed simp

lemma split_on_not_Nil [simp]: "split_on c s \<noteq> []"
  by (induction s) (auto split: list.splits)

lemma index_of_Some_iff:
  "index_of xs c = Some i \<longleftrightarrow> i < length xs \<and> xs ! i = c \<and> c \<notin> set (take i xs)"
proof (induction xs arbitrary: i)
  case (Cons x xs)
  then show ?case by (cases i) auto
qed simp

lemma index_of_None_iff: "index_of xs c = None \<longleftrightarrow> c \<notin> set xs"
  by (induction xs) auto

lemma trim_Nil [simp]: "trim [] = []"
  by (simp add: trim_def)

lemma set_trim: "set (trim s) \<subseteq> set s"
  by (auto simp: trim_def dest!: set_dropWhileD)

lemma length_trim: "length (trim s) \<le> length s"
  unfolding trim_def
  by (metis length_dropWhile_le length_rev le_trans)

lemma dropWhile_self: "xs = [] \<or> \<not> P (hd xs) \<Longrightarrow> dropWhile P xs = xs"
  by (cases xs) auto

lemma dropWhile_stop: "dropWhile P xs = [] \<or> \<not> P (hd (dropWhile P xs))"
  using hd_dropWhile [of P xs] by blast

lemma trim_idem [simp]: "trim (trim s) = trim s"
proof -
  let ?t = "dropWhile is_space s"
  let ?u = "dropWhile is_space (rev ?t)"
  obtain pre where "rev ?t = pre @ ?u"
    by (metis takeWhile_dropWhile_id)
  then have t: "?t = rev ?u @ rev pre" by (metis rev_append rev_rev_ident)
  have "rev ?u = [] \<or> \<not> is_space (hd (rev ?u))"
    using dropWhile_stop [of is_space s] t
    by (metis (no_types) append_is_Nil_conv hd_append2)
  then have "dropWhile is_space (rev ?u) = rev ?u" by (rule dropWhile_self)
  moreover have "dropWhile is_space ?u = ?u"
    by (rule dropWhile_self) (rule dropWhile_stop)
  ultimately show ?thesis by (simp add: trim_def)
qed

section \<open>Untyped values\<close>

text \<open>
  A \<open>number\<close>, and a value of type \<open>unknown\<close> as \<open>JSON.parse\<close> or a caller supplies it. The members
  of an object are in insertion order, one per key.
\<close>

datatype jsnum = Fin rat | NaN | Infinity bool

datatype json =
    JUndefined
  | JNull
  | JBool bool
  | JNum jsnum
  | JStr string
  | JArr "json list"
  | JObj "(string \<times> json) list"

text \<open>Reading a property of an object, \<open>undefined\<close> when it has none; \<open>Object.hasOwn\<close>.\<close>

definition jprop :: "(string \<times> json) list \<Rightarrow> string \<Rightarrow> json" where
  "jprop r k = (case map_of r k of None \<Rightarrow> JUndefined | Some v \<Rightarrow> v)"

definition jhas :: "(string \<times> json) list \<Rightarrow> string \<Rightarrow> bool" where
  "jhas r k \<longleftrightarrow> map_of r k \<noteq> None"

text \<open>\<open>Number.isInteger\<close> of a \<open>number\<close>, with the integer.\<close>

definition rat_int :: "rat \<Rightarrow> int option" where
  "rat_int q = (if of_int \<lfloor>q\<rfloor> = q then Some \<lfloor>q\<rfloor> else None)"

fun json_int :: "json \<Rightarrow> int option" where
  "json_int (JNum (Fin q)) = rat_int q"
| "json_int _ = None"

fun json_str :: "json \<Rightarrow> string option" where
  "json_str (JStr s) = Some s"
| "json_str _ = None"

definition jint :: "int \<Rightarrow> json" where
  "jint i = JNum (Fin (of_int i))"

lemma rat_int_of_int [simp]: "rat_int (of_int i) = Some i"
  by (simp add: rat_int_def)

lemma rat_int_Some_iff: "rat_int q = Some i \<longleftrightarrow> q = of_int i"
  by (auto simp: rat_int_def)

lemma json_int_jint [simp]: "json_int (jint i) = Some i"
  by (simp add: jint_def)

lemma jint_eq [simp]: "jint a = jint b \<longleftrightarrow> a = b" "jint a \<noteq> JUndefined" "JUndefined \<noteq> jint a"
  by (simp_all add: jint_def)

lemma json_int_Some_iff: "json_int v = Some i \<longleftrightarrow> v = jint i"
  by (cases v rule: json_int.cases) (auto simp: rat_int_Some_iff jint_def)

lemma json_str_Some_iff: "json_str v = Some s \<longleftrightarrow> v = JStr s"
  by (cases v) auto

lemma jprop_simps [simp]:
  "jprop [] k = JUndefined"
  "jprop ((k', v) # r) k = (if k = k' then v else jprop r k)"
  by (auto simp: jprop_def)

lemma jhas_simps [simp]:
  "jhas [] k = False"
  "jhas ((k', v) # r) k = (k = k' \<or> jhas r k)"
  by (auto simp: jhas_def)

text \<open>
  Setting a property: in place when it exists, at the end otherwise. \<open>{ ...a, ...b }\<close> sets \<open>b\<close>'s
  members one after the other. (Keys that are array indices would come first in JavaScript; the
  modelled objects have none.)
\<close>

fun obj_put :: "(string \<times> 'a) list \<Rightarrow> string \<Rightarrow> 'a \<Rightarrow> (string \<times> 'a) list" where
  "obj_put [] k v = [(k, v)]"
| "obj_put ((k', v') # r) k v = (if k' = k then (k, v) # r else (k', v') # obj_put r k v)"

definition obj_spread :: "(string \<times> 'a) list \<Rightarrow> (string \<times> 'a) list \<Rightarrow> (string \<times> 'a) list" where
  "obj_spread a b = foldl (\<lambda>o1 (k, v). obj_put o1 k v) a b"

lemma map_of_obj_put [simp]: "map_of (obj_put r k v) = (map_of r)(k \<mapsto> v)"
  by (induction r) (auto simp: fun_eq_iff)

lemma map_of_obj_spread_last: "map_of (obj_spread r (b @ [(k, v)])) k = Some v"
  by (simp add: obj_spread_def)

lemma map_of_obj_spread_skip:
  "k \<notin> fst ` set b \<Longrightarrow> map_of (obj_spread r b) k = map_of r k"
  unfolding obj_spread_def by (induction b arbitrary: r) auto

text \<open>
  \<open>Number(s)\<close> of a string in decimal notation, as an exact value (a double rounds what has more than
  fifteen digits). The radix prefixes read as \<open>NaN\<close>; no modelled value is written with one.
\<close>

definition unsigned_decimal :: "string \<Rightarrow> rat option" where
  "unsigned_decimal s =
     (let whole = takeWhile is_digit s; r = dropWhile is_digit s;
          frac = (case r of c # t \<Rightarrow> if c = CHR ''.'' then takeWhile is_digit t else [] | [] \<Rightarrow> []);
          r2 = (case r of c # t \<Rightarrow> if c = CHR ''.'' then dropWhile is_digit t else r | [] \<Rightarrow> []);
          m = of_nat (digits_value (whole @ frac)) / 10 ^ length frac
      in if whole @ frac = [] then None
         else case r2 of
           [] \<Rightarrow> Some m
         | c # t \<Rightarrow>
             if c \<noteq> CHR ''e'' \<and> c \<noteq> CHR ''E'' then None
             else let neg = prefix ''-'' t; ds = (if prefix ''-'' t \<or> prefix ''+'' t then tl t else t)
                  in if ds = [] \<or> \<not> list_all is_digit ds then None
                     else if neg then Some (m / 10 ^ digits_value ds) else Some (m * 10 ^ digits_value ds))"

definition js_number :: "string \<Rightarrow> jsnum" where
  "js_number str =
     (let s = trim str; neg = prefix ''-'' s; u = (if neg \<or> prefix ''+'' s then tl s else s)
      in if s = [] then Fin 0
         else if u = ''Infinity'' then Infinity neg
         else case unsigned_decimal u of None \<Rightarrow> NaN | Some q \<Rightarrow> Fin (if neg then - q else q))"

lemma takeWhile_all: "list_all P xs \<Longrightarrow> takeWhile P xs = xs"
  by (induction xs) auto

lemma dropWhile_all: "list_all P xs \<Longrightarrow> dropWhile P xs = []"
  by (induction xs) auto

lemma digit_not_space: "is_digit c \<Longrightarrow> \<not> is_space c"
  by (auto simp: is_digit_def is_space_def)

lemma trim_digits: "list_all is_digit s \<Longrightarrow> trim s = s"
proof -
  assume s: "list_all is_digit s"
  have "dropWhile is_space t = t" if "list_all is_digit t" for t
    using that by (intro dropWhile_self) (cases t; auto simp: digit_not_space)
  with s show "trim s = s" by (simp add: trim_def)
qed

lemma js_number_show_nat [simp]: "js_number (show_nat n) = Fin (of_nat n)"
proof -
  have d: "list_all is_digit (show_nat n)" by (rule show_nat_digits)
  then have "\<not> prefix ''-'' (show_nat n)" "\<not> prefix ''+'' (show_nat n)"
    by (cases "show_nat n"; auto simp: is_digit_def)+
  moreover have "show_nat n \<noteq> ''Infinity''"
    using d by (auto simp: is_digit_def)
  moreover have "unsigned_decimal (show_nat n) = Some (of_nat n)"
    using d by (simp add: unsigned_decimal_def takeWhile_all dropWhile_all)
  ultimately show ?thesis by (simp add: js_number_def trim_digits [OF d])
qed

end
