(* ===== verification/JS_Date.thy ===== *)
theory JS_Date
  imports Prelude
begin

text \<open>
  \<open>Date.parse\<close> on the timestamps the agent reads: the RFC 3339 form \<open>YYYY-MM-DDTHH:MM:SS[.fff...]\<close>
  followed by \<open>Z\<close> or an offset, which is what Docker and \<open>toISOString\<close> write. Milliseconds since the
  epoch, \<^const>\<open>None\<close> for \<open>NaN\<close>. As in V8, a day up to 31 is accepted in every month and runs over, and
  digits after the third decimal are dropped. Other date formats are not used by the modelled code
  and read as \<^const>\<open>None\<close>.
\<close>

text \<open>Days from 1970-01-01 to a date of the proleptic Gregorian calendar.\<close>

definition days_from_civil :: "int \<Rightarrow> int \<Rightarrow> int \<Rightarrow> int" where
  "days_from_civil y m d =
     (let y' = (if m \<le> 2 then y - 1 else y);
          era = y' div 400;
          yoe = y' mod 400;
          doy = (153 * (m + (if m > 2 then -3 else 9)) + 2) div 5 + d - 1;
          doe = yoe * 365 + yoe div 4 - yoe div 100 + doy
      in era * 146097 + doe - 719468)"

definition take_digits :: "nat \<Rightarrow> string \<Rightarrow> (int \<times> string) option" where
  "take_digits n s =
     (if length s \<ge> n \<and> list_all is_digit (take n s)
      then Some (int (digits_value (take n s)), drop n s) else None)"

definition expect :: "char \<Rightarrow> string \<Rightarrow> string option" where
  "expect c s = (case s of [] \<Rightarrow> None | x # xs \<Rightarrow> if x = c then Some xs else None)"

text \<open>The fraction of a second in milliseconds.\<close>

definition take_fraction :: "string \<Rightarrow> (int \<times> string) option" where
  "take_fraction s =
     (case expect (CHR ''.'') s of
        None \<Rightarrow> Some (0, s)
      | Some r \<Rightarrow>
          (let ds = takeWhile is_digit r
           in if ds = [] then None
              else Some (int (digits_value (take 3 (ds @ ''00''))), dropWhile is_digit r)))"

definition take_offset :: "string \<Rightarrow> int option" where
  "take_offset s =
     (if s = ''Z'' then Some 0
      else case s of
        [] \<Rightarrow> None
      | c # r \<Rightarrow>
          if c = CHR ''+'' \<or> c = CHR ''-'' then
            Option.bind (take_digits 2 r) (\<lambda>(h, r).
            Option.bind (expect (CHR '':'') r) (\<lambda>r.
            Option.bind (take_digits 2 r) (\<lambda>(m, r).
              if r = [] then Some ((if c = CHR ''-'' then -1 else 1) * (h * 60 + m)) else None)))
          else None)"

definition date_parse :: "string \<Rightarrow> int option" where
  "date_parse s =
     Option.bind (take_digits 4 s) (\<lambda>(y, s).
     Option.bind (expect (CHR ''-'') s) (\<lambda>s.
     Option.bind (take_digits 2 s) (\<lambda>(mo, s).
     Option.bind (expect (CHR ''-'') s) (\<lambda>s.
     Option.bind (take_digits 2 s) (\<lambda>(d, s).
     Option.bind (expect (CHR ''T'') s) (\<lambda>s.
     Option.bind (take_digits 2 s) (\<lambda>(h, s).
     Option.bind (expect (CHR '':'') s) (\<lambda>s.
     Option.bind (take_digits 2 s) (\<lambda>(mi, s).
     Option.bind (expect (CHR '':'') s) (\<lambda>s.
     Option.bind (take_digits 2 s) (\<lambda>(sec, s).
     Option.bind (take_fraction s) (\<lambda>(ms, s).
     Option.bind (take_offset s) (\<lambda>off.
       if 1 \<le> mo \<and> mo \<le> 12 \<and> 1 \<le> d \<and> d \<le> 31 \<and> h \<le> 23 \<and> mi \<le> 59 \<and> sec \<le> 59
       then Some ((((days_from_civil y mo d * 24 + h) * 60 + mi - off) * 60 + sec) * 1000 + ms)
       else None)))))))))))))"

text \<open>\<open>new Date(ms).toISOString()\<close> of an instant of the years 0 to 9999.\<close>

definition civil_from_days :: "int \<Rightarrow> int \<times> int \<times> int" where
  "civil_from_days z0 =
     (let z = z0 + 719468; era = z div 146097; doe = z mod 146097;
          yoe = (doe - doe div 1460 + doe div 36524 - doe div 146096) div 365;
          doy = doe - (365 * yoe + yoe div 4 - yoe div 100);
          mp = (5 * doy + 2) div 153;
          d = doy - (153 * mp + 2) div 5 + 1;
          m = (if mp < 10 then mp + 3 else mp - 9);
          y = yoe + era * 400 + (if m \<le> 2 then 1 else 0)
      in (y, m, d))"

definition pad :: "nat \<Rightarrow> int \<Rightarrow> string" where
  "pad n i = (let s = show_int i in replicate (n - length s) (CHR ''0'') @ s)"

definition to_iso_string :: "int \<Rightarrow> string" where
  "to_iso_string ms =
     (let (y, m, d) = civil_from_days (ms div 86400000); t = ms mod 86400000
      in pad 4 y @ ''-'' @ pad 2 m @ ''-'' @ pad 2 d @ ''T'' @ pad 2 (t div 3600000) @ '':''
         @ pad 2 (t div 60000 mod 60) @ '':'' @ pad 2 (t div 1000 mod 60) @ ''.''
         @ pad 3 (t mod 1000) @ ''Z'')"

lemma to_iso_string_epoch:
  "to_iso_string 0 = ''1970-01-01T00:00:00.000Z''"
  by code_simp

lemma date_parse_epoch: "date_parse ''1970-01-01T00:00:00Z'' = Some 0"
  by code_simp

lemma date_parse_docker:
  "date_parse ''2024-02-29T12:30:45.123456789Z'' = Some 1709209845123"
  by code_simp

end
