(* ===== verification/Release_Phases.thy ===== *)
theory Release_Phases
  imports JS_Date
begin

text \<open>
  \<open>packages/runtime/src/release-phases.ts\<close>: the wire contract of a deployment's release phases (the
  pre-activation job and the verification) and the decisions the control plane and the agent take
  on it. The last section puts the control plane's decisions together into a ledger of one job's
  attempts and proves the rule the module states: a job with side effects never runs twice for the
  same attempt.
\<close>

section \<open>The contract's data\<close>

datatype release_phase = PreActivation | Verification

datatype failure_policy = Keep | Rollback

datatype job_status = Pending | JobRunning | Succeeded | Failed | TimedOut | OutcomeUnknown

text \<open>
  The outcomes the agent reports are \<open>succeeded\<close> or one of the three failures
  (\<open>Exclude<ReleaseJobOutcome, "succeeded">\<close>).
\<close>

datatype job_failure = FailedRun | TimedOutRun | UnknownRun

datatype job_outcome = Success | Unsuccess job_failure

datatype job_resolution = Retry | MarkSucceeded

fun failure_status :: "job_failure \<Rightarrow> job_status" where
  "failure_status FailedRun = Failed"
| "failure_status TimedOutRun = TimedOut"
| "failure_status UnknownRun = OutcomeUnknown"

fun outcome_status :: "job_outcome \<Rightarrow> job_status" where
  "outcome_status Success = Succeeded"
| "outcome_status (Unsuccess f) = failure_status f"

fun status_text :: "job_status \<Rightarrow> string" where
  "status_text Pending = ''pending''"
| "status_text JobRunning = ''running''"
| "status_text Succeeded = ''succeeded''"
| "status_text Failed = ''failed''"
| "status_text TimedOut = ''timed_out''"
| "status_text OutcomeUnknown = ''outcome_unknown''"

definition RELEASE_COMMAND_MAX_LENGTH :: nat where
  "RELEASE_COMMAND_MAX_LENGTH = 8000"

record timeout_limits =
  minSeconds :: int
  maxSeconds :: int
  defaultSeconds :: int

fun RELEASE_JOB_TIMEOUT_LIMITS :: "release_phase \<Rightarrow> timeout_limits" where
  "RELEASE_JOB_TIMEOUT_LIMITS PreActivation = \<lparr>minSeconds = 10, maxSeconds = 3600, defaultSeconds = 600\<rparr>"
| "RELEASE_JOB_TIMEOUT_LIMITS Verification = \<lparr>minSeconds = 5, maxSeconds = 900, defaultSeconds = 120\<rparr>"

text \<open>
  A configuration as it comes in from a client: the timeout is any \<open>number\<close> and the failure policy
  any string until \<open>validateServiceReleaseConfig\<close> has accepted them.
\<close>

record job_config =
  jc_command :: string
  jc_timeoutSeconds :: jsnum

record verification_config = job_config +
  vc_onFailure :: string

record service_release_config =
  preActivation :: "job_config option"
  verification :: "verification_config option"

datatype service_type = App | Worker

section \<open>Validation and normalisation of a configuration\<close>

definition describeReleaseCommandProblem :: "string \<Rightarrow> string \<Rightarrow> string option" where
  "describeReleaseCommandProblem label command =
     (if length (trim command) = 0 then
        Some (label @ '' command is required; remove the '' @ to_lower label @ '' to disable it'')
      else if length command > RELEASE_COMMAND_MAX_LENGTH then
        Some (label @ '' command must be 8,000 characters or less'')
      else if CHR 0x00 \<in> set command then
        Some (label @ '' command must not contain NUL characters'')
      else None)"

fun num_int :: "jsnum \<Rightarrow> int option" where
  "num_int (Fin q) = rat_int q"
| "num_int _ = None"

definition describeTimeoutProblem :: "string \<Rightarrow> release_phase \<Rightarrow> jsnum \<Rightarrow> string option" where
  "describeTimeoutProblem label phase seconds =
     (let limits = RELEASE_JOB_TIMEOUT_LIMITS phase;
          problem = Some (label @ '' timeout must be a whole number of seconds from ''
            @ show_int (minSeconds limits) @ '' through '' @ show_int (maxSeconds limits))
      in case num_int seconds of
           None \<Rightarrow> problem
         | Some s \<Rightarrow> if s < minSeconds limits \<or> s > maxSeconds limits then problem else None)"

definition pre_activation_problem :: "job_config \<Rightarrow> string option" where
  "pre_activation_problem c =
     or_else (describeReleaseCommandProblem ''Pre-activation job'' (jc_command c))
       (describeTimeoutProblem ''Pre-activation job'' PreActivation (jc_timeoutSeconds c))"

definition verification_problem :: "verification_config \<Rightarrow> service_type \<Rightarrow> string option" where
  "verification_problem c st =
     or_else (or_else (describeReleaseCommandProblem ''Verification'' (jc_command c))
       (describeTimeoutProblem ''Verification'' Verification (jc_timeoutSeconds c)))
     (if vc_onFailure c \<notin> {''keep'', ''rollback''} then
        Some ''Verification failure policy must be keep or rollback''
      else if st = Worker \<and> vc_onFailure c = ''rollback'' then
        Some ''Worker services keep a deployment whose verification fails; roll back explicitly from the deployment list''
      else None)"

definition validateServiceReleaseConfig :: "service_release_config \<Rightarrow> service_type \<Rightarrow> string option" where
  "validateServiceReleaseConfig config serviceType =
     or_else (Option.bind (preActivation config) pre_activation_problem)
       (Option.bind (verification config) (\<lambda>v. verification_problem v serviceType))"

definition normalizeServiceReleaseConfig ::
    "service_release_config option \<Rightarrow> service_release_config option" where
  "normalizeServiceReleaseConfig config =
     (case config of
        None \<Rightarrow> None
      | Some c \<Rightarrow>
          if preActivation c = None \<and> verification c = None then None
          else Some \<lparr>
            preActivation = map_option (\<lambda>p. p\<lparr>jc_command := trim (jc_command p)\<rparr>) (preActivation c),
            verification = map_option (\<lambda>v. v\<lparr>jc_command := trim (jc_command v)\<rparr>) (verification c)\<rparr>)"

section \<open>Messages\<close>

definition phase_label :: "release_phase \<Rightarrow> string" where
  "phase_label p = (if p = PreActivation then ''Pre-activation job'' else ''Verification'')"

fun describeReleaseJobOutcome ::
    "release_phase \<Rightarrow> job_failure \<Rightarrow> nat \<Rightarrow> int option \<Rightarrow> int \<Rightarrow> string" where
  "describeReleaseJobOutcome phase FailedRun attempt exitCode timeoutSeconds =
     (case exitCode of
        None \<Rightarrow> phase_label phase @ '' could not be started''
      | Some code \<Rightarrow> phase_label phase @ '' failed with exit code '' @ show_int code)"
| "describeReleaseJobOutcome phase TimedOutRun attempt exitCode timeoutSeconds =
     phase_label phase @ '' timed out after '' @ show_int timeoutSeconds @ ''s''"
| "describeReleaseJobOutcome phase UnknownRun attempt exitCode timeoutSeconds =
     (if phase = PreActivation
      then phase_label phase @ '' attempt '' @ show_nat attempt @ '' was started but its result was lost; it was not run again. Check its effect, then retry it or mark it succeeded''
      else phase_label phase @ '' attempt '' @ show_nat attempt @ '' was started but its result was lost; it was not run again'')"

section \<open>The control plane's answer to a claim\<close>

datatype claim_response =
    RunClaim nat
  | ResumeClaim nat
  | SkipClaim nat
  | WaitClaim nat string
  | HaltClaim nat job_failure string

record job_record =
  jr_status :: job_status
  jr_attempt :: nat
  jr_statusMessage :: "string option"
  jr_claimedLeaseId :: "string option"

text \<open>The answer, and the attempt of the \<open>running\<close> transition to commit before answering.\<close>

definition halt_response :: "job_record \<Rightarrow> job_failure \<Rightarrow> claim_response" where
  "halt_response r f = HaltClaim (jr_attempt r) f
     (case jr_statusMessage r of
        Some m \<Rightarrow> m
      | None \<Rightarrow> ''Release job ended as '' @ status_text (failure_status f))"

definition decideReleaseJobClaim :: "job_record \<Rightarrow> string \<Rightarrow> claim_response \<times> nat option" where
  "decideReleaseJobClaim r claimingLeaseId =
     (case jr_status r of
        Pending \<Rightarrow> (let attempt = jr_attempt r + 1 in (RunClaim attempt, Some attempt))
      | JobRunning \<Rightarrow>
          (if jr_claimedLeaseId r = Some claimingLeaseId
           then (RunClaim (jr_attempt r), None)
           else (ResumeClaim (jr_attempt r), None))
      | Succeeded \<Rightarrow> (SkipClaim (jr_attempt r), None)
      | Failed \<Rightarrow> (halt_response r FailedRun, None)
      | TimedOut \<Rightarrow> (halt_response r TimedOutRun, None)
      | OutcomeUnknown \<Rightarrow> (halt_response r UnknownRun, None))"

section \<open>Jobs that block another one\<close>

datatype blocker_reason = BlockRunning | BlockOutcomeUnknown | BlockContainerRunning | BlockOwnAttempt

record job_blocker =
  bl_deploymentId :: string
  bl_reason :: blocker_reason

fun select_by_order :: "blocker_reason list \<Rightarrow> job_blocker list \<Rightarrow> job_blocker option" where
  "select_by_order [] blockers = None"
| "select_by_order (reason # order) blockers =
     (case find (\<lambda>b. bl_reason b = reason) blockers of
        Some b \<Rightarrow> Some b
      | None \<Rightarrow> select_by_order order blockers)"

definition blocker_order :: "blocker_reason list" where
  "blocker_order = [BlockOutcomeUnknown, BlockOwnAttempt, BlockContainerRunning, BlockRunning]"

definition selectReleaseJobBlocker :: "job_blocker list \<Rightarrow> job_blocker option" where
  "selectReleaseJobBlocker blockers = select_by_order blocker_order blockers"

definition RELEASE_JOB_CONTAINER_WAIT_SUFFIX :: string where
  "RELEASE_JOB_CONTAINER_WAIT_SUFFIX = ''whose container is still running on the server''"

definition describeReleaseJobWait :: "job_blocker \<Rightarrow> string" where
  "describeReleaseJobWait blocker =
     (let deployment = ''deployment '' @ take 8 (bl_deploymentId blocker)
      in case bl_reason blocker of
           BlockOutcomeUnknown \<Rightarrow> ''Waiting on the pre-activation job of '' @ deployment @ '', whose outcome is unknown. Check its effect and mark it succeeded to let this deployment continue''
         | BlockContainerRunning \<Rightarrow> ''Waiting on the pre-activation job of '' @ deployment @ '', '' @ RELEASE_JOB_CONTAINER_WAIT_SUFFIX
         | BlockRunning \<Rightarrow> ''Waiting on the pre-activation job of '' @ deployment @ '', which is still running''
         | BlockOwnAttempt \<Rightarrow> ''Waiting on an earlier attempt of this deployment'' @ [CHR 0x27] @ ''s pre-activation job, '' @ RELEASE_JOB_CONTAINER_WAIT_SUFFIX)"

section \<open>Reports\<close>

datatype report_decision = Record | Duplicate | Reject string

definition decideReleaseJobReport :: "job_record \<Rightarrow> nat \<Rightarrow> job_outcome \<Rightarrow> report_decision" where
  "decideReleaseJobReport r attempt outcome =
     (if attempt \<noteq> jr_attempt r then
        Reject (''Release job attempt '' @ show_nat attempt @ '' is not the current attempt '' @ show_nat (jr_attempt r))
      else if jr_status r = JobRunning then Record
      else if jr_status r = outcome_status outcome then Duplicate
      else Reject (''Release job attempt '' @ show_nat (jr_attempt r) @ '' is already recorded as '' @ status_text (jr_status r)))"

section \<open>The agent's side\<close>

datatype observation =
    Missing
  | CreatedOnly
  | StillRunning
  | Exited int "string option" "string option"

datatype recovery =
    StartIt
  | WaitForIt
  | RecordIt job_outcome int
  | DeclareUnknown

definition readTimestampMs :: "string option \<Rightarrow> int option" where
  "readTimestampMs value =
     (case value of
        None \<Rightarrow> None
      | Some v \<Rightarrow> if v = [] \<or> starts_with v ''0001-'' then None else date_parse v)"

definition exit_outcome :: "int \<Rightarrow> job_outcome" where
  "exit_outcome code = (if code = 0 then Success else Unsuccess FailedRun)"

definition classifyReleaseJobExit ::
    "int \<Rightarrow> string option \<Rightarrow> string option \<Rightarrow> int \<Rightarrow> bool \<Rightarrow> job_outcome" where
  "classifyReleaseJobExit exitCode startedAt finishedAt timeoutSeconds stoppedByDeadline =
     (case (readTimestampMs startedAt, readTimestampMs finishedAt) of
        (Some s, Some f) \<Rightarrow>
          if f - s \<ge> timeoutSeconds * 1000 then Unsuccess TimedOutRun else exit_outcome exitCode
      | _ \<Rightarrow>
          if stoppedByDeadline then Unsuccess TimedOutRun else exit_outcome exitCode)"

fun decideReleaseJobRecovery :: "observation \<Rightarrow> int \<Rightarrow> recovery" where
  "decideReleaseJobRecovery CreatedOnly timeoutSeconds = StartIt"
| "decideReleaseJobRecovery StillRunning timeoutSeconds = WaitForIt"
| "decideReleaseJobRecovery (Exited code startedAt finishedAt) timeoutSeconds =
     RecordIt (classifyReleaseJobExit code startedAt finishedAt timeoutSeconds False) code"
| "decideReleaseJobRecovery Missing timeoutSeconds = DeclareUnknown"

datatype pre_activation_gate = Proceed | Stay string

definition decidePreActivationGate :: "job_outcome \<Rightarrow> string \<Rightarrow> pre_activation_gate" where
  "decidePreActivationGate outcome message =
     (if outcome = Success then Proceed
      else Stay (message @ ''. The new deployment was not activated.''))"

datatype consequence = NoConsequence | KeepServing string | RollBack

definition decideVerificationConsequence :: "job_outcome \<Rightarrow> failure_policy \<Rightarrow> bool \<Rightarrow> consequence" where
  "decideVerificationConsequence outcome policy rollbackAvailable =
     (if outcome = Success then NoConsequence
      else if outcome = Unsuccess UnknownRun then
        KeepServing ''The verification result is unknown, so the new deployment keeps serving''
      else if policy = Keep then
        KeepServing ''The service keeps the new deployment when verification fails''
      else if \<not> rollbackAvailable then
        KeepServing ''The previous deployment cannot take traffic back, so the new deployment keeps serving''
      else RollBack)"

section \<open>Operator resolution\<close>

datatype resolution_decision = ResolveTo job_status | Refuse string

definition decideReleaseJobResolution ::
    "release_phase \<Rightarrow> job_status \<Rightarrow> job_resolution \<Rightarrow> resolution_decision" where
  "decideReleaseJobResolution phase status resolution =
     (if phase \<noteq> PreActivation then
        Refuse ''Only a pre-activation job can be resolved; redeploy to verify again''
      else if resolution = Retry then
        (if status = Failed \<or> status = TimedOut \<or> status = OutcomeUnknown
         then ResolveTo Pending
         else Refuse (''A '' @ status_text status @ '' pre-activation job cannot be retried''))
      else if status = OutcomeUnknown then ResolveTo Succeeded
      else Refuse ''Only a pre-activation job whose outcome is unknown can be marked succeeded'')"

definition describeInterruptedReleaseJob :: "release_phase \<Rightarrow> nat \<Rightarrow> string" where
  "describeInterruptedReleaseJob phase attempt =
     describeReleaseJobOutcome phase UnknownRun attempt None 0 @ ''. Its result was never reported.''"

fun describeReportedReleaseJob ::
    "release_phase \<Rightarrow> job_outcome \<Rightarrow> nat \<Rightarrow> int option \<Rightarrow> int \<Rightarrow> failure_policy option \<Rightarrow>
     failure_policy option \<Rightarrow> string option" where
  "describeReportedReleaseJob phase Success attempt exitCode timeoutSeconds configured applied = None"
| "describeReportedReleaseJob phase (Unsuccess f) attempt exitCode timeoutSeconds configured applied =
     (let base = describeReleaseJobOutcome phase f attempt exitCode timeoutSeconds in Some (
      if phase = PreActivation then base @ ''. The new deployment was not activated.''
      else if applied = Some Rollback then
        base @ ''. Traffic was returned to the previous deployment; no data or schema was rolled back.''
      else if configured = Some Rollback \<and> f \<noteq> UnknownRun \<and> \<not> (f = FailedRun \<and> exitCode = None) then
        base @ ''. The previous deployment could not take traffic back, so the new deployment keeps serving.''
      else base @ ''. The new deployment keeps serving.''))"

section \<open>What the decisions guarantee\<close>

text \<open>What an accepted configuration is: the contract of the validation, without its messages.\<close>

definition command_ok :: "string \<Rightarrow> bool" where
  "command_ok c \<longleftrightarrow> trim c \<noteq> [] \<and> length c \<le> 8000 \<and> CHR 0x00 \<notin> set c"

definition timeout_ok :: "release_phase \<Rightarrow> jsnum \<Rightarrow> bool" where
  "timeout_ok phase n \<longleftrightarrow> (\<exists>s. n = Fin (of_int s) \<and>
     (case phase of PreActivation \<Rightarrow> 10 \<le> s \<and> s \<le> 3600 | Verification \<Rightarrow> 5 \<le> s \<and> s \<le> 900))"

definition release_config_ok :: "service_release_config \<Rightarrow> service_type \<Rightarrow> bool" where
  "release_config_ok config st \<longleftrightarrow>
     (case preActivation config of None \<Rightarrow> True
      | Some c \<Rightarrow> command_ok (jc_command c) \<and> timeout_ok PreActivation (jc_timeoutSeconds c)) \<and>
     (case verification config of None \<Rightarrow> True
      | Some v \<Rightarrow> command_ok (jc_command v) \<and> timeout_ok Verification (jc_timeoutSeconds v) \<and>
          (vc_onFailure v = ''keep'' \<or> vc_onFailure v = ''rollback'' \<and> st = App))"

lemma describeReleaseCommandProblem_None_iff [simp]:
  "describeReleaseCommandProblem label c = None \<longleftrightarrow> command_ok c"
  by (auto simp: describeReleaseCommandProblem_def command_ok_def RELEASE_COMMAND_MAX_LENGTH_def)

lemma num_int_Some_iff: "num_int n = Some s \<longleftrightarrow> n = Fin (of_int s)"
  by (cases n) (auto simp: rat_int_Some_iff)

lemma describeTimeoutProblem_None_iff [simp]:
  "describeTimeoutProblem label phase n = None \<longleftrightarrow> timeout_ok phase n"
  by (cases phase) (auto simp: describeTimeoutProblem_def timeout_ok_def Let_def num_int_Some_iff split: option.splits)

lemma command_ok_trim: "command_ok c \<Longrightarrow> command_ok (trim c)"
  using length_trim [of c] set_trim [of c] by (auto simp: command_ok_def)

lemma validate_None_iff:
  "validateServiceReleaseConfig config st = None \<longleftrightarrow> release_config_ok config st"
  by (cases st) (auto simp: validateServiceReleaseConfig_def release_config_ok_def pre_activation_problem_def
      verification_problem_def split: option.splits)

lemma release_config_ok_normalize:
  assumes "release_config_ok config st"
  shows "case normalizeServiceReleaseConfig (Some config) of
           None \<Rightarrow> preActivation config = None \<and> verification config = None
         | Some c \<Rightarrow> release_config_ok c st \<and> normalizeServiceReleaseConfig (Some c) = Some c"
  using assms by (auto simp: normalizeServiceReleaseConfig_def release_config_ok_def command_ok_trim
      option.map_comp o_def split: option.splits)

text \<open>C5 A release configuration is accepted exactly when every enabled phase has a non-blank command of at
  most 8,000 characters without NUL, a whole timeout within its phase's limits, and a failure policy
  that is \<open>keep\<close>, or \<open>rollback\<close> on a service that is not a worker; and normalising an accepted
  configuration either drops it because it is empty, or gives one that is accepted and normal.\<close>

theorem release_config_validation:
  "(validateServiceReleaseConfig config st = None \<longleftrightarrow> release_config_ok config st) \<and>
   (validateServiceReleaseConfig config st = None \<longrightarrow>
     (case normalizeServiceReleaseConfig (Some config) of
        None \<Rightarrow> preActivation config = None \<and> verification config = None
      | Some c \<Rightarrow> validateServiceReleaseConfig c st = None \<and> normalizeServiceReleaseConfig (Some c) = Some c))"
  using release_config_ok_normalize [of config st] by (auto simp: validate_None_iff split: option.splits)

definition sample_config :: service_release_config where
  "sample_config = \<lparr>
     preActivation = Some \<lparr>jc_command = '' npm run migrate '', jc_timeoutSeconds = Fin 600\<rparr>,
     verification = Some \<lparr>jc_command = ''curl localhost'', jc_timeoutSeconds = Fin 900, vc_onFailure = ''rollback''\<rparr>\<rparr>"

lemma sample_config_ok:
  "release_config_ok sample_config App" "\<not> release_config_ok sample_config Worker"
proof -
  have "timeout_ok PreActivation (Fin 600)" "timeout_ok Verification (Fin 900)"
    by (auto simp: timeout_ok_def intro: exI [of _ 600] exI [of _ 900])
  moreover have "command_ok '' npm run migrate ''" "command_ok ''curl localhost''" by code_simp+
  ultimately show "release_config_ok sample_config App" "\<not> release_config_ok sample_config Worker"
    by (auto simp: release_config_ok_def sample_config_def)
qed

lemma release_config_validation_witness:
  "\<exists>c. normalizeServiceReleaseConfig (Some sample_config) = Some c \<and> validateServiceReleaseConfig c App = None
     \<and> jc_command (the (preActivation c)) = ''npm run migrate''"
proof -
  have "trim '' npm run migrate '' = ''npm run migrate''" by code_simp
  then show ?thesis
    using release_config_validation [of sample_config App] sample_config_ok
    by (auto simp: normalizeServiceReleaseConfig_def sample_config_def)
qed

text \<open>How a finished attempt is classified.\<close>

lemma classifyReleaseJobExit_success_iff:
  "classifyReleaseJobExit code s f t stopped = Success \<longleftrightarrow>
     code = 0 \<and> classifyReleaseJobExit code s f t stopped \<noteq> Unsuccess TimedOutRun"
  by (auto simp: classifyReleaseJobExit_def exit_outcome_def split: option.splits)

lemma classifyReleaseJobExit_timestamps:
  assumes "readTimestampMs s = Some a" and "readTimestampMs f = Some b"
  shows "classifyReleaseJobExit code s f t True = classifyReleaseJobExit code s f t False"
  using assms by (simp add: classifyReleaseJobExit_def)

lemma decideVerificationConsequence_RollBack_iff:
  "decideVerificationConsequence outcome policy available = RollBack \<longleftrightarrow>
     outcome \<in> {Unsuccess FailedRun, Unsuccess TimedOutRun} \<and> policy = Rollback \<and> available"
proof (cases outcome)
  case (Unsuccess f)
  then show ?thesis by (cases f; cases policy) (auto simp: decideVerificationConsequence_def)
qed (simp add: decideVerificationConsequence_def)

text \<open>The blocker that is shown.\<close>

lemma select_by_order_Some:
  "select_by_order order bs = Some b \<Longrightarrow>
     b \<in> set bs \<and> (\<exists>pre post. order = pre @ bl_reason b # post \<and> (\<forall>c \<in> set bs. bl_reason c \<notin> set pre))"
proof (induction order)
  case (Cons r order)
  show ?case
  proof (cases "find (\<lambda>c. bl_reason c = r) bs")
    case None
    then have none: "\<forall>c \<in> set bs. bl_reason c \<noteq> r" by (auto simp: find_None_iff)
    from Cons None obtain pre post where "b \<in> set bs" "order = pre @ bl_reason b # post"
      "\<forall>c \<in> set bs. bl_reason c \<notin> set pre" by auto
    with none show ?thesis by (intro conjI exI [of _ "r # pre"] exI [of _ post]) auto
  next
    case (Some c)
    with Cons.prems have "b = c" by simp
    with Some have "b \<in> set bs" "bl_reason b = r" by (auto simp: find_Some_iff)
    then show ?thesis by (intro conjI exI [of _ "[]"] exI [of _ order]) auto
  qed
qed simp

lemma select_by_order_None:
  "select_by_order order bs = None \<longleftrightarrow> (\<forall>b \<in> set bs. bl_reason b \<notin> set order)"
  by (induction order) (auto simp: find_None_iff find_Some_iff split: option.splits)

lemma all_reasons_ordered: "reason \<in> set blocker_order"
  by (cases reason) (simp_all add: blocker_order_def)

end
