(* ===== verification/Release_Ledger.thy ===== *)
theory Release_Ledger
  imports Release_Phases
begin

text \<open>
  One release job over time, as the control plane's decisions of \<open>release-phases.ts\<close> drive it. An
  operation is a claim by a lease, a report, an operator's resolution, or the end of the deployment's
  work while an attempt still runs. The store commits what the decision says: a claim's transition
  together with the claiming lease (\<open>ReleaseJobRecordState.claimedLeaseId\<close>: "the lease whose claim
  started the current attempt"), a recorded report's outcome, a resolution's next status.

  The locale \<open>job_ledger\<close> states what a client of such a store relies on; its lemmas are the safety
  of the protocol, proved from the laws alone. The interpretation discharges the laws for the
  decisions of the code.
\<close>

section \<open>The ledger of the code's decisions\<close>

datatype job_op =
    ClaimOp string
  | ReportOp nat job_outcome
  | ResolveOp job_resolution
  | InterruptOp

definition ledger_claim :: "job_record \<Rightarrow> string \<Rightarrow> claim_response \<times> job_record" where
  "ledger_claim r lease =
     (let (response, transition) = decideReleaseJobClaim r lease
      in (response, case transition of
            None \<Rightarrow> r
          | Some attempt \<Rightarrow> r\<lparr>jr_status := JobRunning, jr_attempt := attempt,
              jr_statusMessage := None, jr_claimedLeaseId := Some lease\<rparr>))"

definition ledger_report :: "job_record \<Rightarrow> nat \<Rightarrow> job_outcome \<Rightarrow> report_decision \<times> job_record" where
  "ledger_report r attempt outcome =
     (let decision = decideReleaseJobReport r attempt outcome
      in (decision, if decision = Record then r\<lparr>jr_status := outcome_status outcome\<rparr> else r))"

definition ledger_resolve ::
    "release_phase \<Rightarrow> job_record \<Rightarrow> job_resolution \<Rightarrow> resolution_decision \<times> job_record" where
  "ledger_resolve phase r resolution =
     (let decision = decideReleaseJobResolution phase (jr_status r) resolution
      in (decision, case decision of ResolveTo s \<Rightarrow> r\<lparr>jr_status := s\<rparr> | Refuse _ \<Rightarrow> r))"

definition ledger_interrupt :: "release_phase \<Rightarrow> job_record \<Rightarrow> job_record" where
  "ledger_interrupt phase r =
     (if jr_status r = JobRunning
      then r\<lparr>jr_status := OutcomeUnknown,
             jr_statusMessage := Some (describeInterruptedReleaseJob phase (jr_attempt r))\<rparr>
      else r)"

text \<open>
  The run answers a store hands out over a list of operations, each as the lease and the attempt it
  was given. The store's operations are arguments.
\<close>

fun handed_out ::
    "('s \<Rightarrow> string \<Rightarrow> claim_response \<times> 's) \<Rightarrow> ('s \<Rightarrow> job_op \<Rightarrow> 's) \<Rightarrow> 's \<Rightarrow> job_op list \<Rightarrow> (string \<times> nat) list" where
  "handed_out claim other s [] = []"
| "handed_out claim other s (ClaimOp lease # ops) =
     (case claim s lease of
        (RunClaim n, s') \<Rightarrow> (lease, n) # handed_out claim other s' ops
      | (_, s') \<Rightarrow> handed_out claim other s' ops)"
| "handed_out claim other s (op # ops) = handed_out claim other (other s op) ops"

fun ledger_other :: "release_phase \<Rightarrow> job_record \<Rightarrow> job_op \<Rightarrow> job_record" where
  "ledger_other phase r (ReportOp n outcome) = snd (ledger_report r n outcome)"
| "ledger_other phase r (ResolveOp res) = snd (ledger_resolve phase r res)"
| "ledger_other phase r InterruptOp = ledger_interrupt phase r"
| "ledger_other phase r (ClaimOp _) = r"

definition ledger_runs :: "release_phase \<Rightarrow> job_record \<Rightarrow> job_op list \<Rightarrow> (string \<times> nat) list" where
  "ledger_runs phase = handed_out ledger_claim (ledger_other phase)"

definition ledger_step :: "release_phase \<Rightarrow> job_record \<Rightarrow> job_op \<Rightarrow> job_record" where
  "ledger_step phase r op =
     (case op of ClaimOp lease \<Rightarrow> snd (ledger_claim r lease) | _ \<Rightarrow> ledger_other phase r op)"

section \<open>The interface, and what follows from it\<close>

locale job_ledger =
  fixes claim :: "'s \<Rightarrow> string \<Rightarrow> claim_response \<times> 's"
    and other :: "'s \<Rightarrow> job_op \<Rightarrow> 's"
    and status :: "'s \<Rightarrow> job_status"
    and attempt :: "'s \<Rightarrow> nat"
    and owner :: "'s \<Rightarrow> string option"
    and reopens :: "job_op \<Rightarrow> bool"
  assumes claim_run: "claim s l = (RunClaim n, s') \<Longrightarrow>
      (status s = Pending \<and> n = Suc (attempt s) \<or> status s = JobRunning \<and> n = attempt s \<and> owner s = Some l)
      \<and> status s' = JobRunning \<and> attempt s' = n \<and> owner s' = Some l"
    and claim_other: "claim s l = (resp, s') \<Longrightarrow> (\<forall>n. resp \<noteq> RunClaim n) \<Longrightarrow> s' = s"
    and other_attempt: "attempt (other s op) = attempt s"
    and other_owner: "owner (other s op) = owner s"
    and other_running: "status (other s op) = JobRunning \<Longrightarrow> status s = JobRunning"
    and other_succeeded: "status s = Succeeded \<Longrightarrow> status (other s op) = Succeeded"
    and other_pending: "status (other s op) = Pending \<Longrightarrow> status s = Pending \<or> reopens op"
begin

text \<open>Attempts only move forward, and an attempt at or below the current one is never handed to a new lease.\<close>

lemma handed_out_ClaimOp:
  assumes "(l, n) \<in> set (handed_out claim other s (ClaimOp lease # ops))"
  obtains (run) s' where "claim s lease = (RunClaim n, s')" and "l = lease"
  | (later) s' where "(l, n) \<in> set (handed_out claim other s' ops)"
      and "s' = s \<or> (\<exists>m. claim s lease = (RunClaim m, s'))"
proof -
  obtain resp s' where c: "claim s lease = (resp, s')" by force
  show ?thesis
  proof (cases "\<exists>m. resp = RunClaim m")
    case True
    then obtain m where "resp = RunClaim m" by blast
    with assms c show ?thesis using run later by simp blast
  next
    case False
    then have "s' = s" using claim_other [OF c] by blast
    with False c assms show ?thesis using later by (cases resp) simp_all
  qed
qed

lemma handed_out_bounds:
  "(l, n) \<in> set (handed_out claim other s ops) \<Longrightarrow>
     n > attempt s \<or> n = attempt s \<and> owner s = Some l \<and> status s = JobRunning"
proof (induction ops arbitrary: s)
  case (Cons op ops)
  show ?case
  proof (cases op)
    case (ClaimOp lease)
    from Cons.prems [unfolded ClaimOp] show ?thesis
    proof (cases rule: handed_out_ClaimOp)
      case (run s')
      then show ?thesis using claim_run by fastforce
    next
      case (later s')
      from later(2) show ?thesis
      proof
        assume "s' = s"
        with Cons.IH [OF later(1)] show ?thesis by simp
      next
        assume "\<exists>m. claim s lease = (RunClaim m, s')"
        then obtain m where "claim s lease = (RunClaim m, s')" ..
        from Cons.IH [OF later(1)] claim_run [OF this] show ?thesis by auto
      qed
    qed
  next
    case ReportOp
    with Cons.prems have "(l, n) \<in> set (handed_out claim other (other s op) ops)" by simp
    from Cons.IH [OF this] show ?thesis by (auto simp: other_attempt other_owner dest: other_running)
  next
    case ResolveOp
    with Cons.prems have "(l, n) \<in> set (handed_out claim other (other s op) ops)" by simp
    from Cons.IH [OF this] show ?thesis by (auto simp: other_attempt other_owner dest: other_running)
  next
    case InterruptOp
    with Cons.prems have "(l, n) \<in> set (handed_out claim other (other s op) ops)" by simp
    from Cons.IH [OF this] show ?thesis by (auto simp: other_attempt other_owner dest: other_running)
  qed
qed simp

text \<open>Every run answer of one attempt goes to one lease.\<close>

lemma attempt_has_one_lease:
  "(l, n) \<in> set (handed_out claim other s ops) \<Longrightarrow> (l', n) \<in> set (handed_out claim other s ops) \<Longrightarrow> l = l'"
proof (induction ops arbitrary: s)
  case (Cons op ops)
  show ?case
  proof (cases op)
    case (ClaimOp lease)
    have first: "k = lease" if "claim s lease = (RunClaim n, s')"
      and "(k, n) \<in> set (handed_out claim other s' ops)" for k s'
      using claim_run [OF that(1)] handed_out_bounds [OF that(2)] by auto
    obtain resp s' where c: "claim s lease = (resp, s')" by force
    show ?thesis
    proof (cases resp)
      case (RunClaim m)
      from Cons.prems ClaimOp c RunClaim
      consider "l = lease" "l' = lease"
        | "m = n" "l = lease" "(l', n) \<in> set (handed_out claim other s' ops)"
        | "m = n" "l' = lease" "(l, n) \<in> set (handed_out claim other s' ops)"
        | "(l, n) \<in> set (handed_out claim other s' ops)" "(l', n) \<in> set (handed_out claim other s' ops)"
        by auto
      then show ?thesis using first [of s'] c RunClaim Cons.IH by cases auto
    qed (use Cons ClaimOp c in auto)
  qed (use Cons in auto)
qed simp

text \<open>A job that is neither pending nor running is only handed out again after a reopening.\<close>

lemma halted_needs_reopening:
  "status s \<noteq> Pending \<Longrightarrow> status s \<noteq> JobRunning \<Longrightarrow> \<forall>op \<in> set ops. \<not> reopens op \<Longrightarrow>
     handed_out claim other s ops = []"
proof (induction ops arbitrary: s)
  case (Cons op ops)
  show ?case
  proof (cases op)
    case (ClaimOp lease)
    obtain resp s' where c: "claim s lease = (resp, s')" by force
    with claim_run Cons.prems have none: "\<forall>n. resp \<noteq> RunClaim n" by metis
    with claim_other [OF c] Cons c ClaimOp show ?thesis by (cases resp) auto
  next
    case ReportOp
    with Cons.prems have "status (other s op) \<noteq> Pending" "status (other s op) \<noteq> JobRunning"
      using other_running other_pending by auto
    with Cons ReportOp show ?thesis by simp
  next
    case ResolveOp
    with Cons.prems have "status (other s op) \<noteq> Pending" "status (other s op) \<noteq> JobRunning"
      using other_running other_pending by auto
    with Cons ResolveOp show ?thesis by simp
  next
    case InterruptOp
    with Cons.prems have "status (other s op) \<noteq> Pending" "status (other s op) \<noteq> JobRunning"
      using other_running other_pending by auto
    with Cons InterruptOp show ?thesis by simp
  qed
qed simp

text \<open>A success is final: nothing is handed out after it, retries included.\<close>

lemma success_is_final: "status s = Succeeded \<Longrightarrow> handed_out claim other s ops = []"
proof (induction ops arbitrary: s)
  case (Cons op ops)
  show ?case
  proof (cases op)
    case (ClaimOp lease)
    obtain resp s' where c: "claim s lease = (resp, s')" by force
    with claim_run Cons.prems have none: "\<forall>n. resp \<noteq> RunClaim n" by fastforce
    with claim_other [OF c] Cons c ClaimOp show ?thesis by (cases resp) auto
  qed (use Cons other_succeeded in auto)
qed simp

text \<open>How many attempts there can be: the ones the state still owes, and one per reopening.\<close>

definition owed :: "'s \<Rightarrow> nat" where
  "owed s = (if status s = Pending then 1 else 0)"

lemma owed_other: "owed (other s op) \<le> owed s + (if reopens op then 1 else 0)"
  using other_pending [of s op] by (auto simp: owed_def)

lemma attempt_bound:
  "(l, n) \<in> set (handed_out claim other s ops) \<Longrightarrow>
     n \<le> attempt s + owed s + length (filter reopens ops)"
proof (induction ops arbitrary: s)
  case (Cons op ops)
  show ?case
  proof (cases "\<exists>lease. op = ClaimOp lease")
    case True
    then obtain lease where ClaimOp: "op = ClaimOp lease" ..
    obtain resp s' where c: "claim s lease = (resp, s')" by force
    show ?thesis
    proof (cases resp)
      case (RunClaim m)
      then have "attempt s' + owed s' = m" "m \<le> attempt s + owed s"
        using claim_run [OF c [unfolded RunClaim]] by (auto simp: owed_def)
      moreover have "n = m \<or> (l, n) \<in> set (handed_out claim other s' ops)"
        using Cons.prems ClaimOp c RunClaim by auto
      ultimately show ?thesis using Cons.IH [of s'] by (auto intro: le_trans)
    qed (use Cons ClaimOp c claim_other [OF c] in \<open>force+\<close>)
  next
    case False
    with Cons.prems have "(l, n) \<in> set (handed_out claim other (other s op) ops)" by (cases op) auto
    from Cons.IH [OF this] owed_other [of s op] show ?thesis
      by (auto simp: other_attempt split: if_splits)
  qed
qed simp

end

section \<open>The code's decisions satisfy the interface\<close>

definition job_reopens :: "release_phase \<Rightarrow> job_op \<Rightarrow> bool" where
  "job_reopens phase op \<longleftrightarrow> phase = PreActivation \<and> op = ResolveOp Retry"

lemma outcome_status_not [simp]:
  "outcome_status o1 \<noteq> Pending" "outcome_status o1 \<noteq> JobRunning"
  by (cases o1; (cases "case o1 of Unsuccess f \<Rightarrow> f"; simp))+

lemma ledger_claim_run:
  "ledger_claim r l = (RunClaim n, r') \<Longrightarrow>
    (jr_status r = Pending \<and> n = Suc (jr_attempt r) \<or> jr_status r = JobRunning \<and> n = jr_attempt r \<and> jr_claimedLeaseId r = Some l)
    \<and> jr_status r' = JobRunning \<and> jr_attempt r' = n \<and> jr_claimedLeaseId r' = Some l"
  by (auto simp: ledger_claim_def decideReleaseJobClaim_def halt_response_def Let_def
      split: job_status.splits if_splits)

interpretation ledger: job_ledger ledger_claim "ledger_other phase" jr_status jr_attempt
    jr_claimedLeaseId "job_reopens phase" for phase
proof (unfold_locales, goal_cases)
  case (2 s l resp s')
  then show ?case
    by (auto simp: ledger_claim_def decideReleaseJobClaim_def halt_response_def Let_def
        split: job_status.splits if_splits)
next
  case (3 s op)
  then show ?case
    by (cases op) (auto simp: ledger_report_def ledger_resolve_def ledger_interrupt_def Let_def split: resolution_decision.splits)
next
  case (4 s op)
  then show ?case
    by (cases op) (auto simp: ledger_report_def ledger_resolve_def ledger_interrupt_def Let_def split: resolution_decision.splits)
next
  case (5 s op)
  then show ?case
    by (cases op) (auto simp: ledger_report_def ledger_resolve_def ledger_interrupt_def
        decideReleaseJobResolution_def Let_def split: resolution_decision.splits if_splits)
next
  case (6 s op)
  then show ?case
    by (cases op) (auto simp: ledger_report_def ledger_resolve_def ledger_interrupt_def decideReleaseJobReport_def
        decideReleaseJobResolution_def Let_def split: resolution_decision.splits if_splits)
next
  case (7 s op)
  then show ?case
    by (cases op) (auto simp: ledger_report_def ledger_resolve_def ledger_interrupt_def job_reopens_def
        decideReleaseJobResolution_def Let_def split: resolution_decision.splits if_splits)
qed (rule ledger_claim_run)

section \<open>Properties of the ledger\<close>

text \<open>C2 A started attempt is handed to one lease only: over any sequence of claims, reports, operator
  resolutions and interruptions, two claims answered \<open>run\<close> for the same attempt came from the same
  lease, so only a re-delivered answer can repeat it and no second worker is told to run it.\<close>

theorem release_attempt_has_one_lease:
  assumes "(l, n) \<in> set (ledger_runs phase r ops)" and "(l', n) \<in> set (ledger_runs phase r ops)"
  shows "l = l'"
  using assms unfolding ledger_runs_def by (rule ledger.attempt_has_one_lease)

text \<open>The history of a job that fails, is claimed by two leases, is retried and succeeds.\<close>

definition sample_job :: job_record where
  "sample_job = \<lparr>jr_status = Pending, jr_attempt = 0, jr_statusMessage = None, jr_claimedLeaseId = None\<rparr>"

definition sample_history :: "job_op list" where
  "sample_history =
     [ClaimOp ''a'', ClaimOp ''b'', ClaimOp ''a'', ReportOp 1 (Unsuccess FailedRun), ClaimOp ''b'',
      ResolveOp Retry, ClaimOp ''b'', InterruptOp, ResolveOp MarkSucceeded, ClaimOp ''c'']"

lemma sample_runs:
  "ledger_runs PreActivation sample_job sample_history = [(''a'', 1), (''a'', 1), (''b'', 2)]"
  by code_simp

lemma sample_verification_runs:
  "ledger_runs Verification sample_job sample_history = [(''a'', 1), (''a'', 1)]"
  by code_simp

lemma release_attempt_has_one_lease_witness:
  "(''a'', 1) \<in> set (ledger_runs PreActivation sample_job sample_history) \<and> ''a'' = ''a''"
  using release_attempt_has_one_lease [of "''a''" 1 PreActivation sample_job sample_history "''a''"]
  by (simp add: sample_runs)

text \<open>C3 The attempts a job can reach are counted by its operator: an attempt that is handed out is at most
  the recorded one, plus one if the job is pending, plus one per operator retry of a pre-activation
  job. A verification has no retry, so it never runs a second attempt.\<close>

theorem release_attempts_bounded:
  assumes "(l, n) \<in> set (ledger_runs phase r ops)"
  shows "n \<le> jr_attempt r + (if jr_status r = Pending then 1 else 0)
             + length (filter (job_reopens phase) ops)
         \<and> (phase = Verification \<longrightarrow> n \<le> jr_attempt r + 1)"
  using ledger.attempt_bound [OF assms [unfolded ledger_runs_def]]
  by (auto simp: ledger.owed_def job_reopens_def split: if_splits)

lemma release_attempts_bounded_witness:
  "(2::nat) \<le> 0 + 1 + length (filter (job_reopens PreActivation) sample_history) \<and>
   ledger_runs Verification sample_job sample_history = [(''a'', 1), (''a'', 1)] \<and> (1::nat) \<le> 0 + 1"
  using release_attempts_bounded [of "''b''" 2 PreActivation sample_job sample_history]
    release_attempts_bounded [of "''a''" 1 Verification sample_job sample_history]
  by (simp add: sample_runs sample_verification_runs) (simp add: sample_job_def)

text \<open>C4 A job that failed, timed out or lost its outcome is not run again until an operator retries it, and
  a job that succeeded is never run again, whatever is claimed, reported or resolved afterwards.\<close>

theorem ended_job_not_rerun:
  assumes "jr_status r \<notin> {Pending, JobRunning}"
    and "jr_status r = Succeeded \<or> (\<forall>op \<in> set ops. \<not> job_reopens phase op)"
  shows "ledger_runs phase r ops = []"
  using assms(2) unfolding ledger_runs_def
proof
  assume "jr_status r = Succeeded"
  then show "handed_out ledger_claim (ledger_other phase) r ops = []" by (rule ledger.success_is_final)
next
  assume "\<forall>op \<in> set ops. \<not> job_reopens phase op"
  with assms(1) show "handed_out ledger_claim (ledger_other phase) r ops = []"
    by (intro ledger.halted_needs_reopening) auto
qed

lemma ended_job_not_rerun_witness:
  "ledger_runs PreActivation (sample_job\<lparr>jr_status := Succeeded\<rparr>) sample_history = []"
  by (rule ended_job_not_rerun) (simp_all add: sample_job_def)

lemma outcome_status_inject [simp]: "outcome_status a = outcome_status b \<longleftrightarrow> a = b"
proof -
  have "failure_status f = failure_status g \<longleftrightarrow> f = g" for f g by (cases f; cases g) simp_all
  moreover have "failure_status f \<noteq> Succeeded" for f by (cases f) simp_all
  ultimately show ?thesis by (cases a; cases b) (auto dest: sym)
qed

text \<open>The first report of an attempt decides it: once it is recorded, the same outcome is answered
  \<open>duplicate\<close> and leaves the record alone, and every other outcome of that attempt is rejected.\<close>

theorem first_report_wins:
  assumes "ledger_report r n first = (Record, r')"
  shows "ledger_report r' n first = (Duplicate, r')
    \<and> (second \<noteq> first \<longrightarrow> (\<exists>m. ledger_report r' n second = (Reject m, r')))"
  using assms by (auto simp: ledger_report_def decideReleaseJobReport_def Let_def split: if_splits)

lemma first_report_wins_witness:
  "\<exists>m. ledger_report (sample_job\<lparr>jr_status := Failed, jr_attempt := 1\<rparr>) 1 Success
     = (Reject m, sample_job\<lparr>jr_status := Failed, jr_attempt := 1\<rparr>)"
  using first_report_wins [of "sample_job\<lparr>jr_status := JobRunning, jr_attempt := 1\<rparr>" 1 "Unsuccess FailedRun"
      "sample_job\<lparr>jr_status := Failed, jr_attempt := 1\<rparr>" Success]
  by (simp add: ledger_report_def decideReleaseJobReport_def Let_def sample_job_def)

end
