(* ===== verification/Docker_Types.thy ===== *)
theory Docker_Types
  imports Prelude
begin

text \<open>
  The Docker API client as the components use it (\<open>agent/src/docker-api.ts\<close>): what an inspection
  of a container returns, the specification a container is created from, and the operations. The
  daemon behind the client is not part of the repository, so the operations are the fields of a
  record the modelled functions take as an argument, exactly as the sources take \<open>docker\<close>: a
  theorem holds for every behaviour of the daemon, errors included.

  \<open>traced_by emb\<close> is a client that also logs the calls made on it. It is used to state in which order, and
  whether, a function makes its calls.
\<close>

section \<open>Inspections\<close>

text \<open>
  Optional fields are \<^typ>\<open>_ option\<close>. Docker declares the numeric ones as integers, so the run-time
  tests \<open>typeof x === "number" \<and> Number.isFinite(x)\<close> hold of a value that is present;
  \<^const>\<open>None\<close> also stands for a field of another type.
\<close>

record container_state =
  cs_Running :: "bool option"
  cs_Status :: "string option"
  cs_ExitCode :: "int option"
  cs_OOMKilled :: "bool option"
  cs_StartedAt :: "string option"
  cs_FinishedAt :: "string option"
  cs_Health :: "string option option"

record inspection =
  ci_Id :: string
  ci_Name :: string
  ci_RestartCount :: "int option"
  ci_State :: "container_state option"
  ci_Memory :: "int option"
  ci_MemorySwap :: "int option"
  ci_PortKeys :: "string list"
  ci_Image :: "string option"
  ci_Cmd :: "string list option"
  ci_Env :: "string list option"
  ci_Labels :: "(string \<times> string) list option"
  ci_StopSignal :: "string option"
  ci_Networks :: "(string \<times> string option) list option"
  ci_HostMountTypes :: "string option list"

definition no_state :: container_state where
  "no_state = \<lparr>cs_Running = None, cs_Status = None, cs_ExitCode = None, cs_OOMKilled = None,
     cs_StartedAt = None, cs_FinishedAt = None, cs_Health = None\<rparr>"

definition bare_inspection :: "string \<Rightarrow> inspection" where
  "bare_inspection i = \<lparr>ci_Id = i, ci_Name = i, ci_RestartCount = None, ci_State = None,
     ci_Memory = None, ci_MemorySwap = None, ci_PortKeys = [], ci_Image = None, ci_Cmd = None,
     ci_Env = None, ci_Labels = None, ci_StopSignal = None, ci_Networks = None,
     ci_HostMountTypes = []\<rparr>"

text \<open>\<open>inspection.Config?.Labels?.[key]\<close>.\<close>

definition label_of :: "inspection \<Rightarrow> string \<Rightarrow> string option" where
  "label_of i k = (case ci_Labels i of None \<Rightarrow> None | Some ls \<Rightarrow> map_of ls k)"

text \<open>\<open>inspection.State?.field\<close> for a field of the state.\<close>

definition state_of :: "(container_state \<Rightarrow> 'a option) \<Rightarrow> inspection \<Rightarrow> 'a option" where
  "state_of f i = Option.bind (ci_State i) f"

lemma state_of_simps [simp]:
  "ci_State i = None \<Longrightarrow> state_of f i = None"
  "ci_State i = Some s \<Longrightarrow> state_of f i = f s"
  by (auto simp: state_of_def)

section \<open>Container specifications\<close>

record container_file =
  cf_path :: string
  cf_content :: string
  cf_mode :: int
  cf_uid :: int
  cf_gid :: int

record container_spec =
  sp_name :: string
  sp_image :: string
  sp_env :: "string list"
  sp_entrypoint :: "string list"
  sp_cmd :: "string list"
  sp_labels :: "(string \<times> string) list"
  sp_hostConfig :: "(string \<times> json) list"
  sp_networks :: "string list"

section \<open>The client\<close>

text \<open>
  The list operations answer inspections, as \<open>listContainersByLabels\<close> does;
  \<open>listManagedContainers\<close> answers the shorter records of \<open>/containers/json\<close>.
\<close>

record managed_container =
  mc_Id :: string
  mc_Names :: "string list option"
  mc_State :: "string option"
  mc_Labels :: "(string \<times> string) list option"

record log_entry =
  le_type :: string
  le_line :: string

record 'w docker =
  inspectContainer :: "string \<Rightarrow> ('w, inspection option) io"
  listContainersByLabels :: "(string \<times> string) list \<Rightarrow> ('w, inspection list) io"
  listManagedContainers :: "('w, managed_container list) io"
  countContainerExits :: "string \<Rightarrow> int \<Rightarrow> int \<Rightarrow> ('w, int) io"
  containerLogs :: "string \<Rightarrow> ('w, string) io"
  containerLogEntries :: "string \<Rightarrow> int \<Rightarrow> ('w, log_entry list) io"
  createContainer :: "container_spec \<Rightarrow> ('w, string) io"
  startContainer :: "string \<Rightarrow> ('w, unit) io"
  waitContainer :: "string \<Rightarrow> int \<Rightarrow> ('w, int) io"
  stopContainer :: "string \<Rightarrow> int \<Rightarrow> ('w, unit) io"
  killContainer :: "string \<Rightarrow> string \<Rightarrow> ('w, bool) io"
  removeContainer :: "string \<Rightarrow> bool \<Rightarrow> ('w, unit) io"
  updateContainerRestartPolicy :: "string \<Rightarrow> string \<Rightarrow> ('w, unit) io"
  inspectVolume :: "string \<Rightarrow> ('w, bool) io"
  createVolume :: "string \<Rightarrow> (string \<times> string) list \<Rightarrow> ('w, unit) io"
  removeVolume :: "string \<Rightarrow> bool \<Rightarrow> ('w, unit) io"

text \<open>
  A clock, injected as \<open>{ now, wait }\<close>, \<open>{ now, sleep }\<close> or as two arguments. Reading it may find that
  time has passed.
\<close>

record 'w clock =
  now :: "'w \<Rightarrow> int \<times> 'w"
  wait :: "int \<Rightarrow> ('w, unit) io"

definition io_now :: "'w clock \<Rightarrow> ('w, int) io" where
  "io_now c = (\<lambda>w. Some (Inr (fst (now c w)), snd (now c w)))"

text \<open>
  What is assumed of a clock and of an operation where a claim is that a loop ends: \<open>time\<close> reads the
  time of a world, the clock reads it, waiting lets at least that much pass, and a call comes back.
\<close>

definition clock_advances :: "('w \<Rightarrow> int) \<Rightarrow> 'w clock \<Rightarrow> bool" where
  "clock_advances time c \<longleftrightarrow>
     (\<forall>w. fst (now c w) = time w \<and> time w \<le> time (snd (now c w))) \<and>
     (\<forall>ms w. \<exists>w'. wait c ms w = Some (Inr (), w') \<and> time w' \<ge> time w + max 0 ms)"

definition settles :: "('w \<Rightarrow> int) \<Rightarrow> ('w, 'a) io \<Rightarrow> bool" where
  "settles time m \<longleftrightarrow> (\<forall>w. \<exists>r w'. m w = Some (r, w') \<and> time w \<le> time w')"

lemma settlesD: "settles time m \<Longrightarrow> \<exists>r w'. m w = Some (r, w') \<and> time w \<le> time w'"
  by (simp add: settles_def)

lemma io_now_advances:
  assumes "clock_advances time c"
  obtains w' where "io_now c w = Some (Inr (time w), w')" and "time w \<le> time w'"
proof -
  from assms have "fst (now c w) = time w" "time w \<le> time (snd (now c w))"
    by (auto simp: clock_advances_def)
  then show ?thesis by (intro that [of "snd (now c w)"]) (simp_all add: io_now_def)
qed

lemma wait_advances:
  assumes "clock_advances time c"
  obtains w' where "wait c ms w = Some (Inr (), w')" and "time w' \<ge> time w + max 0 ms"
  using assms unfolding clock_advances_def by blast

text \<open>A clock that only moves when waited on: the world is the time.\<close>

definition int_clock :: "int clock" where
  "int_clock = \<lparr>now = (\<lambda>t. (t, t)), wait = (\<lambda>ms t. Some (Inr (), t + max 0 ms))\<rparr>"

lemma int_clock_advances: "clock_advances (\<lambda>t. t) int_clock"
  by (simp add: clock_advances_def int_clock_def)

section \<open>Logging the calls\<close>

datatype docker_call =
    Inspect string
  | ListByLabels "(string \<times> string) list"
  | ListManaged
  | CountExits string int int
  | Logs string
  | LogEntries string
  | Create container_spec
  | Start string
  | WaitExit string int
  | Stop string int
  | Kill string string
  | Remove string bool
  | UpdatePolicy string string
  | InspectVolume string
  | CreateVolume string
  | RemoveVolume string

text \<open>The calls that only read.\<close>

fun reads_only :: "docker_call \<Rightarrow> bool" where
  "reads_only (Inspect _) = True"
| "reads_only (ListByLabels _) = True"
| "reads_only ListManaged = True"
| "reads_only (CountExits _ _ _) = True"
| "reads_only (Logs _) = True"
| "reads_only (LogEntries _) = True"
| "reads_only (WaitExit _ _) = True"
| "reads_only (InspectVolume _) = True"
| "reads_only _ = False"

definition log_call :: "'c \<Rightarrow> ('w, 'a) io \<Rightarrow> ('w \<times> 'c list, 'a) io" where
  "log_call c m = (\<lambda>(w, l). map_option (\<lambda>(r, w'). (r, (w', l @ [c]))) (m w))"

definition unlogged :: "('w, 'a) io \<Rightarrow> ('w \<times> 'c list, 'a) io" where
  "unlogged m = (\<lambda>(w, l). map_option (\<lambda>(r, w'). (r, (w', l))) (m w))"

definition traced_by :: "(docker_call \<Rightarrow> 'c) \<Rightarrow> 'w docker \<Rightarrow> ('w \<times> 'c list) docker" where
  "traced_by emb d = \<lparr>
     inspectContainer = (\<lambda>i. log_call (emb (Inspect i)) (inspectContainer d i)),
     listContainersByLabels = (\<lambda>ls. log_call (emb (ListByLabels ls)) (listContainersByLabels d ls)),
     listManagedContainers = log_call (emb ListManaged) (listManagedContainers d),
     countContainerExits = (\<lambda>i a b. log_call (emb (CountExits i a b)) (countContainerExits d i a b)),
     containerLogs = (\<lambda>i. log_call (emb (Logs i)) (containerLogs d i)),
     containerLogEntries = (\<lambda>i n. log_call (emb (LogEntries i)) (containerLogEntries d i n)),
     createContainer = (\<lambda>s. log_call (emb (Create s)) (createContainer d s)),
     startContainer = (\<lambda>i. log_call (emb (Start i)) (startContainer d i)),
     waitContainer = (\<lambda>i n. log_call (emb (WaitExit i n)) (waitContainer d i n)),
     stopContainer = (\<lambda>i n. log_call (emb (Stop i n)) (stopContainer d i n)),
     killContainer = (\<lambda>i s. log_call (emb (Kill i s)) (killContainer d i s)),
     removeContainer = (\<lambda>i b. log_call (emb (Remove i b)) (removeContainer d i b)),
     updateContainerRestartPolicy =
       (\<lambda>i p. log_call (emb (UpdatePolicy i p)) (updateContainerRestartPolicy d i p)),
     inspectVolume = (\<lambda>v. log_call (emb (InspectVolume v)) (inspectVolume d v)),
     createVolume = (\<lambda>v ls. log_call (emb (CreateVolume v)) (createVolume d v ls)),
     removeVolume = (\<lambda>v b. log_call (emb (RemoveVolume v)) (removeVolume d v b))\<rparr>"

abbreviation traced :: "'w docker \<Rightarrow> ('w \<times> docker_call list) docker" where
  "traced \<equiv> traced_by (\<lambda>c. c)"

definition traced_clock :: "'w clock \<Rightarrow> ('w \<times> 'c list) clock" where
  "traced_clock c = \<lparr>now = (\<lambda>(w, l). let (t, w') = now c w in (t, (w', l))),
     wait = (\<lambda>ms. unlogged (wait c ms))\<rparr>"

lemma traced_simps [simp]:
  "inspectContainer (traced_by emb d) i = log_call (emb (Inspect i)) (inspectContainer d i)"
  "listContainersByLabels (traced_by emb d) ls = log_call (emb (ListByLabels ls)) (listContainersByLabels d ls)"
  "listManagedContainers (traced_by emb d) = log_call (emb ListManaged) (listManagedContainers d)"
  "countContainerExits (traced_by emb d) i t0 t1 = log_call (emb (CountExits i t0 t1)) (countContainerExits d i t0 t1)"
  "containerLogs (traced_by emb d) i = log_call (emb (Logs i)) (containerLogs d i)"
  "containerLogEntries (traced_by emb d) i n = log_call (emb (LogEntries i)) (containerLogEntries d i n)"
  "createContainer (traced_by emb d) s = log_call (emb (Create s)) (createContainer d s)"
  "startContainer (traced_by emb d) i = log_call (emb (Start i)) (startContainer d i)"
  "waitContainer (traced_by emb d) i n = log_call (emb (WaitExit i n)) (waitContainer d i n)"
  "stopContainer (traced_by emb d) i n = log_call (emb (Stop i n)) (stopContainer d i n)"
  "killContainer (traced_by emb d) i sg = log_call (emb (Kill i sg)) (killContainer d i sg)"
  "removeContainer (traced_by emb d) i b = log_call (emb (Remove i b)) (removeContainer d i b)"
  "updateContainerRestartPolicy (traced_by emb d) i p = log_call (emb (UpdatePolicy i p)) (updateContainerRestartPolicy d i p)"
  "inspectVolume (traced_by emb d) v = log_call (emb (InspectVolume v)) (inspectVolume d v)"
  "createVolume (traced_by emb d) v ls = log_call (emb (CreateVolume v)) (createVolume d v ls)"
  "removeVolume (traced_by emb d) v b = log_call (emb (RemoveVolume v)) (removeVolume d v b)"
  by (simp_all add: traced_by_def)

lemma log_call_Some_iff [simp]:
  "log_call c m (w, l) = Some (r, s) \<longleftrightarrow> (\<exists>w'. m w = Some (r, w') \<and> s = (w', l @ [c]))"
  by (auto simp: log_call_def)

lemma unlogged_Some_iff [simp]:
  "unlogged m (w, l) = Some (r, s) \<longleftrightarrow> (\<exists>w'. m w = Some (r, w') \<and> s = (w', l))"
  by (auto simp: unlogged_def)

lemma traced_clock_simps [simp]:
  "wait (traced_clock c) ms = unlogged (wait c ms)"
  "io_now (traced_clock c) = unlogged (io_now c)"
  by (auto simp: traced_clock_def io_now_def unlogged_def fun_eq_iff split: prod.splits)

section \<open>Effects that extend a log\<close>

text \<open>
  \<open>logs P m\<close>: whatever \<open>m\<close> does, it only appends to the log, and what it appends satisfies \<open>P\<close>.
  The rules follow the combinators, so that the log of a function is computed from its text.
\<close>

definition logs :: "('c list \<Rightarrow> bool) \<Rightarrow> ('w \<times> 'c list, 'a) io \<Rightarrow> bool" where
  "logs P m \<longleftrightarrow> (\<forall>w l r w' l'. m (w, l) = Some (r, (w', l')) \<longrightarrow> (\<exists>k. l' = l @ k \<and> P k))"

lemma logsI:
  "(\<And>w l r w' l'. m (w, l) = Some (r, (w', l')) \<Longrightarrow> \<exists>k. l' = l @ k \<and> P k) \<Longrightarrow> logs P m"
  by (auto simp: logs_def)

lemma logsD: "logs P m \<Longrightarrow> m (w, l) = Some (r, (w', l')) \<Longrightarrow> \<exists>k. l' = l @ k \<and> P k"
  by (auto simp: logs_def)

text \<open>Every call of a function satisfies a predicate.\<close>

abbreviation logs_all :: "('c \<Rightarrow> bool) \<Rightarrow> ('w \<times> 'c list, 'a) io \<Rightarrow> bool" where
  "logs_all p m \<equiv> logs (list_all p) m"

named_theorems logs_rules

lemma logs_all_return [logs_rules]: "logs_all p (io_return x)"
  by (rule logsI) auto

lemma logs_all_throw [logs_rules]: "logs_all p (io_throw e)"
  by (rule logsI) auto

lemma logs_all_call [logs_rules]: "p c \<Longrightarrow> logs_all p (log_call c m)"
  by (rule logsI) auto

lemma logs_all_unlogged [logs_rules]: "logs_all p (unlogged m)"
  by (rule logsI) auto

lemma logs_all_bind [logs_rules]:
  assumes "logs_all p m" and "\<And>x. logs_all p (f x)"
  shows "logs_all p (io_bind m f)"
proof (rule logsI)
  fix w l r w' l'
  assume "io_bind m f (w, l) = Some (r, (w', l'))"
  then consider (err) e where "m (w, l) = Some (Inl e, (w', l'))"
    | (ok) x w1 l1 where "m (w, l) = Some (Inr x, (w1, l1))" and "f x (w1, l1) = Some (r, (w', l'))"
    by (auto simp: io_bind_Some_iff)
  then show "\<exists>k. l' = l @ k \<and> list_all p k"
  proof cases
    case err
    then show ?thesis by (rule logsD [OF assms(1)])
  next
    case ok
    from logsD [OF assms(1) ok(1)] obtain k1 where "l1 = l @ k1" "list_all p k1" by blast
    moreover from logsD [OF assms(2) ok(2)] obtain k2 where "l' = l1 @ k2" "list_all p k2" by blast
    ultimately show ?thesis by (intro exI [of _ "k1 @ k2"]) simp
  qed
qed

lemma logs_all_catch [logs_rules]:
  assumes "logs_all p m" and "\<And>e. logs_all p (h e)"
  shows "logs_all p (io_catch m h)"
proof (rule logsI)
  fix w l r w' l'
  assume "io_catch m h (w, l) = Some (r, (w', l'))"
  then consider (ok) x where "m (w, l) = Some (Inr x, (w', l'))"
    | (err) e w1 l1 where "m (w, l) = Some (Inl e, (w1, l1))" and "h e (w1, l1) = Some (r, (w', l'))"
    by (auto simp: io_catch_Some_iff)
  then show "\<exists>k. l' = l @ k \<and> list_all p k"
  proof cases
    case ok
    then show ?thesis by (rule logsD [OF assms(1)])
  next
    case err
    from logsD [OF assms(1) err(1)] obtain k1 where "l1 = l @ k1" "list_all p k1" by blast
    moreover from logsD [OF assms(2) err(2)] obtain k2 where "l' = l1 @ k2" "list_all p k2" by blast
    ultimately show ?thesis by (intro exI [of _ "k1 @ k2"]) simp
  qed
qed

lemma logs_all_for [logs_rules]: "(\<And>x. x \<in> set xs \<Longrightarrow> logs_all p (f x)) \<Longrightarrow> logs_all p (io_for xs f)"
  by (induction xs) (auto intro!: logs_all_bind logs_all_return)

lemma logs_all_if [logs_rules]:
  "(c \<Longrightarrow> logs_all p m) \<Longrightarrow> (\<not> c \<Longrightarrow> logs_all p n) \<Longrightarrow> logs_all p (if c then m else n)"
  by simp

lemma logs_all_option [logs_rules]:
  "(v = None \<Longrightarrow> logs_all p m) \<Longrightarrow> (\<And>x. v = Some x \<Longrightarrow> logs_all p (f x)) \<Longrightarrow>
   logs_all p (case v of None \<Rightarrow> m | Some x \<Rightarrow> f x)"
  by (cases v) auto

lemma logs_all_try [logs_rules]: "logs_all p m \<Longrightarrow> logs_all p (io_try m)"
  by (rule logsI) (auto dest: logsD)

lemma logs_all_loop [logs_rules]:
  assumes "\<And>s. logs_all p (body s)"
  shows "logs_all p (io_loop body s)"
proof (rule logsI)
  fix w l r w' l'
  assume "io_loop body s (w, l) = Some (r, (w', l'))"
  then have "\<exists>k. snd (w', l') = l @ k \<and> list_all p k"
    by (rule io_loop_partial [where I = "\<lambda>s wl. \<exists>k. snd wl = l @ k \<and> list_all p k"])
      (fastforce dest!: logsD [OF assms])+
  then show "\<exists>k. l' = l @ k \<and> list_all p k" by simp
qed

lemma logs_all_mono: "logs_all p m \<Longrightarrow> (\<And>c. p c \<Longrightarrow> q c) \<Longrightarrow> logs_all q m"
  unfolding logs_def by (metis list.pred_mono_strong)

end
