(* ===== verification/Monitors.thy ===== *)
theory Monitors
  imports Docker_Types
begin

text \<open>
  Claims about the order of calls. A monitor is an automaton over the calls a function makes,
  \<^const>\<open>None\<close> being a call that is not allowed in the current state. \<open>obeys mon s m Q\<close>: started in state
  \<open>s\<close>, every call of \<open>m\<close> is allowed, and \<open>Q\<close> holds of how \<open>m\<close> ends and of the state it leaves. The
  rules follow the combinators, as those of \<^const>\<open>logs\<close> do.
\<close>

section \<open>Events that carry the answer\<close>

definition log_result :: "(js_error + 'a \<Rightarrow> 'c) \<Rightarrow> ('w, 'a) io \<Rightarrow> ('w \<times> 'c list, 'a) io" where
  "log_result f m = (\<lambda>(w, l). map_option (\<lambda>(r, w'). (r, (w', l @ [f r]))) (m w))"

lemma log_result_Some_iff [simp]:
  "log_result f m (w, l) = Some (r, s) \<longleftrightarrow> (\<exists>w'. m w = Some (r, w') \<and> s = (w', l @ [f r]))"
  by (auto simp: log_result_def)

lemma logs_all_result [logs_rules]: "(\<And>r. p (f r)) \<Longrightarrow> logs_all p (log_result f m)"
  by (rule logsI) auto

section \<open>Monitors\<close>

type_synonym ('s, 'c) monitor = "'s \<Rightarrow> 'c \<Rightarrow> 's option"

fun run_monitor :: "('s, 'c) monitor \<Rightarrow> 's \<Rightarrow> 'c list \<Rightarrow> 's option" where
  "run_monitor mon s [] = Some s"
| "run_monitor mon s (c # k) = (case mon s c of None \<Rightarrow> None | Some s' \<Rightarrow> run_monitor mon s' k)"

lemma run_monitor_append:
  "run_monitor mon s (k1 @ k2) = Option.bind (run_monitor mon s k1) (\<lambda>s'. run_monitor mon s' k2)"
  by (induction k1 arbitrary: s) (auto split: option.splits)

lemma run_monitor_neutral: "list_all (\<lambda>c. mon s c = Some s) k \<Longrightarrow> run_monitor mon s k = Some s"
  by (induction k) auto

text \<open>The calls a monitor does not mind in a state it never leaves are invisible to it.\<close>

definition obeys ::
    "('s, 'c) monitor \<Rightarrow> 's \<Rightarrow> ('w \<times> 'c list, 'a) io \<Rightarrow> (js_error + 'a \<Rightarrow> 's \<Rightarrow> bool) \<Rightarrow> bool" where
  "obeys mon s m Q \<longleftrightarrow> (\<forall>w l r w' l'. m (w, l) = Some (r, (w', l')) \<longrightarrow>
     (\<exists>k s'. l' = l @ k \<and> run_monitor mon s k = Some s' \<and> Q r s'))"

lemma obeysI:
  "(\<And>w l r w' l'. m (w, l) = Some (r, (w', l')) \<Longrightarrow>
     \<exists>k s'. l' = l @ k \<and> run_monitor mon s k = Some s' \<and> Q r s') \<Longrightarrow> obeys mon s m Q"
  by (auto simp: obeys_def)

lemma obeysD:
  assumes "obeys mon s m Q" and "m (w, l) = Some (r, (w', l'))"
  obtains k s' where "l' = l @ k" and "run_monitor mon s k = Some s'" and "Q r s'"
  using assms unfolding obeys_def by blast

lemma obeys_conseq:
  "obeys mon s m Q \<Longrightarrow> (\<And>r s'. Q r s' \<Longrightarrow> R r s') \<Longrightarrow> obeys mon s m R"
  unfolding obeys_def by blast

lemma obeys_return: "Q (Inr x) s \<Longrightarrow> obeys mon s (io_return x) Q"
  by (rule obeysI) auto

lemma obeys_throw: "Q (Inl e) s \<Longrightarrow> obeys mon s (io_throw e) Q"
  by (rule obeysI) auto

lemma obeys_unlogged: "(\<And>r. Q r s) \<Longrightarrow> obeys mon s (unlogged m) Q"
  by (rule obeysI) auto

lemma obeys_result: "(\<And>r. \<exists>s'. mon s (f r) = Some s' \<and> Q r s') \<Longrightarrow> obeys mon s (log_result f m) Q"
proof (rule obeysI)
  fix w l r w' l'
  assume ok: "\<And>r. \<exists>s'. mon s (f r) = Some s' \<and> Q r s'"
    and run: "log_result f m (w, l) = Some (r, (w', l'))"
  from ok [of r] obtain s' where "mon s (f r) = Some s'" "Q r s'" by blast
  with run show "\<exists>k s'. l' = l @ k \<and> run_monitor mon s k = Some s' \<and> Q r s'"
    by (intro exI [of _ "[f r]"] exI [of _ s']) auto
qed

lemma obeys_call: "mon s c = Some s' \<Longrightarrow> (\<And>r. Q r s') \<Longrightarrow> obeys mon s (log_call c m) Q"
  by (rule obeysI) (auto intro!: exI [of _ "[c]"])

lemma obeys_bind:
  assumes m: "obeys mon s m P"
    and f: "\<And>x s'. P (Inr x) s' \<Longrightarrow> obeys mon s' (f x) Q"
    and e: "\<And>e s'. P (Inl e) s' \<Longrightarrow> Q (Inl e) s'"
  shows "obeys mon s (io_bind m f) Q"
proof (rule obeysI)
  fix w l r w' l'
  assume "io_bind m f (w, l) = Some (r, (w', l'))"
  then consider (err) e where "m (w, l) = Some (Inl e, (w', l'))" "r = Inl e"
    | (ok) x w1 l1 where "m (w, l) = Some (Inr x, (w1, l1))" and "f x (w1, l1) = Some (r, (w', l'))"
    by (auto simp: io_bind_Some_iff)
  then show "\<exists>k s'. l' = l @ k \<and> run_monitor mon s k = Some s' \<and> Q r s'"
  proof cases
    case err
    with e show ?thesis by (auto elim!: obeysD [OF m])
  next
    case ok
    from ok(1) obtain k1 s1 where 1: "l1 = l @ k1" "run_monitor mon s k1 = Some s1" "P (Inr x) s1"
      by (rule obeysD [OF m])
    from ok(2) obtain k2 s2 where 2: "l' = l1 @ k2" "run_monitor mon s1 k2 = Some s2" "Q r s2"
      by (rule obeysD [OF f [OF 1(3)]])
    from 1 2 show ?thesis by (intro exI [of _ "k1 @ k2"] exI [of _ s2]) (simp add: run_monitor_append)
  qed
qed

lemma obeys_bind_result:
  assumes "\<And>r. \<exists>s'. mon s (f r) = Some s' \<and> (case r of Inl e \<Rightarrow> Q (Inl e) s' | Inr x \<Rightarrow> obeys mon s' (g x) Q)"
  shows "obeys mon s (io_bind (log_result f m) g) Q"
proof (rule obeys_bind [where P = "\<lambda>r s'. case r of Inl e \<Rightarrow> Q (Inl e) s' | Inr x \<Rightarrow> obeys mon s' (g x) Q"])
  show "obeys mon s (log_result f m) (\<lambda>r s'. case r of Inl e \<Rightarrow> Q (Inl e) s' | Inr x \<Rightarrow> obeys mon s' (g x) Q)"
    using assms by (rule obeys_result)
qed simp_all

lemma obeys_bind_call:
  assumes "mon s c = Some s'" and "\<And>e. Q (Inl e) s'" and "\<And>x. obeys mon s' (g x) Q"
  shows "obeys mon s (io_bind (log_call c m) g) Q"
  by (rule obeys_bind [where P = "\<lambda>r t. t = s'"]) (use assms in \<open>auto intro: obeys_call\<close>)

lemma obeys_catch:
  assumes m: "obeys mon s m P"
    and h: "\<And>e s'. P (Inl e) s' \<Longrightarrow> obeys mon s' (h e) Q"
    and x: "\<And>x s'. P (Inr x) s' \<Longrightarrow> Q (Inr x) s'"
  shows "obeys mon s (io_catch m h) Q"
proof (rule obeysI)
  fix w l r w' l'
  assume "io_catch m h (w, l) = Some (r, (w', l'))"
  then consider (ok) x where "m (w, l) = Some (Inr x, (w', l'))" "r = Inr x"
    | (err) e w1 l1 where "m (w, l) = Some (Inl e, (w1, l1))" and "h e (w1, l1) = Some (r, (w', l'))"
    by (auto simp: io_catch_Some_iff)
  then show "\<exists>k s'. l' = l @ k \<and> run_monitor mon s k = Some s' \<and> Q r s'"
  proof cases
    case ok
    with x show ?thesis by (auto elim!: obeysD [OF m])
  next
    case err
    from err(1) obtain k1 s1 where 1: "l1 = l @ k1" "run_monitor mon s k1 = Some s1" "P (Inl e) s1"
      by (rule obeysD [OF m])
    from err(2) obtain k2 s2 where 2: "l' = l1 @ k2" "run_monitor mon s1 k2 = Some s2" "Q r s2"
      by (rule obeysD [OF h [OF 1(3)]])
    from 1 2 show ?thesis by (intro exI [of _ "k1 @ k2"] exI [of _ s2]) (simp add: run_monitor_append)
  qed
qed

lemma obeys_finally:
  assumes "obeys mon s m P" and "\<And>r s'. P r s' \<Longrightarrow> obeys mon s' g (\<lambda>q s''. case q of Inl e \<Rightarrow> Q (Inl e) s'' | Inr _ \<Rightarrow> Q r s'')"
  shows "obeys mon s (io_finally m g) Q"
proof (rule obeysI)
  fix w l r w' l'
  assume "io_finally m g (w, l) = Some (r, (w', l'))"
  then obtain r1 w1 l1 q where m: "m (w, l) = Some (r1, (w1, l1))" and g: "g (w1, l1) = Some (q, (w', l'))"
    and r: "r = (case q of Inl e \<Rightarrow> Inl e | Inr _ \<Rightarrow> r1)"
    by (auto simp: io_finally_def split: Option.bind_splits sum.splits)
  from m obtain k1 s1 where 1: "l1 = l @ k1" "run_monitor mon s k1 = Some s1" "P r1 s1" by (rule obeysD [OF assms(1)])
  from g obtain k2 s2 where 2: "l' = l1 @ k2" "run_monitor mon s1 k2 = Some s2"
    "case q of Inl e \<Rightarrow> Q (Inl e) s2 | Inr _ \<Rightarrow> Q r1 s2" by (rule obeysD [OF assms(2) [OF 1(3)]])
  from 1 2 r show "\<exists>k s'. l' = l @ k \<and> run_monitor mon s k = Some s' \<and> Q r s'"
    by (intro exI [of _ "k1 @ k2"] exI [of _ s2]) (auto simp: run_monitor_append split: sum.splits)
qed

lemma obeys_try:
  assumes "obeys mon s m P" and "\<And>r s'. P r s' \<Longrightarrow> Q (Inr r) s'"
  shows "obeys mon s (io_try m) Q"
proof (rule obeysI)
  fix w l r w' l'
  assume "io_try m (w, l) = Some (r, (w', l'))"
  then obtain s1 where m: "m (w, l) = Some (s1, (w', l'))" and r: "r = Inr s1" by auto
  from m obtain k s' where "l' = l @ k" "run_monitor mon s k = Some s'" "P s1 s'"
    by (rule obeysD [OF assms(1)])
  with assms(2) r show "\<exists>k s'. l' = l @ k \<and> run_monitor mon s k = Some s' \<and> Q r s'" by blast
qed

text \<open>A loop keeps an invariant of the state.\<close>

lemma obeys_for:
  assumes "I s" and "\<And>x s. x \<in> set xs \<Longrightarrow> I s \<Longrightarrow> obeys mon s (f x) (\<lambda>r s'. I s')"
  shows "obeys mon s (io_for xs f) (\<lambda>r s'. I s')"
  using assms
proof (induction xs arbitrary: s)
  case Nil
  then show ?case by (auto intro: obeys_return)
next
  case (Cons x xs)
  show ?case unfolding io_for.simps
    by (rule obeys_bind [where P = "\<lambda>r s'. I s'"]) (use Cons in auto)
qed

lemma obeys_loop:
  fixes body :: "'s \<Rightarrow> ('w \<times> 'c list, 's + 'a) io"
  assumes "I s m"
    and round: "\<And>s m. I s m \<Longrightarrow> obeys mon m (body s)
      (\<lambda>r m'. case r of Inl e \<Rightarrow> Q (Inl e) m' | Inr (Inl s') \<Rightarrow> I s' m' | Inr (Inr x) \<Rightarrow> Q (Inr x) m')"
  shows "obeys mon m (io_loop body s) Q"
proof (rule obeysI)
  fix w l r w' l'
  let ?J = "\<lambda>s (wl :: 'w \<times> 'c list). \<exists>k m'. snd wl = l @ k \<and> run_monitor mon m k = Some m' \<and> I s m'"
  have step: "\<exists>k m''. l2 = l @ k \<and> run_monitor mon m k = Some m'' \<and>
        (case r of Inl e \<Rightarrow> Q (Inl e) m'' | Inr (Inl s') \<Rightarrow> I s' m'' | Inr (Inr x) \<Rightarrow> Q (Inr x) m'')"
    if J: "?J s wl" and b: "body s wl = Some (r, (w2, l2))" for s wl r w2 l2
  proof -
    obtain w1 l1 where wl: "wl = (w1, l1)" by (cases wl)
    with J obtain k m' where k: "l1 = l @ k" "run_monitor mon m k = Some m'" "I s m'" by auto
    from b obtain k2 m2 where "l2 = l1 @ k2" "run_monitor mon m' k2 = Some m2"
      "case r of Inl e \<Rightarrow> Q (Inl e) m2 | Inr (Inl s') \<Rightarrow> I s' m2 | Inr (Inr x) \<Rightarrow> Q (Inr x) m2"
      unfolding wl by (rule obeysD [OF round [OF k(3)]])
    with k show ?thesis
      by (intro exI [of _ "k @ k2"] exI [of _ m2]) (simp add: run_monitor_append)
  qed
  assume "io_loop body s (w, l) = Some (r, (w', l'))"
  then have "\<exists>k m'. snd (w', l') = l @ k \<and> run_monitor mon m k = Some m' \<and> Q r m'"
  proof (rule io_loop_partial [where I = ?J and Q = "\<lambda>r (wl :: 'w \<times> 'c list). \<exists>k m'. snd wl = l @ k \<and> run_monitor mon m k = Some m' \<and> Q r m'"])
    show "?J s (w, l)" using assms(1) by auto
  next
    fix s s' and wl wl' :: "'w \<times> 'c list" assume "?J s wl" "body s wl = Some (Inr (Inl s'), wl')"
    with step [of wl s "Inr (Inl s')" "fst wl'" "snd wl'"] show "?J s' wl'" by simp
  next
    fix s x and wl wl' :: "'w \<times> 'c list" assume "?J s wl" "body s wl = Some (Inr (Inr x), wl')"
    with step [of wl s "Inr (Inr x)" "fst wl'" "snd wl'"]
    show "\<exists>k m'. snd wl' = l @ k \<and> run_monitor mon m k = Some m' \<and> Q (Inr x) m'" by simp
  next
    fix s e and wl wl' :: "'w \<times> 'c list" assume "?J s wl" "body s wl = Some (Inl e, wl')"
    with step [of wl s "Inl e" "fst wl'" "snd wl'"]
    show "\<exists>k m'. snd wl' = l @ k \<and> run_monitor mon m k = Some m' \<and> Q (Inl e) m'" by simp
  qed
  then show "\<exists>k m'. l' = l @ k \<and> run_monitor mon m k = Some m' \<and> Q r m'" by simp
qed

text \<open>Calls that the monitor ignores in the state \<open>s\<close>.\<close>

lemma obeys_neutral:
  assumes "logs_all (\<lambda>c. mon s c = Some s) m"
  shows "obeys mon s m (\<lambda>r s'. s' = s)"
proof (rule obeysI)
  fix w l r w' l'
  assume "m (w, l) = Some (r, (w', l'))"
  from logsD [OF assms this] obtain k where "l' = l @ k" "list_all (\<lambda>c. mon s c = Some s) k" by blast
  then show "\<exists>k s'. l' = l @ k \<and> run_monitor mon s k = Some s' \<and> s' = s"
    using run_monitor_neutral [of mon s k] by blast
qed

lemma obeys_final:
  assumes "obeys mon s m Q" and "m (w, []) = Some (r, (w', k))"
  shows "\<exists>s'. run_monitor mon s k = Some s' \<and> Q r s'"
proof -
  from assms(2) obtain k' s' where "k = [] @ k'" "run_monitor mon s k' = Some s'" "Q r s'"
    by (rule obeysD [OF assms(1)])
  then show ?thesis by auto
qed

end
