(* ===== verification/Release_Jobs.thy ===== *)
theory Release_Jobs
  imports Release_Phases Monitors
begin

text \<open>
  \<open>agent/src/release-jobs.ts\<close>: one release phase of a deployment, run in a one-off container under a
  claim. The dependencies of \<open>createReleasePhaseRunner\<close> (Docker, the control plane, the clock, the
  build log) are a record of operations over an arbitrary world; every function of the closure is a
  definition with that record as its first argument. \<open>console.warn\<close> is not modelled.
\<close>

section \<open>The types of the module\<close>

record release_report =
  rr_attempt :: nat
  rr_outcome :: job_outcome
  rr_exitCode :: "int option"
  rr_startedAt :: "string option"
  rr_finishedAt :: string
  rr_appliedPolicy :: "failure_policy option"

datatype build_log =
    ProgressLog string int string int
  | LineLog string string string int

record 'w release_deps =
  rd_docker :: "'w docker"
  rd_claim :: "release_phase \<Rightarrow> string list \<Rightarrow> ('w, claim_response) io"
  rd_report :: "release_phase \<Rightarrow> release_report \<Rightarrow> ('w, unit) io"
  rd_clock :: "'w clock"
  rd_log :: "(build_log \<Rightarrow> ('w, unit) io) option"

record 'w release_target =
  rt_serviceId :: string
  rt_deploymentId :: string
  rt_image :: string
  rt_networkName :: string
  rt_envVars :: "(string \<times> string) list"
  rt_labels :: "(string \<times> string) list"
  rt_resourceSettings :: "(string \<times> json) list"
  rt_redactLogLine :: "string \<Rightarrow> string"
  rt_prepareImage :: "('w, unit) io"

record 'w release_request =
  rq_phase :: release_phase
  rq_command :: string
  rq_timeoutSeconds :: int
  rq_phaseEnv :: "(string \<times> string) list"
  rq_resolveAppliedPolicy :: "(job_failure \<Rightarrow> ('w, failure_policy option) io) option"
  rq_configuredPolicy :: "failure_policy option"

datatype phase_result =
    PhaseSucceeded nat
  | PhaseUnsuccessful nat job_failure string "failure_policy option"

definition POLL_INTERVAL_MS :: int where "POLL_INTERVAL_MS = 1000"
definition STOP_GRACE_SECONDS :: int where "STOP_GRACE_SECONDS = 5"
definition LOG_TAIL_LINES :: int where "LOG_TAIL_LINES = 1000"
definition CONTROL_PLANE_RETRY_BUDGET_MS :: int where "CONTROL_PLANE_RETRY_BUDGET_MS = 120000"
definition CONTROL_PLANE_RETRY_INITIAL_DELAY_MS :: int where "CONTROL_PLANE_RETRY_INITIAL_DELAY_MS = 2000"
definition CONTROL_PLANE_RETRY_MAX_DELAY_MS :: int where "CONTROL_PLANE_RETRY_MAX_DELAY_MS = 30000"

fun PHASE_LABEL :: "release_phase \<Rightarrow> string" where
  "PHASE_LABEL PreActivation = ''pre-activation''"
| "PHASE_LABEL Verification = ''verification''"

fun phase_text :: "release_phase \<Rightarrow> string" where
  "phase_text PreActivation = ''pre_activation''"
| "phase_text Verification = ''verification''"

definition buildReleaseJobContainerName :: "string \<Rightarrow> string \<Rightarrow> release_phase \<Rightarrow> nat \<Rightarrow> string" where
  "buildReleaseJobContainerName serviceId deploymentId phase attempt =
     ''nouva-release-'' @ take 8 serviceId @ ''-'' @ take 8 deploymentId @ ''-''
       @ (if phase = PreActivation then ''pre'' else ''verify'') @ ''-'' @ show_nat attempt"

definition is_running :: "inspection \<Rightarrow> bool" where
  "is_running i \<longleftrightarrow> state_of cs_Running i = Some True \<or> state_of cs_Status i = Some ''running''
     \<or> state_of cs_Status i = Some ''restarting''"

fun observeContainer :: "inspection option \<Rightarrow> observation" where
  "observeContainer None = Missing"
| "observeContainer (Some i) =
     (if is_running i then StillRunning
      else if state_of cs_Status i = Some ''created'' then CreatedOnly
      else Exited (case state_of cs_ExitCode i of Some c \<Rightarrow> c | None \<Rightarrow> 1)
             (state_of cs_StartedAt i) (state_of cs_FinishedAt i))"

definition readStartedAtMs :: "inspection option \<Rightarrow> int option" where
  "readStartedAtMs inspection = readTimestampMs (Option.bind inspection (state_of cs_StartedAt))"

definition isRetryableControlPlaneError :: "js_error \<Rightarrow> bool" where
  "isRetryableControlPlaneError e \<longleftrightarrow> (case error_status e of None \<Rightarrow> True | Some s \<Rightarrow> s \<ge> 500)"

section \<open>Progress and clean-up\<close>

definition progress :: "'w release_deps \<Rightarrow> string \<Rightarrow> ('w, unit) io" where
  "progress deps message =
     (case rd_log deps of
        None \<Rightarrow> io_return ()
      | Some emit \<Rightarrow> io_bind (io_now (rd_clock deps)) (\<lambda>t. emit (ProgressLog ''deploying'' 90 message t)))"

definition removeSettledAttempts ::
    "'w release_deps \<Rightarrow> 'w release_target \<Rightarrow> release_phase \<Rightarrow> ('w, unit) io" where
  "removeSettledAttempts deps target phase =
     io_bind (listContainersByLabels (rd_docker deps)
         [(''nouva.kind'', ''release_job''), (''nouva.deployment.id'', rt_deploymentId target),
          (''nouva.release.phase'', phase_text phase)])
       (\<lambda>leftovers. io_for leftovers (\<lambda>c.
          if observeContainer (Some c) \<noteq> StillRunning
          then removeContainer (rd_docker deps) (ci_Id c) True else io_return ()))"

definition listServiceJobs :: "'w release_deps \<Rightarrow> string \<Rightarrow> ('w, inspection list) io" where
  "listServiceJobs deps serviceId =
     listContainersByLabels (rd_docker deps)
       [(''nouva.kind'', ''release_job''), (''nouva.service.id'', serviceId)]"

definition listOtherDeploymentsJobs ::
    "'w release_deps \<Rightarrow> 'w release_target \<Rightarrow> ('w, inspection list) io" where
  "listOtherDeploymentsJobs deps target =
     io_bind (listServiceJobs deps (rt_serviceId target))
       (\<lambda>cs. io_return (filter (\<lambda>c. label_of c ''nouva.deployment.id'' \<noteq> Some (rt_deploymentId target)) cs))"

definition removeOtherDeploymentsExitedJobs ::
    "'w release_deps \<Rightarrow> 'w release_target \<Rightarrow> release_phase \<Rightarrow> ('w, unit) io" where
  "removeOtherDeploymentsExitedJobs deps target phase =
     io_bind (listOtherDeploymentsJobs deps target)
       (\<lambda>cs. io_for cs (\<lambda>c.
          if phase = Verification \<and> label_of c ''nouva.release.phase'' \<noteq> Some ''verification''
          then io_return ()
          else if observeContainer (Some c) = StillRunning then io_return ()
          else removeContainer (rd_docker deps) (ci_Id c) True))"

definition discardUnreportedVerification :: "'w release_deps \<Rightarrow> string \<Rightarrow> ('w, unit) io" where
  "discardUnreportedVerification deps containerName =
     io_catch (removeContainer (rd_docker deps) containerName True) (\<lambda>_. io_return ())"

section \<open>The deployments a claim has to wait for\<close>

text \<open>The deadline its own runner gave a job, as its labels say it: \<open>Number(undefined)\<close> is \<open>NaN\<close>.\<close>

definition job_timeout :: "inspection \<Rightarrow> rat option" where
  "job_timeout c =
     (case label_of c ''nouva.release.timeout_seconds'' of
        None \<Rightarrow> None
      | Some s \<Rightarrow> (case js_number s of Fin q \<Rightarrow> if q > 0 then Some q else None | _ \<Rightarrow> None))"

definition add_running :: "inspection \<Rightarrow> string list \<Rightarrow> string list" where
  "add_running c running =
     (case label_of c ''nouva.deployment.id'' of
        None \<Rightarrow> running
      | Some d \<Rightarrow> if d = [] \<or> d \<in> set running then running else running @ [d])"

text \<open>Whether a job past its deadline could be stopped; one inside its deadline is left alone.\<close>

definition stop_if_overdue :: "'w release_deps \<Rightarrow> inspection \<Rightarrow> ('w, bool) io" where
  "stop_if_overdue deps c =
     (case (job_timeout c, readStartedAtMs (Some c)) of
        (Some timeoutSeconds, Some startedAtMs) \<Rightarrow>
          io_bind (io_now (rd_clock deps)) (\<lambda>t.
            if of_int t \<ge> of_int startedAtMs + timeoutSeconds * 1000 then
              io_bind (stopContainer (rd_docker deps) (ci_Id c) STOP_GRACE_SECONDS) (\<lambda>_.
              io_bind (inspectContainer (rd_docker deps) (ci_Id c)) (\<lambda>i.
              io_return (observeContainer i \<noteq> StillRunning)))
            else io_return False)
      | _ \<Rightarrow> io_return False)"

primrec running_jobs_loop ::
    "'w release_deps \<Rightarrow> string \<Rightarrow> release_phase \<Rightarrow> inspection list \<Rightarrow> string list \<Rightarrow> ('w, string list) io" where
  "running_jobs_loop deps deploymentId phase [] running = io_return running"
| "running_jobs_loop deps deploymentId phase (c # cs) running =
     (if observeContainer (Some c) \<noteq> StillRunning then running_jobs_loop deps deploymentId phase cs running
      else
        let own = label_of c ''nouva.deployment.id'' = Some deploymentId;
            ownPhase = (own \<and> label_of c ''nouva.release.phase'' = Some (phase_text phase))
        in if \<not> ownPhase \<and> own then running_jobs_loop deps deploymentId phase cs running
           else io_bind (stop_if_overdue deps c) (\<lambda>stopped.
             if stopped then running_jobs_loop deps deploymentId phase cs running
             else running_jobs_loop deps deploymentId phase cs (add_running c running)))"

definition readRunningJobs ::
    "'w release_deps \<Rightarrow> string \<Rightarrow> string \<Rightarrow> release_phase \<Rightarrow> ('w, string list) io" where
  "readRunningJobs deps serviceId deploymentId phase =
     io_bind (listServiceJobs deps serviceId)
       (\<lambda>cs. running_jobs_loop deps deploymentId phase cs [])"

section \<open>One attempt\<close>

definition job_env :: "'w release_target \<Rightarrow> 'w release_request \<Rightarrow> (string \<times> string) list" where
  "job_env target request =
     obj_spread (obj_spread (obj_spread [] (rt_envVars target)) (rq_phaseEnv request))
       [(''NOUVA_RELEASE_PHASE'', phase_text (rq_phase request)),
        (''NOUVA_DEPLOYMENT_ID'', rt_deploymentId target)]"

definition job_spec ::
    "'w release_target \<Rightarrow> 'w release_request \<Rightarrow> string \<Rightarrow> nat \<Rightarrow> container_spec" where
  "job_spec target request containerName attempt = \<lparr>
     sp_name = containerName,
     sp_image = rt_image target,
     sp_env = map (\<lambda>(k, v). k @ ''='' @ v) (job_env target request),
     sp_entrypoint = [''/bin/sh'', ''-c''],
     sp_cmd = [rq_command request],
     sp_labels = obj_spread (obj_spread [] (rt_labels target))
       [(''nouva.kind'', ''release_job''), (''nouva.service.id'', rt_serviceId target),
        (''nouva.deployment.id'', rt_deploymentId target),
        (''nouva.release.phase'', phase_text (rq_phase request)),
        (''nouva.release.attempt'', show_nat attempt),
        (''nouva.release.timeout_seconds'', show_int (rq_timeoutSeconds request))],
     sp_hostConfig = obj_spread
       [(''AutoRemove'', JBool False), (''RestartPolicy'', JObj [(''Name'', JStr ''no'')])]
       (rt_resourceSettings target),
     sp_networks = [rt_networkName target]\<rparr>"

definition createJobContainer ::
    "'w release_deps \<Rightarrow> 'w release_target \<Rightarrow> 'w release_request \<Rightarrow> string \<Rightarrow> nat \<Rightarrow> ('w, unit) io" where
  "createJobContainer deps target request containerName attempt =
     io_bind (createContainer (rd_docker deps) (job_spec target request containerName attempt))
       (\<lambda>_. io_return ())"

definition awaitExit_round ::
    "'w release_deps \<Rightarrow> string \<Rightarrow> int \<Rightarrow> unit \<Rightarrow> ('w, unit + observation \<times> bool) io" where
  "awaitExit_round deps containerName deadlineMs = (\<lambda>_.
     io_bind (inspectContainer (rd_docker deps) containerName) (\<lambda>i.
     case observeContainer i of
       Exited c s f \<Rightarrow> io_return (Inr (Exited c s f, False))
     | Missing \<Rightarrow> io_return (Inr (Missing, False))
     | _ \<Rightarrow>
       io_bind (io_now (rd_clock deps)) (\<lambda>t.
         if t \<ge> deadlineMs then
           io_bind (stopContainer (rd_docker deps) containerName STOP_GRACE_SECONDS) (\<lambda>_.
           io_bind (inspectContainer (rd_docker deps) containerName) (\<lambda>i2.
           io_return (Inr (observeContainer i2, True))))
         else
           io_bind (io_now (rd_clock deps)) (\<lambda>t2.
           io_bind (wait (rd_clock deps) (min POLL_INTERVAL_MS (max 0 (deadlineMs - t2)))) (\<lambda>_.
           io_return (Inl ()))))))"

definition awaitExit :: "'w release_deps \<Rightarrow> string \<Rightarrow> int \<Rightarrow> ('w, observation \<times> bool) io" where
  "awaitExit deps containerName deadlineMs = io_loop (awaitExit_round deps containerName deadlineMs) ()"

definition shipLogs :: "'w release_deps \<Rightarrow> 'w release_target \<Rightarrow> release_phase \<Rightarrow> string \<Rightarrow> ('w, unit) io" where
  "shipLogs deps target phase containerName =
     (case rd_log deps of
        None \<Rightarrow> io_return ()
      | Some emit \<Rightarrow>
          io_catch
            (io_bind (containerLogEntries (rd_docker deps) containerName LOG_TAIL_LINES)
              (\<lambda>entries. io_for entries (\<lambda>e.
                 io_bind (io_now (rd_clock deps)) (\<lambda>t.
                   emit (LineLog (le_type e) ''deploying''
                     (''['' @ PHASE_LABEL phase @ ''] '' @ rt_redactLogLine target (le_line e)) t)))))
            (\<lambda>_. io_return ()))"

section \<open>Calls of the control plane\<close>

text \<open>One round of \<open>callControlPlane\<close>; the loop keeps \<open>delayMs\<close> and \<open>retried\<close>.\<close>

definition control_plane_round ::
    "'w clock \<Rightarrow> ('w, 'a) io \<Rightarrow> (js_error \<Rightarrow> bool \<Rightarrow> js_error) \<Rightarrow> int \<Rightarrow> int \<times> bool \<Rightarrow>
     ('w, (int \<times> bool) + 'a) io" where
  "control_plane_round clk call giveUp giveUpAtMs = (\<lambda>(delayMs, retried).
     io_bind (io_try call) (\<lambda>r. case r of
       Inr x \<Rightarrow> io_return (Inr x)
     | Inl e \<Rightarrow>
         if \<not> isRetryableControlPlaneError e then io_throw (giveUp e retried)
         else io_bind (io_now clk) (\<lambda>t.
           if t + delayMs > giveUpAtMs then io_throw (giveUp e retried)
           else io_bind (wait clk delayMs) (\<lambda>_.
             io_return (Inl (min (delayMs * 2) CONTROL_PLANE_RETRY_MAX_DELAY_MS, True))))))"

definition callControlPlane ::
    "'w clock \<Rightarrow> ('w, 'a) io \<Rightarrow> (js_error \<Rightarrow> bool \<Rightarrow> js_error) \<Rightarrow> ('w, 'a) io" where
  "callControlPlane clk call giveUp =
     io_bind (io_now clk) (\<lambda>t.
       io_loop (control_plane_round clk call giveUp (t + CONTROL_PLANE_RETRY_BUDGET_MS))
         (CONTROL_PLANE_RETRY_INITIAL_DELAY_MS, False))"

definition deferWhileUnreachable :: "release_phase \<Rightarrow> js_error \<Rightarrow> string \<Rightarrow> js_error" where
  "deferWhileUnreachable phase e action =
     (if phase = Verification \<or> \<not> isRetryableControlPlaneError e then e
      else ReleaseJobDeferredError (''Could not '' @ action @ '' the '' @ PHASE_LABEL phase
        @ '' job with the control plane; the deployment will pick it up again''))"

definition claim_give_up :: "release_phase \<Rightarrow> js_error \<Rightarrow> bool \<Rightarrow> js_error" where
  "claim_give_up phase e retried =
     (if retried \<and> error_status e = Some 409 then
        ReleaseJobDeferredError (''The control plane returned this deployment to the queue while claiming the ''
          @ PHASE_LABEL phase @ '' job'')
      else deferWhileUnreachable phase e ''claim'')"

definition claimPhase :: "'w release_deps \<Rightarrow> release_phase \<Rightarrow> string list \<Rightarrow> ('w, claim_response) io" where
  "claimPhase deps phase runningJobDeploymentIds =
     callControlPlane (rd_clock deps) (rd_claim deps phase runningJobDeploymentIds) (claim_give_up phase)"

definition reportOutcome :: "'w release_deps \<Rightarrow> release_phase \<Rightarrow> release_report \<Rightarrow> ('w, unit) io" where
  "reportOutcome deps phase report =
     callControlPlane (rd_clock deps) (rd_report deps phase report)
       (\<lambda>e _. deferWhileUnreachable phase e ''report the outcome of'')"

section \<open>Starting, resuming and reporting an attempt\<close>

text \<open>The result of \<open>startAttempt\<close>: started at a time, or not started, with the error.\<close>

definition startAttempt ::
    "'w release_deps \<Rightarrow> string \<Rightarrow> ('w, unit) io \<Rightarrow> ('w, js_error + int) io" where
  "startAttempt deps containerName start =
     io_catch
       (io_bind start (\<lambda>_. io_bind (io_now (rd_clock deps)) (\<lambda>t. io_return (Inr t))))
       (\<lambda>e. io_bind (io_catch (inspectContainer (rd_docker deps) containerName) (\<lambda>_. io_throw e))
         (\<lambda>i.
           let startedAtMs = readStartedAtMs i
           in if observeContainer i = StillRunning \<or> startedAtMs \<noteq> None then
                (case startedAtMs of
                   Some t \<Rightarrow> io_return (Inr t)
                 | None \<Rightarrow> io_bind (io_now (rd_clock deps)) (\<lambda>t. io_return (Inr t)))
              else io_return (Inl e)))"

record reported =
  rp_outcome :: job_outcome
  rp_exitCode :: "int option"
  rp_appliedPolicy :: "failure_policy option"
  rp_startFailure :: "string option"

text \<open>What the first half of \<open>attemptAndReport\<close> leaves for the second: no command ran, the container is
  to be awaited from a start time, or its end was already observed.\<close>

datatype attempt_state =
    NotStarted js_error
  | Await int
  | Ended observation

definition begin_attempt ::
    "'w release_deps \<Rightarrow> 'w release_target \<Rightarrow> 'w release_request \<Rightarrow> bool \<Rightarrow> nat \<Rightarrow> string \<Rightarrow>
     ('w, attempt_state) io" where
  "begin_attempt deps target request is_run attempt containerName =
     (let started = (\<lambda>start. io_bind (startAttempt deps containerName start) (\<lambda>r.
            io_return (case r of Inl e \<Rightarrow> NotStarted e | Inr t \<Rightarrow> Await t)))
      in if is_run then
        io_bind (progress deps (''Running the '' @ PHASE_LABEL (rq_phase request)
            @ '' job (attempt '' @ show_nat attempt @ '')'')) (\<lambda>_.
        started
          (io_bind (removeSettledAttempts deps target (rq_phase request)) (\<lambda>_.
           io_bind (createJobContainer deps target request containerName attempt) (\<lambda>_.
           startContainer (rd_docker deps) containerName))))
      else
        io_bind (inspectContainer (rd_docker deps) containerName) (\<lambda>i.
        io_bind (progress deps (''Resuming the '' @ PHASE_LABEL (rq_phase request)
            @ '' job (attempt '' @ show_nat attempt @ '')'')) (\<lambda>_.
        case decideReleaseJobRecovery (observeContainer i) (rq_timeoutSeconds request) of
          StartIt \<Rightarrow> started (startContainer (rd_docker deps) containerName)
        | WaitForIt \<Rightarrow>
            (case readStartedAtMs i of
               Some t \<Rightarrow> io_return (Await t)
             | None \<Rightarrow> io_bind (io_now (rd_clock deps)) (\<lambda>t. io_return (Await t)))
        | RecordIt _ _ \<Rightarrow> io_return (Ended (observeContainer i))
        | DeclareUnknown \<Rightarrow> io_return (Ended Missing))))"

definition report_not_started ::
    "'w release_deps \<Rightarrow> 'w release_request \<Rightarrow> nat \<Rightarrow> js_error \<Rightarrow> ('w, reported) io" where
  "report_not_started deps request attempt e =
     (let appliedPolicy = (if rq_phase request = Verification then Some Keep else None)
      in io_bind (io_now (rd_clock deps)) (\<lambda>t.
         io_bind (reportOutcome deps (rq_phase request)
           \<lparr>rr_attempt = attempt, rr_outcome = Unsuccess FailedRun, rr_exitCode = None, rr_startedAt = None,
            rr_finishedAt = to_iso_string t, rr_appliedPolicy = appliedPolicy\<rparr>) (\<lambda>_.
         io_return \<lparr>rp_outcome = Unsuccess FailedRun, rp_exitCode = None, rp_appliedPolicy = appliedPolicy,
            rp_startFailure = Some (error_text e)\<rparr>)))"

fun observed_outcome :: "observation \<Rightarrow> int \<Rightarrow> bool \<Rightarrow> job_outcome" where
  "observed_outcome (Exited code s f) timeoutSeconds stoppedByDeadline =
     classifyReleaseJobExit code s f timeoutSeconds stoppedByDeadline"
| "observed_outcome _ timeoutSeconds stoppedByDeadline = Unsuccess UnknownRun"

fun observed_code :: "observation \<Rightarrow> int option" where
  "observed_code (Exited code s f) = Some code"
| "observed_code _ = None"

text \<open>\<open>observation.startedAt ? observation.startedAt : null\<close>.\<close>

fun observed_start :: "observation \<Rightarrow> string option" where
  "observed_start (Exited code (Some s) f) = (if s = [] then None else Some s)"
| "observed_start _ = None"

definition applied_policy :: "'w release_request \<Rightarrow> job_outcome \<Rightarrow> ('w, failure_policy option) io" where
  "applied_policy request outcome =
     (case (outcome, rq_resolveAppliedPolicy request) of
        (Unsuccess f, Some resolve) \<Rightarrow> resolve f
      | _ \<Rightarrow> io_return None)"

definition report_ended ::
    "'w release_deps \<Rightarrow> 'w release_target \<Rightarrow> 'w release_request \<Rightarrow> nat \<Rightarrow> string \<Rightarrow> observation \<times> bool \<Rightarrow>
     ('w, reported) io" where
  "report_ended deps target request attempt containerName exit =
     (let observation = fst exit;
          outcome = observed_outcome observation (rq_timeoutSeconds request) (snd exit);
          exitCode = observed_code observation
      in io_bind (if exitCode \<noteq> None then shipLogs deps target (rq_phase request) containerName else io_return ()) (\<lambda>_.
         io_bind (applied_policy request outcome) (\<lambda>appliedPolicy.
         io_bind (io_now (rd_clock deps)) (\<lambda>t.
         io_bind (reportOutcome deps (rq_phase request)
           \<lparr>rr_attempt = attempt, rr_outcome = outcome, rr_exitCode = exitCode,
            rr_startedAt = observed_start observation, rr_finishedAt = to_iso_string t,
            rr_appliedPolicy = appliedPolicy\<rparr>) (\<lambda>_.
         io_return \<lparr>rp_outcome = outcome, rp_exitCode = exitCode, rp_appliedPolicy = appliedPolicy,
            rp_startFailure = None\<rparr>)))))"

definition attemptAndReport ::
    "'w release_deps \<Rightarrow> 'w release_target \<Rightarrow> 'w release_request \<Rightarrow> bool \<Rightarrow> nat \<Rightarrow> string \<Rightarrow>
     ('w, reported) io" where
  "attemptAndReport deps target request is_run attempt containerName =
     io_bind (begin_attempt deps target request is_run attempt containerName) (\<lambda>st.
       case st of
         NotStarted e \<Rightarrow> report_not_started deps request attempt e
       | Await startedAtMs \<Rightarrow>
           io_bind (awaitExit deps containerName (startedAtMs + rq_timeoutSeconds request * 1000))
             (report_ended deps target request attempt containerName)
       | Ended observation \<Rightarrow>
           report_ended deps target request attempt containerName (observation, False))"

section \<open>The runner\<close>

definition run_attempt ::
    "'w release_deps \<Rightarrow> 'w release_target \<Rightarrow> 'w release_request \<Rightarrow> bool \<Rightarrow> nat \<Rightarrow> string \<Rightarrow>
     ('w, reported) io" where
  "run_attempt deps target request is_run attempt containerName =
     io_bind (io_catch (attemptAndReport deps target request is_run attempt containerName)
         (\<lambda>e. io_bind (if rq_phase request = Verification
                       then discardUnreportedVerification deps containerName else io_return ())
               (\<lambda>_. io_throw e))) (\<lambda>rep.
     io_bind (io_catch (removeContainer (rd_docker deps) containerName True) (\<lambda>_. io_return ())) (\<lambda>_.
     io_return rep))"

definition finish_attempt ::
    "'w release_deps \<Rightarrow> 'w release_target \<Rightarrow> 'w release_request \<Rightarrow> nat \<Rightarrow> reported \<Rightarrow> ('w, phase_result) io" where
  "finish_attempt deps target request attempt rep =
     (case rp_outcome rep of
        Success \<Rightarrow>
          io_bind (progress deps (''The '' @ PHASE_LABEL (rq_phase request) @ '' job succeeded''))
            (\<lambda>_. io_return (PhaseSucceeded attempt))
      | Unsuccess f \<Rightarrow>
          (let base = (case describeReportedReleaseJob (rq_phase request) (rp_outcome rep) attempt
                  (rp_exitCode rep) (rq_timeoutSeconds request) (rq_configuredPolicy request) (rp_appliedPolicy rep) of
                Some m \<Rightarrow> m
              | None \<Rightarrow> describeReleaseJobOutcome (rq_phase request) f attempt (rp_exitCode rep) (rq_timeoutSeconds request));
               described = (case rp_startFailure rep of
                 Some (c # m) \<Rightarrow> base @ '' Start error: '' @ rt_redactLogLine target (c # m)
               | _ \<Rightarrow> base)
           in io_bind (progress deps described)
             (\<lambda>_. io_return (PhaseUnsuccessful attempt f described (rp_appliedPolicy rep)))))"

definition attempt_phase ::
    "'w release_deps \<Rightarrow> 'w release_target \<Rightarrow> 'w release_request \<Rightarrow> bool \<Rightarrow> nat \<Rightarrow> ('w, phase_result) io" where
  "attempt_phase deps target request is_run attempt =
     (let containerName = buildReleaseJobContainerName (rt_serviceId target) (rt_deploymentId target)
            (rq_phase request) attempt
      in io_bind (if is_run then removeOtherDeploymentsExitedJobs deps target (rq_phase request) else io_return ()) (\<lambda>_.
         io_bind (run_attempt deps target request is_run attempt containerName)
           (finish_attempt deps target request attempt)))"

definition runReleasePhase ::
    "'w release_deps \<Rightarrow> 'w release_target \<Rightarrow> 'w release_request \<Rightarrow> ('w, phase_result) io" where
  "runReleasePhase deps target request =
     io_bind (rt_prepareImage target) (\<lambda>_.
     io_bind (readRunningJobs deps (rt_serviceId target) (rt_deploymentId target) (rq_phase request)) (\<lambda>running.
     io_bind (claimPhase deps (rq_phase request) running) (\<lambda>claim.
       case claim of
         WaitClaim attempt message \<Rightarrow>
           io_bind (progress deps message) (\<lambda>_. io_throw (ReleaseJobDeferredError message))
       | SkipClaim attempt \<Rightarrow>
           io_bind (removeSettledAttempts deps target (rq_phase request)) (\<lambda>_.
           io_bind (progress deps (''The '' @ PHASE_LABEL (rq_phase request)
              @ '' job already succeeded; not running it again'')) (\<lambda>_.
           io_return (PhaseSucceeded attempt)))
       | HaltClaim attempt status message \<Rightarrow>
           io_bind (removeSettledAttempts deps target (rq_phase request)) (\<lambda>_.
           io_return (PhaseUnsuccessful attempt status message None))
       | RunClaim attempt \<Rightarrow> attempt_phase deps target request True attempt
       | ResumeClaim attempt \<Rightarrow> attempt_phase deps target request False attempt)))"

definition deferWhileBlockingJobRuns :: "'w release_deps \<Rightarrow> string \<Rightarrow> string \<Rightarrow> ('w, unit) io" where
  "deferWhileBlockingJobRuns deps serviceId deploymentId =
     io_bind (readRunningJobs deps serviceId deploymentId PreActivation) (\<lambda>running.
       if running = [] then io_return ()
       else io_bind (claimPhase deps PreActivation running) (\<lambda>claim.
         case claim of
           WaitClaim attempt message \<Rightarrow>
             io_bind (progress deps message) (\<lambda>_. io_throw (ReleaseJobDeferredError message))
         | _ \<Rightarrow> io_return ()))"

end
