(* ===== verification/Release_Protocol.thy ===== *)
theory Release_Protocol
  imports Release_Jobs
begin

text \<open>
  What a release phase does to the world, and in which order: the calls of
  \<^const>\<open>runReleasePhase\<close> on Docker and the control plane obey a protocol, its loops end, and
  container names tell attempts apart. The header of \<open>release-jobs.ts\<close> states the rule the protocol
  makes precise: "the container is kept until the control plane has acknowledged its outcome".
\<close>

section \<open>Watching the dependencies\<close>

datatype job_event =
    DockerEv docker_call
  | ClaimEv "js_error + claim_response"
  | ReportEv release_report "js_error + unit"

definition watched_deps :: "'w release_deps \<Rightarrow> ('w \<times> job_event list) release_deps" where
  "watched_deps d = \<lparr>
     rd_docker = traced_by DockerEv (rd_docker d),
     rd_claim = (\<lambda>phase ids. log_result ClaimEv (rd_claim d phase ids)),
     rd_report = (\<lambda>phase rep. log_result (ReportEv rep) (rd_report d phase rep)),
     rd_clock = traced_clock (rd_clock d),
     rd_log = map_option (\<lambda>emit b. unlogged (emit b)) (rd_log d)\<rparr>"

definition watched_target :: "'w release_target \<Rightarrow> ('w \<times> job_event list) release_target" where
  "watched_target t = \<lparr>rt_serviceId = rt_serviceId t, rt_deploymentId = rt_deploymentId t,
     rt_image = rt_image t, rt_networkName = rt_networkName t, rt_envVars = rt_envVars t,
     rt_labels = rt_labels t, rt_resourceSettings = rt_resourceSettings t,
     rt_redactLogLine = rt_redactLogLine t, rt_prepareImage = unlogged (rt_prepareImage t)\<rparr>"

definition watched_request :: "'w release_request \<Rightarrow> ('w \<times> job_event list) release_request" where
  "watched_request q = \<lparr>rq_phase = rq_phase q, rq_command = rq_command q,
     rq_timeoutSeconds = rq_timeoutSeconds q, rq_phaseEnv = rq_phaseEnv q,
     rq_resolveAppliedPolicy = map_option (\<lambda>f out. unlogged (f out)) (rq_resolveAppliedPolicy q),
     rq_configuredPolicy = rq_configuredPolicy q\<rparr>"

lemma watched_simps [simp]:
  "rd_docker (watched_deps d) = traced_by DockerEv (rd_docker d)"
  "rd_claim (watched_deps d) phase ids = log_result ClaimEv (rd_claim d phase ids)"
  "rd_report (watched_deps d) phase rep = log_result (ReportEv rep) (rd_report d phase rep)"
  "rd_clock (watched_deps d) = traced_clock (rd_clock d)"
  "rd_log (watched_deps d) = map_option (\<lambda>emit b. unlogged (emit b)) (rd_log d)"
  "rt_serviceId (watched_target t) = rt_serviceId t"
  "rt_deploymentId (watched_target t) = rt_deploymentId t"
  "rt_prepareImage (watched_target t) = unlogged (rt_prepareImage t)"
  "rq_phase (watched_request q) = rq_phase q"
  "rq_resolveAppliedPolicy (watched_request q) = map_option (\<lambda>f out. unlogged (f out)) (rq_resolveAppliedPolicy q)"
  by (simp_all add: watched_deps_def watched_target_def watched_request_def)

section \<open>The protocol\<close>

text \<open>
  Where a run stands: nothing is claimed; attempt \<open>n\<close> may be started; the container of attempt \<open>n\<close> may
  hold its only evidence; its report is acknowledged; its claim was answered \<open>skip\<close> or \<open>halt\<close>; there is
  nothing left to do.
\<close>

datatype run_state =
    Idle
  | Granted nat
  | Holding nat
  | Settled release_report
  | Skipped nat
  | Halted nat job_failure
  | Closed

fun after_claim :: "claim_response \<Rightarrow> run_state" where
  "after_claim (RunClaim n) = Granted n"
| "after_claim (ResumeClaim n) = Holding n"
| "after_claim (SkipClaim n) = Skipped n"
| "after_claim (HaltClaim n f _) = Halted n f"
| "after_claim (WaitClaim _ _) = Closed"

definition quiet :: "docker_call \<Rightarrow> bool" where
  "quiet c \<longleftrightarrow> reads_only c \<or> (\<exists>i n. c = Stop i n)"

fun release_protocol :: "(nat \<Rightarrow> string) \<Rightarrow> release_phase \<Rightarrow> run_state \<Rightarrow> job_event \<Rightarrow> run_state option" where
  "release_protocol name phase s (ClaimEv r) =
     (if s \<noteq> Idle then None else case r of Inl _ \<Rightarrow> Some Idle | Inr c \<Rightarrow> Some (after_claim c))"
| "release_protocol name phase s (ReportEv rep r) =
     (if s = Granted (rr_attempt rep) \<or> s = Holding (rr_attempt rep)
      then (case r of Inl _ \<Rightarrow> Some s | Inr _ \<Rightarrow> Some (Settled rep)) else None)"
| "release_protocol name phase s (DockerEv c) =
     (case c of
        Create spec \<Rightarrow> (case s of Granted n \<Rightarrow> if sp_name spec = name n then Some (Holding n) else None | _ \<Rightarrow> None)
      | Start i \<Rightarrow> (case s of Holding n \<Rightarrow> if i = name n then Some s else None | _ \<Rightarrow> None)
      | Remove i _ \<Rightarrow>
          (case s of
             Idle \<Rightarrow> None
           | Closed \<Rightarrow> None
           | Holding n \<Rightarrow> if phase = Verification \<and> i = name n then Some Closed else None
           | _ \<Rightarrow> Some s)
      | _ \<Rightarrow> if quiet c then Some s else None)"

lemma protocol_quiet [simp]:
  assumes "quiet c"
  shows "release_protocol name phase s (DockerEv c) = Some s"
  using assms by (cases c) (simp_all add: quiet_def)

declare release_protocol.simps(3) [simp del]

text \<open>The functions that make only quiet calls.\<close>

definition silent :: "job_event \<Rightarrow> bool" where
  "silent e \<longleftrightarrow> (\<exists>c. e = DockerEv c \<and> quiet c)"

lemma silent_DockerEv [simp]: "silent (DockerEv c) = quiet c"
  by (auto simp: silent_def)

lemma quiet_simps [simp]:
  "quiet (Inspect i)" "quiet (ListByLabels ls)" "quiet (LogEntries i)" "quiet (Stop i n)"
  by (auto simp: quiet_def)

lemma obeys_silent: "logs_all silent m \<Longrightarrow> obeys (release_protocol name phase) s m (\<lambda>r s'. s' = s)"
  by (rule obeys_neutral) (auto elim!: logs_all_mono simp: silent_def)

lemma progress_silent [logs_rules]: "logs_all silent (progress (watched_deps d) message)"
  by (auto simp: progress_def intro!: logs_rules split: option.splits)

lemma stop_if_overdue_silent [logs_rules]: "logs_all silent (stop_if_overdue (watched_deps d) c)"
  by (auto simp: stop_if_overdue_def intro!: logs_rules split: option.splits)

lemma running_jobs_silent [logs_rules]:
  "logs_all silent (running_jobs_loop (watched_deps d) dep phase cs running)"
  by (induction cs arbitrary: running) (auto simp: Let_def intro!: logs_rules)

lemma readRunningJobs_silent [logs_rules]: "logs_all silent (readRunningJobs (watched_deps d) svc dep phase)"
  by (auto simp: readRunningJobs_def listServiceJobs_def intro!: logs_rules)

lemma shipLogs_silent [logs_rules]: "logs_all silent (shipLogs (watched_deps d) t phase cn)"
  by (auto simp: shipLogs_def intro!: logs_rules split: option.splits)

lemma applied_policy_silent [logs_rules]: "logs_all silent (applied_policy (watched_request q) out)"
  by (auto simp: applied_policy_def intro!: logs_rules split: option.splits job_outcome.splits)

lemma awaitExit_silent [logs_rules]: "logs_all silent (awaitExit (watched_deps d) cn deadline)"
  by (auto simp: awaitExit_def awaitExit_round_def intro!: logs_rules split: observation.splits)

lemma callControlPlane_obeys:
  assumes "obeys mon s call (\<lambda>r s'. case r of Inl _ \<Rightarrow> s' = s | Inr x \<Rightarrow> P x s')"
  shows "obeys mon s (callControlPlane (traced_clock c) call giveUp)
           (\<lambda>r s'. case r of Inl _ \<Rightarrow> s' = s | Inr x \<Rightarrow> P x s')"
  unfolding callControlPlane_def
proof (rule obeys_bind)
  show "obeys mon s (io_now (traced_clock c)) (\<lambda>_ s'. s' = s)"
    by (simp add: obeys_unlogged)
next
  fix t s' assume "s' = s"
  have round: "obeys mon s (control_plane_round (traced_clock c) call giveUp g st)
      (\<lambda>r s'. case r of Inl _ \<Rightarrow> s' = s | Inr (Inl _) \<Rightarrow> s' = s | Inr (Inr x) \<Rightarrow> P x s')" for g st
    unfolding control_plane_round_def
    by (cases st) (auto intro!: obeys_bind [OF obeys_try [OF assms, where Q = "\<lambda>r s'. case r of Inl _ \<Rightarrow> False
            | Inr (Inl _) \<Rightarrow> s' = s | Inr (Inr x) \<Rightarrow> P x s'"]]
        obeys_bind [OF obeys_unlogged [where Q = "\<lambda>_ s'. s' = s"]] obeys_throw obeys_return split: sum.splits)
  show "obeys mon s' (io_loop (control_plane_round (traced_clock c) call giveUp (t + CONTROL_PLANE_RETRY_BUDGET_MS))
      (CONTROL_PLANE_RETRY_INITIAL_DELAY_MS, False)) (\<lambda>r s'. case r of Inl _ \<Rightarrow> s' = s | Inr x \<Rightarrow> P x s')"
  proof (rule obeys_loop [where I = "\<lambda>_ s'. s' = s"])
    show "s' = s" by fact
  next
    fix st m assume "m = s"
    show "obeys mon m (control_plane_round (traced_clock c) call giveUp (t + CONTROL_PLANE_RETRY_BUDGET_MS) st)
        (\<lambda>r m'. case r of Inl e \<Rightarrow> (case Inl e of Inl _ \<Rightarrow> m' = s | Inr x \<Rightarrow> P x m')
          | Inr (Inl _) \<Rightarrow> m' = s | Inr (Inr x) \<Rightarrow> (case Inr x of Inl _ \<Rightarrow> m' = s | Inr x \<Rightarrow> P x m'))"
      unfolding \<open>m = s\<close> by (rule obeys_conseq [OF round]) (auto split: sum.splits)
  qed
qed auto

lemma claimPhase_obeys:
  "obeys (release_protocol name ph) Idle (claimPhase (watched_deps d) phase ids)
     (\<lambda>r s'. case r of Inl _ \<Rightarrow> s' = Idle | Inr c \<Rightarrow> s' = after_claim c)"
  unfolding claimPhase_def watched_simps
  by (intro callControlPlane_obeys obeys_result) (auto split: sum.splits)

lemma reportOutcome_obeys:
  assumes "s = Granted (rr_attempt rep) \<or> s = Holding (rr_attempt rep)"
  shows "obeys (release_protocol name ph) s (reportOutcome (watched_deps d) phase rep)
     (\<lambda>r s'. case r of Inl _ \<Rightarrow> s' = s | Inr _ \<Rightarrow> s' = Settled rep)"
  using assms unfolding reportOutcome_def watched_simps
  by (intro callControlPlane_obeys obeys_result) (auto split: sum.splits)

text \<open>Silent calls first, whatever they return.\<close>

lemma obeys_bind_silent:
  assumes "logs_all silent m" and "\<And>x. obeys (release_protocol name ph) s (f x) Q" and "\<And>e. Q (Inl e) s"
  shows "obeys (release_protocol name ph) s (io_bind m f) Q"
  by (rule obeys_bind [OF obeys_silent [OF assms(1)]]) (use assms in auto)

lemma obeys_silent': "logs_all silent m \<Longrightarrow> (\<And>r. Q r s) \<Longrightarrow> obeys (release_protocol name ph) s m Q"
  by (rule obeys_conseq [OF obeys_silent]) auto

definition may_remove :: "run_state \<Rightarrow> bool" where
  "may_remove s \<longleftrightarrow> (\<exists>n f r. s \<in> {Granted n, Settled r, Skipped n, Halted n f})"

lemma protocol_remove:
  "may_remove s \<Longrightarrow> release_protocol name ph s (DockerEv (Remove i b)) = Some s"
  by (auto simp: may_remove_def release_protocol.simps(3))

lemma remove_obeys:
  assumes "may_remove s"
  shows "obeys (release_protocol name ph) s (removeContainer (rd_docker (watched_deps d)) i b) (\<lambda>_ s'. s' = s)"
  unfolding watched_simps traced_simps
  by (rule obeys_call [where s' = s]) (simp_all add: protocol_remove assms)

lemma removeSettledAttempts_obeys:
  assumes "may_remove s"
  shows "obeys (release_protocol name ph) s (removeSettledAttempts (watched_deps d) t phase) (\<lambda>_ s'. s' = s)"
  unfolding removeSettledAttempts_def
proof (rule obeys_bind_silent)
  show "obeys (release_protocol name ph) s (io_for cs (\<lambda>c. if observeContainer (Some c) \<noteq> StillRunning
        then removeContainer (rd_docker (watched_deps d)) (ci_Id c) True else io_return ())) (\<lambda>_ s'. s' = s)" for cs
    by (rule obeys_for) (auto intro!: obeys_return remove_obeys [OF assms] simp del: watched_simps traced_simps)
qed (auto intro!: logs_rules)

lemma removeSettledAttempts_then:
  assumes "may_remove s" and "\<And>x. obeys (release_protocol name ph) s (f x) Q" and "\<And>e. Q (Inl e) s"
  shows "obeys (release_protocol name ph) s (io_bind (removeSettledAttempts (watched_deps d) t phase) f) Q"
  by (rule obeys_bind [OF removeSettledAttempts_obeys]) (use assms in auto)

lemma obeys_bind_progress:
  assumes "\<And>x. obeys (release_protocol name ph) s (f x) Q" and "\<And>e. Q (Inl e) s"
  shows "obeys (release_protocol name ph) s (io_bind (progress (watched_deps d) message) f) Q"
  by (rule obeys_bind_silent [OF progress_silent]) (use assms in auto)

lemma removeOther_obeys:
  assumes "may_remove s"
  shows "obeys (release_protocol name ph) s (removeOtherDeploymentsExitedJobs (watched_deps d) t phase) (\<lambda>_ s'. s' = s)"
  unfolding removeOtherDeploymentsExitedJobs_def
proof (rule obeys_bind_silent)
  show "obeys (release_protocol name ph) s (io_for cs (\<lambda>c.
          if phase = Verification \<and> label_of c ''nouva.release.phase'' \<noteq> Some ''verification''
          then io_return ()
          else if observeContainer (Some c) = StillRunning then io_return ()
          else removeContainer (rd_docker (watched_deps d)) (ci_Id c) True)) (\<lambda>_ s'. s' = s)" for cs
    by (rule obeys_for) (auto intro!: obeys_return remove_obeys [OF assms] simp del: watched_simps traced_simps)
qed (auto simp: listOtherDeploymentsJobs_def listServiceJobs_def intro!: logs_rules)

section \<open>A run obeys the protocol\<close>

definition attempting :: "nat \<Rightarrow> run_state \<Rightarrow> bool" where
  "attempting n s \<longleftrightarrow> s = Granted n \<or> s = Holding n"

lemma startAttempt_obeys:
  assumes "obeys (release_protocol name ph) s start (\<lambda>_. attempting n)"
  shows "obeys (release_protocol name ph) s (startAttempt (watched_deps d) cn start) (\<lambda>_. attempting n)"
  unfolding startAttempt_def
proof (rule obeys_catch [where P = "\<lambda>_. attempting n"])
  show "obeys (release_protocol name ph) s
      (io_bind start (\<lambda>_. io_bind (io_now (rd_clock (watched_deps d))) (\<lambda>t. io_return (Inr t)))) (\<lambda>_. attempting n)"
    by (rule obeys_bind [OF assms]) (auto intro!: obeys_silent' logs_rules)
qed (auto simp: Let_def intro!: obeys_silent' logs_rules split: option.splits)

lemma createJobContainer_obeys:
  "obeys (release_protocol name ph) (Granted n) (createJobContainer (watched_deps d) t q (name n) n)
     (\<lambda>_ s'. s' = Holding n)"
  unfolding createJobContainer_def watched_simps traced_simps
  by (rule obeys_bind [OF obeys_call [where s' = "Holding n"]])
    (auto simp: release_protocol.simps(3) job_spec_def intro: obeys_return)

lemma begin_attempt_obeys:
  assumes "s = (if is_run then Granted n else Holding n)"
  shows "obeys (release_protocol name ph) s
     (begin_attempt (watched_deps d) (watched_target t) (watched_request q) is_run n (name n)) (\<lambda>_. attempting n)"
proof (cases is_run)
  case True
  let ?start = "io_bind (removeSettledAttempts (watched_deps d) (watched_target t) (rq_phase q)) (\<lambda>_.
    io_bind (createJobContainer (watched_deps d) (watched_target t) (watched_request q) (name n) n) (\<lambda>_.
    startContainer (rd_docker (watched_deps d)) (name n)))"
  have "obeys (release_protocol name ph) (Holding n) (startContainer (rd_docker (watched_deps d)) (name n)) (\<lambda>_. attempting n)"
    by (auto intro!: obeys_call simp: release_protocol.simps(3) attempting_def)
  then have "obeys (release_protocol name ph) (Granted n)
      (io_bind (createJobContainer (watched_deps d) (watched_target t) (watched_request q) (name n) n) (\<lambda>_.
        startContainer (rd_docker (watched_deps d)) (name n))) (\<lambda>_. attempting n)"
    by (intro obeys_bind [OF createJobContainer_obeys]) (simp_all add: attempting_def)
  then have "obeys (release_protocol name ph) (Granted n) ?start (\<lambda>_. attempting n)"
    by (intro obeys_bind [OF removeSettledAttempts_obeys]) (simp_all add: may_remove_def attempting_def)
  from startAttempt_obeys [OF this] True assms show ?thesis
    unfolding begin_attempt_def Let_def
    by simp (intro obeys_bind_silent obeys_bind [where P = "\<lambda>_. attempting n"];
        auto intro!: logs_rules obeys_return simp: attempting_def)
next
  case False
  have "obeys (release_protocol name ph) (Holding n) (startContainer (rd_docker (watched_deps d)) (name n)) (\<lambda>_. attempting n)"
    by (auto intro!: obeys_call simp: release_protocol.simps(3) attempting_def)
  from startAttempt_obeys [OF this] have started: "obeys (release_protocol name ph) (Holding n)
      (io_bind (startAttempt (watched_deps d) (name n) (startContainer (rd_docker (watched_deps d)) (name n)))
        (\<lambda>r. io_return (case r of Inl e \<Rightarrow> NotStarted e | Inr t \<Rightarrow> Await t))) (\<lambda>_. attempting n)"
    by (rule obeys_bind) (auto intro: obeys_return)
  have "obeys (release_protocol name ph) (Holding n) (case recovery of
          StartIt \<Rightarrow> io_bind (startAttempt (watched_deps d) (name n) (startContainer (rd_docker (watched_deps d)) (name n)))
            (\<lambda>r. io_return (case r of Inl e \<Rightarrow> NotStarted e | Inr t \<Rightarrow> Await t))
        | WaitForIt \<Rightarrow>
            (case readStartedAtMs i of
               Some t \<Rightarrow> io_return (Await t)
             | None \<Rightarrow> io_bind (io_now (rd_clock (watched_deps d))) (\<lambda>t. io_return (Await t)))
        | RecordIt _ _ \<Rightarrow> io_return (Ended (observeContainer i))
        | DeclareUnknown \<Rightarrow> io_return (Ended Missing)) (\<lambda>_. attempting n)" for recovery i
    using started by (cases recovery) (auto intro!: obeys_silent' logs_rules simp: attempting_def split: option.splits)
  with False assms show ?thesis
    unfolding begin_attempt_def Let_def
    by simp (intro obeys_bind_silent; auto intro!: logs_rules simp: attempting_def)
qed

definition report_of :: "nat \<Rightarrow> reported \<Rightarrow> run_state \<Rightarrow> bool" where
  "report_of n rep s \<longleftrightarrow>
     (\<exists>rr. s = Settled rr \<and> rr_attempt rr = n \<and> rr_outcome rr = rp_outcome rep)"

text \<open>An error leaves the attempt open; a result is the acknowledged report's.\<close>

abbreviation attempt_post :: "nat \<Rightarrow> js_error + reported \<Rightarrow> run_state \<Rightarrow> bool" where
  "attempt_post n r s \<equiv> (case r of Inl _ \<Rightarrow> attempting n s | Inr rep \<Rightarrow> report_of n rep s)"

lemma report_then_return:
  assumes "attempting n s" and "rr_attempt rr = n" and "rr_outcome rr = rp_outcome rep"
  shows "obeys (release_protocol name ph) s
     (io_bind (reportOutcome (watched_deps d) phase rr) (\<lambda>_. io_return rep)) (attempt_post n)"
proof (rule obeys_bind)
  show "obeys (release_protocol name ph) s (reportOutcome (watched_deps d) phase rr)
      (\<lambda>r s'. case r of Inl _ \<Rightarrow> s' = s | Inr _ \<Rightarrow> s' = Settled rr)"
    using assms by (intro reportOutcome_obeys) (auto simp: attempting_def)
qed (use assms in \<open>auto intro!: obeys_return simp: report_of_def\<close>)

lemma report_ended_obeys:
  assumes "attempting n s"
  shows "obeys (release_protocol name ph) s (report_ended (watched_deps d) t (watched_request q) n cn exit) (attempt_post n)"
  unfolding report_ended_def Let_def
  by (intro obeys_bind_silent report_then_return logs_rules)
    (use assms in \<open>auto intro!: logs_rules\<close>)

lemma report_not_started_obeys:
  assumes "attempting n s"
  shows "obeys (release_protocol name ph) s (report_not_started (watched_deps d) q n e) (attempt_post n)"
  unfolding report_not_started_def Let_def
  by (intro obeys_bind_silent report_then_return)
    (use assms in \<open>auto intro!: logs_rules\<close>)

lemma attemptAndReport_obeys:
  assumes "s = (if is_run then Granted n else Holding n)"
  shows "obeys (release_protocol name ph) s
     (attemptAndReport (watched_deps d) (watched_target t) (watched_request q) is_run n (name n)) (attempt_post n)"
  unfolding attemptAndReport_def
proof (rule obeys_bind [OF begin_attempt_obeys [OF assms]])
  fix st s' assume s': "attempting n s'"
  show "obeys (release_protocol name ph) s' (case st of
       NotStarted e \<Rightarrow> report_not_started (watched_deps d) (watched_request q) n e
     | Await startedAtMs \<Rightarrow>
         io_bind (awaitExit (watched_deps d) (name n) (startedAtMs + rq_timeoutSeconds (watched_request q) * 1000))
           (report_ended (watched_deps d) (watched_target t) (watched_request q) n (name n))
     | Ended observation \<Rightarrow>
         report_ended (watched_deps d) (watched_target t) (watched_request q) n (name n) (observation, False))
     (attempt_post n)"
    using s' by (cases st) (auto intro!: report_not_started_obeys report_ended_obeys obeys_bind_silent logs_rules)
qed simp

lemma run_attempt_obeys:
  assumes "s = (if is_run then Granted n else Holding n)" and "ph = rq_phase q"
  shows "obeys (release_protocol name ph) s
     (run_attempt (watched_deps d) (watched_target t) (watched_request q) is_run n (name n))
     (\<lambda>r s'. \<forall>rep. r = Inr rep \<longrightarrow> report_of n rep s')"
  unfolding run_attempt_def
proof (rule obeys_bind [where P = "\<lambda>r s'. \<forall>rep. r = Inr rep \<longrightarrow> report_of n rep s'"])
  let ?m = "attemptAndReport (watched_deps d) (watched_target t) (watched_request q) is_run n (name n)"
  show "obeys (release_protocol name ph) s (io_catch ?m (\<lambda>e.
      io_bind (if rq_phase (watched_request q) = Verification
               then discardUnreportedVerification (watched_deps d) (name n) else io_return ())
        (\<lambda>_. io_throw e))) (\<lambda>r s'. \<forall>rep. r = Inr rep \<longrightarrow> report_of n rep s')"
  proof (rule obeys_catch [OF attemptAndReport_obeys [OF assms(1)]])
    fix e :: js_error and s' assume "case Inl e of Inl _ \<Rightarrow> attempting n s' | Inr rep \<Rightarrow> report_of n rep s'"
    then have s': "attempting n s'" by simp
    have "obeys (release_protocol name ph) s' (removeContainer (rd_docker (watched_deps d)) (name n) True) (\<lambda>_ _. True)"
      if "ph = Verification"
    proof -
      from s' that obtain s2 where "release_protocol name ph s' (DockerEv (Remove (name n) True)) = Some s2"
        by (auto simp: attempting_def release_protocol.simps(3))
      then show ?thesis unfolding watched_simps traced_simps by (rule obeys_call) simp
    qed
    then show "obeys (release_protocol name ph) s' (io_bind (if rq_phase (watched_request q) = Verification
          then discardUnreportedVerification (watched_deps d) (name n) else io_return ()) (\<lambda>_. io_throw e))
        (\<lambda>r s'. \<forall>rep. r = Inr rep \<longrightarrow> report_of n rep s')"
      using assms(2)
      by (intro obeys_bind [where P = "\<lambda>_ _. True"])
        (auto simp: discardUnreportedVerification_def intro!: obeys_return obeys_throw obeys_catch [where P = "\<lambda>_ _. True"]
          simp del: traced_simps)
  qed simp
next
  fix rep s' assume "\<forall>rep'. Inr rep = Inr rep' \<longrightarrow> report_of n rep' s'"
  then have "may_remove s'" "report_of n rep s'" by (auto simp: report_of_def may_remove_def)
  then show "obeys (release_protocol name ph) s'
      (io_bind (io_catch (removeContainer (rd_docker (watched_deps d)) (name n) True) (\<lambda>_. io_return ())) (\<lambda>_. io_return rep))
      (\<lambda>r s'. \<forall>rep. r = Inr rep \<longrightarrow> report_of n rep s')"
    by (intro obeys_bind [where P = "\<lambda>_ s2. s2 = s'"] obeys_catch [OF remove_obeys])
      (auto intro!: obeys_return)
qed simp

lemma finish_attempt_silent [logs_rules]:
  "logs_all silent (finish_attempt (watched_deps d) t q n rep)"
  by (auto simp: finish_attempt_def Let_def intro!: logs_rules split: job_outcome.splits option.splits list.splits)

text \<open>What the result of a run says of the state the run ends in.\<close>

definition result_backed :: "js_error + phase_result \<Rightarrow> run_state \<Rightarrow> bool" where
  "result_backed r s \<longleftrightarrow>
     (case r of
        Inl _ \<Rightarrow> True
      | Inr (PhaseSucceeded n) \<Rightarrow>
          s = Skipped n \<or> (\<exists>rr. s = Settled rr \<and> rr_attempt rr = n \<and> rr_outcome rr = Success)
      | Inr (PhaseUnsuccessful n f m p) \<Rightarrow>
          s = Halted n f \<or> (\<exists>rr. s = Settled rr \<and> rr_attempt rr = n \<and> rr_outcome rr = Unsuccess f))"

lemma finish_attempt_result:
  assumes "finish_attempt deps t q n rep w = Some (r, w')"
  shows "(\<exists>e. r = Inl e) \<or> rp_outcome rep = Success \<and> r = Inr (PhaseSucceeded n)
    \<or> (\<exists>f m p. rp_outcome rep = Unsuccess f \<and> r = Inr (PhaseUnsuccessful n f m p))"
  using assms by (auto simp: finish_attempt_def Let_def io_bind_Some_iff split: job_outcome.splits)

lemma finish_attempt_obeys:
  assumes "report_of n rep s"
  shows "obeys (release_protocol name ph) s (finish_attempt (watched_deps d) t q n rep) result_backed"
proof (rule obeysI)
  fix w l r w' l'
  assume run: "finish_attempt (watched_deps d) t q n rep (w, l) = Some (r, (w', l'))"
  obtain k s' where k: "l' = l @ k" "run_monitor (release_protocol name ph) s k = Some s'" "s' = s"
    by (rule obeysD [OF obeys_silent [OF finish_attempt_silent] run])
  moreover have "result_backed r s"
    using finish_attempt_result [OF run] assms by (auto simp: result_backed_def report_of_def)
  ultimately show "\<exists>k s'. l' = l @ k \<and> run_monitor (release_protocol name ph) s k = Some s' \<and> result_backed r s'"
    by blast
qed

lemma attempt_phase_obeys:
  assumes "s = (if is_run then Granted n else Holding n)" and "ph = rq_phase q"
    and "name = buildReleaseJobContainerName (rt_serviceId t) (rt_deploymentId t) (rq_phase q)"
  shows "obeys (release_protocol name ph) s
     (attempt_phase (watched_deps d) (watched_target t) (watched_request q) is_run n) result_backed"
proof -
  have first: "obeys (release_protocol name ph) s (if is_run
      then removeOtherDeploymentsExitedJobs (watched_deps d) (watched_target t) (rq_phase (watched_request q))
      else io_return ()) (\<lambda>_ s'. s' = s)"
    using assms(1) by (auto intro!: obeys_return removeOther_obeys simp: may_remove_def)
  have second: "obeys (release_protocol name ph) s
      (run_attempt (watched_deps d) (watched_target t) (watched_request q) is_run n (name n))
      (\<lambda>r s'. \<forall>rep. r = Inr rep \<longrightarrow> report_of n rep s')"
    by (rule run_attempt_obeys [OF assms(1,2)])
  show ?thesis
    unfolding attempt_phase_def Let_def
    unfolding watched_simps assms(3) [symmetric]
    by (rule obeys_bind [OF first [unfolded watched_simps]]; (rule obeys_bind [OF second])?)
      (auto intro!: finish_attempt_obeys obeys_bind [OF second] simp: result_backed_def)
qed

lemma runReleasePhase_obeys:
  assumes "name = buildReleaseJobContainerName (rt_serviceId t) (rt_deploymentId t) (rq_phase q)"
  shows "obeys (release_protocol name (rq_phase q)) Idle
     (runReleasePhase (watched_deps d) (watched_target t) (watched_request q)) result_backed"
  unfolding runReleasePhase_def watched_simps
proof (rule obeys_bind_silent; (rule obeys_bind_silent)?)
  fix running
  show "obeys (release_protocol name (rq_phase q)) Idle
     (io_bind (claimPhase (watched_deps d) (rq_phase q) running) (\<lambda>claim. case claim of
         WaitClaim attempt message \<Rightarrow>
           io_bind (progress (watched_deps d) message) (\<lambda>_. io_throw (ReleaseJobDeferredError message))
       | SkipClaim attempt \<Rightarrow>
           io_bind (removeSettledAttempts (watched_deps d) (watched_target t) (rq_phase q)) (\<lambda>_.
           io_bind (progress (watched_deps d) (''The '' @ PHASE_LABEL (rq_phase q)
              @ '' job already succeeded; not running it again'')) (\<lambda>_.
           io_return (PhaseSucceeded attempt)))
       | HaltClaim attempt status message \<Rightarrow>
           io_bind (removeSettledAttempts (watched_deps d) (watched_target t) (rq_phase q)) (\<lambda>_.
           io_return (PhaseUnsuccessful attempt status message None))
       | RunClaim attempt \<Rightarrow> attempt_phase (watched_deps d) (watched_target t) (watched_request q) True attempt
       | ResumeClaim attempt \<Rightarrow> attempt_phase (watched_deps d) (watched_target t) (watched_request q) False attempt))
     result_backed"
  proof (rule obeys_bind [OF claimPhase_obeys])
    fix claim s'
    assume "case Inr claim of Inl _ \<Rightarrow> s' = Idle | Inr c \<Rightarrow> s' = after_claim c"
    then have s': "s' = after_claim claim" by simp
    show "obeys (release_protocol name (rq_phase q)) s' (case claim of
         WaitClaim attempt message \<Rightarrow>
           io_bind (progress (watched_deps d) message) (\<lambda>_. io_throw (ReleaseJobDeferredError message))
       | SkipClaim attempt \<Rightarrow>
           io_bind (removeSettledAttempts (watched_deps d) (watched_target t) (rq_phase q)) (\<lambda>_.
           io_bind (progress (watched_deps d) (''The '' @ PHASE_LABEL (rq_phase q)
              @ '' job already succeeded; not running it again'')) (\<lambda>_.
           io_return (PhaseSucceeded attempt)))
       | HaltClaim attempt status message \<Rightarrow>
           io_bind (removeSettledAttempts (watched_deps d) (watched_target t) (rq_phase q)) (\<lambda>_.
           io_return (PhaseUnsuccessful attempt status message None))
       | RunClaim attempt \<Rightarrow> attempt_phase (watched_deps d) (watched_target t) (watched_request q) True attempt
       | ResumeClaim attempt \<Rightarrow> attempt_phase (watched_deps d) (watched_target t) (watched_request q) False attempt)
     result_backed"
      using s' assms
      by (cases claim)
        (auto intro!: attempt_phase_obeys removeSettledAttempts_then obeys_bind_progress
          obeys_throw obeys_return simp: may_remove_def result_backed_def)
  qed (simp add: result_backed_def)
qed (auto intro!: logs_rules simp: result_backed_def)

section \<open>Properties\<close>

text \<open>C1 Whatever Docker and the control plane do, the calls of a run obey the release protocol: a container is
  created at most once per run, only after the claim was answered \<open>run\<close>, and only under the name of
  the granted attempt; only that container, or the one of an attempt to resume, is started; a
  resumed attempt never creates one; from the moment the container may hold the attempt's outcome no
  container is removed until the control plane has acknowledged the report (a verification may only
  discard its own); the attempt that is reported is the one that was granted, and nothing is reported
  twice after an acknowledgement. The run's result is the acknowledged one, or the one the claim
  already held.\<close>

theorem release_run_obeys_protocol:
  assumes "runReleasePhase (watched_deps d) (watched_target t) (watched_request q) (w, []) = Some (r, (w', k))"
  shows "\<exists>s. run_monitor
      (release_protocol (buildReleaseJobContainerName (rt_serviceId t) (rt_deploymentId t) (rq_phase q)) (rq_phase q))
      Idle k = Some s \<and> result_backed r s"
  using runReleasePhase_obeys [OF refl] assms by (rule obeys_final)

text \<open>A daemon whose job containers have exited with code 0, and a control plane that grants attempt 1.\<close>

definition exited_job :: inspection where
  "exited_job = (bare_inspection ''job'')\<lparr>ci_State := Some (no_state\<lparr>cs_Running := Some False,
     cs_Status := Some ''exited'', cs_ExitCode := Some 0\<rparr>)\<rparr>"

definition sample_docker :: "'w docker" where
  "sample_docker = \<lparr>inspectContainer = (\<lambda>_. io_return (Some exited_job)),
     listContainersByLabels = (\<lambda>_. io_return []), listManagedContainers = io_return [],
     countContainerExits = (\<lambda>_ _ _. io_return 0), containerLogs = (\<lambda>_. io_return []),
     containerLogEntries = (\<lambda>_ _. io_return []), createContainer = (\<lambda>s. io_return (sp_name s)),
     startContainer = (\<lambda>_. io_return ()), waitContainer = (\<lambda>_ _. io_return 0),
     stopContainer = (\<lambda>_ _. io_return ()), killContainer = (\<lambda>_ _. io_return True),
     removeContainer = (\<lambda>_ _. io_return ()), updateContainerRestartPolicy = (\<lambda>_ _. io_return ()),
     inspectVolume = (\<lambda>_. io_return True), createVolume = (\<lambda>_ _. io_return ()),
     removeVolume = (\<lambda>_ _. io_return ())\<rparr>"

definition sample_deps :: "int release_deps" where
  "sample_deps = \<lparr>rd_docker = sample_docker, rd_claim = (\<lambda>_ _. io_return (RunClaim 1)),
     rd_report = (\<lambda>_ _. io_return ()), rd_clock = int_clock, rd_log = None\<rparr>"

definition sample_target :: "int release_target" where
  "sample_target = \<lparr>rt_serviceId = ''svc'', rt_deploymentId = ''dep'', rt_image = ''app:1'',
     rt_networkName = ''net'', rt_envVars = [(''A'', ''1'')], rt_labels = [], rt_resourceSettings = [],
     rt_redactLogLine = (\<lambda>l. l), rt_prepareImage = io_return ()\<rparr>"

definition sample_request :: "int release_request" where
  "sample_request = \<lparr>rq_phase = PreActivation, rq_command = ''migrate'', rq_timeoutSeconds = 600,
     rq_phaseEnv = [], rq_resolveAppliedPolicy = None, rq_configuredPolicy = None\<rparr>"

definition sample_run :: "((js_error + phase_result) \<times> (int \<times> job_event list)) option" where
  "sample_run = runReleasePhase (watched_deps sample_deps) (watched_target sample_target)
     (watched_request sample_request) (0, [])"

lemma sample_run_result: "map_option fst sample_run = Some (Inr (PhaseSucceeded 1))"
  by code_simp

lemma release_run_obeys_protocol_witness:
  "\<exists>w' k s. sample_run = Some (Inr (PhaseSucceeded 1), (w', k)) \<and>
     run_monitor (release_protocol (buildReleaseJobContainerName ''svc'' ''dep'' PreActivation)
       PreActivation) Idle k = Some s \<and> result_backed (Inr (PhaseSucceeded 1)) s"
proof -
  from sample_run_result obtain w' k where run: "sample_run = Some (Inr (PhaseSucceeded 1), (w', k))" by auto
  from release_run_obeys_protocol [OF run [unfolded sample_run_def]] run show ?thesis
    by (auto simp: sample_target_def sample_request_def)
qed

text \<open>Two attempts of a deployment's phases never share a container name, so a container found under an
  attempt's name is that attempt's.\<close>

theorem release_container_names_distinct:
  "buildReleaseJobContainerName svc dep p n = buildReleaseJobContainerName svc dep q m \<longleftrightarrow> p = q \<and> n = m"
proof
  assume "buildReleaseJobContainerName svc dep p n = buildReleaseJobContainerName svc dep q m"
  then show "p = q \<and> n = m"
    by (cases p; cases q) (simp_all add: buildReleaseJobContainerName_def)
qed simp

text \<open>A job container carries the deadline its runner gave it, readable by another deployment's runner: the
  labels of the container that is created read back as the request's timeout, and no label of the
  service can replace the ownership labels.\<close>

theorem job_deadline_roundtrip:
  assumes "0 < rq_timeoutSeconds q" and "ci_Labels c = Some (sp_labels (job_spec t q cn n))"
  shows "job_timeout c = Some (of_int (rq_timeoutSeconds q))
    \<and> label_of c ''nouva.deployment.id'' = Some (rt_deploymentId t)
    \<and> label_of c ''nouva.service.id'' = Some (rt_serviceId t)
    \<and> label_of c ''nouva.release.phase'' = Some (phase_text (rq_phase q))
    \<and> label_of c ''nouva.kind'' = Some ''release_job''"
  using assms by (simp add: job_timeout_def label_of_def job_spec_def obj_spread_def show_int_def)

lemma job_deadline_roundtrip_witness:
  "job_timeout ((bare_inspection ''x'')\<lparr>ci_Labels := Some (sp_labels (job_spec sample_target sample_request ''x'' 1))\<rparr>)
     = Some 600"
  using job_deadline_roundtrip [of sample_request
      "(bare_inspection ''x'')\<lparr>ci_Labels := Some (sp_labels (job_spec sample_target sample_request ''x'' 1))\<rparr>" sample_target "''x''" 1]
  by (simp add: sample_request_def)

section \<open>The loops end\<close>

lemma awaitExit_round_settles:
  assumes clk: "clock_advances time (rd_clock d)"
    and ins: "\<And>i. settles time (inspectContainer (rd_docker d) i)"
    and sto: "\<And>i n. settles time (stopContainer (rd_docker d) i n)"
  shows "\<exists>r w'. awaitExit_round d cn deadline u w = Some (r, w') \<and>
      (\<forall>s'. r = Inr (Inl s') \<longrightarrow> nat (deadline - time w') < nat (deadline - time w))"
proof -
  obtain r1 w1 where 1: "inspectContainer (rd_docker d) cn w = Some (r1, w1)" "time w \<le> time w1"
    using settlesD [OF ins] by blast
  obtain w2 where 2: "io_now (rd_clock d) w1 = Some (Inr (time w1), w2)" "time w1 \<le> time w2"
    by (rule io_now_advances [OF clk])
  obtain r3 w3 where 3: "stopContainer (rd_docker d) cn STOP_GRACE_SECONDS w2 = Some (r3, w3)"
    using settlesD [OF sto] by blast
  obtain r4 w4 where 4: "inspectContainer (rd_docker d) cn w3 = Some (r4, w4)"
    using settlesD [OF ins] by blast
  obtain w5 where 5: "io_now (rd_clock d) w2 = Some (Inr (time w2), w5)" "time w2 \<le> time w5"
    by (rule io_now_advances [OF clk])
  obtain w6 where 6: "wait (rd_clock d) (min POLL_INTERVAL_MS (max 0 (deadline - time w2))) w5 = Some (Inr (), w6)"
    "time w6 \<ge> time w5 + max 0 (min POLL_INTERVAL_MS (max 0 (deadline - time w2)))"
    by (rule wait_advances [OF clk])
  have later: "time w1 < deadline \<Longrightarrow> nat (deadline - time w6) < nat (deadline - time w)"
    using 1 2 5 6 by (auto simp: POLL_INTERVAL_MS_def)
  show ?thesis
    using 1(1) 2(1) 3 4 5(1) 6(1) later
    by (cases r1; cases r3; cases r4)
      (auto simp: awaitExit_round_def io_bind_def io_return_def split: observation.splits sum.splits)
qed

text \<open>Awaiting a job's exit ends, for every deadline: with a clock that advances, and a Docker client whose
  calls answer or fail in finite time, it returns or throws whatever the container does.\<close>

theorem awaitExit_ends:
  assumes "clock_advances time (rd_clock d)"
    and "\<And>i. settles time (inspectContainer (rd_docker d) i)"
    and "\<And>i n. settles time (stopContainer (rd_docker d) i n)"
  shows "\<exists>r w'. awaitExit d cn deadline w = Some (r, w')"
  unfolding awaitExit_def
  by (rule io_loop_settles [where I = "\<lambda>_ _. True" and m = "\<lambda>_ w. nat (deadline - time w)"])
    (use awaitExit_round_settles [OF assms] in auto)

text \<open>A container that never exits: the loop stops it at the deadline.\<close>

definition stuck_deps :: "int release_deps" where
  "stuck_deps = sample_deps\<lparr>rd_docker := sample_docker\<lparr>inspectContainer := (\<lambda>i. io_return
     (Some ((bare_inspection i)\<lparr>ci_State := Some (no_state\<lparr>cs_Running := Some True\<rparr>)\<rparr>)))\<rparr>\<rparr>"

lemma settles_return: "settles time (io_return x)"
  by (simp add: settles_def io_return_def)

lemma awaitExit_ends_witness:
  "\<exists>r w'. awaitExit stuck_deps ''job'' 2500 0 = Some (r, w')"
  by (rule awaitExit_ends [where time = "\<lambda>t. t"])
    (simp_all add: stuck_deps_def sample_deps_def sample_docker_def int_clock_advances settles_return)

lemma awaitExit_stops_stuck_job: "awaitExit stuck_deps ''job'' 2500 0 = Some (Inr (StillRunning, True), 2500)"
  by code_simp

text \<open>The back-off of the control-plane calls: how long a call has waited after \<open>n\<close> tries.\<close>

fun retry_delay :: "nat \<Rightarrow> int" where
  "retry_delay 0 = 2000"
| "retry_delay (Suc n) = min (retry_delay n * 2) 30000"

fun waited :: "nat \<Rightarrow> int" where
  "waited 0 = 0"
| "waited (Suc n) = waited n + retry_delay n"

lemma retry_delay_pos: "0 < retry_delay n"
  by (induction n) auto

lemma waited_mono: "waited n \<le> waited (n + m)"
proof (induction m)
  case (Suc m)
  then show ?case using retry_delay_pos [of "n + m"] by simp
qed simp

lemma waited_8: "waited 8 = 150000"
proof -
  have d: "retry_delay 1 = 4000" "retry_delay 2 = 8000" "retry_delay 3 = 16000" "retry_delay 4 = 30000"
    "retry_delay 5 = 30000" "retry_delay 6 = 30000" "retry_delay 7 = 30000"
    by (simp_all add: numeral_eq_Suc)
  have "waited 1 = 2000" by simp
  then have "waited 2 = 6000" using d waited.simps(2) [of 1] by (simp add: numeral_2_eq_2)
  then have "waited 3 = 14000" using d waited.simps(2) [of 2] by simp
  then have "waited 4 = 30000" using d waited.simps(2) [of 3] by simp
  then have "waited 5 = 60000" using d waited.simps(2) [of 4] by simp
  then have "waited 6 = 90000" using d waited.simps(2) [of 5] by simp
  then have "waited 7 = 120000" using d waited.simps(2) [of 6] by simp
  then show ?thesis using d waited.simps(2) [of 7] by simp
qed

lemma waited_bound:
  assumes "waited n \<le> 120000"
  shows "n \<le> 7"
proof (rule ccontr)
  assume "\<not> n \<le> 7"
  then have "n = 8 + (n - 8)" by simp
  then have "waited 8 \<le> waited n" using waited_mono [of 8 "n - 8"] by metis
  with assms waited_8 show False by linarith
qed

lemma control_plane_round_settles:
  assumes clk: "clock_advances time clk" and call: "settles time call"
    and inv: "time w \<ge> t0 + waited n" "delay = retry_delay n" "length l = n" "n \<le> 7"
  shows "\<exists>r w' l'. control_plane_round (traced_clock clk) (log_call c call) giveUp (t0 + 120000) (delay, b) (w, l)
      = Some (r, (w', l')) \<and> length l' = Suc n \<and>
      (\<forall>d' b'. r = Inr (Inl (d', b')) \<longrightarrow>
         time w' \<ge> t0 + waited (Suc n) \<and> d' = retry_delay (Suc n) \<and> Suc n \<le> 7)"
proof -
  obtain r1 w1 where 1: "call w = Some (r1, w1)" "time w \<le> time w1"
    using settlesD [OF call] by blast
  obtain w2 where 2: "io_now clk w1 = Some (Inr (time w1), w2)" "time w1 \<le> time w2"
    by (rule io_now_advances [OF clk])
  obtain w3 where 3: "wait clk delay w2 = Some (Inr (), w3)" "time w3 \<ge> time w2 + max 0 delay"
    by (rule wait_advances [OF clk])
  have "\<not> time w1 + delay > t0 + 120000 \<Longrightarrow> time w3 \<ge> t0 + waited (Suc n) \<and> Suc n \<le> 7"
    using inv 1 2 3 retry_delay_pos [of n] waited_bound [of "Suc n"] by auto
  with 1(1) 2(1) 3(1) inv show ?thesis
    by (cases r1) (auto simp: control_plane_round_def io_bind_def io_try_def log_call_def unlogged_def
        io_return_def io_throw_def CONTROL_PLANE_RETRY_MAX_DELAY_MS_def)
qed

text \<open>A control-plane call is repeated a bounded number of times: with a clock that advances and a call that
  answers or fails in finite time, \<open>callControlPlane\<close> ends after at least one and at most eight tries,
  whatever the control plane answers.\<close>

theorem callControlPlane_at_most_eight:
  fixes w :: 'w and c :: 'c
  assumes "clock_advances time clk" and "settles time call"
  shows "\<exists>r w' l. callControlPlane (traced_clock clk) (log_call c call) giveUp (w, []) = Some (r, (w', l))
    \<and> 1 \<le> length l \<and> length l \<le> 8"
proof -
  obtain w1 where 1: "io_now clk w = Some (Inr (time w), w1)" "time w \<le> time w1"
    by (rule io_now_advances [OF assms(1)])
  let ?body = "control_plane_round (traced_clock clk) (log_call c call) giveUp (time w + 120000)"
  let ?I = "\<lambda>st wl. time (fst wl) \<ge> time w + waited (length (snd wl)) \<and>
      fst st = retry_delay (length (snd wl)) \<and> length (snd wl) \<le> 7"
  have round: "\<exists>r w' l'. ?body st wl = Some (r, (w', l')) \<and> length l' = Suc (length (snd wl)) \<and>
      (\<forall>st'. r = Inr (Inl st') \<longrightarrow> ?I st' (w', l'))" if I: "?I st wl" for st wl
  proof -
    obtain r w' l' where "?body (fst st, snd st) (fst wl, snd wl) = Some (r, (w', l'))"
      "length l' = Suc (length (snd wl))"
      "\<forall>d' b'. r = Inr (Inl (d', b')) \<longrightarrow> time w' \<ge> time w + waited (Suc (length (snd wl)))
         \<and> d' = retry_delay (Suc (length (snd wl))) \<and> Suc (length (snd wl)) \<le> 7"
      using control_plane_round_settles [OF assms, of "time w" "length (snd wl)" "fst wl" "fst st" "snd wl" c giveUp "snd st"] I
      by blast
    then show ?thesis by (intro exI [of _ r] exI [of _ w'] exI [of _ l']) simp
  qed
  have init: "?I (2000, False) (w1, [])" using 1 by simp
  have "\<exists>r wl. io_loop ?body (2000, False) (w1, []) = Some (r, wl)"
  proof (rule io_loop_settles [where I = ?I and m = "\<lambda>_ wl. 8 - length (snd wl)"], rule init)
    fix st :: "int \<times> bool" and wl :: "'w \<times> 'c list" assume I: "?I st wl"
    from round [OF I] obtain r w' l' where r: "?body st wl = Some (r, (w', l'))"
      "length l' = Suc (length (snd wl))" "\<forall>st'. r = Inr (Inl st') \<longrightarrow> ?I st' (w', l')" by blast
    have "8 - length (snd (w', l')) < 8 - length (snd wl)" using r(2) I by simp arith
    with r show "\<exists>r wl'. ?body st wl = Some (r, wl') \<and> (\<forall>st'. r = Inr (Inl st') \<longrightarrow>
        ?I st' wl' \<and> 8 - length (snd wl') < 8 - length (snd wl))" by blast
  qed
  then obtain r w' l where end1: "io_loop ?body (2000, False) (w1, []) = Some (r, (w', l))" by auto
  have "1 \<le> length (snd (w', l)) \<and> length (snd (w', l)) \<le> 8"
    using end1
  proof (rule io_loop_partial [where I = ?I, OF _ init])
    fix st st' :: "int \<times> bool" and wl wl' :: "'w \<times> 'c list" assume "?I st wl" and "?body st wl = Some (Inr (Inl st'), wl')"
    with round [of wl st] show "?I st' wl'" by (cases st') auto
  next
    fix st :: "int \<times> bool" and wl wl' :: "'w \<times> 'c list" and x assume "?I st wl" and "?body st wl = Some (Inr (Inr x), wl')"
    with round [of wl st] show "1 \<le> length (snd wl') \<and> length (snd wl') \<le> 8" by auto
  next
    fix st :: "int \<times> bool" and wl wl' :: "'w \<times> 'c list" and e assume "?I st wl" and "?body st wl = Some (Inl e, wl')"
    with round [of wl st] show "1 \<le> length (snd wl') \<and> length (snd wl') \<le> 8" by auto
  qed
  with 1 end1 show ?thesis
    by (intro exI [of _ r] exI [of _ w'] exI [of _ l])
      (auto simp: callControlPlane_def io_bind_def unlogged_def CONTROL_PLANE_RETRY_BUDGET_MS_def
        CONTROL_PLANE_RETRY_INITIAL_DELAY_MS_def)
qed

text \<open>A control plane that is down: eight tries, then the caller's error.\<close>

lemma callControlPlane_at_most_eight_witness:
  "\<exists>r w' l. callControlPlane (traced_clock int_clock) (log_call () (io_throw (ApiRequestError 503 ''down'') :: (int, unit) io))
      (\<lambda>e _. e) (0, []) = Some (r, (w', l)) \<and> 1 \<le> length l \<and> length l \<le> 8"
  by (rule callControlPlane_at_most_eight [where time = "\<lambda>t. t", OF int_clock_advances])
    (simp add: settles_def io_throw_def)

lemma callControlPlane_eight_reached:
  "map_option (\<lambda>(r, (w', l)). (w', length l))
     (callControlPlane (traced_clock int_clock) (log_call () (io_throw (ApiRequestError 503 ''down'') :: (int, unit) io))
      (\<lambda>e _. e) (0, [])) = Some (120000, 8)"
  by code_simp

end
