(* ===== verification/JS_Double.thy ===== *)
theory JS_Double
  imports Prelude
begin

text \<open>
  IEEE double arithmetic where a result depends on its rounding. A finite double is a rational;
  an operation on two doubles is the exact operation followed by \<open>to_double\<close>, which rounds to 53
  significant bits, ties to even. The magnitudes the modelled code reaches stay far inside the
  exponent range, so overflow, underflow and negative zero are left out.
\<close>

fun bit_count :: "nat \<Rightarrow> nat" where
  "bit_count n = (if n = 0 then 0 else Suc (bit_count (n div 2)))"

declare bit_count.simps [simp del]

definition pow2 :: "int \<Rightarrow> rat" where
  "pow2 e = (if e \<ge> 0 then 2 ^ nat e else 1 / 2 ^ nat (- e))"

text \<open>The nearest integer, ties to the even one.\<close>

definition round_even :: "rat \<Rightarrow> int" where
  "round_even q =
     (let f = \<lfloor>q\<rfloor>; d = q - of_int f
      in if d < 1 / 2 then f else if d > 1 / 2 then f + 1 else if even f then f else f + 1)"

text \<open>The exponent \<open>e\<close> for which a positive \<open>q\<close> has \<open>2 ^ 52 \<le> q / 2 ^ e < 2 ^ 53\<close>.\<close>

definition double_exponent :: "rat \<Rightarrow> int" where
  "double_exponent q =
     (let (a, b) = quotient_of q;
          e = int (bit_count (nat a)) - int (bit_count (nat b)) - 53
      in if q / pow2 e \<ge> 2 ^ 53 then e + 1 else e)"

definition to_double :: "rat \<Rightarrow> rat" where
  "to_double q =
     (if q = 0 then 0
      else let e = double_exponent \<bar>q\<bar>; m = round_even (\<bar>q\<bar> / pow2 e)
           in (if q < 0 then -1 else 1) * of_int m * pow2 e)"

definition fl_mult :: "rat \<Rightarrow> rat \<Rightarrow> rat" where "fl_mult x y = to_double (x * y)"
definition fl_div :: "rat \<Rightarrow> rat \<Rightarrow> rat" where "fl_div x y = to_double (x / y)"
definition fl_add :: "rat \<Rightarrow> rat \<Rightarrow> rat" where "fl_add x y = to_double (x + y)"

text \<open>\<open>x.toFixed(1)\<close> of a double that is not negative: the closest tenth, the larger one on a tie.\<close>

definition to_fixed_1 :: "rat \<Rightarrow> string" where
  "to_fixed_1 x = (let tenths = \<lfloor>x * 10 + 1 / 2\<rfloor> in show_int (tenths div 10) @ ''.'' @ show_int (tenths mod 10))"

lemma round_even_of_int [simp]: "round_even (of_int i) = i"
  by (simp add: round_even_def)

lemma round_even_mono:
  assumes "x \<le> y"
  shows "round_even x \<le> round_even y"
proof -
  have lo: "of_int (round_even q) \<le> q + 1 / 2" and hi: "q - 1 / 2 \<le> of_int (round_even q)" for q
    by (auto simp: round_even_def Let_def not_less; linarith)+
  show ?thesis
  proof (cases "\<lfloor>x\<rfloor> = \<lfloor>y\<rfloor>")
    case True
    with assms show ?thesis by (auto simp: round_even_def Let_def)
  next
    case False
    with assms have fl: "\<lfloor>x\<rfloor> + 1 \<le> \<lfloor>y\<rfloor>" using floor_mono [OF assms] by linarith
    have "round_even x \<le> \<lfloor>x\<rfloor> + 1" "\<lfloor>y\<rfloor> \<le> round_even y" by (auto simp: round_even_def Let_def)
    with fl show ?thesis by linarith
  qed
qed

lemma round_even_nonneg: "0 \<le> q \<Longrightarrow> 0 \<le> round_even q"
  using round_even_mono [of 0 q] round_even_of_int [of 0] by simp

lemma pow2_pos [simp]: "0 < pow2 e"
  by (simp add: pow2_def)

lemma pow2_nonneg [simp]: "0 \<le> pow2 e"
  by (rule less_imp_le) simp

lemma to_double_nonneg: "0 \<le> q \<Longrightarrow> 0 \<le> to_double q"
  by (auto simp: to_double_def Let_def intro!: mult_nonneg_nonneg round_even_nonneg)

section \<open>Rounding is monotone and keeps integers\<close>

lemma bit_count_bounds: "0 < n \<Longrightarrow> 2 ^ (bit_count n - 1) \<le> n \<and> n < 2 ^ bit_count n"
proof (induction n rule: bit_count.induct)
  case (1 n)
  have bc: "bit_count n = Suc (bit_count (n div 2))" using 1(2) by (subst bit_count.simps) simp
  show ?case
  proof (cases "n = 1")
    case True
    have "bit_count 0 = 0" by (subst bit_count.simps) simp
    with True bc show ?thesis by simp
  next
    case False
    with 1(2) have d: "0 < n div 2" by auto
    with 1(1) 1(2) have IH: "2 ^ (bit_count (n div 2) - 1) \<le> n div 2" "n div 2 < 2 ^ bit_count (n div 2)" by simp_all
    have "0 < bit_count (n div 2)" using d by (subst bit_count.simps) simp
    then have "(2::nat) ^ bit_count (n div 2) = 2 * 2 ^ (bit_count (n div 2) - 1)" by (metis Suc_diff_1 power_Suc)
    moreover have "2 * (n div 2) \<le> n" "n < 2 * (n div 2) + 2" by linarith+
    ultimately have "2 ^ bit_count (n div 2) \<le> n" "n < 2 * 2 ^ bit_count (n div 2)" using IH by linarith+
    then show ?thesis unfolding bc by simp
  qed
qed

lemma pow2_powi: "pow2 e = power_int 2 e"
  by (simp add: pow2_def power_int_def field_simps)

lemma pow2_add: "pow2 (a + b) = pow2 a * pow2 b"
  by (simp add: pow2_powi power_int_add)

lemma pow2_nonzero [simp]: "pow2 e \<noteq> 0"
  using pow2_pos [of e] by (metis less_irrefl)

lemma pow2_mono: "a \<le> b \<Longrightarrow> pow2 a \<le> pow2 b"
  by (simp add: pow2_powi power_int_increasing)

lemma pow2_nat: "pow2 (int n) = 2 ^ n"
  by (simp add: pow2_def)

lemma pow2_diff_nat: "pow2 (int a - int b) = 2 ^ a / 2 ^ b"
  by (simp add: pow2_powi power_int_diff)

text \<open>The exponent is the right one.\<close>

lemma double_exponent_spec:
  assumes q: "0 < q"
  shows "2 ^ 52 * pow2 (double_exponent q) \<le> q" and "q < 2 ^ 53 * pow2 (double_exponent q)"
proof -
  obtain a b where ab: "quotient_of q = (a, b)" by (cases "quotient_of q")
  then have b: "0 < b" and qab: "q = of_int a / of_int b" by (auto simp: quotient_of_denom_pos quotient_of_div)
  with q have a: "0 < a" by (simp add: zero_less_divide_iff)
  define i where "i = bit_count (nat a)"
  define j where "j = bit_count (nat b)"
  have i: "2 ^ (i - 1) \<le> nat a" "nat a < 2 ^ i" and j: "2 ^ (j - 1) \<le> nat b" "nat b < 2 ^ j"
    using bit_count_bounds [of "nat a"] bit_count_bounds [of "nat b"] a b by (auto simp: i_def j_def)
  have pos: "0 < i" "0 < j" using i(2) j(2) a b by (auto intro: ccontr simp: not_less)
  have ri: "2 ^ i \<le> 2 * (of_int a :: rat)" "(of_int a :: rat) < 2 ^ i"
  proof -
    have "of_nat (2 ^ (i - 1)) \<le> (of_nat (nat a) :: rat)" "(of_nat (nat a) :: rat) < of_nat (2 ^ i)"
      using i by (simp_all only: of_nat_le_iff of_nat_less_iff)
    moreover have "(2 :: rat) ^ i = 2 * 2 ^ (i - 1)" using pos by (metis Suc_diff_1 power_Suc)
    ultimately show "2 ^ i \<le> 2 * (of_int a :: rat)" "(of_int a :: rat) < 2 ^ i" using a by simp_all
  qed
  have rj: "2 ^ j \<le> 2 * (of_int b :: rat)" "(of_int b :: rat) < 2 ^ j"
  proof -
    have "of_nat (2 ^ (j - 1)) \<le> (of_nat (nat b) :: rat)" "(of_nat (nat b) :: rat) < of_nat (2 ^ j)"
      using j by (simp_all only: of_nat_le_iff of_nat_less_iff)
    moreover have "(2 :: rat) ^ j = 2 * 2 ^ (j - 1)" using pos by (metis Suc_diff_1 power_Suc)
    ultimately show "2 ^ j \<le> 2 * (of_int b :: rat)" "(of_int b :: rat) < 2 ^ j" using b by simp_all
  qed
  let ?e = "int i - int j - 53"
  let ?p = "2 ^ i / 2 ^ j :: rat"
  have bq: "(0 :: rat) < of_int b" using b by simp
  have lo: "?p / 2 \<le> q" and hi: "q < 2 * ?p"
  proof -
    have "2 ^ i * of_int b \<le> 2 * of_int a * (2 ^ j :: rat)"
      using mult_mono [OF ri(1) less_imp_le [OF rj(2)]] a bq by simp
    then show "?p / 2 \<le> q" using bq by (simp add: qab field_simps)
    have "of_int a * 2 ^ j < 2 ^ i * (2 * of_int b :: rat)"
      using mult_less_le_imp_less [OF ri(2) rj(1)] a by simp
    then show "q < 2 * ?p" using bq by (simp add: qab field_simps)
  qed
  have pe: "pow2 ?e = ?p / 2 ^ 53"
    using pow2_add [of "int i - int j" "-53"] pow2_diff_nat [of i j] by (simp add: pow2_def)
  have e: "double_exponent q = (if 2 ^ 53 \<le> q / pow2 ?e then ?e + 1 else ?e)"
    by (simp add: double_exponent_def ab Let_def i_def j_def)
  have p1: "pow2 (?e + 1) = 2 * pow2 ?e" using pow2_add [of ?e 1] by (simp add: pow2_def)
  have pp: "0 < pow2 ?e" by simp
  show "2 ^ 52 * pow2 (double_exponent q) \<le> q"
  proof (cases "2 ^ 53 \<le> q / pow2 ?e")
    case True
    then have "2 ^ 53 * pow2 ?e \<le> q" using pp by (simp add: pos_le_divide_eq)
    then show ?thesis unfolding e if_P [OF True] p1 by simp
  next
    case False
    then show ?thesis unfolding e if_not_P [OF False] using lo by (simp add: pe)
  qed
  show "q < 2 ^ 53 * pow2 (double_exponent q)"
  proof (cases "2 ^ 53 \<le> q / pow2 ?e")
    case True
    then show ?thesis unfolding e if_P [OF True] p1 using hi by (simp add: pe)
  next
    case False
    then have "q < 2 ^ 53 * pow2 ?e" using pp by (simp add: not_le pos_divide_less_eq)
    then show ?thesis unfolding e if_not_P [OF False] .
  qed
qed

lemma to_double_pos:
  "0 < q \<Longrightarrow> to_double q = of_int (round_even (q / pow2 (double_exponent q))) * pow2 (double_exponent q)"
  by (simp add: to_double_def Let_def)

lemma to_double_pos_bounds:
  assumes "0 < q"
  shows "2 ^ 52 * pow2 (double_exponent q) \<le> to_double q" and "to_double q \<le> 2 ^ 53 * pow2 (double_exponent q)"
proof -
  let ?e = "double_exponent q"
  have "2 ^ 52 \<le> q / pow2 ?e" "q / pow2 ?e \<le> 2 ^ 53"
    using double_exponent_spec [OF assms] by (simp_all add: pos_le_divide_eq pos_divide_le_eq)
  then have "round_even (of_int (2 ^ 52)) \<le> round_even (q / pow2 ?e)" "round_even (q / pow2 ?e) \<le> round_even (of_int (2 ^ 53))"
    by (intro round_even_mono; simp)+
  then have "2 ^ 52 \<le> round_even (q / pow2 ?e)" "round_even (q / pow2 ?e) \<le> 2 ^ 53"
    unfolding round_even_of_int .
  then have "(of_int (2 ^ 52) :: rat) \<le> of_int (round_even (q / pow2 ?e))" "(of_int (round_even (q / pow2 ?e)) :: rat) \<le> of_int (2 ^ 53)"
    unfolding of_int_le_iff .
  from this [THEN mult_right_mono, of "pow2 ?e"]
  show "2 ^ 52 * pow2 ?e \<le> to_double q" "to_double q \<le> 2 ^ 53 * pow2 ?e"
    by (simp_all add: to_double_pos [OF assms])
qed

lemma to_double_mono_pos:
  assumes "0 < q" and "q \<le> r"
  shows "to_double q \<le> to_double r"
proof -
  let ?d = "double_exponent q" and ?e = "double_exponent r"
  from assms have r: "0 < r" by simp
  consider "?d = ?e" | "?d < ?e" | "?e < ?d" by linarith
  then show ?thesis
  proof cases
    case 1
    have "q / pow2 ?e \<le> r / pow2 ?e" using assms by (simp add: divide_right_mono)
    then have "of_int (round_even (q / pow2 ?e)) \<le> (of_int (round_even (r / pow2 ?e)) :: rat)"
      by (simp add: round_even_mono)
    then show ?thesis unfolding to_double_pos [OF assms(1)] to_double_pos [OF r] 1
      by (rule mult_right_mono) simp
  next
    case 2
    then have "pow2 (?d + 1) \<le> pow2 ?e" by (intro pow2_mono) simp
    moreover have "pow2 (?d + 1) = 2 * pow2 ?d" using pow2_add [of ?d 1] by (simp add: pow2_def)
    ultimately have "2 ^ 53 * pow2 ?d \<le> 2 ^ 52 * pow2 ?e" by simp
    with to_double_pos_bounds [OF assms(1)] to_double_pos_bounds [OF r] show ?thesis by linarith
  next
    case 3
    then have "pow2 (?e + 1) \<le> pow2 ?d" by (intro pow2_mono) simp
    moreover have "pow2 (?e + 1) = 2 * pow2 ?e" using pow2_add [of ?e 1] by (simp add: pow2_def)
    ultimately have "2 ^ 53 * pow2 ?e \<le> 2 ^ 52 * pow2 ?d" by simp
    with double_exponent_spec [OF assms(1)] double_exponent_spec [OF r] assms(2) show ?thesis by linarith
  qed
qed

lemma to_double_0 [simp]: "to_double 0 = 0"
  by (simp add: to_double_def)

lemma to_double_mono: "0 \<le> q \<Longrightarrow> q \<le> r \<Longrightarrow> to_double q \<le> to_double r"
  using to_double_mono_pos [of q r] to_double_nonneg [of r] by (cases "q = 0") auto

text \<open>
  An integer below \<open>2 ^ 53\<close> over a power of two is a double, so rounding does not move a quantity past
  one.
\<close>

lemma div_pow2_nonpos: "k \<le> 0 \<Longrightarrow> of_int n / pow2 k = of_int (n * 2 ^ nat (- k))"
  by (cases "k = 0") (auto simp: pow2_def)

lemma to_double_dyadic:
  assumes "0 \<le> n" and "n < 2 ^ 53"
  shows "to_double (of_int n / 2 ^ m) = of_int n / 2 ^ m"
proof (cases "n = 0")
  case False
  let ?q = "of_int n / 2 ^ m :: rat"
  let ?e = "double_exponent ?q"
  from False assms have q: "0 < ?q" by simp
  have "?e + int m \<le> 0"
  proof (rule ccontr)
    assume "\<not> ?e + int m \<le> 0"
    then have "pow2 1 \<le> pow2 (?e + int m)" by (intro pow2_mono) simp
    then have "2 \<le> pow2 ?e * 2 ^ m" unfolding pow2_add pow2_nat by (simp add: pow2_def)
    then have "2 ^ 52 * 2 \<le> 2 ^ 52 * (pow2 ?e * 2 ^ m)" by (rule mult_left_mono) simp
    also have "\<dots> = 2 ^ 52 * pow2 ?e * 2 ^ m" by (simp only: mult.assoc)
    also have "\<dots> \<le> ?q * 2 ^ m" using double_exponent_spec(1) [OF q] by (intro mult_right_mono) simp_all
    finally have "of_int (2 ^ 53) \<le> (of_int n :: rat)" by simp
    then show False using assms(2) unfolding of_int_le_iff by simp
  qed
  moreover have "?q / pow2 ?e = of_int n / pow2 (?e + int m)" by (simp add: pow2_add pow2_nat)
  ultimately have "?q / pow2 ?e = of_int (n * 2 ^ nat (- (?e + int m)))" by (simp only: div_pow2_nonpos)
  then have "of_int (round_even (?q / pow2 ?e)) = ?q / pow2 ?e" by (metis round_even_of_int)
  then show ?thesis unfolding to_double_pos [OF q] by simp
qed simp

lemma to_double_of_int: "0 \<le> n \<Longrightarrow> n < 2 ^ 53 \<Longrightarrow> to_double (of_int n) = of_int n"
  using to_double_dyadic [of n 0] by simp

lemma to_double_neg: "q \<le> 0 \<Longrightarrow> to_double q \<le> 0"
  by (auto simp: to_double_def Let_def mult_le_0_iff
      intro!: mult_nonneg_nonneg round_even_nonneg divide_nonneg_pos divide_nonpos_pos)

lemma to_double_le_int: "0 \<le> q \<Longrightarrow> q \<le> of_int n \<Longrightarrow> n < 2 ^ 53 \<Longrightarrow> to_double q \<le> of_int n"
  using to_double_mono [of q "of_int n"] to_double_of_int [of n] by (metis of_int_0_le_iff order_trans)

lemma int_le_to_double: "0 \<le> n \<Longrightarrow> of_int n \<le> q \<Longrightarrow> n < 2 ^ 53 \<Longrightarrow> of_int n \<le> to_double q"
  using to_double_mono [of "of_int n" q] to_double_of_int [of n] by simp

lemma to_fixed_1_tests:
  "to_fixed_1 (fl_div 150 1000) = ''0.1''" "to_fixed_1 (fl_div 50 1000) = ''0.1''"
  by code_simp+

end
