(* ===== verification/Worker_Shutdown.thy ===== *)
theory Worker_Shutdown
  imports Monitors JS_Double
begin

text \<open>
  \<open>packages/runtime/src/worker-shutdown.ts\<close>, the contract of how a worker's process is retired, and
  \<open>agent/src/worker-shutdown.ts\<close>, which retires it. Untyped values are \<^typ>\<open>json\<close>; the closed
  vocabularies of the contract are datatypes with their wire words.
\<close>

section \<open>The vocabularies\<close>

definition WORKER_SHUTDOWN_SIGNALS :: "string list" where
  "WORKER_SHUTDOWN_SIGNALS = [''SIGTERM'', ''SIGINT'', ''SIGQUIT'', ''SIGHUP'', ''SIGUSR1'', ''SIGUSR2'']"

datatype rollout_policy = Overlap | NoOverlap

fun rollout_policy_text :: "rollout_policy \<Rightarrow> string" where
  "rollout_policy_text Overlap = ''overlap''"
| "rollout_policy_text NoOverlap = ''no_overlap''"

definition MIN_WORKER_SHUTDOWN_GRACE_PERIOD_SECONDS :: int where
  "MIN_WORKER_SHUTDOWN_GRACE_PERIOD_SECONDS = 1"
definition MAX_WORKER_SHUTDOWN_GRACE_PERIOD_SECONDS :: int where
  "MAX_WORKER_SHUTDOWN_GRACE_PERIOD_SECONDS = 3600"

record shutdown_policy =
  wp_signal :: "string option"
  wp_gracePeriodSeconds :: int
  wp_rolloutPolicy :: rollout_policy

definition DEFAULT_WORKER_SHUTDOWN_POLICY :: shutdown_policy where
  "DEFAULT_WORKER_SHUTDOWN_POLICY =
     \<lparr>wp_signal = None, wp_gracePeriodSeconds = 30, wp_rolloutPolicy = Overlap\<rparr>"

datatype shutdown_outcome = ExitedInTime | Forced | AlreadyStopped | Hung | Unconfirmed

fun outcome_text :: "shutdown_outcome \<Rightarrow> string" where
  "outcome_text ExitedInTime = ''exited''"
| "outcome_text Forced = ''forced''"
| "outcome_text AlreadyStopped = ''already_stopped''"
| "outcome_text Hung = ''hung''"
| "outcome_text Unconfirmed = ''unconfirmed''"

definition WORKER_SHUTDOWN_OUTCOMES :: "shutdown_outcome list" where
  "WORKER_SHUTDOWN_OUTCOMES = [ExitedInTime, Forced, AlreadyStopped, Hung, Unconfirmed]"

datatype shutdown_role = PreviousWorker | SurplusReplica | CandidateWorker

fun role_text :: "shutdown_role \<Rightarrow> string" where
  "role_text PreviousWorker = ''previous''"
| "role_text SurplusReplica = ''surplus''"
| "role_text CandidateWorker = ''candidate''"

definition WORKER_SHUTDOWN_ROLES :: "shutdown_role list" where
  "WORKER_SHUTDOWN_ROLES = [PreviousWorker, SurplusReplica, CandidateWorker]"

text \<open>The value of a vocabulary an untyped value names.\<close>

definition word_of :: "('a \<Rightarrow> string) \<Rightarrow> 'a list \<Rightarrow> json \<Rightarrow> 'a option" where
  "word_of text vocabulary v = find (\<lambda>x. v = JStr (text x)) vocabulary"

record 'n shutdown_report =
  ws_containerName :: 'n
  ws_role :: shutdown_role
  ws_signal :: string
  ws_gracePeriodSeconds :: int
  ws_outcome :: shutdown_outcome
  ws_exitCode :: "int option"
  ws_elapsedMs :: int

section \<open>Reading untyped values\<close>

definition isWorkerShutdownSignal :: "json \<Rightarrow> bool" where
  "isWorkerShutdownSignal v \<longleftrightarrow> v \<in> JStr ` set WORKER_SHUTDOWN_SIGNALS"

definition is_upper :: "char \<Rightarrow> bool" where
  "is_upper c \<longleftrightarrow> 65 \<le> (of_char c :: nat) \<and> (of_char c :: nat) \<le> 90"

text \<open>\<open>/^SIG[A-Z][A-Z0-9+]{0,15}$/\<close>.\<close>

definition is_signal_name :: "string \<Rightarrow> bool" where
  "is_signal_name s \<longleftrightarrow> prefix ''SIG'' s \<and>
     (case drop 3 s of
        [] \<Rightarrow> False
      | c # r \<Rightarrow> is_upper c \<and> length r \<le> 15 \<and>
          list_all (\<lambda>d. is_upper d \<or> is_digit d \<or> d = CHR ''+'') r)"

fun isWorkerStopSignalName :: "json \<Rightarrow> bool" where
  "isWorkerStopSignalName (JStr s) = is_signal_name s"
| "isWorkerStopSignalName _ = False"

definition isWorkerRolloutPolicy :: "json \<Rightarrow> rollout_policy option" where
  "isWorkerRolloutPolicy v = word_of rollout_policy_text [Overlap, NoOverlap] v"

text \<open>The whole number of seconds a valid grace period is.\<close>

definition isWorkerShutdownGracePeriodSeconds :: "json \<Rightarrow> int option" where
  "isWorkerShutdownGracePeriodSeconds v =
     (case json_int v of
        None \<Rightarrow> None
      | Some s \<Rightarrow> if s \<ge> MIN_WORKER_SHUTDOWN_GRACE_PERIOD_SECONDS
                   \<and> s \<le> MAX_WORKER_SHUTDOWN_GRACE_PERIOD_SECONDS then Some s else None)"

fun nullable_signal :: "json \<Rightarrow> string option option" where
  "nullable_signal JNull = Some None"
| "nullable_signal (JStr s) = (if isWorkerShutdownSignal (JStr s) then Some (Some s) else None)"
| "nullable_signal _ = None"

fun parseWorkerShutdownPolicy :: "json \<Rightarrow> shutdown_policy option" where
  "parseWorkerShutdownPolicy (JObj r) =
     (case (nullable_signal (jprop r ''signal''),
            isWorkerShutdownGracePeriodSeconds (jprop r ''gracePeriodSeconds''),
            isWorkerRolloutPolicy (jprop r ''rolloutPolicy'')) of
        (Some sg, Some g, Some p) \<Rightarrow>
          Some \<lparr>wp_signal = sg, wp_gracePeriodSeconds = g, wp_rolloutPolicy = p\<rparr>
      | _ \<Rightarrow> None)"
| "parseWorkerShutdownPolicy _ = None"

fun nullable_int :: "json \<Rightarrow> int option option" where
  "nullable_int JNull = Some None"
| "nullable_int v = (case json_int v of None \<Rightarrow> None | Some i \<Rightarrow> Some (Some i))"

text \<open>\<open>Math.round\<close> of a finite number that is not negative.\<close>

fun elapsed_of :: "json \<Rightarrow> int option" where
  "elapsed_of (JNum (Fin q)) = (if q < 0 then None else Some \<lfloor>q + 1 / 2\<rfloor>)"
| "elapsed_of _ = None"

fun parseWorkerShutdownReport :: "json \<Rightarrow> string shutdown_report option" where
  "parseWorkerShutdownReport (JObj r) =
     (case (json_str (jprop r ''containerName''), word_of role_text WORKER_SHUTDOWN_ROLES (jprop r ''role''),
            json_str (jprop r ''signal''), isWorkerShutdownGracePeriodSeconds (jprop r ''gracePeriodSeconds''),
            word_of outcome_text WORKER_SHUTDOWN_OUTCOMES (jprop r ''outcome''),
            nullable_int (jprop r ''exitCode''), elapsed_of (jprop r ''elapsedMs'')) of
        (Some name, Some role, Some signal, Some g, Some out, Some code, Some ms) \<Rightarrow>
          if name = [] \<or> \<not> isWorkerStopSignalName (JStr signal) then None
          else Some \<lparr>ws_containerName = name, ws_role = role, ws_signal = signal,
                 ws_gracePeriodSeconds = g, ws_outcome = out, ws_exitCode = code, ws_elapsedMs = ms\<rparr>
      | _ \<Rightarrow> None)"
| "parseWorkerShutdownReport _ = None"

fun parseWorkerShutdownReports :: "json \<Rightarrow> string shutdown_report list" where
  "parseWorkerShutdownReports (JArr vs) = List.map_filter parseWorkerShutdownReport vs"
| "parseWorkerShutdownReports _ = []"

definition with_name :: "'n \<Rightarrow> 'm shutdown_report \<Rightarrow> 'n shutdown_report" where
  "with_name n r = \<lparr>ws_containerName = n, ws_role = ws_role r, ws_signal = ws_signal r,
     ws_gracePeriodSeconds = ws_gracePeriodSeconds r, ws_outcome = ws_outcome r,
     ws_exitCode = ws_exitCode r, ws_elapsedMs = ws_elapsedMs r\<rparr>"

text \<open>The fields of the result, each present only when the rollout has it; a policy may be \<open>null\<close>.\<close>

definition sanitizeWorkerRolloutShutdownFields ::
    "(string \<times> json) list \<Rightarrow> (string \<Rightarrow> 'n) \<Rightarrow>
     shutdown_policy option option \<times> 'n shutdown_report list option" where
  "sanitizeWorkerRolloutShutdownFields rollout redactContainerName =
     (if jhas rollout ''policy'' then Some (parseWorkerShutdownPolicy (jprop rollout ''policy'')) else None,
      if jhas rollout ''shutdowns''
      then Some (map (\<lambda>r. with_name (redactContainerName (ws_containerName r)) r)
             (parseWorkerShutdownReports (jprop rollout ''shutdowns'')))
      else None)"

section \<open>The warning of a rollout\<close>

fun ROLE_NOUNS :: "shutdown_role \<Rightarrow> string \<times> string" where
  "ROLE_NOUNS PreviousWorker = (''Previous worker'', ''Previous workers'')"
| "ROLE_NOUNS SurplusReplica = (''Retired replica'', ''Retired replicas'')"
| "ROLE_NOUNS CandidateWorker = (''Leftover candidate'', ''Leftover candidates'')"

definition names_of :: "shutdown_role \<Rightarrow> string shutdown_report list \<Rightarrow> string list" where
  "names_of role reports = map ws_containerName (filter (\<lambda>r. ws_role r = role) reports)"

definition container_groups :: "string shutdown_report list \<Rightarrow> (shutdown_role \<times> string list) list" where
  "container_groups reports =
     filter (\<lambda>(role, names). names \<noteq> []) (map (\<lambda>role. (role, names_of role reports)) WORKER_SHUTDOWN_ROLES)"

definition describe_group :: "nat \<Rightarrow> shutdown_role \<times> string list \<Rightarrow> string" where
  "describe_group i g =
     (case g of (role, names) \<Rightarrow>
        let noun = (if length names = 1 then fst (ROLE_NOUNS role) else snd (ROLE_NOUNS role))
        in (if i = 0 then noun else to_lower noun) @ '' '' @ join '', '' names)"

definition describeContainers :: "string shutdown_report list \<Rightarrow> string" where
  "describeContainers reports =
     (let groups = container_groups reports
      in join '' and '' (map (\<lambda>i. describe_group i (groups ! i)) [0..<length groups]))"

definition hung_sentence :: "string shutdown_report list \<Rightarrow> string list" where
  "hung_sentence hung = (if hung = [] then [] else
     [describeContainers hung @ '' did not stop even after SIGKILL and may still be running on the server; remove it there or redeploy to retry.''])"

definition unconfirmed_sentence :: "string shutdown_report list \<Rightarrow> string list" where
  "unconfirmed_sentence unconfirmed = (if unconfirmed = [] then [] else
     [describeContainers unconfirmed @ '' could not be confirmed stopped because Docker returned an error, and may still be running on the server; remove it there or redeploy to retry.''])"

definition forced_sentence :: "string shutdown_report list \<Rightarrow> string list" where
  "forced_sentence forced = (case forced of [] \<Rightarrow> [] | first # _ \<Rightarrow>
     [describeContainers forced @ '' did not exit within '' @ show_int (ws_gracePeriodSeconds first) @ ''s of ''
        @ ws_signal first @ '' and '' @ (if length forced = 1 then ''was'' else ''were'')
        @ '' force-killed; an in-flight job may have been interrupted. Raise the shutdown grace period if jobs need longer to finish.''])"

definition of_outcome :: "shutdown_outcome \<Rightarrow> 'n shutdown_report list \<Rightarrow> 'n shutdown_report list" where
  "of_outcome out reports = filter (\<lambda>r. ws_outcome r = out) reports"

definition describeWorkerShutdownWarning :: "string shutdown_report list \<Rightarrow> string option" where
  "describeWorkerShutdownWarning reports =
     (let sentences = hung_sentence (of_outcome Hung reports) @ unconfirmed_sentence (of_outcome Unconfirmed reports)
            @ forced_sentence (of_outcome Forced reports)
      in if sentences = [] then None else Some (join '' '' sentences))"

section \<open>Stopping one container\<close>

definition WORKER_SHUTDOWN_POLL_INTERVAL_MS :: int where "WORKER_SHUTDOWN_POLL_INTERVAL_MS = 500"
definition WORKER_SHUTDOWN_KILL_CONFIRM_MS :: int where "WORKER_SHUTDOWN_KILL_CONFIRM_MS = 15000"

definition SIGNAL_NAMES_BY_NUMBER :: "(string \<times> string) list" where
  "SIGNAL_NAMES_BY_NUMBER = [(''1'', ''SIGHUP''), (''2'', ''SIGINT''), (''3'', ''SIGQUIT''), (''9'', ''SIGKILL''),
     (''10'', ''SIGUSR1''), (''12'', ''SIGUSR2''), (''15'', ''SIGTERM''), (''28'', ''SIGWINCH'')]"

definition resolveWorkerStopSignal :: "string option \<Rightarrow> string option \<Rightarrow> string" where
  "resolveWorkerStopSignal policySignal containerStopSignal =
     (case policySignal of
        Some s \<Rightarrow> s
      | None \<Rightarrow>
          let raw = to_upper (trim (case containerStopSignal of None \<Rightarrow> [] | Some s \<Rightarrow> s));
              named = (if raw \<noteq> [] \<and> list_all is_digit raw then map_of SIGNAL_NAMES_BY_NUMBER raw
                       else if prefix ''SIG'' raw then Some raw else Some (''SIG'' @ raw))
          in case named of
               Some n \<Rightarrow> if isWorkerStopSignalName (JStr n) then n else ''SIGTERM''
             | None \<Rightarrow> ''SIGTERM'')"

record running_state =
  rs_running :: bool
  rs_exitCode :: "int option"
  rs_stopSignal :: "string option"

definition readRunningState :: "'w docker \<Rightarrow> string \<Rightarrow> ('w, running_state) io" where
  "readRunningState docker identifier =
     io_bind (inspectContainer docker identifier) (\<lambda>i. io_return (case i of
       None \<Rightarrow> \<lparr>rs_running = False, rs_exitCode = None, rs_stopSignal = None\<rparr>
     | Some c \<Rightarrow> \<lparr>rs_running = (state_of cs_Running c = Some True), rs_exitCode = state_of cs_ExitCode c,
                  rs_stopSignal = ci_StopSignal c\<rparr>))"

text \<open>\<^term>\<open>Some code\<close> once stopped, \<^const>\<open>None\<close> when the deadline passed.\<close>

definition wait_round ::
    "'w docker \<Rightarrow> string \<Rightarrow> int \<Rightarrow> 'w clock \<Rightarrow> unit \<Rightarrow> ('w, unit + int option option) io" where
  "wait_round docker identifier deadline clk = (\<lambda>_.
     io_bind (readRunningState docker identifier) (\<lambda>s.
       if \<not> rs_running s then io_return (Inr (Some (rs_exitCode s)))
       else io_bind (io_now clk) (\<lambda>t.
         if deadline - t \<le> 0 then io_return (Inr None)
         else io_bind (wait clk (min WORKER_SHUTDOWN_POLL_INTERVAL_MS (deadline - t))) (\<lambda>_.
           io_return (Inl ())))))"

definition waitUntilStopped ::
    "'w docker \<Rightarrow> string \<Rightarrow> int \<Rightarrow> 'w clock \<Rightarrow> ('w, int option option) io" where
  "waitUntilStopped docker identifier deadline clk = io_loop (wait_round docker identifier deadline clk) ()"

record shutdown_input =
  si_identifier :: string
  si_containerName :: string
  si_role :: shutdown_role
  si_signal :: "string option"
  si_gracePeriodSeconds :: int

text \<open>The closure \<open>report\<close>: it reads the clock.\<close>

definition shutdown_report_of ::
    "'w clock \<Rightarrow> shutdown_input \<Rightarrow> int \<Rightarrow> string \<Rightarrow> shutdown_outcome \<Rightarrow> int option \<Rightarrow>
     ('w, string shutdown_report) io" where
  "shutdown_report_of clk input startedAt signal outcome exitCode =
     io_bind (io_now clk) (\<lambda>t. io_return
       \<lparr>ws_containerName = si_containerName input, ws_role = si_role input, ws_signal = signal,
        ws_gracePeriodSeconds = si_gracePeriodSeconds input, ws_outcome = outcome, ws_exitCode = exitCode,
        ws_elapsedMs = max 0 (t - startedAt)\<rparr>)"

fun gone_meanwhile :: "js_error \<Rightarrow> bool" where
  "gone_meanwhile (DockerApiError s _) = (s = 404)"
| "gone_meanwhile _ = False"

text \<open>The two halves of a stop: the grace period after the signal, and what follows when it runs out.\<close>

definition kill_and_confirm :: "'w docker \<Rightarrow> 'w clock \<Rightarrow> shutdown_input \<Rightarrow> int \<Rightarrow> string \<Rightarrow>
    ('w, string shutdown_report) io" where
  "kill_and_confirm docker clk input startedAt signal =
     io_bind (killContainer docker (si_identifier input) ''SIGKILL'') (\<lambda>_.
     io_bind (io_now clk) (\<lambda>t.
     io_bind (waitUntilStopped docker (si_identifier input) (t + WORKER_SHUTDOWN_KILL_CONFIRM_MS) clk)
       (\<lambda>forced. case forced of
          Some code \<Rightarrow> shutdown_report_of clk input startedAt signal Forced code
        | None \<Rightarrow> shutdown_report_of clk input startedAt signal Hung None)))"

definition signal_and_wait :: "'w docker \<Rightarrow> 'w clock \<Rightarrow> shutdown_input \<Rightarrow> int \<Rightarrow> string \<Rightarrow>
    ('w, string shutdown_report) io" where
  "signal_and_wait docker clk input startedAt signal =
     io_bind (killContainer docker (si_identifier input) signal) (\<lambda>_.
     io_bind (waitUntilStopped docker (si_identifier input)
         (startedAt + si_gracePeriodSeconds input * 1000) clk) (\<lambda>graceful.
     case graceful of
       Some code \<Rightarrow> shutdown_report_of clk input startedAt signal ExitedInTime code
     | None \<Rightarrow> kill_and_confirm docker clk input startedAt signal))"

text \<open>What follows the first look at the container.\<close>

definition stop_from :: "'w docker \<Rightarrow> 'w clock \<Rightarrow> shutdown_input \<Rightarrow> int \<Rightarrow> running_state \<Rightarrow>
    ('w, string shutdown_report) io" where
  "stop_from docker clk input startedAt initial =
     (let signal = resolveWorkerStopSignal (si_signal input) (rs_stopSignal initial);
          report = shutdown_report_of clk input startedAt signal
      in if \<not> rs_running initial then report AlreadyStopped (rs_exitCode initial)
         else io_bind (io_try (updateContainerRestartPolicy docker (si_identifier input) ''no'')) (\<lambda>u.
           case u of
             Inl e \<Rightarrow> if gone_meanwhile e then report AlreadyStopped None else io_throw e
           | Inr _ \<Rightarrow> signal_and_wait docker clk input startedAt signal))"

definition stopWorkerContainerGracefully ::
    "'w docker \<Rightarrow> 'w clock \<Rightarrow> shutdown_input \<Rightarrow> ('w, string shutdown_report) io" where
  "stopWorkerContainerGracefully docker clk input =
     io_bind (io_now clk) (\<lambda>startedAt.
     io_bind (readRunningState docker (si_identifier input)) (stop_from docker clk input startedAt))"

text \<open>\<open>(elapsedMs / 1000).toFixed(1)\<close>.\<close>

definition seconds_text :: "int \<Rightarrow> string" where
  "seconds_text ms = to_fixed_1 (fl_div (of_int ms) 1000)"

definition describeWorkerShutdownReport :: "string shutdown_report \<Rightarrow> string" where
  "describeWorkerShutdownReport r =
     (let exit = (case ws_exitCode r of None \<Rightarrow> [] | Some c \<Rightarrow> '' (exit code '' @ show_int c @ '')'')
      in ''Worker '' @ ws_containerName r @ (case ws_outcome r of
          AlreadyStopped \<Rightarrow> '' was already stopped''
        | ExitedInTime \<Rightarrow> '' exited '' @ seconds_text (ws_elapsedMs r) @ ''s after '' @ ws_signal r @ exit
        | Forced \<Rightarrow> '' did not exit within '' @ show_int (ws_gracePeriodSeconds r) @ ''s of '' @ ws_signal r
            @ '' and was force-killed'' @ exit
        | Hung \<Rightarrow> '' is still running after SIGKILL''
        | Unconfirmed \<Rightarrow> '' could not be confirmed stopped (Docker returned an error)''))"

end
