(* ===== verification/Worker_Shutdown_Props.thy ===== *)
theory Worker_Shutdown_Props
  imports Worker_Shutdown
begin

text \<open>
  What the retirement of workers guarantees: the wire contract is closed (what is read is valid, and
  what is valid reads back), a stop changes the daemon in one fixed order and gives the process its
  whole grace period, it ends within the bound its comment states, and a rollout's warning names
  every worker that may still run.
\<close>

section \<open>The wire contract\<close>

definition policy_value :: "shutdown_policy \<Rightarrow> json" where
  "policy_value p = JObj
     [(''signal'', case wp_signal p of None \<Rightarrow> JNull | Some s \<Rightarrow> JStr s),
      (''gracePeriodSeconds'', jint (wp_gracePeriodSeconds p)),
      (''rolloutPolicy'', JStr (rollout_policy_text (wp_rolloutPolicy p)))]"

definition policy_valid :: "shutdown_policy \<Rightarrow> bool" where
  "policy_valid p \<longleftrightarrow> (case wp_signal p of None \<Rightarrow> True | Some s \<Rightarrow> s \<in> set WORKER_SHUTDOWN_SIGNALS)
     \<and> 1 \<le> wp_gracePeriodSeconds p \<and> wp_gracePeriodSeconds p \<le> 3600"

definition report_value :: "string shutdown_report \<Rightarrow> json" where
  "report_value r = JObj
     [(''containerName'', JStr (ws_containerName r)), (''role'', JStr (role_text (ws_role r))),
      (''signal'', JStr (ws_signal r)), (''gracePeriodSeconds'', jint (ws_gracePeriodSeconds r)),
      (''outcome'', JStr (outcome_text (ws_outcome r))),
      (''exitCode'', case ws_exitCode r of None \<Rightarrow> JNull | Some c \<Rightarrow> jint c),
      (''elapsedMs'', jint (ws_elapsedMs r))]"

definition report_valid :: "string shutdown_report \<Rightarrow> bool" where
  "report_valid r \<longleftrightarrow> ws_containerName r \<noteq> [] \<and> is_signal_name (ws_signal r)
     \<and> 1 \<le> ws_gracePeriodSeconds r \<and> ws_gracePeriodSeconds r \<le> 3600 \<and> 0 \<le> ws_elapsedMs r"

lemma word_of_text:
  "inj text \<Longrightarrow> x \<in> set vocabulary \<Longrightarrow> word_of text vocabulary (JStr (text x)) = Some x"
  by (induction vocabulary) (auto simp: word_of_def dest: injD)

lemma texts_inj: "inj rollout_policy_text" "inj outcome_text" "inj role_text"
proof -
  show "inj rollout_policy_text"
  proof (rule injI)
    fix x y assume "rollout_policy_text x = rollout_policy_text y"
    then show "x = y" by (cases x; cases y) simp_all
  qed
  show "inj outcome_text"
  proof (rule injI)
    fix x y assume "outcome_text x = outcome_text y"
    then show "x = y" by (cases x; cases y) simp_all
  qed
  show "inj role_text"
  proof (rule injI)
    fix x y assume "role_text x = role_text y"
    then show "x = y" by (cases x; cases y) simp_all
  qed
qed

lemma rollout_policy_reads_back [simp]: "isWorkerRolloutPolicy (JStr (rollout_policy_text p)) = Some p"
  unfolding isWorkerRolloutPolicy_def by (rule word_of_text) (cases p; simp add: texts_inj)+

lemma outcome_reads_back [simp]: "word_of outcome_text WORKER_SHUTDOWN_OUTCOMES (JStr (outcome_text out)) = Some out"
  by (rule word_of_text) (cases out; simp add: texts_inj WORKER_SHUTDOWN_OUTCOMES_def)+

lemma role_reads_back [simp]: "word_of role_text WORKER_SHUTDOWN_ROLES (JStr (role_text role)) = Some role"
  by (rule word_of_text) (cases role; simp add: texts_inj WORKER_SHUTDOWN_ROLES_def)+

lemma grace_periodD:
  "isWorkerShutdownGracePeriodSeconds v = Some g \<Longrightarrow> 1 \<le> g \<and> g \<le> 3600"
  by (auto simp: isWorkerShutdownGracePeriodSeconds_def MIN_WORKER_SHUTDOWN_GRACE_PERIOD_SECONDS_def
      MAX_WORKER_SHUTDOWN_GRACE_PERIOD_SECONDS_def split: option.splits if_splits)

lemma grace_period_jint [simp]: "1 \<le> g \<Longrightarrow> g \<le> 3600 \<Longrightarrow> isWorkerShutdownGracePeriodSeconds (jint g) = Some g"
  by (simp add: isWorkerShutdownGracePeriodSeconds_def MIN_WORKER_SHUTDOWN_GRACE_PERIOD_SECONDS_def
      MAX_WORKER_SHUTDOWN_GRACE_PERIOD_SECONDS_def)

lemma signal_iff [simp]: "isWorkerShutdownSignal (JStr s) \<longleftrightarrow> s \<in> set WORKER_SHUTDOWN_SIGNALS"
  by (auto simp: isWorkerShutdownSignal_def)

lemma nullable_signal_valid:
  "nullable_signal v = Some sg \<Longrightarrow> (case sg of None \<Rightarrow> True | Some s \<Rightarrow> s \<in> set WORKER_SHUTDOWN_SIGNALS)"
  by (cases v rule: nullable_signal.cases) (auto split: if_splits)

lemma parse_policy_valid: "parseWorkerShutdownPolicy v = Some p \<Longrightarrow> policy_valid p"
  by (cases v rule: parseWorkerShutdownPolicy.cases)
    (auto simp: policy_valid_def split: option.splits dest: nullable_signal_valid grace_periodD)

lemma parse_policy_value: "policy_valid p \<Longrightarrow> parseWorkerShutdownPolicy (policy_value p) = Some p"
  by (cases "wp_signal p") (simp_all add: policy_value_def policy_valid_def)

lemma elapsed_nonneg: "elapsed_of v = Some ms \<Longrightarrow> 0 \<le> ms"
  by (cases v rule: elapsed_of.cases) (auto split: if_splits)

lemma elapsed_of_jint [simp]: "0 \<le> ms \<Longrightarrow> elapsed_of (jint ms) = Some ms"
proof -
  assume ms: "0 \<le> ms"
  have "\<lfloor>(of_int ms :: rat) + 1 / 2\<rfloor> = ms" by (simp add: floor_eq_iff)
  with ms show ?thesis by (simp add: jint_def)
qed

lemma nullable_int_value [simp]: "nullable_int (case c of None \<Rightarrow> JNull | Some i \<Rightarrow> jint i) = Some c"
  by (cases c) (simp_all add: jint_def)

lemma parse_report_valid: "parseWorkerShutdownReport v = Some r \<Longrightarrow> report_valid r"
  by (cases v rule: parseWorkerShutdownReport.cases)
    (auto simp: report_valid_def split: option.splits if_splits dest: elapsed_nonneg grace_periodD)

lemma parse_report_value: "report_valid r \<Longrightarrow> parseWorkerShutdownReport (report_value r) = Some r"
  by (simp add: report_value_def report_valid_def)

lemma parse_reports_values: "\<forall>r \<in> set rs. report_valid r \<Longrightarrow> parseWorkerShutdownReports (JArr (map report_value rs)) = rs"
  by (induction rs) (simp_all add: parse_report_value List.map_filter_simps)

lemma parse_reports_valid: "r \<in> set (parseWorkerShutdownReports v) \<Longrightarrow> report_valid r"
  by (cases v rule: parseWorkerShutdownReports.cases) (auto simp: List.map_filter_def dest: parse_report_valid)

text \<open>The shutdown policy's wire form is closed: whatever value is parsed, an accepted policy has a known
  signal (or none) and a whole grace period of 1 to 3600 seconds, and exactly those policies read
  back from their own wire form.\<close>

theorem shutdown_policy_roundtrip:
  "(parseWorkerShutdownPolicy (policy_value p) = Some p \<longleftrightarrow> policy_valid p) \<and>
   (parseWorkerShutdownPolicy v = Some p \<longrightarrow> policy_valid p)"
  using parse_policy_valid parse_policy_value by blast

lemma shutdown_policy_roundtrip_witness:
  "parseWorkerShutdownPolicy (policy_value DEFAULT_WORKER_SHUTDOWN_POLICY) = Some DEFAULT_WORKER_SHUTDOWN_POLICY
   \<and> policy_valid DEFAULT_WORKER_SHUTDOWN_POLICY"
  using shutdown_policy_roundtrip [of DEFAULT_WORKER_SHUTDOWN_POLICY "policy_value DEFAULT_WORKER_SHUTDOWN_POLICY"]
  by (simp add: policy_valid_def DEFAULT_WORKER_SHUTDOWN_POLICY_def)

text \<open>The wire form of what sanitising answered.\<close>

definition sanitized_value ::
    "shutdown_policy option option \<times> string shutdown_report list option \<Rightarrow> (string \<times> json) list" where
  "sanitized_value r =
     (case fst r of None \<Rightarrow> [] | Some p \<Rightarrow> [(''policy'', case p of None \<Rightarrow> JNull | Some q \<Rightarrow> policy_value q)]) @
     (case snd r of None \<Rightarrow> [] | Some rs \<Rightarrow> [(''shutdowns'', JArr (map report_value rs))])"

lemma with_name_same [simp]: "with_name (ws_containerName r) r = (r :: 'n shutdown_report)"
  by (simp add: with_name_def)

text \<open>Sanitising a rollout's shutdown fields is idempotent: whatever an agent sends, the second end of the
  protocol reads exactly what the first one let through, and everything let through is valid.\<close>

theorem sanitize_rollout_idempotent:
  "sanitizeWorkerRolloutShutdownFields
     (sanitized_value (sanitizeWorkerRolloutShutdownFields rollout (\<lambda>name. name))) (\<lambda>name. name)
   = sanitizeWorkerRolloutShutdownFields rollout (\<lambda>name. name)"
proof -
  let ?rs = "parseWorkerShutdownReports (jprop rollout ''shutdowns'')"
  have "\<forall>r \<in> set ?rs. report_valid r" using parse_reports_valid by blast
  then have rs: "parseWorkerShutdownReports (JArr (map report_value ?rs)) = ?rs" by (rule parse_reports_values)
  have p: "parseWorkerShutdownPolicy (case parseWorkerShutdownPolicy v of None \<Rightarrow> JNull | Some q \<Rightarrow> policy_value q)
      = parseWorkerShutdownPolicy v" for v
    by (cases "parseWorkerShutdownPolicy v") (auto simp: parse_policy_value dest: parse_policy_valid)
  show ?thesis
    by (simp add: sanitizeWorkerRolloutShutdownFields_def sanitized_value_def p rs del: parseWorkerShutdownReports.simps)
qed

section \<open>The signal\<close>

lemma policy_signals_named: "s \<in> set WORKER_SHUTDOWN_SIGNALS \<Longrightarrow> is_signal_name s"
proof -
  have "list_all is_signal_name WORKER_SHUTDOWN_SIGNALS" by code_simp
  then show "s \<in> set WORKER_SHUTDOWN_SIGNALS \<Longrightarrow> is_signal_name s" by (simp add: list_all_iff)
qed

lemma resolved_signal_named:
  assumes "case policy of None \<Rightarrow> True | Some s \<Rightarrow> s \<in> set WORKER_SHUTDOWN_SIGNALS"
  shows "is_signal_name (resolveWorkerStopSignal policy stopSignal)"
proof -
  have "is_signal_name ''SIGTERM''" by (rule policy_signals_named) (simp add: WORKER_SHUTDOWN_SIGNALS_def)
  with assms show ?thesis
    by (auto simp: resolveWorkerStopSignal_def Let_def policy_signals_named split: option.splits)
qed

section \<open>The order of a stop\<close>

text \<open>A monitor that collects the calls that change the daemon.\<close>

fun collect :: "docker_call list \<Rightarrow> docker_call \<Rightarrow> docker_call list option" where
  "collect s c = Some (if reads_only c then s else s @ [c])"

definition mutations :: "docker_call list \<Rightarrow> docker_call list" where
  "mutations k = filter (\<lambda>c. \<not> reads_only c) k"

lemma run_collect: "run_monitor collect s k = Some (s @ mutations k)"
  by (induction k arbitrary: s) (auto simp: mutations_def)

text \<open>How the calls that change the daemon match the outcome of a stop.\<close>

definition stop_calls :: "string \<Rightarrow> js_error + string shutdown_report \<Rightarrow> docker_call list \<Rightarrow> bool" where
  "stop_calls i r calls \<longleftrightarrow>
     (case r of
        Inl _ \<Rightarrow> \<exists>sig. prefix calls [UpdatePolicy i ''no'', Kill i sig, Kill i ''SIGKILL'']
      | Inr rep \<Rightarrow>
          (case ws_outcome rep of
             AlreadyStopped \<Rightarrow> calls = [] \<or> calls = [UpdatePolicy i ''no'']
           | ExitedInTime \<Rightarrow> calls = [UpdatePolicy i ''no'', Kill i (ws_signal rep)]
           | Unconfirmed \<Rightarrow> False
           | _ \<Rightarrow> calls = [UpdatePolicy i ''no'', Kill i (ws_signal rep), Kill i ''SIGKILL'']))"

lemma readRunningState_reads [logs_rules]: "logs_all reads_only (readRunningState (traced d) i)"
  by (auto simp: readRunningState_def intro!: logs_rules)

lemma waitUntilStopped_reads [logs_rules]: "logs_all reads_only (waitUntilStopped (traced d) i dl (traced_clock c))"
  by (auto simp: waitUntilStopped_def wait_round_def intro!: logs_rules)

lemma obeys_collect_reads:
  assumes "logs_all reads_only m"
  shows "obeys collect s m (\<lambda>r s'. s' = s)"
  by (rule obeys_neutral) (use assms in \<open>auto elim!: logs_all_mono\<close>)

lemma obeys_bind_reads:
  assumes "logs_all reads_only m" and "\<And>x. obeys collect s (f x) Q" and "\<And>e. Q (Inl e) s"
  shows "obeys collect s (io_bind m f) Q"
  by (rule obeys_bind [OF obeys_collect_reads [OF assms(1)]]) (use assms in auto)

lemma report_obeys:
  assumes "\<And>t. Q (Inr \<lparr>ws_containerName = si_containerName input, ws_role = si_role input, ws_signal = sig,
        ws_gracePeriodSeconds = si_gracePeriodSeconds input, ws_outcome = out, ws_exitCode = code,
        ws_elapsedMs = max 0 (t - t0)\<rparr>) s" and "\<And>e. Q (Inl e) s"
  shows "obeys collect s (shutdown_report_of (traced_clock c) input t0 sig out code) Q"
  unfolding shutdown_report_of_def
  by (intro obeys_bind_reads obeys_return) (use assms in \<open>auto intro!: logs_rules\<close>)

lemma kill_obeys:
  "obeys collect s (killContainer (traced d) i sig) (\<lambda>_ s'. s' = s @ [Kill i sig])"
  by (simp add: obeys_call)

lemma kill_and_confirm_obeys:
  "obeys collect [UpdatePolicy (si_identifier input) ''no'', Kill (si_identifier input) sig]
     (kill_and_confirm (traced d) (traced_clock c) input t0 sig) (stop_calls (si_identifier input))"
  unfolding kill_and_confirm_def
proof (rule obeys_bind [OF kill_obeys]; (simp del: traced_simps)?; (intro obeys_bind_reads waitUntilStopped_reads)?)
  fix x :: "int option option"
  let ?i = "si_identifier input"
  show "obeys collect [UpdatePolicy ?i ''no'', Kill ?i sig, Kill ?i ''SIGKILL'']
      (case x of Some code \<Rightarrow> shutdown_report_of (traced_clock c) input t0 sig Forced code
       | None \<Rightarrow> shutdown_report_of (traced_clock c) input t0 sig Hung None) (stop_calls ?i)"
    by (cases x) (auto intro!: report_obeys simp: stop_calls_def)
qed (auto intro!: logs_rules simp: stop_calls_def)

lemma signal_and_wait_obeys:
  "obeys collect [UpdatePolicy (si_identifier input) ''no'']
     (signal_and_wait (traced d) (traced_clock c) input t0 sig) (stop_calls (si_identifier input))"
  unfolding signal_and_wait_def
proof (rule obeys_bind [OF kill_obeys]; (simp del: traced_simps)?; (intro obeys_bind_reads waitUntilStopped_reads)?)
  fix x :: "int option option"
  let ?i = "si_identifier input"
  show "obeys collect [UpdatePolicy ?i ''no'', Kill ?i sig]
      (case x of Some code \<Rightarrow> shutdown_report_of (traced_clock c) input t0 sig ExitedInTime code
       | None \<Rightarrow> kill_and_confirm (traced d) (traced_clock c) input t0 sig) (stop_calls ?i)"
    by (cases x) (auto intro!: report_obeys kill_and_confirm_obeys simp: stop_calls_def)
qed (auto simp: stop_calls_def prefix_def)

lemma stop_from_obeys:
  "obeys collect [] (stop_from (traced d) (traced_clock c) input t0 initial) (stop_calls (si_identifier input))"
proof -
  let ?i = "si_identifier input"
  have update: "obeys collect [] (io_try (updateContainerRestartPolicy (traced d) ?i ''no''))
      (\<lambda>_ s. s = [UpdatePolicy ?i ''no''])"
    by (auto intro!: obeys_try [where P = "\<lambda>_ s. s = [UpdatePolicy ?i ''no'']"] obeys_call)
  show ?thesis
    by (auto intro!: report_obeys obeys_bind [OF update] obeys_throw signal_and_wait_obeys
        simp: stop_from_def Let_def stop_calls_def prefix_def simp del: traced_simps split: sum.splits)
qed

lemma stop_obeys:
  "obeys collect [] (stopWorkerContainerGracefully (traced d) (traced_clock c) input) (stop_calls (si_identifier input))"
  unfolding stopWorkerContainerGracefully_def
  by (intro obeys_bind_reads readRunningState_reads stop_from_obeys)
    (auto intro!: logs_rules simp: stop_calls_def)

text \<open>C6 A stop changes the daemon in one fixed order, whatever the daemon answers: first the restart policy is
  switched to \<open>no\<close>, then the stop signal is sent once, then \<open>SIGKILL\<close> once, and a report says exactly
  how far it went: no signal was sent to a container reported already stopped, \<open>SIGKILL\<close> was not sent
  to one reported exited, and was sent to one reported forced or hung.\<close>

theorem stop_worker_order:
  assumes "stopWorkerContainerGracefully (traced d) (traced_clock c) input (w, []) = Some (r, (w', k))"
  shows "stop_calls (si_identifier input) r (mutations k)"
  using obeys_final [OF stop_obeys assms] by (auto simp: run_collect)

text \<open>A worker that ignores its signal for 700 ms, and one that never stops.\<close>

definition running_until :: "int \<Rightarrow> int docker" where
  "running_until t = \<lparr>inspectContainer = (\<lambda>i w. Some (Inr (Some ((bare_inspection i)\<lparr>ci_State := Some
       (no_state\<lparr>cs_Running := Some (w < t), cs_ExitCode := Some 0\<rparr>)\<rparr>)), w)),
     listContainersByLabels = (\<lambda>_. io_return []), listManagedContainers = io_return [],
     countContainerExits = (\<lambda>_ _ _. io_return 0), containerLogs = (\<lambda>_. io_return []),
     containerLogEntries = (\<lambda>_ _. io_return []), createContainer = (\<lambda>s. io_return (sp_name s)),
     startContainer = (\<lambda>_. io_return ()), waitContainer = (\<lambda>_ _. io_return 0),
     stopContainer = (\<lambda>_ _. io_return ()), killContainer = (\<lambda>_ _. io_return True),
     removeContainer = (\<lambda>_ _. io_return ()), updateContainerRestartPolicy = (\<lambda>_ _. io_return ()),
     inspectVolume = (\<lambda>_. io_return True), createVolume = (\<lambda>_ _. io_return ()),
     removeVolume = (\<lambda>_ _. io_return ())\<rparr>"

definition stop_input :: shutdown_input where
  "stop_input = \<lparr>si_identifier = ''c'', si_containerName = ''worker-0'', si_role = PreviousWorker,
     si_signal = Some ''SIGINT'', si_gracePeriodSeconds = 1\<rparr>"

lemma stop_in_time:
  "map_option (\<lambda>(r, (w, k)). (map_sum id ws_outcome r, mutations k))
     (stopWorkerContainerGracefully (traced (running_until 700)) (traced_clock int_clock) stop_input (0, []))
   = Some (Inr ExitedInTime, [UpdatePolicy ''c'' ''no'', Kill ''c'' ''SIGINT''])"
  by code_simp

lemma stop_worker_order_witness:
  "\<exists>r w' k. stopWorkerContainerGracefully (traced (running_until 700)) (traced_clock int_clock) stop_input (0, [])
     = Some (r, (w', k)) \<and> stop_calls ''c'' r (mutations k)"
proof -
  from stop_in_time obtain r w' k where
    run: "stopWorkerContainerGracefully (traced (running_until 700)) (traced_clock int_clock) stop_input (0, [])
      = Some (r, (w', k))" by auto
  from stop_worker_order [OF run] run show ?thesis by (auto simp: stop_input_def)
qed

lemma map_sum_Inr_iff: "map_sum f g x = Inr y \<longleftrightarrow> (\<exists>z. x = Inr z \<and> g z = y)"
  by (cases x) auto

section \<open>The grace period\<close>

text \<open>An operation during which the clock does not go back.\<close>

definition later :: "('w \<Rightarrow> int) \<Rightarrow> ('w, 'a) io \<Rightarrow> bool" where
  "later time m \<longleftrightarrow> (\<forall>w r w'. m w = Some (r, w') \<longrightarrow> time w \<le> time w')"

named_theorems later_rules

lemma laterD: "later time m \<Longrightarrow> m w = Some (r, w') \<Longrightarrow> time w \<le> time w'"
  by (auto simp: later_def)

lemma later_return [later_rules]: "later time (io_return x)"
  by (simp add: later_def)

lemma later_bind [later_rules]: "later time m \<Longrightarrow> (\<And>x. later time (f x)) \<Longrightarrow> later time (io_bind m f)"
  by (fastforce simp: later_def io_bind_Some_iff dest: order_trans)

lemma later_if [later_rules]: "later time m \<Longrightarrow> later time n \<Longrightarrow> later time (if b then m else n)"
  by simp

lemma later_now [later_rules]: "clock_advances time c \<Longrightarrow> later time (io_now c)"
  by (auto simp: later_def clock_advances_def io_now_def)

lemma later_wait [later_rules]: "clock_advances time c \<Longrightarrow> later time (wait c ms)"
  unfolding later_def
proof (intro allI impI)
  fix w r w' assume clk: "clock_advances time c" and w: "wait c ms w = Some (r, w')"
  obtain w2 where "wait c ms w = Some (Inr (), w2)" "time w2 \<ge> time w + max 0 ms"
    by (rule wait_advances [OF clk])
  with w show "time w \<le> time w'" by auto
qed

lemma io_now_Some:
  "clock_advances time c \<Longrightarrow> io_now c w = Some (r, w') \<Longrightarrow> r = Inr (time w) \<and> time w \<le> time w'"
  by (auto simp: io_now_def clock_advances_def)

lemma later_read [later_rules]:
  "(\<And>i. later time (inspectContainer d i)) \<Longrightarrow> later time (readRunningState d i)"
  unfolding readRunningState_def by (intro later_rules)

lemma waitUntilStopped_later:
  assumes clk: "clock_advances time c" and ins: "\<And>i. later time (inspectContainer d i)"
    and run: "waitUntilStopped d i dl c w = Some (r, w')"
  shows "time w \<le> time w' \<and> (r = Inr None \<longrightarrow> dl \<le> time w')"
  using run unfolding waitUntilStopped_def
proof (rule io_loop_partial [where I = "\<lambda>_ w1. time w \<le> time w1"])
  have body: "later time (wait_round d i dl c s)" for s
    unfolding wait_round_def by (auto intro!: later_rules assms)
  show "time w \<le> time w" by simp
  show "time w \<le> time w2" if "time w \<le> time w1" "wait_round d i dl c s w1 = Some (Inr (Inl s'), w2)" for s w1 s' w2
    using that laterD [OF body] by (meson order_trans)
  show "time w \<le> time w2 \<and> (Inr x = Inr None \<longrightarrow> dl \<le> time w2)"
    if "time w \<le> time w1" "wait_round d i dl c s w1 = Some (Inr (Inr x), w2)" for s w1 x w2
    using that laterD [OF body that(2)]
    by (auto simp: wait_round_def io_bind_Some_iff dest!: io_now_Some [OF clk] split: if_splits)
  show "time w \<le> time w2 \<and> (Inl e = Inr None \<longrightarrow> dl \<le> time w2)"
    if "time w \<le> time w1" "wait_round d i dl c s w1 = Some (Inl e, w2)" for s w1 e w2
    using that laterD [OF body that(2)] by auto
qed

lemma report_elapsed:
  assumes "clock_advances time c" and "shutdown_report_of c input t0 sig out code w = Some (Inr rep, w')"
  shows "ws_outcome rep = out \<and> ws_elapsedMs rep = max 0 (time w - t0) \<and> ws_signal rep = sig
    \<and> ws_containerName rep = si_containerName input \<and> ws_gracePeriodSeconds rep = si_gracePeriodSeconds input"
  using assms by (auto simp: shutdown_report_of_def io_bind_Some_iff dest!: io_now_Some)

lemma kill_and_confirm_elapsed:
  assumes clk: "clock_advances time c"
    and ins: "\<And>i. later time (inspectContainer d i)" and kill: "\<And>i s. later time (killContainer d i s)"
    and run: "kill_and_confirm d c input t0 sig w = Some (Inr rep, w')"
  shows "ws_elapsedMs rep \<ge> time w - t0"
proof -
  let ?i = "si_identifier input"
  from run obtain x1 w1 t w2 x w3 where 1: "killContainer d ?i ''SIGKILL'' w = Some (Inr x1, w1)"
    and 2: "io_now c w1 = Some (Inr t, w2)"
    and 3: "waitUntilStopped d ?i (t + WORKER_SHUTDOWN_KILL_CONFIRM_MS) c w2 = Some (Inr x, w3)"
    and 4: "(case x of Some code \<Rightarrow> shutdown_report_of c input t0 sig Forced code
      | None \<Rightarrow> shutdown_report_of c input t0 sig Hung None) w3 = Some (Inr rep, w')"
    by (auto simp: kill_and_confirm_def elim!: io_bind_InrE)
  have "time w \<le> time w3"
    using laterD [OF kill 1] io_now_Some [OF clk 2] waitUntilStopped_later [OF clk ins 3] by simp
  with 4 show ?thesis by (auto dest!: report_elapsed [OF clk] split: option.splits)
qed

lemma signal_and_wait_elapsed:
  assumes clk: "clock_advances time c"
    and ins: "\<And>i. later time (inspectContainer d i)" and kill: "\<And>i s. later time (killContainer d i s)"
    and run: "signal_and_wait d c input t0 sig w = Some (Inr rep, w')"
    and out: "ws_outcome rep = Forced \<or> ws_outcome rep = Hung"
  shows "ws_elapsedMs rep \<ge> si_gracePeriodSeconds input * 1000"
proof -
  let ?i = "si_identifier input" and ?dl = "t0 + si_gracePeriodSeconds input * 1000"
  from run obtain x1 w1 x w2 where 1: "killContainer d ?i sig w = Some (Inr x1, w1)"
    and 2: "waitUntilStopped d ?i ?dl c w1 = Some (Inr x, w2)"
    and 3: "(case x of Some code \<Rightarrow> shutdown_report_of c input t0 sig ExitedInTime code
      | None \<Rightarrow> kill_and_confirm d c input t0 sig) w2 = Some (Inr rep, w')"
    by (auto simp: signal_and_wait_def elim!: io_bind_InrE)
  from 3 out have "x = None" by (cases x) (auto dest!: report_elapsed [OF clk])
  with 2 3 have "?dl \<le> time w2" "kill_and_confirm d c input t0 sig w2 = Some (Inr rep, w')"
    using waitUntilStopped_later [OF clk ins 2] by auto
  with kill_and_confirm_elapsed [OF clk ins kill] show ?thesis by force
qed



section \<open>The bound of a stop\<close>

text \<open>A clock that moves only when waited on, and calls that take no time: what is left is the waiting.\<close>

definition exact_clock :: "('w \<Rightarrow> int) \<Rightarrow> 'w clock \<Rightarrow> bool" where
  "exact_clock time c \<longleftrightarrow>
     (\<forall>w. now c w = (time w, w)) \<and> (\<forall>ms w. \<exists>w'. wait c ms w = Some (Inr (), w') \<and> time w' = time w + max 0 ms)"

definition instant :: "('w \<Rightarrow> int) \<Rightarrow> ('w, 'a) io \<Rightarrow> bool" where
  "instant time m \<longleftrightarrow> (\<forall>w. \<exists>r w'. m w = Some (r, w') \<and> time w' = time w)"

lemma io_now_exact: "exact_clock time c \<Longrightarrow> io_now c w = Some (Inr (time w), w)"
  by (simp add: exact_clock_def io_now_def)

lemma readRunningState_instant:
  assumes "\<And>i. instant time (inspectContainer d i)"
  shows "\<exists>r w'. readRunningState d i w = Some (r, w') \<and> time w' = time w"
proof -
  obtain r w' where "inspectContainer d i w = Some (r, w')" "time w' = time w"
    using assms unfolding instant_def by blast
  then show ?thesis
    by (cases r) (auto simp: readRunningState_def io_bind_def io_return_def)
qed

lemma wait_round_exact:
  assumes clk: "exact_clock time c" and ins: "\<And>i. instant time (inspectContainer d i)"
  shows "\<exists>r w'. wait_round d i dl c u w = Some (r, w') \<and> time w' \<le> max (time w) dl \<and>
    (\<forall>s. r = Inr (Inl s) \<longrightarrow> nat (dl - time w') < nat (dl - time w))"
proof -
  obtain r1 w1 where 1: "readRunningState d i w = Some (r1, w1)" "time w1 = time w"
    using readRunningState_instant [OF ins] by blast
  obtain w2 where 2: "wait c (min WORKER_SHUTDOWN_POLL_INTERVAL_MS (dl - time w1)) w1 = Some (Inr (), w2)"
    "time w2 = time w1 + max 0 (min WORKER_SHUTDOWN_POLL_INTERVAL_MS (dl - time w1))"
    using clk unfolding exact_clock_def by blast
  from 1 2 show ?thesis
    by (cases r1) (auto simp: wait_round_def io_bind_def io_return_def io_now_exact [OF clk]
        WORKER_SHUTDOWN_POLL_INTERVAL_MS_def)
qed

lemma waitUntilStopped_exact:
  assumes clk: "exact_clock time c" and ins: "\<And>i. instant time (inspectContainer d i)"
  shows "\<exists>r w'. waitUntilStopped d i dl c w = Some (r, w') \<and> time w' \<le> max (time w) dl"
proof -
  note round = wait_round_exact [OF clk ins, of i dl]
  have "\<exists>r w'. waitUntilStopped d i dl c w = Some (r, w')"
    unfolding waitUntilStopped_def
  proof (rule io_loop_settles [where I = "\<lambda>_ _. True" and m = "\<lambda>_ w. nat (dl - time w)"])
    show "\<exists>r w'. wait_round d i dl c s w = Some (r, w') \<and>
        (\<forall>s'. r = Inr (Inl s') \<longrightarrow> True \<and> nat (dl - time w') < nat (dl - time w))" for s w
      using round [of s w] by blast
  qed simp
  then obtain r w' where run: "io_loop (wait_round d i dl c) () w = Some (r, w')"
    by (auto simp: waitUntilStopped_def)
  have "time w' \<le> max (time w) dl"
    using run
  proof (rule io_loop_partial [where I = "\<lambda>_ w1. time w1 \<le> max (time w) dl" and Q = "\<lambda>_ w1. time w1 \<le> max (time w) dl"])
    show "time w2 \<le> max (time w) dl" if "time w1 \<le> max (time w) dl" "wait_round d i dl c s w1 = Some (Inr (Inl s'), w2)" for s w1 s' w2
      using that round [of s w1] by auto
    show "time w2 \<le> max (time w) dl" if "time w1 \<le> max (time w) dl" "wait_round d i dl c s w1 = Some (Inr (Inr x), w2)" for s w1 x w2
      using that round [of s w1] by auto
    show "time w2 \<le> max (time w) dl" if "time w1 \<le> max (time w) dl" "wait_round d i dl c s w1 = Some (Inl e, w2)" for s w1 e w2
      using that round [of s w1] by auto
  qed simp
  with run show ?thesis by (auto simp: waitUntilStopped_def)
qed

lemma report_exact:
  assumes "exact_clock time c"
  shows "\<exists>r. shutdown_report_of c input t0 sig out code w = Some (r, w)"
  by (simp add: shutdown_report_of_def io_bind_def io_now_exact [OF assms] io_return_def)

lemma kill_and_confirm_exact:
  assumes clk: "exact_clock time c" and ins: "\<And>i. instant time (inspectContainer d i)"
    and kill: "\<And>i s. instant time (killContainer d i s)"
  shows "\<exists>r w'. kill_and_confirm d c input t0 sig w = Some (r, w') \<and> time w' \<le> time w + 15000"
proof -
  let ?i = "si_identifier input"
  obtain r1 w1 where 1: "killContainer d ?i ''SIGKILL'' w = Some (r1, w1)" "time w1 = time w"
    using kill unfolding instant_def by blast
  obtain r2 w2 where 2: "waitUntilStopped d ?i (time w1 + WORKER_SHUTDOWN_KILL_CONFIRM_MS) c w1 = Some (r2, w2)"
    "time w2 \<le> max (time w1) (time w1 + WORKER_SHUTDOWN_KILL_CONFIRM_MS)"
    using waitUntilStopped_exact [OF clk ins] by blast
  have rep: "\<exists>r w'. shutdown_report_of c input t0 sig out code w2 = Some (r, w') \<and> time w' \<le> time w + 15000" for out code
    using report_exact [OF clk, of input t0 sig out code w2] 1 2 by (auto simp: WORKER_SHUTDOWN_KILL_CONFIRM_MS_def)
  from 1 2 rep show ?thesis
    by (cases r1; cases r2) (auto simp: kill_and_confirm_def io_bind_def io_now_exact [OF clk]
        WORKER_SHUTDOWN_KILL_CONFIRM_MS_def split: option.splits)
qed

lemma signal_and_wait_exact:
  assumes clk: "exact_clock time c" and ins: "\<And>i. instant time (inspectContainer d i)"
    and kill: "\<And>i s. instant time (killContainer d i s)"
    and start: "time w = t0" "0 \<le> si_gracePeriodSeconds input"
  shows "\<exists>r w'. signal_and_wait d c input t0 sig w = Some (r, w')
    \<and> time w' \<le> t0 + si_gracePeriodSeconds input * 1000 + 15000"
proof -
  let ?i = "si_identifier input" and ?dl = "t0 + si_gracePeriodSeconds input * 1000"
  obtain r1 w1 where 1: "killContainer d ?i sig w = Some (r1, w1)" "time w1 = time w"
    using kill unfolding instant_def by blast
  obtain r2 w2 where 2: "waitUntilStopped d ?i ?dl c w1 = Some (r2, w2)" "time w2 \<le> max (time w1) ?dl"
    using waitUntilStopped_exact [OF clk ins] by blast
  obtain r3 w3 where 3: "kill_and_confirm d c input t0 sig w2 = Some (r3, w3)" "time w3 \<le> time w2 + 15000"
    using kill_and_confirm_exact [OF clk ins kill] by blast
  obtain r4 where 4: "shutdown_report_of c input t0 sig ExitedInTime (case r2 of Inr (Some code) \<Rightarrow> code | _ \<Rightarrow> None) w2
      = Some (r4, w2)"
    using report_exact [OF clk] by blast
  have "time w2 \<le> ?dl" using 1 2 start by simp
  with 1 2 3 4 start show ?thesis
    by (cases r1; cases r2) (auto simp: signal_and_wait_def io_bind_def split: option.splits)
qed

text \<open>C8 A stop is bounded by the grace period plus the 15 seconds it waits for \<open>SIGKILL\<close>: on a clock that moves
  only when waited on and a daemon whose calls take no time, it always ends, by then at the latest,
  whatever the container does.\<close>

theorem stop_worker_bounded:
  assumes clk: "exact_clock time c" and ins: "\<And>i. instant time (inspectContainer d i)"
    and kill: "\<And>i s. instant time (killContainer d i s)"
    and upd: "\<And>i p. instant time (updateContainerRestartPolicy d i p)"
    and grace: "0 \<le> si_gracePeriodSeconds input"
  shows "\<exists>r w'. stopWorkerContainerGracefully d c input w = Some (r, w')
    \<and> time w' \<le> time w + si_gracePeriodSeconds input * 1000 + 15000"
proof -
  let ?i = "si_identifier input"
  obtain r1 w1 where 1: "readRunningState d ?i w = Some (r1, w1)" "time w1 = time w"
    using readRunningState_instant [OF ins] by blast
  obtain r2 w2 where 2: "updateContainerRestartPolicy d ?i ''no'' w1 = Some (r2, w2)" "time w2 = time w1"
    using upd unfolding instant_def by blast
  have rep: "\<exists>r w'. shutdown_report_of c input t0 sig out code w3 = Some (r, w')
      \<and> time w' \<le> time w + si_gracePeriodSeconds input * 1000 + 15000"
    if "time w3 = time w" for t0 sig out code w3
    using report_exact [OF clk] that grace by (metis add_increasing2 order_refl mult_nonneg_nonneg zero_le_numeral)
  have sig: "\<exists>r w'. signal_and_wait d c input (time w) sig w2 = Some (r, w')
      \<and> time w' \<le> time w + si_gracePeriodSeconds input * 1000 + 15000" for sig
    by (rule signal_and_wait_exact [OF clk ins kill]) (use 1 2 grace in auto)
  show ?thesis
  proof (cases r1)
    case (Inl e)
    with 1 grace show ?thesis
      by (auto simp: stopWorkerContainerGracefully_def io_bind_def io_now_exact [OF clk])
  next
    case (Inr initial)
    have "\<exists>r w'. stop_from d c input (time w) initial w1 = Some (r, w')
        \<and> time w' \<le> time w + si_gracePeriodSeconds input * 1000 + 15000"
    proof (cases "rs_running initial")
      case False
      then show ?thesis using rep [OF 1(2)] by (simp add: stop_from_def Let_def)
    next
      case True
      show ?thesis
        using True 1 2 grace rep [of w2] sig
        by (cases r2) (auto simp: stop_from_def Let_def io_bind_def io_try_def io_throw_def)
    qed
    with Inr 1 show ?thesis
      by (simp add: stopWorkerContainerGracefully_def io_bind_def io_now_exact [OF clk])
  qed
qed

lemma stop_worker_bounded_witness:
  "\<exists>r w'. stopWorkerContainerGracefully (running_until 100000) int_clock stop_input 0 = Some (r, w') \<and> w' \<le> 16000"
proof -
  have "\<exists>r w'. stopWorkerContainerGracefully (running_until 100000) int_clock stop_input 0 = Some (r, w')
      \<and> (\<lambda>t. t) w' \<le> (\<lambda>t. t) 0 + si_gracePeriodSeconds stop_input * 1000 + 15000"
    by (rule stop_worker_bounded [where time = "\<lambda>t. t"])
      (auto simp: exact_clock_def int_clock_def instant_def running_until_def io_return_def stop_input_def)
  then show ?thesis by (simp add: stop_input_def)
qed

lemma stop_hung_at_bound:
  "map_option (\<lambda>(r, w). (map_sum id ws_outcome r, w))
     (stopWorkerContainerGracefully (running_until 100000) int_clock stop_input 0) = Some (Inr Hung, 16000)"
  by code_simp

section \<open>What is reported\<close>

lemma report_of_valid:
  assumes "shutdown_report_of c input t0 sig out code w = Some (Inr rep, w')"
    and "si_containerName input \<noteq> []" and "1 \<le> si_gracePeriodSeconds input" and "si_gracePeriodSeconds input \<le> 3600"
    and "is_signal_name sig"
  shows "report_valid rep"
  using assms by (auto simp: shutdown_report_of_def report_valid_def io_bind_Some_iff)

lemma signal_and_wait_valid:
  assumes "signal_and_wait d c input t0 sig w = Some (Inr rep, w')"
    and "si_containerName input \<noteq> []" and "1 \<le> si_gracePeriodSeconds input" and "si_gracePeriodSeconds input \<le> 3600"
    and "is_signal_name sig"
  shows "report_valid rep"
  using assms(1) report_of_valid [OF _ assms(2-)]
  by (auto simp: signal_and_wait_def kill_and_confirm_def io_bind_Some_iff split: option.splits)

text \<open>Every report a stop produces survives the wire: for a policy and a container name the contract accepts,
  the report reads back from its wire form unchanged, signal name included, even when the container
  asks for its own stop signal.\<close>

theorem stop_report_roundtrip:
  assumes run: "stopWorkerContainerGracefully d c input w = Some (Inr rep, w')"
    and input: "si_containerName input \<noteq> []" "1 \<le> si_gracePeriodSeconds input" "si_gracePeriodSeconds input \<le> 3600"
    and signal: "case si_signal input of None \<Rightarrow> True | Some s \<Rightarrow> s \<in> set WORKER_SHUTDOWN_SIGNALS"
  shows "parseWorkerShutdownReport (report_value rep) = Some rep"
proof -
  from run obtain t0 initial w2 where from1: "stop_from d c input t0 initial w2 = Some (Inr rep, w')"
    unfolding stopWorkerContainerGracefully_def by (elim io_bind_InrE)
  have "is_signal_name (resolveWorkerStopSignal (si_signal input) (rs_stopSignal initial))"
    by (rule resolved_signal_named [OF signal])
  with from1 have "report_valid rep"
    using report_of_valid [OF _ input] signal_and_wait_valid [OF _ input]
    by (auto simp: stop_from_def Let_def io_bind_sum_Some_iff split: if_splits)
  then show ?thesis by (rule parse_report_value)
qed

lemma stop_report_roundtrip_witness:
  "\<exists>rep w'. stopWorkerContainerGracefully (running_until 700) int_clock stop_input 0 = Some (Inr rep, w')
     \<and> parseWorkerShutdownReport (report_value rep) = Some rep"
proof -
  have "map_option (\<lambda>(r, w). map_sum id ws_outcome r)
      (stopWorkerContainerGracefully (running_until 700) int_clock stop_input 0) = Some (Inr ExitedInTime)"
    by code_simp
  then obtain rep w' where run: "stopWorkerContainerGracefully (running_until 700) int_clock stop_input 0
      = Some (Inr rep, w')"
    by (auto simp: map_sum_Inr_iff)
  from stop_report_roundtrip [OF run] run show ?thesis
    by (simp add: stop_input_def WORKER_SHUTDOWN_SIGNALS_def)
qed

section \<open>The warning\<close>

lemma sublist_in_append [intro]: "sublist x b \<Longrightarrow> sublist x (a @ b)" "sublist x a \<Longrightarrow> sublist x (a @ b)"
  by (meson sublist_append_leftI sublist_append_rightI sublist_order.order_trans)+

lemma sublist_in_Cons [intro]: "sublist x b \<Longrightarrow> sublist x (c # b)"
  using sublist_in_append(1) [of x b "[c]"] by simp

lemma sublist_join: "x \<in> set xs \<Longrightarrow> sublist x (join sep xs)"
proof (induction sep xs rule: join.induct)
  case (3 sep a b xs)
  then show ?case
    by auto
qed auto

lemma describeContainers_names:
  assumes "r \<in> set reports"
  shows "sublist (ws_containerName r) (describeContainers reports)"
proof -
  let ?groups = "container_groups reports" and ?names = "names_of (ws_role r) reports"
  have name: "ws_containerName r \<in> set ?names" using assms by (auto simp: names_of_def)
  have "ws_role r \<in> set WORKER_SHUTDOWN_ROLES" by (cases "ws_role r") (simp_all add: WORKER_SHUTDOWN_ROLES_def)
  with name have "(ws_role r, ?names) \<in> set ?groups" by (auto simp: container_groups_def)
  then obtain i where i: "i < length ?groups" "?groups ! i = (ws_role r, ?names)" by (auto simp: in_set_conv_nth)
  have "sublist (ws_containerName r) (describe_group i (?groups ! i))"
    using i name by (auto simp: describe_group_def Let_def intro!: sublist_join)
  moreover have "describe_group i (?groups ! i) \<in> set (map (\<lambda>i. describe_group i (?groups ! i)) [0..<length ?groups])"
    using i(1) unfolding set_map by (intro imageI) simp
  ultimately show ?thesis
    unfolding describeContainers_def Let_def
    by (meson sublist_join sublist_order.order_trans)
qed

lemma sentence_names:
  "r \<in> set rs \<Longrightarrow> \<exists>t \<in> set (hung_sentence rs). sublist (ws_containerName r) t"
  "r \<in> set rs \<Longrightarrow> \<exists>t \<in> set (unconfirmed_sentence rs). sublist (ws_containerName r) t"
  "r \<in> set rs \<Longrightarrow> \<exists>t \<in> set (forced_sentence rs). sublist (ws_containerName r) t"
proof -
  assume r: "r \<in> set rs"
  then have "rs \<noteq> []" by auto
  with r describeContainers_names [OF r] show
    "\<exists>t \<in> set (hung_sentence rs). sublist (ws_containerName r) t"
    "\<exists>t \<in> set (unconfirmed_sentence rs). sublist (ws_containerName r) t"
    "\<exists>t \<in> set (forced_sentence rs). sublist (ws_containerName r) t"
    by (cases rs; auto simp: hung_sentence_def unconfirmed_sentence_def forced_sentence_def)+
qed

text \<open>A rollout warns exactly when some worker did not stop in time, and its warning names every container that
  was force-killed, hung or could not be confirmed stopped.\<close>

theorem shutdown_warning_complete:
  "(describeWorkerShutdownWarning rs = None \<longleftrightarrow>
      (\<forall>r \<in> set rs. ws_outcome r = ExitedInTime \<or> ws_outcome r = AlreadyStopped)) \<and>
   (\<forall>msg r. describeWorkerShutdownWarning rs = Some msg \<longrightarrow> r \<in> set rs \<longrightarrow>
      ws_outcome r \<in> {Forced, Hung, Unconfirmed} \<longrightarrow> sublist (ws_containerName r) msg)"
proof
  let ?s = "hung_sentence (of_outcome Hung rs) @ unconfirmed_sentence (of_outcome Unconfirmed rs)
    @ forced_sentence (of_outcome Forced rs)"
  have empty: "?s = [] \<longleftrightarrow> of_outcome Hung rs = [] \<and> of_outcome Unconfirmed rs = [] \<and> of_outcome Forced rs = []"
    by (auto simp: hung_sentence_def unconfirmed_sentence_def forced_sentence_def split: list.splits)
  have outs: "ws_outcome r = ExitedInTime \<or> ws_outcome r = AlreadyStopped \<longleftrightarrow>
      ws_outcome r \<noteq> Hung \<and> ws_outcome r \<noteq> Unconfirmed \<and> ws_outcome r \<noteq> Forced" for r :: "string shutdown_report"
    by (cases "ws_outcome r") auto
  show "describeWorkerShutdownWarning rs = None \<longleftrightarrow>
      (\<forall>r \<in> set rs. ws_outcome r = ExitedInTime \<or> ws_outcome r = AlreadyStopped)"
    unfolding describeWorkerShutdownWarning_def Let_def outs
    using empty by (auto simp: of_outcome_def filter_empty_conv)
  show "\<forall>msg r. describeWorkerShutdownWarning rs = Some msg \<longrightarrow> r \<in> set rs \<longrightarrow>
      ws_outcome r \<in> {Forced, Hung, Unconfirmed} \<longrightarrow> sublist (ws_containerName r) msg"
  proof (intro allI impI)
    fix msg r
    assume t: "describeWorkerShutdownWarning rs = Some msg" and r: "r \<in> set rs"
      and out: "ws_outcome r \<in> {Forced, Hung, Unconfirmed}"
    have "\<exists>t \<in> set ?s. sublist (ws_containerName r) t"
    proof -
      from r have "r \<in> set (of_outcome (ws_outcome r) rs)" by (simp add: of_outcome_def)
      with out sentence_names [of r "of_outcome (ws_outcome r) rs"] show ?thesis by auto
    qed
    moreover have "msg = join '' '' ?s"
      using t by (auto simp: describeWorkerShutdownWarning_def Let_def split: if_splits)
    ultimately show "sublist (ws_containerName r) msg"
      by (meson sublist_join sublist_order.order_trans)
  qed
qed

definition sample_reports :: "string shutdown_report list" where
  "sample_reports = [
     \<lparr>ws_containerName = ''w-0'', ws_role = PreviousWorker, ws_signal = ''SIGTERM'', ws_gracePeriodSeconds = 30,
      ws_outcome = Forced, ws_exitCode = Some 137, ws_elapsedMs = 30500\<rparr>,
     \<lparr>ws_containerName = ''w-1'', ws_role = CandidateWorker, ws_signal = ''SIGTERM'', ws_gracePeriodSeconds = 30,
      ws_outcome = Hung, ws_exitCode = None, ws_elapsedMs = 45000\<rparr>]"

lemma shutdown_warning_complete_witness:
  "\<exists>msg. describeWorkerShutdownWarning sample_reports = Some msg \<and> sublist ''w-0'' msg \<and> sublist ''w-1'' msg"
proof -
  have "\<not> (\<forall>r \<in> set sample_reports. ws_outcome r = ExitedInTime \<or> ws_outcome r = AlreadyStopped)"
    by (simp add: sample_reports_def)
  with shutdown_warning_complete [of sample_reports] obtain msg where
    msg: "describeWorkerShutdownWarning sample_reports = Some msg" by auto
  with shutdown_warning_complete [of sample_reports] show ?thesis by (auto simp: sample_reports_def)
qed

end
