(* ===== verification/Worker_Rollout.thy ===== *)
theory Worker_Rollout
  imports Worker_Shutdown
begin

text \<open>
  \<open>agent/src/worker-rollout-plan.ts\<close>: in which order a rollout starts the new worker processes and
  retires the old ones. \<open>execute_plan\<close> reads a plan the way its comments say it is carried out; the
  properties state what the order is for: no two versions at once under \<open>no_overlap\<close>, and never two
  writers of one volume.
\<close>

record existing_worker =
  ew_name :: string
  ew_deploymentId :: "string option"
  ew_live :: bool

datatype candidate_first_reason = OverlapPolicy | NoPreviousVersion | ScaledToZero
datatype stop_first_strategy = StopFirstCutover | SingleWriterSnapshotCutover
datatype stop_first_reason = NoOverlapPolicy | SingleWriterVolume

datatype worker_rollout_plan =
    CandidateFirst candidate_first_reason "string list"
  | StopFirst stop_first_strategy stop_first_reason "string list" "string list"

record rollout_input =
  ri_rolloutPolicy :: rollout_policy
  ri_hasVolume :: bool
  ri_deploymentId :: string
  ri_candidateNames :: "string list"
  ri_containers :: "existing_worker list"

definition plan_candidates :: "rollout_input \<Rightarrow> existing_worker list" where
  "plan_candidates input = filter (\<lambda>c. ew_name c \<in> set (ri_candidateNames input)) (ri_containers input)"

definition plan_others :: "rollout_input \<Rightarrow> existing_worker list" where
  "plan_others input = filter (\<lambda>c. ew_name c \<notin> set (ri_candidateNames input)) (ri_containers input)"

definition planWorkerRollout :: "rollout_input \<Rightarrow> worker_rollout_plan" where
  "planWorkerRollout input =
     (let existingCandidates = plan_candidates input;
          others = plan_others input;
          otherNames = map ew_name others
      in if length (ri_candidateNames input) = 0 then CandidateFirst ScaledToZero otherNames
      else
        let liveOthers = filter ew_live others
        in if ri_hasVolume input \<and> length liveOthers > 0 then
             StopFirst SingleWriterSnapshotCutover SingleWriterVolume (map ew_name existingCandidates) otherNames
           else
             let olderVersionExists = list_ex (\<lambda>c. ew_deploymentId c \<noteq> Some (ri_deploymentId input)) liveOthers
             in if ri_rolloutPolicy input = NoOverlap \<and> olderVersionExists then
                  StopFirst StopFirstCutover NoOverlapPolicy (map ew_name existingCandidates) otherNames
                else CandidateFirst
                  (if ri_rolloutPolicy input = Overlap \<and> olderVersionExists then OverlapPolicy else NoPreviousVersion)
                  otherNames)"

section \<open>Carrying a plan out\<close>

text \<open>
  The steps the plan's comments describe, on the set of containers that run: resetting and retiring
  remove a container, starting adds the candidates that are not running.
\<close>

datatype rollout_step = StopWorker string | StartWorker string

fun plan_steps :: "string list \<Rightarrow> worker_rollout_plan \<Rightarrow> rollout_step list" where
  "plan_steps candidates (CandidateFirst _ retire) = map StartWorker candidates @ map StopWorker retire"
| "plan_steps candidates (StopFirst _ _ reset stop) =
     map StopWorker reset @ map StopWorker stop @ map StartWorker candidates"

fun apply_step :: "string set \<Rightarrow> rollout_step \<Rightarrow> string set" where
  "apply_step running (StopWorker n) = running - {n}"
| "apply_step running (StartWorker n) = insert n running"

lemma foldl_stop: "foldl apply_step running (map StopWorker ns) = running - set ns"
  by (induction ns arbitrary: running) auto

lemma foldl_start: "foldl apply_step running (map StartWorker ns) = running \<union> set ns"
  by (induction ns arbitrary: running) auto

lemma partition_names:
  "ew_name ` set (plan_candidates input) \<union> ew_name ` set (plan_others input) = ew_name ` set (ri_containers input)"
  "ew_name ` set (plan_others input) \<inter> set (ri_candidateNames input) = {}"
  by (auto simp: plan_candidates_def plan_others_def)

text \<open>What is running before: the live containers, and possibly some of the others.\<close>

definition running_before :: "rollout_input \<Rightarrow> string set \<Rightarrow> bool" where
  "running_before input running \<longleftrightarrow> running \<subseteq> ew_name ` set (ri_containers input)"

lemma planWorkerRollout_cases:
  obtains (candidates) reason where "planWorkerRollout input = CandidateFirst reason (map ew_name (plan_others input))"
  | (stop) st reason where "planWorkerRollout input =
      StopFirst st reason (map ew_name (plan_candidates input)) (map ew_name (plan_others input))"
proof -
  have "(\<exists>reason. planWorkerRollout input = CandidateFirst reason (map ew_name (plan_others input))) \<or>
      (\<exists>st reason. planWorkerRollout input =
        StopFirst st reason (map ew_name (plan_candidates input)) (map ew_name (plan_others input)))"
    by (simp add: planWorkerRollout_def Let_def)
  then show ?thesis using candidates stop by blast
qed

lemma plan_steps_end:
  "foldl apply_step running (plan_steps cands (CandidateFirst reason retire)) = (running \<union> set cands) - set retire"
  "foldl apply_step running (plan_steps cands (StopFirst st sreason reset stop)) = (running - set reset - set stop) \<union> set cands"
  by (simp_all add: foldl_stop foldl_start)

text \<open>Whatever the plan's order, a rollout ends with exactly the candidates running: every other container of
  the service is retired, whether it ran or was left over.\<close>

theorem rollout_ends_with_candidates:
  assumes "running_before input running"
  shows "foldl apply_step running (plan_steps (ri_candidateNames input) (planWorkerRollout input))
    = set (ri_candidateNames input)"
proof -
  note names = partition_names [of input]
  have sub: "ew_name ` set (plan_candidates input) \<subseteq> set (ri_candidateNames input)" by (auto simp: plan_candidates_def)
  show ?thesis
  proof (cases rule: planWorkerRollout_cases [of input])
    case (candidates reason)
    show ?thesis unfolding candidates plan_steps_end
      using assms names sub unfolding running_before_def set_map by blast
  next
    case (stop st reason)
    show ?thesis unfolding stop plan_steps_end
      using assms names sub unfolding running_before_def set_map by blast
  qed
qed

lemma started_only:
  assumes "plan_steps cands (StopFirst st rs reset stop) = pre @ StartWorker n # post"
    and "running \<subseteq> set reset \<union> set stop"
  shows "foldl apply_step running pre \<subseteq> {m. StartWorker m \<in> set pre}"
proof -
  let ?stops = "map StopWorker (reset @ stop)"
  have steps: "?stops @ map StartWorker cands = pre @ StartWorker n # post" using assms(1) by simp
  have "\<exists>mid. pre = ?stops @ mid \<and> map StartWorker cands = mid @ StartWorker n # post"
  proof -
    from steps [THEN append_eq_append_conv2 [THEN iffD1]] obtain us
      where "?stops = pre @ us \<and> us @ map StartWorker cands = StartWorker n # post \<or>
        ?stops @ us = pre \<and> map StartWorker cands = us @ StartWorker n # post" by blast
    moreover have "us = []" if "?stops = pre @ us" "us @ map StartWorker cands = StartWorker n # post" for us
    proof (cases us)
      case (Cons x xs)
      with that(2) have "StartWorker n \<in> set us" by simp
      then have "StartWorker n \<in> set ?stops" using that(1) by simp
      then show ?thesis by auto
    qed simp
    ultimately show ?thesis by (metis append_Nil append_Nil2)
  qed
  then obtain mid where pre: "pre = ?stops @ mid" and mid: "map StartWorker cands = mid @ StartWorker n # post"
    by blast
  from mid obtain cs where cs: "mid = map StartWorker cs" by (metis map_eq_append_conv)
  have "foldl apply_step running ?stops = {}" using assms(2) by (auto simp: foldl_stop)
  then show ?thesis by (auto simp: pre cs foldl_start)
qed

text \<open>The exclusive rollouts never mix old and new processes: when a volume has a live worker, or the policy is
  \<open>no_overlap\<close> and an older version is live, then whenever the rollout starts a candidate, nothing of the
  service is running but the candidates this rollout itself has started: every older process is stopped
  by then, and so is a candidate left over from an earlier attempt.\<close>

theorem exclusive_rollout_never_mixes:
  assumes "running_before input running" and "ri_candidateNames input \<noteq> []"
    and "c \<in> set (ri_containers input)" and "ew_name c \<notin> set (ri_candidateNames input)" and "ew_live c"
    and "ri_hasVolume input \<or> ri_rolloutPolicy input = NoOverlap \<and> ew_deploymentId c \<noteq> Some (ri_deploymentId input)"
    and "plan_steps (ri_candidateNames input) (planWorkerRollout input) = pre @ StartWorker n # post"
  shows "foldl apply_step running pre \<subseteq> {m. StartWorker m \<in> set pre}"
proof -
  let ?live = "filter ew_live (plan_others input)"
  have "c \<in> set ?live" using assms(3-5) by (simp add: plan_others_def)
  then have live: "?live \<noteq> []" by force
  have "\<not> ri_hasVolume input \<Longrightarrow> list_ex (\<lambda>c. ew_deploymentId c \<noteq> Some (ri_deploymentId input)) ?live"
    using assms(6) \<open>c \<in> set ?live\<close> by (auto simp: list_ex_iff)
  with live obtain st rs where plan: "planWorkerRollout input =
      StopFirst st rs (map ew_name (plan_candidates input)) (map ew_name (plan_others input))"
    using assms(2,6) by (cases "ri_hasVolume input") (auto simp: planWorkerRollout_def Let_def)
  have "running \<subseteq> set (map ew_name (plan_candidates input)) \<union> set (map ew_name (plan_others input))"
    using assms(1) partition_names(1) [of input] by (simp add: running_before_def)
  with started_only assms(7) [unfolded plan] show ?thesis by blast
qed

definition sample_rollout :: rollout_input where
  "sample_rollout = \<lparr>ri_rolloutPolicy = NoOverlap, ri_hasVolume = False, ri_deploymentId = ''d2'',
     ri_candidateNames = [''w-d2-0''],
     ri_containers = [\<lparr>ew_name = ''w-d1-0'', ew_deploymentId = Some ''d1'', ew_live = True\<rparr>,
       \<lparr>ew_name = ''w-d2-0'', ew_deploymentId = Some ''d2'', ew_live = True\<rparr>]\<rparr>"

lemma rollout_ends_with_candidates_witness:
  "foldl apply_step {''w-d1-0''} (plan_steps [''w-d2-0''] (planWorkerRollout sample_rollout)) = {''w-d2-0''}"
  using rollout_ends_with_candidates [of sample_rollout "{''w-d1-0''}"]
  by (simp add: sample_rollout_def running_before_def)

lemma exclusive_rollout_never_mixes_witness:
  "foldl apply_step {''w-d1-0'', ''w-d2-0''} [StopWorker ''w-d2-0'', StopWorker ''w-d1-0''] \<subseteq> {} \<and>
   plan_steps [''w-d2-0''] (planWorkerRollout sample_rollout) =
     [StopWorker ''w-d2-0'', StopWorker ''w-d1-0'', StartWorker ''w-d2-0'']"
proof -
  have steps: "plan_steps [''w-d2-0''] (planWorkerRollout sample_rollout) =
      [StopWorker ''w-d2-0'', StopWorker ''w-d1-0''] @ StartWorker ''w-d2-0'' # []"
    by (simp add: sample_rollout_def planWorkerRollout_def Let_def plan_candidates_def plan_others_def)
  show ?thesis
    using exclusive_rollout_never_mixes [of sample_rollout "{''w-d1-0'', ''w-d2-0''}"
        "\<lparr>ew_name = ''w-d1-0'', ew_deploymentId = Some ''d1'', ew_live = True\<rparr>"
        "[StopWorker ''w-d2-0'', StopWorker ''w-d1-0'']" "''w-d2-0''" "[]"] steps
    by (simp add: sample_rollout_def running_before_def)
qed

end
