(* ===== verification/Work_Scheduler.thy ===== *)
theory Work_Scheduler
  imports Prelude "HOL-Library.Char_ord" "HOL-Library.List_Lexorder" "HOL-Library.Multiset"
begin

text \<open>
  \<open>agent/src/work-scheduler.ts\<close>: the bounded work scheduler. \<open>trigger\<close> suspends at its one await, the
  lease request, so the closure is a state machine: its state is the ids of the running executions
  in insertion order and the capacity of a lease request in flight, its events are what can happen
  between two turns of the event loop, and each handler answers the calls it makes.
\<close>

section \<open>The state machine\<close>

datatype ('c, 'i) scheduler_output =
    LeaseWork nat "string list"
  | OnConfig 'c
  | ProcessWork 'c 'i
  | OnWorkError string 'i
  | TriggerThrows string

datatype ('c, 'i) scheduler_event =
    Trigger
  | LeaseReply 'c "'i list"
  | LeaseFailed string
  | WorkEnds 'i "string option"

record scheduler =
  sc_active :: "string list"
  sc_poll :: "nat option"

definition initial_scheduler :: scheduler where
  "initial_scheduler = \<lparr>sc_active = [], sc_poll = None\<rparr>"

definition createBoundedWorkScheduler :: "int \<Rightarrow> string + scheduler" where
  "createBoundedWorkScheduler maxConcurrency =
     (if maxConcurrency < 1 \<or> maxConcurrency > 9007199254740991
      then Inl ''maxConcurrency must be a positive safe integer'' else Inr initial_scheduler)"

definition trigger :: "nat \<Rightarrow> scheduler \<Rightarrow> scheduler \<times> ('c, 'i) scheduler_output list" where
  "trigger maxConcurrency s =
     (if sc_poll s \<noteq> None then (s, [])
      else let availableCapacity = maxConcurrency - length (sc_active s)
        in if length (sc_active s) \<ge> maxConcurrency then (s, [])
           else (s\<lparr>sc_poll := Some availableCapacity\<rparr>, [LeaseWork availableCapacity (sort (sc_active s))]))"

text \<open>The first loop: which items are taken, in order, and the error for each repeated id.\<close>

fun accept_items :: "('i \<Rightarrow> string) \<Rightarrow> string list \<Rightarrow> string list \<Rightarrow> 'i list \<Rightarrow> string list \<times> ('c, 'i) scheduler_output list" where
  "accept_items ident active workIds [] = (workIds, [])"
| "accept_items ident active workIds (w # ws) =
     (if ident w \<in> set workIds \<or> ident w \<in> set active then
        (let (ids, outs) = accept_items ident active workIds ws
         in (ids, OnWorkError (''Lease response contained already-active work item '' @ ident w) w # outs))
      else accept_items ident active (workIds @ [ident w]) ws)"

text \<open>The second loop: \<open>if (!workIds.delete(workItem.id)) continue\<close>, then the execution is started.\<close>

fun start_items :: "('i \<Rightarrow> string) \<Rightarrow> 'c \<Rightarrow> string list \<Rightarrow> string list \<Rightarrow> 'i list \<Rightarrow> string list \<times> ('c, 'i) scheduler_output list" where
  "start_items ident config active workIds [] = (active, [])"
| "start_items ident config active workIds (w # ws) =
     (if ident w \<in> set workIds then
        (let (act, outs) = start_items ident config (active @ [ident w]) (removeAll (ident w) workIds) ws
         in (act, ProcessWork config w # outs))
      else start_items ident config active workIds ws)"

definition lease_reply :: "('i \<Rightarrow> string) \<Rightarrow> 'c \<Rightarrow> 'i list \<Rightarrow> scheduler \<Rightarrow> scheduler \<times> ('c, 'i) scheduler_output list" where
  "lease_reply ident config items s =
     (case sc_poll s of
        None \<Rightarrow> (s, [])
      | Some availableCapacity \<Rightarrow>
          (if length items > availableCapacity then
             (s\<lparr>sc_poll := None\<rparr>, [OnConfig config, TriggerThrows
                (''Lease response exceeded the requested capacity of '' @ show_nat availableCapacity)])
           else
             let (ids, errors) = accept_items ident (sc_active s) [] items;
                 (active, started) = start_items ident config (sc_active s) ids items
             in (s\<lparr>sc_active := active, sc_poll := None\<rparr>, OnConfig config # errors @ started)))"

definition lease_failed :: "string \<Rightarrow> scheduler \<Rightarrow> scheduler \<times> ('c, 'i) scheduler_output list" where
  "lease_failed message s =
     (case sc_poll s of None \<Rightarrow> (s, []) | Some _ \<Rightarrow> (s\<lparr>sc_poll := None\<rparr>, [TriggerThrows message]))"

text \<open>An execution settles: \<open>catch\<close> reports the error, \<open>finally\<close> removes the id.\<close>

definition work_ends :: "('i \<Rightarrow> string) \<Rightarrow> 'i \<Rightarrow> string option \<Rightarrow> scheduler \<Rightarrow> scheduler \<times> ('c, 'i) scheduler_output list" where
  "work_ends ident w error s =
     (s\<lparr>sc_active := removeAll (ident w) (sc_active s)\<rparr>,
      case error of None \<Rightarrow> [] | Some e \<Rightarrow> [OnWorkError e w])"

fun scheduler_step :: "('i \<Rightarrow> string) \<Rightarrow> nat \<Rightarrow> scheduler \<Rightarrow> ('c, 'i) scheduler_event \<Rightarrow> scheduler \<times> ('c, 'i) scheduler_output list" where
  "scheduler_step ident maxConcurrency s Trigger = trigger maxConcurrency s"
| "scheduler_step ident maxConcurrency s (LeaseReply config items) = lease_reply ident config items s"
| "scheduler_step ident maxConcurrency s (LeaseFailed message) = lease_failed message s"
| "scheduler_step ident maxConcurrency s (WorkEnds w error) = work_ends ident w error s"

text \<open>
  Which events can happen: a lease answer only while a request is in flight, an end only of an item
  whose execution was started and has not ended. \<open>running\<close> is that set of executions, with repeats.
\<close>

inductive scheduler_run ::
    "('i \<Rightarrow> string) \<Rightarrow> nat \<Rightarrow> scheduler \<Rightarrow> 'i multiset \<Rightarrow> ('c, 'i) scheduler_output list \<Rightarrow> bool"
  for ident :: "'i \<Rightarrow> string" and maxConcurrency :: nat where
  start: "scheduler_run ident maxConcurrency initial_scheduler {#} []"
| step: "scheduler_run ident maxConcurrency s running outs \<Longrightarrow>
    (\<And>w e. ev = WorkEnds w e \<Longrightarrow> w \<in># running) \<Longrightarrow>
    scheduler_step ident maxConcurrency s ev = (s', new) \<Longrightarrow>
    running' = (case ev of WorkEnds w _ \<Rightarrow> running - {#w#} | _ \<Rightarrow> running)
      + mset (List.map_filter (\<lambda>p. case p of ProcessWork _ w \<Rightarrow> Some w | _ \<Rightarrow> None) new) \<Longrightarrow>
    scheduler_run ident maxConcurrency s' running' (outs @ new)"

abbreviation started :: "('c, 'i) scheduler_output list \<Rightarrow> 'i list" where
  "started outs \<equiv> List.map_filter (\<lambda>p. case p of ProcessWork _ w \<Rightarrow> Some w | _ \<Rightarrow> None) outs"

section \<open>The two loops\<close>

lemma started_simps [simp]:
  "started [] = []"
  "started (ProcessWork c w # outs) = w # started outs"
  "started (OnWorkError e w # outs) = started outs"
  "started (OnConfig c # outs) = started outs"
  "started (LeaseWork n ids # outs) = started outs"
  "started (TriggerThrows m # outs) = started outs"
  "started (outs1 @ outs2) = started outs1 @ started outs2"
  by (simp_all add: List.map_filter_def)

lemma accept_items_props:
  assumes "accept_items ident active ids ws = (ids', outs)" and "distinct ids" and "set ids \<inter> set active = {}"
  shows "distinct ids' \<and> set ids' \<inter> set active = {} \<and> set ids \<subseteq> set ids' \<and> set ids' \<subseteq> set ids \<union> ident ` set ws
    \<and> length ids' \<le> length ids + length ws \<and> started outs = []"
  using assms
proof (induction ws arbitrary: ids ids' outs)
  case (Cons w ws)
  show ?case
  proof (cases "ident w \<in> set ids \<or> ident w \<in> set active")
    case True
    then obtain outs2 where "accept_items ident active ids ws = (ids', outs2)"
      "outs = OnWorkError (''Lease response contained already-active work item '' @ ident w) w # outs2"
      using Cons.prems(1) by (auto split: prod.splits)
    with Cons.IH [OF this(1) Cons.prems(2,3)] show ?thesis by auto
  next
    case False
    then have "accept_items ident active (ids @ [ident w]) ws = (ids', outs)" using Cons.prems(1) by simp
    from Cons.IH [OF this] False Cons.prems(2,3) show ?thesis by auto
  qed
qed auto

lemma start_items_props:
  assumes "start_items ident config active ids ws = (active', outs)" and "distinct ids" and "distinct active"
    and "set ids \<inter> set active = {}" and "set ids \<subseteq> ident ` set ws"
  shows "active' = active @ map ident (started outs) \<and> distinct active' \<and> set active' = set active \<union> set ids
    \<and> set (started outs) \<subseteq> set ws \<and> length (started outs) = length ids"
  using assms
proof (induction ws arbitrary: active ids active' outs)
  case (Cons w ws)
  show ?case
  proof (cases "ident w \<in> set ids")
    case True
    then obtain outs2 where rec: "start_items ident config (active @ [ident w]) (removeAll (ident w) ids) ws = (active', outs2)"
      and outs: "outs = ProcessWork config w # outs2"
      using Cons.prems(1) by (auto split: prod.splits)
    have len: "Suc (length (removeAll (ident w) ids)) = length ids"
      using True Cons.prems(2) by (metis distinct_remove1_removeAll length_remove1 One_nat_def Suc_pred length_pos_if_in_set)
    let ?rest = "removeAll (ident w) ids"
    have "distinct ?rest" "distinct (active @ [ident w])" "set ?rest \<inter> set (active @ [ident w]) = {}"
      "set ?rest \<subseteq> ident ` set ws"
      using True Cons.prems(2-5) by (auto simp: distinct_removeAll)
    from Cons.IH [OF rec this] have
      1: "active' = (active @ [ident w]) @ map ident (started outs2)" and 2: "distinct active'" and
      3: "set active' = set (active @ [ident w]) \<union> set ?rest" and 4: "set (started outs2) \<subseteq> set ws" and
      5: "length (started outs2) = length ?rest" by blast+
    show ?thesis
    proof (intro conjI)
      show "active' = active @ map ident (started outs)" using 1 outs by simp
      show "set active' = set active \<union> set ids" using 3 True by auto
      show "set (started outs) \<subseteq> set (w # ws)" using 4 outs by auto
      show "length (started outs) = length ids" using 5 outs len by simp
    qed (rule 2)
  next
    case False
    with Cons.prems show ?thesis using Cons.IH [of active ids active' outs] by auto
  qed
qed auto

section \<open>The invariant\<close>

text \<open>
  The running executions are exactly the active ids, each once; a lease request in flight never asks
  for more than what was free, and nothing is started while it is in flight.
\<close>

definition scheduler_inv :: "('i \<Rightarrow> string) \<Rightarrow> nat \<Rightarrow> scheduler \<Rightarrow> 'i multiset \<Rightarrow> bool" where
  "scheduler_inv ident maxConcurrency s running \<longleftrightarrow>
     distinct (sc_active s) \<and> mset (sc_active s) = image_mset ident running \<and>
     length (sc_active s) + (case sc_poll s of None \<Rightarrow> 0 | Some n \<Rightarrow> n) \<le> maxConcurrency"

lemma active_count: "scheduler_inv ident n s running \<Longrightarrow> length (sc_active s) = size running"
  unfolding scheduler_inv_def by (metis size_image_mset size_mset)

lemma inv_trigger:
  assumes "scheduler_inv ident n s running" and "trigger n s = (s', outs)"
  shows "scheduler_inv ident n s' running \<and> started outs = []"
  using assms by (auto simp: scheduler_inv_def trigger_def Let_def split: if_splits)

lemma inv_lease_failed:
  assumes "scheduler_inv ident n s running" and "lease_failed m s = (s', outs)"
  shows "scheduler_inv ident n s' running \<and> started outs = []"
  using assms by (auto simp: scheduler_inv_def lease_failed_def split: option.splits)

lemma inv_lease_reply:
  assumes inv: "scheduler_inv ident n s running" and reply: "lease_reply ident config items s = (s', outs)"
  shows "scheduler_inv ident n s' (running + mset (started outs))"
proof (cases "sc_poll s")
  case None
  with assms show ?thesis by (simp add: lease_reply_def)
next
  case (Some capacity)
  show ?thesis
  proof (cases "length items > capacity")
    case True
    with Some assms show ?thesis by (auto simp: lease_reply_def scheduler_inv_def)
  next
    case False
    obtain ids errors where acc: "accept_items ident (sc_active s) [] items = (ids, errors :: ('b, 'a) scheduler_output list)" by force
    obtain active began where st: "start_items ident config (sc_active s) ids items = (active, began)" by force
    from reply Some False acc st have s': "s' = s\<lparr>sc_active := active, sc_poll := None\<rparr>"
      and outs: "outs = OnConfig config # errors @ began"
      by (auto simp: lease_reply_def split: prod.splits)
    from accept_items_props [OF acc] have a: "distinct ids" "set ids \<inter> set (sc_active s) = {}"
      "set ids \<subseteq> ident ` set items" "length ids \<le> length items" "started errors = []" by auto
    from inv have d: "distinct (sc_active s)" by (simp add: scheduler_inv_def)
    from start_items_props [OF st a(1) d a(2,3)]
    have b: "active = sc_active s @ map ident (started began)" "distinct active" "length (started began) = length ids" by blast+
    show ?thesis
      using inv s' outs a(4,5) b Some False by (simp add: scheduler_inv_def)
  qed
qed

lemma inv_work_ends:
  assumes inv: "scheduler_inv ident n s running" and "w \<in># running" and "work_ends ident w e s = (s', outs)"
  shows "scheduler_inv ident n s' (running - {#w#}) \<and> started outs = []"
proof -
  from inv have d: "distinct (sc_active s)" and m: "mset (sc_active s) = image_mset ident running"
    by (auto simp: scheduler_inv_def)
  have "removeAll (ident w) (sc_active s) = remove1 (ident w) (sc_active s)"
    using d by (simp add: distinct_remove1_removeAll)
  moreover have "mset (remove1 (ident w) (sc_active s)) = image_mset ident (running - {#w#})"
    using m assms(2) by (simp add: image_mset_Diff)
  moreover have "length (remove1 (ident w) (sc_active s)) \<le> length (sc_active s)"
    by (simp add: length_remove1)
  ultimately show ?thesis
    using assms d by (auto simp: scheduler_inv_def work_ends_def split: option.splits)
qed

lemma scheduler_run_inv: "scheduler_run ident n s running outs \<Longrightarrow> scheduler_inv ident n s running"
proof (induction rule: scheduler_run.induct)
  case start
  show ?case by (simp add: scheduler_inv_def initial_scheduler_def)
next
  case (step s running outs ev s' new running')
  show ?case
  proof (cases ev)
    case Trigger
    with step inv_trigger [OF step.IH, of s' new] show ?thesis by simp
  next
    case (LeaseReply config items)
    with step inv_lease_reply [OF step.IH, of config items s' new] show ?thesis by simp
  next
    case (LeaseFailed m)
    with step inv_lease_failed [OF step.IH, of m s' new] show ?thesis by simp
  next
    case (WorkEnds w e)
    with step inv_work_ends [OF step.IH, of w e s' new] show ?thesis by simp
  qed
qed

text \<open>C26 Over any interleaving of triggers, lease answers and ends of executions, at most \<open>maxConcurrency\<close>
  executions run at once, no two running executions have the same id, and the ids the scheduler
  believes active are exactly those of the running executions, so a leased item is never run twice
  at the same time and no capacity is lost.\<close>

theorem scheduler_bounded_exclusive:
  assumes "scheduler_run ident maxConcurrency s running outs"
  shows "size running \<le> maxConcurrency \<and> mset (sc_active s) = image_mset ident running \<and> distinct (sc_active s)"
proof -
  from scheduler_run_inv [OF assms] have inv: "scheduler_inv ident maxConcurrency s running" .
  with active_count [OF inv] show ?thesis by (auto simp: scheduler_inv_def)
qed

text \<open>A lease request asks for no more than is free, and whatever the answer holds, the executions running
  after it fit: an answer longer than the request is refused as a whole, and an item already running
  or repeated is reported, not run.\<close>

theorem lease_reply_fits:
  fixes outs new :: "('c, 'i) scheduler_output list"
  assumes "scheduler_run ident maxConcurrency s running outs" and "sc_poll s = Some capacity"
    and "lease_reply ident config items s = (s', new)"
  shows "size running + capacity \<le> maxConcurrency \<and> size running + length (started new) \<le> maxConcurrency
    \<and> distinct (map ident (started new)) \<and> set (map ident (started new)) \<inter> set (sc_active s) = {}"
proof -
  have step: "scheduler_run ident maxConcurrency s' (running + mset (started new)) (outs @ new)"
    by (rule scheduler_run.step [OF assms(1), of "LeaseReply config items"]) (use assms(3) in auto)
  from scheduler_run_inv [OF assms(1)] have inv: "scheduler_inv ident maxConcurrency s running" .
  from scheduler_run_inv [OF step] have inv': "scheduler_inv ident maxConcurrency s' (running + mset (started new))" .
  have eq: "mset (sc_active s) = image_mset ident running"
    "mset (sc_active s') = mset (sc_active s) + mset (map ident (started new))"
    using inv inv' by (auto simp: scheduler_inv_def)
  have len: "length (sc_active s) = size running" "length (sc_active s') = size running + length (started new)"
    using active_count [OF inv] active_count [OF inv'] by auto
  have "distinct (sc_active s')" using inv' by (simp add: scheduler_inv_def)
  moreover have "mset (sc_active s') = mset (sc_active s @ map ident (started new))" using eq by simp
  ultimately have "distinct (sc_active s @ map ident (started new))" by (metis mset_eq_imp_distinct_iff)
  with inv inv' assms(2) len show ?thesis by (auto simp: scheduler_inv_def split: option.splits)
qed

text \<open>Two slots; an answer that repeats an id runs it once.\<close>

definition polling :: scheduler where
  "polling = \<lparr>sc_active = [], sc_poll = Some 2\<rparr>"

lemma polling_run:
  "scheduler_run (\<lambda>i. i) 2 polling {#} [LeaseWork 2 [] :: (unit, string) scheduler_output]"
  using scheduler_run.step [OF scheduler_run.start, of Trigger "\<lambda>i. i" 2 polling "[LeaseWork 2 []]" "{#}"]
  by (simp add: trigger_def initial_scheduler_def polling_def Let_def)

lemma sample_reply:
  "lease_reply (\<lambda>i. i) () [''a'', ''a''] polling =
     (\<lparr>sc_active = [''a''], sc_poll = None\<rparr>,
      [OnConfig (), OnWorkError ''Lease response contained already-active work item a'' ''a'', ProcessWork () ''a''])"
  by code_simp

lemma busy_run:
  "scheduler_run (\<lambda>i. i) 2 \<lparr>sc_active = [''a''], sc_poll = None\<rparr> {#''a''#}
     [LeaseWork 2 [], OnConfig (), OnWorkError ''Lease response contained already-active work item a'' ''a'', ProcessWork () ''a'']"
  using scheduler_run.step [OF polling_run, of "LeaseReply () [''a'', ''a'']" _ _ "{#''a''#}"]
  by (simp add: sample_reply)

lemma scheduler_bounded_exclusive_witness:
  "size {#''a''#} \<le> 2 \<and> distinct [''a'']"
  using scheduler_bounded_exclusive [OF busy_run] by simp

lemma lease_reply_fits_witness:
  "size ({#} :: string multiset) + 2 \<le> 2 \<and> size ({#} :: string multiset) + length [''a''] \<le> 2 \<and> distinct [''a'']"
  using lease_reply_fits [OF polling_run _ sample_reply] by (simp add: polling_def)

end
