(* ===== verification/Work_Reporting.thy ===== *)
theory Work_Reporting
  imports Monitors
begin

text \<open>
  \<open>agent/src/agent-work-reporting.ts\<close>, how leased work is executed and its end reported, and
  \<open>agent/src/update-agent.ts\<close>, how an agent update is read, recognised and started. The callbacks
  are operations of a record over an arbitrary world; \<open>ApiRequestError\<close> is the constructor of
  \<^typ>\<open>js_error\<close> with the status and the message. The log callback, \<open>console.log\<close> by default, is a
  change of the world that does not throw.
\<close>

section \<open>Reporting the end of leased work\<close>

datatype 'r terminal_report =
    CompleteReport 'r
  | FailReport 'r string

datatype 'r work_outcome =
    Report "'r terminal_report"
  | Released string

fun is_complete :: "'r terminal_report \<Rightarrow> bool" where
  "is_complete (CompleteReport _) = True"
| "is_complete (FailReport _ _) = False"

fun report_kind :: "'r terminal_report \<Rightarrow> string" where
  "report_kind (CompleteReport _) = ''complete''"
| "report_kind (FailReport _ _) = ''fail''"

record ('w, 'r) work_input =
  wi_id :: string
  wi_kind :: string
  wi_prepare :: "('w, 'r work_outcome) io"
  wi_send :: "'r terminal_report \<Rightarrow> ('w, unit) io"
  wi_rejectResult :: "js_error \<Rightarrow> ('w, 'r terminal_report) io"
  wi_stopLease :: "('w, unit) io"
  wi_redactError :: "js_error \<Rightarrow> string"
  wi_sleep :: "int \<Rightarrow> ('w, unit) io"
  wi_log :: "string \<Rightarrow> 'w \<Rightarrow> 'w"

definition log_line :: "('w, 'r) work_input \<Rightarrow> string \<Rightarrow> ('w, unit) io" where
  "log_line input message = (\<lambda>w. Some (Inr (), wi_log input message w))"

text \<open>\<open>error instanceof ApiRequestError\<close>, with its status.\<close>

fun api_status :: "js_error \<Rightarrow> int option" where
  "api_status (ApiRequestError s _) = Some s"
| "api_status _ = None"

definition transient_error :: "js_error \<Rightarrow> bool" where
  "transient_error e \<longleftrightarrow>
     (case api_status e of None \<Rightarrow> True | Some s \<Rightarrow> s \<ge> 500 \<or> s = 408 \<or> s = 429)"

text \<open>
  One round of \<open>sendWithRetry\<close>: the loop keeps \<open>attempt\<close> and the flag \<open>completionMayBeCommitted\<close> of the
  enclosing function; it leaves with the thrown error, if any, and the flag.
\<close>

definition send_round ::
    "('w, 'r) work_input \<Rightarrow> 'r terminal_report \<Rightarrow> nat \<times> bool \<Rightarrow>
     ('w, (nat \<times> bool) + (js_error option \<times> bool)) io" where
  "send_round input report = (\<lambda>(attempt, maybeCommitted).
     io_bind (io_try (wi_send input report)) (\<lambda>r. case r of
       Inr _ \<Rightarrow> io_return (Inr (None, maybeCommitted))
     | Inl e \<Rightarrow>
         let transient = transient_error e;
             committed = (maybeCommitted \<or> transient \<and> is_complete report)
         in if \<not> transient \<or> attempt = 3 then io_return (Inr (Some e, committed))
            else io_bind (io_try (wi_sleep input (1000 * 2 ^ attempt))) (\<lambda>z. case z of
              Inl e2 \<Rightarrow> io_return (Inr (Some e2, committed))
            | Inr _ \<Rightarrow> io_return (Inl (Suc attempt, committed)))))"

definition sendWithRetry ::
    "('w, 'r) work_input \<Rightarrow> 'r terminal_report \<Rightarrow> bool \<Rightarrow> ('w, js_error option \<times> bool) io" where
  "sendWithRetry input report maybeCommitted = io_loop (send_round input report) (0, maybeCommitted)"

definition log_prefix :: "('w, 'r) work_input \<Rightarrow> string" where
  "log_prefix input = ''[nouva-agent] work '' @ wi_id input @ '' ('' @ wi_kind input @ '')''"

definition log_failure :: "('w, 'r) work_input \<Rightarrow> 'r terminal_report \<Rightarrow> ('w, unit) io" where
  "log_failure input report =
     (case report of
        FailReport _ m \<Rightarrow> log_line input (log_prefix input @ '' failed: '' @ m)
      | CompleteReport _ \<Rightarrow> io_return ())"

text \<open>The \<open>catch\<close> of the first \<open>sendWithRetry\<close>.\<close>

definition handle_send_error ::
    "('w, 'r) work_input \<Rightarrow> 'r terminal_report \<Rightarrow> bool \<Rightarrow> js_error \<Rightarrow> ('w, unit) io" where
  "handle_send_error input report maybeCommitted e =
     (if api_status e = Some 422 \<and> is_complete report \<and> \<not> maybeCommitted then
        io_bind (wi_rejectResult input e) (\<lambda>report2.
        io_bind (log_failure input report2) (\<lambda>_.
        io_bind (sendWithRetry input report2 maybeCommitted) (\<lambda>(e2, _).
          case e2 of None \<Rightarrow> io_return () | Some e2 \<Rightarrow> io_throw e2)))
      else if api_status e = Some 404 \<or> api_status e = Some 409 then
        log_line input (log_prefix input @ '' terminal report superseded (''
          @ show_int (the (api_status e)) @ '')'')
      else log_line input (log_prefix input @ '' '' @ report_kind report @ '' report failed: ''
          @ wi_redactError input e))"

definition report_terminal :: "('w, 'r) work_input \<Rightarrow> 'r terminal_report \<Rightarrow> ('w, unit) io" where
  "report_terminal input report =
     io_bind (log_failure input report) (\<lambda>_.
     io_bind (sendWithRetry input report False) (\<lambda>(e, maybeCommitted).
       case e of
         Some e \<Rightarrow> handle_send_error input report maybeCommitted e
       | None \<Rightarrow>
           if is_complete report then
             log_line input (log_prefix input @ '' completed'')
           else io_return ()))"

definition executeAndReportAgentWork :: "('w, 'r) work_input \<Rightarrow> ('w, unit) io" where
  "executeAndReportAgentWork input =
     io_finally
       (io_catch
         (io_bind (wi_prepare input) (\<lambda>outcome. case outcome of
            Released reason \<Rightarrow> log_line input (log_prefix input @ '' returned to the queue: '' @ reason)
          | Report report \<Rightarrow> report_terminal input report))
         (\<lambda>e. log_line input (log_prefix input @ '' failed during execution/reporting: '' @ wi_redactError input e)))
       (wi_stopLease input)"

section \<open>Agent updates\<close>

record update_payload =
  up_releaseId :: "string option"
  up_version :: "string option"
  up_imageRef :: "string option"
  up_imageTag :: "string option"

fun toObject :: "json \<Rightarrow> (string \<times> json) list" where
  "toObject (JObj r) = r"
| "toObject _ = []"

definition blank :: "string option \<Rightarrow> bool" where
  "blank s = (case s of None \<Rightarrow> True | Some t \<Rightarrow> trim t = [])"

text \<open>A key is present in the payload only when its value is a string that is not empty.\<close>

definition nonempty :: "string option \<Rightarrow> string option" where
  "nonempty s = (if s = Some [] then None else s)"

definition toUpdateAgentPayload :: "json \<Rightarrow> js_error + update_payload" where
  "toUpdateAgentPayload value =
     (let payload = toObject value;
          releaseId = json_str (jprop payload ''releaseId'');
          version = json_str (jprop payload ''version'');
          imageRef = json_str (jprop payload ''imageRef'');
          imageTag = json_str (jprop payload ''imageTag'')
      in if blank imageRef \<and> blank imageTag
         then Inl (Error ''Agent update payload is missing imageRef/imageTag'')
         else Inr \<lparr>up_releaseId = nonempty releaseId, up_version = nonempty version,
                   up_imageRef = nonempty imageRef, up_imageTag = nonempty imageTag\<rparr>)"

definition trimmed :: "string option \<Rightarrow> string option" where
  "trimmed s = (case s of None \<Rightarrow> None | Some t \<Rightarrow> if trim t = [] then None else Some (trim t))"

definition resolveUpdateAgentImageRef :: "update_payload \<Rightarrow> js_error + string" where
  "resolveUpdateAgentImageRef payload =
     (case trimmed (up_imageRef payload) of
        Some r \<Rightarrow> Inr r
      | None \<Rightarrow>
          (case trimmed (up_imageTag payload) of
             Some t \<Rightarrow> Inr t
           | None \<Rightarrow> Inl (Error ''Agent update payload is missing imageRef/imageTag'')))"

definition normalizeVersion :: "string \<Rightarrow> string" where
  "normalizeVersion version = (if starts_with version ''v'' then version else ''v'' @ version)"

definition isAgentUpdateAlreadyApplied :: "string \<Rightarrow> string \<Rightarrow> update_payload \<Rightarrow> js_error + bool" where
  "isAgentUpdateAlreadyApplied runningImage runningVersion payload =
     (case trimmed (up_version payload) of
        None \<Rightarrow> Inr False
      | Some requestedVersion \<Rightarrow>
          (case resolveUpdateAgentImageRef payload of
             Inl e \<Rightarrow> Inl e
           | Inr ref \<Rightarrow> Inr (trim runningImage = ref \<and> normalizeVersion (trim runningVersion) = normalizeVersion requestedVersion)))"

datatype completion_delivery = DeliveryPending | Delivered | DeliveryUnconfirmed | DeliveryRejected

definition recordAgentUpdateCompletionAttempt ::
    "completion_delivery \<Rightarrow> js_error option \<Rightarrow> completion_delivery" where
  "recordAgentUpdateCompletionAttempt current error =
     (case error of
        None \<Rightarrow> Delivered
      | Some e \<Rightarrow> if transient_error e \<or> current = DeliveryUnconfirmed then DeliveryUnconfirmed
                  else DeliveryRejected)"

definition shouldStartAgentUpdater :: "completion_delivery \<Rightarrow> bool" where
  "shouldStartAgentUpdater delivery \<longleftrightarrow> delivery = Delivered \<or> delivery = DeliveryUnconfirmed"

record 'w drain_input =
  di_isWorkActive :: "'w \<Rightarrow> bool"
  di_startUpdater :: "('w, unit) io"
  di_drainTimeoutMs :: int
  di_pollIntervalMs :: int
  di_clock :: "'w clock"
  di_log :: "string \<Rightarrow> ('w, unit) io"

definition io_test :: "('w \<Rightarrow> bool) \<Rightarrow> ('w, bool) io" where
  "io_test p = (\<lambda>w. Some (Inr (p w), w))"

definition drain_round :: "'w drain_input \<Rightarrow> int \<Rightarrow> unit \<Rightarrow> ('w, unit + unit) io" where
  "drain_round input deadline = (\<lambda>_.
     io_bind (io_test (di_isWorkActive input)) (\<lambda>active.
       if \<not> active then io_return (Inr ())
       else io_bind (io_now (di_clock input)) (\<lambda>t.
         if t \<ge> deadline then
           io_bind (di_log input ''[nouva-agent] agent update drain timed out; restarting with work still in flight'')
             (\<lambda>_. io_return (Inr ()))
         else io_bind (wait (di_clock input) (di_pollIntervalMs input)) (\<lambda>_. io_return (Inl ())))))"

definition startAgentUpdaterAfterDrain :: "'w drain_input \<Rightarrow> ('w, unit) io" where
  "startAgentUpdaterAfterDrain input =
     io_bind (io_now (di_clock input)) (\<lambda>t.
     io_bind (io_loop (drain_round input (t + di_drainTimeoutMs input)) ()) (\<lambda>_.
     di_startUpdater input))"

end
