(* ===== verification/Work_Reporting_Props.thy ===== *)
theory Work_Reporting_Props
  imports Work_Reporting
begin

text \<open>
  What the reporting of leased work guarantees: the lease is kept until reporting has ended and
  given up exactly once, a report is sent at most four times, a completion that may have been
  committed is never replaced by a rollback, and an update restarts the agent only after the drain.
\<close>

section \<open>The protocol of a work item\<close>

datatype 'r work_event =
    PrepareEv
  | SendEv "'r terminal_report" "js_error + unit"
  | RejectEv
  | StopLeaseEv

definition watched_work :: "('w, 'r) work_input \<Rightarrow> ('w \<times> 'r work_event list, 'r) work_input" where
  "watched_work i = \<lparr>wi_id = wi_id i, wi_kind = wi_kind i,
     wi_prepare = log_call PrepareEv (wi_prepare i),
     wi_send = (\<lambda>rep. log_result (SendEv rep) (wi_send i rep)),
     wi_rejectResult = (\<lambda>e. log_call RejectEv (wi_rejectResult i e)),
     wi_stopLease = log_call StopLeaseEv (wi_stopLease i),
     wi_redactError = wi_redactError i, wi_sleep = (\<lambda>ms. unlogged (wi_sleep i ms)),
     wi_log = (\<lambda>m. map_prod (wi_log i m) id)\<rparr>"

lemma watched_work_simps [simp]:
  "wi_prepare (watched_work i) = log_call PrepareEv (wi_prepare i)"
  "wi_send (watched_work i) rep = log_result (SendEv rep) (wi_send i rep)"
  "wi_rejectResult (watched_work i) e = log_call RejectEv (wi_rejectResult i e)"
  "wi_stopLease (watched_work i) = log_call StopLeaseEv (wi_stopLease i)"
  "wi_sleep (watched_work i) ms = unlogged (wi_sleep i ms)"
  "log_line (watched_work i) m = unlogged (log_line i m)"
  by (auto simp: watched_work_def log_line_def unlogged_def)

text \<open>
  The state of a work item: not prepared; reporting, with the sends of the current report, whether a
  completion may have been committed, and whether the result was already rejected; the lease given up.
\<close>

datatype work_state =
    NotPrepared
  | Reporting nat bool bool
  | LeaseStopped

fun work_protocol :: "work_state \<Rightarrow> 'r work_event \<Rightarrow> work_state option" where
  "work_protocol NotPrepared PrepareEv = Some (Reporting 0 False False)"
| "work_protocol (Reporting n committed rejected) (SendEv rep r) =
     (if n < 4 then
        Some (Reporting (Suc n)
          (committed \<or> is_complete rep \<and> (case r of Inl e \<Rightarrow> transient_error e | Inr _ \<Rightarrow> True)) rejected)
      else None)"
| "work_protocol (Reporting n committed rejected) RejectEv =
     (if \<not> committed \<and> \<not> rejected then Some (Reporting 0 False True) else None)"
| "work_protocol (Reporting n committed rejected) StopLeaseEv = Some LeaseStopped"
| "work_protocol _ _ = None"

definition reporting :: "work_state \<Rightarrow> bool" where
  "reporting s \<longleftrightarrow> (\<exists>n c r. s = Reporting n c r)"

text \<open>A silent operation: the sleeps and the log lines.\<close>

lemma log_failure_obeys: "(\<And>r. Q r s) \<Longrightarrow> obeys work_protocol s (log_failure (watched_work i) rep) Q"
  by (auto simp: log_failure_def intro!: obeys_unlogged obeys_return split: terminal_report.splits)

text \<open>
  The sends of one report: the flag the code returns is at least as cautious as the protocol's
  after a failure, so that a rejection it allows is one the protocol allows.
\<close>

definition sent :: "bool \<Rightarrow> js_error + (js_error option \<times> bool) \<Rightarrow> work_state \<Rightarrow> bool" where
  "sent rejected r s \<longleftrightarrow> (\<exists>n c. s = Reporting n c rejected \<and>
     (case r of Inl _ \<Rightarrow> True | Inr (None, m) \<Rightarrow> True | Inr (Some e, m) \<Rightarrow> c = m))"

lemma send_round_obeys:
  assumes "s = Reporting attempt m rejected" and "attempt \<le> 3"
  shows "obeys work_protocol s (send_round (watched_work i) rep (attempt, m))
    (\<lambda>r s'. case r of Inl _ \<Rightarrow> False
       | Inr (Inl (attempt', m')) \<Rightarrow> s' = Reporting attempt' m' rejected \<and> attempt' \<le> 3
       | Inr (Inr x) \<Rightarrow> sent rejected (Inr x) s')"
  unfolding send_round_def case_prod_conv
proof (rule obeys_bind)
  let ?P = "\<lambda>r s'. s' = Reporting (Suc attempt)
      (m \<or> is_complete rep \<and> (case r of Inl e \<Rightarrow> transient_error e | Inr _ \<Rightarrow> True)) rejected"
  show "obeys work_protocol s (io_try (wi_send (watched_work i) rep))
      (\<lambda>r s'. case r of Inl _ \<Rightarrow> False | Inr x \<Rightarrow> ?P x s')"
    by (rule obeys_try [where P = ?P]) (use assms in \<open>auto intro!: obeys_result\<close>)
next
  fix r :: "js_error + unit" and s'
  assume "case Inr r of Inl _ \<Rightarrow> False | Inr x \<Rightarrow> s' = Reporting (Suc attempt)
      (m \<or> is_complete rep \<and> (case x of Inl e \<Rightarrow> transient_error e | Inr _ \<Rightarrow> True)) rejected"
  then have s': "s' = Reporting (Suc attempt)
      (m \<or> is_complete rep \<and> (case r of Inl e \<Rightarrow> transient_error e | Inr _ \<Rightarrow> True)) rejected" by simp
  show "obeys work_protocol s' (case r of
       Inr _ \<Rightarrow> io_return (Inr (None, m))
     | Inl e \<Rightarrow>
         let transient = transient_error e; committed = (m \<or> transient \<and> is_complete rep)
         in if \<not> transient \<or> attempt = 3 then io_return (Inr (Some e, committed))
            else io_bind (io_try (wi_sleep (watched_work i) (1000 * 2 ^ attempt))) (\<lambda>z. case z of
              Inl e2 \<Rightarrow> io_return (Inr (Some e2, committed))
            | Inr _ \<Rightarrow> io_return (Inl (Suc attempt, committed))))
    (\<lambda>r s'. case r of Inl _ \<Rightarrow> False
       | Inr (Inl (attempt', m')) \<Rightarrow> s' = Reporting attempt' m' rejected \<and> attempt' \<le> 3
       | Inr (Inr x) \<Rightarrow> sent rejected (Inr x) s')"
  proof (cases r)
    case (Inr u)
    with s' show ?thesis by (auto intro!: obeys_return simp: sent_def)
  next
    case (Inl e)
    let ?s = "\<lambda>c. Reporting (Suc attempt) c rejected"
    let ?Q = "\<lambda>r s'. case r of Inl _ \<Rightarrow> False
       | Inr (Inl (attempt', m')) \<Rightarrow> s' = Reporting attempt' m' rejected \<and> attempt' \<le> 3
       | Inr (Inr x) \<Rightarrow> sent rejected (Inr x) s'"
    have sleep: "obeys work_protocol (?s c) (io_try (wi_sleep (watched_work i) ms)) (\<lambda>r s2. (\<exists>x. r = Inr x) \<and> s2 = ?s c)" for ms c
      by (rule obeys_try [where P = "\<lambda>_ s2. s2 = ?s c"]) (auto intro!: obeys_unlogged)
    have again: "obeys work_protocol (?s c) (io_bind (io_try (wi_sleep (watched_work i) ms)) (\<lambda>z. case z of
              Inl e2 \<Rightarrow> io_return (Inr (Some e2, c))
            | Inr _ \<Rightarrow> io_return (Inl (Suc attempt, c)))) ?Q" if "attempt \<noteq> 3" for ms c
      by (rule obeys_bind [OF sleep])
        (use that assms(2) in \<open>auto intro!: obeys_return simp: sent_def split: sum.splits\<close>)
    have leave: "obeys work_protocol (?s c) (io_return (Inr (Some e, c))) ?Q" for c
      by (auto intro!: obeys_return simp: sent_def)
    show ?thesis
    proof (cases "\<not> transient_error e \<or> attempt = 3")
      case True
      with Inl s' leave show ?thesis by (cases "transient_error e") (simp_all add: Let_def)
    next
      case False
      with Inl s' again show ?thesis by (simp add: Let_def)
    qed
  qed
qed auto

lemma sendWithRetry_obeys:
  "obeys work_protocol (Reporting 0 m rejected) (sendWithRetry (watched_work i) rep m) (sent rejected)"
  unfolding sendWithRetry_def
proof (rule obeys_loop [where I = "\<lambda>st s. s = Reporting (fst st) (snd st) rejected \<and> fst st \<le> 3"])
  fix st :: "nat \<times> bool" and s
  assume st: "s = Reporting (fst st) (snd st) rejected \<and> fst st \<le> 3"
  have "obeys work_protocol s (send_round (watched_work i) rep (fst st, snd st))
      (\<lambda>r m'. case r of Inl e \<Rightarrow> sent rejected (Inl e) m'
        | Inr (Inl s') \<Rightarrow> m' = Reporting (fst s') (snd s') rejected \<and> fst s' \<le> 3
        | Inr (Inr x) \<Rightarrow> sent rejected (Inr x) m')"
    by (rule obeys_conseq [OF send_round_obeys]) (use st in \<open>auto split: sum.splits prod.splits\<close>)
  then show "obeys work_protocol s (send_round (watched_work i) rep st)
      (\<lambda>r m'. case r of Inl e \<Rightarrow> sent rejected (Inl e) m'
        | Inr (Inl s') \<Rightarrow> m' = Reporting (fst s') (snd s') rejected \<and> fst s' \<le> 3
        | Inr (Inr x) \<Rightarrow> sent rejected (Inr x) m')" by simp
qed simp

lemma sent_reporting: "sent rejected r s \<Longrightarrow> reporting s"
  by (auto simp: sent_def reporting_def)

lemma handle_send_error_obeys:
  assumes "s = Reporting n m False"
  shows "obeys work_protocol s (handle_send_error (watched_work i) rep m e) (\<lambda>_. reporting)"
proof (cases "api_status e = Some 422 \<and> is_complete rep \<and> \<not> m")
  case True
  have reject: "obeys work_protocol s (wi_rejectResult (watched_work i) e) (\<lambda>_ s'. s' = Reporting 0 False True)"
    using True assms by (auto intro!: obeys_call)
  have again: "obeys work_protocol (Reporting 0 False True) (sendWithRetry (watched_work i) rep2 m) (sent True)" for rep2
    using sendWithRetry_obeys [of False True] True by simp
  have rest: "obeys work_protocol (Reporting 0 False True)
      (io_bind (log_failure (watched_work i) rep2) (\<lambda>_.
        io_bind (sendWithRetry (watched_work i) rep2 m) (\<lambda>(e2, _).
          case e2 of None \<Rightarrow> io_return () | Some e2 \<Rightarrow> io_throw e2))) (\<lambda>_. reporting)" for rep2
    by (rule obeys_bind [where P = "\<lambda>_ s'. s' = Reporting 0 False True"])
      (auto intro!: log_failure_obeys obeys_bind [OF again] obeys_return obeys_throw
        dest: sent_reporting simp: reporting_def split: option.splits)
  have "obeys work_protocol s (io_bind (wi_rejectResult (watched_work i) e) (\<lambda>report2.
      io_bind (log_failure (watched_work i) report2) (\<lambda>_.
        io_bind (sendWithRetry (watched_work i) report2 m) (\<lambda>(e2, _).
          case e2 of None \<Rightarrow> io_return () | Some e2 \<Rightarrow> io_throw e2)))) (\<lambda>_. reporting)"
    by (rule obeys_bind [OF reject]) (use rest in \<open>auto simp: reporting_def\<close>)
  with True show ?thesis by (simp add: handle_send_error_def)
qed (use assms in \<open>auto simp: handle_send_error_def reporting_def intro!: obeys_unlogged\<close>)

lemma report_terminal_obeys:
  "obeys work_protocol (Reporting 0 False False) (report_terminal (watched_work i) rep) (\<lambda>_. reporting)"
  unfolding report_terminal_def
proof (rule obeys_bind [where P = "\<lambda>_ s'. s' = Reporting 0 False False"], rule log_failure_obeys, rule refl)
  fix s' assume s': "s' = Reporting 0 False False"
  show "obeys work_protocol s' (io_bind (sendWithRetry (watched_work i) rep False) (\<lambda>(e, m).
       case e of
         Some e \<Rightarrow> handle_send_error (watched_work i) rep m e
       | None \<Rightarrow>
           if is_complete rep then log_line (watched_work i) (log_prefix (watched_work i) @ '' completed'')
           else io_return ())) (\<lambda>_. reporting)"
    unfolding s'
  proof (rule obeys_bind [OF sendWithRetry_obeys])
    fix x s2 assume x: "sent False (Inr x) s2"
    obtain e m where em: "x = (e, m)" by (cases x)
    show "obeys work_protocol s2 (case x of (e, m) \<Rightarrow> (case e of
         Some e \<Rightarrow> handle_send_error (watched_work i) rep m e
       | None \<Rightarrow>
           if is_complete rep then log_line (watched_work i) (log_prefix (watched_work i) @ '' completed'')
           else io_return ())) (\<lambda>_. reporting)"
    proof (cases e)
      case None
      with em sent_reporting [OF x] show ?thesis by (auto intro!: obeys_unlogged obeys_return)
    next
      case (Some e1)
      with x em obtain n where "s2 = Reporting n m False" by (auto simp: sent_def)
      with Some em show ?thesis by (auto intro: handle_send_error_obeys)
    qed
  qed (auto simp: sent_def reporting_def)
qed (auto simp: reporting_def)

text \<open>The whole function: \<open>finally\<close> gives the lease up whatever happened.\<close>

lemma obeys_finally_any:
  assumes "obeys mon s m P" and "\<And>r s'. P r s' \<Longrightarrow> obeys mon s' g (\<lambda>_ s''. Q s'')"
  shows "obeys mon s (io_finally m g) (\<lambda>_ s''. Q s'')"
  by (rule obeys_finally [OF assms(1) obeys_conseq [OF assms(2)]]) (auto split: sum.splits)

lemma execute_obeys:
  "obeys work_protocol NotPrepared (executeAndReportAgentWork (watched_work i)) (\<lambda>_ s. s = LeaseStopped)"
  unfolding executeAndReportAgentWork_def
proof (rule obeys_finally_any [where P = "\<lambda>_. reporting"])
  have prepare: "obeys work_protocol NotPrepared (wi_prepare (watched_work i)) (\<lambda>_ s. s = Reporting 0 False False)"
    by (auto intro!: obeys_call)
  have body: "obeys work_protocol (Reporting 0 False False) (case outcome of
      Released reason \<Rightarrow> log_line (watched_work i) (log_prefix (watched_work i) @ '' returned to the queue: '' @ reason)
    | Report rep \<Rightarrow> report_terminal (watched_work i) rep) (\<lambda>_. reporting)" for outcome
    by (cases outcome) (auto intro!: report_terminal_obeys obeys_unlogged simp: reporting_def)
  show "obeys work_protocol NotPrepared (io_catch
      (io_bind (wi_prepare (watched_work i)) (\<lambda>outcome. case outcome of
         Released reason \<Rightarrow> log_line (watched_work i) (log_prefix (watched_work i) @ '' returned to the queue: '' @ reason)
       | Report rep \<Rightarrow> report_terminal (watched_work i) rep))
      (\<lambda>e. log_line (watched_work i) (log_prefix (watched_work i) @ '' failed during execution/reporting: ''
         @ wi_redactError (watched_work i) e))) (\<lambda>_. reporting)"
    by (rule obeys_catch [where P = "\<lambda>_. reporting"], rule obeys_bind [OF prepare])
      (use body in \<open>auto intro!: obeys_unlogged simp: reporting_def\<close>)
next
  fix s' assume "reporting s'"
  then obtain n c r where "s' = Reporting n c r" by (auto simp: reporting_def)
  then show "obeys work_protocol s' (wi_stopLease (watched_work i)) (\<lambda>_ s. s = LeaseStopped)"
    by (auto intro!: obeys_call)
qed

fun is_send :: "'r work_event \<Rightarrow> bool" where
  "is_send (SendEv _ _) = True"
| "is_send _ = False"

lemma stopped_monitor: "run_monitor work_protocol LeaseStopped k = Some s \<Longrightarrow> k = []"
  by (cases k) auto

lemma reporting_monitor:
  assumes "run_monitor work_protocol (Reporting n c rejected) k = Some LeaseStopped" and "n \<le> 4"
  shows "(\<exists>k0. k = k0 @ [StopLeaseEv] \<and> StopLeaseEv \<notin> set k0) \<and>
    length (filter is_send k) \<le> (if rejected then 4 else 8) - n"
  using assms
proof (induction k arbitrary: n c rejected)
  case (Cons e k)
  show ?case
  proof (cases e)
    case (SendEv rep r)
    with Cons.prems have n: "n < 4" and run: "run_monitor work_protocol (Reporting (Suc n)
        (c \<or> is_complete rep \<and> (case r of Inl e \<Rightarrow> transient_error e | Inr _ \<Rightarrow> True)) rejected) k = Some LeaseStopped"
      by (auto split: if_splits)
    from Cons.IH [OF run] n obtain k0 where "k = k0 @ [StopLeaseEv]" "StopLeaseEv \<notin> set k0"
      "length (filter is_send k) \<le> (if rejected then 4 else 8) - Suc n" by auto
    with SendEv n show ?thesis by (intro conjI exI [of _ "e # k0"]) auto
  next
    case RejectEv
    with Cons.prems have r: "\<not> rejected" and run: "run_monitor work_protocol (Reporting 0 False True) k = Some LeaseStopped"
      by (auto split: if_splits)
    from Cons.IH [OF run] obtain k0 where "k = k0 @ [StopLeaseEv]" "StopLeaseEv \<notin> set k0"
      "length (filter is_send k) \<le> 4" by auto
    with RejectEv r Cons.prems(2) show ?thesis by (intro conjI exI [of _ "e # k0"]) auto
  next
    case StopLeaseEv
    with Cons.prems have "k = []" by (auto dest: stopped_monitor)
    with StopLeaseEv show ?thesis by (intro conjI exI [of _ "[]"]) auto
  qed (use Cons.prems in auto)
qed simp

text \<open>C27 Executing and reporting a work item prepares it once, keeps its lease until the very end and gives it
  up exactly once, on every path, sends at most eight reports in all and at most four of one, and asks
  for the rollback of a rejected result at most once, and never after a completion that a failed send
  may have committed.\<close>

theorem work_report_protocol:
  assumes "executeAndReportAgentWork (watched_work i) (w, []) = Some (r, (w', k))"
  shows "run_monitor work_protocol NotPrepared k = Some LeaseStopped
    \<and> (\<exists>k0. k = PrepareEv # k0 @ [StopLeaseEv] \<and> StopLeaseEv \<notin> set k0)
    \<and> length (filter is_send k) \<le> 8"
proof -
  from obeys_final [OF execute_obeys assms]
  have run: "run_monitor work_protocol NotPrepared k = Some LeaseStopped" by auto
  then obtain k1 where k1: "k = PrepareEv # k1"
    and run1: "run_monitor work_protocol (Reporting 0 False False) k1 = Some LeaseStopped"
    by (cases k; cases "hd k") auto
  from reporting_monitor [OF run1] k1 run show ?thesis by auto
qed

text \<open>A completion that is refused for its content: the result is rolled back and the failure sent.\<close>

definition rejected_work :: "(unit, string) work_input" where
  "rejected_work = \<lparr>wi_id = ''w1'', wi_kind = ''deploy'', wi_prepare = io_return (Report (CompleteReport ''r'')),
     wi_send = (\<lambda>rep. if is_complete rep then io_throw (ApiRequestError 422 ''bad'') else io_return ()),
     wi_rejectResult = (\<lambda>_. io_return (FailReport ''r'' ''rejected'')), wi_stopLease = io_return (),
     wi_redactError = (\<lambda>e. error_text e), wi_sleep = (\<lambda>_. io_return ()), wi_log = (\<lambda>_ w. w)\<rparr>"

lemma rejected_work_trace:
  "executeAndReportAgentWork (watched_work rejected_work) ((), []) = Some (Inr (), ((),
     [PrepareEv, SendEv (CompleteReport ''r'') (Inl (ApiRequestError 422 ''bad'')), RejectEv,
      SendEv (FailReport ''r'' ''rejected'') (Inr ()), StopLeaseEv]))"
  by code_simp

lemma work_report_protocol_witness:
  "run_monitor work_protocol NotPrepared
     [PrepareEv, SendEv (CompleteReport ''r'') (Inl (ApiRequestError 422 ''bad'')), RejectEv,
      SendEv (FailReport ''r'' ''rejected'') (Inr ()), StopLeaseEv] = Some LeaseStopped"
  using work_report_protocol [OF rejected_work_trace] by blast

section \<open>Reporting ends\<close>

definition returns :: "('w, 'a) io \<Rightarrow> bool" where
  "returns m \<longleftrightarrow> (\<forall>w. m w \<noteq> None)"

lemma returns_bind: "returns m \<Longrightarrow> (\<And>x. returns (f x)) \<Longrightarrow> returns (io_bind m f)"
  by (simp add: returns_def io_bind_None_iff)

lemma returns_simple [simp]: "returns (io_return x)" "returns (io_throw e)" "returns (log_line i m)"
  by (simp_all add: returns_def log_line_def)

lemma returns_try: "returns m \<Longrightarrow> returns (io_try m)"
  by (simp add: returns_def)

lemma returns_catch: "returns m \<Longrightarrow> (\<And>e. returns (h e)) \<Longrightarrow> returns (io_catch m h)"
  unfolding returns_def
proof
  fix w assume m: "\<forall>w. m w \<noteq> None" and h: "\<And>e. \<forall>w. h e w \<noteq> None"
  from m obtain r w1 where "m w = Some (r, w1)" by fastforce
  with h show "io_catch m h w \<noteq> None" by (cases r) (simp_all add: io_catch_def)
qed

lemma returns_finally: "returns m \<Longrightarrow> returns g \<Longrightarrow> returns (io_finally m g)"
  unfolding returns_def
proof
  fix w assume m: "\<forall>w. m w \<noteq> None" and g: "\<forall>w. g w \<noteq> None"
  from m obtain r w1 where "m w = Some (r, w1)" by fastforce
  moreover from g obtain s w2 where "g w1 = Some (s, w2)" by fastforce
  ultimately show "io_finally m g w \<noteq> None" by (cases s) (simp_all add: io_finally_def)
qed

lemma returns_send:
  assumes "\<And>rep. returns (wi_send i rep)" and "\<And>ms. returns (wi_sleep i ms)"
  shows "returns (sendWithRetry i rep m)"
  unfolding returns_def sendWithRetry_def
proof
  fix w
  have round: "returns (send_round i rep st)" for st
    unfolding send_round_def
    by (cases st) (auto simp: Let_def intro!: returns_bind returns_try assms split: sum.splits)
  have "\<exists>r w'. io_loop (send_round i rep) (0, m) w = Some (r, w')"
  proof (rule io_loop_settles [where I = "\<lambda>st _. fst st \<le> 3" and m = "\<lambda>st _. 3 - fst st"])
    fix st :: "nat \<times> bool" and w
    assume st: "fst st \<le> 3"
    from round [of st] obtain r w' where r: "send_round i rep st w = Some (r, w')"
      unfolding returns_def by fastforce
    have "fst st' = Suc (fst st) \<and> fst st \<noteq> 3" if "r = Inr (Inl st')" for st'
      using r that by (cases st) (auto simp: send_round_def Let_def io_bind_sum_Some_iff split: if_splits)
    then have "\<forall>st'. r = Inr (Inl st') \<longrightarrow> fst st' \<le> 3 \<and> 3 - fst st' < 3 - fst st" using st by auto
    with r show "\<exists>r w'. send_round i rep st w = Some (r, w') \<and>
        (\<forall>s'. r = Inr (Inl s') \<longrightarrow> fst s' \<le> 3 \<and> 3 - fst s' < 3 - fst st)" by blast
  qed simp
  then show "io_loop (send_round i rep) (0, m) w \<noteq> None" by auto
qed

text \<open>C28 Reporting always ends: if the work's own callbacks each come back, with a result or an error, then so
  does executing and reporting it, whatever the control plane answers.\<close>

theorem work_reporting_ends:
  assumes "returns (wi_prepare i)" and "\<And>rep. returns (wi_send i rep)" and "\<And>e. returns (wi_rejectResult i e)"
    and "returns (wi_stopLease i)" and "\<And>ms. returns (wi_sleep i ms)"
  shows "executeAndReportAgentWork i w \<noteq> None"
proof -
  note send = returns_send [OF assms(2,5)]
  have log: "returns (log_failure i rep)" for rep by (cases rep) (simp_all add: log_failure_def)
  have handle: "returns (handle_send_error i rep m e)" for rep m e
    unfolding handle_send_error_def
    by (auto intro!: returns_bind assms log send split: option.splits)
  have "returns (report_terminal i rep)" for rep
    unfolding report_terminal_def
    by (auto intro!: returns_bind log send handle split: option.splits)
  then have "returns (executeAndReportAgentWork i)"
    unfolding executeAndReportAgentWork_def
    by (auto intro!: returns_finally returns_catch returns_bind assms split: work_outcome.splits)
  then show ?thesis by (simp add: returns_def)
qed

lemma work_reporting_ends_witness: "executeAndReportAgentWork rejected_work () \<noteq> None"
  by (rule work_reporting_ends) (simp_all add: rejected_work_def)

end
