(* ===== verification/Update_Agent_Props.thy ===== *)
theory Update_Agent_Props
  imports Work_Reporting
begin

text \<open>
  The agent update (\<open>agent/src/update-agent.ts\<close>): a payload that is accepted names an image, the
  delivery of the completion report over its attempts, and the drain before the updater starts.
\<close>

lemma trimmed_None_iff: "trimmed s = None \<longleftrightarrow> blank s"
  by (cases s) (auto simp: trimmed_def blank_def)

lemma trimmed_nonempty [simp]: "trimmed (nonempty s) = trimmed s"
  by (simp add: nonempty_def trimmed_def)

lemma trimmed_SomeD: "trimmed s = Some r \<Longrightarrow> trim r = r \<and> r \<noteq> []"
  by (cases s) (auto simp: trimmed_def split: if_splits)

text \<open>An update payload is accepted exactly when one of its two image fields is a string that is not blank, and
  an accepted one always resolves to an image: the trimmed \<open>imageRef\<close>, or else the trimmed \<open>imageTag\<close>.\<close>

theorem accepted_update_has_image:
  "case toUpdateAgentPayload v of
     Inl e \<Rightarrow> blank (json_str (jprop (toObject v) ''imageRef'')) \<and> blank (json_str (jprop (toObject v) ''imageTag''))
   | Inr p \<Rightarrow> \<exists>r. resolveUpdateAgentImageRef p = Inr r \<and> trim r = r \<and> r \<noteq> [] \<and>
       Some r = (if blank (json_str (jprop (toObject v) ''imageRef''))
                 then trimmed (json_str (jprop (toObject v) ''imageTag''))
                 else trimmed (json_str (jprop (toObject v) ''imageRef'')))"
  by (auto simp: toUpdateAgentPayload_def resolveUpdateAgentImageRef_def Let_def trimmed_None_iff [symmetric]
      dest: trimmed_SomeD split: option.splits)

lemma attempt_unconfirmed_iff:
  "recordAgentUpdateCompletionAttempt d a = DeliveryUnconfirmed \<longleftrightarrow>
     (\<exists>e. a = Some e \<and> (transient_error e \<or> d = DeliveryUnconfirmed))"
  by (auto simp: recordAgentUpdateCompletionAttempt_def split: option.splits)

lemma attempt_starts_iff:
  "shouldStartAgentUpdater (recordAgentUpdateCompletionAttempt d a) \<longleftrightarrow>
     a = None \<or> (\<exists>e. a = Some e \<and> (transient_error e \<or> d = DeliveryUnconfirmed))"
  by (auto simp: recordAgentUpdateCompletionAttempt_def shouldStartAgentUpdater_def split: option.splits)

lemma attempts_unconfirmed_iff:
  "foldl recordAgentUpdateCompletionAttempt DeliveryPending as = DeliveryUnconfirmed \<longleftrightarrow>
     (\<exists>e. Some e \<in> set (takeWhile (\<lambda>a. a \<noteq> None) (rev as)) \<and> transient_error e)"
  by (induction as rule: rev_induct) (auto simp: attempt_unconfirmed_iff)

text \<open>Over any sequence of attempts to report an update as completed, the updater may start exactly when the
  last attempt went through, or one of the attempts since the last one that did may have been committed
  although it failed: definite rejections alone never restart the agent.\<close>

theorem updater_starts_unless_rejected:
  "shouldStartAgentUpdater (foldl recordAgentUpdateCompletionAttempt DeliveryPending attempts) \<longleftrightarrow>
     attempts \<noteq> [] \<and> (last attempts = None \<or>
       (\<exists>e. Some e \<in> set (takeWhile (\<lambda>a. a \<noteq> None) (rev attempts)) \<and> transient_error e))"
proof (cases attempts rule: rev_cases)
  case Nil
  then show ?thesis by (simp add: shouldStartAgentUpdater_def)
next
  case (snoc as a)
  then show ?thesis by (cases a) (auto simp: attempt_starts_iff attempts_unconfirmed_iff)
qed

section \<open>The drain\<close>

text \<open>What is assumed of the log of the drain: it comes back.\<close>

definition log_returns :: "('w \<Rightarrow> int) \<Rightarrow> 'w drain_input \<Rightarrow> bool" where
  "log_returns time i \<longleftrightarrow> (\<forall>m w. \<exists>w'. di_log i m w = Some (Inr (), w') \<and> time w \<le> time w')"

text \<open>What has happened when the drain is over.\<close>

definition drained :: "('w \<Rightarrow> int) \<Rightarrow> 'w drain_input \<Rightarrow> int \<Rightarrow> 'w \<Rightarrow> bool" where
  "drained time i deadline w \<longleftrightarrow> \<not> di_isWorkActive i w \<or> deadline \<le> time w"

lemma drain_round_step:
  assumes clock: "clock_advances time (di_clock i)" and log: "log_returns time i"
  shows "\<exists>r w'. drain_round i d u w = Some (Inr r, w') \<and>
           (r = Inr () \<and> drained time i d w' \<or>
            r = Inl () \<and> time w < d \<and> time w + max 0 (di_pollIntervalMs i) \<le> time w')"
proof (cases "di_isWorkActive i w")
  case False
  then show ?thesis by (simp add: drain_round_def io_test_def io_bind_def io_return_def drained_def)
next
  case True
  obtain w1 where w1: "io_now (di_clock i) w = Some (Inr (time w), w1)" "time w \<le> time w1"
    by (rule io_now_advances [OF clock])
  show ?thesis
  proof (cases "time w \<ge> d")
    case late: True
    let ?m = "''[nouva-agent] agent update drain timed out; restarting with work still in flight''"
    from log obtain w2 where "di_log i ?m w1 = Some (Inr (), w2)" "time w1 \<le> time w2"
      unfolding log_returns_def by blast
    with True w1 late show ?thesis
      by (simp add: drain_round_def io_test_def io_bind_def io_return_def drained_def)
  next
    case False
    obtain w2 where "wait (di_clock i) (di_pollIntervalMs i) w1 = Some (Inr (), w2)"
      "time w2 \<ge> time w1 + max 0 (di_pollIntervalMs i)" by (rule wait_advances [OF clock])
    with True w1 False show ?thesis
      by (simp add: drain_round_def io_test_def io_bind_def io_return_def)
  qed
qed

lemma drain_ends:
  assumes clock: "clock_advances time (di_clock i)" and log: "log_returns time i" and poll: "0 < di_pollIntervalMs i"
  obtains w' where "io_loop (drain_round i d) () w = Some (Inr (), w')" and "drained time i d w'"
proof -
  note step = drain_round_step [OF clock log]
  have "\<exists>r w'. io_loop (drain_round i d) () w = Some (r, w')"
  proof (rule io_loop_settles [where I = "\<lambda>_ _. True" and m = "\<lambda>_ w. nat (d - time w)"])
    fix s :: unit and w
    from step obtain r w' where rd: "drain_round i d s w = Some (Inr r, w')"
      and alt: "r = Inr () \<and> drained time i d w' \<or>
        r = Inl () \<and> time w < d \<and> time w + max 0 (di_pollIntervalMs i) \<le> time w'" by blast
    from alt poll have "r = Inl s' \<Longrightarrow> nat (d - time w') < nat (d - time w)" for s' by auto
    with rd show "\<exists>r w'. drain_round i d s w = Some (r, w') \<and>
        (\<forall>s'. r = Inr (Inl s') \<longrightarrow> True \<and> nat (d - time w') < nat (d - time w))" by blast
  qed simp
  then obtain r w' where run: "io_loop (drain_round i d) () w = Some (r, w')" by blast
  moreover have "(\<forall>x. r1 = Inr (Inr x) \<longrightarrow> drained time i d w2) \<and> (\<forall>e. r1 \<noteq> Inl e)"
    if "drain_round i d u w1 = Some (r1, w2)" for u w1 r1 w2
    using step [of d u w1] that by auto
  with run have "r = Inr () \<and> drained time i d w'"
    by (intro io_loop_partial [OF run, where I = "\<lambda>_ _. True"
          and Q = "\<lambda>r w'. r = Inr () \<and> drained time i d w'"]) auto
  ultimately show ?thesis using that by simp
qed

text \<open>C29 The agent is restarted after a drain that always ends, with a clock that advances and a positive poll
  interval: the updater is started exactly once and its outcome is the outcome of the call, in a world
  where no other work is active, or else only after the whole drain timeout has passed.\<close>

theorem updater_starts_after_drain:
  assumes clock: "clock_advances time (di_clock i)" and log: "log_returns time i"
    and poll: "0 < di_pollIntervalMs i"
  shows "\<exists>w'. startAgentUpdaterAfterDrain i w = di_startUpdater i w' \<and>
           (\<not> di_isWorkActive i w' \<or> time w + di_drainTimeoutMs i \<le> time w')"
proof -
  obtain w1 where w1: "io_now (di_clock i) w = Some (Inr (time w), w1)" by (rule io_now_advances [OF clock])
  obtain w2 where "io_loop (drain_round i (time w + di_drainTimeoutMs i)) () w1 = Some (Inr (), w2)"
    and d: "drained time i (time w + di_drainTimeoutMs i) w2"
    by (rule drain_ends [OF assms])
  with w1 have "startAgentUpdaterAfterDrain i w = di_startUpdater i w2"
    by (simp add: startAgentUpdaterAfterDrain_def io_bind_def)
  with d show ?thesis unfolding drained_def by blast
qed

text \<open>Work that stays active until the time 25000, against a drain of a minute and one of ten seconds.\<close>

definition sample_drain :: "int \<Rightarrow> int drain_input" where
  "sample_drain timeout = \<lparr>di_isWorkActive = (\<lambda>t. t < 25000), di_startUpdater = io_return (),
     di_drainTimeoutMs = timeout, di_pollIntervalMs = 2000, di_clock = int_clock, di_log = (\<lambda>_. io_return ())\<rparr>"

lemma updater_starts_after_drain_witness:
  "(\<exists>w'. startAgentUpdaterAfterDrain (sample_drain 60000) 0 = Some (Inr (), w') \<and> (25000 \<le> w' \<or> 60000 \<le> w')) \<and>
   (\<exists>w'. startAgentUpdaterAfterDrain (sample_drain 10000) 0 = Some (Inr (), w') \<and> (25000 \<le> w' \<or> 10000 \<le> w'))"
proof -
  have hyps: "clock_advances (\<lambda>t. t) (di_clock (sample_drain n))" "log_returns (\<lambda>t. t) (sample_drain n)"
    "0 < di_pollIntervalMs (sample_drain n)" for n
    by (simp_all add: sample_drain_def int_clock_advances log_returns_def)
  show ?thesis
    using updater_starts_after_drain [OF hyps, of 60000 0] updater_starts_after_drain [OF hyps, of 10000 0]
    by (simp add: sample_drain_def io_return_def not_less)
qed

end
