(* ===== verification/Polling.thy ===== *)
theory Polling
  imports Docker_Types
begin

text \<open>
  Loops that poll until a deadline. \<open>settles\<close> says that a call comes back and time does not go back;
  \<open>progress\<close> adds that time passes whenever the loop goes on. The rules follow the combinators, so that
  \<open>deadline_loop_ends\<close> reduces the end of a polling loop to what is assumed of the calls it makes.
\<close>

named_theorems settles_rules "rules for calls that come back"
named_theorems progress_rules "rules for rounds that let time pass before the next one"

section \<open>Calls that come back\<close>

lemma settles_pure [settles_rules]: "settles time (io_return x)" "settles time (io_throw e)"
  by (simp_all add: settles_def io_return_def io_throw_def)

lemma settles_bind [settles_rules]:
  assumes "settles time m" and "\<And>x. settles time (f x)"
  shows "settles time (io_bind m f)"
  unfolding settles_def
proof
  fix w
  from settlesD [OF assms(1)] obtain r w1 where m: "m w = Some (r, w1)" "time w \<le> time w1" by blast
  show "\<exists>r w'. io_bind m f w = Some (r, w') \<and> time w \<le> time w'"
  proof (cases r)
    case (Inr x)
    from settlesD [OF assms(2)] obtain s w2 where "f x w1 = Some (s, w2)" "time w1 \<le> time w2" by blast
    with m Inr show ?thesis by (simp add: io_bind_def)
  qed (use m in \<open>simp add: io_bind_def\<close>)
qed

lemma settles_catch [settles_rules]:
  assumes "settles time m" and "\<And>e. settles time (h e)"
  shows "settles time (io_catch m h)"
  unfolding settles_def
proof
  fix w
  from settlesD [OF assms(1)] obtain r w1 where m: "m w = Some (r, w1)" "time w \<le> time w1" by blast
  show "\<exists>r w'. io_catch m h w = Some (r, w') \<and> time w \<le> time w'"
  proof (cases r)
    case (Inl e)
    from settlesD [OF assms(2)] obtain s w2 where "h e w1 = Some (s, w2)" "time w1 \<le> time w2" by blast
    with m Inl show ?thesis by (simp add: io_catch_def)
  qed (use m in \<open>simp add: io_catch_def\<close>)
qed

lemma settles_try [settles_rules]: "settles time m \<Longrightarrow> settles time (io_try m)"
  unfolding settles_def by (metis io_try_Some_iff)

lemma settles_for [settles_rules]: "(\<And>x. settles time (f x)) \<Longrightarrow> settles time (io_for xs f)"
  by (induction xs) (auto intro: settles_rules)

lemma settles_if [settles_rules]:
  "(c \<Longrightarrow> settles time m) \<Longrightarrow> (\<not> c \<Longrightarrow> settles time n) \<Longrightarrow> settles time (if c then m else n)"
  by simp

lemma settles_option [settles_rules]:
  "settles time m \<Longrightarrow> (\<And>x. settles time (f x)) \<Longrightarrow> settles time (case v of None \<Rightarrow> m | Some x \<Rightarrow> f x)"
  by (cases v) auto

lemma settles_sum [settles_rules]:
  "(\<And>x. settles time (f x)) \<Longrightarrow> (\<And>y. settles time (g y)) \<Longrightarrow> settles time (case v of Inl x \<Rightarrow> f x | Inr y \<Rightarrow> g y)"
  by (cases v) auto

lemma settles_prod [settles_rules]: "(\<And>x y. settles time (f x y)) \<Longrightarrow> settles time (case v of (x, y) \<Rightarrow> f x y)"
  by (cases v) auto

lemma settles_now: "clock_advances time c \<Longrightarrow> settles time (io_now c)"
  unfolding settles_def by (metis io_now_advances)

lemma settles_wait: "clock_advances time c \<Longrightarrow> settles time (wait c ms)"
  unfolding settles_def
proof
  fix w assume "clock_advances time c"
  then obtain w' where "wait c ms w = Some (Inr (), w')" "time w' \<ge> time w + max 0 ms" by (rule wait_advances)
  then show "\<exists>r w'. wait c ms w = Some (r, w') \<and> time w \<le> time w'" by fastforce
qed

section \<open>Rounds that let time pass\<close>

definition progress :: "('w \<Rightarrow> int) \<Rightarrow> ('w, 's + 'a) io \<Rightarrow> bool" where
  "progress time m \<longleftrightarrow> (\<forall>w. \<exists>r w'. m w = Some (r, w') \<and> time w \<le> time w' \<and>
     (\<forall>s'. r = Inr (Inl s') \<longrightarrow> time w < time w'))"

lemma progressD:
  assumes "progress time m"
  obtains r w' where "m w = Some (r, w')" and "time w \<le> time w'" and "\<And>s'. r = Inr (Inl s') \<Longrightarrow> time w < time w'"
  using assms unfolding progress_def by blast

lemma progress_pure [progress_rules]: "progress time (io_return (Inr x))" "progress time (io_throw e)"
  by (simp_all add: progress_def io_return_def io_throw_def)

lemma progress_bind [progress_rules]:
  assumes "settles time m" and "\<And>x. progress time (f x)"
  shows "progress time (io_bind m f)"
  unfolding progress_def
proof
  fix w
  from settlesD [OF assms(1)] obtain r w1 where m: "m w = Some (r, w1)" "time w \<le> time w1" by blast
  show "\<exists>r w'. io_bind m f w = Some (r, w') \<and> time w \<le> time w' \<and> (\<forall>s'. r = Inr (Inl s') \<longrightarrow> time w < time w')"
  proof (cases r)
    case (Inr x)
    obtain s w2 where "f x w1 = Some (s, w2)" "time w1 \<le> time w2" "\<And>s'. s = Inr (Inl s') \<Longrightarrow> time w1 < time w2"
      using progressD [OF assms(2)] by metis
    with m Inr show ?thesis by (force simp: io_bind_def)
  qed (use m in \<open>simp add: io_bind_def\<close>)
qed

lemma progress_if [progress_rules]:
  "(c \<Longrightarrow> progress time m) \<Longrightarrow> (\<not> c \<Longrightarrow> progress time n) \<Longrightarrow> progress time (if c then m else n)"
  by simp

lemma progress_option [progress_rules]:
  "progress time m \<Longrightarrow> (\<And>x. progress time (f x)) \<Longrightarrow> progress time (case v of None \<Rightarrow> m | Some x \<Rightarrow> f x)"
  by (cases v) auto

lemma progress_sum [progress_rules]:
  "(\<And>x. progress time (f x)) \<Longrightarrow> (\<And>y. progress time (g y)) \<Longrightarrow> progress time (case v of Inl x \<Rightarrow> f x | Inr y \<Rightarrow> g y)"
  by (cases v) auto

text \<open>Going on after a wait.\<close>

lemma progress_wait:
  assumes "clock_advances time c" and "0 < ms"
  shows "progress time (io_bind (wait c ms) (\<lambda>_. io_return (Inl s)))"
  unfolding progress_def
proof
  fix w
  obtain w' where "wait c ms w = Some (Inr (), w')" "time w' \<ge> time w + max 0 ms"
    by (rule wait_advances [OF assms(1)])
  with assms(2) show "\<exists>r w'. io_bind (wait c ms) (\<lambda>_. io_return (Inl s)) w = Some (r, w') \<and> time w \<le> time w' \<and>
      (\<forall>s'. r = Inr (Inl s') \<longrightarrow> time w < time w')" by (simp add: io_bind_def)
qed

section \<open>Polling until a deadline\<close>

text \<open>\<open>while (now() <= deadline) { rest } late\<close>: what follows the loop does not go on with it.\<close>

lemma deadline_loop_ends:
  fixes body :: "'s \<Rightarrow> ('w, 's + 'a) io"
  assumes clock: "clock_advances time clk"
    and body: "\<And>s. body s = io_bind (io_now clk) (\<lambda>t. if t > deadline then late s else rest s t)"
    and rest: "\<And>s t. progress time (rest s t)" and late: "\<And>s. settles time (late s)"
    and stop: "\<And>s w r w'. late s w = Some (Inr r, w') \<Longrightarrow> \<exists>x. r = Inr x"
  shows "\<exists>r w'. io_loop body s w = Some (r, w')"
proof (rule io_loop_settles [where I = "\<lambda>_ _. True" and m = "\<lambda>_ w. nat (deadline + 1 - time w)"])
  fix s w
  obtain w1 where n: "io_now clk w = Some (Inr (time w), w1)" "time w \<le> time w1"
    by (rule io_now_advances [OF clock])
  show "\<exists>r w'. body s w = Some (r, w') \<and> (\<forall>s'. r = Inr (Inl s') \<longrightarrow>
      True \<and> nat (deadline + 1 - time w') < nat (deadline + 1 - time w))"
  proof (cases "time w > deadline")
    case True
    obtain r w2 where l: "late s w1 = Some (r, w2)" using settlesD [OF late] by blast
    moreover have "r \<noteq> Inr (Inl s')" for s' using stop l by (cases r) fastforce+
    ultimately show ?thesis using n True by (simp add: body io_bind_def)
  next
    case False
    obtain r w2 where "rest s (time w) w1 = Some (r, w2)" "\<And>s'. r = Inr (Inl s') \<Longrightarrow> time w1 < time w2"
      using progressD [OF rest] by metis
    with n False show ?thesis by (force simp: body io_bind_def)
  qed
qed simp

section \<open>Calls that leave the log alone\<close>

abbreviation quiet :: "('w \<times> 'c list, 'a) io \<Rightarrow> bool" where
  "quiet m \<equiv> logs_all (\<lambda>_. False) m"

lemma quietD: "quiet m \<Longrightarrow> m (w, l) = Some (r, (w', l')) \<Longrightarrow> l' = l"
  by (drule (1) logsD) (auto simp: list_all_iff)

section \<open>Observations that accumulate\<close>

text \<open>
  What a component learns from one observation after another, and the order in which it may only grow.
\<close>

locale accumulating =
  fixes observe :: "'s \<Rightarrow> 'o \<Rightarrow> 's" and le :: "'s \<Rightarrow> 's \<Rightarrow> bool"
  assumes le_refl: "le s s"
    and le_trans: "le a b \<Longrightarrow> le b c \<Longrightarrow> le a c"
    and observe_grows: "le s (observe s x)"
begin

lemma fold_grows: "le s (foldl observe s xs)"
proof (induction xs arbitrary: s)
  case (Cons x xs)
  have "le s (observe s x)" by (rule observe_grows)
  from le_trans [OF this Cons.IH] show ?case by simp
qed (simp add: le_refl)

lemma later_knows_more: "le (foldl observe s xs) (foldl observe s (xs @ ys))"
  by (simp add: fold_grows)

end

end
