(* ===== verification/Readiness.thy ===== *)
theory Readiness
  imports Monitors Polling JS_Date JS_Double
begin

text \<open>
  When a container counts as ready: the assessment of one inspection
  (\<open>agent/src/app-candidate-readiness.ts\<close>), its recent restarts (\<open>agent/src/container-restarts.ts\<close>), and
  the two waits built on them, \<open>waitForAppCandidateReadiness\<close> of \<open>agent/src/index.ts\<close> and
  \<open>waitForWorkerReadiness\<close> of \<open>agent/src/worker-runtime.ts\<close>. The Docker operations a wait uses are the
  fields of a record over an arbitrary world, as is the clock. \<open>console.warn\<close> is left out.
\<close>

section \<open>Evidence\<close>

record candidate_evidence =
  ev_outOfMemory :: bool
  ev_restarts :: int
  ev_exitCode :: "int option"
  ev_memoryLimitBytes :: "int option"
  ev_memorySwapLimitBytes :: "int option"

definition NO_CANDIDATE_RUNTIME_EVIDENCE :: candidate_evidence where
  "NO_CANDIDATE_RUNTIME_EVIDENCE = \<lparr>ev_outOfMemory = False, ev_restarts = 0, ev_exitCode = None,
     ev_memoryLimitBytes = None, ev_memorySwapLimitBytes = None\<rparr>"

datatype readiness_failure = OutOfMemory | RestartLoop | ExitedCause | UnhealthyCause

datatype readiness_step =
    Ready
  | Failed readiness_failure string
  | Probe string string
  | WaitStep string

definition RESTART_LOOP_THRESHOLD :: int where "RESTART_LOOP_THRESHOLD = 2"

definition TERMINAL_STATUSES :: "string list" where
  "TERMINAL_STATUSES = [''exited'', ''dead'', ''removing'']"

definition readNonNegativeInteger :: "int option \<Rightarrow> int option" where
  "readNonNegativeInteger v = (case v of None \<Rightarrow> None | Some n \<Rightarrow> if n \<ge> 0 then Some n else None)"

definition readPositiveByteLimit :: "int option \<Rightarrow> int option" where
  "readPositiveByteLimit v = (case v of None \<Rightarrow> None | Some n \<Rightarrow> if n > 0 then Some n else None)"

definition UNLIMITED_SWAP :: int where "UNLIMITED_SWAP = -1"

definition readSwapByteLimit :: "int option \<Rightarrow> int option" where
  "readSwapByteLimit v = (if v = Some UNLIMITED_SWAP then Some UNLIMITED_SWAP else readPositiveByteLimit v)"

text \<open>\<open>state?.Status?.toLowerCase()\<close>.\<close>

definition status_of :: "inspection \<Rightarrow> string option" where
  "status_of i = map_option to_lower (state_of cs_Status i)"

definition terminal :: "string option \<Rightarrow> bool" where
  "terminal status \<longleftrightarrow> (case status of None \<Rightarrow> False | Some s \<Rightarrow> s \<in> set TERMINAL_STATUSES)"

definition readReportedExitCode :: "inspection \<Rightarrow> int option" where
  "readReportedExitCode i =
     (case state_of cs_ExitCode i of
        None \<Rightarrow> None
      | Some code \<Rightarrow>
          let terminated = (status_of i = Some ''restarting'' \<or> terminal (status_of i))
          in if terminated \<or> code \<noteq> 0 then Some code else None)"

definition mergeExitCode :: "int option \<Rightarrow> int option \<Rightarrow> int option" where
  "mergeExitCode previous reported =
     (if reported = None \<or> reported = Some 0 \<and> previous \<noteq> None then previous else reported)"

definition readOutOfMemory :: "inspection \<Rightarrow> int \<Rightarrow> bool option \<Rightarrow> bool" where
  "readOutOfMemory i observedRestarts outOfMemoryAtStart =
     (if state_of cs_OOMKilled i \<noteq> Some True then False
      else case outOfMemoryAtStart of
        None \<Rightarrow> True
      | Some atStart \<Rightarrow>
          let wentDown = (observedRestarts > 0 \<or> state_of cs_Running i \<noteq> Some True
                \<or> status_of i = Some ''restarting'')
          in \<not> atStart \<and> wentDown)"

definition recordEvidence ::
    "int \<Rightarrow> int \<Rightarrow> bool option \<Rightarrow> candidate_evidence \<Rightarrow> inspection \<Rightarrow> candidate_evidence" where
  "recordEvidence restartBaseline recentRestarts outOfMemoryAtStart previous i =
     (let reportedRestarts = (case readNonNegativeInteger (ci_RestartCount i) of None \<Rightarrow> 0 | Some n \<Rightarrow> n);
          restarts = max (ev_restarts previous) (recentRestarts + max 0 (reportedRestarts - restartBaseline))
      in \<lparr>ev_outOfMemory = (ev_outOfMemory previous
             \<or> readOutOfMemory i (restarts - recentRestarts) outOfMemoryAtStart),
          ev_restarts = restarts,
          ev_exitCode = mergeExitCode (ev_exitCode previous) (readReportedExitCode i),
          ev_memoryLimitBytes = or_else (readPositiveByteLimit (ci_Memory i)) (ev_memoryLimitBytes previous),
          ev_memorySwapLimitBytes =
            or_else (readSwapByteLimit (ci_MemorySwap i)) (ev_memorySwapLimitBytes previous)\<rparr>)"

section \<open>Messages\<close>

text \<open>A byte count over a power of two is exact.\<close>

definition formatByteSize :: "int \<Rightarrow> string" where
  "formatByteSize bytes =
     (let mebibytes = of_int bytes / 1024 / 1024;
          (v, unit) = (if mebibytes \<ge> 1024 then (mebibytes / 1024, ''GiB'') else (mebibytes, ''MiB''))
      in (case rat_int v of Some n \<Rightarrow> show_int n | None \<Rightarrow> to_fixed_1 v) @ '' '' @ unit)"

definition formatRestarts :: "int \<Rightarrow> string" where
  "formatRestarts restarts = show_int restarts @ '' restart'' @ (if restarts = 1 then [] else ''s'')"

definition describeMemoryLimits :: "candidate_evidence \<Rightarrow> string list" where
  "describeMemoryLimits ev =
     (case ev_memoryLimitBytes ev of
        None \<Rightarrow> []
      | Some limit \<Rightarrow> (''memory limit '' @ formatByteSize limit) #
          (if ev_memorySwapLimitBytes ev = Some UNLIMITED_SWAP then [''swap unlimited'']
           else if ev_memorySwapLimitBytes ev = Some limit then [''swap disabled'']
           else case ev_memorySwapLimitBytes ev of
             None \<Rightarrow> []
           | Some swap \<Rightarrow> if swap > limit then [''memory and swap limit '' @ formatByteSize swap] else []))"

definition describeOutOfMemory :: "string \<Rightarrow> string \<Rightarrow> candidate_evidence \<Rightarrow> string" where
  "describeOutOfMemory subject containerName ev =
     (let details = describeMemoryLimits ev @ (if ev_restarts ev > 0 then [formatRestarts (ev_restarts ev)] else []);
          suffix = (if details = [] then [] else '' ('' @ join '', '' details @ '')'')
      in subject @ '' '' @ containerName @ '' ran out of memory and was killed'' @ suffix
         @ ''; raise the service memory limit and redeploy'')"

definition describeRestartLoop :: "string \<Rightarrow> string \<Rightarrow> candidate_evidence \<Rightarrow> string" where
  "describeRestartLoop subject containerName ev =
     (let details = formatRestarts (ev_restarts ev) #
            (case ev_exitCode ev of None \<Rightarrow> [] | Some c \<Rightarrow> [''last exit code '' @ show_int c])
      in subject @ '' '' @ containerName @ '' keeps restarting ('' @ join '', '' details
         @ ''); the process is exiting instead of serving traffic'')"

definition describeTerminalStatus :: "string \<Rightarrow> string \<Rightarrow> string \<Rightarrow> candidate_evidence \<Rightarrow> string" where
  "describeTerminalStatus subject containerName status ev =
     (let exit = (case ev_exitCode ev of None \<Rightarrow> [] | Some c \<Rightarrow> '', exit code '' @ show_int c)
      in subject @ '' '' @ containerName @ '' is not running ('' @ status @ exit @ '')'')"

definition DEFAULT_READINESS_SUBJECT :: string where
  "DEFAULT_READINESS_SUBJECT = ''Candidate container''"

definition resolveContainerIpAddress :: "inspection \<Rightarrow> string option" where
  "resolveContainerIpAddress i =
     (case ci_Networks i of
        None \<Rightarrow> None
      | Some networks \<Rightarrow> Option.bind (find (\<lambda>(_, ip). ip \<noteq> None \<and> ip \<noteq> Some []) networks) snd)"

section \<open>The assessment of an inspection\<close>

record readiness_input =
  ri_containerName :: string
  ri_appPort :: int
  ri_subject :: "string option"
  ri_restartBaseline :: "int option"
  ri_recentRestarts :: "int option"
  ri_outOfMemoryAtStart :: "bool option"

definition health_step :: "string \<Rightarrow> string \<Rightarrow> string option \<Rightarrow> readiness_step" where
  "health_step subject containerName healthField =
     (let healthStatus = (case healthField of None \<Rightarrow> ''unknown''
            | Some s \<Rightarrow> if to_lower s = [] then ''unknown'' else to_lower s)
      in if healthStatus = ''healthy'' then Ready
         else if healthStatus = ''unhealthy'' then Failed UnhealthyCause (subject @ '' '' @ containerName @ '' became unhealthy'')
         else WaitStep (subject @ '' '' @ containerName @ '' health status is '' @ healthStatus))"

definition assessCandidateReadiness ::
    "readiness_input \<Rightarrow> inspection \<Rightarrow> candidate_evidence \<Rightarrow> candidate_evidence \<times> readiness_step" where
  "assessCandidateReadiness inp i previous =
     (let ev = recordEvidence (case ri_restartBaseline inp of None \<Rightarrow> 0 | Some n \<Rightarrow> n)
            (case ri_recentRestarts inp of None \<Rightarrow> 0 | Some n \<Rightarrow> n) (ri_outOfMemoryAtStart inp) previous i;
          containerName = ri_containerName inp;
          subject = (case ri_subject inp of None \<Rightarrow> DEFAULT_READINESS_SUBJECT | Some s \<Rightarrow> s);
          status = status_of i
      in (ev,
          if ev_outOfMemory ev then Failed OutOfMemory (describeOutOfMemory subject containerName ev)
          else if terminal status then Failed ExitedCause (describeTerminalStatus subject containerName (the status) ev)
          else if ev_restarts ev \<ge> RESTART_LOOP_THRESHOLD then
            Failed RestartLoop (describeRestartLoop subject containerName ev)
          else case state_of cs_Health i of
            Some healthField \<Rightarrow> health_step subject containerName healthField
          | None \<Rightarrow>
              (case resolveContainerIpAddress i of
                 None \<Rightarrow> WaitStep (subject @ '' '' @ containerName @ '' has no routable IP address yet'')
               | Some ip \<Rightarrow> Probe ip (subject @ '' '' @ containerName @ '' is not accepting TCP traffic on ''
                   @ show_int (ri_appPort inp)))))"

section \<open>Recent restarts\<close>

definition RECENT_EXIT_WINDOW_MS :: int where "RECENT_EXIT_WINDOW_MS = 300000"

definition readRestartCount :: "inspection option \<Rightarrow> int" where
  "readRestartCount i = (case Option.bind i ci_RestartCount of None \<Rightarrow> 0 | Some n \<Rightarrow> if n > 0 then n else 0)"

text \<open>\<open>Pick<DockerApiClient, "inspectContainer" | "countContainerExits">\<close>.\<close>

record 'w readiness_docker =
  rk_inspectContainer :: "string \<Rightarrow> ('w, inspection option) io"
  rk_countContainerExits :: "string \<Rightarrow> int \<Rightarrow> int \<Rightarrow> ('w, int) io"

definition countRecentRestarts :: "'w readiness_docker \<Rightarrow> inspection \<Rightarrow> int \<Rightarrow> ('w, int) io" where
  "countRecentRestarts docker i until =
     (let restarts = readRestartCount (Some i)
      in if restarts = 0 then io_return 0
         else io_catch
           (io_bind (rk_countContainerExits docker (ci_Id i) (until - RECENT_EXIT_WINDOW_MS) until)
              (\<lambda>exits. io_return (min restarts exits)))
           (\<lambda>_. io_return 0))"

definition hasOutlastedRestartLoop :: "inspection \<Rightarrow> int \<Rightarrow> int \<Rightarrow> bool" where
  "hasOutlastedRestartLoop i until loopThreshold \<longleftrightarrow>
     state_of cs_Running i = Some True \<and> status_of i = Some ''running'' \<and>
     (case date_parse (case state_of cs_StartedAt i of None \<Rightarrow> [] | Some s \<Rightarrow> s) of
        None \<Rightarrow> False
      | Some started \<Rightarrow>
          of_int started \<le> fl_add (of_int until) (- fl_div (of_int RECENT_EXIT_WINDOW_MS) (of_int loopThreshold)))"

definition countRestartLoop :: "'w readiness_docker \<Rightarrow> inspection \<Rightarrow> int \<Rightarrow> int \<Rightarrow> ('w, int) io" where
  "countRestartLoop docker i until loopThreshold =
     (if hasOutlastedRestartLoop i until loopThreshold then io_return 0
      else countRecentRestarts docker i until)"

section \<open>Waiting for an app candidate\<close>

record app_history =
  ah_restarts :: int
  ah_recentRestarts :: int
  ah_outOfMemory :: bool

record app_wait =
  aw_containerName :: string
  aw_appPort :: int
  aw_timeoutMs :: int
  aw_intervalMs :: int
  aw_tcpConnectTimeoutMs :: int
  aw_alreadyRunning :: bool
  aw_restartsBeforeStart :: int
  aw_subject :: string

text \<open>\<open>history ??= { ... }\<close>, for a container that was already running.\<close>

definition app_history_of ::
    "'w readiness_docker \<Rightarrow> app_wait \<Rightarrow> inspection \<Rightarrow> int \<Rightarrow> app_history option \<Rightarrow> ('w, app_history option) io" where
  "app_history_of docker inp i inspectedAt history =
     (if \<not> aw_alreadyRunning inp then io_return history
      else case history of
        Some h \<Rightarrow> io_return (Some h)
      | None \<Rightarrow>
          let up = (state_of cs_Running i = Some True \<and> status_of i = Some ''running'')
          in io_bind (countRestartLoop docker i inspectedAt RESTART_LOOP_THRESHOLD) (\<lambda>recent.
             io_return (Some \<lparr>ah_restarts = readRestartCount (Some i),
               ah_recentRestarts = aw_restartsBeforeStart inp + recent,
               ah_outOfMemory = (up \<and> state_of cs_OOMKilled i = Some True)\<rparr>)))"

definition app_assessment ::
    "app_wait \<Rightarrow> app_history option \<Rightarrow> inspection \<Rightarrow> candidate_evidence \<Rightarrow> candidate_evidence \<times> readiness_step" where
  "app_assessment inp history i =
     assessCandidateReadiness \<lparr>ri_containerName = aw_containerName inp, ri_appPort = aw_appPort inp,
       ri_subject = Some (aw_subject inp), ri_restartBaseline = map_option ah_restarts history,
       ri_recentRestarts = map_option ah_recentRestarts history,
       ri_outOfMemoryAtStart = map_option ah_outOfMemory history\<rparr> i"

text \<open>What follows an assessment, and a successful inspection.\<close>

definition app_act ::
    "(string \<Rightarrow> int \<Rightarrow> int \<Rightarrow> ('w, bool) io) \<Rightarrow> 'w clock \<Rightarrow> app_wait \<Rightarrow> app_history option \<Rightarrow>
     candidate_evidence \<times> readiness_step \<Rightarrow>
     ('w, (candidate_evidence \<times> string \<times> app_history option) + unit) io" where
  "app_act checkTcpConnect clk inp history = (\<lambda>(evidence, step).
     let again = (\<lambda>lastError. io_bind (wait clk (aw_intervalMs inp))
           (\<lambda>_. io_return (Inl (evidence, lastError, history))))
     in case step of
          Ready \<Rightarrow> io_return (Inr ())
        | Failed cause message \<Rightarrow> io_throw (Error message)
        | Probe ip message \<Rightarrow>
            io_bind (checkTcpConnect ip (aw_appPort inp) (aw_tcpConnectTimeoutMs inp)) (\<lambda>reachable.
              if reachable then io_return (Inr ()) else again message)
        | WaitStep message \<Rightarrow> again message)"

definition app_judge ::
    "'w readiness_docker \<Rightarrow> (string \<Rightarrow> int \<Rightarrow> int \<Rightarrow> ('w, bool) io) \<Rightarrow> 'w clock \<Rightarrow> app_wait \<Rightarrow> int \<Rightarrow>
     candidate_evidence \<Rightarrow> app_history option \<Rightarrow> inspection option \<Rightarrow>
     ('w, (candidate_evidence \<times> string \<times> app_history option) + unit) io" where
  "app_judge docker checkTcpConnect clk inp inspectedAt evidence history inspection =
     (case inspection of
        None \<Rightarrow> io_throw (Error (aw_subject inp @ '' '' @ aw_containerName inp @ '' is missing''))
      | Some i \<Rightarrow>
          io_bind (app_history_of docker inp i inspectedAt history) (\<lambda>history.
          app_act checkTcpConnect clk inp history (app_assessment inp history i evidence)))"

definition app_round ::
    "'w readiness_docker \<Rightarrow> (string \<Rightarrow> int \<Rightarrow> int \<Rightarrow> ('w, bool) io) \<Rightarrow> 'w clock \<Rightarrow> app_wait \<Rightarrow> int \<Rightarrow>
     candidate_evidence \<times> string \<times> app_history option \<Rightarrow>
     ('w, (candidate_evidence \<times> string \<times> app_history option) + unit) io" where
  "app_round docker checkTcpConnect clk inp deadline = (\<lambda>(evidence, lastError, history).
     io_bind (io_now clk) (\<lambda>t.
     if t > deadline then io_throw (Error lastError)
     else io_bind (io_now clk) (\<lambda>inspectedAt.
       io_bind (rk_inspectContainer docker (aw_containerName inp))
         (app_judge docker checkTcpConnect clk inp inspectedAt evidence history))))"

definition waitForAppCandidateReadiness ::
    "'w readiness_docker \<Rightarrow> (string \<Rightarrow> int \<Rightarrow> int \<Rightarrow> ('w, bool) io) \<Rightarrow> 'w clock \<Rightarrow> app_wait \<Rightarrow> ('w, unit) io" where
  "waitForAppCandidateReadiness docker checkTcpConnect clk inp =
     io_bind (io_now clk) (\<lambda>t.
     io_loop (app_round docker checkTcpConnect clk inp (t + aw_timeoutMs inp))
       (NO_CANDIDATE_RUNTIME_EVIDENCE, ''candidate container did not become ready'', None))"

section \<open>Waiting for a worker\<close>

record worker_wait =
  ww_containerName :: string
  ww_hasHealthcheck :: bool
  ww_ignoreEarlierRestarts :: bool
  ww_restartsBeforeStart :: int
  ww_timeoutMs :: int
  ww_intervalMs :: int
  ww_runningGraceMs :: int
  ww_crashLoopRestartCount :: int

record worker_seen =
  wn_runningSince :: "int option"
  wn_observedRestartCount :: "int option"
  wn_restartBaseline :: "int option"
  wn_recentRestarts :: int
  wn_recovered :: bool

definition isTerminalContainerStatus :: "string option \<Rightarrow> bool" where
  "isTerminalContainerStatus status \<longleftrightarrow> status = Some ''dead'' \<or> status = Some ''exited'' \<or> status = Some ''removing''"

text \<open>\<open>inspection.RestartCount ?? 0\<close>, then \<open>if (restartBaseline === null) { ... }\<close>.\<close>

definition restart_count :: "inspection \<Rightarrow> int" where
  "restart_count i = (case ci_RestartCount i of None \<Rightarrow> 0 | Some n \<Rightarrow> n)"


definition worker_baseline ::
    "'w readiness_docker \<Rightarrow> worker_wait \<Rightarrow> inspection \<Rightarrow> int \<Rightarrow> worker_seen \<Rightarrow> ('w, worker_seen) io" where
  "worker_baseline docker inp i inspectedAt s =
     (if wn_restartBaseline s \<noteq> None then io_return s
      else io_bind (countRecentRestarts docker i inspectedAt) (\<lambda>recent. io_return (s\<lparr>
        wn_restartBaseline := Some (restart_count i),
        wn_recentRestarts := recent,
        wn_recovered := hasOutlastedRestartLoop i inspectedAt (ww_crashLoopRestartCount inp)\<rparr>)))"

definition counted_restarts :: "worker_seen \<Rightarrow> int \<Rightarrow> int" where
  "counted_restarts s restartCount =
     (let observed = max 0 (restartCount - the (wn_restartBaseline s))
      in (if wn_recovered s \<and> observed = 0 then 0 else wn_recentRestarts s) + observed)"

text \<open>Whether the process is up, and what that says once it is known not to crash-loop.\<close>

definition worker_verdict ::
    "'w clock \<Rightarrow> worker_wait \<Rightarrow> inspection \<Rightarrow> worker_seen \<Rightarrow> ('w, worker_seen + unit) io" where
  "worker_verdict clk inp i s =
     (let healthStatus = map_option to_lower (Option.bind (state_of cs_Health i) id);
          started = (state_of cs_Running i = Some True \<and> status_of i \<noteq> Some ''restarting'');
          again = (\<lambda>s. io_bind (wait clk (ww_intervalMs inp)) (\<lambda>_. io_return (Inl s)))
      in if healthStatus = Some ''unhealthy'' then
           io_throw (Error (''Worker candidate '' @ ww_containerName inp @ '' became unhealthy''))
         else if ww_hasHealthcheck inp then
           (if healthStatus = Some ''healthy'' \<and> started then io_return (Inr ()) else again s)
         else if started then
           io_bind (case wn_runningSince s of Some t \<Rightarrow> io_return t | None \<Rightarrow> io_now clk) (\<lambda>since.
           io_bind (io_now clk) (\<lambda>t.
             if t - since \<ge> ww_runningGraceMs inp then io_return (Inr ())
             else again (s\<lparr>wn_runningSince := Some since\<rparr>)))
         else again (s\<lparr>wn_runningSince := None\<rparr>))"

definition worker_timed_out :: "worker_wait \<Rightarrow> js_error" where
  "worker_timed_out inp = Error (''Worker candidate '' @ ww_containerName inp @
     (if ww_hasHealthcheck inp then '' did not become healthy within '' @ show_int (ww_timeoutMs inp) @ ''ms''
      else '' did not remain running for '' @ show_int (ww_runningGraceMs inp) @ ''ms''))"

text \<open>Counting the restarts, once the baseline is known; then a successful inspection as a whole.\<close>

definition worker_count ::
    "'w clock \<Rightarrow> worker_wait \<Rightarrow> inspection \<Rightarrow> worker_seen \<Rightarrow> ('w, worker_seen + unit) io" where
  "worker_count clk inp i s =
     (let restartCount = restart_count i;
          restarts = counted_restarts s restartCount;
          restarted = (case wn_observedRestartCount s of None \<Rightarrow> False | Some n \<Rightarrow> restartCount > n)
      in if restarts \<ge> ww_crashLoopRestartCount inp then
           io_throw (Error (''Worker candidate '' @ ww_containerName inp @ '' is crash-looping (''
             @ show_int restarts @ '' restarts)''))
         else worker_verdict clk inp i (s\<lparr>
           wn_runningSince := (if restarted then None else wn_runningSince s),
           wn_observedRestartCount := Some restartCount\<rparr>))"

definition worker_judge ::
    "'w readiness_docker \<Rightarrow> 'w clock \<Rightarrow> worker_wait \<Rightarrow> int \<Rightarrow> worker_seen \<Rightarrow> inspection option \<Rightarrow>
     ('w, worker_seen + unit) io" where
  "worker_judge docker clk inp inspectedAt s inspection =
     (case inspection of
        None \<Rightarrow> io_throw (Error (''Worker candidate '' @ ww_containerName inp @ '' is missing''))
      | Some i \<Rightarrow>
          if isTerminalContainerStatus (status_of i) then
            io_throw (Error (''Worker candidate '' @ ww_containerName inp @ '' is not running (''
              @ the (status_of i) @ '')''))
          else io_bind (worker_baseline docker inp i inspectedAt s) (worker_count clk inp i))"

definition worker_round ::
    "'w readiness_docker \<Rightarrow> 'w clock \<Rightarrow> worker_wait \<Rightarrow> int \<Rightarrow> worker_seen \<Rightarrow> ('w, worker_seen + unit) io" where
  "worker_round docker clk inp deadline s =
     io_bind (io_now clk) (\<lambda>t.
     if t > deadline then io_throw (worker_timed_out inp)
     else io_bind (io_now clk) (\<lambda>inspectedAt.
       io_bind (rk_inspectContainer docker (ww_containerName inp)) (worker_judge docker clk inp inspectedAt s)))"

definition DEFAULT_WORKER_READINESS_TIMEOUT_MS :: int where "DEFAULT_WORKER_READINESS_TIMEOUT_MS = 60000"
definition DEFAULT_WORKER_READINESS_INTERVAL_MS :: int where "DEFAULT_WORKER_READINESS_INTERVAL_MS = 500"
definition DEFAULT_WORKER_RUNNING_GRACE_MS :: int where "DEFAULT_WORKER_RUNNING_GRACE_MS = 10000"
definition DEFAULT_WORKER_CRASH_LOOP_RESTART_COUNT :: int where "DEFAULT_WORKER_CRASH_LOOP_RESTART_COUNT = 3"

text \<open>The input with every optional field left out.\<close>

definition default_worker_wait :: "string \<Rightarrow> bool \<Rightarrow> worker_wait" where
  "default_worker_wait containerName hasHealthcheck = \<lparr>ww_containerName = containerName,
     ww_hasHealthcheck = hasHealthcheck, ww_ignoreEarlierRestarts = False, ww_restartsBeforeStart = 0,
     ww_timeoutMs = DEFAULT_WORKER_READINESS_TIMEOUT_MS, ww_intervalMs = DEFAULT_WORKER_READINESS_INTERVAL_MS,
     ww_runningGraceMs = DEFAULT_WORKER_RUNNING_GRACE_MS,
     ww_crashLoopRestartCount = DEFAULT_WORKER_CRASH_LOOP_RESTART_COUNT\<rparr>"

definition worker_start :: "worker_wait \<Rightarrow> worker_seen" where
  "worker_start inp = \<lparr>wn_runningSince = None, wn_observedRestartCount = None,
     wn_restartBaseline = (if ww_ignoreEarlierRestarts inp then None else Some 0),
     wn_recentRestarts = ww_restartsBeforeStart inp, wn_recovered = False\<rparr>"

definition waitForWorkerReadiness ::
    "'w readiness_docker \<Rightarrow> 'w clock \<Rightarrow> worker_wait \<Rightarrow> ('w, unit) io" where
  "waitForWorkerReadiness docker clk inp =
     io_bind (io_now clk) (\<lambda>t.
     io_loop (worker_round docker clk inp (t + ww_timeoutMs inp)) (worker_start inp))"

end
