(* ===== verification/Readiness_Props.thy ===== *)
theory Readiness_Props
  imports Readiness
begin

text \<open>
  What readiness rests on: the evidence of the polls only grows and is exactly what they showed, an app
  candidate is ready only when it was seen serving and never seen dead, a worker without a health check
  only when it stayed up for the grace period, and both waits end.
\<close>

section \<open>The evidence\<close>

definition evidence_le :: "candidate_evidence \<Rightarrow> candidate_evidence \<Rightarrow> bool" where
  "evidence_le a b \<longleftrightarrow> (ev_outOfMemory a \<longrightarrow> ev_outOfMemory b) \<and> ev_restarts a \<le> ev_restarts b \<and>
     (ev_exitCode a \<noteq> None \<longrightarrow> ev_exitCode b \<noteq> None) \<and>
     (ev_exitCode a \<notin> {None, Some 0} \<longrightarrow> ev_exitCode b \<notin> {None, Some 0}) \<and>
     (ev_memoryLimitBytes a \<noteq> None \<longrightarrow> ev_memoryLimitBytes b \<noteq> None) \<and>
     (ev_memorySwapLimitBytes a \<noteq> None \<longrightarrow> ev_memorySwapLimitBytes b \<noteq> None)"

lemma mergeExitCode_keeps:
  "previous \<noteq> None \<Longrightarrow> mergeExitCode previous reported \<noteq> None"
  "previous \<notin> {None, Some 0} \<Longrightarrow> mergeExitCode previous reported \<notin> {None, Some 0}"
  by (auto simp: mergeExitCode_def)

interpretation evidence: accumulating "recordEvidence restartBaseline recentRestarts atStart" evidence_le
  for restartBaseline recentRestarts atStart
proof unfold_locales
  show "evidence_le a c" if "evidence_le a b" "evidence_le b c" for a b c
    using that unfolding evidence_le_def by (meson order_trans)
  show "evidence_le s (recordEvidence restartBaseline recentRestarts atStart s x)" for s x
    using mergeExitCode_keeps [of "ev_exitCode s"]
    by (simp add: evidence_le_def recordEvidence_def Let_def)
qed (simp add: evidence_le_def)

definition shown_restarts :: "int \<Rightarrow> int \<Rightarrow> inspection \<Rightarrow> int" where
  "shown_restarts restartBaseline recentRestarts i =
     recentRestarts + max 0 ((case readNonNegativeInteger (ci_RestartCount i) of None \<Rightarrow> 0 | Some n \<Rightarrow> n) - restartBaseline)"

lemma recordEvidence_fields [simp]:
  "ev_restarts (recordEvidence b r o1 ev i) = max (ev_restarts ev) (shown_restarts b r i)"
  "ev_outOfMemory (recordEvidence b r None ev i) \<longleftrightarrow> ev_outOfMemory ev \<or> state_of cs_OOMKilled i = Some True"
  "ev_exitCode (recordEvidence b r o1 ev i) = mergeExitCode (ev_exitCode ev) (readReportedExitCode i)"
  by (simp_all add: recordEvidence_def shown_restarts_def readOutOfMemory_def Let_def)

text \<open>The evidence of a candidate is what its inspections showed and is never lost: whatever is polled later, an
  out-of-memory kill, a failing exit code and a known limit stay, restarts only grow, and a new candidate
  counts as killed for memory, or as restarted a number of times, exactly when some inspection so far
  showed it.\<close>

theorem evidence_is_what_was_seen:
  "evidence_le (foldl (recordEvidence b r o1) ev seen) (foldl (recordEvidence b r o1) ev (seen @ later)) \<and>
   (ev_outOfMemory (foldl (recordEvidence b r None) NO_CANDIDATE_RUNTIME_EVIDENCE seen) \<longleftrightarrow>
     (\<exists>i. i \<in> set seen \<and> state_of cs_OOMKilled i = Some True)) \<and>
   ev_restarts (foldl (recordEvidence b r o1) NO_CANDIDATE_RUNTIME_EVIDENCE seen) =
     Max (insert 0 (set (map (shown_restarts b r) seen)))"
proof (intro conjI)
  show "evidence_le (foldl (recordEvidence b r o1) ev seen) (foldl (recordEvidence b r o1) ev (seen @ later))"
    by (rule evidence.later_knows_more)
  show "ev_outOfMemory (foldl (recordEvidence b r None) NO_CANDIDATE_RUNTIME_EVIDENCE seen) \<longleftrightarrow>
      (\<exists>i. i \<in> set seen \<and> state_of cs_OOMKilled i = Some True)"
    by (induction seen rule: rev_induct) (auto simp: NO_CANDIDATE_RUNTIME_EVIDENCE_def)
  show "ev_restarts (foldl (recordEvidence b r o1) NO_CANDIDATE_RUNTIME_EVIDENCE seen) =
      Max (insert 0 (set (map (shown_restarts b r) seen)))"
  proof (induction seen rule: rev_induct)
    case (snoc i seen)
    have "Max (insert 0 (set (map (shown_restarts b r) (seen @ [i])))) =
        max (Max (insert 0 (set (map (shown_restarts b r) seen)))) (shown_restarts b r i)"
      by (simp add: insert_commute [of 0] max.commute)
    then show ?case by (simp only: foldl_append foldl.simps recordEvidence_fields snoc)
  qed (simp add: NO_CANDIDATE_RUNTIME_EVIDENCE_def)
qed

section \<open>Ready means serving\<close>

datatype readiness_event =
    Inspected "js_error + inspection option"
  | Probed "js_error + bool"
  | ReadAt int

definition watched_docker :: "'w readiness_docker \<Rightarrow> ('w \<times> readiness_event list) readiness_docker" where
  "watched_docker d = \<lparr>rk_inspectContainer = (\<lambda>n. log_result Inspected (rk_inspectContainer d n)),
     rk_countContainerExits = (\<lambda>i a b. unlogged (rk_countContainerExits d i a b))\<rparr>"

definition watched_tcp :: "(string \<Rightarrow> int \<Rightarrow> int \<Rightarrow> ('w, bool) io) \<Rightarrow>
    string \<Rightarrow> int \<Rightarrow> int \<Rightarrow> ('w \<times> readiness_event list, bool) io" where
  "watched_tcp tcp ip port ms = log_result Probed (tcp ip port ms)"

text \<open>
  An event that does not speak against the candidate: an inspection finds it, neither down for good nor
  unhealthy and, when its whole history counts, neither killed for memory nor restarted twice.
\<close>

definition health_of :: "inspection \<Rightarrow> string option" where
  "health_of i = map_option to_lower (Option.bind (state_of cs_Health i) id)"

definition sound :: "bool \<Rightarrow> inspection \<Rightarrow> bool" where
  "sound fresh i \<longleftrightarrow> \<not> terminal (status_of i) \<and> health_of i \<noteq> Some ''unhealthy'' \<and>
     (fresh \<longrightarrow> state_of cs_OOMKilled i \<noteq> Some True \<and> readRestartCount (Some i) < RESTART_LOOP_THRESHOLD)"

fun sound_event :: "bool \<Rightarrow> readiness_event \<Rightarrow> bool" where
  "sound_event fresh (Inspected (Inr (Some i))) = sound fresh i"
| "sound_event fresh (Inspected _) = False"
| "sound_event fresh (Probed (Inr _)) = True"
| "sound_event fresh (Probed (Inl _)) = False"
| "sound_event fresh (ReadAt _) = True"

text \<open>The candidate serves: Docker calls it healthy or, without a health check, its port has just accepted.\<close>

definition serves :: "readiness_event list \<Rightarrow> bool" where
  "serves l \<longleftrightarrow>
     (\<exists>pre i. l = pre @ [Inspected (Inr (Some i))] \<and> health_of i = Some ''healthy'') \<or>
     (\<exists>pre i. l = pre @ [Inspected (Inr (Some i)), Probed (Inr True)] \<and> state_of cs_Health i = None)"

lemma health_step_cases:
  "health_step s n h = Ready \<Longrightarrow> map_option to_lower h = Some ''healthy''"
  "health_step s n h = Probe ip m \<Longrightarrow> False"
  "map_option to_lower h = Some ''unhealthy'' \<Longrightarrow> \<exists>m. health_step s n h = Failed UnhealthyCause m"
  by (auto simp: health_step_def Let_def split: option.splits if_splits)

lemma app_assessment_ev:
  "fst (app_assessment inp history i ev) = recordEvidence (case history of None \<Rightarrow> 0 | Some h \<Rightarrow> ah_restarts h)
     (case history of None \<Rightarrow> 0 | Some h \<Rightarrow> ah_recentRestarts h) (map_option ah_outOfMemory history) ev i"
  by (cases history) (simp_all add: app_assessment_def assessCandidateReadiness_def Let_def)

text \<open>The verdict once nothing has failed.\<close>

lemma app_assessment_step:
  assumes "app_assessment inp history i ev = (ev', step)" and ok: "\<And>c m. step \<noteq> Failed c m"
  shows "\<not> ev_outOfMemory ev' \<and> \<not> terminal (status_of i) \<and> ev_restarts ev' < RESTART_LOOP_THRESHOLD"
    and "state_of cs_Health i = Some h \<Longrightarrow> \<exists>s n. step = health_step s n h"
    and "state_of cs_Health i = None \<Longrightarrow> step \<noteq> Ready"
  using assms by (auto simp: app_assessment_def assessCandidateReadiness_def Let_def split: if_splits option.splits)

lemma assessment_sound:
  assumes a: "app_assessment inp history i ev = (ev', step)" and ok: "\<And>c m. step \<noteq> Failed c m"
  shows "sound (history = None) i"
    and "step = Ready \<Longrightarrow> health_of i = Some ''healthy''"
    and "step = Probe ip m \<Longrightarrow> state_of cs_Health i = None"
proof -
  note c = app_assessment_step(1) [OF assms] and health = app_assessment_step(2,3) [OF assms]
  have "health_of i \<noteq> Some ''unhealthy''"
  proof (cases "state_of cs_Health i")
    case (Some h)
    from health(1) [OF this] obtain s n where "step = health_step s n h" by blast
    then have "map_option to_lower h \<noteq> Some ''unhealthy''" using ok health_step_cases(3) by metis
    with Some show ?thesis by (simp add: health_of_def)
  qed (simp add: health_of_def)
  moreover have "state_of cs_OOMKilled i \<noteq> Some True \<and> readRestartCount (Some i) < RESTART_LOOP_THRESHOLD"
    if "history = None"
  proof -
    have ev': "ev' = recordEvidence 0 0 None ev i"
      using app_assessment_ev [of inp history i ev] a that by simp
    then have "max 0 (case readNonNegativeInteger (ci_RestartCount i) of None \<Rightarrow> 0 | Some n \<Rightarrow> n) < RESTART_LOOP_THRESHOLD"
      using c by (simp add: shown_restarts_def)
    with ev' c show ?thesis
      by (auto simp: readRestartCount_def readNonNegativeInteger_def split: option.splits if_splits)
  qed
  ultimately show "sound (history = None) i" using c by (simp add: sound_def)
  show "health_of i = Some ''healthy''" if "step = Ready"
  proof (cases "state_of cs_Health i")
    case (Some h)
    from health(1) [OF this] obtain s n where "step = health_step s n h" by blast
    then have "map_option to_lower h = Some ''healthy''" using that health_step_cases(1) by metis
    with Some show ?thesis by (simp add: health_of_def)
  qed (use health(2) that in simp)
  show "state_of cs_Health i = None" if "step = Probe ip m"
    using that health(1) health_step_cases(2) by (metis not_None_eq)
qed

lemma quiet_history: "quiet (app_history_of (watched_docker d) inp i t history)"
  unfolding app_history_of_def countRestartLoop_def countRecentRestarts_def watched_docker_def Let_def
  by (auto intro!: logs_rules split: option.splits)

lemma app_history_fresh:
  "app_history_of d inp i t history w = Some (Inr history', w') \<Longrightarrow> \<not> aw_alreadyRunning inp \<Longrightarrow> history' = history"
  by (simp add: app_history_of_def)

text \<open>What a round that does not fail has seen.\<close>

lemma app_act_events:
  assumes run: "app_act (watched_tcp tcp) (traced_clock clk) inp history (ev', step) (w, l) = Some (Inr out, (w', l'))"
  shows "(\<forall>c m. step \<noteq> Failed c m) \<and>
    (out = Inr () \<and> step = Ready \<and> l' = l \<or>
     out = Inr () \<and> (\<exists>ip m. step = Probe ip m) \<and> l' = l @ [Probed (Inr True)] \<or>
     (\<exists>m. out = Inl (ev', m, history)) \<and> (l' = l \<or> l' = l @ [Probed (Inr False)]))"
proof (cases step)
  case (Probe ip m)
  with run show ?thesis
    by (fastforce simp: app_act_def watched_tcp_def io_bind_Some_iff split: if_splits)
next
  case (WaitStep m)
  with run show ?thesis by (fastforce simp: app_act_def io_bind_Some_iff)
qed (use run in \<open>simp_all add: app_act_def\<close>)

lemma app_round_events:
  assumes run: "app_round (watched_docker d) (watched_tcp tcp) (traced_clock clk) inp deadline (ev, lastError, history) (w, l)
      = Some (Inr out, (w', l'))"
  obtains i ev' step history' k where "app_assessment inp history' i ev = (ev', step)" and "\<And>c m. step \<noteq> Failed c m"
    and "\<not> aw_alreadyRunning inp \<Longrightarrow> history' = history" and "l' = l @ Inspected (Inr (Some i)) # k"
    and "out = Inr () \<and> step = Ready \<and> k = [] \<or>
         out = Inr () \<and> (\<exists>ip m. step = Probe ip m) \<and> k = [Probed (Inr True)] \<or>
         (\<exists>m. out = Inl (ev', m, history')) \<and> (k = [] \<or> k = [Probed (Inr False)])"
proof -
  from run obtain t i w1 where 1: "app_judge (watched_docker d) (watched_tcp tcp) (traced_clock clk) inp t ev history i
      (w1, l @ [Inspected (Inr i)]) = Some (Inr out, (w', l'))"
    unfolding app_round_def
    by (auto simp: watched_docker_def elim!: io_bind_InrE split: if_splits)
  then obtain c where i: "i = Some c" by (cases i) (auto simp: app_judge_def)
  with 1 obtain history' w2 l2 where h: "app_history_of (watched_docker d) inp c t history (w1, l @ [Inspected (Inr i)])
      = Some (Inr history', (w2, l2))"
    and act: "app_act (watched_tcp tcp) (traced_clock clk) inp history' (app_assessment inp history' c ev) (w2, l2)
      = Some (Inr out, (w', l'))"
    by (auto simp: app_judge_def elim!: io_bind_InrE)
  have l2: "l2 = l @ [Inspected (Inr i)]" by (rule quietD [OF quiet_history h])
  obtain ev' step where a: "app_assessment inp history' c ev = (ev', step)" by fastforce
  note events = app_act_events [OF act [unfolded a]]
  obtain k where "l' = l2 @ k" and "out = Inr () \<and> step = Ready \<and> k = [] \<or>
         out = Inr () \<and> (\<exists>ip m. step = Probe ip m) \<and> k = [Probed (Inr True)] \<or>
         (\<exists>m. out = Inl (ev', m, history')) \<and> (k = [] \<or> k = [Probed (Inr False)])"
    using events by auto
  with a events app_history_fresh [OF h] that [of history' c ev' step k] show ?thesis
    by (auto simp: l2 i)
qed

text \<open>C30 An app container is declared ready only when it was seen serving: the wait ends normally only right after
  Docker reports it healthy or, without a health check, its port has accepted a connection; no inspection
  of the whole wait found it missing, down for good or unhealthy; and for a new candidate, or one started
  by hand, none found it killed for memory or restarted twice.\<close>

theorem app_ready_only_if_serving:
  assumes "waitForAppCandidateReadiness (watched_docker d) (watched_tcp tcp) (traced_clock clk) inp (w, [])
    = Some (Inr (), (w', l))"
  shows "list_all (sound_event (\<not> aw_alreadyRunning inp)) l \<and> serves l"
proof -
  let ?fresh = "\<not> aw_alreadyRunning inp"
  let ?Q = "\<lambda>(r :: js_error + unit) (wl :: 'a \<times> readiness_event list).
    \<forall>x. r = Inr x \<longrightarrow> list_all (sound_event ?fresh) (snd wl) \<and> serves (snd wl)"
  let ?I = "\<lambda>(st :: candidate_evidence \<times> string \<times> app_history option) (wl :: 'a \<times> readiness_event list).
    list_all (sound_event ?fresh) (snd wl) \<and> (?fresh \<longrightarrow> snd (snd st) = None)"
  have round: "(case out of Inl st' \<Rightarrow> ?I st' wl' | Inr x \<Rightarrow> ?Q (Inr x) wl')"
    if I: "?I st wl" and run: "app_round (watched_docker d) (watched_tcp tcp) (traced_clock clk) inp dl st wl
      = Some (Inr out, wl')" for st wl out wl' dl
  proof -
    obtain ev le h where st: "st = (ev, le, h)" by (cases st)
    obtain w l where wl: "wl = (w, l)" by (cases wl)
    obtain w' l' where wl': "wl' = (w', l')" by (cases wl')
    obtain i ev' step h' k where a: "app_assessment inp h' i ev = (ev', step)" "\<And>c m. step \<noteq> Failed c m"
      and h': "?fresh \<Longrightarrow> h' = h" and l': "l' = l @ Inspected (Inr (Some i)) # k"
      and out: "out = Inr () \<and> step = Ready \<and> k = [] \<or>
         out = Inr () \<and> (\<exists>ip m. step = Probe ip m) \<and> k = [Probed (Inr True)] \<or>
         (\<exists>m. out = Inl (ev', m, h')) \<and> (k = [] \<or> k = [Probed (Inr False)])"
      by (rule app_round_events [OF run [unfolded st wl wl']]) blast
    have "sound ?fresh i" using assessment_sound(1) [OF a] h' I by (auto simp: sound_def st)
    with l' out I have all: "list_all (sound_event ?fresh) l'" by (auto simp: wl)
    have "serves l'" if "out = Inr ()"
      using out that l' assessment_sound(2,3) [OF a] by (auto simp: serves_def)
    with all out I h' show ?thesis by (auto simp: st wl' split: sum.splits)
  qed
  from assms obtain t w1 where
    run: "io_loop (app_round (watched_docker d) (watched_tcp tcp) (traced_clock clk) inp (t + aw_timeoutMs inp))
      (NO_CANDIDATE_RUNTIME_EVIDENCE, ''candidate container did not become ready'', None) (w1, []) = Some (Inr (), (w', l))"
    unfolding waitForAppCandidateReadiness_def by (auto elim!: io_bind_InrE)
  have "?Q (Inr ()) (w', l)"
  proof (rule io_loop_partial [OF run, where I = ?I and Q = ?Q])
    show "?I s' w'" if "?I s w" and "app_round (watched_docker d) (watched_tcp tcp) (traced_clock clk) inp
        (t + aw_timeoutMs inp) s w = Some (Inr (Inl s'), w')" for s w s' w'
      using round [OF that] by simp
    show "?Q (Inr x) w'" if "?I s w" and "app_round (watched_docker d) (watched_tcp tcp) (traced_clock clk) inp
        (t + aw_timeoutMs inp) s w = Some (Inr (Inr x), w')" for s w x w'
      using round [OF that] by simp
  qed simp_all
  then show ?thesis by simp
qed

text \<open>A container that is up, without a health check, and whose port accepts.\<close>

definition serving_inspection :: inspection where
  "serving_inspection = (bare_inspection ''app'')\<lparr>
     ci_State := Some (no_state\<lparr>cs_Running := Some True, cs_Status := Some ''running''\<rparr>),
     ci_Networks := Some [(''bridge'', Some ''10.0.0.2'')]\<rparr>"

definition serving_docker :: "int readiness_docker" where
  "serving_docker = \<lparr>rk_inspectContainer = (\<lambda>_. io_return (Some serving_inspection)),
     rk_countContainerExits = (\<lambda>_ _ _. io_return 0)\<rparr>"

definition sample_app_wait :: app_wait where
  "sample_app_wait = \<lparr>aw_containerName = ''app'', aw_appPort = 3000, aw_timeoutMs = 1000, aw_intervalMs = 100,
     aw_tcpConnectTimeoutMs = 50, aw_alreadyRunning = False, aw_restartsBeforeStart = 0, aw_subject = ''Candidate container''\<rparr>"

lemma app_ready_only_if_serving_witness:
  "list_all (sound_event True) [Inspected (Inr (Some serving_inspection)), Probed (Inr True)] \<and>
   serves [Inspected (Inr (Some serving_inspection)), Probed (Inr True)]"
proof -
  have "waitForAppCandidateReadiness (watched_docker serving_docker) (watched_tcp (\<lambda>_ _ _. io_return True))
      (traced_clock int_clock) sample_app_wait (0, []) =
    Some (Inr (), (0, [Inspected (Inr (Some serving_inspection)), Probed (Inr True)]))"
    by code_simp
  from app_ready_only_if_serving [OF this] show ?thesis by (simp add: sample_app_wait_def)
qed

section \<open>Workers\<close>

text \<open>A clock whose readings are events.\<close>

definition watched_clock :: "'w clock \<Rightarrow> ('w \<times> readiness_event list) clock" where
  "watched_clock c = \<lparr>now = (\<lambda>(w, l). (fst (now c w), (snd (now c w), l @ [ReadAt (fst (now c w))]))),
     wait = (\<lambda>ms. unlogged (wait c ms))\<rparr>"

lemma watched_clock_simps [simp]:
  "io_now (watched_clock c) (w, l) = Some (Inr t, (w', l')) \<longleftrightarrow>
     io_now c w = Some (Inr t, w') \<and> l' = l @ [ReadAt t]"
  "wait (watched_clock c) ms = unlogged (wait c ms)"
  by (auto simp: watched_clock_def io_now_def)

definition up :: "inspection \<Rightarrow> bool" where
  "up i \<longleftrightarrow> state_of cs_Running i = Some True \<and> status_of i \<noteq> Some ''restarting''"

text \<open>What an inspection of a worker shows that does not speak against it.\<close>

definition worker_sound :: "worker_wait \<Rightarrow> inspection \<Rightarrow> bool" where
  "worker_sound inp i \<longleftrightarrow> \<not> isTerminalContainerStatus (status_of i) \<and> health_of i \<noteq> Some ''unhealthy'' \<and>
     (\<not> ww_ignoreEarlierRestarts inp \<longrightarrow>
        ww_restartsBeforeStart inp + max 0 (restart_count i) < ww_crashLoopRestartCount inp)"

text \<open>A stretch of the wait during which the worker was up and its restart count did not exceed \<open>n\<close>.\<close>

fun steady :: "int \<Rightarrow> readiness_event \<Rightarrow> bool" where
  "steady n (Inspected (Inr (Some i))) = (up i \<and> restart_count i \<le> n)"
| "steady n (Inspected _) = False"
| "steady n _ = True"

fun inspections_ok :: "(inspection \<Rightarrow> bool) \<Rightarrow> readiness_event \<Rightarrow> bool" where
  "inspections_ok p (Inspected (Inr (Some i))) = p i"
| "inspections_ok p (Inspected _) = False"
| "inspections_ok p _ = True"

text \<open>Up since the reading \<open>since\<close>, which followed an inspection that showed it up with restart count \<open>n\<close>.\<close>

definition up_since :: "readiness_event list \<Rightarrow> int \<Rightarrow> int \<Rightarrow> bool" where
  "up_since l since n \<longleftrightarrow> (\<exists>pre i later. l = pre @ Inspected (Inr (Some i)) # ReadAt since # later \<and>
     up i \<and> restart_count i = n \<and> list_all (steady n) later)"

lemma up_since_extend:
  assumes "up_since l since n" and "list_all (steady n) k"
  shows "up_since (l @ k) since n"
proof -
  from assms(1) obtain pre i later where "l = pre @ Inspected (Inr (Some i)) # ReadAt since # later"
    "up i" "restart_count i = n" "list_all (steady n) later" unfolding up_since_def by blast
  with assms(2) show ?thesis
    unfolding up_since_def by (intro exI [of _ pre] exI [of _ i] exI [of _ "later @ k"]) simp
qed

lemma up_since_start: "up i \<Longrightarrow> up_since (l @ [Inspected (Inr (Some i)), ReadAt since]) since (restart_count i)"
  unfolding up_since_def by (intro exI [of _ l] exI [of _ i] exI [of _ "[]"]) simp

text \<open>What the loop knows between two polls.\<close>

definition worker_known :: "worker_wait \<Rightarrow> worker_seen \<Rightarrow> readiness_event list \<Rightarrow> bool" where
  "worker_known inp s l \<longleftrightarrow> list_all (inspections_ok (worker_sound inp)) l \<and>
     (\<not> ww_ignoreEarlierRestarts inp \<longrightarrow> wn_restartBaseline s = Some 0 \<and> \<not> wn_recovered s \<and>
        wn_recentRestarts s = ww_restartsBeforeStart inp) \<and>
     (ww_hasHealthcheck inp \<longrightarrow> wn_runningSince s = None) \<and>
     (\<forall>since. wn_runningSince s = Some since \<longrightarrow>
        (\<exists>n c. up_since l since n \<and> wn_observedRestartCount s = Some c \<and> c \<le> n))"

text \<open>What the end of the wait establishes.\<close>

definition worker_stable :: "worker_wait \<Rightarrow> readiness_event list \<Rightarrow> bool" where
  "worker_stable inp l \<longleftrightarrow> list_all (inspections_ok (worker_sound inp)) l \<and>
     (if ww_hasHealthcheck inp
      then (\<exists>pre i. l = pre @ [Inspected (Inr (Some i))] \<and> health_of i = Some ''healthy'' \<and> up i)
      else (\<exists>upto since n t. l = upto @ [ReadAt t] \<and> up_since upto since n \<and> ww_runningGraceMs inp \<le> t - since))"

lemma worker_verdict_events:
  assumes run: "worker_verdict (watched_clock clk) inp i s (w, l) = Some (Inr out, (w', l'))"
    and l: "l = l0 @ [Inspected (Inr (Some i))]" and ok: "list_all (inspections_ok (worker_sound inp)) l0"
    and sound: "health_of i \<noteq> Some ''unhealthy'' \<Longrightarrow> worker_sound inp i"
    and fresh: "\<not> ww_ignoreEarlierRestarts inp \<longrightarrow> wn_restartBaseline s = Some 0 \<and> \<not> wn_recovered s \<and>
        wn_recentRestarts s = ww_restartsBeforeStart inp"
    and since: "\<And>since. wn_runningSince s = Some since \<Longrightarrow>
        \<exists>n. up_since l0 since n \<and> restart_count i \<le> n"
    and count: "wn_observedRestartCount s = Some (restart_count i)"
    and health: "ww_hasHealthcheck inp \<Longrightarrow> wn_runningSince s = None"
  shows "case out of Inl s' \<Rightarrow> worker_known inp s' l' | Inr _ \<Rightarrow> worker_stable inp l'"
proof -
  have h: "map_option to_lower (Option.bind (state_of cs_Health i) id) = health_of i" by (simp add: health_of_def)
  have u: "state_of cs_Running i = Some True \<and> status_of i \<noteq> Some ''restarting'' \<longleftrightarrow> up i" by (simp add: up_def)
  note verdict = run [unfolded worker_verdict_def Let_def h u]
  from verdict have "health_of i \<noteq> Some ''unhealthy''" by auto
  with sound ok l have ok': "list_all (inspections_ok (worker_sound inp)) l" by simp
  show ?thesis
  proof (cases "up i \<and> \<not> ww_hasHealthcheck inp")
    case False
    with verdict consider "ww_hasHealthcheck inp" "health_of i = Some ''healthy''" "up i" "out = Inr ()" "l' = l"
      | "out = Inl s" "ww_hasHealthcheck inp" "l' = l" | "out = Inl (s\<lparr>wn_runningSince := None\<rparr>)" "l' = l" "\<not> ww_hasHealthcheck inp"
      by (auto simp: io_bind_Some_iff split: if_splits)
    then show ?thesis
      by cases (use ok' fresh l health in \<open>auto simp: worker_stable_def worker_known_def\<close>)
  next
    case True
    have since': "\<exists>n. up_since (l0 @ [Inspected (Inr (Some i))]) t n \<and> restart_count i \<le> n" if "wn_runningSince s = Some t" for t
      using since [OF that] True up_since_extend [of l0 t _ "[Inspected (Inr (Some i))]"] by fastforce
    from True verdict obtain start t l1 where start: "\<exists>n. up_since l1 start n \<and> restart_count i \<le> n"
      and l1: "l' = l1 @ [ReadAt t]" "list_all (inspections_ok (worker_sound inp)) l1"
      and out: "out = (if ww_runningGraceMs inp \<le> t - start then Inr () else Inl (s\<lparr>wn_runningSince := Some start\<rparr>))"
    proof (cases "wn_runningSince s")
      case None
      with True verdict obtain t0 t where "l' = l @ [ReadAt t0] @ [ReadAt t]"
        and "out = (if ww_runningGraceMs inp \<le> t - t0 then Inr () else Inl (s\<lparr>wn_runningSince := Some t0\<rparr>))"
        by (auto simp: io_bind_Some_iff split: if_splits)
      with that [of "l @ [ReadAt t0]" t0 t] up_since_start [of i l0 t0] True ok' l show ?thesis by auto
    next
      case (Some t0)
      with True verdict obtain t where "l' = l @ [ReadAt t]"
        and "out = (if ww_runningGraceMs inp \<le> t - t0 then Inr () else Inl (s\<lparr>wn_runningSince := Some t0\<rparr>))"
        by (auto simp: io_bind_Some_iff split: if_splits)
      with that [of l t0 t] since' [OF Some] ok' l show ?thesis by auto
    qed
    from start obtain n where n: "up_since l1 start n" "restart_count i \<le> n" by blast
    then have "up_since l' start n" using up_since_extend [of l1 start n "[ReadAt t]"] l1 by simp
    with n l1 out True count fresh show ?thesis
      by (auto simp: worker_stable_def worker_known_def)
  qed
qed

lemma quiet_baseline: "quiet (worker_baseline (watched_docker d) inp i t s)"
  unfolding worker_baseline_def countRecentRestarts_def watched_docker_def Let_def
  by (auto intro!: logs_rules)

lemma worker_baseline_fresh:
  assumes "worker_baseline d inp i t s w = Some (Inr s', w')"
  shows "wn_restartBaseline s \<noteq> None \<Longrightarrow> s' = s"
    and "wn_runningSince s' = wn_runningSince s" and "wn_observedRestartCount s' = wn_observedRestartCount s"
  using assms by (auto simp: worker_baseline_def io_bind_Some_iff split: if_splits)

lemma isTerminal_split: "\<not> isTerminalContainerStatus (status_of i) \<Longrightarrow>
    \<not> ww_ignoreEarlierRestarts inp \<longrightarrow> ww_restartsBeforeStart inp + max 0 (restart_count i) < ww_crashLoopRestartCount inp \<Longrightarrow>
    health_of i \<noteq> Some ''unhealthy'' \<Longrightarrow> worker_sound inp i"
  by (simp add: worker_sound_def)

lemma worker_round_known:
  assumes known: "worker_known inp s l"
    and run: "worker_round (watched_docker d) (watched_clock clk) inp deadline s (w, l) = Some (Inr out, (w', l'))"
  shows "case out of Inl s' \<Rightarrow> worker_known inp s' l' | Inr _ \<Rightarrow> worker_stable inp l'"
proof -
  from run obtain t t2 c w1 l1 where l1: "l1 = l @ [ReadAt t, ReadAt t2]"
    and "worker_judge (watched_docker d) (watched_clock clk) inp t2 s c (w1, l1 @ [Inspected (Inr c)]) = Some (Inr out, (w', l'))"
    unfolding worker_round_def by (auto simp: watched_docker_def elim!: io_bind_InrE split: if_splits)
  then obtain i s1 w2 l2 where c: "c = Some i" and up: "\<not> isTerminalContainerStatus (status_of i)"
    and base: "worker_baseline (watched_docker d) inp i t2 s (w1, l1 @ [Inspected (Inr c)]) = Some (Inr s1, (w2, l2))"
    and count: "worker_count (watched_clock clk) inp i s1 (w2, l2) = Some (Inr out, (w', l'))"
    by (cases c) (auto simp: worker_judge_def split: if_splits elim!: io_bind_InrE)
  have l2: "l2 = l1 @ [Inspected (Inr (Some i))]" using quietD [OF quiet_baseline base] c by simp
  let ?restarted = "case wn_observedRestartCount s1 of None \<Rightarrow> False | Some n \<Rightarrow> restart_count i > n"
  let ?s = "s1\<lparr>wn_runningSince := (if ?restarted then None else wn_runningSince s1),
      wn_observedRestartCount := Some (restart_count i)\<rparr>"
  from count have verdict: "worker_verdict (watched_clock clk) inp i ?s (w2, l2) = Some (Inr out, (w', l'))"
    and few: "counted_restarts s1 (restart_count i) < ww_crashLoopRestartCount inp"
    by (auto simp: worker_count_def Let_def split: if_splits)
  have fresh: "wn_restartBaseline s1 = Some 0 \<and> \<not> wn_recovered s1 \<and> wn_recentRestarts s1 = ww_restartsBeforeStart inp"
    if "\<not> ww_ignoreEarlierRestarts inp"
    using that known worker_baseline_fresh(1) [OF base] by (auto simp: worker_known_def)
  have "\<not> ww_ignoreEarlierRestarts inp \<longrightarrow>
      ww_restartsBeforeStart inp + max 0 (restart_count i) < ww_crashLoopRestartCount inp"
    using few fresh by (auto simp: counted_restarts_def Let_def)
  note sound = isTerminal_split [OF up this]
  have ok: "list_all (inspections_ok (worker_sound inp)) l1" using known by (simp add: worker_known_def l1)
  show ?thesis
  proof (rule worker_verdict_events [OF verdict l2 ok sound])
    show "\<exists>n. up_since l1 since n \<and> restart_count i \<le> n" if "wn_runningSince ?s = Some since" for since
    proof -
      from that have s: "wn_runningSince s = Some since" and r: "\<not> ?restarted"
        using worker_baseline_fresh(2) [OF base] by (auto split: if_splits)
      from known s obtain n k where "up_since l since n" "wn_observedRestartCount s = Some k" "k \<le> n"
        unfolding worker_known_def by blast
      with r worker_baseline_fresh(3) [OF base] up_since_extend [of l since n "[ReadAt t, ReadAt t2]"]
      show ?thesis by (intro exI [of _ n]) (simp add: l1)
    qed
    show "wn_runningSince ?s = None" if "ww_hasHealthcheck inp"
      using that known worker_baseline_fresh(2) [OF base] by (simp add: worker_known_def)
  qed (use fresh in simp_all)
qed

text \<open>C31 A worker is declared ready only after it proved stable: no inspection of the wait found it missing, down for
  good, unhealthy or, for one whose whole history counts, restarted as often as a crash loop; and in the
  end Docker reports it healthy and running or, without a health check, it was up in every inspection for
  at least the grace period, and its restart count never exceeded what it was when that period began.\<close>

theorem worker_ready_only_if_stable:
  assumes "waitForWorkerReadiness (watched_docker d) (watched_clock clk) inp (w, []) = Some (Inr (), (w', l))"
  shows "worker_stable inp l"
proof -
  from assms obtain t w1 where
    run: "io_loop (worker_round (watched_docker d) (watched_clock clk) inp (t + ww_timeoutMs inp))
      (worker_start inp) (w1, [ReadAt t]) = Some (Inr (), (w', l))"
    unfolding waitForWorkerReadiness_def by (auto elim!: io_bind_InrE)
  have "worker_known inp (worker_start inp) [ReadAt t]"
    by (simp add: worker_known_def worker_start_def)
  then have "\<forall>x. (Inr () :: js_error + unit) = Inr x \<longrightarrow> worker_stable inp (snd (w', l))"
    by (intro io_loop_partial [OF run, where I = "\<lambda>s wl. worker_known inp s (snd wl)"
          and Q = "\<lambda>r wl. \<forall>x. r = Inr x \<longrightarrow> worker_stable inp (snd wl)"])
      (auto dest: worker_round_known)
  then show ?thesis by simp
qed

text \<open>A worker without a health check that is up all the time.\<close>

definition steady_docker :: "int readiness_docker" where
  "steady_docker = \<lparr>rk_inspectContainer = (\<lambda>_. io_return (Some ((bare_inspection ''w'')\<lparr>
     ci_State := Some (no_state\<lparr>cs_Running := Some True, cs_Status := Some ''running''\<rparr>)\<rparr>))),
     rk_countContainerExits = (\<lambda>_ _ _. io_return 0)\<rparr>"

definition sample_worker_wait :: worker_wait where
  "sample_worker_wait = (default_worker_wait ''w'' False)\<lparr>ww_intervalMs := 6000\<rparr>"

lemma worker_ready_only_if_stable_witness:
  "worker_stable sample_worker_wait (snd (snd (the (waitForWorkerReadiness (watched_docker steady_docker)
     (watched_clock int_clock) sample_worker_wait (0, [])))))"
proof -
  have "map_option (\<lambda>(r, w, l). (r, w, length l)) (waitForWorkerReadiness (watched_docker steady_docker)
      (watched_clock int_clock) sample_worker_wait (0, [])) = Some (Inr (), 12000, 14)"
    by code_simp
  then obtain l where "waitForWorkerReadiness (watched_docker steady_docker)
      (watched_clock int_clock) sample_worker_wait (0, []) = Some (Inr (), (12000, l))" by auto
  with worker_ready_only_if_stable [OF this] show ?thesis by simp
qed

section \<open>The waits end\<close>

lemma settles_countRecentRestarts:
  "(\<And>i a b. settles time (rk_countContainerExits d i a b)) \<Longrightarrow> settles time (countRecentRestarts d i t)"
  unfolding countRecentRestarts_def Let_def by (auto intro!: settles_rules)

lemma settles_history:
  "(\<And>i a b. settles time (rk_countContainerExits d i a b)) \<Longrightarrow> settles time (app_history_of d inp i t h)"
  unfolding app_history_of_def countRestartLoop_def Let_def
  by (auto intro!: settles_rules settles_countRecentRestarts)

lemma progress_app_act:
  assumes "clock_advances time clk" and "0 < aw_intervalMs inp" and "\<And>ip p ms. settles time (tcp ip p ms)"
  shows "progress time (app_act tcp clk inp h a)"
  unfolding app_act_def Let_def
  by (cases a) (auto intro!: progress_rules settles_rules assms progress_wait split: readiness_step.splits)

lemma progress_worker_verdict:
  assumes "clock_advances time clk" and "0 < ww_intervalMs inp"
  shows "progress time (worker_verdict clk inp i s)"
  unfolding worker_verdict_def Let_def
  by (auto intro!: progress_rules settles_rules settles_now progress_wait assms)

text \<open>Waiting for a container to become ready always ends, ready or with an error: on a clock that advances, with a
  positive interval between polls, and calls to Docker and the port check that come back, whatever they
  answer, both the wait for an app candidate and the wait for a worker come back.\<close>

theorem readiness_waits_end:
  assumes clock: "clock_advances time clk" and "\<And>n. settles time (rk_inspectContainer d n)"
    and exits: "\<And>i a b. settles time (rk_countContainerExits d i a b)"
    and tcp: "\<And>ip p ms. settles time (tcp ip p ms)" and "0 < aw_intervalMs app" and "0 < ww_intervalMs worker"
  shows "waitForAppCandidateReadiness d tcp clk app w \<noteq> None \<and> waitForWorkerReadiness d clk worker w \<noteq> None"
proof
  obtain w1 where now: "io_now clk w = Some (Inr (time w), w1)" by (rule io_now_advances [OF clock])
  have "\<exists>r w'. io_loop (app_round d tcp clk app dl) st w = Some (r, w')" for dl st w
  proof (rule deadline_loop_ends [OF clock])
    show "app_round d tcp clk app dl s = io_bind (io_now clk) (\<lambda>t. if t > dl then io_throw (Error (fst (snd s)))
        else io_bind (io_now clk) (\<lambda>t. io_bind (rk_inspectContainer d (aw_containerName app))
          (app_judge d tcp clk app t (fst s) (snd (snd s)))))" for s
    proof -
      obtain e m h where "s = (e, m, h)" by (rule prod_cases3)
      then show ?thesis by (simp only: app_round_def prod.case fst_conv snd_conv)
    qed
  qed (auto simp: app_judge_def intro!: progress_rules settles_rules settles_now settles_history progress_app_act assms
      split: option.splits)
  with now show "waitForAppCandidateReadiness d tcp clk app w \<noteq> None"
    by (simp add: waitForAppCandidateReadiness_def io_bind_def)
  have "\<exists>r w'. io_loop (worker_round d clk worker dl) st w = Some (r, w')" for dl st w
    by (rule deadline_loop_ends [OF clock worker_round_def])
      (auto simp: worker_judge_def worker_baseline_def worker_count_def Let_def intro!: progress_rules settles_rules
        settles_now settles_countRecentRestarts progress_worker_verdict assms split: option.splits)
  with now show "waitForWorkerReadiness d clk worker w \<noteq> None"
    by (simp add: waitForWorkerReadiness_def io_bind_def)
qed

text \<open>A container that never gets an address, and a port that never accepts.\<close>

lemma readiness_waits_end_witness:
  "waitForAppCandidateReadiness steady_docker (\<lambda>_ _ _. io_return False) int_clock sample_app_wait 0 \<noteq> None \<and>
   waitForWorkerReadiness steady_docker int_clock sample_worker_wait 0 \<noteq> None"
  by (rule readiness_waits_end [where time = "\<lambda>t. t"])
    (simp_all add: int_clock_advances steady_docker_def sample_app_wait_def sample_worker_wait_def
      default_worker_wait_def settles_rules)

end
