(* ===== verification/Database_Readiness.thy ===== *)
theory Database_Readiness
  imports Readiness
begin

text \<open>
  \<open>agent/src/database-readiness.ts\<close>: the authenticated probe of a managed database, the credentials it
  uses, the wait for a database to become ready, the observation of a running one, and the inventory of
  all of them with its concurrent workers. The record of Docker operations, the clock and the runner of
  the probe's sidecar are arbitrary.
\<close>

section \<open>The probe\<close>

datatype database_engine = Postgres | Mongodb | Mysql | Redis

fun engine_text :: "database_engine \<Rightarrow> string" where
  "engine_text Postgres = ''postgres''"
| "engine_text Mongodb = ''mongodb''"
| "engine_text Mysql = ''mysql''"
| "engine_text Redis = ''redis''"

definition DATABASE_ENGINES :: "database_engine list" where
  "DATABASE_ENGINES = [Postgres, Mongodb, Mysql, Redis]"

record probe_credentials =
  pc_username :: string
  pc_password :: string
  pc_database :: "string option"

record probe_command =
  pb_env :: "string list"
  pb_entrypoint :: "string list"
  pb_cmd :: "string list"

definition PROBE_ENTRYPOINT :: "string list" where "PROBE_ENTRYPOINT = [''/bin/sh'']"
definition PROBE_PASSWORD_ENV :: string where "PROBE_PASSWORD_ENV = ''NOUVA_PROBE_PASSWORD''"

definition newline :: string where "newline = [CHR 0x0A]"
definition quote :: string where "quote = [CHR 0x27]"

text \<open>\<open>'\<close>, the value with each \<open>'\<close> written as \<open>'\''\<close>, \<open>'\<close>.\<close>

definition shellQuote :: "string \<Rightarrow> string" where
  "shellQuote v = quote @ concat (map (\<lambda>c. if c = CHR 0x27 then quote @ [CHR 0x5C] @ quote @ quote else [c]) v) @ quote"

definition psql_statement :: string where
  "psql_statement = ''psql -w -X -t -A -v ON_ERROR_STOP=1 -c \"SELECT 1\" >/dev/null 2>&1''"

definition mongosh_statement :: string where
  "mongosh_statement = ''mongosh --quiet --host \"$NOUVA_PROBE_HOST\" --port \"$NOUVA_PROBE_PORT\" -u \"$NOUVA_PROBE_USERNAME\" -p \"$''
     @ PROBE_PASSWORD_ENV @ ''\" --authenticationDatabase admin --eval '' @ quote
     @ ''if (db.adminCommand({ ping: 1 }).ok !== 1) { quit(1); }'' @ quote @ '' >/dev/null 2>&1''"

definition mysql_statement :: string where
  "mysql_statement = ''mysql -h\"$NOUVA_PROBE_HOST\" -P\"$NOUVA_PROBE_PORT\" -u\"$NOUVA_PROBE_USERNAME\" --protocol=tcp --connect-timeout=5 -N -B -e \"SELECT 1\" >/dev/null 2>&1''"

definition redis_statements :: "string list" where
  "redis_statements = [''reply=$(redis-cli -h \"$NOUVA_PROBE_HOST\" -p \"$NOUVA_PROBE_PORT\" PING 2>/dev/null)'',
     ''test \"$reply\" = '' @ shellQuote ''PONG'']"

definition buildDatabaseReadinessProbe ::
    "database_engine \<Rightarrow> string \<Rightarrow> int \<Rightarrow> probe_credentials \<Rightarrow> probe_command" where
  "buildDatabaseReadinessProbe engine host port c =
     (let database = (case pc_database c of None \<Rightarrow> None
            | Some d \<Rightarrow> if trim d = [] then None else Some (trim d));
          script = (\<lambda>statements. [''-c'', join newline (''set -eu'' # statements)]);
          target = [''NOUVA_PROBE_USERNAME='' @ pc_username c, ''NOUVA_PROBE_HOST='' @ host, ''NOUVA_PROBE_PORT='' @ show_int port]
      in case engine of
        Postgres \<Rightarrow> \<lparr>pb_env = [''PGPASSWORD='' @ pc_password c, ''PGHOST='' @ host, ''PGPORT='' @ show_int port,
            ''PGUSER='' @ pc_username c, ''PGDATABASE='' @ (case database of None \<Rightarrow> pc_username c | Some d \<Rightarrow> d),
            ''PGCONNECT_TIMEOUT=5''],
          pb_entrypoint = PROBE_ENTRYPOINT, pb_cmd = script [psql_statement]\<rparr>
      | Mongodb \<Rightarrow> \<lparr>pb_env = (PROBE_PASSWORD_ENV @ ''='' @ pc_password c) # target,
          pb_entrypoint = PROBE_ENTRYPOINT, pb_cmd = script [mongosh_statement]\<rparr>
      | Mysql \<Rightarrow> \<lparr>pb_env = (''MYSQL_PWD='' @ pc_password c) # target,
          pb_entrypoint = PROBE_ENTRYPOINT, pb_cmd = script [mysql_statement]\<rparr>
      | Redis \<Rightarrow> \<lparr>pb_env = [''REDISCLI_AUTH='' @ pc_password c, ''NOUVA_PROBE_HOST='' @ host, ''NOUVA_PROBE_PORT='' @ show_int port],
          pb_entrypoint = PROBE_ENTRYPOINT, pb_cmd = script redis_statements\<rparr>)"

section \<open>The credentials\<close>

record database_runtime =
  dr_envVars :: "(string \<times> string) list"
  dr_containerArgs :: "string list"

definition readEnvValue :: "database_runtime \<Rightarrow> string \<Rightarrow> string option" where
  "readEnvValue runtime name =
     (case map_of (dr_envVars runtime) name of None \<Rightarrow> None | Some v \<Rightarrow> if v = [] then None else Some v)"

definition readRedisPassword :: "database_runtime \<Rightarrow> string option" where
  "readRedisPassword runtime =
     (case index_of (dr_containerArgs runtime) ''--requirepass'' of
        None \<Rightarrow> None
      | Some i \<Rightarrow>
          if Suc i < length (dr_containerArgs runtime) \<and> dr_containerArgs runtime ! Suc i \<noteq> []
          then Some (dr_containerArgs runtime ! Suc i) else None)"

text \<open>\<open>envVars[entry.slice(0, separator)] = entry.slice(separator + 1)\<close>.\<close>

definition add_env_entry :: "(string \<times> string) list \<Rightarrow> string \<Rightarrow> (string \<times> string) list" where
  "add_env_entry envVars entry =
     (case index_of entry (CHR ''='') of
        None \<Rightarrow> envVars
      | Some i \<Rightarrow> if i > 0 then obj_put envVars (take i entry) (drop (Suc i) entry) else envVars)"

definition toRuntimeDefinition :: "inspection \<Rightarrow> database_runtime" where
  "toRuntimeDefinition i =
     \<lparr>dr_envVars = foldl add_env_entry [] (case ci_Env i of None \<Rightarrow> [] | Some es \<Rightarrow> es),
      dr_containerArgs = (case ci_Cmd i of None \<Rightarrow> [] | Some args \<Rightarrow> args)\<rparr>"

definition credentials_of :: "string option \<Rightarrow> string option \<Rightarrow> (string \<Rightarrow> string option) \<Rightarrow> probe_credentials option" where
  "credentials_of username password database =
     (case (username, password) of
        (Some u, Some p) \<Rightarrow> Some \<lparr>pc_username = u, pc_password = p, pc_database = database u\<rparr>
      | _ \<Rightarrow> None)"

definition readDatabaseProbeCredentialsFromRuntime ::
    "database_engine \<Rightarrow> database_runtime \<Rightarrow> probe_credentials option" where
  "readDatabaseProbeCredentialsFromRuntime engine runtime =
     (case engine of
        Postgres \<Rightarrow> credentials_of (readEnvValue runtime ''POSTGRES_USER'') (readEnvValue runtime ''POSTGRES_PASSWORD'')
          (\<lambda>u. or_else (readEnvValue runtime ''POSTGRES_DB'') (Some u))
      | Mongodb \<Rightarrow> credentials_of (readEnvValue runtime ''MONGO_INITDB_ROOT_USERNAME'')
          (readEnvValue runtime ''MONGO_INITDB_ROOT_PASSWORD'') (\<lambda>_. Some ''admin'')
      | Mysql \<Rightarrow> credentials_of (readEnvValue runtime ''MYSQL_USER'') (readEnvValue runtime ''MYSQL_PASSWORD'')
          (\<lambda>_. readEnvValue runtime ''MYSQL_DATABASE'')
      | Redis \<Rightarrow> credentials_of (Some ''default'') (readRedisPassword runtime) (\<lambda>_. None))"

definition readDatabaseProbeCredentials :: "database_engine \<Rightarrow> inspection \<Rightarrow> probe_credentials option" where
  "readDatabaseProbeCredentials engine i = readDatabaseProbeCredentialsFromRuntime engine (toRuntimeDefinition i)"

fun DEFAULT_ENGINE_PORTS :: "database_engine \<Rightarrow> int" where
  "DEFAULT_ENGINE_PORTS Postgres = 5432"
| "DEFAULT_ENGINE_PORTS Mongodb = 27017"
| "DEFAULT_ENGINE_PORTS Mysql = 3306"
| "DEFAULT_ENGINE_PORTS Redis = 6379"

fun first_port :: "string list \<Rightarrow> int option" where
  "first_port [] = None"
| "first_port (k # ks) =
     (case parse_int (hd (split_on (CHR ''/'') k)) of
        Some p \<Rightarrow> if p > 0 then Some p else first_port ks
      | None \<Rightarrow> first_port ks)"

definition resolveDatabaseInternalPort :: "database_engine \<Rightarrow> inspection \<Rightarrow> int" where
  "resolveDatabaseInternalPort engine i =
     (case first_port (ci_PortKeys i) of Some p \<Rightarrow> p | None \<Rightarrow> DEFAULT_ENGINE_PORTS engine)"

section \<open>Waiting for a database\<close>

definition hasKnownKernelIncompatibility :: "'w docker \<Rightarrow> string \<Rightarrow> ('w, bool) io" where
  "hasKnownKernelIncompatibility docker containerName =
     io_catch (io_bind (containerLogs docker containerName)
         (\<lambda>l. io_return (contains l ''MongoDB cannot start: Linux kernel versions'')))
       (\<lambda>_. io_return False)"

definition describeKernelIncompatibility :: "string \<Rightarrow> string" where
  "describeKernelIncompatibility containerName = ''Database container '' @ containerName @ '' cannot start: '' @
     ''this MongoDB build rejects the server'' @ quote @ ''s Linux kernel and refuses to start (upstream MongoDB SERVER-121912 and SERVER-131779). Use a MongoDB build and server kernel combination upstream supports; the guard cannot be safely bypassed.''"

definition DATABASE_READINESS_SUBJECT :: string where
  "DATABASE_READINESS_SUBJECT = ''Database container''"

definition DEFAULT_READINESS_TIMEOUT_MS :: int where "DEFAULT_READINESS_TIMEOUT_MS = 180000"
definition DEFAULT_READINESS_INTERVAL_MS :: int where "DEFAULT_READINESS_INTERVAL_MS = 2000"
definition DEFAULT_READINESS_PROBE_INTERVAL_MS :: int where "DEFAULT_READINESS_PROBE_INTERVAL_MS = 10000"

record 'w database_wait =
  dw_docker :: "'w docker"
  dw_containerName :: string
  dw_engine :: database_engine
  dw_probe :: "('w, unit) io"
  dw_timeoutMs :: int
  dw_intervalMs :: int
  dw_probeIntervalMs :: int
  dw_clock :: "'w clock"
  dw_restartBaseline :: "int option"

text \<open>The input with its optional fields left out.\<close>

definition default_database_wait ::
    "'w docker \<Rightarrow> string \<Rightarrow> database_engine \<Rightarrow> ('w, unit) io \<Rightarrow> 'w clock \<Rightarrow> 'w database_wait" where
  "default_database_wait docker containerName engine probe clk = \<lparr>dw_docker = docker,
     dw_containerName = containerName, dw_engine = engine, dw_probe = probe,
     dw_timeoutMs = DEFAULT_READINESS_TIMEOUT_MS, dw_intervalMs = DEFAULT_READINESS_INTERVAL_MS,
     dw_probeIntervalMs = DEFAULT_READINESS_PROBE_INTERVAL_MS, dw_clock = clk, dw_restartBaseline = None\<rparr>"

record database_seen =
  ds_evidence :: candidate_evidence
  ds_nextProbeAt :: int
  ds_lastStatus :: string

text \<open>The error for a kernel the database rejects, or else the given one.\<close>

definition fail_or_incompatible :: "'w database_wait \<Rightarrow> js_error \<Rightarrow> ('w, 'a) io" where
  "fail_or_incompatible inp e =
     io_bind (hasKnownKernelIncompatibility (dw_docker inp) (dw_containerName inp)) (\<lambda>known.
       if known then io_throw (DatabaseReadinessError (describeKernelIncompatibility (dw_containerName inp))
         ''incompatible_host_kernel'')
       else io_throw e)"

text \<open>\<open>Math.round(timeoutMs / 1000)\<close> rounds halves up.\<close>

definition unready_deadline :: "'w database_wait \<Rightarrow> database_seen \<Rightarrow> js_error" where
  "unready_deadline inp s =
     (let restarts = (if ev_restarts (ds_evidence s) > 0
            then '', '' @ show_int (ev_restarts (ds_evidence s)) @ '' restarts'' else [])
      in DatabaseReadinessError (''Database container '' @ dw_containerName inp
           @ '' did not accept authenticated '' @ engine_text (dw_engine inp) @ '' connections within ''
           @ show_int \<lfloor>of_int (dw_timeoutMs inp) / 1000 + (1 / 2 :: rat)\<rfloor> @ ''s (container status ''
           @ ds_lastStatus s @ restarts @ ''); the database is not serving its port'') ''unready_deadline'')"

definition database_assessment ::
    "'w database_wait \<Rightarrow> inspection \<Rightarrow> candidate_evidence \<Rightarrow> candidate_evidence \<times> readiness_step" where
  "database_assessment inp = assessCandidateReadiness \<lparr>ri_containerName = dw_containerName inp, ri_appPort = 0,
     ri_subject = Some DATABASE_READINESS_SUBJECT, ri_restartBaseline = dw_restartBaseline inp,
     ri_recentRestarts = None, ri_outOfMemoryAtStart = None\<rparr>"

text \<open>One attempt to authenticate, when it is due; then the pause before the next poll.\<close>

definition database_attempt ::
    "'w database_wait \<Rightarrow> bool \<Rightarrow> database_seen \<Rightarrow> ('w, database_seen + unit) io" where
  "database_attempt inp containerIsUp s =
     (let again = (\<lambda>s. io_bind (wait (dw_clock inp) (dw_intervalMs inp)) (\<lambda>_. io_return (Inl s)))
      in if \<not> containerIsUp then again s
         else io_bind (io_now (dw_clock inp)) (\<lambda>t.
           if t < ds_nextProbeAt s then again s
           else io_bind (io_now (dw_clock inp)) (\<lambda>t2.
             io_bind (io_try (dw_probe inp)) (\<lambda>r. case r of
               Inr _ \<Rightarrow> io_return (Inr ())
             | Inl _ \<Rightarrow> again (s\<lparr>ds_nextProbeAt := t2 + dw_probeIntervalMs inp\<rparr>)))))"

definition database_judge ::
    "'w database_wait \<Rightarrow> database_seen \<Rightarrow> inspection option \<Rightarrow> ('w, database_seen + unit) io" where
  "database_judge inp s inspection =
     (case inspection of
        None \<Rightarrow> io_throw (DatabaseReadinessError (''Database container '' @ dw_containerName inp
          @ '' is missing on the server'') ''container_missing'')
      | Some i \<Rightarrow>
          let (evidence, step) = database_assessment inp i (ds_evidence s);
              s = s\<lparr>ds_evidence := evidence,
                ds_lastStatus := (case status_of i of None \<Rightarrow> ds_lastStatus s | Some st \<Rightarrow> st)\<rparr>
          in case step of
               Failed cause message \<Rightarrow> fail_or_incompatible inp (DatabaseReadinessError message ''container_failed'')
             | WaitStep message \<Rightarrow> database_attempt inp (state_of cs_Running i = Some True) s
             | _ \<Rightarrow> database_attempt inp True s)"

definition database_round :: "'w database_wait \<Rightarrow> int \<Rightarrow> database_seen \<Rightarrow> ('w, database_seen + unit) io" where
  "database_round inp deadline s =
     io_bind (io_now (dw_clock inp)) (\<lambda>t.
     if t > deadline then fail_or_incompatible inp (unready_deadline inp s)
     else io_bind (inspectContainer (dw_docker inp) (dw_containerName inp)) (database_judge inp s))"

definition waitForDatabaseReadiness :: "'w database_wait \<Rightarrow> ('w, unit) io" where
  "waitForDatabaseReadiness inp =
     io_bind (io_now (dw_clock inp)) (\<lambda>t.
     io_loop (database_round inp (t + dw_timeoutMs inp))
       \<lparr>ds_evidence = NO_CANDIDATE_RUNTIME_EVIDENCE, ds_nextProbeAt = 0, ds_lastStatus = ''unknown''\<rparr>)"

section \<open>Observing a managed database\<close>

datatype health_state = HealthReady | Unavailable | UnknownHealth

datatype health_reason =
    AuthenticatedProbeSucceeded
  | ContainerMissing
  | ContainerRestarting
  | ContainerExited
  | ContainerPaused
  | IncompatibleHostKernel
  | ProbeUnavailable

record 'e database_container =
  dc_serviceId :: string
  dc_containerId :: string
  dc_containerName :: string
  dc_engine :: 'e

record health_observation =
  ho_serviceId :: string
  ho_containerId :: string
  ho_containerName :: string
  ho_engine :: string
  ho_state :: health_state
  ho_reason :: health_reason
  ho_observedAt :: string

definition UNAVAILABLE_CONTAINER_STATUSES :: "(string \<times> health_reason) list" where
  "UNAVAILABLE_CONTAINER_STATUSES = [(''restarting'', ContainerRestarting), (''exited'', ContainerExited),
     (''dead'', ContainerExited), (''removing'', ContainerExited), (''paused'', ContainerPaused)]"

text \<open>The closure \<open>report\<close>: it reads the clock.\<close>

definition health_report ::
    "'w clock \<Rightarrow> database_engine database_container \<Rightarrow> health_state \<Rightarrow> health_reason \<Rightarrow> ('w, health_observation) io" where
  "health_report clk c state reason =
     io_bind (io_now clk) (\<lambda>t. io_return \<lparr>ho_serviceId = dc_serviceId c, ho_containerId = dc_containerId c,
       ho_containerName = dc_containerName c, ho_engine = engine_text (dc_engine c), ho_state = state,
       ho_reason = reason, ho_observedAt = to_iso_string t\<rparr>)"

definition observation_probe :: "database_engine database_container \<Rightarrow> inspection \<Rightarrow> probe_credentials \<Rightarrow> probe_command" where
  "observation_probe c i credentials =
     buildDatabaseReadinessProbe (dc_engine c) (dc_containerName c) (resolveDatabaseInternalPort (dc_engine c) i) credentials"

definition observe_running ::
    "(database_engine database_container \<Rightarrow> inspection \<Rightarrow> probe_command \<Rightarrow> ('w, unit) io) \<Rightarrow> 'w clock \<Rightarrow>
     database_engine database_container \<Rightarrow> inspection \<Rightarrow> ('w, health_observation) io" where
  "observe_running runProbe clk c i =
     (if state_of cs_Running i \<noteq> Some True then health_report clk c UnknownHealth ProbeUnavailable
      else case readDatabaseProbeCredentials (dc_engine c) i of
        None \<Rightarrow> health_report clk c UnknownHealth ProbeUnavailable
      | Some credentials \<Rightarrow>
          io_bind (io_try (runProbe c i (observation_probe c i credentials))) (\<lambda>r. case r of
            Inl _ \<Rightarrow> health_report clk c UnknownHealth ProbeUnavailable
          | Inr _ \<Rightarrow> health_report clk c HealthReady AuthenticatedProbeSucceeded))"

definition observe_inspected ::
    "'w docker \<Rightarrow> (database_engine database_container \<Rightarrow> inspection \<Rightarrow> probe_command \<Rightarrow> ('w, unit) io) \<Rightarrow>
     'w clock \<Rightarrow> database_engine database_container \<Rightarrow> inspection option \<Rightarrow> ('w, health_observation) io" where
  "observe_inspected docker runProbe clk c inspection =
     (case inspection of
        None \<Rightarrow> health_report clk c Unavailable ContainerMissing
      | Some i \<Rightarrow>
          (case map_of UNAVAILABLE_CONTAINER_STATUSES (case status_of i of None \<Rightarrow> [] | Some s \<Rightarrow> s) of
             Some reason \<Rightarrow>
               io_bind (hasKnownKernelIncompatibility docker (dc_containerName c)) (\<lambda>known.
                 health_report clk c Unavailable (if known then IncompatibleHostKernel else reason))
           | None \<Rightarrow> observe_running runProbe clk c i))"

definition observeDatabaseRuntimeHealth ::
    "'w docker \<Rightarrow> (database_engine database_container \<Rightarrow> inspection \<Rightarrow> probe_command \<Rightarrow> ('w, unit) io) \<Rightarrow>
     'w clock \<Rightarrow> database_engine database_container \<Rightarrow> ('w, health_observation) io" where
  "observeDatabaseRuntimeHealth docker runProbe clk c =
     io_bind (io_try (inspectContainer docker (dc_containerName c))) (\<lambda>r. case r of
       Inl _ \<Rightarrow> health_report clk c UnknownHealth ProbeUnavailable
     | Inr inspection \<Rightarrow> observe_inspected docker runProbe clk c inspection)"

section \<open>The inventory\<close>

definition readEngineFromContainerName :: "string \<Rightarrow> database_engine option" where
  "readEngineFromContainerName containerName =
     find (\<lambda>e. starts_with containerName (''nouva-'' @ engine_text e @ ''-'')) DATABASE_ENGINES"

definition readManagedDatabaseContainer :: "managed_container \<Rightarrow> database_engine option database_container option" where
  "readManagedDatabaseContainer c =
     (let labels = (case mc_Labels c of None \<Rightarrow> [] | Some ls \<Rightarrow> ls);
          serviceId = (case map_of labels ''nouva.service.id'' of None \<Rightarrow> [] | Some s \<Rightarrow> s);
          containerName = (case mc_Names c of Some (n # _) \<Rightarrow> (if prefix ''/'' n then tl n else n) | _ \<Rightarrow> [])
      in if map_of labels ''nouva.kind'' \<noteq> Some ''database'' \<or> serviceId = [] \<or> containerName = [] then None
         else
           let labelled = find (\<lambda>e. map_of labels ''nouva.service.variant'' = Some (engine_text e)) DATABASE_ENGINES;
               engine = (case labelled of Some e \<Rightarrow> Some e | None \<Rightarrow> readEngineFromContainerName containerName)
           in Some \<lparr>dc_serviceId = serviceId, dc_containerId = mc_Id c, dc_containerName = containerName,
                dc_engine = engine\<rparr>)"

definition DEFAULT_OBSERVATION_CONCURRENCY :: int where "DEFAULT_OBSERVATION_CONCURRENCY = 2"

definition placeholder :: "string \<Rightarrow> database_engine option database_container \<Rightarrow> health_observation" where
  "placeholder observedAt c = \<lparr>ho_serviceId = dc_serviceId c, ho_containerId = dc_containerId c,
     ho_containerName = dc_containerName c,
     ho_engine = (case dc_engine c of None \<Rightarrow> [] | Some e \<Rightarrow> engine_text e),
     ho_state = UnknownHealth, ho_reason = ProbeUnavailable, ho_observedAt = observedAt\<rparr>"

text \<open>
  A pass: what its workers share. A worker takes the next container without waiting, skipping those
  without an engine, and then awaits its observation; \<open>ip_awaited\<close> are the indices being observed, one for
  each worker that has not ended. Nothing else runs between two awaits, so a pass is a sequence of
  these steps in the order in which the observations complete.
\<close>

record inventory_pass =
  ip_containers :: "database_engine option database_container list"
  ip_observations :: "health_observation list"
  ip_next :: nat
  ip_awaited :: "nat list"
  ip_published :: "health_observation list list"

function take_container :: "database_engine option database_container list \<Rightarrow> nat \<Rightarrow> nat \<times> nat option" where
  "take_container cs n =
     (if n \<ge> length cs then (n, None)
      else if dc_engine (cs ! n) = None then take_container cs (Suc n)
      else (Suc n, Some n))"
  by auto
termination by (relation "measure (\<lambda>(cs, n). length cs - n)") auto

declare take_container.simps [simp del]

definition worker_takes :: "inventory_pass \<Rightarrow> inventory_pass" where
  "worker_takes p =
     (case take_container (ip_containers p) (ip_next p) of
        (n, None) \<Rightarrow> p\<lparr>ip_next := n\<rparr>
      | (n, Some i) \<Rightarrow> p\<lparr>ip_next := n, ip_awaited := ip_awaited p @ [i]\<rparr>)"

definition publish :: "inventory_pass \<Rightarrow> inventory_pass" where
  "publish p = p\<lparr>ip_published := ip_published p @ [ip_observations p]\<rparr>"

definition start_pass :: "int option \<Rightarrow> string \<Rightarrow> managed_container list \<Rightarrow> inventory_pass" where
  "start_pass concurrency observedAt listed =
     (let containers = List.map_filter readManagedDatabaseContainer listed;
          workers = max 1 (case concurrency of None \<Rightarrow> DEFAULT_OBSERVATION_CONCURRENCY | Some n \<Rightarrow> n);
          p = publish \<lparr>ip_containers = containers, ip_observations = map (placeholder observedAt) containers,
                ip_next = 0, ip_awaited = [], ip_published = []\<rparr>
      in (worker_takes ^^ nat (min workers (int (length containers)))) p)"

definition observation_completes :: "nat \<Rightarrow> health_observation \<Rightarrow> inventory_pass \<Rightarrow> inventory_pass" where
  "observation_completes i obs p =
     worker_takes (publish (p\<lparr>ip_observations := (ip_observations p)[i := obs],
       ip_awaited := remove1 i (ip_awaited p)\<rparr>))"

definition pass_report :: "inventory_pass \<Rightarrow> health_observation list" where
  "pass_report p = ip_observations p"

end
