(* ===== verification/Database_Props.thy ===== *)
theory Database_Props
  imports Database_Readiness
begin

text \<open>
  What is proved of managed databases: a database counts as ready only after an authenticated probe, and
  as unavailable only for what its container proves; the wait ends; the health checks authenticate as the
  provisioning did; and the inventory is complete at every moment of a pass, however its workers interleave.
\<close>

section \<open>The probe\<close>

text \<open>Neither the command nor the entry point of a probe depends on the credentials or the address.\<close>

lemma probe_command_is_fixed:
  "pb_cmd (buildDatabaseReadinessProbe e h p c) = pb_cmd (buildDatabaseReadinessProbe e h' p' c')"
  "pb_entrypoint (buildDatabaseReadinessProbe e h p c) = [''/bin/sh'']"
  by (cases e; simp add: buildDatabaseReadinessProbe_def Let_def PROBE_ENTRYPOINT_def)+

lemma index_of_append_fresh: "c \<notin> set k \<Longrightarrow> index_of (k @ c # v) c = Some (length k)"
  by (induction k) auto

definition env_entry :: "string \<times> string \<Rightarrow> string" where
  "env_entry kv = fst kv @ CHR ''='' # snd kv"

lemma add_env_entry_entry:
  "k \<noteq> [] \<Longrightarrow> CHR ''='' \<notin> set k \<Longrightarrow> add_env_entry envVars (env_entry (k, v)) = obj_put envVars k v"
  by (simp add: add_env_entry_def env_entry_def index_of_append_fresh)

lemma map_of_env_entries:
  assumes "distinct (map fst env)" and "list_all (\<lambda>kv. fst kv \<noteq> [] \<and> CHR ''='' \<notin> set (fst kv)) env"
  shows "map_of (foldl add_env_entry acc (map env_entry env)) = map_of acc ++ map_of env"
  using assms
proof (induction env arbitrary: acc)
  case (Cons kv env)
  obtain k v where kv: "kv = (k, v)" by (cases kv)
  with Cons.prems have "map_of env k = None" by (simp add: map_of_eq_None_iff)
  with Cons kv show ?case
    by (auto simp: add_env_entry_entry fun_eq_iff map_add_def split: option.splits)
qed simp



section \<open>Ready only after an authenticated probe\<close>

lemma hasKnown_returns: "hasKnownKernelIncompatibility d n w = Some (r, w') \<Longrightarrow> \<exists>b. r = Inr b"
  by (auto simp: hasKnownKernelIncompatibility_def io_catch_Some_iff)

lemma fail_or_incompatible_fails: "fail_or_incompatible inp e w = Some (Inr x, w') \<Longrightarrow> False"
  by (auto simp: fail_or_incompatible_def elim!: io_bind_InrE split: if_splits)

text \<open>A probe has just succeeded.\<close>

definition authenticated :: "'w database_wait \<Rightarrow> 'w \<Rightarrow> bool" where
  "authenticated inp w' \<longleftrightarrow> (\<exists>w1. dw_probe inp w1 = Some (Inr (), w'))"

lemma authenticatedI: "dw_probe inp w1 = Some (Inr (), w') \<Longrightarrow> authenticated inp w'"
  by (auto simp: authenticated_def)

lemma database_attempt_ready: "database_attempt inp b s w = Some (Inr (Inr x), w') \<Longrightarrow> authenticated inp w'"
  unfolding database_attempt_def Let_def
  by (auto elim!: io_bind_InrE split: if_splits sum.splits) (rule authenticatedI)

lemma database_judge_ready: "database_judge inp s c w = Some (Inr (Inr x), w') \<Longrightarrow> authenticated inp w'"
  unfolding database_judge_def Let_def
  by (auto dest: fail_or_incompatible_fails intro: database_attempt_ready
      split: option.splits prod.splits readiness_step.splits)

lemma database_round_ready: "database_round inp dl s w = Some (Inr (Inr x), w') \<Longrightarrow> authenticated inp w'"
  unfolding database_round_def
  by (auto elim!: io_bind_InrE dest: fail_or_incompatible_fails intro: database_judge_ready split: if_splits)

text \<open>C33 A database is declared ready only by an authenticated statement: the wait ends normally only at the moment
  the probe has succeeded, whatever Docker says of the container. And it always ends: on a clock that
  advances, with a positive interval, if Docker's answers and the probe come back.\<close>

theorem database_wait_needs_probe:
  assumes clock: "clock_advances time (dw_clock inp)" and "0 < dw_intervalMs inp"
    and "\<And>n. settles time (inspectContainer (dw_docker inp) n)" and "\<And>n. settles time (containerLogs (dw_docker inp) n)"
    and "settles time (dw_probe inp)"
  shows "\<exists>r w'. waitForDatabaseReadiness inp w = Some (r, w') \<and>
    (\<forall>x. r = Inr x \<longrightarrow> authenticated inp w')"
proof -
  let ?s = "\<lparr>ds_evidence = NO_CANDIDATE_RUNTIME_EVIDENCE, ds_nextProbeAt = 0, ds_lastStatus = ''unknown''\<rparr>"
  obtain w1 where now: "io_now (dw_clock inp) w = Some (Inr (time w), w1)" by (rule io_now_advances [OF clock])
  have attempt: "progress time (database_attempt inp b s)" for b s
    unfolding database_attempt_def Let_def
    by (auto intro!: progress_rules settles_rules settles_now progress_wait assms)
  have fail: "settles time (fail_or_incompatible inp e)" "progress time (fail_or_incompatible inp e)" for e
    unfolding fail_or_incompatible_def hasKnownKernelIncompatibility_def
    by (auto intro!: progress_rules settles_rules assms)
  have judge: "progress time (database_judge inp s c)" for s c
    unfolding database_judge_def Let_def
    by (auto intro!: progress_rules attempt fail split: option.splits prod.splits readiness_step.splits)
  have "\<exists>r w'. io_loop (database_round inp (time w + dw_timeoutMs inp)) ?s w1 = Some (r, w')"
    by (rule deadline_loop_ends [OF clock database_round_def])
      (auto intro!: progress_rules judge fail assms dest: fail_or_incompatible_fails)
  then obtain r w' where run: "io_loop (database_round inp (time w + dw_timeoutMs inp)) ?s w1 = Some (r, w')" by blast
  have "\<forall>x. r = Inr x \<longrightarrow> authenticated inp w'"
    by (rule io_loop_partial [OF run, where I = "\<lambda>_ _. True"
          and Q = "\<lambda>r w'. \<forall>x. r = Inr x \<longrightarrow> authenticated inp w'"])
      (auto dest: database_round_ready)
  with now run show ?thesis by (simp add: waitForDatabaseReadiness_def io_bind_def)
qed

text \<open>A database whose probe succeeds from the time 20000 on.\<close>

definition booting_database :: "int database_wait" where
  "booting_database = \<lparr>dw_docker = undefined\<lparr>
     inspectContainer := (\<lambda>_. io_return (Some ((bare_inspection ''db'')\<lparr>
       ci_State := Some (no_state\<lparr>cs_Running := Some True, cs_Status := Some ''running''\<rparr>)\<rparr>))),
     containerLogs := (\<lambda>_. io_return [])\<rparr>,
     dw_containerName = ''db'', dw_engine = Postgres,
     dw_probe = (\<lambda>t. Some (if t < 20000 then Inl (Error ''refused'') else Inr (), t)),
     dw_timeoutMs = 180000, dw_intervalMs = 2000, dw_probeIntervalMs = 10000, dw_clock = int_clock,
     dw_restartBaseline = None\<rparr>"

lemma database_wait_needs_probe_witness:
  "case waitForDatabaseReadiness booting_database 0 of
     None \<Rightarrow> False | Some (r, w') \<Rightarrow> (case r of Inl _ \<Rightarrow> True | Inr _ \<Rightarrow> 20000 \<le> w')"
proof -
  have "settles (\<lambda>t. t) (dw_probe booting_database)" by (simp add: booting_database_def settles_def)
  moreover have "settles (\<lambda>t. t) (inspectContainer (dw_docker booting_database) n)"
    "settles (\<lambda>t. t) (containerLogs (dw_docker booting_database) n)" for n
    by (simp_all add: booting_database_def settles_rules)
  ultimately obtain r w' where "waitForDatabaseReadiness booting_database 0 = Some (r, w')"
    and "\<forall>x. r = Inr x \<longrightarrow> authenticated booting_database w'"
    using database_wait_needs_probe [of "\<lambda>t. t" booting_database 0]
    by (auto simp: booting_database_def int_clock_advances)
  then show ?thesis by (cases r) (auto simp: authenticated_def booting_database_def split: if_splits)
qed

section \<open>Observations prove what they report\<close>

lemma health_report_Some_iff:
  "health_report clk c st reason w = Some (r, w') \<longleftrightarrow> (\<exists>t. io_now clk w = Some (Inr t, w') \<and>
     r = Inr \<lparr>ho_serviceId = dc_serviceId c, ho_containerId = dc_containerId c,
       ho_containerName = dc_containerName c, ho_engine = engine_text (dc_engine c), ho_state = st,
       ho_reason = reason, ho_observedAt = to_iso_string t\<rparr>)"
  by (auto simp: health_report_def io_bind_Some_iff io_now_def)

text \<open>What stands behind the state and reason of an observation.\<close>

definition proven ::
    "'w docker \<Rightarrow> (database_engine database_container \<Rightarrow> inspection \<Rightarrow> probe_command \<Rightarrow> ('w, unit) io) \<Rightarrow>
     database_engine database_container \<Rightarrow> health_observation \<Rightarrow> bool" where
  "proven docker runProbe c obs \<longleftrightarrow>
     (case ho_state obs of
        HealthReady \<Rightarrow> ho_reason obs = AuthenticatedProbeSucceeded \<and>
          (\<exists>i credentials w1 w2. readDatabaseProbeCredentials (dc_engine c) i = Some credentials \<and>
             state_of cs_Running i = Some True \<and>
             (\<exists>w0. inspectContainer docker (dc_containerName c) w0 = Some (Inr (Some i), w1)) \<and>
             runProbe c i (observation_probe c i credentials) w1 = Some (Inr (), w2))
      | Unavailable \<Rightarrow>
          (\<exists>w0 w1. inspectContainer docker (dc_containerName c) w0 = Some (Inr None, w1)) \<and>
             ho_reason obs = ContainerMissing \<or>
          (\<exists>i w0 w1 s reason. inspectContainer docker (dc_containerName c) w0 = Some (Inr (Some i), w1) \<and>
             status_of i = Some s \<and> map_of UNAVAILABLE_CONTAINER_STATUSES s = Some reason \<and>
             (ho_reason obs = reason \<or> ho_reason obs = IncompatibleHostKernel))
      | UnknownHealth \<Rightarrow> ho_reason obs = ProbeUnavailable)"

definition identity_of :: "health_observation \<Rightarrow> string \<times> string \<times> string \<times> string" where
  "identity_of o1 = (ho_serviceId o1, ho_containerId o1, ho_containerName o1, ho_engine o1)"

lemma observe_running_proven:
  assumes "observe_running runProbe clk c i w1 = Some (r, w')"
    and "inspectContainer docker (dc_containerName c) w = Some (Inr (Some i), w1)"
  shows "\<exists>obs. r = Inr obs \<and> proven docker runProbe c obs \<and>
    identity_of obs = (dc_serviceId c, dc_containerId c, dc_containerName c, engine_text (dc_engine c))"
  using assms unfolding observe_running_def
  by (fastforce simp: health_report_Some_iff io_bind_sum_Some_iff proven_def identity_of_def split: if_splits option.splits)

lemma unavailable_no_empty: "map_of UNAVAILABLE_CONTAINER_STATUSES [] = None"
  by (simp add: UNAVAILABLE_CONTAINER_STATUSES_def)

text \<open>C34 Observing a database never fails and never claims more than it proved: every observation names the
  container it was asked about; it says ready only if the container was running and a probe with its own
  credentials succeeded right after the inspection, unavailable only if Docker has no such container or
  reports it restarting, stopped or paused, and unknown otherwise.\<close>

theorem observation_is_proven:
  assumes "observeDatabaseRuntimeHealth docker runProbe clk c w = Some (r, w')"
  shows "\<exists>obs. r = Inr obs \<and> proven docker runProbe c obs \<and>
    identity_of obs = (dc_serviceId c, dc_containerId c, dc_containerName c, engine_text (dc_engine c))"
proof -
  from assms consider (failed) e w1 where "inspectContainer docker (dc_containerName c) w = Some (Inl e, w1)"
      "health_report clk c UnknownHealth ProbeUnavailable w1 = Some (r, w')"
    | (found) ins w1 where "inspectContainer docker (dc_containerName c) w = Some (Inr ins, w1)"
      "observe_inspected docker runProbe clk c ins w1 = Some (r, w')"
    unfolding observeDatabaseRuntimeHealth_def by (auto simp: io_bind_sum_Some_iff)
  then show ?thesis
  proof cases
    case failed
    then show ?thesis by (auto simp: health_report_Some_iff proven_def identity_of_def)
  next
    case found
    show ?thesis
    proof (cases ins)
      case None
      from found(2) None obtain obs where obs: "r = Inr obs" "ho_state obs = Unavailable" "ho_reason obs = ContainerMissing"
        "identity_of obs = (dc_serviceId c, dc_containerId c, dc_containerName c, engine_text (dc_engine c))"
        by (auto simp: observe_inspected_def health_report_Some_iff identity_of_def)
      moreover have "proven docker runProbe c obs"
        using found(1) None obs(2,3) unfolding proven_def by (simp only: health_state.case) blast
      ultimately show ?thesis by blast
    next
      case (Some i)
      show ?thesis
      proof (cases "map_of UNAVAILABLE_CONTAINER_STATUSES (case status_of i of None \<Rightarrow> [] | Some s \<Rightarrow> s)")
        case None
        with found Some observe_running_proven show ?thesis by (fastforce simp: observe_inspected_def)
      next
        case reason: (Some reason)
        then obtain s where s: "status_of i = Some s" "map_of UNAVAILABLE_CONTAINER_STATUSES s = Some reason"
          using unavailable_no_empty by (cases "status_of i") auto
        from found Some reason obtain known w2 where
          "health_report clk c Unavailable (if known then IncompatibleHostKernel else reason) w2 = Some (r, w')"
          by (auto simp: observe_inspected_def io_bind_Some_iff dest: hasKnown_returns)
        moreover from found(1) Some s have "\<exists>i w0 w1 s. inspectContainer docker (dc_containerName c) w0 = Some (Inr (Some i), w1) \<and>
            status_of i = Some s \<and> map_of UNAVAILABLE_CONTAINER_STATUSES s = Some reason" by blast
        ultimately show ?thesis
          by (cases known) (fastforce simp: health_report_Some_iff proven_def identity_of_def)+
      qed
    qed
  qed
qed

definition sample_database :: "database_engine database_container" where
  "sample_database = \<lparr>dc_serviceId = ''s1'', dc_containerId = ''c1'', dc_containerName = ''nouva-postgres-s1'', dc_engine = Postgres\<rparr>"

lemma observation_is_proven_witness:
  "\<exists>obs. ho_state obs = UnknownHealth \<and>
     proven (dw_docker booting_database) (\<lambda>_ _ _. io_return ()) sample_database obs"
proof -
  have "map_option (map_sum id ho_state \<circ> fst) (observeDatabaseRuntimeHealth (dw_docker booting_database) (\<lambda>_ _ _. io_return ())
      int_clock sample_database 0) = Some (Inr UnknownHealth)"
    by (simp add: observeDatabaseRuntimeHealth_def booting_database_def sample_database_def io_bind_def io_try_def
        io_return_def observe_inspected_def status_of_def bare_inspection_def no_state_def observe_running_def
        readDatabaseProbeCredentials_def readDatabaseProbeCredentialsFromRuntime_def toRuntimeDefinition_def
        readEnvValue_def credentials_of_def health_report_def io_now_def int_clock_def
        UNAVAILABLE_CONTAINER_STATUSES_def to_lower_def to_lower_char_def)
  then obtain r w' where "observeDatabaseRuntimeHealth (dw_docker booting_database) (\<lambda>_ _ _. io_return ())
      int_clock sample_database 0 = Some (r, w')" and "map_sum id ho_state r = Inr UnknownHealth" by auto
  with observation_is_proven [OF this(1)] show ?thesis by auto
qed

section \<open>The inventory\<close>

text \<open>
  The passes that can happen: the workers start, then observations complete in any order, each naming
  the container it was asked about (\<open>observation_is_proven\<close>). \<open>completed\<close> lists the indices observed.
\<close>

definition container_identity :: "database_engine option database_container \<Rightarrow> string \<times> string \<times> string \<times> string" where
  "container_identity c = (dc_serviceId c, dc_containerId c, dc_containerName c,
     case dc_engine c of None \<Rightarrow> [] | Some e \<Rightarrow> engine_text e)"

inductive pass_run :: "int option \<Rightarrow> string \<Rightarrow> managed_container list \<Rightarrow> inventory_pass \<Rightarrow> nat list \<Rightarrow> bool"
  for concurrency observedAt listed where
  pass_start: "pass_run concurrency observedAt listed (start_pass concurrency observedAt listed) []"
| pass_step: "pass_run concurrency observedAt listed p completed \<Longrightarrow> i \<in> set (ip_awaited p) \<Longrightarrow>
    identity_of obs = container_identity (ip_containers p ! i) \<Longrightarrow>
    pass_run concurrency observedAt listed (observation_completes i obs p) (completed @ [i])"

definition worker_limit :: "int option \<Rightarrow> nat" where
  "worker_limit concurrency = nat (max 1 (case concurrency of None \<Rightarrow> DEFAULT_OBSERVATION_CONCURRENCY | Some n \<Rightarrow> n))"

definition complete_inventory :: "database_engine option database_container list \<Rightarrow> health_observation list \<Rightarrow> bool" where
  "complete_inventory cs snapshot \<longleftrightarrow> map identity_of snapshot = map container_identity cs"

text \<open>The indices of the first \<open>n\<close> containers that can be observed.\<close>

definition observable :: "database_engine option database_container list \<Rightarrow> nat \<Rightarrow> nat set" where
  "observable cs n = {i. i < n \<and> i < length cs \<and> dc_engine (cs ! i) \<noteq> None}"

lemma take_container_spec:
  assumes "n \<le> length cs"
  shows "case take_container cs n of
     (n', None) \<Rightarrow> n' = length cs \<and> observable cs n' = observable cs n
   | (n', Some i) \<Rightarrow> n \<le> i \<and> n' = Suc i \<and> i < length cs \<and> observable cs n' = insert i (observable cs n)"
  using assms
proof (induction cs n rule: take_container.induct)
  case (1 cs n)
  show ?case
  proof (cases "n < length cs \<and> dc_engine (cs ! n) = None")
    case True
    then have "observable cs (Suc n) = observable cs n" by (auto simp: observable_def less_Suc_eq)
    with 1 True show ?thesis by (subst take_container.simps) (auto split: prod.splits option.splits)
  next
    case False
    with 1(2) show ?thesis by (subst take_container.simps) (auto simp: observable_def less_Suc_eq)
  qed
qed

definition pass_inv :: "database_engine option database_container list \<Rightarrow> nat \<Rightarrow> nat list \<Rightarrow> inventory_pass \<Rightarrow> bool" where
  "pass_inv cs limit completed p \<longleftrightarrow> ip_containers p = cs \<and> ip_next p \<le> length cs \<and>
     list_all (complete_inventory cs) (ip_published p) \<and> complete_inventory cs (ip_observations p) \<and>
     distinct (completed @ ip_awaited p) \<and> set (completed @ ip_awaited p) = observable cs (ip_next p) \<and>
     length (ip_awaited p) \<le> limit"

text \<open>A worker looking for its next container; afterwards somebody is working or nothing is left.\<close>

lemma worker_takes_inv:
  assumes inv: "pass_inv cs limit completed p" and room: "length (ip_awaited p) < limit"
  shows "pass_inv cs limit completed (worker_takes p)"
    and "ip_awaited (worker_takes p) = [] \<longrightarrow> ip_next (worker_takes p) = length cs"
    and "length (ip_awaited (worker_takes p)) \<le> Suc (length (ip_awaited p))"
    and "ip_published (worker_takes p) = ip_published p"
proof -
  from inv have n: "ip_next p \<le> length cs" and cs: "ip_containers p = cs" by (auto simp: pass_inv_def)
  obtain n' r where t: "take_container (ip_containers p) (ip_next p) = (n', r)" by fastforce
  have spec: "case r of None \<Rightarrow> n' = length cs \<and> observable cs n' = observable cs (ip_next p)
     | Some i \<Rightarrow> ip_next p \<le> i \<and> n' = Suc i \<and> i < length cs \<and> observable cs n' = insert i (observable cs (ip_next p))"
    using take_container_spec [OF n] t cs by (cases r) auto
  have fresh: "i \<notin> observable cs (ip_next p)" if "ip_next p \<le> i" for i
    using that by (simp add: observable_def)
  show "pass_inv cs limit completed (worker_takes p)"
    using inv room spec fresh t by (cases r) (auto simp: pass_inv_def worker_takes_def)
  show "ip_awaited (worker_takes p) = [] \<longrightarrow> ip_next (worker_takes p) = length cs"
    using spec t by (cases r) (auto simp: worker_takes_def)
  show "length (ip_awaited (worker_takes p)) \<le> Suc (length (ip_awaited p))"
    using t by (cases r) (auto simp: worker_takes_def)
  show "ip_published (worker_takes p) = ip_published p"
    using t by (cases r) (auto simp: worker_takes_def)
qed

lemma workers_take_inv:
  assumes "pass_inv cs limit completed p" and "length (ip_awaited p) + k \<le> limit" and "0 < k"
  shows "pass_inv cs limit completed ((worker_takes ^^ k) p) \<and>
    (ip_awaited ((worker_takes ^^ k) p) = [] \<longrightarrow> ip_next ((worker_takes ^^ k) p) = length cs) \<and>
    length (ip_awaited ((worker_takes ^^ k) p)) \<le> length (ip_awaited p) + k"
  using assms
proof (induction k)
  case (Suc k)
  show ?case
  proof (cases "k = 0")
    case True
    with Suc worker_takes_inv [OF Suc(2)] show ?thesis by simp
  next
    case False
    with Suc have IH: "pass_inv cs limit completed ((worker_takes ^^ k) p)"
      "length (ip_awaited ((worker_takes ^^ k) p)) \<le> length (ip_awaited p) + k" by auto
    with Suc(3) worker_takes_inv [OF IH(1)] show ?thesis by fastforce
  qed
qed simp

lemma container_placeholder: "identity_of (placeholder t c) = container_identity c"
  by (simp add: identity_of_def placeholder_def container_identity_def)

lemma start_pass_inv:
  assumes cs_def: "cs = List.map_filter readManagedDatabaseContainer listed"
    and p_def: "p = start_pass concurrency observedAt listed"
  shows "pass_inv cs (worker_limit concurrency) [] p \<and> (ip_awaited p = [] \<longrightarrow> ip_next p = length cs)"
proof -
  let ?p = "publish \<lparr>ip_containers = cs, ip_observations = map (placeholder observedAt) cs,
      ip_next = 0, ip_awaited = [], ip_published = []\<rparr>"
  let ?k = "nat (min (max 1 (case concurrency of None \<Rightarrow> DEFAULT_OBSERVATION_CONCURRENCY | Some n \<Rightarrow> n)) (int (length cs)))"
  have inv: "pass_inv cs (worker_limit concurrency) [] ?p"
    by (simp add: pass_inv_def publish_def complete_inventory_def observable_def comp_def container_placeholder)
  have p: "p = (worker_takes ^^ ?k) ?p" by (simp add: p_def cs_def start_pass_def Let_def)
  show ?thesis
  proof (cases "cs = []")
    case True
    then have "?k = 0" by simp
    with True p inv show ?thesis by (simp add: publish_def)
  next
    case False
    then have "0 < ?k" by simp
    moreover have "?k \<le> worker_limit concurrency" by (simp add: worker_limit_def)
    ultimately show ?thesis using workers_take_inv [OF inv, of ?k] p by (simp add: publish_def)
  qed
qed

lemma pass_run_inv:
  assumes "pass_run concurrency observedAt listed p completed"
  shows "pass_inv (List.map_filter readManagedDatabaseContainer listed) (worker_limit concurrency) completed p \<and>
    (ip_awaited p = [] \<longrightarrow> ip_next p = length (List.map_filter readManagedDatabaseContainer listed))"
  using assms
proof (induction rule: pass_run.induct)
  case pass_start
  show ?case by (rule start_pass_inv [OF refl refl])
next
  case (pass_step p completed i obs)
  let ?cs = "List.map_filter readManagedDatabaseContainer listed"
  let ?q = "publish (p\<lparr>ip_observations := (ip_observations p)[i := obs], ip_awaited := remove1 i (ip_awaited p)\<rparr>)"
  from pass_step have inv: "pass_inv ?cs (worker_limit concurrency) completed p" by simp
  then have i: "i < length ?cs" using pass_step(2) unfolding pass_inv_def observable_def by auto
  have "complete_inventory ?cs ((ip_observations p)[i := obs])"
    using inv pass_step(3) i unfolding pass_inv_def complete_inventory_def
    by (simp add: map_update) (metis list_update_id nth_map)
  moreover have "length (ip_awaited p) \<le> worker_limit concurrency" using inv by (simp add: pass_inv_def)
  then have "length (remove1 i (ip_awaited p)) < worker_limit concurrency"
    unfolding length_remove1 if_P [OF pass_step(2)] using length_pos_if_in_set [OF pass_step(2)] by linarith
  ultimately have q: "pass_inv ?cs (worker_limit concurrency) (completed @ [i]) ?q" "length (ip_awaited ?q) < worker_limit concurrency"
    using inv pass_step(2) by (auto simp: pass_inv_def publish_def)
  from worker_takes_inv(1,2) [OF q] show ?case by (simp add: observation_completes_def)
qed

text \<open>C35 The inventory of managed databases is complete at every moment: whatever the order in which observations
  complete, every snapshot published during a pass lists exactly the managed database containers Docker
  listed, in order and each with its own identity; no more than the allowed number of observations are in
  flight, no container is observed twice; and when none is in flight any more, every container with a
  known engine has been observed.\<close>

theorem inventory_is_complete:
  assumes "pass_run concurrency observedAt listed p completed"
  shows "list_all (complete_inventory (List.map_filter readManagedDatabaseContainer listed)) (ip_published p @ [pass_report p]) \<and>
    length (ip_awaited p) \<le> worker_limit concurrency \<and> distinct (completed @ ip_awaited p) \<and>
    (ip_awaited p = [] \<longrightarrow> set completed = {i. i < length (List.map_filter readManagedDatabaseContainer listed) \<and>
       dc_engine (List.map_filter readManagedDatabaseContainer listed ! i) \<noteq> None})"
  using pass_run_inv [OF assms] by (auto simp: pass_inv_def pass_report_def observable_def)

text \<open>Two databases and a container of another kind, observed one after the other.\<close>

definition sample_listing :: "managed_container list" where
  "sample_listing = [
     \<lparr>mc_Id = ''c1'', mc_Names = Some [''/nouva-postgres-s1''], mc_State = Some ''running'',
      mc_Labels = Some [(''nouva.kind'', ''database''), (''nouva.service.id'', ''s1'')]\<rparr>,
     \<lparr>mc_Id = ''c2'', mc_Names = Some [''/web''], mc_State = Some ''running'', mc_Labels = Some [(''nouva.kind'', ''app'')]\<rparr>,
     \<lparr>mc_Id = ''c3'', mc_Names = Some [''/db''], mc_State = Some ''running'',
      mc_Labels = Some [(''nouva.kind'', ''database''), (''nouva.service.id'', ''s3'')]\<rparr>]"

definition sample_observation :: health_observation where
  "sample_observation = \<lparr>ho_serviceId = ''s1'', ho_containerId = ''c1'', ho_containerName = ''nouva-postgres-s1'',
     ho_engine = ''postgres'', ho_state = HealthReady, ho_reason = AuthenticatedProbeSucceeded, ho_observedAt = ''t1''\<rparr>"

lemma inventory_is_complete_witness:
  "list_all (complete_inventory (List.map_filter readManagedDatabaseContainer sample_listing))
     [[placeholder ''t0'' \<lparr>dc_serviceId = ''s1'', dc_containerId = ''c1'', dc_containerName = ''nouva-postgres-s1'', dc_engine = Some Postgres\<rparr>,
       placeholder ''t0'' \<lparr>dc_serviceId = ''s3'', dc_containerId = ''c3'', dc_containerName = ''db'', dc_engine = None\<rparr>],
      [sample_observation,
       placeholder ''t0'' \<lparr>dc_serviceId = ''s3'', dc_containerId = ''c3'', dc_containerName = ''db'', dc_engine = None\<rparr>]]"
proof -
  let ?p0 = "start_pass None ''t0'' sample_listing"
  have p0: "ip_awaited ?p0 = [0]" "identity_of sample_observation = container_identity (ip_containers ?p0 ! 0)"
    by code_simp+
  have "pass_run None ''t0'' sample_listing (observation_completes 0 sample_observation ?p0) ([] @ [0])"
    by (rule pass_step [OF pass_start]) (simp_all add: p0)
  from inventory_is_complete [OF this]
  have "list_all (complete_inventory (List.map_filter readManagedDatabaseContainer sample_listing))
      (ip_published (observation_completes 0 sample_observation ?p0))" by simp
  moreover have "ip_published (observation_completes 0 sample_observation ?p0) =
     [[placeholder ''t0'' \<lparr>dc_serviceId = ''s1'', dc_containerId = ''c1'', dc_containerName = ''nouva-postgres-s1'', dc_engine = Some Postgres\<rparr>,
       placeholder ''t0'' \<lparr>dc_serviceId = ''s3'', dc_containerId = ''c3'', dc_containerName = ''db'', dc_engine = None\<rparr>],
      [sample_observation,
       placeholder ''t0'' \<lparr>dc_serviceId = ''s3'', dc_containerId = ''c3'', dc_containerName = ''db'', dc_engine = None\<rparr>]]"
    by code_simp
  ultimately show ?thesis by simp
qed

end
