(* ===== verification/Server_Capacity.thy ===== *)
theory Server_Capacity
  imports JS_Double JS_Date
begin

text \<open>
  \<open>packages/runtime/src/server-capacity.ts\<close>, what a server can hold, and
  \<open>agent/src/docker-resource-limits.ts\<close>, the limits a container is created with. Byte and millicore counts are
  integers, exact in a double far beyond any server; a product with a ratio, and a quotient by anything
  but a power of two, is rounded as a double is (\<open>JS_Double\<close>). The size of a volume is a finite number.
\<close>

section \<open>The budget of a server\<close>

definition GIBIBYTE :: int where "GIBIBYTE = 1073741824"
definition MEBIBYTE :: int where "MEBIBYTE = 1048576"
definition MANAGED_VOLUME_TELEMETRY_FRESHNESS_MS :: int where "MANAGED_VOLUME_TELEMETRY_FRESHNESS_MS = 90000"
definition MANAGED_VOLUME_USAGE_FRESHNESS_MS :: int where "MANAGED_VOLUME_USAGE_FRESHNESS_MS = 900000"
definition MIN_DISK_SAFETY_RESERVE_BYTES :: int where "MIN_DISK_SAFETY_RESERVE_BYTES = 5 * GIBIBYTE"
definition RESOURCE_LIMIT_STEP_BYTES :: int where "RESOURCE_LIMIT_STEP_BYTES = 268435456"
definition CPU_STEP_MILLICORES :: int where "CPU_STEP_MILLICORES = 250"
definition MEMORY_STEP_BYTES :: int where "MEMORY_STEP_BYTES = 134217728"

record capacity_quantity =
  cq_cpuMillicores :: int
  cq_memoryBytes :: int

record reserve_policy =
  rp_cpuRatio :: rat
  rp_minCpuMillicores :: int
  rp_maxCpuMillicores :: "int option"
  rp_memoryRatio :: rat
  rp_minMemoryBytes :: int
  rp_maxMemoryBytes :: "int option"

definition PLATFORM_RESERVE_POLICY :: reserve_policy where
  "PLATFORM_RESERVE_POLICY = \<lparr>rp_cpuRatio = to_double (1 / 10), rp_minCpuMillicores = 250, rp_maxCpuMillicores = None,
     rp_memoryRatio = to_double (1 / 10), rp_minMemoryBytes = 256 * MEBIBYTE, rp_maxMemoryBytes = None\<rparr>"

definition BUILD_RESERVE_POLICY :: reserve_policy where
  "BUILD_RESERVE_POLICY = \<lparr>rp_cpuRatio = to_double (15 / 100), rp_minCpuMillicores = 500, rp_maxCpuMillicores = Some 2000,
     rp_memoryRatio = to_double (15 / 100), rp_minMemoryBytes = 512 * MEBIBYTE, rp_maxMemoryBytes = Some (2 * GIBIBYTE)\<rparr>"

text \<open>\<open>Math.ceil(n * ratio)\<close> with a floor and, for the builds, a ceiling.\<close>

definition ceil_ratio :: "int \<Rightarrow> rat \<Rightarrow> int" where
  "ceil_ratio n ratio = \<lceil>fl_mult (of_int n) ratio\<rceil>"

definition calculateBuildReserve :: "capacity_quantity \<Rightarrow> capacity_quantity" where
  "calculateBuildReserve host = \<lparr>
     cq_cpuMillicores = min (the (rp_maxCpuMillicores BUILD_RESERVE_POLICY))
       (max (rp_minCpuMillicores BUILD_RESERVE_POLICY)
         (ceil_ratio (cq_cpuMillicores host) (rp_cpuRatio BUILD_RESERVE_POLICY))),
     cq_memoryBytes = min (the (rp_maxMemoryBytes BUILD_RESERVE_POLICY))
       (max (rp_minMemoryBytes BUILD_RESERVE_POLICY)
         (ceil_ratio (cq_memoryBytes host) (rp_memoryRatio BUILD_RESERVE_POLICY)))\<rparr>"

definition platform_reserve :: "capacity_quantity \<Rightarrow> capacity_quantity" where
  "platform_reserve host = \<lparr>
     cq_cpuMillicores = max (rp_minCpuMillicores PLATFORM_RESERVE_POLICY)
       (ceil_ratio (cq_cpuMillicores host) (rp_cpuRatio PLATFORM_RESERVE_POLICY)),
     cq_memoryBytes = max (rp_minMemoryBytes PLATFORM_RESERVE_POLICY)
       (ceil_ratio (cq_memoryBytes host) (rp_memoryRatio PLATFORM_RESERVE_POLICY))\<rparr>"

definition roundDown :: "rat \<Rightarrow> int \<Rightarrow> int" where
  "roundDown v step = max 0 (\<lfloor>fl_div v (of_int step)\<rfloor> * step)"

text \<open>\<open>Math.trunc\<close>; a number that is finite and positive, or not negative.\<close>

definition js_trunc :: "rat \<Rightarrow> int" where
  "js_trunc q = (if q \<ge> 0 then \<lfloor>q\<rfloor> else \<lceil>q\<rceil>)"

fun toFinitePositiveInteger :: "jsnum option \<Rightarrow> int option" where
  "toFinitePositiveInteger (Some (Fin q)) = (if q \<le> 0 then None else Some (js_trunc q))"
| "toFinitePositiveInteger _ = None"

fun toFiniteNonNegativeInteger :: "jsnum option \<Rightarrow> int option" where
  "toFiniteNonNegativeInteger (Some (Fin q)) = (if q < 0 then None else Some (js_trunc q))"
| "toFiniteNonNegativeInteger _ = None"

record server_budget =
  sb_total :: capacity_quantity
  sb_platformReserve :: capacity_quantity
  sb_buildReserve :: capacity_quantity
  sb_allocatable :: capacity_quantity

definition calculateServerCapacityBudget :: "jsnum option \<Rightarrow> jsnum option \<Rightarrow> server_budget option" where
  "calculateServerCapacityBudget cpuCores memoryBytes =
     (case (toFinitePositiveInteger cpuCores, toFinitePositiveInteger memoryBytes) of
        (Some cores, Some memory) \<Rightarrow>
          let total = \<lparr>cq_cpuMillicores = cores * 1000, cq_memoryBytes = memory\<rparr>;
              platform = platform_reserve total;
              build = calculateBuildReserve total
          in Some \<lparr>sb_total = total, sb_platformReserve = platform, sb_buildReserve = build,
               sb_allocatable = \<lparr>
                 cq_cpuMillicores = roundDown (of_int (cq_cpuMillicores total - cq_cpuMillicores platform
                   - cq_cpuMillicores build)) CPU_STEP_MILLICORES,
                 cq_memoryBytes = roundDown (of_int (cq_memoryBytes total - cq_memoryBytes platform
                   - cq_memoryBytes build)) MEMORY_STEP_BYTES\<rparr>\<rparr>
      | _ \<Rightarrow> None)"

record capacity_limits =
  cl_maxCpuMillicores :: "int option"
  cl_maxMemoryBytes :: "int option"
  cl_safeStorageSizeGb :: "int option"

definition SAFE_STORAGE_FREE_DISK_RATIO :: rat where "SAFE_STORAGE_FREE_DISK_RATIO = to_double (95 / 100)"

definition getServerCapacityLimits :: "jsnum option \<Rightarrow> jsnum option \<Rightarrow> jsnum option \<Rightarrow> capacity_limits" where
  "getServerCapacityLimits cpuCores memoryBytes diskBytesAvailable = \<lparr>
     cl_maxCpuMillicores = map_option (\<lambda>n. n * 1000) (toFinitePositiveInteger cpuCores),
     cl_maxMemoryBytes = map_option (\<lambda>m. max 0 (m div RESOURCE_LIMIT_STEP_BYTES * RESOURCE_LIMIT_STEP_BYTES))
       (toFinitePositiveInteger memoryBytes),
     cl_safeStorageSizeGb = map_option (\<lambda>d. max 0 \<lfloor>fl_mult (of_int d / of_int GIBIBYTE) SAFE_STORAGE_FREE_DISK_RATIO\<rfloor>)
       (toFiniteNonNegativeInteger diskBytesAvailable)\<rparr>"

section \<open>Storage reservations\<close>

text \<open>\<open>Date | string | null\<close>: a date holds its time value, \<^const>\<open>None\<close> for an invalid one.\<close>

datatype time_value = DateValue "int option" | TimeText string

definition toTimestamp :: "time_value option \<Rightarrow> int option" where
  "toTimestamp v = (case v of None \<Rightarrow> None | Some (DateValue t) \<Rightarrow> t | Some (TimeText s) \<Rightarrow> date_parse s)"

definition isFresh :: "time_value option \<Rightarrow> int \<Rightarrow> int \<Rightarrow> bool" where
  "isFresh v now freshnessMs =
     (case toTimestamp v of None \<Rightarrow> False | Some t \<Rightarrow> t \<le> now \<and> now - t \<le> freshnessMs)"

definition calculateDiskSafetyReserveBytes :: "int \<Rightarrow> int" where
  "calculateDiskSafetyReserveBytes diskTotalBytes =
     max MIN_DISK_SAFETY_RESERVE_BYTES (ceil_ratio diskTotalBytes (to_double (5 / 100)))"

datatype telemetry_status = FreshTelemetry | StaleTelemetry | MissingTelemetry

record volume_reservation =
  vr_id :: string
  vr_sizeGb :: rat
  vr_usedBytes :: "jsnum option"
  vr_usageRefreshedAt :: "time_value option"

record storage_input =
  st_diskTotalBytes :: "jsnum option"
  st_diskAvailableBytes :: "jsnum option"
  st_telemetryRefreshedAt :: "time_value option"
  st_volumes :: "volume_reservation list"
  st_now :: int

record storage_capacity =
  sr_telemetryStatus :: telemetry_status
  sr_diskTotalBytes :: "int option"
  sr_diskAvailableBytes :: "int option"
  sr_safetyReserveBytes :: "int option"
  sr_committedReservationBytes :: int
  sr_creditedUsageBytes :: int
  sr_reservableBytes :: "int option"
  sr_availableReservationBytes :: "int option"
  sr_overcommitBytes :: int

definition reserved_bytes :: "volume_reservation \<Rightarrow> int" where
  "reserved_bytes v = max 0 (js_trunc (vr_sizeGb v)) * GIBIBYTE"

definition credited_bytes :: "int \<Rightarrow> volume_reservation \<Rightarrow> int" where
  "credited_bytes now v =
     (if \<not> isFresh (vr_usageRefreshedAt v) now MANAGED_VOLUME_USAGE_FRESHNESS_MS then 0
      else case toFiniteNonNegativeInteger (vr_usedBytes v) of
        None \<Rightarrow> 0
      | Some used \<Rightarrow> min used (reserved_bytes v))"

definition storage_telemetry :: "storage_input \<Rightarrow> telemetry_status" where
  "storage_telemetry inp =
     (if toFinitePositiveInteger (st_diskTotalBytes inp) = None
        \<or> toFiniteNonNegativeInteger (st_diskAvailableBytes inp) = None
        \<or> toTimestamp (st_telemetryRefreshedAt inp) = None then MissingTelemetry
      else if isFresh (st_telemetryRefreshedAt inp) (st_now inp) MANAGED_VOLUME_TELEMETRY_FRESHNESS_MS
      then FreshTelemetry else StaleTelemetry)"

definition calculateStorageReservationCapacity :: "storage_input \<Rightarrow> storage_capacity" where
  "calculateStorageReservationCapacity inp =
     (let total = toFinitePositiveInteger (st_diskTotalBytes inp);
          available = toFiniteNonNegativeInteger (st_diskAvailableBytes inp);
          committed = foldl (\<lambda>sum v. sum + reserved_bytes v) 0 (st_volumes inp);
          credited = foldl (\<lambda>sum v. sum + credited_bytes (st_now inp) v) 0 (st_volumes inp);
          base = \<lparr>sr_telemetryStatus = storage_telemetry inp, sr_diskTotalBytes = total,
            sr_diskAvailableBytes = available,
            sr_safetyReserveBytes = map_option calculateDiskSafetyReserveBytes total,
            sr_committedReservationBytes = committed, sr_creditedUsageBytes = credited,
            sr_reservableBytes = None, sr_availableReservationBytes = None, sr_overcommitBytes = 0\<rparr>
      in case (storage_telemetry inp, total, available) of
           (FreshTelemetry, Some t, Some a) \<Rightarrow>
             let reservable = max 0 (a + credited - calculateDiskSafetyReserveBytes t)
             in base\<lparr>sr_reservableBytes := Some reservable,
                  sr_availableReservationBytes := Some (max 0 (reservable - committed)),
                  sr_overcommitBytes := max 0 (committed - reservable)\<rparr>
         | _ \<Rightarrow> base)"

section \<open>Explaining a refusal\<close>

definition SMALLEST_SELECTABLE_CPU_MILLICORES :: int where "SMALLEST_SELECTABLE_CPU_MILLICORES = 250"
definition SMALLEST_SELECTABLE_MEMORY_BYTES :: int where "SMALLEST_SELECTABLE_MEMORY_BYTES = RESOURCE_LIMIT_STEP_BYTES"
definition INSUFFICIENT_CAPACITY_PREFIX :: string where "INSUFFICIENT_CAPACITY_PREFIX = ''Insufficient server capacity.''"

text \<open>\<open>toFixed(2)\<close> without a fraction \<open>.00\<close>, or without a last \<open>0\<close>.\<close>

definition formatCapacityDecimal :: "rat \<Rightarrow> string" where
  "formatCapacityDecimal v =
     (let hundredths = nat \<lfloor>\<bar>v\<bar> * 100 + 1 / 2\<rfloor>; whole = show_nat (hundredths div 100);
          d1 = hundredths div 10 mod 10; d2 = hundredths mod 10
      in (if v < 0 then ''-'' else []) @ whole @
         (if d1 = 0 \<and> d2 = 0 then [] else if d2 = 0 then ''.'' @ show_nat d1 else ''.'' @ show_nat d1 @ show_nat d2))"

definition formatCpuAmount :: "int \<Rightarrow> string" where
  "formatCpuAmount millicores = formatCapacityDecimal (fl_div (of_int millicores) 1000) @ '' vCPU''"

definition formatMemoryAmount :: "int \<Rightarrow> string" where
  "formatMemoryAmount bytes =
     (if bytes < GIBIBYTE then show_int \<lfloor>of_int bytes / of_int MEBIBYTE + (1 / 2 :: rat)\<rfloor> @ '' MB RAM''
      else formatCapacityDecimal (of_int bytes / of_int GIBIBYTE) @ '' GB RAM'')"

definition joinResourceNames :: "string list \<Rightarrow> string" where
  "joinResourceNames names =
     (case names of [a, b] \<Rightarrow> a @ '' and '' @ b | [] \<Rightarrow> [] | a # _ \<Rightarrow> a)"

record capacity_facts =
  cf_requestedPerReplica :: capacity_quantity
  cf_replicaCount :: int
  cf_available :: capacity_quantity
  cf_reserved :: capacity_quantity
  cf_committed :: capacity_quantity

definition describeLargestFit :: "string list \<Rightarrow> capacity_quantity \<Rightarrow> int \<Rightarrow> string" where
  "describeLargestFit shortNames available replicaCount =
     (let cpu = (if ''CPU'' \<in> set shortNames
            then [formatCpuAmount (roundDown (fl_div (of_int (cq_cpuMillicores available)) (of_int replicaCount))
                    SMALLEST_SELECTABLE_CPU_MILLICORES)] else []);
          memory = (if ''memory'' \<in> set shortNames
            then [formatMemoryAmount (roundDown (fl_div (of_int (cq_memoryBytes available)) (of_int replicaCount))
                    SMALLEST_SELECTABLE_MEMORY_BYTES)] else [])
      in joinResourceNames (cpu @ memory) @ (if replicaCount > 1 then '' per replica'' else []))"

definition requested_total :: "capacity_facts \<Rightarrow> capacity_quantity" where
  "requested_total facts =
     (let replicas = max 1 (cf_replicaCount facts)
      in \<lparr>cq_cpuMillicores = cq_cpuMillicores (cf_requestedPerReplica facts) * replicas,
          cq_memoryBytes = cq_memoryBytes (cf_requestedPerReplica facts) * replicas\<rparr>)"

definition short_names :: "capacity_facts \<Rightarrow> string list" where
  "short_names facts =
     (let cpuShort = (cq_cpuMillicores (requested_total facts) > cq_cpuMillicores (cf_available facts));
          memoryShort = (cq_memoryBytes (requested_total facts) > cq_memoryBytes (cf_available facts))
      in if \<not> cpuShort \<and> \<not> memoryShort then [''CPU'', ''memory'']
         else (if cpuShort then [''CPU''] else []) @ (if memoryShort then [''memory''] else []))"

definition exhausted_names :: "capacity_facts \<Rightarrow> string list" where
  "exhausted_names facts =
     (if ''CPU'' \<in> set (short_names facts) \<and> cq_cpuMillicores (cf_available facts) < SMALLEST_SELECTABLE_CPU_MILLICORES
      then [''CPU''] else []) @
     (if ''memory'' \<in> set (short_names facts) \<and> cq_memoryBytes (cf_available facts) < SMALLEST_SELECTABLE_MEMORY_BYTES
      then [''memory''] else [])"

definition capacity_guidance :: "capacity_facts \<Rightarrow> string" where
  "capacity_guidance facts =
     (let names = exhausted_names facts
      in if names \<noteq> [] then joinResourceNames names @ '' on this server '' @ (if length names = 2 then ''are'' else ''is'')
           @ '' fully allocated, so no smaller limit will fit. Free capacity first: lower the limits on an existing service, delete a service you no longer need, or connect a larger server.''
         else ''Lower this service to at most ''
           @ describeLargestFit (short_names facts) (cf_available facts) (max 1 (cf_replicaCount facts))
           @ '', or free capacity by lowering the limits on an existing service or deleting one you no longer need.'')"

definition describeInsufficientCapacity :: "capacity_facts \<Rightarrow> string" where
  "describeInsufficientCapacity facts =
     (let replicas = max 1 (cf_replicaCount facts); total = requested_total facts;
          across = (if replicas > 1 then '' across '' @ show_int replicas @ '' replicas'' else []);
          amounts = (\<lambda>q. formatCpuAmount (cq_cpuMillicores q) @ '' and '' @ formatMemoryAmount (cq_memoryBytes q))
      in INSUFFICIENT_CAPACITY_PREFIX @ '' This needs '' @ amounts total @ across @ '', but only ''
         @ amounts (cf_available facts) @ '' are free. '' @ capacity_guidance facts
         @ '' Nouva keeps '' @ amounts (cf_reserved facts)
         @ '' reserved for the platform and builds, and the services already on this server hold ''
         @ amounts (cf_committed facts) @ ''.'')"

section \<open>The limits of a container\<close>

record resource_settings =
  rs_NanoCpus :: int
  rs_Memory :: int
  rs_MemorySwap :: int
  rs_PidsLimit :: int

definition toPositiveIntegerField :: "json \<Rightarrow> string \<Rightarrow> js_error + int" where
  "toPositiveIntegerField v fieldName =
     (case json_int v of
        Some n \<Rightarrow> if n > 0 then Inr n else Inl (Error (''Invalid resourceLimits.'' @ fieldName
          @ '': expected a positive integer number of '' @ (if fieldName = ''cpuMillicores'' then ''millicores''
             else if fieldName = ''pidsLimit'' then ''PIDs'' else ''bytes'')))
      | None \<Rightarrow> Inl (Error (''Invalid resourceLimits.'' @ fieldName
          @ '': expected a positive integer number of '' @ (if fieldName = ''cpuMillicores'' then ''millicores''
             else if fieldName = ''pidsLimit'' then ''PIDs'' else ''bytes''))))"

definition resolveMemoryAndSwapBytes :: "json \<Rightarrow> int \<Rightarrow> js_error + int" where
  "resolveMemoryAndSwapBytes v memoryBytes =
     (if v = JUndefined then Inr memoryBytes
      else case toPositiveIntegerField v ''memoryAndSwapBytes'' of
        Inl e \<Rightarrow> Inl e
      | Inr n \<Rightarrow>
          if n < memoryBytes then Inl (Error (''Invalid resourceLimits.memoryAndSwapBytes: '' @ show_int n
            @ '' is below the '' @ show_int memoryBytes @ '' byte memory limit it must include''))
          else Inr n)"

definition incomplete_limits :: js_error where
  "incomplete_limits = Error ''Invalid resourceLimits payload: expected complete effective CPU, memory, and PID limits''"

definition settings_of :: "(string \<times> json) list \<Rightarrow> int \<Rightarrow> int \<Rightarrow> js_error + resource_settings" where
  "settings_of r memoryBytes pidsLimit =
     (case toPositiveIntegerField (jprop r ''cpuMillicores'') ''cpuMillicores'' of
        Inl e \<Rightarrow> Inl e
      | Inr cpu \<Rightarrow>
          (case resolveMemoryAndSwapBytes (jprop r ''memoryAndSwapBytes'') memoryBytes of
             Inl e \<Rightarrow> Inl e
           | Inr swap \<Rightarrow> Inr \<lparr>rs_NanoCpus = cpu * 1000000, rs_Memory = memoryBytes, rs_MemorySwap = swap,
               rs_PidsLimit = pidsLimit\<rparr>))"

fun toDockerResourceSettings :: "json \<Rightarrow> js_error + resource_settings" where
  "toDockerResourceSettings (JObj r) =
     (if \<not> jhas r ''cpuMillicores'' \<or> \<not> jhas r ''memoryBytes'' \<or> \<not> jhas r ''pidsLimit'' then Inl incomplete_limits
      else case toPositiveIntegerField (jprop r ''memoryBytes'') ''memoryBytes'' of
        Inl e \<Rightarrow> Inl e
      | Inr memoryBytes \<Rightarrow>
          (case toPositiveIntegerField (jprop r ''pidsLimit'') ''pidsLimit'' of
             Inl e \<Rightarrow> Inl e
           | Inr pidsLimit \<Rightarrow> settings_of r memoryBytes pidsLimit))"
| "toDockerResourceSettings _ = Inl incomplete_limits"

text \<open>What the daemon reports back: each field may be missing.\<close>

record applied_settings =
  ap_NanoCpus :: "int option"
  ap_Memory :: "int option"
  ap_MemorySwap :: "int option"
  ap_PidsLimit :: "int option"

definition field_mismatch :: "string \<times> int option \<times> int \<Rightarrow> string list" where
  "field_mismatch = (\<lambda>(field, applied, requested).
     if applied = Some requested then []
     else [field @ '' '' @ (case applied of None \<Rightarrow> ''unset'' | Some n \<Rightarrow> show_int n)
       @ '' (expected '' @ show_int requested @ '')''])"

definition assertAppliedDockerResourceSettings ::
    "string \<Rightarrow> resource_settings \<Rightarrow> applied_settings option \<Rightarrow> js_error + unit" where
  "assertAppliedDockerResourceSettings containerId requested applied =
     (let mismatches = concat (map field_mismatch
            [(''NanoCpus'', Option.bind applied ap_NanoCpus, rs_NanoCpus requested),
             (''Memory'', Option.bind applied ap_Memory, rs_Memory requested),
             (''MemorySwap'', Option.bind applied ap_MemorySwap, rs_MemorySwap requested),
             (''PidsLimit'', Option.bind applied ap_PidsLimit, rs_PidsLimit requested)])
      in if mismatches = [] then Inr ()
         else Inl (Error (''Container '' @ containerId @ '' did not apply the requested resource limits: ''
           @ join '', '' mismatches)))"

end
