(* ===== verification/Server_Capacity_Props.thy ===== *)
theory Server_Capacity_Props
  imports Server_Capacity
begin

text \<open>
  The budget of a server and its storage reservations add up, whatever the rounding of the doubles they
  are computed with, and the limits given to Docker are well formed.
\<close>

section \<open>Rounding down\<close>

lemma floor_division_exact:
  assumes "0 \<le> v" and "v < 2 ^ 44" and "0 < step" and "step \<le> 512"
  shows "\<lfloor>fl_div (of_int v) (of_int step)\<rfloor> = v div step"
proof (rule floor_unique)
  let ?k = "v div step"
  have "0 \<le> ?k" using assms by (simp add: pos_imp_zdiv_nonneg_iff)
  then have "?k \<le> ?k * step" using assms by (simp add: mult_le_cancel_left1)
  moreover have "?k * step \<le> v" using assms by (metis div_mult_mod_eq le_add_same_cancel1 pos_mod_sign)
  ultimately have "?k \<le> v" by linarith
  with assms have k: "0 \<le> ?k" "?k < 2 ^ 44" by (simp_all add: pos_imp_zdiv_nonneg_iff)
  have "?k * step \<le> v" using assms by (metis div_mult_mod_eq le_add_same_cancel1 pos_mod_sign)
  then have "of_int (?k * step) \<le> (of_int v :: rat)" unfolding of_int_le_iff .
  then have "of_int ?k \<le> of_int v / (of_int step :: rat)" using assms by (simp add: pos_le_divide_eq)
  then show "of_int ?k \<le> fl_div (of_int v) (of_int step)"
    unfolding fl_div_def using k by (intro int_le_to_double) simp_all
  let ?n = "(?k + 1) * 512 - 1"
  have "v < (?k + 1) * step"
    using pos_mod_bound [OF assms(3), of v] div_mult_mod_eq [of v step] unfolding distrib_right by linarith
  then have "v * 512 \<le> (?k + 1) * step * 512 - 512" by linarith
  also have "\<dots> \<le> ?n * step" using assms by (simp add: algebra_simps)
  finally have "of_int (v * 512) \<le> (of_int (?n * step) :: rat)" unfolding of_int_le_iff .
  then have "of_int v / of_int step \<le> (of_int ?n / 2 ^ 9 :: rat)" using assms by (simp add: field_simps)
  then have "fl_div (of_int v) (of_int step) \<le> to_double (of_int ?n / 2 ^ 9)"
    unfolding fl_div_def using assms by (intro to_double_mono) simp_all
  also have "\<dots> = of_int ?n / 2 ^ 9" using k by (intro to_double_dyadic) simp_all
  also have "\<dots> < of_int ?k + 1" by (simp add: field_simps)
  finally show "fl_div (of_int v) (of_int step) < of_int ?k + 1" .
qed

lemma roundDown_nonpos: "v \<le> 0 \<Longrightarrow> 0 < step \<Longrightarrow> roundDown (of_int v) step = 0"
proof -
  assume v: "v \<le> 0" "0 < step"
  then have "fl_div (of_int v) (of_int step) \<le> 0"
    unfolding fl_div_def by (intro to_double_neg) (simp add: divide_nonpos_pos)
  then have "\<lfloor>fl_div (of_int v) (of_int step)\<rfloor> \<le> 0" by (simp add: floor_le_iff)
  then have "\<lfloor>fl_div (of_int v) (of_int step)\<rfloor> * step \<le> 0" using v by (simp add: mult_nonpos_nonneg)
  then show ?thesis by (simp add: roundDown_def)
qed

lemma div_step_nonpos: "v < 0 \<Longrightarrow> 0 < step \<Longrightarrow> v div step * step \<le> (0 :: int)"
  using div_neg_pos_less0 [of v step] by (simp add: mult_nonpos_nonneg)

lemma roundDown_small:
  assumes "v < 2 ^ 44" and "0 < step" and "step \<le> 512"
  shows "roundDown (of_int v) step = max 0 (v div step * step)"
proof (cases "0 \<le> v")
  case True
  then show ?thesis using floor_division_exact assms by (simp add: roundDown_def)
next
  case False
  then show ?thesis using roundDown_nonpos [of v step] div_step_nonpos [of v step] assms by simp
qed

lemma roundDown_dyadic:
  assumes "v < 2 ^ 53"
  shows "roundDown (of_int v) (2 ^ m) = max 0 (v div 2 ^ m * 2 ^ m)"
proof (cases "0 \<le> v")
  case True
  have "fl_div (of_int v) (of_int (2 ^ m)) = of_int v / of_int (2 ^ m)"
    unfolding fl_div_def using to_double_dyadic [OF True assms, of m] by simp
  then show ?thesis unfolding roundDown_def by (simp only: floor_divide_of_int_eq)
next
  case False
  then show ?thesis using roundDown_nonpos [of v "2 ^ m"] div_step_nonpos [of v "2 ^ m"] by simp
qed

section \<open>The budget\<close>

text \<open>What remains of a quantity after the reserves, rounded down to the step in which it is given out.\<close>

definition leftover :: "int \<Rightarrow> int \<Rightarrow> int \<Rightarrow> int \<Rightarrow> int" where
  "leftover host platform build step = max 0 ((host - platform - build) div step * step)"

text \<open>The budget of a server adds up: the builds keep between half a CPU and two, and between 512 MiB and 2 GiB, the
  same amounts the agent caps its builder with; and what can be allocated is exactly what the platform
  and the builds leave, rounded down to a quarter of a CPU and to 128 MiB, so the three together never
  exceed the server unless the reserves alone do. The doubles the code computes with change none of it,
  for a server below sixteen billion CPUs and eight pebibytes.\<close>

theorem capacity_budget_sound:
  assumes b: "calculateServerCapacityBudget cpuCores memoryBytes = Some b"
    and cpu: "cq_cpuMillicores (sb_total b) < 2 ^ 44" and mem: "cq_memoryBytes (sb_total b) < 2 ^ 53"
  shows "sb_buildReserve b = calculateBuildReserve (sb_total b) \<and>
    500 \<le> cq_cpuMillicores (sb_buildReserve b) \<and> cq_cpuMillicores (sb_buildReserve b) \<le> 2000 \<and>
    512 * MEBIBYTE \<le> cq_memoryBytes (sb_buildReserve b) \<and> cq_memoryBytes (sb_buildReserve b) \<le> 2 * GIBIBYTE \<and>
    cq_cpuMillicores (sb_allocatable b) = leftover (cq_cpuMillicores (sb_total b))
      (cq_cpuMillicores (sb_platformReserve b)) (cq_cpuMillicores (sb_buildReserve b)) 250 \<and>
    cq_memoryBytes (sb_allocatable b) = leftover (cq_memoryBytes (sb_total b))
      (cq_memoryBytes (sb_platformReserve b)) (cq_memoryBytes (sb_buildReserve b)) (128 * MEBIBYTE)"
proof -
  from b obtain cores memory where
    b': "sb_total b = \<lparr>cq_cpuMillicores = cores * 1000, cq_memoryBytes = memory\<rparr>"
      "sb_platformReserve b = platform_reserve (sb_total b)" "sb_buildReserve b = calculateBuildReserve (sb_total b)"
      "cq_cpuMillicores (sb_allocatable b) = roundDown (of_int (cq_cpuMillicores (sb_total b) -
        cq_cpuMillicores (sb_platformReserve b) - cq_cpuMillicores (sb_buildReserve b))) 250"
      "cq_memoryBytes (sb_allocatable b) = roundDown (of_int (cq_memoryBytes (sb_total b) -
        cq_memoryBytes (sb_platformReserve b) - cq_memoryBytes (sb_buildReserve b))) (2 ^ 27)"
    by (auto simp: calculateServerCapacityBudget_def Let_def CPU_STEP_MILLICORES_def MEMORY_STEP_BYTES_def
        split: option.splits)
  have build: "500 \<le> cq_cpuMillicores (sb_buildReserve b)" "cq_cpuMillicores (sb_buildReserve b) \<le> 2000"
      "512 * MEBIBYTE \<le> cq_memoryBytes (sb_buildReserve b)" "cq_memoryBytes (sb_buildReserve b) \<le> 2 * GIBIBYTE"
    by (simp_all add: b'(3) calculateBuildReserve_def BUILD_RESERVE_POLICY_def MEBIBYTE_def GIBIBYTE_def)
  have platform: "0 \<le> cq_cpuMillicores (sb_platformReserve b)" "0 \<le> cq_memoryBytes (sb_platformReserve b)"
    by (simp_all add: b'(2) platform_reserve_def PLATFORM_RESERVE_POLICY_def MEBIBYTE_def le_max_iff_disj)
  have "0 \<le> cq_memoryBytes (sb_buildReserve b)" using build(3) by (simp add: MEBIBYTE_def)
  with platform build cpu mem have
    "cq_cpuMillicores (sb_allocatable b) = leftover (cq_cpuMillicores (sb_total b))
      (cq_cpuMillicores (sb_platformReserve b)) (cq_cpuMillicores (sb_buildReserve b)) 250"
    "cq_memoryBytes (sb_allocatable b) = leftover (cq_memoryBytes (sb_total b))
      (cq_memoryBytes (sb_platformReserve b)) (cq_memoryBytes (sb_buildReserve b)) (2 ^ 27)"
    unfolding b'(4,5) leftover_def by (intro roundDown_small roundDown_dyadic; linarith)+
  with build b'(3) show ?thesis by (simp add: MEBIBYTE_def)
qed

lemma capacity_budget_sound_witness:
  "\<exists>b. calculateServerCapacityBudget (Some (Fin 2)) (Some (Fin 2040109465)) = Some b \<and>
     cq_cpuMillicores (sb_buildReserve b) \<le> 2000 \<and>
     cq_memoryBytes (sb_allocatable b) = leftover 2040109465 (cq_memoryBytes (sb_platformReserve b))
       (cq_memoryBytes (sb_buildReserve b)) (128 * MEBIBYTE)"
proof -
  obtain b where b: "calculateServerCapacityBudget (Some (Fin 2)) (Some (Fin 2040109465)) = Some b"
    and "sb_total b = \<lparr>cq_cpuMillicores = 2000, cq_memoryBytes = 2040109465\<rparr>"
    by (simp add: calculateServerCapacityBudget_def Let_def js_trunc_def)
  with capacity_budget_sound [OF b] have "cq_cpuMillicores (sb_buildReserve b) \<le> 2000 \<and>
     cq_memoryBytes (sb_allocatable b) = leftover 2040109465 (cq_memoryBytes (sb_platformReserve b))
       (cq_memoryBytes (sb_buildReserve b)) (128 * MEBIBYTE)" by auto
  with b show ?thesis by blast
qed

section \<open>The limits shown to the user\<close>

lemma safe_storage_le:
  assumes "0 \<le> d" and "d < 2 ^ 53"
  shows "\<lfloor>fl_mult (of_int d / of_int GIBIBYTE) SAFE_STORAGE_FREE_DISK_RATIO\<rfloor> * GIBIBYTE \<le> d"
proof -
  let ?x = "of_int d / 2 ^ 30 :: rat"
  have "SAFE_STORAGE_FREE_DISK_RATIO \<le> 1"
    using to_double_le_int [of "95 / 100" 1] by (simp add: SAFE_STORAGE_FREE_DISK_RATIO_def)
  moreover have "0 \<le> SAFE_STORAGE_FREE_DISK_RATIO" by (simp add: SAFE_STORAGE_FREE_DISK_RATIO_def to_double_nonneg)
  ultimately have "fl_mult ?x SAFE_STORAGE_FREE_DISK_RATIO \<le> to_double ?x"
    unfolding fl_mult_def using assms by (intro to_double_mono) (simp_all add: mult_left_le)
  then have "fl_mult ?x SAFE_STORAGE_FREE_DISK_RATIO \<le> ?x" using to_double_dyadic [OF assms, of 30] by simp
  then have "of_int \<lfloor>fl_mult ?x SAFE_STORAGE_FREE_DISK_RATIO\<rfloor> \<le> ?x" using of_int_floor_le order_trans by blast
  then have "of_int (\<lfloor>fl_mult ?x SAFE_STORAGE_FREE_DISK_RATIO\<rfloor> * 2 ^ 30) \<le> (of_int d :: rat)"
    by (simp add: pos_le_divide_eq)
  then show ?thesis unfolding of_int_le_iff by (simp add: GIBIBYTE_def)
qed

section \<open>Storage\<close>

lemma foldl_sum: "foldl (\<lambda>s v. s + f v) c vs = c + (\<Sum>v\<leftarrow>vs. f v :: int)"
  by (induction vs arbitrary: c) auto

lemma credited_le_reserved: "0 \<le> credited_bytes now v \<and> credited_bytes now v \<le> reserved_bytes v"
proof -
  have "0 \<le> reserved_bytes v" by (simp add: reserved_bytes_def GIBIBYTE_def)
  moreover have "0 \<le> used" if "toFiniteNonNegativeInteger u = Some used" for u used
    using that by (cases u rule: toFiniteNonNegativeInteger.cases) (auto simp: js_trunc_def split: if_splits)
  ultimately show ?thesis by (auto simp: credited_bytes_def split: option.splits)
qed

text \<open>The storage of a server is never promised twice: usage is credited only against the volume that was sampled
  recently and never beyond its own reservation; without fresh telemetry nothing is available; and with
  it, what is available and what is overcommitted are the two sides of one balance between what can be
  reserved, free space and credited usage less the safety reserve, and what already is.\<close>

theorem storage_reservation_sound:
  fixes inp defines "r \<equiv> calculateStorageReservationCapacity inp"
  assumes "storage_telemetry inp = FreshTelemetry"
  shows "\<exists>total free reservable available. sr_diskTotalBytes r = Some total \<and> sr_diskAvailableBytes r = Some free \<and>
    sr_reservableBytes r = Some reservable \<and> sr_availableReservationBytes r = Some available \<and>
    reservable = max 0 (free + sr_creditedUsageBytes r - calculateDiskSafetyReserveBytes total) \<and>
    5 * GIBIBYTE \<le> calculateDiskSafetyReserveBytes total \<and>
    0 \<le> sr_creditedUsageBytes r \<and> sr_creditedUsageBytes r \<le> sr_committedReservationBytes r \<and>
    available - sr_overcommitBytes r = reservable - sr_committedReservationBytes r \<and>
    0 \<le> available \<and> 0 \<le> sr_overcommitBytes r \<and> (available = 0 \<or> sr_overcommitBytes r = 0)"
proof -
  from assms(2) obtain total free where f: "toFinitePositiveInteger (st_diskTotalBytes inp) = Some total"
      "toFiniteNonNegativeInteger (st_diskAvailableBytes inp) = Some free"
    by (auto simp: storage_telemetry_def split: if_splits)
  have credit: "0 \<le> (\<Sum>v\<leftarrow>vs. credited_bytes now v)" "(\<Sum>v\<leftarrow>vs. credited_bytes now v) \<le> (\<Sum>v\<leftarrow>vs. reserved_bytes v)"
    for vs now
    by (rule sum_list_nonneg, use credited_le_reserved in auto)
      (rule sum_list_mono, use credited_le_reserved in blast)
  have r: "sr_creditedUsageBytes r = (\<Sum>v\<leftarrow>st_volumes inp. credited_bytes (st_now inp) v)"
      "sr_committedReservationBytes r = (\<Sum>v\<leftarrow>st_volumes inp. reserved_bytes v)"
    using assms(2) f by (simp_all add: r_def calculateStorageReservationCapacity_def Let_def foldl_sum)
  have "sr_diskTotalBytes r = Some total" "sr_diskAvailableBytes r = Some free"
    "sr_reservableBytes r = Some (max 0 (free + sr_creditedUsageBytes r - calculateDiskSafetyReserveBytes total))"
    "sr_availableReservationBytes r = Some (max 0 (max 0 (free + sr_creditedUsageBytes r -
       calculateDiskSafetyReserveBytes total) - sr_committedReservationBytes r))"
    "sr_overcommitBytes r = max 0 (sr_committedReservationBytes r -
       max 0 (free + sr_creditedUsageBytes r - calculateDiskSafetyReserveBytes total))"
    using assms(2) f by (simp_all add: r_def calculateStorageReservationCapacity_def Let_def foldl_sum)
  moreover have "5 * GIBIBYTE \<le> calculateDiskSafetyReserveBytes total"
    by (simp add: calculateDiskSafetyReserveBytes_def MIN_DISK_SAFETY_RESERVE_BYTES_def)
  moreover have "0 \<le> sr_creditedUsageBytes r" "sr_creditedUsageBytes r \<le> sr_committedReservationBytes r"
    unfolding r by (rule credit)+
  ultimately show ?thesis by (auto simp: max_def)
qed

definition sample_storage :: storage_input where
  "sample_storage = \<lparr>st_diskTotalBytes = Some (Fin 107374182400), st_diskAvailableBytes = Some (Fin 53687091200),
     st_telemetryRefreshedAt = Some (DateValue (Some 1000)),
     st_volumes = [\<lparr>vr_id = ''v1'', vr_sizeGb = 10, vr_usedBytes = Some (Fin 1073741824),
       vr_usageRefreshedAt = Some (DateValue (Some 500))\<rparr>], st_now = 2000\<rparr>"

lemma storage_reservation_sound_witness:
  "sr_creditedUsageBytes (calculateStorageReservationCapacity sample_storage) = 1073741824 \<and>
   (\<exists>reservable. sr_reservableBytes (calculateStorageReservationCapacity sample_storage) = Some reservable \<and>
     (\<exists>available. sr_availableReservationBytes (calculateStorageReservationCapacity sample_storage) = Some available \<and>
        0 \<le> available))"
proof -
  have t: "storage_telemetry sample_storage = FreshTelemetry"
    by (simp add: storage_telemetry_def sample_storage_def isFresh_def toTimestamp_def js_trunc_def
        MANAGED_VOLUME_TELEMETRY_FRESHNESS_MS_def)
  moreover have "sr_creditedUsageBytes (calculateStorageReservationCapacity sample_storage) = 1073741824"
    using t by (simp add: calculateStorageReservationCapacity_def Let_def sample_storage_def credited_bytes_def isFresh_def
        toTimestamp_def js_trunc_def reserved_bytes_def GIBIBYTE_def MANAGED_VOLUME_USAGE_FRESHNESS_MS_def)
  ultimately show ?thesis using storage_reservation_sound [of sample_storage] by blast
qed

section \<open>Docker's limits\<close>

lemma toPositiveIntegerField_Inr: "toPositiveIntegerField v f = Inr n \<longleftrightarrow> v = jint n \<and> 0 < n"
  by (cases "json_int v") (auto simp: toPositiveIntegerField_def json_int_Some_iff)

lemma toPositiveIntegerField_jint: "0 < n \<Longrightarrow> toPositiveIntegerField (jint n) f = Inr n"
  by (simp add: toPositiveIntegerField_Inr)

lemma resolveMemoryAndSwapBytes_Inr:
  "resolveMemoryAndSwapBytes v m = Inr s \<longleftrightarrow> v = JUndefined \<and> s = m \<or> v = jint s \<and> 0 < s \<and> m \<le> s"
proof (cases "toPositiveIntegerField v ''memoryAndSwapBytes''")
  case (Inl e)
  then have "v \<noteq> jint s \<or> s \<le> 0" using toPositiveIntegerField_jint [of s "''memoryAndSwapBytes''"] by (cases "0 < s") auto
  with Inl show ?thesis by (auto simp: resolveMemoryAndSwapBytes_def)
next
  case (Inr n)
  then have "v = jint n" "0 < n" by (simp_all add: toPositiveIntegerField_Inr)
  with Inr show ?thesis by (auto simp: resolveMemoryAndSwapBytes_def)
qed

text \<open>A container gets limits only when the payload holds all of them, well formed, and then exactly those: CPU,
  memory and process counts are positive integers, the memory-and-swap ceiling is the memory limit itself
  unless the payload names one, which must include it; everything else is refused. And the read-back
  passes exactly when the daemon applied every field as requested.\<close>

theorem resource_settings_exact:
  "(toDockerResourceSettings v = Inr s \<longleftrightarrow> (\<exists>r cpu. v = JObj r \<and> jprop r ''cpuMillicores'' = jint cpu \<and> 0 < cpu \<and>
      rs_NanoCpus s = cpu * 1000000 \<and> jprop r ''memoryBytes'' = jint (rs_Memory s) \<and> 0 < rs_Memory s \<and>
      jprop r ''pidsLimit'' = jint (rs_PidsLimit s) \<and> 0 < rs_PidsLimit s \<and>
      (jprop r ''memoryAndSwapBytes'' = JUndefined \<and> rs_MemorySwap s = rs_Memory s \<or>
       jprop r ''memoryAndSwapBytes'' = jint (rs_MemorySwap s) \<and> rs_Memory s \<le> rs_MemorySwap s))) \<and>
   (assertAppliedDockerResourceSettings cid s (Some a) = Inr () \<longleftrightarrow>
      ap_NanoCpus a = Some (rs_NanoCpus s) \<and> ap_Memory a = Some (rs_Memory s) \<and>
      ap_MemorySwap a = Some (rs_MemorySwap s) \<and> ap_PidsLimit a = Some (rs_PidsLimit s)) \<and>
   assertAppliedDockerResourceSettings cid s None \<noteq> Inr ()"
proof (intro conjI)
  have has: "jhas r k" if "jprop r k = jint n" for r k n
    using that by (auto simp: jprop_def jhas_def jint_def split: option.splits)
  have inr: "settings_of r m p = Inr s \<longleftrightarrow> (\<exists>cpu. jprop r ''cpuMillicores'' = jint cpu \<and> 0 < cpu \<and>
      rs_NanoCpus s = cpu * 1000000 \<and> rs_Memory s = m \<and> rs_PidsLimit s = p \<and>
      resolveMemoryAndSwapBytes (jprop r ''memoryAndSwapBytes'') m = Inr (rs_MemorySwap s))" for r m p
    by (cases s) (auto simp: settings_of_def toPositiveIntegerField_Inr toPositiveIntegerField_jint split: sum.splits)
  show "toDockerResourceSettings v = Inr s \<longleftrightarrow> (\<exists>r cpu. v = JObj r \<and> jprop r ''cpuMillicores'' = jint cpu \<and> 0 < cpu \<and>
      rs_NanoCpus s = cpu * 1000000 \<and> jprop r ''memoryBytes'' = jint (rs_Memory s) \<and> 0 < rs_Memory s \<and>
      jprop r ''pidsLimit'' = jint (rs_PidsLimit s) \<and> 0 < rs_PidsLimit s \<and>
      (jprop r ''memoryAndSwapBytes'' = JUndefined \<and> rs_MemorySwap s = rs_Memory s \<or>
       jprop r ''memoryAndSwapBytes'' = jint (rs_MemorySwap s) \<and> rs_Memory s \<le> rs_MemorySwap s))"
  proof (cases v)
    case (JObj r)
    then show ?thesis
      by (auto simp: inr toPositiveIntegerField_Inr toPositiveIntegerField_jint resolveMemoryAndSwapBytes_Inr dest: has split: sum.splits)
  qed auto
  have m: "field_mismatch (f, ap, n) = [] \<longleftrightarrow> ap = Some n" for f ap n by (simp add: field_mismatch_def)
  show "assertAppliedDockerResourceSettings cid s (Some a) = Inr () \<longleftrightarrow>
      ap_NanoCpus a = Some (rs_NanoCpus s) \<and> ap_Memory a = Some (rs_Memory s) \<and>
      ap_MemorySwap a = Some (rs_MemorySwap s) \<and> ap_PidsLimit a = Some (rs_PidsLimit s)"
    by (auto simp: assertAppliedDockerResourceSettings_def Let_def m)
  show "assertAppliedDockerResourceSettings cid s None \<noteq> Inr ()"
    by (simp add: assertAppliedDockerResourceSettings_def Let_def m)
qed

end
