(* ===== verification/JS_Text.thy ===== *)
theory JS_Text
  imports Prelude "HOL-Library.Word"
begin

text \<open>
  Texts by code units: strings as the standard library measures them, what \<open>TextDecoder\<close> makes of bytes, and
  the character classes of regular expressions.
\<close>

section \<open>Code units\<close>

type_synonym code_unit = "16 word"
type_synonym text16 = "code_unit list"
type_synonym byte = "8 word"

definition units :: "string \<Rightarrow> text16" where
  "units s = map (\<lambda>c. word_of_nat (of_char c)) s"

definition LF :: code_unit where "LF = 10"
definition CR :: code_unit where "CR = 13"

text \<open>\<open>\<d>\<close>, \<open>\s\<close> and the line terminators \<open>.\<close> does not match.\<close>

definition digit_unit :: "code_unit \<Rightarrow> bool" where
  "digit_unit u \<longleftrightarrow> 48 \<le> u \<and> u \<le> 57"

definition space_unit :: "code_unit \<Rightarrow> bool" where
  "space_unit u \<longleftrightarrow> 9 \<le> u \<and> u \<le> 13 \<or> 0x2000 \<le> u \<and> u \<le> 0x200A \<or>
     u \<in> set [0x20, 0xA0, 0x1680, 0x2028, 0x2029, 0x202F, 0x205F, 0x3000, 0xFEFF]"

definition line_terminator :: "code_unit \<Rightarrow> bool" where
  "line_terminator u \<longleftrightarrow> u \<in> set [LF, CR, 0x2028, 0x2029]"

text \<open>\<open>Number.parseInt(digits, 10)\<close>.\<close>

definition units_value :: "text16 \<Rightarrow> nat" where
  "units_value ds = foldl (\<lambda>n u. n * 10 + (unat u - 48)) 0 ds"

section \<open>Decoding UTF-8\<close>

text \<open>
  The decoder of the Encoding Standard: the bytes still needed, the code point so far, and the bounds of the
  next byte. A byte out of bounds ends the sequence with U+FFFD and is read again.
\<close>

function utf8_points :: "nat \<Rightarrow> nat \<Rightarrow> nat \<Rightarrow> nat \<Rightarrow> nat list \<Rightarrow> nat list" where
  "utf8_points 0 cp lower upper [] = []"
| "utf8_points (Suc n) cp lower upper [] = [0xFFFD]"
| "utf8_points 0 cp lower upper (b # bs) =
     (if b \<le> 0x7F then b # utf8_points 0 0 0x80 0xBF bs
      else if 0xC2 \<le> b \<and> b \<le> 0xDF then utf8_points 1 (b - 0xC0) 0x80 0xBF bs
      else if 0xE0 \<le> b \<and> b \<le> 0xEF then
        utf8_points 2 (b - 0xE0) (if b = 0xE0 then 0xA0 else 0x80) (if b = 0xED then 0x9F else 0xBF) bs
      else if 0xF0 \<le> b \<and> b \<le> 0xF4 then
        utf8_points 3 (b - 0xF0) (if b = 0xF0 then 0x90 else 0x80) (if b = 0xF4 then 0x8F else 0xBF) bs
      else 0xFFFD # utf8_points 0 0 0x80 0xBF bs)"
| "utf8_points (Suc n) cp lower upper (b # bs) =
     (if b < lower \<or> upper < b then 0xFFFD # utf8_points 0 0 0x80 0xBF (b # bs)
      else if n = 0 then (cp * 64 + (b - 0x80)) # utf8_points 0 0 0x80 0xBF bs
      else utf8_points n (cp * 64 + (b - 0x80)) 0x80 0xBF bs)"
  by pat_completeness auto
termination
  by (relation "measure (\<lambda>(n, _, _, _, bs). 2 * length bs + (if n = 0 then 0 else 1))") auto

definition utf16_units :: "nat \<Rightarrow> text16" where
  "utf16_units cp =
     (if cp < 0x10000 then [word_of_nat cp]
      else [word_of_nat (0xD800 + (cp - 0x10000) div 1024), word_of_nat (0xDC00 + (cp - 0x10000) mod 1024)])"

text \<open>\<open>new TextDecoder("utf-8", { fatal: false }).decode(bytes)\<close>, which drops a leading byte order mark.\<close>

definition decode_utf8 :: "byte list \<Rightarrow> text16" where
  "decode_utf8 bytes =
     (let points = utf8_points 0 0 0x80 0xBF (map unat bytes)
      in concat (map utf16_units (if points \<noteq> [] \<and> hd points = 0xFEFF then tl points else points)))"

lemma utf8_points_ascii: "list_all (\<lambda>b. b < 0x80) bs \<Longrightarrow> utf8_points 0 cp lower upper bs = bs"
  by (induction bs arbitrary: cp lower upper) auto

text \<open>ASCII bytes are the text with the same units.\<close>

lemma decode_utf8_ascii:
  assumes "list_all (\<lambda>b. b < 0x80) bs"
  shows "decode_utf8 bs = map (\<lambda>b. word_of_nat (unat b)) bs"
proof -
  have small: "list_all (\<lambda>n. n < 0x80) (map unat bs)"
    using assms by (auto simp: list_all_iff word_less_nat_alt)
  then have "utf8_points 0 0 0x80 0xBF (map unat bs) = map unat bs" by (rule utf8_points_ascii)
  moreover have "map unat bs = [] \<or> hd (map unat bs) \<noteq> 0xFEFF" using small by (cases bs) auto
  moreover have "concat (map utf16_units (map unat bs)) = map (\<lambda>b. word_of_nat (unat b)) bs"
    using small by (induction bs) (auto simp: utf16_units_def)
  ultimately show ?thesis by (auto simp: decode_utf8_def Let_def)
qed

section \<open>Splitting\<close>

lemma split_on_fresh: "c \<notin> set s \<Longrightarrow> split_on c s = [s]"
  by (induction s) auto

lemma split_on_at: "c \<notin> set s \<Longrightarrow> split_on c (s @ c # t) = s # split_on c t"
  by (induction s) auto

section \<open>Decimal numbers\<close>

lemma units_append [simp]: "units (s @ t) = units s @ units t"
  by (simp add: units_def)

lemma units_digit: "is_digit c \<Longrightarrow> digit_unit (word_of_nat (of_char c))"
  by (simp add: is_digit_def digit_unit_def word_le_nat_alt unat_of_nat)

lemma units_show_nat_digits: "list_all digit_unit (units (show_nat n))"
  using show_nat_digits [of n] by (auto simp: units_def list_all_iff intro: units_digit)

lemma length_show_nat: "n < 10 ^ k \<Longrightarrow> 0 < k \<Longrightarrow> length (show_nat n) \<le> k"
proof (induction k arbitrary: n)
  case (Suc k)
  show ?case
  proof (cases "n < 10")
    case True
    then show ?thesis by (subst show_nat.simps) simp
  next
    case False
    with Suc.prems have "n div 10 < 10 ^ k" "0 < k" by (auto simp: less_mult_imp_div_less mult.commute intro: Nat.gr0I)
    with Suc.IH [of "n div 10"] False show ?thesis by (subst show_nat.simps) simp
  qed
qed simp

end
