(* ===== verification/Refinement.thy ===== *)
theory Refinement
  imports Main
begin

text \<open>
  Two automata driven by the same events: a component, with an invariant of its state, and the
  specification it implements. When one step of the component is one step of the specification, a run
  of the one is a run of the other.
\<close>

locale implements =
  fixes step :: "'s \<Rightarrow> 'e \<Rightarrow> 's" and spec :: "'a \<Rightarrow> 'e \<Rightarrow> 'a"
    and abs_state :: "'s \<Rightarrow> 'a" and inv :: "'s \<Rightarrow> bool"
  assumes inv_step: "inv s \<Longrightarrow> inv (step s e)"
    and step_commutes: "inv s \<Longrightarrow> abs_state (step s e) = spec (abs_state s) e"
begin

lemma run_inv: "inv s \<Longrightarrow> inv (foldl step s es)"
  by (induction es arbitrary: s) (auto intro: inv_step)

lemma run_implements: "inv s \<Longrightarrow> abs_state (foldl step s es) = foldl spec (abs_state s) es"
  by (induction es arbitrary: s) (simp_all add: step_commutes inv_step)

end

end
