(* ===== verification/Build_Logs.thy ===== *)
theory Build_Logs
  imports JS_Text Refinement
begin

text \<open>
  \<open>agent/src/build-logs.ts\<close>: how the output of a build is cut into lines and shipped. Lines are
  measured, so a text is the list of its UTF-16 code units. The publisher keeps its state in a closure
  that its callers, its timer and the sends it chained on one promise change one at a time: it is an automaton
  whose events are those calls. The child process of \<open>streamCommand\<close> is its sequence of events.
\<close>

section \<open>Texts\<close>

text \<open>\<open>s.slice(0, n)\<close> with any integer \<open>n\<close>, and \<open>s.replace(/\r$/, "")\<close>.\<close>

definition slice_to :: "text16 \<Rightarrow> int \<Rightarrow> text16" where
  "slice_to s n = (if n \<ge> 0 then take (nat n) s else take (nat (int (length s) + n)) s)"

definition strip_cr :: "text16 \<Rightarrow> text16" where
  "strip_cr s = (if s \<noteq> [] \<and> last s = CR then butlast s else s)"

fun join_lines :: "text16 list \<Rightarrow> text16" where
  "join_lines [] = []"
| "join_lines [x] = x"
| "join_lines (x # y # xs) = x @ [LF] @ join_lines (y # xs)"

section \<open>Entries\<close>

definition BUILD_LOG_FLUSH_INTERVAL_MS :: int where "BUILD_LOG_FLUSH_INTERVAL_MS = 1000"
definition BUILD_LOG_FLUSH_BATCH_SIZE :: int where "BUILD_LOG_FLUSH_BATCH_SIZE = 200"
definition BUILD_LOG_MAX_ENTRIES :: int where "BUILD_LOG_MAX_ENTRIES = 20000"
definition BUILD_LOG_MAX_LINE_LENGTH :: int where "BUILD_LOG_MAX_LINE_LENGTH = 4000"

definition BUILD_LOG_TRUNCATION_SUFFIX :: text16 where
  "BUILD_LOG_TRUNCATION_SUFFIX = 0x2026 # units '' [line truncated]''"

definition truncateBuildLogLine :: "text16 \<Rightarrow> int \<Rightarrow> text16" where
  "truncateBuildLogLine line maxLength =
     (if int (length line) \<le> maxLength then line else slice_to line maxLength @ BUILD_LOG_TRUNCATION_SUFFIX)"

datatype build_stage = Cloning | Analyzing | Building | Pushing | Deploying

datatype entry_type = StdoutEntry | StderrEntry | ProgressEntry | ExitEntry

record build_entry =
  be_type :: entry_type
  be_line :: "text16 option"
  be_timestamp :: int
  be_stage :: "build_stage option"
  be_percent :: "int option"
  be_message :: "text16 option"
  be_exitCode :: "int option"
  be_success :: "bool option"

definition plain_entry :: "entry_type \<Rightarrow> int \<Rightarrow> build_entry" where
  "plain_entry ty timestamp = \<lparr>be_type = ty, be_line = None, be_timestamp = timestamp, be_stage = None,
     be_percent = None, be_message = None, be_exitCode = None, be_success = None\<rparr>"

definition buildProgressEntry :: "build_stage \<Rightarrow> text16 \<Rightarrow> int \<Rightarrow> int \<Rightarrow> build_entry" where
  "buildProgressEntry stage message percent timestamp =
     (plain_entry ProgressEntry timestamp)\<lparr>be_stage := Some stage, be_message := Some message,
       be_percent := Some percent\<rparr>"

section \<open>The publisher\<close>

record publisher_options =
  po_flushBatchSize :: int
  po_maxEntries :: int
  po_maxLineLength :: int

definition default_options :: publisher_options where
  "default_options = \<lparr>po_flushBatchSize = BUILD_LOG_FLUSH_BATCH_SIZE, po_maxEntries = BUILD_LOG_MAX_ENTRIES,
     po_maxLineLength = BUILD_LOG_MAX_LINE_LENGTH\<rparr>"

text \<open>
  The promise \<open>inFlight\<close> is a chain: \<open>pb_chained\<close> are the batches whose send waits for the one before
  to settle, \<open>pb_sending\<close> the one being sent, and \<open>pb_rejected\<close> whether the chain's last settled link was
  rejected, which takes an \<open>onSendError\<close> that throws. \<open>pb_handed\<close> are the batches taken off the
  chain, in order, each with whether it was handed to \<open>send\<close>; \<open>pb_errors\<close> counts the calls of
  \<open>onSendError\<close>.
\<close>

record publisher =
  pb_buffer :: "build_entry list"
  pb_emitted :: int
  pb_capacityNoticeSent :: bool
  pb_closed :: bool
  pb_timer :: bool
  pb_chained :: "build_entry list list"
  pb_sending :: bool
  pb_rejected :: bool
  pb_handed :: "(bool \<times> build_entry list) list"
  pb_errors :: nat

definition createBuildLogPublisher :: publisher where
  "createBuildLogPublisher = \<lparr>pb_buffer = [], pb_emitted = 0, pb_capacityNoticeSent = False, pb_closed = False,
     pb_timer = False, pb_chained = [], pb_sending = False, pb_rejected = False, pb_handed = [], pb_errors = 0\<rparr>"

text \<open>\<open>cancelTimer\<close> and the rest of \<open>flush\<close>; \<open>armTimer\<close>; \<open>push\<close>.\<close>

definition flush :: "publisher \<Rightarrow> publisher" where
  "flush p =
     (let p = p\<lparr>pb_timer := False\<rparr>
      in if pb_buffer p = [] then p
         else p\<lparr>pb_buffer := [], pb_chained := pb_chained p @ [pb_buffer p]\<rparr>)"

definition armTimer :: "publisher \<Rightarrow> publisher" where
  "armTimer p = (if pb_timer p \<or> pb_closed p then p else p\<lparr>pb_timer := True\<rparr>)"

definition push :: "publisher_options \<Rightarrow> build_entry \<Rightarrow> publisher \<Rightarrow> publisher" where
  "push opts entry p =
     (let p = p\<lparr>pb_buffer := pb_buffer p @ [entry]\<rparr>
      in if int (length (pb_buffer p)) \<ge> po_flushBatchSize opts then flush p else armTimer p)"

definition capacity_notice :: "publisher_options \<Rightarrow> int \<Rightarrow> build_entry" where
  "capacity_notice opts timestamp = (plain_entry StderrEntry timestamp)\<lparr>be_line := Some (units
     (''[nouva] build log truncated after '' @ show_int (po_maxEntries opts)
      @ '' lines; the rest of this build'' @ [CHR 0x27] @ ''s output is not retained''))\<rparr>"

definition clipped :: "publisher_options \<Rightarrow> build_entry \<Rightarrow> build_entry" where
  "clipped opts entry = entry\<lparr>be_line :=
     map_option (\<lambda>line. truncateBuildLogLine line (po_maxLineLength opts)) (be_line entry)\<rparr>"

text \<open>The method \<open>emit\<close>; \<open>timestamp\<close> is what \<open>now()\<close> returns for a notice.\<close>

definition emit :: "publisher_options \<Rightarrow> build_entry \<Rightarrow> int \<Rightarrow> publisher \<Rightarrow> publisher" where
  "emit opts entry timestamp p =
     (if pb_closed p then p
      else
        let full = (pb_emitted p \<ge> po_maxEntries opts);
            p = (if full \<and> \<not> pb_capacityNoticeSent p
                 then push opts (capacity_notice opts timestamp) (p\<lparr>pb_capacityNoticeSent := True\<rparr>) else p)
        in if full \<and> be_type entry \<noteq> ExitEntry then p
           else push opts (clipped opts entry) (p\<lparr>pb_emitted := pb_emitted p + 1\<rparr>))"

definition timer_fires :: "publisher \<Rightarrow> publisher" where
  "timer_fires p = (if pb_timer p then flush (p\<lparr>pb_timer := False\<rparr>) else p)"

definition close :: "publisher \<Rightarrow> publisher" where
  "close p = (if pb_closed p then p else flush (p\<lparr>pb_closed := True\<rparr>))"

text \<open>
  The next link of the chain runs once the one before settled: it hands its batch to \<open>send\<close>, or, after
  a rejection, skips it and passes the reason to \<open>onSendError\<close>. Then the send settles. \<open>handlerThrows\<close>
  says whether \<open>onSendError\<close> throws, if it is called.
\<close>

definition next_link :: "bool \<Rightarrow> publisher \<Rightarrow> publisher" where
  "next_link handlerThrows p =
     (case pb_chained p of
        [] \<Rightarrow> p
      | batch # rest \<Rightarrow>
          if pb_sending p then p
          else if pb_rejected p then
            p\<lparr>pb_chained := rest, pb_handed := pb_handed p @ [(False, batch)], pb_rejected := handlerThrows,
              pb_errors := Suc (pb_errors p)\<rparr>
          else p\<lparr>pb_chained := rest, pb_handed := pb_handed p @ [(True, batch)], pb_sending := True\<rparr>)"

definition send_settles :: "bool \<Rightarrow> bool \<Rightarrow> publisher \<Rightarrow> publisher" where
  "send_settles ok handlerThrows p =
     (if \<not> pb_sending p then p
      else if ok then p\<lparr>pb_sending := False\<rparr>
      else p\<lparr>pb_sending := False, pb_rejected := handlerThrows, pb_errors := Suc (pb_errors p)\<rparr>)"

datatype publisher_event =
    Emit build_entry int
  | TimerFires
  | Close
  | NextLink bool
  | SendSettles bool bool

fun publisher_step :: "publisher_options \<Rightarrow> publisher \<Rightarrow> publisher_event \<Rightarrow> publisher" where
  "publisher_step opts p (Emit entry timestamp) = emit opts entry timestamp p"
| "publisher_step opts p TimerFires = timer_fires p"
| "publisher_step opts p Close = close p"
| "publisher_step opts p (NextLink handlerThrows) = next_link handlerThrows p"
| "publisher_step opts p (SendSettles ok handlerThrows) = send_settles ok handlerThrows p"

text \<open>What \<open>close\<close> awaits: the whole chain.\<close>

definition close_returns :: "publisher \<Rightarrow> bool" where
  "close_returns p \<longleftrightarrow> pb_closed p \<and> pb_chained p = [] \<and> \<not> pb_sending p"

section \<open>Lines\<close>

text \<open>The loop of \<open>push\<close>: the lines a pending text completes, and what stays pending.\<close>

function complete_lines :: "text16 \<Rightarrow> text16 list \<times> text16" where
  "complete_lines pending =
     (case index_of pending LF of
        None \<Rightarrow> ([], pending)
      | Some newlineIndex \<Rightarrow>
          let (lines, rest) = complete_lines (drop (Suc newlineIndex) pending)
          in (strip_cr (take newlineIndex pending) # lines, rest))"
  by auto
termination
  by (relation "measure length") (auto simp: index_of_Some_iff)

declare complete_lines.simps [simp del]

text \<open>\<open>createLineSplitter\<close>: the pending text; each operation also gives the lines it calls back with.\<close>

definition splitter_push :: "text16 \<Rightarrow> text16 \<Rightarrow> text16 list \<times> text16" where
  "splitter_push pending chunk = complete_lines (pending @ chunk)"

definition splitter_flush :: "text16 \<Rightarrow> text16 list \<times> text16" where
  "splitter_flush pending = (if length pending > 0 then ([strip_cr pending], []) else ([], pending))"

section \<open>Streaming a command\<close>

definition DEFAULT_CAPTURE_LIMIT :: int where "DEFAULT_CAPTURE_LIMIT = 2000"

text \<open>\<open>lines.shift()\<close> of an empty array does nothing.\<close>

definition capture :: "int \<Rightarrow> text16 list \<Rightarrow> text16 \<Rightarrow> text16 list" where
  "capture captureLimit lines line =
     (let lines = lines @ [line] in if int (length lines) > captureLimit then tl lines else lines)"

datatype output_stream = Stdout | Stderr

record stream_result =
  sr_exitCode :: int
  sr_signal :: "string option"
  sr_stdout :: text16
  sr_stderr :: text16

text \<open>\<open>sc_pending\<close> and \<open>sc_lines\<close> of each stream; the calls of \<open>onLine\<close>; how the promise settled, if it did.\<close>

record command_stream =
  sc_pending :: "output_stream \<Rightarrow> text16"
  sc_lines :: "output_stream \<Rightarrow> text16 list"
  sc_forwarded :: "(text16 \<times> output_stream) list"
  sc_settled :: "(js_error + stream_result) option"

definition start_command :: command_stream where
  "start_command = \<lparr>sc_pending = (\<lambda>_. []), sc_lines = (\<lambda>_. []), sc_forwarded = [], sc_settled = None\<rparr>"

text \<open>The callback given to a splitter, for each of its lines.\<close>

definition on_lines :: "int \<Rightarrow> output_stream \<Rightarrow> text16 list \<times> text16 \<Rightarrow> command_stream \<Rightarrow> command_stream" where
  "on_lines captureLimit stream = (\<lambda>(lines, pending) s.
     s\<lparr>sc_pending := (sc_pending s)(stream := pending),
       sc_lines := (sc_lines s)(stream := foldl (capture captureLimit) (sc_lines s stream) lines),
       sc_forwarded := sc_forwarded s @ map (\<lambda>line. (line, stream)) lines\<rparr>)"

definition flush_stream :: "int \<Rightarrow> output_stream \<Rightarrow> command_stream \<Rightarrow> command_stream" where
  "flush_stream captureLimit stream s = on_lines captureLimit stream (splitter_flush (sc_pending s stream)) s"

definition settle :: "js_error + stream_result \<Rightarrow> command_stream \<Rightarrow> command_stream" where
  "settle r s = (case sc_settled s of None \<Rightarrow> s\<lparr>sc_settled := Some r\<rparr> | Some _ \<Rightarrow> s)"

datatype child_event =
    ChildData output_stream text16
  | ChildError js_error
  | ChildClose "int option" "string option"

fun streamCommand_step :: "int \<Rightarrow> command_stream \<Rightarrow> child_event \<Rightarrow> command_stream" where
  "streamCommand_step captureLimit s (ChildData stream chunk) =
     on_lines captureLimit stream (splitter_push (sc_pending s stream) chunk) s"
| "streamCommand_step captureLimit s (ChildError e) =
     settle (Inl e) (flush_stream captureLimit Stderr (flush_stream captureLimit Stdout s))"
| "streamCommand_step captureLimit s (ChildClose code signal) =
     (let s = flush_stream captureLimit Stderr (flush_stream captureLimit Stdout s)
      in settle (Inr \<lparr>sr_exitCode = (case code of Some c \<Rightarrow> c
                        | None \<Rightarrow> if signal \<noteq> None \<and> signal \<noteq> Some [] then -1 else 0),
           sr_signal = signal, sr_stdout = join_lines (sc_lines s Stdout),
           sr_stderr = join_lines (sc_lines s Stderr)\<rparr>) s)"

definition streamCommand :: "int \<Rightarrow> child_event list \<Rightarrow> command_stream" where
  "streamCommand captureLimit events = foldl (streamCommand_step captureLimit) start_command events"

end
