(* ===== verification/Build_Logs_Props.thy ===== *)
theory Build_Logs_Props
  imports Build_Logs
begin

text \<open>
  The publisher of build logs keeps exactly the entries its limits let through, in order and in batches,
  whatever the timing of its timer and of its sends; and the lines of a command do not depend on how its
  output was cut into chunks.
\<close>

section \<open>The log a publisher implements\<close>

text \<open>The log without buffer, timer or sends: what is kept of the entries emitted until it is closed.\<close>

record build_log =
  bl_kept :: "build_entry list"
  bl_emitted :: int
  bl_noted :: bool
  bl_closed :: bool

definition empty_log :: build_log where
  "empty_log = \<lparr>bl_kept = [], bl_emitted = 0, bl_noted = False, bl_closed = False\<rparr>"

definition keep_entry :: "publisher_options \<Rightarrow> build_entry \<Rightarrow> build_log \<Rightarrow> build_log" where
  "keep_entry opts entry l = l\<lparr>bl_kept := bl_kept l @ [clipped opts entry], bl_emitted := bl_emitted l + 1\<rparr>"

definition note_capacity :: "publisher_options \<Rightarrow> int \<Rightarrow> build_log \<Rightarrow> build_log" where
  "note_capacity opts timestamp l =
     (if bl_noted l then l
      else l\<lparr>bl_kept := bl_kept l @ [capacity_notice opts timestamp], bl_noted := True\<rparr>)"

fun log_step :: "publisher_options \<Rightarrow> build_log \<Rightarrow> publisher_event \<Rightarrow> build_log" where
  "log_step opts l (Emit entry timestamp) =
     (if bl_closed l then l
      else if bl_emitted l < po_maxEntries opts then keep_entry opts entry l
      else if be_type entry = ExitEntry then keep_entry opts entry (note_capacity opts timestamp l)
      else note_capacity opts timestamp l)"
| "log_step opts l Close = l\<lparr>bl_closed := True\<rparr>"
| "log_step opts l _ = l"

definition publisher_log :: "publisher \<Rightarrow> build_log" where
  "publisher_log p = \<lparr>bl_kept = concat (map snd (pb_handed p)) @ concat (pb_chained p) @ pb_buffer p,
     bl_emitted = pb_emitted p, bl_noted = pb_capacityNoticeSent p, bl_closed = pb_closed p\<rparr>"

section \<open>What a publisher keeps in order\<close>

definition batch_limit :: "publisher_options \<Rightarrow> int" where
  "batch_limit opts = max 1 (po_flushBatchSize opts)"

definition batch_ok :: "publisher_options \<Rightarrow> build_entry list \<Rightarrow> bool" where
  "batch_ok opts batch \<longleftrightarrow> batch \<noteq> [] \<and> int (length batch) \<le> batch_limit opts"

definition publisher_inv :: "publisher_options \<Rightarrow> publisher \<Rightarrow> bool" where
  "publisher_inv opts p \<longleftrightarrow>
     list_all (batch_ok opts) (map snd (pb_handed p) @ pb_chained p) \<and>
     int (length (pb_buffer p)) < batch_limit opts \<and>
     pb_timer p = (pb_buffer p \<noteq> []) \<and> (pb_closed p \<longrightarrow> pb_buffer p = [])"

lemma publisher_inv_start: "publisher_inv opts createBuildLogPublisher"
  by (simp add: publisher_inv_def createBuildLogPublisher_def batch_limit_def)

lemma push_inv:
  assumes "publisher_inv opts p" and "\<not> pb_closed p"
  shows "publisher_inv opts (push opts entry p)"
  using assms by (auto simp: publisher_inv_def push_def flush_def armTimer_def batch_ok_def batch_limit_def Let_def)

lemma push_log:
  "publisher_log (push opts entry p) = (publisher_log p)\<lparr>bl_kept := bl_kept (publisher_log p) @ [entry]\<rparr>"
  by (simp add: publisher_log_def push_def flush_def armTimer_def Let_def)

lemma push_closed [simp]: "pb_closed (push opts entry p) = pb_closed p"
  by (simp add: push_def flush_def armTimer_def Let_def)

lemma emit_full:
  assumes "\<not> pb_closed p"
  shows "emit opts entry timestamp p =
    (if pb_emitted p < po_maxEntries opts then push opts (clipped opts entry) (p\<lparr>pb_emitted := pb_emitted p + 1\<rparr>)
     else let q = (if pb_capacityNoticeSent p then p
                   else push opts (capacity_notice opts timestamp) (p\<lparr>pb_capacityNoticeSent := True\<rparr>))
       in if be_type entry = ExitEntry then push opts (clipped opts entry) (q\<lparr>pb_emitted := pb_emitted q + 1\<rparr>) else q)"
  using assms by (simp add: emit_def Let_def)

lemma publisher_inv_fields [simp]:
  "publisher_inv opts (p\<lparr>pb_emitted := n\<rparr>) = publisher_inv opts p"
  "publisher_inv opts (p\<lparr>pb_capacityNoticeSent := b\<rparr>) = publisher_inv opts p"
  by (simp_all add: publisher_inv_def)

lemma publisher_inv_step: "publisher_inv opts p \<Longrightarrow> publisher_inv opts (publisher_step opts p ev)"
proof (cases ev)
  case (Emit entry timestamp)
  assume "publisher_inv opts p"
  with Emit show ?thesis
    by (cases "pb_closed p") (simp_all add: emit_def emit_full Let_def push_inv)
next
  case (NextLink t)
  assume "publisher_inv opts p"
  with NextLink show ?thesis
    by (cases "pb_chained p") (auto simp: publisher_inv_def next_link_def)
qed (auto simp: publisher_inv_def timer_fires_def close_def flush_def send_settles_def batch_ok_def batch_limit_def Let_def)

lemma publisher_log_step:
  "publisher_inv opts p \<Longrightarrow> publisher_log (publisher_step opts p ev) = log_step opts (publisher_log p) ev"
proof (cases ev)
  case (Emit entry timestamp)
  have l: "bl_closed (publisher_log p) = pb_closed p" "bl_emitted (publisher_log p) = pb_emitted p"
    "bl_noted (publisher_log p) = pb_capacityNoticeSent p" for p
    by (simp_all add: publisher_log_def)
  have u: "publisher_log (p\<lparr>pb_emitted := n\<rparr>) = (publisher_log p)\<lparr>bl_emitted := n\<rparr>"
    "publisher_log (p\<lparr>pb_capacityNoticeSent := b\<rparr>) = (publisher_log p)\<lparr>bl_noted := b\<rparr>" for p n b
    by (simp_all add: publisher_log_def)
  have e: "pb_emitted (push opts x p) = pb_emitted p" for x p
    by (simp add: push_def flush_def armTimer_def Let_def)
  show ?thesis
  proof (cases "pb_closed p")
    case True
    with Emit show ?thesis by (simp add: emit_def l)
  next
    case False
    with Emit show ?thesis
      by (simp add: emit_full l u e push_log keep_entry_def note_capacity_def Let_def)
  qed
next
  case (NextLink t)
  then show ?thesis by (cases "pb_chained p") (simp_all add: publisher_log_def next_link_def)
next
  case Close
  assume "publisher_inv opts p"
  with Close show ?thesis
    by (auto simp: publisher_log_def close_def flush_def publisher_inv_def Let_def)
qed (simp_all add: publisher_log_def timer_fires_def flush_def send_settles_def Let_def)

interpretation publisher: implements "publisher_step opts" "log_step opts" publisher_log "publisher_inv opts" for opts
  by unfold_locales (simp_all add: publisher_inv_step publisher_log_step)

lemma publisher_log_start [simp]: "publisher_log createBuildLogPublisher = empty_log"
  by (simp add: publisher_log_def createBuildLogPublisher_def empty_log_def)

section \<open>Nothing is lost but by a handler that throws\<close>

fun handler_throws :: "publisher_event \<Rightarrow> bool" where
  "handler_throws (NextLink t) = t"
| "handler_throws (SendSettles ok t) = t"
| "handler_throws _ = False"

definition all_handed :: "publisher \<Rightarrow> bool" where
  "all_handed p \<longleftrightarrow> \<not> pb_rejected p \<and> list_all fst (pb_handed p)"

lemma all_handed_push: "all_handed (push opts entry p) = all_handed p"
  by (simp add: all_handed_def push_def flush_def armTimer_def Let_def)

lemma all_handed_step: "all_handed p \<Longrightarrow> \<not> handler_throws ev \<Longrightarrow> all_handed (publisher_step opts p ev)"
proof (cases ev)
  case (Emit entry timestamp)
  have u: "all_handed (p\<lparr>pb_emitted := n\<rparr>) = all_handed p" "all_handed (p\<lparr>pb_capacityNoticeSent := b\<rparr>) = all_handed p"
    for p n b by (simp_all add: all_handed_def)
  assume "all_handed p"
  with Emit show ?thesis by (simp add: emit_def Let_def all_handed_push u)
next
  case (NextLink t)
  assume "all_handed p" "\<not> handler_throws ev"
  with NextLink show ?thesis by (cases "pb_chained p") (auto simp: all_handed_def next_link_def)
qed (auto simp: all_handed_def timer_fires_def close_def flush_def send_settles_def Let_def)

lemma all_handed_run:
  "all_handed p \<Longrightarrow> list_all (\<lambda>ev. \<not> handler_throws ev) evs \<Longrightarrow> all_handed (foldl (publisher_step opts) p evs)"
  by (induction evs arbitrary: p) (simp_all add: all_handed_step)

section \<open>The log is bounded\<close>

definition chatter :: "build_log \<Rightarrow> nat" where
  "chatter l = length (filter (\<lambda>e. be_type e \<noteq> ExitEntry) (bl_kept l))"

definition log_bounded :: "publisher_options \<Rightarrow> build_log \<Rightarrow> bool" where
  "log_bounded opts l \<longleftrightarrow> 0 \<le> bl_emitted l \<and>
     (if bl_noted l then int (chatter l) \<le> max 0 (po_maxEntries opts) + 1
      else int (chatter l) \<le> bl_emitted l \<and> bl_emitted l \<le> max 0 (po_maxEntries opts)) \<and>
     (bl_noted l \<longrightarrow> po_maxEntries opts \<le> bl_emitted l)"

lemma clipped_type [simp]: "be_type (clipped opts e) = be_type e"
  by (simp add: clipped_def)

lemma notice_type [simp]: "be_type (capacity_notice opts t) = StderrEntry"
  by (simp add: capacity_notice_def plain_entry_def)

lemma log_bounded_step: "log_bounded opts l \<Longrightarrow> log_bounded opts (log_step opts l ev)"
  by (cases ev) (auto simp: log_bounded_def chatter_def keep_entry_def note_capacity_def split: if_splits)

lemma log_bounded_run: "log_bounded opts l \<Longrightarrow> log_bounded opts (foldl (log_step opts) l evs)"
  by (induction evs arbitrary: l) (simp_all add: log_bounded_step)

text \<open>C36 The publisher of build logs implements a plain bounded log. Whatever the order in which entries are emitted,
  its timer fires, its sends settle and it is closed, the batches it took off, those that wait and the buffer hold, in this
  order, exactly the entries the limits let through: lines clipped, at most the maximum and one
  notice besides the entries that end the stream. Batches are never empty or too long, a buffer
  that waits has a timer, a publisher that was closed has nothing left to send once \<open>close\<close> returns, and a
  batch misses its send only when the handler of send errors itself throws.\<close>

theorem publisher_refines_log:
  fixes opts evs defines "p \<equiv> foldl (publisher_step opts) createBuildLogPublisher evs"
  shows "publisher_log p = foldl (log_step opts) empty_log evs \<and>
    int (chatter (publisher_log p)) \<le> max 0 (po_maxEntries opts) + 1 \<and>
    list_all (batch_ok opts) (map snd (pb_handed p) @ pb_chained p) \<and>
    int (length (pb_buffer p)) < batch_limit opts \<and> pb_timer p = (pb_buffer p \<noteq> []) \<and>
    (close_returns p \<longrightarrow> concat (map snd (pb_handed p)) = bl_kept (foldl (log_step opts) empty_log evs)) \<and>
    (list_all (\<lambda>ev. \<not> handler_throws ev) evs \<longrightarrow> list_all fst (pb_handed p))"
proof -
  have log: "publisher_log p = foldl (log_step opts) empty_log evs"
    using publisher.run_implements [OF publisher_inv_start] by (simp add: p_def)
  have inv: "publisher_inv opts p" unfolding p_def by (rule publisher.run_inv [OF publisher_inv_start])
  have "log_bounded opts (publisher_log p)"
    unfolding log by (rule log_bounded_run) (simp add: log_bounded_def empty_log_def chatter_def)
  then have "int (chatter (publisher_log p)) \<le> max 0 (po_maxEntries opts) + 1"
    by (auto simp: log_bounded_def split: if_splits)
  moreover have "concat (map snd (pb_handed p)) = bl_kept (publisher_log p)" if "close_returns p"
    using that inv by (simp add: close_returns_def publisher_log_def publisher_inv_def)
  moreover have "all_handed createBuildLogPublisher" by (simp add: all_handed_def createBuildLogPublisher_def)
  then have "list_all (\<lambda>ev. \<not> handler_throws ev) evs \<longrightarrow> list_all fst (pb_handed p)"
    using all_handed_run [of createBuildLogPublisher evs opts] by (simp add: p_def all_handed_def)
  ultimately show ?thesis using log inv by (simp add: publisher_inv_def)
qed

definition small_options :: publisher_options where
  "small_options = \<lparr>po_flushBatchSize = 2, po_maxEntries = 2, po_maxLineLength = 3\<rparr>"

definition sample_line :: "string \<Rightarrow> build_entry" where
  "sample_line s = (plain_entry StdoutEntry 7)\<lparr>be_line := Some (units s)\<rparr>"

definition sample_log_run :: "publisher_event list" where
  "sample_log_run = [Emit (sample_line ''one'') 7, TimerFires, Emit (sample_line ''three'') 8, Emit (sample_line ''x'') 9,
     NextLink False, Emit (plain_entry ExitEntry 9) 9, SendSettles False False, NextLink False, SendSettles True False,
     Close, NextLink False, SendSettles True False]"

lemma publisher_refines_log_witness:
  "close_returns (foldl (publisher_step small_options) createBuildLogPublisher sample_log_run) \<and>
   concat (map snd (pb_handed (foldl (publisher_step small_options) createBuildLogPublisher sample_log_run))) =
     bl_kept (foldl (log_step small_options) empty_log sample_log_run) \<and>
   list_all fst (pb_handed (foldl (publisher_step small_options) createBuildLogPublisher sample_log_run)) \<and>
   length (bl_kept (foldl (log_step small_options) empty_log sample_log_run)) = 4"
proof -
  have c: "close_returns (foldl (publisher_step small_options) createBuildLogPublisher sample_log_run)"
    and h: "list_all (\<lambda>ev. \<not> handler_throws ev) sample_log_run"
    and n: "length (bl_kept (foldl (log_step small_options) empty_log sample_log_run)) = 4"
    by code_simp+
  with publisher_refines_log [of small_options sample_log_run] show ?thesis by blast
qed

section \<open>Lines do not depend on the chunks\<close>

text \<open>The lines of a whole text: its pieces between line feeds, the last one only when it is not empty.\<close>

definition text_lines :: "text16 \<Rightarrow> text16 list" where
  "text_lines s = (let pieces = split_on LF s
     in map strip_cr (butlast pieces) @ (if last pieces = [] then [] else [strip_cr (last pieces)]))"

lemma split_on_append:
  "split_on c (s @ t) = butlast (split_on c s) @ split_on c (last (split_on c s) @ t)"
proof (induction s)
  case (Cons x s)
  obtain y ys where y: "split_on c s = y # ys" by (meson split_on_not_Nil list.exhaust)
  show ?case
  proof (cases "ys = []")
    case True
    with Cons y show ?thesis by simp
  next
    case False
    with Cons y show ?thesis by simp
  qed
qed simp

lemma complete_lines_split:
  "complete_lines s = (map strip_cr (butlast (split_on LF s)), last (split_on LF s))"
proof (induction s rule: complete_lines.induct)
  case (1 pending)
  show ?case
  proof (cases "index_of pending LF")
    case None
    then have "split_on LF pending = [pending]" by (intro split_on_fresh) (simp add: index_of_None_iff)
    with None show ?thesis by (simp add: complete_lines.simps [of pending])
  next
    case (Some i)
    then have i: "i < length pending" "pending ! i = LF" "LF \<notin> set (take i pending)"
      by (simp_all add: index_of_Some_iff)
    then have "split_on LF pending = split_on LF (take i pending @ LF # drop (Suc i) pending)"
      by (metis id_take_nth_drop)
    also have "\<dots> = take i pending # split_on LF (drop (Suc i) pending)" by (rule split_on_at [OF i(3)])
    finally have "split_on LF pending = take i pending # split_on LF (drop (Suc i) pending)" .
    with Some 1 [OF Some] show ?thesis by (simp add: complete_lines.simps [of pending])
  qed
qed

definition last_n :: "int \<Rightarrow> 'a list \<Rightarrow> 'a list" where
  "last_n n xs = drop (length xs - nat n) xs"

lemma capture_last: "capture n (last_n n xs) x = last_n n (xs @ [x])"
proof (cases "int (length xs) < n")
  case True
  then show ?thesis by (simp add: last_n_def capture_def)
next
  case False
  then have "Suc (length xs) - nat n = Suc (length xs - nat n)" by linarith
  moreover have "tl (drop k xs @ [x]) = drop (Suc k) (xs @ [x])" if "k \<le> length xs" for k
    using that by (cases "k = length xs") (simp_all add: drop_Suc tl_append2 tl_drop)
  ultimately show ?thesis using False by (auto simp: last_n_def capture_def Let_def)
qed

lemma foldl_capture: "foldl (capture n) (last_n n xs) ys = last_n n (xs @ ys)"
  by (induction ys arbitrary: xs) (simp_all add: capture_last)

definition data_of :: "output_stream \<Rightarrow> (output_stream \<times> text16) list \<Rightarrow> text16" where
  "data_of stream chunks = concat (map snd (filter (\<lambda>(s, _). s = stream) chunks))"

definition forwarded :: "output_stream \<Rightarrow> command_stream \<Rightarrow> text16 list" where
  "forwarded stream s = map fst (filter (\<lambda>(_, st). st = stream) (sc_forwarded s))"

definition reads :: "int \<Rightarrow> (output_stream \<Rightarrow> text16) \<Rightarrow> command_stream \<Rightarrow> bool" where
  "reads n data s \<longleftrightarrow> sc_settled s = None \<and> (\<forall>stream.
     sc_pending s stream = last (split_on LF (data stream)) \<and>
     forwarded stream s = map strip_cr (butlast (split_on LF (data stream))) \<and>
     sc_lines s stream = last_n n (forwarded stream s))"

lemma on_lines_forwarded:
  "forwarded stream (on_lines n st (lines, pending) s) = forwarded stream s @ (if stream = st then lines else [])"
  by (simp add: forwarded_def on_lines_def filter_map comp_def)

lemma on_lines_captured:
  assumes "\<And>stream. sc_lines s stream = last_n n (forwarded stream s)"
  shows "sc_lines (on_lines n st l s) stream = last_n n (forwarded stream (on_lines n st l s))"
  using assms by (cases l) (simp add: on_lines_forwarded, simp add: on_lines_def foldl_capture)

lemma reads_chunk:
  assumes "reads n data s"
  shows "reads n (data(stream := data stream @ chunk)) (streamCommand_step n s (ChildData stream chunk))"
proof -
  have "butlast (split_on LF (data stream @ chunk)) =
      butlast (split_on LF (data stream)) @ butlast (split_on LF (last (split_on LF (data stream)) @ chunk))"
    "last (split_on LF (data stream @ chunk)) = last (split_on LF (last (split_on LF (data stream)) @ chunk))"
    by (simp_all add: split_on_append [of LF "data stream"] butlast_append)
  with assms show ?thesis
    unfolding reads_def streamCommand_step.simps splitter_push_def complete_lines_split
    by (auto simp: on_lines_forwarded on_lines_captured) (simp_all add: on_lines_def)
qed

lemma reads_chunks:
  "reads n (\<lambda>stream. data_of stream chunks)
     (foldl (streamCommand_step n) start_command (map (\<lambda>(stream, chunk). ChildData stream chunk) chunks))"
proof (induction chunks rule: rev_induct)
  case Nil
  then show ?case by (simp add: reads_def start_command_def data_of_def forwarded_def last_n_def)
next
  case (snoc x chunks)
  obtain st chunk where x: "x = (st, chunk)" by (cases x)
  have "(\<lambda>stream. data_of stream (chunks @ [x])) =
      (\<lambda>stream. data_of stream chunks)(st := data_of st chunks @ chunk)"
    by (auto simp: data_of_def x)
  then show ?case using reads_chunk [OF snoc, of st chunk] by (simp add: x)
qed

lemma flush_stream_other:
  assumes "st \<noteq> stream"
  shows "sc_pending (flush_stream n st s) stream = sc_pending s stream"
    "forwarded stream (flush_stream n st s) = forwarded stream s"
  using assms by (cases "splitter_flush (sc_pending s st)"; simp add: flush_stream_def on_lines_forwarded; simp add: on_lines_def)+

lemma flush_stream_same:
  "forwarded stream (flush_stream n stream s) = forwarded stream s @
     (if sc_pending s stream = [] then [] else [strip_cr (sc_pending s stream)])"
  by (simp add: flush_stream_def splitter_flush_def on_lines_forwarded)

lemma flush_stream_captured:
  assumes "\<And>stream. sc_lines s stream = last_n n (forwarded stream s)"
  shows "sc_lines (flush_stream n st s) stream = last_n n (forwarded stream (flush_stream n st s))"
  unfolding flush_stream_def by (rule on_lines_captured [OF assms])

lemma flush_stream_settled [simp]: "sc_settled (flush_stream n st s) = sc_settled s"
  by (cases "splitter_flush (sc_pending s st)") (simp add: flush_stream_def on_lines_def)

definition flushed :: "int \<Rightarrow> command_stream \<Rightarrow> command_stream" where
  "flushed n s = flush_stream n Stderr (flush_stream n Stdout s)"

lemma flushed_reads:
  assumes "reads n data s"
  shows "forwarded stream (flushed n s) = text_lines (data stream) \<and>
    sc_lines (flushed n s) stream = last_n n (text_lines (data stream))"
proof -
  have "forwarded stream (flushed n s) = text_lines (data stream)"
    using assms by (cases stream)
      (simp_all add: flushed_def flush_stream_same flush_stream_other reads_def text_lines_def Let_def)
  moreover have "sc_lines (flushed n s) stream = last_n n (forwarded stream (flushed n s))"
    unfolding flushed_def using assms by (intro flush_stream_captured) (simp add: reads_def)
  ultimately show ?thesis by simp
qed

lemma settle_fields [simp]:
  "forwarded stream (settle r s) = forwarded stream s" "sc_settled s = None \<Longrightarrow> sc_settled (settle r s) = Some r"
  by (simp_all add: settle_def forwarded_def split: option.splits)

text \<open>C37 However the pipes cut the output of a command into chunks and interleave its two streams, the lines forwarded for
  a stream are the lines of everything it wrote, the last one even when it ends without a line feed,
  and the text kept for the caller is that of the last lines up to the capture limit. A command that
  could not be run is rejected with its error whatever follows, with the same lines forwarded.\<close>

theorem command_lines_independent_of_chunks:
  fixes n chunks code signal e
  defines "ended \<equiv> streamCommand n (map (\<lambda>(stream, chunk). ChildData stream chunk) chunks @ [ChildClose code signal])"
    and "failed \<equiv> streamCommand n (map (\<lambda>(stream, chunk). ChildData stream chunk) chunks @ [ChildError e])"
  shows "forwarded stream ended = text_lines (data_of stream chunks) \<and>
    forwarded stream failed = text_lines (data_of stream chunks) \<and>
    sc_settled ended = Some (Inr \<lparr>sr_exitCode = (case code of Some c \<Rightarrow> c
        | None \<Rightarrow> if signal = None \<or> signal = Some [] then 0 else -1), sr_signal = signal,
      sr_stdout = join_lines (last_n n (text_lines (data_of Stdout chunks))),
      sr_stderr = join_lines (last_n n (text_lines (data_of Stderr chunks)))\<rparr>) \<and>
    sc_settled failed = Some (Inl e) \<and> sc_settled (streamCommand_step n failed (ChildClose code signal)) = Some (Inl e)"
proof -
  let ?s = "foldl (streamCommand_step n) start_command (map (\<lambda>(stream, chunk). ChildData stream chunk) chunks)"
  have r: "reads n (\<lambda>stream. data_of stream chunks) ?s" by (rule reads_chunks)
  then have none: "sc_settled (flushed n ?s) = None" by (simp add: flushed_def reads_def)
  have failed: "failed = settle (Inl e) (flushed n ?s)"
    by (simp add: failed_def streamCommand_def flushed_def)
  have "ended = settle (Inr \<lparr>sr_exitCode = (case code of Some c \<Rightarrow> c
        | None \<Rightarrow> if signal = None \<or> signal = Some [] then 0 else -1), sr_signal = signal,
      sr_stdout = join_lines (sc_lines (flushed n ?s) Stdout),
      sr_stderr = join_lines (sc_lines (flushed n ?s) Stderr)\<rparr>) (flushed n ?s)"
    by (auto simp: ended_def streamCommand_def flushed_def Let_def cong: option.case_cong)
  moreover have "sc_settled failed = Some (Inl e)" by (simp add: failed none)
  then have "sc_settled (streamCommand_step n failed (ChildClose code signal)) = Some (Inl e)"
    by (simp add: settle_def Let_def)
  ultimately show ?thesis using none failed flushed_reads [OF r] by simp
qed

end
