(* ===== verification/Privileged_Helper.thy ===== *)
theory Privileged_Helper
  imports Monitors
begin

text \<open>
  The short-lived privileged container by which \<open>agent/src/clock-sync.ts\<close> and
  \<open>agent/src/host-tuning.ts\<close> run a script in the namespaces of the host: the same sequence of calls in both.
\<close>

definition LINE_FEED :: string where "LINE_FEED = [CHR 0x0A]"
definition EM_DASH :: string where "EM_DASH = [CHR 0xE2, CHR 0x80, CHR 0x94]"

definition helper_spec :: "string \<Rightarrow> string \<Rightarrow> (string \<times> string) list \<Rightarrow> string \<Rightarrow> container_spec" where
  "helper_spec name img labels script = \<lparr>sp_name = name, sp_image = img, sp_env = [],
     sp_entrypoint = [''nsenter''],
     sp_cmd = [''-t'', ''1'', ''-m'', ''-u'', ''-i'', ''-n'', ''--'', ''sh'', ''-c'', script],
     sp_labels = labels,
     sp_hostConfig = [(''AutoRemove'', JBool False), (''Privileged'', JBool True), (''PidMode'', JStr ''host''),
       (''NetworkMode'', JStr ''host'')],
     sp_networks = []\<rparr>"

text \<open>The exit status and the output; the container is removed whatever happens once it was created.\<close>

definition helper_output :: "'w docker \<Rightarrow> int \<Rightarrow> string \<Rightarrow> ('w, int \<times> string) io" where
  "helper_output docker timeoutMs i =
     io_bind (startContainer docker i) (\<lambda>_.
     io_bind (waitContainer docker i timeoutMs) (\<lambda>statusCode.
     io_bind (io_catch (containerLogs docker i) (\<lambda>_. io_return [])) (\<lambda>logs.
     io_return (statusCode, logs))))"

definition helper_cleanup :: "'w docker \<Rightarrow> string \<Rightarrow> ('w, unit) io" where
  "helper_cleanup docker name = io_catch (removeContainer docker name True) (\<lambda>_. io_return ())"

definition run_helper :: "'w docker \<Rightarrow> container_spec \<Rightarrow> int \<Rightarrow> ('w, int \<times> string) io" where
  "run_helper docker spec timeoutMs =
     io_bind (removeContainer docker (sp_name spec) True) (\<lambda>_.
     io_bind (createContainer docker spec) (\<lambda>i.
     io_finally (helper_output docker timeoutMs i) (helper_cleanup docker (sp_name spec))))"

section \<open>The helper never stays behind\<close>

text \<open>The calls of a run, each creation with whether it was accepted.\<close>

datatype helper_event = Call docker_call | CreateCall container_spec bool

definition watched_helper :: "'w docker \<Rightarrow> ('w \<times> helper_event list) docker" where
  "watched_helper d = (traced_by Call d)\<lparr>
     createContainer := (\<lambda>s. log_result (\<lambda>r. CreateCall s (\<not> isl r)) (createContainer d s))\<rparr>"

lemma watched_helper_simps [simp]:
  "removeContainer (watched_helper d) n b = log_call (Call (Remove n b)) (removeContainer d n b)"
  "createContainer (watched_helper d) s = log_result (\<lambda>r. CreateCall s (\<not> isl r)) (createContainer d s)"
  "startContainer (watched_helper d) i = log_call (Call (Start i)) (startContainer d i)"
  "waitContainer (watched_helper d) i ms = log_call (Call (WaitExit i ms)) (waitContainer d i ms)"
  "containerLogs (watched_helper d) i = log_call (Call (Logs i)) (containerLogs d i)"
  by (simp_all add: watched_helper_def)

text \<open>
  The calls allowed: the name is cleared, one container is created, started, awaited and read, and
  cleared again. A run may end before its container was accepted, but not between that and the removal.
\<close>

datatype helper_phase = NotStarted | Cleared | Refused | Accepted | Started | Awaited | Read | Gone

definition helper_call :: "helper_phase \<Rightarrow> docker_call \<Rightarrow> helper_phase option" where
  "helper_call p c =
     (case c of
        Remove n f \<Rightarrow>
          if p = NotStarted then Some Cleared
          else if p \<in> {Accepted, Started, Awaited, Read} \<and> f then Some Gone else None
      | Start _ \<Rightarrow> if p = Accepted then Some Started else None
      | WaitExit _ _ \<Rightarrow> if p = Started then Some Awaited else None
      | Logs _ \<Rightarrow> if p = Awaited then Some Read else None
      | _ \<Rightarrow> None)"

fun helper_monitor :: "(container_spec \<Rightarrow> bool) \<Rightarrow> helper_phase \<Rightarrow> helper_event \<Rightarrow> helper_phase option" where
  "helper_monitor ok p (CreateCall s accepted) =
     (if p = Cleared \<and> ok s then Some (if accepted then Accepted else Refused) else None)"
| "helper_monitor ok p (Call c) = helper_call p c"

lemma helper_call_simps [simp]:
  "helper_call NotStarted (Remove n f) = Some Cleared"
  "p \<in> {Accepted, Started, Awaited, Read} \<Longrightarrow> helper_call p (Remove n True) = Some Gone"
  "helper_call Accepted (Start i) = Some Started"
  "helper_call Started (WaitExit i ms) = Some Awaited"
  "helper_call Awaited (Logs i) = Some Read"
  by (auto simp: helper_call_def)

lemma obeys_finally_end:
  assumes m: "obeys mon s m P" and g: "\<And>r s'. P r s' \<Longrightarrow> obeys mon s' g (\<lambda>r' s''. \<exists>x. r' = Inr x \<and> Q r s'')"
  shows "obeys mon s (io_finally m g) Q"
proof (rule obeysI)
  fix w l r w' l'
  assume "io_finally m g (w, l) = Some (r, (w', l'))"
  then obtain r1 w1 l1 r2 w2 l2 where m1: "m (w, l) = Some (r1, (w1, l1))" and g1: "g (w1, l1) = Some (r2, (w2, l2))"
    and end1: "case r2 of Inl e \<Rightarrow> r = Inl e \<and> (w', l') = (w2, l2) | Inr _ \<Rightarrow> r = r1 \<and> (w', l') = (w2, l2)"
    by (fastforce simp: io_finally_def split: Option.bind_splits sum.splits)
  from m1 obtain k1 s1 where 1: "l1 = l @ k1" "run_monitor mon s k1 = Some s1" "P r1 s1" by (rule obeysD [OF m])
  from g1 obtain k2 s2 where 2: "l2 = l1 @ k2" "run_monitor mon s1 k2 = Some s2" "\<exists>x. r2 = Inr x \<and> Q r1 s2"
    by (rule obeysD [OF g [OF 1(3)]])
  from 1 2 end1 show "\<exists>k s'. l' = l @ k \<and> run_monitor mon s k = Some s' \<and> Q r s'"
    by (intro exI [of _ "k1 @ k2"] exI [of _ s2]) (auto simp: run_monitor_append)
qed


definition helper_over :: "js_error + 'a \<Rightarrow> helper_phase \<Rightarrow> bool" where
  "helper_over r p \<longleftrightarrow> p = Gone \<or> isl r \<and> (p = Cleared \<or> p = Refused)"

lemma helper_output_obeys:
  "obeys (helper_monitor ok) Accepted (helper_output (watched_helper d) t i)
     (\<lambda>_ p. p \<in> {Accepted, Started, Awaited, Read})"
  unfolding helper_output_def
proof (rule obeys_bind [where P = "\<lambda>_ p. p = Started"])
  have logs: "obeys (helper_monitor ok) Awaited
      (io_catch (containerLogs (watched_helper d) i) (\<lambda>_. io_return [])) (\<lambda>_ p. p = Read)"
    by (auto intro!: obeys_call obeys_catch [where P = "\<lambda>_ p. p = Read"] obeys_return)
  have read: "obeys (helper_monitor ok) Awaited (io_bind (io_catch (containerLogs (watched_helper d) i) (\<lambda>_. io_return []))
      (\<lambda>logs. io_return (statusCode, logs))) (\<lambda>_ p. p \<in> {Accepted, Started, Awaited, Read})" for statusCode :: int
    by (rule obeys_bind [OF logs]) (auto intro!: obeys_return)
  fix x p assume "p = Started"
  moreover have "obeys (helper_monitor ok) Started (waitContainer (watched_helper d) i t) (\<lambda>_ p. p = Awaited)"
    by (auto intro!: obeys_call)
  ultimately show "obeys (helper_monitor ok) p (io_bind (waitContainer (watched_helper d) i t) (\<lambda>statusCode.
      io_bind (io_catch (containerLogs (watched_helper d) i) (\<lambda>_. io_return []))
        (\<lambda>logs. io_return (statusCode, logs)))) (\<lambda>_ p. p \<in> {Accepted, Started, Awaited, Read})"
    using read by (auto intro: obeys_bind)
qed (auto intro!: obeys_call)

lemma helper_cleanup_obeys:
  "p \<in> {Accepted, Started, Awaited, Read} \<Longrightarrow>
   obeys (helper_monitor ok) p (helper_cleanup (watched_helper d) n) (\<lambda>r p'. \<exists>x. r = Inr x \<and> p' = Gone)"
  unfolding helper_cleanup_def
  by (auto intro!: obeys_catch [where P = "\<lambda>_ p. p = Gone"] obeys_call obeys_return)

lemma run_helper_obeys:
  assumes "ok spec"
  shows "obeys (helper_monitor ok) NotStarted (run_helper (watched_helper d) spec t) helper_over"
  unfolding run_helper_def
proof (rule obeys_bind [where P = "\<lambda>_ p. p = Cleared"])
  fix x p assume p: "p = Cleared"
  have create: "obeys (helper_monitor ok) Cleared (createContainer (watched_helper d) spec)
      (\<lambda>r p. p = (if isl r then Refused else Accepted))"
    using assms by (auto intro!: obeys_result)
  have "obeys (helper_monitor ok) Accepted
      (io_finally (helper_output (watched_helper d) t i) (helper_cleanup (watched_helper d) (sp_name spec)))
      (\<lambda>_ p. p = Gone)" for i
    by (rule obeys_finally_end [OF helper_output_obeys helper_cleanup_obeys])
  then have "obeys (helper_monitor ok) Accepted
      (io_finally (helper_output (watched_helper d) t i) (helper_cleanup (watched_helper d) (sp_name spec))) helper_over" for i
    by (rule obeys_conseq) (simp add: helper_over_def)
  then show "obeys (helper_monitor ok) p (io_bind (createContainer (watched_helper d) spec) (\<lambda>i.
      io_finally (helper_output (watched_helper d) t i) (helper_cleanup (watched_helper d) (sp_name spec)))) helper_over"
    unfolding p by (intro obeys_bind [OF create]) (simp_all add: helper_over_def)
qed (auto intro!: obeys_call simp: helper_over_def)

end
