(* ===== verification/Clock_Sync.thy ===== *)
theory Clock_Sync
  imports Privileged_Helper
begin

text \<open>
  \<open>agent/src/clock-sync.ts\<close>: what the agent establishes about the clock of its host. The cached probe is
  an argument and a result of the functions that read and write it. \<open>stat\<close> is a parameter; a path is
  joined to a root without a trailing slash, as the only root of the code is.
\<close>

section \<open>Reading the state\<close>

definition CLOCK_PROBE_CONTAINER_NAME :: string where "CLOCK_PROBE_CONTAINER_NAME = ''nouva-clock-probe''"
definition CLOCK_PROBE_TIMEOUT_MS :: int where "CLOCK_PROBE_TIMEOUT_MS = 30000"
definition CLOCK_PROBE_INTERVAL_MS :: int where "CLOCK_PROBE_INTERVAL_MS = 600000"
definition CLOCK_PROBE_RETRY_INTERVAL_MS :: int where "CLOCK_PROBE_RETRY_INTERVAL_MS = 3600000"
definition TIMESYNCD_SYNCHRONIZED_PATH :: string where
  "TIMESYNCD_SYNCHRONIZED_PATH = ''run/systemd/timesync/synchronized''"
definition CHRONYD_SOCKET_PATH :: string where "CHRONYD_SOCKET_PATH = ''run/chrony/chronyd.sock''"
definition DRIFT_CONSEQUENCE :: string where
  "DRIFT_CONSEQUENCE = ''clock drift may break TLS certificates and PITR timestamps''"

record clock_state =
  ck_ntpEnabled :: "bool option"
  ck_synchronized :: bool

datatype clock_evidence =
    Timedatectl clock_state
  | TimesyncdSynchronized string
  | ChronydRunning string
  | UnknownClock string

datatype check_status = Pass | Warn

record clock_assessment =
  ca_status :: check_status
  ca_message :: string
  ca_value :: string

definition parseSystemdBoolean :: "string option \<Rightarrow> bool option" where
  "parseSystemdBoolean v =
     (case map_option (\<lambda>s. to_lower (trim s)) v of
        None \<Rightarrow> None
      | Some t \<Rightarrow>
          if t \<in> set [''yes'', ''true'', ''1''] then Some True
          else if t \<in> set [''no'', ''false'', ''0''] then Some False else None)"

text \<open>\<open>output.split(/\r?\n/)\<close>: a line feed takes the carriage return before it along.\<close>

definition drop_cr :: "string \<Rightarrow> string" where
  "drop_cr s = (if s \<noteq> [] \<and> last s = CHR 0x0D then butlast s else s)"

definition split_crlf :: "string \<Rightarrow> string list" where
  "split_crlf s = (let pieces = split_on (CHR 0x0A) s in map drop_cr (butlast pieces) @ [last pieces])"

definition set_property :: "(string \<rightharpoonup> string) \<Rightarrow> string \<Rightarrow> (string \<rightharpoonup> string)" where
  "set_property properties line =
     (case index_of line (CHR ''='') of
        None \<Rightarrow> properties
      | Some separator \<Rightarrow>
          if separator > 0 then properties(trim (take separator line) \<mapsto> drop (Suc separator) line) else properties)"

definition parseTimedatectlClockState :: "string \<Rightarrow> clock_state option" where
  "parseTimedatectlClockState output =
     (let properties = foldl set_property Map.empty (split_crlf output)
      in case parseSystemdBoolean (properties ''NTPSynchronized'') of
           None \<Rightarrow> None
         | Some synchronized \<Rightarrow> Some \<lparr>ck_ntpEnabled = parseSystemdBoolean (properties ''NTP''),
             ck_synchronized = synchronized\<rparr>)"

definition formatClockStateValue :: "clock_state \<Rightarrow> string" where
  "formatClockStateValue state =
     ''NTP='' @ (case ck_ntpEnabled state of None \<Rightarrow> ''unknown'' | Some b \<Rightarrow> if b then ''yes'' else ''no'')
     @ '',NTPSynchronized='' @ (if ck_synchronized state then ''yes'' else ''no'')"

definition evaluateClockSync :: "clock_evidence \<Rightarrow> clock_assessment" where
  "evaluateClockSync evidence =
     (case evidence of
        Timedatectl state \<Rightarrow>
          if ck_synchronized state then
            \<lparr>ca_status = Pass,
              ca_message = (if ck_ntpEnabled state = Some False
                then ''System clock is synchronised, but no time synchronisation service is enabled '' @ EM_DASH
                  @ '' it will drift once the current offset ages''
                else ''System clock is synchronised''),
              ca_value = formatClockStateValue state\<rparr>
          else
            \<lparr>ca_status = Warn,
              ca_message = (case ck_ntpEnabled state of
                  Some True \<Rightarrow> ''A time synchronisation service is enabled but the clock is not synchronised yet ''
                | Some False \<Rightarrow> ''No time synchronisation service is enabled and the clock is not synchronised ''
                | None \<Rightarrow> ''The system clock is not synchronised '') @ EM_DASH @ '' '' @ DRIFT_CONSEQUENCE,
              ca_value = formatClockStateValue state\<rparr>
      | TimesyncdSynchronized reason \<Rightarrow>
          \<lparr>ca_status = Pass,
            ca_message = ''systemd-timesyncd has completed a synchronisation since boot ('' @ reason @ '')'',
            ca_value = ''timesyncd-synchronized''\<rparr>
      | ChronydRunning reason \<Rightarrow>
          \<lparr>ca_status = Warn,
            ca_message = ''chronyd is running but its synchronisation state could not be verified ('' @ reason
              @ '') '' @ EM_DASH @ '' '' @ DRIFT_CONSEQUENCE,
            ca_value = ''chronyd-running''\<rparr>
      | UnknownClock reason \<Rightarrow>
          \<lparr>ca_status = Warn,
            ca_message = ''Clock synchronisation could not be verified ('' @ reason @ '') '' @ EM_DASH @ '' ''
              @ DRIFT_CONSEQUENCE,
            ca_value = ''unverified''\<rparr>)"

section \<open>The probe\<close>

definition buildClockProbeScript :: string where
  "buildClockProbeScript = join LINE_FEED [''set -eu'', ''timedatectl show -p NTP -p NTPSynchronized'']"

datatype clock_outcome = ProbeOk clock_state | ProbeFailed string

record cached_probe =
  cp_observedAt :: int
  cp_outcome :: clock_outcome

datatype 'w clock_helper = HelperAvailable "'w docker" string | HelperUnavailable string

definition clock_probe_spec :: "string \<Rightarrow> (string \<times> string) list \<Rightarrow> container_spec" where
  "clock_probe_spec img labels = helper_spec CLOCK_PROBE_CONTAINER_NAME img labels buildClockProbeScript"

definition probe_outcome :: "int \<Rightarrow> string \<Rightarrow> clock_outcome" where
  "probe_outcome statusCode output =
     (if statusCode \<noteq> 0 then ProbeFailed (''the host clock probe exited with status '' @ show_int statusCode @ '': '' @ trim output)
      else case parseTimedatectlClockState output of
        None \<Rightarrow> ProbeFailed ''timedatectl reported no NTPSynchronized state''
      | Some state \<Rightarrow> ProbeOk state)"

definition runClockProbe :: "'w docker \<Rightarrow> string \<Rightarrow> (string \<times> string) list \<Rightarrow> ('w, clock_outcome) io" where
  "runClockProbe docker img labels =
     io_bind (run_helper docker (clock_probe_spec img labels) CLOCK_PROBE_TIMEOUT_MS) (\<lambda>(statusCode, output).
     io_return (probe_outcome statusCode output))"

definition probe_ttl :: "cached_probe \<Rightarrow> int" where
  "probe_ttl cached = (case cp_outcome cached of ProbeOk _ \<Rightarrow> CLOCK_PROBE_INTERVAL_MS
     | ProbeFailed _ \<Rightarrow> CLOCK_PROBE_RETRY_INTERVAL_MS)"

definition probe_afresh ::
    "'w clock \<Rightarrow> 'w docker \<Rightarrow> string \<Rightarrow> (string \<times> string) list \<Rightarrow> ('w, clock_outcome \<times> cached_probe option) io" where
  "probe_afresh clk docker img labels =
     io_bind (io_catch (runClockProbe docker img labels)
       (\<lambda>e. io_return (ProbeFailed (error_message e ''the host clock probe failed'')))) (\<lambda>outcome.
     io_bind (io_now clk) (\<lambda>t.
     io_return (outcome, Some \<lparr>cp_observedAt = t, cp_outcome = outcome\<rparr>)))"

definition probeHostClock ::
    "'w clock \<Rightarrow> 'w clock_helper \<Rightarrow> (string \<times> string) list \<Rightarrow> cached_probe option \<Rightarrow>
     ('w, clock_outcome \<times> cached_probe option) io" where
  "probeHostClock clk helper labels cached =
     (case helper of
        HelperUnavailable reason \<Rightarrow> io_return (ProbeFailed reason, cached)
      | HelperAvailable docker img \<Rightarrow>
          (case cached of
             None \<Rightarrow> probe_afresh clk docker img labels
           | Some c \<Rightarrow>
               io_bind (io_now clk) (\<lambda>t.
                 if t - cp_observedAt c < probe_ttl c then io_return (cp_outcome c, cached)
                 else probe_afresh clk docker img labels)))"

section \<open>The evidence\<close>

datatype file_kind = RegularFile | SocketFile | OtherFile

definition statHostPath :: "(string \<Rightarrow> ('w, file_kind) io) \<Rightarrow> string \<Rightarrow> ('w, file_kind option) io" where
  "statHostPath stat path = io_catch (io_bind (stat path) (\<lambda>k. io_return (Some k))) (\<lambda>_. io_return None)"

definition path_join :: "string \<Rightarrow> string \<Rightarrow> string" where
  "path_join base path = base @ ''/'' @ path"

definition readHostClockFallback ::
    "(string \<Rightarrow> ('w, file_kind) io) \<Rightarrow> string \<Rightarrow> string \<Rightarrow> ('w, clock_evidence) io" where
  "readHostClockFallback stat hostRoot reason =
     io_bind (statHostPath stat (path_join hostRoot TIMESYNCD_SYNCHRONIZED_PATH)) (\<lambda>k.
     if k = Some RegularFile then io_return (TimesyncdSynchronized reason)
     else io_bind (statHostPath stat (path_join hostRoot CHRONYD_SOCKET_PATH)) (\<lambda>k.
     if k = Some SocketFile then io_return (ChronydRunning reason) else io_return (UnknownClock reason)))"

definition detectHostClockSync ::
    "(string \<Rightarrow> ('w, file_kind) io) \<Rightarrow> 'w clock \<Rightarrow> string \<Rightarrow> 'w clock_helper \<Rightarrow> (string \<times> string) list \<Rightarrow>
     cached_probe option \<Rightarrow> ('w, clock_evidence \<times> cached_probe option) io" where
  "detectHostClockSync stat clk hostRoot helper labels cached =
     io_bind (probeHostClock clk helper labels cached) (\<lambda>(outcome, cached).
     case outcome of
       ProbeOk state \<Rightarrow> io_return (Timedatectl state, cached)
     | ProbeFailed reason \<Rightarrow>
         io_bind (readHostClockFallback stat hostRoot reason) (\<lambda>evidence. io_return (evidence, cached)))"

end
