(* ===== verification/Host_Tuning.thy ===== *)
theory Host_Tuning
  imports Privileged_Helper
begin

text \<open>
  \<open>agent/src/host-tuning.ts\<close>: the kernel settings the agent keeps in place. The time of the last failed
  attempt is an argument and a result; reading a file is a parameter.
\<close>

definition HOST_INOTIFY_MAX_USER_WATCHES :: int where "HOST_INOTIFY_MAX_USER_WATCHES = 524288"
definition HOST_INOTIFY_MAX_USER_INSTANCES :: int where "HOST_INOTIFY_MAX_USER_INSTANCES = 512"
definition HOST_SYSCTL_CONFIG_PATH :: string where "HOST_SYSCTL_CONFIG_PATH = ''/etc/sysctl.d/60-nouva.conf''"
definition HOST_TUNING_CONTAINER_NAME :: string where "HOST_TUNING_CONTAINER_NAME = ''nouva-host-tuning''"
definition HOST_TUNING_RETRY_INTERVAL_MS :: int where "HOST_TUNING_RETRY_INTERVAL_MS = 3600000"
definition HOST_TUNING_TIMEOUT_MS :: int where "HOST_TUNING_TIMEOUT_MS = 60000"

record inotify_limits =
  il_maxUserWatches :: "int option"
  il_maxUserInstances :: "int option"

datatype tuning_status = Satisfied | Applied | TuningFailed | Deferred

record tuning_result =
  tr_status :: tuning_status
  tr_limits :: inotify_limits
  tr_message :: "string option"

definition readSysctlValue :: "(string \<Rightarrow> ('w, string) io) \<Rightarrow> string \<Rightarrow> string \<Rightarrow> ('w, int option) io" where
  "readSysctlValue readFile hostRoot key =
     io_catch (io_bind (readFile (hostRoot @ ''/proc/sys/'' @ key)) (\<lambda>raw. io_return (parse_int (trim raw))))
       (\<lambda>_. io_return None)"

definition readHostInotifyLimits :: "(string \<Rightarrow> ('w, string) io) \<Rightarrow> string \<Rightarrow> ('w, inotify_limits) io" where
  "readHostInotifyLimits readFile hostRoot =
     io_bind (readSysctlValue readFile hostRoot ''fs/inotify/max_user_watches'') (\<lambda>watches.
     io_bind (readSysctlValue readFile hostRoot ''fs/inotify/max_user_instances'') (\<lambda>instances.
     io_return \<lparr>il_maxUserWatches = watches, il_maxUserInstances = instances\<rparr>))"

definition hostInotifyLimitsSatisfied :: "inotify_limits \<Rightarrow> bool" where
  "hostInotifyLimitsSatisfied limits \<longleftrightarrow>
     (case il_maxUserWatches limits of None \<Rightarrow> False | Some n \<Rightarrow> n \<ge> HOST_INOTIFY_MAX_USER_WATCHES) \<and>
     (case il_maxUserInstances limits of None \<Rightarrow> False | Some n \<Rightarrow> n \<ge> HOST_INOTIFY_MAX_USER_INSTANCES)"

definition DOUBLE_QUOTE :: string where "DOUBLE_QUOTE = [CHR 0x22]"
definition SINGLE_QUOTE :: string where "SINGLE_QUOTE = [CHR 0x27]"
definition BACKSLASH :: string where "BACKSLASH = [CHR 0x5C]"

definition quoted :: "string \<Rightarrow> string" where
  "quoted s = DOUBLE_QUOTE @ s @ DOUBLE_QUOTE"

definition sysctl_reading :: "string \<Rightarrow> string \<Rightarrow> string" where
  "sysctl_reading variable key =
     variable @ ''='' @ quoted (''$(cat /proc/sys/fs/inotify/'' @ key @ '' 2>/dev/null || echo 0)'')"

definition sysctl_raise :: "string \<Rightarrow> int \<Rightarrow> string" where
  "sysctl_raise variable n =
     ''[ '' @ quoted (''$'' @ variable) @ '' -ge '' @ show_int n @ '' ] || '' @ variable @ ''='' @ show_int n"

definition buildHostSysctlScript :: string where
  "buildHostSysctlScript = join LINE_FEED
     [''set -eu'',
      sysctl_reading ''watches'' ''max_user_watches'',
      sysctl_reading ''instances'' ''max_user_instances'',
      sysctl_raise ''watches'' HOST_INOTIFY_MAX_USER_WATCHES,
      sysctl_raise ''instances'' HOST_INOTIFY_MAX_USER_INSTANCES,
      ''mkdir -p '' @ quoted (''$(dirname '' @ HOST_SYSCTL_CONFIG_PATH @ '')''),
      ''printf '' @ SINGLE_QUOTE @ ''%s'' @ BACKSLASH @ ''n'' @ SINGLE_QUOTE @ '' '' @ SINGLE_QUOTE
        @ ''# Managed by the Nouva agent. Traefik and BuildKit rely on inotify.'' @ SINGLE_QUOTE @ '' ''
        @ quoted ''fs.inotify.max_user_watches = $watches'' @ '' ''
        @ quoted ''fs.inotify.max_user_instances = $instances'' @ '' > '' @ HOST_SYSCTL_CONFIG_PATH,
      ''if command -v sysctl >/dev/null 2>&1; then'',
      ''  sysctl -q -p '' @ HOST_SYSCTL_CONFIG_PATH,
      ''else'',
      ''  echo '' @ quoted ''$watches'' @ '' > /proc/sys/fs/inotify/max_user_watches'',
      ''  echo '' @ quoted ''$instances'' @ '' > /proc/sys/fs/inotify/max_user_instances'',
      ''fi'']"

definition tuning_spec :: "string \<Rightarrow> (string \<times> string) list \<Rightarrow> container_spec" where
  "tuning_spec img labels = helper_spec HOST_TUNING_CONTAINER_NAME img labels buildHostSysctlScript"

definition limit_text :: "int option \<Rightarrow> string" where
  "limit_text v = (case v of None \<Rightarrow> ''unknown'' | Some n \<Rightarrow> show_int n)"

text \<open>The body of the \<open>try\<close>: the limits after tuning.\<close>

definition apply_tuning ::
    "(string \<Rightarrow> ('w, string) io) \<Rightarrow> 'w docker \<Rightarrow> string \<Rightarrow> string \<Rightarrow> (string \<times> string) list \<Rightarrow> ('w, inotify_limits) io" where
  "apply_tuning readFile docker hostRoot img labels =
     io_bind (run_helper docker (tuning_spec img labels) HOST_TUNING_TIMEOUT_MS) (\<lambda>(statusCode, output).
     if statusCode \<noteq> 0 then
       io_throw (Error (''host tuning helper exited with status '' @ show_int statusCode @ '': '' @ trim output))
     else io_bind (readHostInotifyLimits readFile hostRoot) (\<lambda>updated.
       if hostInotifyLimitsSatisfied updated then io_return updated
       else io_throw (Error (''inotify limits are still '' @ limit_text (il_maxUserWatches updated) @ '' watches / ''
         @ limit_text (il_maxUserInstances updated) @ '' instances after tuning''))))"

definition tune_host ::
    "(string \<Rightarrow> ('w, string) io) \<Rightarrow> 'w docker \<Rightarrow> 'w clock \<Rightarrow> string \<Rightarrow> string \<Rightarrow> (string \<times> string) list \<Rightarrow>
     inotify_limits \<Rightarrow> ('w, tuning_result \<times> int option) io" where
  "tune_host readFile docker clk hostRoot img labels limits =
     io_catch
       (io_bind (apply_tuning readFile docker hostRoot img labels) (\<lambda>updated.
        io_return (\<lparr>tr_status = Applied, tr_limits = updated, tr_message = None\<rparr>, None)))
       (\<lambda>e. io_bind (io_now clk) (\<lambda>t.
        io_return (\<lparr>tr_status = TuningFailed, tr_limits = limits,
          tr_message = Some (error_message e ''Unable to apply host kernel settings'')\<rparr>, Some t)))"

definition deferred_result :: "inotify_limits \<Rightarrow> tuning_result" where
  "deferred_result limits = \<lparr>tr_status = Deferred, tr_limits = limits,
     tr_message = Some ''Host tuning recently failed; waiting before retrying''\<rparr>"

definition ensureHostKernelSettings ::
    "(string \<Rightarrow> ('w, string) io) \<Rightarrow> 'w docker \<Rightarrow> 'w clock \<Rightarrow> string \<Rightarrow> string \<Rightarrow> (string \<times> string) list \<Rightarrow>
     int option \<Rightarrow> ('w, tuning_result \<times> int option) io" where
  "ensureHostKernelSettings readFile docker clk hostRoot img labels lastFailedAttemptAt =
     io_bind (readHostInotifyLimits readFile hostRoot) (\<lambda>limits.
     if hostInotifyLimitsSatisfied limits then
       io_return (\<lparr>tr_status = Satisfied, tr_limits = limits, tr_message = None\<rparr>, lastFailedAttemptAt)
     else case lastFailedAttemptAt of
       None \<Rightarrow> tune_host readFile docker clk hostRoot img labels limits
     | Some failedAt \<Rightarrow>
         io_bind (io_now clk) (\<lambda>t.
           if t - failedAt < HOST_TUNING_RETRY_INTERVAL_MS then io_return (deferred_result limits, lastFailedAttemptAt)
           else tune_host readFile docker clk hostRoot img labels limits))"

end
