(* ===== verification/Host_Props.thy ===== *)
theory Host_Props
  imports Clock_Sync Host_Tuning
begin

text \<open>
  What the agent says about the host's clock and kernel settings is what it established, and the
  privileged containers it needs for that never stay behind.
\<close>

section \<open>The privileged helper\<close>

definition helper_ended :: "helper_phase \<Rightarrow> bool" where
  "helper_ended p \<longleftrightarrow> p \<in> {NotStarted, Cleared, Refused, Gone}"

lemma helper_over_ended: "helper_over r p \<Longrightarrow> helper_ended p"
  by (auto simp: helper_over_def helper_ended_def)

lemma run_clock_probe_obeys:
  "obeys (helper_monitor (\<lambda>s. s = clock_probe_spec img labels)) NotStarted
     (runClockProbe (watched_helper d) img labels) (\<lambda>_. helper_ended)"
  unfolding runClockProbe_def
  by (rule obeys_bind [OF run_helper_obeys]) (auto intro!: obeys_return dest: helper_over_ended)

lemma obeys_now: "Q s \<Longrightarrow> obeys mon s (unlogged (io_now c)) (\<lambda>r s'. (\<exists>t. r = Inr t) \<and> Q s')"
  by (rule obeysI) (auto simp: io_now_def)

lemma probe_afresh_obeys:
  "obeys (helper_monitor (\<lambda>s. s = clock_probe_spec img labels)) NotStarted
     (probe_afresh (traced_clock clk) (watched_helper d) img labels) (\<lambda>r p. \<not> isl r \<and> helper_ended p)"
  unfolding probe_afresh_def traced_clock_simps
proof (rule obeys_bind [where P = "\<lambda>r p. \<not> isl r \<and> helper_ended p"])
  show "obeys (helper_monitor (\<lambda>s. s = clock_probe_spec img labels)) NotStarted
      (io_catch (runClockProbe (watched_helper d) img labels)
        (\<lambda>e. io_return (ProbeFailed (error_message e ''the host clock probe failed''))))
      (\<lambda>r p. \<not> isl r \<and> helper_ended p)"
    by (rule obeys_catch [OF run_clock_probe_obeys]) (auto intro: obeys_return)
next
  fix outcome p assume "\<not> isl (Inr outcome :: js_error + clock_outcome) \<and> helper_ended p"
  then show "obeys (helper_monitor (\<lambda>s. s = clock_probe_spec img labels)) p
      (io_bind (unlogged (io_now clk)) (\<lambda>t. io_return (outcome, Some \<lparr>cp_observedAt = t, cp_outcome = outcome\<rparr>)))
      (\<lambda>r p. \<not> isl r \<and> helper_ended p)"
    by (intro obeys_bind [OF obeys_now [where Q = helper_ended]]) (auto intro!: obeys_return)
qed auto

lemma stat_obeys:
  "obeys mon p (statHostPath (\<lambda>f. unlogged (stat f)) f) (\<lambda>r p'. \<not> isl r \<and> p' = p)"
  by (rule obeysI) (auto simp: statHostPath_def io_catch_Some_iff io_bind_Some_iff)

lemma fallback_obeys:
  "obeys mon p (readHostClockFallback (\<lambda>f. unlogged (stat f)) hostRoot reason) (\<lambda>r p'. \<not> isl r \<and> p' = p)"
  unfolding readHostClockFallback_def
  by (rule obeys_bind [OF stat_obeys], auto intro!: obeys_return)
    (rule obeys_bind [OF stat_obeys], auto intro!: obeys_return)

lemma probe_obeys:
  "obeys (helper_monitor (\<lambda>s. s = clock_probe_spec img labels)) NotStarted
     (probeHostClock (traced_clock clk) (HelperAvailable (watched_helper d) img) labels cached)
     (\<lambda>r p. \<not> isl r \<and> helper_ended p)"
proof (cases cached)
  case None
  then show ?thesis by (simp add: probeHostClock_def probe_afresh_obeys)
next
  case (Some c)
  then show ?thesis
    by (auto simp: probeHostClock_def helper_ended_def [of NotStarted]
        intro!: obeys_bind [OF obeys_now [where Q = "\<lambda>p. p = NotStarted"]] obeys_return probe_afresh_obeys)
qed

lemma clock_sync_obeys:
  "obeys (helper_monitor (\<lambda>s. s = clock_probe_spec img labels)) NotStarted
     (detectHostClockSync (\<lambda>f. unlogged (stat f)) (traced_clock clk) hostRoot
        (HelperAvailable (watched_helper d) img) labels cached)
     (\<lambda>r p. \<not> isl r \<and> helper_ended p)"
  unfolding detectHostClockSync_def
proof (rule obeys_bind [OF probe_obeys], goal_cases)
  case (1 x p)
  then show ?case
    by (cases x; cases "fst x") (auto intro!: obeys_return obeys_bind [OF fallback_obeys])
qed auto

lemma read_limits_obeys:
  "obeys mon p (readHostInotifyLimits (\<lambda>f. unlogged (readFile f)) hostRoot) (\<lambda>r p'. \<not> isl r \<and> p' = p)"
  by (rule obeysI) (auto simp: readHostInotifyLimits_def readSysctlValue_def io_catch_Some_iff io_bind_Some_iff)

definition tuning_end :: "js_error + tuning_result \<times> int option \<Rightarrow> helper_phase \<Rightarrow> bool" where
  "tuning_end r p \<longleftrightarrow> helper_ended p \<and>
     (\<exists>res last. r = Inr (res, last) \<and>
       (tr_status res = Satisfied \<and> p = NotStarted \<and> hostInotifyLimitsSatisfied (tr_limits res) \<or>
        tr_status res = Deferred \<and> p = NotStarted \<or>
        tr_status res = Applied \<and> p = Gone \<and> hostInotifyLimitsSatisfied (tr_limits res) \<and> last = None \<or>
        tr_status res = TuningFailed \<and> tr_message res \<noteq> None \<and> last \<noteq> None))"

lemma apply_tuning_obeys:
  "obeys (helper_monitor (\<lambda>s. s = tuning_spec img labels)) NotStarted
     (apply_tuning (\<lambda>f. unlogged (readFile f)) (watched_helper d) hostRoot img labels)
     (\<lambda>r p. helper_ended p \<and> (\<forall>l. r = Inr l \<longrightarrow> p = Gone \<and> hostInotifyLimitsSatisfied l))"
  unfolding apply_tuning_def
proof (rule obeys_bind [OF run_helper_obeys], simp, goal_cases)
  case (1 x p)
  obtain status out where x: "x = (status, out)" by (cases x)
  from 1 have "p = Gone" by (simp add: helper_over_def)
  then show ?case
    by (auto simp: x helper_ended_def intro!: obeys_throw obeys_return obeys_bind [OF read_limits_obeys])
qed (auto simp: helper_over_ended)

lemma tune_host_obeys:
  "obeys (helper_monitor (\<lambda>s. s = tuning_spec img labels)) NotStarted
     (tune_host (\<lambda>f. unlogged (readFile f)) (watched_helper d) (traced_clock clk) hostRoot img labels limits) tuning_end"
  unfolding tune_host_def traced_clock_simps
proof (rule obeys_catch [where P = "\<lambda>r p. if isl r then helper_ended p else tuning_end (Inr (projr r)) p"])
  show "obeys (helper_monitor (\<lambda>s. s = tuning_spec img labels)) NotStarted
      (io_bind (apply_tuning (\<lambda>f. unlogged (readFile f)) (watched_helper d) hostRoot img labels)
        (\<lambda>updated. io_return (\<lparr>tr_status = Applied, tr_limits = updated, tr_message = None\<rparr>, None)))
      (\<lambda>r p. if isl r then helper_ended p else tuning_end (Inr (projr r)) p)"
    by (rule obeys_bind [OF apply_tuning_obeys]) (auto intro!: obeys_return simp: tuning_end_def)
next
  fix e p assume "if isl (Inl e :: js_error + tuning_result \<times> int option) then helper_ended p else
    tuning_end (Inr (projr (Inl e))) p"
  then show "obeys (helper_monitor (\<lambda>s. s = tuning_spec img labels)) p
      (io_bind (unlogged (io_now clk)) (\<lambda>t. io_return (\<lparr>tr_status = TuningFailed, tr_limits = limits,
        tr_message = Some (error_message e ''Unable to apply host kernel settings'')\<rparr>, Some t))) tuning_end"
    by (intro obeys_bind [OF obeys_now [where Q = helper_ended]]) (auto intro!: obeys_return simp: tuning_end_def)
qed auto

lemma kernel_settings_obeys:
  "obeys (helper_monitor (\<lambda>s. s = tuning_spec img labels)) NotStarted
     (ensureHostKernelSettings (\<lambda>f. unlogged (readFile f)) (watched_helper d) (traced_clock clk) hostRoot img labels
        lastFailed) tuning_end"
  unfolding ensureHostKernelSettings_def
proof (rule obeys_bind [OF read_limits_obeys], goal_cases)
  case (1 limits p)
  then show ?case
    by (cases lastFailed) (auto simp: tuning_end_def [of _ NotStarted] helper_ended_def deferred_result_def
        intro!: obeys_return tune_host_obeys obeys_bind [OF obeys_now [where Q = "\<lambda>p. p = NotStarted"]])
qed auto


section \<open>What the clock check claims\<close>

lemma clock_pass_iff:
  "ca_status (evaluateClockSync e) = Pass \<longleftrightarrow>
     (\<exists>st. e = Timedatectl st \<and> ck_synchronized st) \<or> (\<exists>reason. e = TimesyncdSynchronized reason)"
  by (cases e) (simp_all add: evaluateClockSync_def)

text \<open>A probe that ran to the end with status 0 and said so.\<close>

definition probe_showed :: "'w docker \<Rightarrow> string \<Rightarrow> (string \<times> string) list \<Rightarrow> clock_state \<Rightarrow> bool" where
  "probe_showed docker img labels st \<longleftrightarrow> (\<exists>w output w'.
     run_helper docker (clock_probe_spec img labels) CLOCK_PROBE_TIMEOUT_MS w = Some (Inr (0, output), w') \<and>
     parseTimedatectlClockState output = Some st)"

definition fresh_probe :: "'w clock \<Rightarrow> cached_probe option \<Rightarrow> clock_state \<Rightarrow> bool" where
  "fresh_probe clk cached st \<longleftrightarrow> (\<exists>c w. cached = Some c \<and> cp_outcome c = ProbeOk st \<and>
     fst (now clk w) - cp_observedAt c < CLOCK_PROBE_INTERVAL_MS)"

lemma probe_outcome_Ok: "probe_outcome s output = ProbeOk st \<longleftrightarrow> s = 0 \<and> parseTimedatectlClockState output = Some st"
  by (auto simp: probe_outcome_def split: option.splits)

lemma probe_afresh_Ok:
  "probe_afresh clk docker img labels w = Some (Inr (ProbeOk st, cached), w') \<Longrightarrow> probe_showed docker img labels st"
proof -
  assume "probe_afresh clk docker img labels w = Some (Inr (ProbeOk st, cached), w')"
  then obtain w1 where "runClockProbe docker img labels w = Some (Inr (ProbeOk st), w1)"
    by (auto simp: probe_afresh_def io_bind_Some_iff io_catch_Some_iff)
  then obtain status out w2 where
    "run_helper docker (clock_probe_spec img labels) CLOCK_PROBE_TIMEOUT_MS w = Some (Inr (status, out), w2)"
    and "probe_outcome status out = ProbeOk st"
    by (auto simp: runClockProbe_def io_bind_Some_iff)
  then show ?thesis by (auto simp: probe_outcome_Ok probe_showed_def)
qed

lemma probeHostClock_Ok:
  assumes "probeHostClock clk (HelperAvailable docker img) labels cached w = Some (Inr (ProbeOk st, cached'), w')"
  shows "probe_showed docker img labels st \<or> fresh_probe clk cached st"
proof (cases cached)
  case None
  with assms show ?thesis by (simp add: probeHostClock_def probe_afresh_Ok)
next
  case (Some c)
  with assms consider "probe_showed docker img labels st"
    | "fst (now clk w) - cp_observedAt c < probe_ttl c" "cp_outcome c = ProbeOk st"
    by (auto simp: probeHostClock_def io_bind_Some_iff io_now_def dest: probe_afresh_Ok split: if_splits)
  then show ?thesis using Some by cases (auto simp: fresh_probe_def probe_ttl_def)
qed

text \<open>The output of \<open>timedatectl show\<close> for a state.\<close>

definition timedatectl_output :: "string \<Rightarrow> bool \<Rightarrow> bool \<Rightarrow> string" where
  "timedatectl_output line_end ntp synchronized =
     ''NTP='' @ (if ntp then ''yes'' else ''no'') @ line_end @
     ''NTPSynchronized='' @ (if synchronized then ''yes'' else ''no'') @ line_end"

lemma timedatectl_reads_back:
  "parseTimedatectlClockState (timedatectl_output [CHR 0x0A] ntp sync) = Some \<lparr>ck_ntpEnabled = Some ntp, ck_synchronized = sync\<rparr>"
  "parseTimedatectlClockState (timedatectl_output [CHR 0x0D, CHR 0x0A] ntp sync) = Some \<lparr>ck_ntpEnabled = Some ntp, ck_synchronized = sync\<rparr>"
  by (cases ntp; cases sync; simp only:; code_simp)+

text \<open>The clock check passes only on evidence: a probe, just run to the end with status 0 or cached for less than
  ten minutes, that reported the clock synchronised, or the file systemd-timesyncd leaves after a
  synchronisation, when no probe could answer. An unknown state, or a daemon merely running, is a
  warning. What \<open>timedatectl\<close> prints for a state is read back as that state.\<close>

theorem clock_check_passes_on_evidence:
  assumes "detectHostClockSync stat clk hostRoot (HelperAvailable docker img) labels cached w = Some (Inr (evidence, cached'), w')"
    and "ca_status (evaluateClockSync evidence) = Pass"
  shows "((\<exists>st. evidence = Timedatectl st \<and> ck_synchronized st \<and>
        (probe_showed docker img labels st \<or> fresh_probe clk cached st)) \<or>
      (\<exists>reason w1 w2. evidence = TimesyncdSynchronized reason \<and>
        stat (path_join hostRoot TIMESYNCD_SYNCHRONIZED_PATH) w1 = Some (Inr RegularFile, w2))) \<and>
    parseTimedatectlClockState (timedatectl_output [CHR 0x0A] ntp sync) =
      Some \<lparr>ck_ntpEnabled = Some ntp, ck_synchronized = sync\<rparr>"
proof -
  from assms(1) obtain outcome w1 where
    p: "probeHostClock clk (HelperAvailable docker img) labels cached w = Some (Inr (outcome, cached'), w1)"
    and e: "(case outcome of ProbeOk st \<Rightarrow> evidence = Timedatectl st
      | ProbeFailed reason \<Rightarrow> \<exists>w2. readHostClockFallback stat hostRoot reason w1 = Some (Inr evidence, w2))"
    by (fastforce simp: detectHostClockSync_def io_bind_Some_iff split: clock_outcome.splits)
  from assms(2) consider (probe) st where "evidence = Timedatectl st" "ck_synchronized st"
    | (sentinel) reason where "evidence = TimesyncdSynchronized reason" by (auto simp: clock_pass_iff)
  then show ?thesis
  proof cases
    case probe
    with e have "outcome = ProbeOk st"
      by (auto simp: readHostClockFallback_def io_bind_Some_iff split: clock_outcome.splits if_splits)
    with p have "probe_showed docker img labels st \<or> fresh_probe clk cached st" by (simp add: probeHostClock_Ok)
    with probe show ?thesis by (simp add: timedatectl_reads_back)
  next
    case sentinel
    with e have "\<exists>w2. statHostPath stat (path_join hostRoot TIMESYNCD_SYNCHRONIZED_PATH) w1 = Some (Inr (Some RegularFile), w2)"
      by (auto simp: readHostClockFallback_def io_bind_Some_iff split: clock_outcome.splits if_splits)
    then have "\<exists>w1 w2. stat (path_join hostRoot TIMESYNCD_SYNCHRONIZED_PATH) w1 = Some (Inr RegularFile, w2)"
      by (auto simp: statHostPath_def io_catch_Some_iff io_bind_Some_iff)
    with sentinel show ?thesis by (simp add: timedatectl_reads_back)
  qed
qed


definition answering_docker :: "string \<Rightarrow> 'w docker" where
  "answering_docker out = \<lparr>inspectContainer = (\<lambda>_. io_return None),
     listContainersByLabels = (\<lambda>_. io_return []), listManagedContainers = io_return [],
     countContainerExits = (\<lambda>_ _ _. io_return 0), containerLogs = (\<lambda>_. io_return out),
     containerLogEntries = (\<lambda>_ _. io_return []), createContainer = (\<lambda>s. io_return (sp_name s)),
     startContainer = (\<lambda>_. io_return ()), waitContainer = (\<lambda>_ _. io_return 0),
     stopContainer = (\<lambda>_ _. io_return ()), killContainer = (\<lambda>_ _. io_return True),
     removeContainer = (\<lambda>_ _. io_return ()), updateContainerRestartPolicy = (\<lambda>_ _. io_return ()),
     inspectVolume = (\<lambda>_. io_return False), createVolume = (\<lambda>_ _. io_return ()),
     removeVolume = (\<lambda>_ _. io_return ())\<rparr>"

definition synchronized_docker :: "int docker" where
  "synchronized_docker = answering_docker (timedatectl_output [CHR 0x0A] True True)"

lemma synchronized_run:
  "detectHostClockSync (\<lambda>_. io_return OtherFile) int_clock ''/hostfs'' (HelperAvailable synchronized_docker ''agent:1'') [] None 5 =
     Some (Inr (Timedatectl \<lparr>ck_ntpEnabled = Some True, ck_synchronized = True\<rparr>,
       Some \<lparr>cp_observedAt = 5, cp_outcome = ProbeOk \<lparr>ck_ntpEnabled = Some True, ck_synchronized = True\<rparr>\<rparr>), 5)"
  by code_simp

lemma clock_check_passes_on_evidence_witness:
  "probe_showed synchronized_docker ''agent:1'' [] \<lparr>ck_ntpEnabled = Some True, ck_synchronized = True\<rparr> \<or>
   fresh_probe int_clock None \<lparr>ck_ntpEnabled = Some True, ck_synchronized = True\<rparr>"
  using clock_check_passes_on_evidence [OF synchronized_run, where ntp = True and sync = True]
  by (auto simp: evaluateClockSync_def)

end
