(* ===== verification/Backup_Import.thy ===== *)
theory Backup_Import
  imports JS_Text JS_Double
begin

text \<open>
  \<open>packages/runtime/src/external-backup-import.ts\<close>: what can be proved of the bytes of a backup before a
  database depends on them. The sample of an artifact is a list of bytes; texts read out of it are code
  units, as \<open>TextDecoder\<close> gives them. The integers of an archive are summed in doubles.
\<close>

section \<open>Vocabulary\<close>

datatype import_format = PostgresCustomDump | RedisRdb

fun format_text :: "import_format \<Rightarrow> string" where
  "format_text PostgresCustomDump = ''postgres-custom-dump-v1''"
| "format_text RedisRdb = ''redis-rdb-v1''"

datatype failure_category =
    ArtifactMissing | IntegrityMismatch | FormatUnreadable | FormatMismatch | EngineVersionIncompatible
  | RestoreFailed | ValidationFailed

fun category_text :: "failure_category \<Rightarrow> string" where
  "category_text ArtifactMissing = ''artifact_missing''"
| "category_text IntegrityMismatch = ''integrity_mismatch''"
| "category_text FormatUnreadable = ''format_unreadable''"
| "category_text FormatMismatch = ''format_mismatch''"
| "category_text EngineVersionIncompatible = ''engine_version_incompatible''"
| "category_text RestoreFailed = ''restore_failed''"
| "category_text ValidationFailed = ''validation_failed''"

datatype import_variant = PostgresVariant | RedisVariant

fun variant_text :: "import_variant \<Rightarrow> string" where
  "variant_text PostgresVariant = ''postgres''"
| "variant_text RedisVariant = ''redis''"

fun EXTERNAL_BACKUP_IMPORT_VARIANT_BY_FORMAT :: "import_format \<Rightarrow> import_variant" where
  "EXTERNAL_BACKUP_IMPORT_VARIANT_BY_FORMAT PostgresCustomDump = PostgresVariant"
| "EXTERNAL_BACKUP_IMPORT_VARIANT_BY_FORMAT RedisRdb = RedisVariant"

definition EXTERNAL_BACKUP_IMPORT_FORMATS :: "string list" where
  "EXTERNAL_BACKUP_IMPORT_FORMATS = map format_text [PostgresCustomDump, RedisRdb]"

definition EXTERNAL_BACKUP_IMPORT_FAILURE_CATEGORIES :: "string list" where
  "EXTERNAL_BACKUP_IMPORT_FAILURE_CATEGORIES = map category_text [ArtifactMissing, IntegrityMismatch,
     FormatUnreadable, FormatMismatch, EngineVersionIncompatible, RestoreFailed, ValidationFailed]"

definition isExternalBackupImportFormat :: "json \<Rightarrow> bool" where
  "isExternalBackupImportFormat v \<longleftrightarrow> v \<in> set (map JStr EXTERNAL_BACKUP_IMPORT_FORMATS)"

definition isExternalBackupImportFailureCategory :: "json \<Rightarrow> bool" where
  "isExternalBackupImportFailureCategory v \<longleftrightarrow> v \<in> set (map JStr EXTERNAL_BACKUP_IMPORT_FAILURE_CATEGORIES)"

definition EXTERNAL_BACKUP_IMPORT_HEADER_SAMPLE_BYTES :: nat where
  "EXTERNAL_BACKUP_IMPORT_HEADER_SAMPLE_BYTES = 8192"

record postgres_header =
  ph_archiveVersion :: string
  ph_sourceEngineVersion :: text16
  ph_dumpVersion :: "text16 option"
  ph_sourceDatabase :: "text16 option"

datatype artifact_header = PostgresHeader postgres_header | RedisHeader nat

type_synonym rejection = "failure_category \<times> string"

section \<open>The header of a pg_dump archive\<close>

definition PGDMP_MAGIC :: string where "PGDMP_MAGIC = ''PGDMP''"
definition PGDMP_FORMAT_CUSTOM :: nat where "PGDMP_FORMAT_CUSTOM = 1"

definition makeArchiveVersion :: "nat \<Rightarrow> nat \<Rightarrow> nat \<Rightarrow> nat" where
  "makeArchiveVersion major minor revision = (major * 256 + minor) * 256 + revision"

definition K_VERS_1_0 :: nat where "K_VERS_1_0 = makeArchiveVersion 1 0 0"
definition K_VERS_1_2 :: nat where "K_VERS_1_2 = makeArchiveVersion 1 2 0"
definition K_VERS_1_4 :: nat where "K_VERS_1_4 = makeArchiveVersion 1 4 0"
definition K_VERS_1_7 :: nat where "K_VERS_1_7 = makeArchiveVersion 1 7 0"
definition K_VERS_1_10 :: nat where "K_VERS_1_10 = makeArchiveVersion 1 10 0"
definition K_VERS_1_15 :: nat where "K_VERS_1_15 = makeArchiveVersion 1 15 0"
definition K_VERS_MAX :: nat where "K_VERS_MAX = makeArchiveVersion 1 16 0"

text \<open>
  A function that moves the cursor's offset, or leaves the parser with a rejection: an early return, or a
  \<open>HeaderTruncatedError\<close> with the category its handler gives it.
\<close>

type_synonym 'a reader = "nat \<Rightarrow> rejection + ('a \<times> nat)"

definition rd_return :: "'a \<Rightarrow> 'a reader" where "rd_return x = (\<lambda>offset. Inr (x, offset))"
definition rd_reject :: "failure_category \<Rightarrow> string \<Rightarrow> 'a reader" where "rd_reject c m = (\<lambda>offset. Inl (c, m))"

definition rd_bind :: "'a reader \<Rightarrow> ('a \<Rightarrow> 'b reader) \<Rightarrow> 'b reader" where
  "rd_bind m f = (\<lambda>offset. case m offset of Inl e \<Rightarrow> Inl e | Inr (x, offset') \<Rightarrow> f x offset')"

definition readByte :: "byte list \<Rightarrow> nat reader" where
  "readByte bytes = (\<lambda>offset.
     if offset < length bytes then Inr (unat (bytes ! offset), Suc offset)
     else Inl (FormatUnreadable, ''Artifact header ended before the archive header was complete''))"

fun read_magnitude :: "byte list \<Rightarrow> nat \<Rightarrow> nat \<Rightarrow> rat \<Rightarrow> rat reader" where
  "read_magnitude bytes 0 index value = rd_return value"
| "read_magnitude bytes (Suc n) index value =
     rd_bind (readByte bytes) (\<lambda>b. read_magnitude bytes n (Suc index) (fl_add value (of_nat b * 2 ^ (8 * index))))"

definition readArchiveInt :: "byte list \<Rightarrow> nat \<Rightarrow> nat \<Rightarrow> rat reader" where
  "readArchiveInt bytes intSize archiveVersion =
     rd_bind (if archiveVersion > K_VERS_1_0 then readByte bytes else rd_return 0) (\<lambda>sign.
     rd_bind (read_magnitude bytes intSize 0 0) (\<lambda>value.
     rd_return (if sign \<noteq> 0 then - value else value)))"

definition readArchiveString :: "byte list \<Rightarrow> nat \<Rightarrow> nat \<Rightarrow> text16 option reader" where
  "readArchiveString bytes intSize archiveVersion =
     rd_bind (readArchiveInt bytes intSize archiveVersion) (\<lambda>size.
     if size < 0 then rd_return None
     else if size > of_nat EXTERNAL_BACKUP_IMPORT_HEADER_SAMPLE_BYTES then
       rd_reject FormatUnreadable ''Archive header declares an implausibly long string''
     else (\<lambda>offset.
       let end_offset = offset + nat \<lfloor>size\<rfloor>
       in if end_offset > length bytes then
            Inl (FormatUnreadable, ''Artifact header ended inside an archive header string'')
          else Inr (Some (decode_utf8 (take (nat \<lfloor>size\<rfloor>) (drop offset bytes))), end_offset)))"

definition formatArchiveVersion :: "nat \<Rightarrow> nat \<Rightarrow> nat \<Rightarrow> string" where
  "formatArchiveVersion major minor revision =
     show_nat major @ ''.'' @ show_nat minor @ (if revision = 0 then [] else ''.'' @ show_nat revision)"

text \<open>\<open>/^\s*(\d{1,3})(?:[._].*)?\s*$/\<close>: the digits end where they do, and only white space follows, or a dot or an
  underscore and anything on one line before the white space at the end.\<close>

definition major_version_tail :: "text16 \<Rightarrow> bool" where
  "major_version_tail rest \<longleftrightarrow> list_all space_unit rest \<or>
     rest \<noteq> [] \<and> hd rest \<in> set (units ''._'') \<and>
     \<not> list_ex line_terminator (rev (dropWhile space_unit (rev rest)))"

definition parsePostgresMajorVersion :: "text16 \<Rightarrow> nat option" where
  "parsePostgresMajorVersion version =
     (let s = dropWhile space_unit version; digits = takeWhile digit_unit s; rest = dropWhile digit_unit s
      in if 1 \<le> length digits \<and> length digits \<le> 3 \<and> major_version_tail rest \<and> units_value digits > 0
         then Some (units_value digits) else None)"

text \<open>The fields of the header, in the order of the archive.\<close>

fun read_magic :: "byte list \<Rightarrow> string \<Rightarrow> unit reader" where
  "read_magic bytes [] = rd_return ()"
| "read_magic bytes (c # cs) =
     rd_bind (readByte bytes) (\<lambda>b.
       if b \<noteq> of_char c then rd_reject FormatMismatch
         ''Artifact does not start with the PGDMP signature of a pg_dump custom-format archive''
       else read_magic bytes cs)"

definition read_archive_version :: "byte list \<Rightarrow> (nat \<times> nat \<times> nat) reader" where
  "read_archive_version bytes =
     rd_bind (readByte bytes) (\<lambda>major.
     rd_bind (readByte bytes) (\<lambda>minor.
     rd_bind (if major > 1 \<or> (major = 1 \<and> minor > 0) then readByte bytes else rd_return 0) (\<lambda>revision.
     if makeArchiveVersion major minor revision > K_VERS_MAX then
       rd_reject EngineVersionIncompatible (''Archive format version '' @ formatArchiveVersion major minor revision
         @ '' is newer than this platform can read; re-dump with a pg_dump matching your destination version'')
     else rd_return (major, minor, revision))))"

definition read_int_size :: "byte list \<Rightarrow> nat reader" where
  "read_int_size bytes =
     rd_bind (readByte bytes) (\<lambda>intSize.
     if intSize < 1 \<or> intSize > 8 then
       rd_reject FormatUnreadable ''Archive header declares an unsupported integer width''
     else rd_return intSize)"

definition read_archive_format :: "byte list \<Rightarrow> nat \<Rightarrow> unit reader" where
  "read_archive_format bytes archiveVersion =
     rd_bind (if archiveVersion \<ge> K_VERS_1_7 then readByte bytes else rd_return 0) (\<lambda>_.
     rd_bind (readByte bytes) (\<lambda>archiveFormat.
     if archiveFormat \<noteq> PGDMP_FORMAT_CUSTOM then
       rd_reject FormatMismatch ''Archive is not in pg_dump custom format; re-dump with `pg_dump --format=custom`''
     else rd_return ()))"

definition read_compression :: "byte list \<Rightarrow> nat \<Rightarrow> nat \<Rightarrow> unit reader" where
  "read_compression bytes intSize archiveVersion =
     (if archiveVersion \<ge> K_VERS_1_15 then rd_bind (readByte bytes) (\<lambda>_. rd_return ())
      else if archiveVersion \<ge> K_VERS_1_2 then
        (if archiveVersion < K_VERS_1_4 then rd_bind (readByte bytes) (\<lambda>_. rd_return ())
         else rd_bind (readArchiveInt bytes intSize archiveVersion) (\<lambda>_. rd_return ()))
      else rd_return ())"

fun skip_ints :: "byte list \<Rightarrow> nat \<Rightarrow> nat \<Rightarrow> nat \<Rightarrow> unit reader" where
  "skip_ints bytes intSize archiveVersion 0 = rd_return ()"
| "skip_ints bytes intSize archiveVersion (Suc n) =
     rd_bind (readArchiveInt bytes intSize archiveVersion) (\<lambda>_. skip_ints bytes intSize archiveVersion n)"

definition read_source_database :: "byte list \<Rightarrow> nat \<Rightarrow> nat \<Rightarrow> text16 option reader" where
  "read_source_database bytes intSize archiveVersion =
     (if archiveVersion \<ge> K_VERS_1_4 then
        rd_bind (skip_ints bytes intSize archiveVersion 7) (\<lambda>_. readArchiveString bytes intSize archiveVersion)
      else rd_return None)"

definition read_versions :: "byte list \<Rightarrow> nat \<Rightarrow> nat \<Rightarrow> (text16 \<times> text16 option) reader" where
  "read_versions bytes intSize archiveVersion =
     (if archiveVersion < K_VERS_1_10 then
        rd_reject FormatUnreadable
          ''Archive predates PostgreSQL 9.2 and does not record the server version it was taken from, so compatibility with the destination cannot be verified''
      else
        rd_bind (readArchiveString bytes intSize archiveVersion) (\<lambda>sourceEngineVersion.
        rd_bind (readArchiveString bytes intSize archiveVersion) (\<lambda>dumpVersion.
        case sourceEngineVersion of
          Some v \<Rightarrow>
            if v \<noteq> [] \<and> parsePostgresMajorVersion v \<noteq> None then rd_return (v, dumpVersion)
            else rd_reject FormatUnreadable ''Archive header does not carry a readable source server version''
        | None \<Rightarrow> rd_reject FormatUnreadable ''Archive header does not carry a readable source server version'')))"

definition postgres_header_reader :: "byte list \<Rightarrow> postgres_header reader" where
  "postgres_header_reader bytes =
     rd_bind (read_magic bytes PGDMP_MAGIC) (\<lambda>_.
     rd_bind (read_archive_version bytes) (\<lambda>(major, minor, revision).
     let archiveVersion = makeArchiveVersion major minor revision in
     rd_bind (read_int_size bytes) (\<lambda>intSize.
     rd_bind (read_archive_format bytes archiveVersion) (\<lambda>_.
     rd_bind (read_compression bytes intSize archiveVersion) (\<lambda>_.
     rd_bind (read_source_database bytes intSize archiveVersion) (\<lambda>sourceDatabase.
     rd_bind (read_versions bytes intSize archiveVersion) (\<lambda>(sourceEngineVersion, dumpVersion).
     rd_return \<lparr>ph_archiveVersion = formatArchiveVersion major minor revision,
       ph_sourceEngineVersion = sourceEngineVersion, ph_dumpVersion = dumpVersion,
       ph_sourceDatabase = sourceDatabase\<rparr>)))))))"

definition parsePostgresCustomDumpHeader :: "byte list \<Rightarrow> rejection + artifact_header" where
  "parsePostgresCustomDumpHeader bytes =
     (case postgres_header_reader bytes 0 of Inl e \<Rightarrow> Inl e | Inr (h, _) \<Rightarrow> Inr (PostgresHeader h))"

section \<open>The header of a Redis snapshot\<close>

definition RDB_MAGIC :: string where "RDB_MAGIC = ''REDIS''"
definition RDB_MAGIC_LENGTH :: nat where "RDB_MAGIC_LENGTH = length RDB_MAGIC + 4"

fun rdb_digits :: "byte list \<Rightarrow> nat \<Rightarrow> nat option" where
  "rdb_digits [] version = Some version"
| "rdb_digits (d # ds) version =
     (if unat d < 48 \<or> unat d > 57 then None else rdb_digits ds (version * 10 + (unat d - 48)))"

definition parseRedisRdbHeader :: "byte list \<Rightarrow> rejection + artifact_header" where
  "parseRedisRdbHeader bytes =
     (if length bytes < RDB_MAGIC_LENGTH then Inl (FormatUnreadable, ''Artifact is too short to contain an RDB header'')
      else if map unat (take (length RDB_MAGIC) bytes) \<noteq> map of_char RDB_MAGIC then
        Inl (FormatMismatch, ''Artifact does not start with the REDIS signature of an RDB snapshot; an AOF file or a compressed RDB is not accepted'')
      else case rdb_digits (take 4 (drop (length RDB_MAGIC) bytes)) 0 of
        None \<Rightarrow> Inl (FormatUnreadable, ''RDB header does not carry a four-digit version'')
      | Some rdbVersion \<Rightarrow>
          if rdbVersion < 1 then Inl (FormatUnreadable, ''RDB header declares version 0'')
          else Inr (RedisHeader rdbVersion))"

definition parseExternalBackupArtifactHeader :: "import_format \<Rightarrow> byte list \<Rightarrow> rejection + artifact_header" where
  "parseExternalBackupArtifactHeader format bytes =
     (case format of PostgresCustomDump \<Rightarrow> parsePostgresCustomDumpHeader bytes | RedisRdb \<Rightarrow> parseRedisRdbHeader bytes)"

section \<open>Compatibility\<close>

text \<open>\<open>/^\s*(\d{1,3}(?:\.\d{1,3}){0,2})/\<close>.\<close>

definition digits3 :: "text16 \<Rightarrow> text16" where
  "digits3 s = takeWhile digit_unit (take 3 s)"

fun release_groups :: "nat \<Rightarrow> text16 \<Rightarrow> text16" where
  "release_groups 0 s = []"
| "release_groups (Suc n) s =
     (case s of
        [] \<Rightarrow> []
      | dot # t \<Rightarrow>
          if [dot] = units ''.'' \<and> digits3 t \<noteq> [] then dot # digits3 t @ release_groups n (drop (length (digits3 t)) t)
          else [])"

definition readPostgresReleaseVersion :: "text16 \<Rightarrow> text16 option" where
  "readPostgresReleaseVersion serverVersion =
     (let s = dropWhile space_unit serverVersion; ds = digits3 s
      in if ds = [] then None else Some (ds @ release_groups 2 (drop (length ds) s)))"

text \<open>
  The lookup in a record of the source finds its own keys and also the members every object inherits, which
  are no numbers.
\<close>

datatype rdb_limit = ReadableUpTo nat | InheritedMember

definition OBJECT_MEMBERS :: "string list" where
  "OBJECT_MEMBERS = [''constructor'', ''hasOwnProperty'', ''isPrototypeOf'', ''propertyIsEnumerable'', ''toLocaleString'',
     ''toString'', ''valueOf'', ''__proto__'', ''__defineGetter__'', ''__defineSetter__'', ''__lookupGetter__'',
     ''__lookupSetter__'']"

definition REDIS_MAX_READABLE_RDB_VERSION :: "(string \<times> nat) list" where
  "REDIS_MAX_READABLE_RDB_VERSION = [(''7.0'', 10), (''7.2'', 11), (''7.4'', 12)]"

definition getMaxReadableRdbVersion :: "string \<Rightarrow> rdb_limit option" where
  "getMaxReadableRdbVersion destinationVersion =
     (case map_of REDIS_MAX_READABLE_RDB_VERSION (trim destinationVersion) of
        Some n \<Rightarrow> Some (ReadableUpTo n)
      | None \<Rightarrow> if trim destinationVersion \<in> set OBJECT_MEMBERS then Some InheritedMember else None)"

definition hex_digit :: "char \<Rightarrow> bool" where
  "hex_digit c \<longleftrightarrow> is_digit c \<or> c \<in> set ''abcdef''"

definition isSha256Digest :: "string \<Rightarrow> bool" where
  "isSha256Digest value \<longleftrightarrow> length value = 64 \<and> list_all hex_digit value"

record artifact_observation =
  ao_sha256 :: string
  ao_sizeBytes :: jsnum
  ao_headerSample :: "byte list"

record artifact_declaration =
  ad_format :: import_format
  ad_sha256 :: string
  ad_sizeBytes :: jsnum

record import_destination =
  id_variant :: import_variant
  id_version :: string

definition MAX_SAFE_INTEGER :: int where "MAX_SAFE_INTEGER = 9007199254740991"

definition safe_integer :: "jsnum \<Rightarrow> int option" where
  "safe_integer n = (case n of
     Fin q \<Rightarrow> (case rat_int q of Some i \<Rightarrow> if \<bar>i\<bar> \<le> MAX_SAFE_INTEGER then Some i else None | None \<Rightarrow> None)
   | _ \<Rightarrow> None)"

text \<open>A verified artifact: its header and the release it came from.\<close>

definition verify_postgres :: "postgres_header \<Rightarrow> string \<Rightarrow> rejection + (artifact_header \<times> text16)" where
  "verify_postgres h destinationVersion =
     (case parsePostgresMajorVersion (ph_sourceEngineVersion h) of
        None \<Rightarrow> Inl (FormatUnreadable, ''Archive header does not carry a readable source server version'')
      | Some sourceMajor \<Rightarrow>
          (case parsePostgresMajorVersion (units destinationVersion) of
             None \<Rightarrow> Inl (EngineVersionIncompatible, ''Destination PostgreSQL version '' @ [CHR 0x22] @ destinationVersion
               @ [CHR 0x22] @ '' is not a recognized major version'')
           | Some destinationMajor \<Rightarrow>
               if sourceMajor > destinationMajor then
                 Inl (EngineVersionIncompatible, ''Archive was taken from PostgreSQL '' @ show_nat sourceMajor
                   @ ''; a dump cannot be restored into the older PostgreSQL '' @ show_nat destinationMajor
                   @ '' destination'')
               else Inr (PostgresHeader h, case readPostgresReleaseVersion (ph_sourceEngineVersion h) of
                 Some r \<Rightarrow> r | None \<Rightarrow> units (show_nat sourceMajor))))"

definition verify_redis :: "nat \<Rightarrow> string \<Rightarrow> rejection + (artifact_header \<times> text16)" where
  "verify_redis rdbVersion destinationVersion =
     (case getMaxReadableRdbVersion destinationVersion of
        None \<Rightarrow> Inl (EngineVersionIncompatible, ''Destination Redis version '' @ [CHR 0x22] @ destinationVersion
          @ [CHR 0x22] @ '' has no recorded RDB compatibility range'')
      | Some InheritedMember \<Rightarrow> Inr (RedisHeader rdbVersion, units (''rdb-'' @ show_nat rdbVersion))
      | Some (ReadableUpTo maxReadable) \<Rightarrow>
          if rdbVersion > maxReadable then
            Inl (EngineVersionIncompatible, ''Snapshot uses RDB version '' @ show_nat rdbVersion @ ''; Redis ''
              @ destinationVersion @ '' reads up to RDB version '' @ show_nat maxReadable)
          else Inr (RedisHeader rdbVersion, units (''rdb-'' @ show_nat rdbVersion)))"

definition integrity_problem :: "artifact_declaration \<Rightarrow> artifact_observation \<Rightarrow> string option" where
  "integrity_problem declared observed =
     (if \<not> isSha256Digest (ad_sha256 declared) then Some ''Registered digest is not a SHA-256 hex digest''
      else if \<not> isSha256Digest (ao_sha256 observed) then Some ''Artifact digest was not reported as a SHA-256 hex digest''
      else if ao_sha256 observed \<noteq> ad_sha256 declared then
        Some ''Uploaded artifact does not match the SHA-256 digest registered for this import''
      else case safe_integer (ao_sizeBytes observed) of
        None \<Rightarrow> Some ''Artifact size was not reported as a positive byte count''
      | Some n \<Rightarrow>
          if n \<le> 0 then Some ''Artifact size was not reported as a positive byte count''
          else if ao_sizeBytes observed \<noteq> ad_sizeBytes declared then
            Some ''Uploaded artifact does not match the byte count registered for this import''
          else None)"

definition verifyExternalBackupArtifact ::
    "artifact_declaration \<Rightarrow> artifact_observation \<Rightarrow> import_destination \<Rightarrow> rejection + (artifact_header \<times> text16)" where
  "verifyExternalBackupArtifact declared observed destination =
     (case integrity_problem declared observed of
        Some message \<Rightarrow> Inl (IntegrityMismatch, message)
      | None \<Rightarrow>
          if EXTERNAL_BACKUP_IMPORT_VARIANT_BY_FORMAT (ad_format declared) \<noteq> id_variant destination then
            Inl (FormatMismatch, ''A '' @ format_text (ad_format declared) @ '' artifact cannot be imported into a ''
              @ variant_text (id_variant destination) @ '' service'')
          else case parseExternalBackupArtifactHeader (ad_format declared) (ao_headerSample observed) of
            Inl e \<Rightarrow> Inl e
          | Inr (PostgresHeader h) \<Rightarrow> verify_postgres h (id_version destination)
          | Inr (RedisHeader v) \<Rightarrow> verify_redis v (id_version destination))"

end
