(* ===== verification/Backup_Receipt.thy ===== *)
theory Backup_Receipt
  imports Backup_Import
begin

text \<open>
  The work contract of an import in \<open>packages/runtime/src/external-backup-import.ts\<close>: what is queued, and the
  receipt the agent reports. A receipt is an untyped value.
\<close>

text \<open>The fields of a queued payload that the receipt is checked against.\<close>

record import_payload =
  ip_variant :: import_variant
  ip_version :: string
  ip_importId :: string
  ip_format :: import_format
  ip_artifactSha256 :: string
  ip_artifactSizeBytes :: jsnum
  ip_targetVolumeId :: string
  ip_targetVolumeName :: string

definition QUEUED_FIELDS :: "string list" where
  "QUEUED_FIELDS = [''projectId'', ''serviceId'', ''serviceName'', ''variant'', ''version'', ''importId'', ''format'',
     ''artifactSha256'', ''artifactSizeBytes'', ''objectKey'', ''sourceVolumeId'', ''sourceVolumeName'',
     ''targetVolumeId'', ''targetVolumeName'', ''targetMountPath'', ''destination'']"

definition buildQueuedImportExternalBackupPayload :: "(string \<times> json) list \<Rightarrow> (string \<times> json) list" where
  "buildQueuedImportExternalBackupPayload inp = map (\<lambda>k. (k, jprop inp k)) QUEUED_FIELDS"

definition EXTERNAL_BACKUP_IMPORT_VALIDATION_METHODS :: "string list" where
  "EXTERNAL_BACKUP_IMPORT_VALIDATION_METHODS = [''postgres-startup-sql-read'', ''redis-load-ping'']"

definition readString :: "(string \<times> json) list \<Rightarrow> string \<Rightarrow> string option" where
  "readString r k = (case json_str (jprop r k) of Some s \<Rightarrow> if s = [] then None else Some s | None \<Rightarrow> None)"

definition readCount :: "(string \<times> json) list \<Rightarrow> string \<Rightarrow> jsnum option" where
  "readCount r k = (case jprop r k of
     JNum n \<Rightarrow> (case safe_integer n of Some i \<Rightarrow> if i \<ge> 0 then Some n else None | None \<Rightarrow> None)
   | _ \<Rightarrow> None)"

definition expected_method :: "import_variant \<Rightarrow> string" where
  "expected_method v = (case v of PostgresVariant \<Rightarrow> ''postgres-startup-sql-read'' | RedisVariant \<Rightarrow> ''redis-load-ping'')"

fun isValidExternalBackupImportProof :: "import_payload \<Rightarrow> json \<Rightarrow> bool" where
  "isValidExternalBackupImportProof payload (JObj r) \<longleftrightarrow>
     jprop r ''version'' = jint 1 \<and>
     readString r ''importId'' = Some (ip_importId payload) \<and>
     readString r ''format'' = Some (format_text (ip_format payload)) \<and>
     readString r ''targetVolumeId'' = Some (ip_targetVolumeId payload) \<and>
     readString r ''targetVolumeName'' = Some (ip_targetVolumeName payload) \<and>
     readString r ''artifactSha256'' = Some (ip_artifactSha256 payload) \<and>
     readCount r ''artifactSizeBytes'' = Some (ip_artifactSizeBytes payload) \<and>
     readString r ''destinationVariant'' = Some (variant_text (ip_variant payload)) \<and>
     readString r ''destinationVersion'' = Some (ip_version payload) \<and>
     readString r ''sourceEngineVersion'' \<noteq> None \<and>
     jprop r ''digestVerified'' = JBool True \<and>
     jprop r ''headerVerified'' = JBool True \<and>
     jprop r ''isolatedDatabaseStarted'' = JBool True \<and>
     readString r ''validationMethod'' = Some (expected_method (ip_variant payload)) \<and>
     readString r ''validatedAt'' \<noteq> None"
| "isValidExternalBackupImportProof payload _ \<longleftrightarrow> False"

section \<open>The vocabulary of a receipt\<close>

text \<open>\<open>/^\d{1,3}(?:\.\d{1,3}){0,2}$/\<close> and \<open>/^rdb-\d{1,4}$/\<close>.\<close>

definition short_number :: "nat \<Rightarrow> text16 \<Rightarrow> bool" where
  "short_number n ds \<longleftrightarrow> ds \<noteq> [] \<and> length ds \<le> n \<and> list_all digit_unit ds"

definition ENGINE_RELEASE_VERSION_PATTERN :: "text16 \<Rightarrow> bool" where
  "ENGINE_RELEASE_VERSION_PATTERN v \<longleftrightarrow>
     (let groups = split_on (hd (units ''.'')) v in length groups \<le> 3 \<and> list_all (short_number 3) groups)"

definition RDB_SOURCE_VERSION_PATTERN :: "text16 \<Rightarrow> bool" where
  "RDB_SOURCE_VERSION_PATTERN v \<longleftrightarrow> take 4 v = units ''rdb-'' \<and> short_number 4 (drop 4 v)"

definition EXTERNAL_BACKUP_IMPORT_PROOF_VOCABULARY :: "(string \<times> (string \<Rightarrow> bool)) list" where
  "EXTERNAL_BACKUP_IMPORT_PROOF_VOCABULARY =
     [(''format'', \<lambda>v. isExternalBackupImportFormat (JStr v)),
      (''destinationVariant'', \<lambda>v. v \<in> set (map variant_text [PostgresVariant, RedisVariant])),
      (''validationMethod'', \<lambda>v. v \<in> set EXTERNAL_BACKUP_IMPORT_VALIDATION_METHODS),
      (''destinationVersion'', \<lambda>v. ENGINE_RELEASE_VERSION_PATTERN (units v)),
      (''sourceEngineVersion'', \<lambda>v. ENGINE_RELEASE_VERSION_PATTERN (units v) \<or> RDB_SOURCE_VERSION_PATTERN (units v))]"

definition collectExternalBackupImportProofVocabularyFields :: "(string \<times> json) list \<Rightarrow> (string \<times> string) list" where
  "collectExternalBackupImportProofVocabularyFields proof_fields =
     List.map_filter (\<lambda>(key, isVocabulary). case map_of proof_fields key of
         Some (JStr v) \<Rightarrow> if isVocabulary v then Some (key, v) else None
       | _ \<Rightarrow> None) EXTERNAL_BACKUP_IMPORT_PROOF_VOCABULARY"

definition supportsExternalBackupImport :: "json \<Rightarrow> bool" where
  "supportsExternalBackupImport capabilities \<longleftrightarrow>
     (case capabilities of JObj r \<Rightarrow> jprop r ''externalBackupImportV1'' = JBool True | _ \<Rightarrow> False)"

end
