(* ===== verification/Backup_Props.thy ===== *)
theory Backup_Props
  imports Backup_Receipt
begin

text \<open>
  What a verified artifact is known to be, and that the header \<open>pg_dump\<close> writes is read back whatever its
  layout version and integer width.
\<close>

section \<open>Readers and the bytes they take\<close>

text \<open>\<open>takes m chunk x\<close>: wherever \<open>chunk\<close> stands, the reader consumes exactly it and gives \<open>x\<close>.\<close>

definition takes :: "(byte list \<Rightarrow> 'a reader) \<Rightarrow> byte list \<Rightarrow> 'a \<Rightarrow> bool" where
  "takes m chunk x \<longleftrightarrow> (\<forall>pre post. m (pre @ chunk @ post) (length pre) = Inr (x, length pre + length chunk))"

named_theorems takes_rules

lemma takes_return [takes_rules]: "takes (\<lambda>_. rd_return x) [] x"
  by (simp add: takes_def rd_return_def)

lemma takes_byte [takes_rules]: "takes readByte [b] (unat b)"
  by (simp add: takes_def readByte_def nth_append)

lemma takes_bind:
  assumes m: "takes m c1 x" and f: "takes (\<lambda>bs. f bs x) c2 y"
  shows "takes (\<lambda>bs. rd_bind (m bs) (f bs)) (c1 @ c2) y"
  unfolding takes_def
proof (intro allI)
  fix pre post :: "byte list"
  have "m (pre @ (c1 @ c2) @ post) (length pre) = Inr (x, length (pre @ c1))"
    using m by (simp add: takes_def)
  moreover have "f (pre @ (c1 @ c2) @ post) x (length (pre @ c1)) = Inr (y, length (pre @ c1) + length c2)"
    using f [unfolded takes_def, rule_format, of "pre @ c1" post] by simp
  ultimately show "rd_bind (m (pre @ (c1 @ c2) @ post)) (f (pre @ (c1 @ c2) @ post)) (length pre) =
      Inr (y, length pre + length (c1 @ c2))" by (simp add: rd_bind_def)
qed

lemma takes_if [takes_rules]:
  "(c \<Longrightarrow> takes m chunk x) \<Longrightarrow> (\<not> c \<Longrightarrow> takes n chunk x) \<Longrightarrow> takes (\<lambda>bs. if c then m bs else n bs) chunk x"
  by (cases c) simp_all

section \<open>Integers and strings of an archive\<close>

fun le_value :: "byte list \<Rightarrow> nat" where
  "le_value [] = 0"
| "le_value (d # ds) = unat d + 256 * le_value ds"

fun le_bytes :: "nat \<Rightarrow> nat \<Rightarrow> byte list" where
  "le_bytes 0 n = []"
| "le_bytes (Suc k) n = word_of_nat (n mod 256) # le_bytes k (n div 256)"

lemma length_le_bytes [simp]: "length (le_bytes k n) = k"
  by (induction k arbitrary: n) simp_all

lemma le_value_bytes: "n < 256 ^ k \<Longrightarrow> le_value (le_bytes k n) = n"
proof (induction k arbitrary: n)
  case (Suc k)
  then have "n div 256 < 256 ^ k" by (simp add: less_mult_imp_div_less mult.commute)
  with Suc.IH have "le_value (le_bytes k (n div 256)) = n div 256" by simp
  moreover have "unat (word_of_nat (n mod 256) :: byte) = n mod 256" by (simp add: unat_of_nat)
  ultimately show ?case by simp
qed simp

lemma takes_magnitude:
  assumes "v + 256 ^ i * le_value ds < 2 ^ 53"
  shows "takes (\<lambda>bs. read_magnitude bs (length ds) i (of_nat v)) ds (of_nat (v + 256 ^ i * le_value ds))"
  using assms
proof (induction ds arbitrary: i v)
  case Nil
  then show ?case by (simp add: takes_return)
next
  case (Cons d ds)
  let ?v = "v + unat d * 256 ^ i"
  have sum: "v + 256 ^ i * le_value (d # ds) = ?v + 256 ^ Suc i * le_value ds" by (simp add: algebra_simps)
  with Cons.prems have small: "?v < 2 ^ 53" by linarith
  have pow: "(2 :: rat) ^ (8 * i) = of_nat (256 ^ i)" by (simp add: power_mult)
  have "fl_add (of_nat v) (of_nat (unat d) * 2 ^ (8 * i)) = to_double (of_int (int ?v))"
    unfolding fl_add_def pow by simp
  also have "\<dots> = of_nat ?v" using small by (subst to_double_of_int) (simp_all del: of_nat_add of_nat_mult)
  finally have step: "fl_add (of_nat v) (of_nat (unat d) * 2 ^ (8 * i)) = of_nat ?v" .
  have rest: "takes (\<lambda>bs. read_magnitude bs (length ds) (Suc i) (fl_add (of_nat v) (of_nat (unat d) * 2 ^ (8 * i)))) ds
      (of_nat (?v + 256 ^ Suc i * le_value ds))"
    unfolding step by (rule Cons.IH) (use Cons.prems sum in linarith)
  have "takes (\<lambda>bs. rd_bind (readByte bs) (\<lambda>b. read_magnitude bs (length ds) (Suc i)
      (fl_add (of_nat v) (of_nat b * 2 ^ (8 * i))))) ([d] @ ds) (of_nat (?v + 256 ^ Suc i * le_value ds))"
    by (rule takes_bind [OF takes_byte]) (rule rest)
  then show ?case unfolding sum by (simp only: length_Cons read_magnitude.simps append.simps)
qed

text \<open>Any integer is skipped; a size that is not negative is read exactly.\<close>

lemma magnitude_total: "\<exists>x. takes (\<lambda>bs. read_magnitude bs (length ds) i v) ds x"
proof (induction ds arbitrary: i v)
  case Nil
  show ?case by (auto intro: takes_return)
next
  case (Cons d ds)
  obtain x where "takes (\<lambda>bs. read_magnitude bs (length ds) (Suc i) (fl_add v (of_nat (unat d) * 2 ^ (8 * i)))) ds x"
    using Cons.IH by blast
  then show ?case
    using takes_bind [OF takes_byte [of d], of "\<lambda>bs b. read_magnitude bs (length ds) (Suc i)
      (fl_add v (of_nat b * 2 ^ (8 * i)))" ds x] by auto
qed

lemma takes_int:
  assumes "av > K_VERS_1_0" and "n < 256 ^ k" and "n < 2 ^ 53"
  shows "takes (\<lambda>bs. readArchiveInt bs k av) (0 # le_bytes k n) (of_nat n)"
proof -
  have "takes (\<lambda>bs. read_magnitude bs k 0 0) (le_bytes k n) (of_nat n)"
    using takes_magnitude [of 0 0 "le_bytes k n"] assms by (simp add: le_value_bytes)
  then have "takes (\<lambda>bs. rd_bind (read_magnitude bs k 0 0) (\<lambda>value. rd_return (if (0 :: nat) \<noteq> 0 then - value else value)))
      (le_bytes k n @ []) (of_nat n)"
    by (rule takes_bind) (simp add: takes_return)
  from takes_bind [OF takes_byte [of 0], of "\<lambda>bs sign. rd_bind (read_magnitude bs k 0 0)
      (\<lambda>value. rd_return (if sign \<noteq> 0 then - value else value))", OF _] this
  show ?thesis using assms(1) by (simp add: readArchiveInt_def)
qed

lemma takes_any_int:
  assumes "av > K_VERS_1_0" and "length ds = k"
  shows "\<exists>x. takes (\<lambda>bs. readArchiveInt bs k av) (s # ds) x"
proof -
  obtain v where "takes (\<lambda>bs. read_magnitude bs k 0 0) ds v" using magnitude_total [of ds 0 0] assms(2) by auto
  then have "takes (\<lambda>bs. rd_bind (read_magnitude bs k 0 0) (\<lambda>value. rd_return (if unat s \<noteq> 0 then - value else value)))
      (ds @ []) (if unat s \<noteq> 0 then - v else v)"
    by (rule takes_bind) (rule takes_return)
  with takes_bind [OF takes_byte [of s], of "\<lambda>bs sign. rd_bind (read_magnitude bs k 0 0)
      (\<lambda>value. rd_return (if sign \<noteq> 0 then - value else value))"] assms(1)
  show ?thesis by (fastforce simp: readArchiveInt_def)
qed

text \<open>What \<open>pg_dump\<close> writes for a string of ASCII bytes, and any seven integers.\<close>

definition archive_string :: "nat \<Rightarrow> byte list \<Rightarrow> byte list" where
  "archive_string k s = 0 # le_bytes k (length s) @ s"

definition ascii_text :: "byte list \<Rightarrow> text16" where
  "ascii_text s = map (\<lambda>b. word_of_nat (unat b)) s"

definition string_fits :: "nat \<Rightarrow> byte list \<Rightarrow> bool" where
  "string_fits k s \<longleftrightarrow> list_all (\<lambda>b. b < 0x80) s \<and> length s < 256 ^ k \<and> length s \<le> 8192"

lemma takes_string:
  assumes "av > K_VERS_1_0" and "string_fits k s"
  shows "takes (\<lambda>bs. readArchiveString bs k av) (archive_string k s) (Some (ascii_text s))"
proof -
  have i: "takes (\<lambda>bs. readArchiveInt bs k av) (0 # le_bytes k (length s)) (of_nat (length s))"
    using assms by (intro takes_int) (simp_all add: string_fits_def)
  have n: "nat \<lfloor>of_nat (length s) :: rat\<rfloor> = length s" by simp
  have small: "\<not> (of_nat (length s) :: rat) < 0" "\<not> (of_nat (length s) :: rat) > of_nat EXTERNAL_BACKUP_IMPORT_HEADER_SAMPLE_BYTES"
    using assms(2) by (simp_all add: string_fits_def EXTERNAL_BACKUP_IMPORT_HEADER_SAMPLE_BYTES_def)
  have "takes (\<lambda>bs. readArchiveString bs k av) ((0 # le_bytes k (length s)) @ s) (Some (ascii_text s))"
    unfolding readArchiveString_def
    by (rule takes_bind [OF i])
      (use assms(2) small in \<open>simp add: takes_def n Let_def decode_utf8_ascii string_fits_def ascii_text_def\<close>)
  then show ?thesis by (simp add: archive_string_def)
qed

lemma takes_skip:
  assumes "av > K_VERS_1_0" and "list_all (\<lambda>ds. length ds = Suc k) blocks"
  shows "takes (\<lambda>bs. skip_ints bs k av (length blocks)) (concat blocks) ()"
  using assms(2)
proof (induction blocks)
  case Nil
  show ?case by (simp add: takes_return)
next
  case (Cons block blocks)
  then obtain s ds where b: "block = s # ds" "length ds = k" by (cases block) auto
  obtain x where "takes (\<lambda>bs. readArchiveInt bs k av) (s # ds) x" using takes_any_int [OF assms(1) b(2)] by blast
  from takes_bind [OF this, of "\<lambda>bs _. skip_ints bs k av (length blocks)"] Cons b show ?case by simp
qed

section \<open>The header pg_dump writes\<close>

record dump_layout =
  dl_minor :: nat
  dl_revision :: nat
  dl_intSize :: nat
  dl_offsetSize :: byte
  dl_compression :: "byte list"
  dl_stamp :: "byte list list"
  dl_database :: "byte list"
  dl_server :: "byte list"
  dl_dump :: "byte list"

definition dl_version :: "dump_layout \<Rightarrow> nat" where
  "dl_version l = makeArchiveVersion 1 (dl_minor l) (dl_revision l)"

definition magic_bytes :: "string \<Rightarrow> byte list" where
  "magic_bytes s = map (\<lambda>c. word_of_nat (of_char c)) s"

definition custom_dump :: "dump_layout \<Rightarrow> byte list" where
  "custom_dump l = magic_bytes PGDMP_MAGIC @
     ([word_of_nat 1] @ [word_of_nat (dl_minor l)] @ [word_of_nat (dl_revision l)] @ []) @
     ([word_of_nat (dl_intSize l)] @ []) @ ([dl_offsetSize l] @ [word_of_nat 1] @ []) @ dl_compression l @
     (concat (dl_stamp l) @ archive_string (dl_intSize l) (dl_database l)) @
     (archive_string (dl_intSize l) (dl_server l) @ archive_string (dl_intSize l) (dl_dump l)) @ []"

definition layout_ok :: "dump_layout \<Rightarrow> bool" where
  "layout_ok l \<longleftrightarrow> 10 \<le> dl_minor l \<and> (dl_minor l < 16 \<and> dl_revision l < 256 \<or> dl_minor l = 16 \<and> dl_revision l = 0) \<and>
     1 \<le> dl_intSize l \<and> dl_intSize l \<le> 8 \<and>
     length (dl_compression l) = (if dl_minor l \<ge> 15 then 1 else Suc (dl_intSize l)) \<and>
     length (dl_stamp l) = 7 \<and> list_all (\<lambda>ds. length ds = Suc (dl_intSize l)) (dl_stamp l) \<and>
     string_fits (dl_intSize l) (dl_database l) \<and> string_fits (dl_intSize l) (dl_server l) \<and>
     string_fits (dl_intSize l) (dl_dump l)"

lemmas archive_versions = makeArchiveVersion_def K_VERS_1_0_def K_VERS_1_2_def K_VERS_1_4_def K_VERS_1_7_def
  K_VERS_1_10_def K_VERS_1_15_def K_VERS_MAX_def

lemma layout_version:
  assumes "layout_ok l"
  shows "dl_version l > K_VERS_1_0" "dl_version l \<ge> K_VERS_1_2" "dl_version l \<ge> K_VERS_1_4" "dl_version l \<ge> K_VERS_1_7"
    "dl_version l \<ge> K_VERS_1_10" "dl_version l \<le> K_VERS_MAX" "dl_version l \<ge> K_VERS_1_15 \<longleftrightarrow> dl_minor l \<ge> 15"
    "dl_minor l < 256" "dl_revision l < 256" "dl_intSize l < 256"
  using assms by (auto simp: layout_ok_def dl_version_def archive_versions)

lemma takes_magic: "takes (\<lambda>bs. read_magic bs cs) (magic_bytes cs) ()"
proof (induction cs)
  case Nil
  show ?case by (simp add: takes_return magic_bytes_def)
next
  case (Cons c cs)
  have c: "unat (word_of_nat (of_char c) :: byte) = of_char c" by (simp add: unat_of_nat)
  have "takes (\<lambda>bs. rd_bind (readByte bs) (\<lambda>b. if b \<noteq> of_char c then rd_reject FormatMismatch
      ''Artifact does not start with the PGDMP signature of a pg_dump custom-format archive'' else read_magic bs cs))
      ([word_of_nat (of_char c)] @ magic_bytes cs) ()"
    by (rule takes_bind [OF takes_byte]) (use Cons c in simp)
  then show ?case by (simp add: magic_bytes_def)
qed

lemma takes_byte_nat: "n < 256 \<Longrightarrow> takes readByte [word_of_nat n] n"
  using takes_byte [of "word_of_nat n"] by (simp add: unat_of_nat)

lemma takes_version:
  assumes "layout_ok l"
  shows "takes read_archive_version ([word_of_nat 1] @ [word_of_nat (dl_minor l)] @ [word_of_nat (dl_revision l)] @ [])
    (1, dl_minor l, dl_revision l)"
proof -
  note v = layout_version [OF assms]
  have ok: "\<not> makeArchiveVersion 1 (dl_minor l) (dl_revision l) > K_VERS_MAX" using v(6) by (simp add: dl_version_def)
  have m: "0 < dl_minor l" using assms by (simp add: layout_ok_def)
  have end1: "takes (\<lambda>bs. if makeArchiveVersion 1 (dl_minor l) (dl_revision l) > K_VERS_MAX then
      rd_reject EngineVersionIncompatible (''Archive format version '' @ formatArchiveVersion 1 (dl_minor l) (dl_revision l)
        @ '' is newer than this platform can read; re-dump with a pg_dump matching your destination version'')
      else rd_return (1, dl_minor l, dl_revision l)) [] (1, dl_minor l, dl_revision l)"
    using ok by (simp add: takes_return)
  have revision: "takes (\<lambda>bs. if 1 > (1 :: nat) \<or> ((1 :: nat) = 1 \<and> dl_minor l > 0) then readByte bs else rd_return 0)
      [word_of_nat (dl_revision l)] (dl_revision l)"
    using m takes_byte_nat [OF v(9)] by simp
  show ?thesis
    unfolding read_archive_version_def
    by (rule takes_bind [OF takes_byte_nat], simp, rule takes_bind [OF takes_byte_nat [OF v(8)]],
        rule takes_bind [OF revision], rule end1)
qed

lemma takes_int_size:
  assumes "layout_ok l"
  shows "takes read_int_size ([word_of_nat (dl_intSize l)] @ []) (dl_intSize l)"
proof -
  have "\<not> (dl_intSize l < 1 \<or> dl_intSize l > 8)" using assms by (auto simp: layout_ok_def)
  then have "takes (\<lambda>bs. if dl_intSize l < 1 \<or> dl_intSize l > 8 then
      rd_reject FormatUnreadable ''Archive header declares an unsupported integer width''
      else rd_return (dl_intSize l)) [] (dl_intSize l)" by (simp only: if_False takes_return)
  then show ?thesis
    unfolding read_int_size_def by (rule takes_bind [OF takes_byte_nat [OF layout_version(10) [OF assms]]])
qed

lemma takes_format:
  assumes "layout_ok l"
  shows "takes (\<lambda>bs. read_archive_format bs (dl_version l)) ([dl_offsetSize l] @ [word_of_nat 1] @ []) ()"
proof -
  have offset_size: "takes (\<lambda>bs. if dl_version l \<ge> K_VERS_1_7 then readByte bs else rd_return 0) [dl_offsetSize l]
      (unat (dl_offsetSize l))"
    using layout_version(4) [OF assms] by (simp add: takes_byte)
  have end1: "takes (\<lambda>bs. if (1 :: nat) \<noteq> PGDMP_FORMAT_CUSTOM then
      rd_reject FormatMismatch ''Archive is not in pg_dump custom format; re-dump with `pg_dump --format=custom`''
      else rd_return ()) [] ()"
    by (simp add: PGDMP_FORMAT_CUSTOM_def takes_return)
  show ?thesis
    unfolding read_archive_format_def
    by (rule takes_bind [OF offset_size], rule takes_bind [OF takes_byte_nat], simp, rule end1)
qed

lemma takes_compression:
  assumes "layout_ok l"
  shows "takes (\<lambda>bs. read_compression bs (dl_intSize l) (dl_version l)) (dl_compression l) ()"
proof (cases "dl_minor l \<ge> 15")
  case True
  with assms obtain b where b: "dl_compression l = [b]" by (auto simp: layout_ok_def length_Suc_conv)
  have "takes (\<lambda>bs. rd_bind (readByte bs) (\<lambda>_. rd_return ())) ([b] @ []) ()"
    by (rule takes_bind [OF takes_byte]) (rule takes_return)
  with True b layout_version [OF assms] show ?thesis by (simp add: read_compression_def)
next
  case False
  with assms obtain b ds where b: "dl_compression l = b # ds" "length ds = dl_intSize l"
    by (auto simp: layout_ok_def length_Suc_conv)
  obtain x where x: "takes (\<lambda>bs. readArchiveInt bs (dl_intSize l) (dl_version l)) (b # ds) x"
    using takes_any_int [OF layout_version(1) [OF assms] b(2)] by blast
  have "takes (\<lambda>bs. rd_bind (readArchiveInt bs (dl_intSize l) (dl_version l)) (\<lambda>_. rd_return ())) ((b # ds) @ []) ()"
    by (rule takes_bind [OF x]) (rule takes_return)
  moreover have "\<not> dl_version l < K_VERS_1_4" "\<not> dl_version l \<ge> K_VERS_1_15" "dl_version l \<ge> K_VERS_1_2"
    using False layout_version [OF assms] by auto
  ultimately show ?thesis using b by (simp add: read_compression_def)
qed

lemma takes_database:
  assumes "layout_ok l"
  shows "takes (\<lambda>bs. read_source_database bs (dl_intSize l) (dl_version l))
    (concat (dl_stamp l) @ archive_string (dl_intSize l) (dl_database l)) (Some (ascii_text (dl_database l)))"
proof -
  note v = layout_version [OF assms]
  have "takes (\<lambda>bs. skip_ints bs (dl_intSize l) (dl_version l) 7) (concat (dl_stamp l)) ()"
    using takes_skip [OF v(1), of "dl_intSize l" "dl_stamp l"] assms by (simp add: layout_ok_def)
  then have "takes (\<lambda>bs. rd_bind (skip_ints bs (dl_intSize l) (dl_version l) 7)
      (\<lambda>_. readArchiveString bs (dl_intSize l) (dl_version l)))
    (concat (dl_stamp l) @ archive_string (dl_intSize l) (dl_database l)) (Some (ascii_text (dl_database l)))"
    by (rule takes_bind) (use assms in \<open>simp add: takes_string [OF v(1)] layout_ok_def\<close>)
  then show ?thesis using v(3) by (simp add: read_source_database_def)
qed

lemma takes_versions:
  assumes "layout_ok l" and "parsePostgresMajorVersion (ascii_text (dl_server l)) \<noteq> None"
  shows "takes (\<lambda>bs. read_versions bs (dl_intSize l) (dl_version l))
    (archive_string (dl_intSize l) (dl_server l) @ archive_string (dl_intSize l) (dl_dump l))
    (ascii_text (dl_server l), Some (ascii_text (dl_dump l)))"
proof -
  note v = layout_version [OF assms(1)]
  let ?check = "\<lambda>sv dump. case sv of
      Some v \<Rightarrow> if v \<noteq> [] \<and> parsePostgresMajorVersion v \<noteq> None then rd_return (v, dump)
        else rd_reject FormatUnreadable ''Archive header does not carry a readable source server version''
    | None \<Rightarrow> rd_reject FormatUnreadable ''Archive header does not carry a readable source server version''"
  have sv: "takes (\<lambda>bs. readArchiveString bs (dl_intSize l) (dl_version l)) (archive_string (dl_intSize l) (dl_server l))
      (Some (ascii_text (dl_server l)))"
    and dv: "takes (\<lambda>bs. readArchiveString bs (dl_intSize l) (dl_version l)) (archive_string (dl_intSize l) (dl_dump l))
      (Some (ascii_text (dl_dump l)))"
    using assms(1) by (simp_all add: takes_string [OF v(1)] layout_ok_def)
  have "ascii_text (dl_server l) \<noteq> []" using assms(2) by (auto simp: parsePostgresMajorVersion_def)
  then have c: "takes (\<lambda>bs. ?check (Some (ascii_text (dl_server l))) (Some (ascii_text (dl_dump l)))) []
      (ascii_text (dl_server l), Some (ascii_text (dl_dump l)))"
    using assms(2) by (simp add: takes_return)
  have "takes (\<lambda>bs. rd_bind (readArchiveString bs (dl_intSize l) (dl_version l)) (\<lambda>sv.
      rd_bind (readArchiveString bs (dl_intSize l) (dl_version l)) (?check sv)))
      (archive_string (dl_intSize l) (dl_server l) @ archive_string (dl_intSize l) (dl_dump l) @ [])
      (ascii_text (dl_server l), Some (ascii_text (dl_dump l)))"
    by (rule takes_bind [OF sv], rule takes_bind [OF dv], rule c)
  then show ?thesis using v(5) by (simp add: read_versions_def)
qed

lemma takes_header:
  assumes "layout_ok l" and "parsePostgresMajorVersion (ascii_text (dl_server l)) \<noteq> None"
  shows "takes postgres_header_reader (custom_dump l) \<lparr>ph_archiveVersion = formatArchiveVersion 1 (dl_minor l) (dl_revision l),
    ph_sourceEngineVersion = ascii_text (dl_server l), ph_dumpVersion = Some (ascii_text (dl_dump l)),
    ph_sourceDatabase = Some (ascii_text (dl_database l))\<rparr>"
  unfolding custom_dump_def postgres_header_reader_def
  by (rule takes_bind [OF takes_magic], rule takes_bind [OF takes_version [OF assms(1)]],
      unfold prod.case Let_def, fold dl_version_def, rule takes_bind [OF takes_int_size [OF assms(1)]],
      rule takes_bind [OF takes_format [OF assms(1)]], rule takes_bind [OF takes_compression [OF assms(1)]],
      rule takes_bind [OF takes_database [OF assms(1)]], rule takes_bind [OF takes_versions [OF assms]],
      unfold prod.case, rule takes_return)

text \<open>C40 The header \<open>pg_dump\<close> writes is read back: for every archive version from 1.10 to 1.16, whatever the integer
  width, compression field and creation time, an archive of ASCII names and versions that fit the sample
  is parsed to exactly those, whatever follows the header.\<close>

theorem dump_header_roundtrip:
  assumes "layout_ok l" and "parsePostgresMajorVersion (ascii_text (dl_server l)) \<noteq> None"
  shows "parsePostgresCustomDumpHeader (custom_dump l @ data) = Inr (PostgresHeader
    \<lparr>ph_archiveVersion = formatArchiveVersion 1 (dl_minor l) (dl_revision l),
      ph_sourceEngineVersion = ascii_text (dl_server l), ph_dumpVersion = Some (ascii_text (dl_dump l)),
      ph_sourceDatabase = Some (ascii_text (dl_database l))\<rparr>)"
  using takes_header [OF assms, unfolded takes_def, rule_format, of "[]" data]
  by (simp add: parsePostgresCustomDumpHeader_def)

definition sample_layout :: dump_layout where
  "sample_layout = \<lparr>dl_minor = 16, dl_revision = 0, dl_intSize = 4, dl_offsetSize = 8, dl_compression = [0],
     dl_stamp = replicate 7 [0, 9, 0, 0, 0], dl_database = magic_bytes ''shop'', dl_server = magic_bytes ''16.4'',
     dl_dump = magic_bytes ''17.0''\<rparr>"

lemma dump_header_roundtrip_witness:
  "parsePostgresCustomDumpHeader (custom_dump sample_layout @ [7]) = Inr (PostgresHeader
    \<lparr>ph_archiveVersion = ''1.16'', ph_sourceEngineVersion = units ''16.4'', ph_dumpVersion = Some (units ''17.0''),
      ph_sourceDatabase = Some (units ''shop'')\<rparr>)"
proof -
  have "layout_ok sample_layout"
    by (simp add: layout_ok_def sample_layout_def string_fits_def magic_bytes_def list_all_iff)
  moreover have "parsePostgresMajorVersion (ascii_text (dl_server sample_layout)) \<noteq> None"
    "formatArchiveVersion 1 (dl_minor sample_layout) (dl_revision sample_layout) = ''1.16''"
    "ascii_text (dl_server sample_layout) = units ''16.4''" "ascii_text (dl_dump sample_layout) = units ''17.0''"
    "ascii_text (dl_database sample_layout) = units ''shop''"
    by code_simp+
  ultimately show ?thesis using dump_header_roundtrip [of sample_layout "[7]"] by simp
qed

section \<open>What a verified artifact is\<close>

definition DOT :: code_unit where "DOT = hd (units ''.'')"

lemma DOT_simps [simp]: "units ''.'' = [DOT]" "\<not> digit_unit DOT"
  by (simp_all add: DOT_def units_def digit_unit_def)

lemma digits3_short: "digits3 s \<noteq> [] \<Longrightarrow> short_number 3 (digits3 s)"
  unfolding short_number_def digits3_def
  by (auto simp: list_all_iff dest: set_takeWhileD intro: order_trans [OF length_takeWhile_le])

lemma short_no_dot: "short_number n ds \<Longrightarrow> DOT \<notin> set ds"
  by (auto simp: short_number_def list_all_iff)

lemma release_groups_split:
  "short_number 3 ds \<Longrightarrow> length (split_on DOT (ds @ release_groups n s)) \<le> Suc n \<and>
     list_all (short_number 3) (split_on DOT (ds @ release_groups n s))"
proof (induction n s arbitrary: ds rule: release_groups.induct)
  case (1 s)
  then show ?case by (simp add: split_on_fresh short_no_dot)
next
  case (2 n s)
  show ?case
  proof (cases "\<exists>t. s = DOT # t \<and> digits3 t \<noteq> []")
    case True
    then obtain t where t: "s = DOT # t" "digits3 t \<noteq> []" by blast
    then have "ds @ release_groups (Suc n) s = ds @ DOT # digits3 t @ release_groups n (drop (length (digits3 t)) t)"
      by simp
    then have "split_on DOT (ds @ release_groups (Suc n) s) =
        ds # split_on DOT (digits3 t @ release_groups n (drop (length (digits3 t)) t))"
      by (simp only: split_on_at [OF short_no_dot [OF 2(2)]])
    with 2(1) [OF t(1)] 2(2) t(2) digits3_short [OF t(2)] show ?thesis by simp
  next
    case False
    then have "release_groups (Suc n) s = []" by (auto split: list.splits)
    with 2(2) show ?thesis by (simp add: split_on_fresh short_no_dot)
  qed
qed

lemma release_version_pattern:
  assumes "readPostgresReleaseVersion s = Some r"
  shows "ENGINE_RELEASE_VERSION_PATTERN r"
proof -
  let ?t = "dropWhile space_unit s"
  from assms have d: "digits3 ?t \<noteq> []" and r: "r = digits3 ?t @ release_groups 2 (drop (length (digits3 ?t)) ?t)"
    by (auto simp: readPostgresReleaseVersion_def Let_def split: if_splits)
  from release_groups_split [OF digits3_short [OF d], of 2] show ?thesis
    by (simp add: r ENGINE_RELEASE_VERSION_PATTERN_def)
qed

lemma major_has_release: "parsePostgresMajorVersion s \<noteq> None \<Longrightarrow> readPostgresReleaseVersion s \<noteq> None"
  by (cases "dropWhile space_unit s")
    (auto simp: parsePostgresMajorVersion_def readPostgresReleaseVersion_def digits3_def Let_def split: if_splits)

lemma rdb_digits_bound: "rdb_digits ds v = Some r \<Longrightarrow> r < (v + 1) * 10 ^ length ds"
proof (induction ds arbitrary: v)
  case (Cons d ds)
  then have d: "48 \<le> unat d" "unat d \<le> 57" and "rdb_digits ds (v * 10 + (unat d - 48)) = Some r"
    by (auto split: if_splits)
  with Cons.IH have "r < (v * 10 + (unat d - 48) + 1) * 10 ^ length ds" by blast
  also have "\<dots> \<le> ((v + 1) * 10) * 10 ^ length ds" using d by (intro mult_right_mono) simp_all
  finally show ?case by (simp add: algebra_simps)
qed simp

lemma rdb_version_pattern: "v \<le> 9999 \<Longrightarrow> RDB_SOURCE_VERSION_PATTERN (units (''rdb-'' @ show_nat v))"
proof -
  assume "v \<le> 9999"
  then have "length (show_nat v) \<le> 4" by (intro length_show_nat) simp_all
  moreover have "units (show_nat v) \<noteq> []" by (simp add: units_def)
  moreover have "take 4 (units (''rdb-'' @ s)) = units ''rdb-''" "drop 4 (units (''rdb-'' @ s)) = units s" for s
    by (simp_all add: units_def)
  ultimately show ?thesis
    using units_show_nat_digits [of v] by (simp only: RDB_SOURCE_VERSION_PATTERN_def short_number_def) (simp add: units_def)
qed

lemma read_magic_Inr:
  "read_magic bytes cs offset = Inr (u, offset') \<Longrightarrow> map unat (take (length cs) (drop offset bytes)) = map of_char cs"
proof (induction cs arbitrary: offset)
  case (Cons c cs)
  then have o: "offset < length bytes" "unat (bytes ! offset) = of_char c" "read_magic bytes cs (Suc offset) = Inr (u, offset')"
    by (auto simp: rd_bind_def readByte_def rd_reject_def split: if_splits)
  then have "drop offset bytes = bytes ! offset # drop (Suc offset) bytes" by (simp add: Cons_nth_drop_Suc)
  with Cons.IH [OF o(3)] o(2) show ?case by simp
qed simp

lemma rd_bind_Inr:
  "rd_bind m f offset = Inr y \<longleftrightarrow> (\<exists>x offset'. m offset = Inr (x, offset') \<and> f x offset' = Inr y)"
  by (auto simp: rd_bind_def split: sum.splits)

text \<open>The sample starts with a signature.\<close>

definition signed_with :: "string \<Rightarrow> byte list \<Rightarrow> bool" where
  "signed_with magic bytes \<longleftrightarrow> map unat (take (length magic) bytes) = map of_char magic"

lemma parsed_postgres:
  assumes "parsePostgresCustomDumpHeader bytes = Inr h"
  shows "\<exists>ph. h = PostgresHeader ph \<and> signed_with PGDMP_MAGIC bytes \<and>
    parsePostgresMajorVersion (ph_sourceEngineVersion ph) \<noteq> None"
proof -
  from assms obtain ph offset where h: "h = PostgresHeader ph" "postgres_header_reader bytes 0 = Inr (ph, offset)"
    by (auto simp: parsePostgresCustomDumpHeader_def split: sum.splits)
  then obtain o1 o2 o3 i av db sv dv where "read_magic bytes PGDMP_MAGIC 0 = Inr ((), o1)"
    and "read_versions bytes i av o2 = Inr ((sv, dv), o3)" and "ph_sourceEngineVersion ph = sv"
    by (auto simp: postgres_header_reader_def rd_bind_Inr rd_return_def Let_def split: prod.splits)
  moreover from this(2) have "parsePostgresMajorVersion sv \<noteq> None"
    by (auto simp: read_versions_def rd_bind_Inr rd_return_def rd_reject_def split: if_splits option.splits)
  ultimately show ?thesis using h(1) read_magic_Inr [of bytes PGDMP_MAGIC 0] by (auto simp: signed_with_def)
qed

lemma parsed_redis:
  assumes "parseRedisRdbHeader bytes = Inr h"
  shows "\<exists>v. h = RedisHeader v \<and> signed_with RDB_MAGIC bytes \<and> 1 \<le> v \<and> v \<le> 9999"
proof -
  from assms obtain v where v: "h = RedisHeader v" "signed_with RDB_MAGIC bytes" "1 \<le> v"
      "rdb_digits (take 4 (drop (length RDB_MAGIC) bytes)) 0 = Some v" "RDB_MAGIC_LENGTH \<le> length bytes"
    by (auto simp: parseRedisRdbHeader_def signed_with_def split: if_splits option.splits)
  have "length (take 4 (drop (length RDB_MAGIC) bytes)) \<le> 4" by simp
  then have "(10 :: nat) ^ length (take 4 (drop (length RDB_MAGIC) bytes)) \<le> 10 ^ 4" by (intro power_increasing) simp_all
  with rdb_digits_bound [OF v(4)] have "v < 10000" by simp
  with v show ?thesis by simp
qed

text \<open>The bytes are the registered ones.\<close>

definition same_artifact :: "artifact_declaration \<Rightarrow> artifact_observation \<Rightarrow> bool" where
  "same_artifact declared observed \<longleftrightarrow> isSha256Digest (ao_sha256 observed) \<and> ao_sha256 observed = ad_sha256 declared \<and>
     (\<exists>n. safe_integer (ao_sizeBytes observed) = Some n \<and> 0 < n) \<and> ao_sizeBytes observed = ad_sizeBytes declared"

lemma integrity_None: "integrity_problem declared observed = None \<longleftrightarrow> same_artifact declared observed"
  by (auto simp: integrity_problem_def same_artifact_def split: option.splits if_splits)

text \<open>The engine that wrote the artifact is one the destination can read.\<close>

definition restorable :: "artifact_header \<Rightarrow> byte list \<Rightarrow> string \<Rightarrow> bool" where
  "restorable h bytes version \<longleftrightarrow> (case h of
     PostgresHeader ph \<Rightarrow> signed_with PGDMP_MAGIC bytes \<and>
       (\<exists>source dest. parsePostgresMajorVersion (ph_sourceEngineVersion ph) = Some source \<and>
          parsePostgresMajorVersion (units version) = Some dest \<and> source \<le> dest)
   | RedisHeader v \<Rightarrow> signed_with RDB_MAGIC bytes \<and> 1 \<le> v \<and>
       (\<exists>limit. getMaxReadableRdbVersion version = Some (ReadableUpTo limit) \<and> v \<le> limit))"

text \<open>C39 An artifact is verified only when it is the registered one, digest and size, when its header, read from its bytes,
  is of the declared format, and when the engine that wrote it is no newer than the destination. This
  holds for every destination version that is not the name of a member all objects inherit. The release
  a receipt reports of it is one of the bare releases the protocol leaves unredacted.\<close>

theorem verified_artifact_is_registered_and_restorable:
  assumes "verifyExternalBackupArtifact declared observed destination = Inr (header, release)"
    and "trim (id_version destination) \<notin> set OBJECT_MEMBERS"
  shows "same_artifact declared observed \<and>
    EXTERNAL_BACKUP_IMPORT_VARIANT_BY_FORMAT (ad_format declared) = id_variant destination \<and>
    parseExternalBackupArtifactHeader (ad_format declared) (ao_headerSample observed) = Inr header \<and>
    restorable header (ao_headerSample observed) (id_version destination) \<and>
    (ENGINE_RELEASE_VERSION_PATTERN release \<or> RDB_SOURCE_VERSION_PATTERN release)"
proof -
  let ?bytes = "ao_headerSample observed"
  from assms(1) have same: "same_artifact declared observed"
    and variant: "EXTERNAL_BACKUP_IMPORT_VARIANT_BY_FORMAT (ad_format declared) = id_variant destination"
    unfolding integrity_None [symmetric]
    by (auto simp: verifyExternalBackupArtifact_def split: option.splits if_splits)
  from same have "integrity_problem declared observed = None" by (simp add: integrity_None)
  with assms(1) variant obtain h where h: "parseExternalBackupArtifactHeader (ad_format declared) ?bytes = Inr h"
    and v: "(case h of PostgresHeader ph \<Rightarrow> verify_postgres ph (id_version destination)
      | RedisHeader n \<Rightarrow> verify_redis n (id_version destination)) = Inr (header, release)"
    by (auto simp: verifyExternalBackupArtifact_def split: sum.splits artifact_header.splits)
  have "h = header \<and> restorable header ?bytes (id_version destination) \<and>
    (ENGINE_RELEASE_VERSION_PATTERN release \<or> RDB_SOURCE_VERSION_PATTERN release)"
  proof (cases h)
    case (PostgresHeader ph)
    with h parsed_postgres parsed_redis have p: "signed_with PGDMP_MAGIC ?bytes"
        "parsePostgresMajorVersion (ph_sourceEngineVersion ph) \<noteq> None"
      by (fastforce simp: parseExternalBackupArtifactHeader_def split: import_format.splits)+
    with major_has_release obtain r where r: "readPostgresReleaseVersion (ph_sourceEngineVersion ph) = Some r" by blast
    with v PostgresHeader p release_version_pattern [OF r] show ?thesis
      by (auto simp: verify_postgres_def restorable_def split: option.splits if_splits)
  next
    case (RedisHeader n)
    with h parsed_postgres parsed_redis have p: "signed_with RDB_MAGIC ?bytes" "1 \<le> n" "n \<le> 9999"
      by (fastforce simp: parseExternalBackupArtifactHeader_def split: import_format.splits)+
    have "getMaxReadableRdbVersion (id_version destination) \<noteq> Some InheritedMember"
      using assms(2) by (auto simp: getMaxReadableRdbVersion_def split: option.splits)
    with v RedisHeader p rdb_version_pattern [OF p(3)] show ?thesis
      by (auto simp: verify_redis_def restorable_def split: option.splits rdb_limit.splits if_splits)
  qed
  with same variant h show ?thesis by simp
qed

definition sample_digest :: string where "sample_digest = replicate 64 (CHR ''a'')"

definition sample_declaration :: artifact_declaration where
  "sample_declaration = \<lparr>ad_format = RedisRdb, ad_sha256 = sample_digest, ad_sizeBytes = Fin 9\<rparr>"

definition sample_artifact :: artifact_observation where
  "sample_artifact = \<lparr>ao_sha256 = sample_digest, ao_sizeBytes = Fin 9, ao_headerSample = magic_bytes ''REDIS0011''\<rparr>"

lemma verified_artifact_is_registered_and_restorable_witness:
  "same_artifact sample_declaration sample_artifact \<and> restorable (RedisHeader 11) (ao_headerSample sample_artifact) ''7.2''"
proof -
  have "verifyExternalBackupArtifact sample_declaration sample_artifact \<lparr>id_variant = RedisVariant, id_version = ''7.2''\<rparr> =
      Inr (RedisHeader 11, units ''rdb-11'')" by code_simp
  moreover have "trim ''7.2'' \<notin> set OBJECT_MEMBERS" by code_simp
  ultimately show ?thesis
    using verified_artifact_is_registered_and_restorable [of sample_declaration sample_artifact
      "\<lparr>id_variant = RedisVariant, id_version = ''7.2''\<rparr>" "RedisHeader 11" "units ''rdb-11''"] by simp
qed

text \<open>A destination version that names an inherited member passes the check of every snapshot.\<close>

lemma inherited_member_verifies:
  "verifyExternalBackupArtifact sample_declaration (sample_artifact\<lparr>ao_headerSample := magic_bytes ''REDIS0099''\<rparr>)
     \<lparr>id_variant = RedisVariant, id_version = ''constructor''\<rparr> = Inr (RedisHeader 99, units ''rdb-99'')"
  by code_simp

end
