(* ===== verification/Worker_Spec.thy ===== *)
theory Worker_Spec
  imports Worker_Rollout Server_Capacity
begin

text \<open>
  \<open>agent/src/worker-runtime.ts\<close>, the values: the names and labels of worker containers, the command
  and health check of an image, the specification of a replica, the retained images, and the checks
  of a payload. The Docker client the worker runtime takes is the record \<open>worker_docker\<close>: the client of
  \<open>Docker_Types\<close> with the operations on images, networks and consumers of a volume.
\<close>

section \<open>The client\<close>

record image_inspection =
  ii_Id :: string
  ii_Entrypoint :: "string list option"
  ii_Cmd :: "string list option"
  ii_HealthcheckTest :: "string list option"

record healthcheck =
  hk_Test :: "string list"
  hk_Interval :: int
  hk_Timeout :: int
  hk_Retries :: int
  hk_StartPeriod :: int

text \<open>An empty \<open>entrypoint\<close> or \<open>cmd\<close> is one that is left out; no specification sets an empty one.\<close>

record worker_spec = container_spec +
  sp_tty :: bool
  sp_healthcheck :: "healthcheck option"
  sp_stopSignal :: "string option"
  sp_stopTimeoutSeconds :: "int option"

text \<open>\<open>wk_stopContainer\<close> is \<open>stopContainer\<close> with neither timeout given.\<close>

record 'w worker_docker =
  wk_docker :: "'w docker"
  wk_createContainer :: "worker_spec \<Rightarrow> ('w, string) io"
  wk_stopContainer :: "string \<Rightarrow> ('w, unit) io"
  wk_restartContainer :: "string \<Rightarrow> ('w, unit) io"
  wk_ensureNetwork :: "string \<Rightarrow> (string \<times> string) list \<Rightarrow> ('w, unit) io"
  wk_inspectImage :: "string \<Rightarrow> ('w, image_inspection option) io"
  wk_pullImage :: "string \<Rightarrow> ('w, unit) io"
  wk_removeImage :: "string \<Rightarrow> bool \<Rightarrow> ('w, unit) io"
  wk_listContainersUsingVolume :: "string \<Rightarrow> ('w, inspection list) io"

text \<open>\<open>ensureContainer(spec, false, { pull: false })\<close>: a running container of that name is kept, a stopped
  one started, a missing one created from an image that is present, and started.\<close>

definition ensureContainer :: "'w worker_docker \<Rightarrow> worker_spec \<Rightarrow> ('w, string) io" where
  "ensureContainer docker spec =
     io_bind (inspectContainer (wk_docker docker) (sp_name spec)) (\<lambda>existing.
     io_bind (inspectContainer (wk_docker docker) (sp_name spec)) (\<lambda>latest.
       case latest of
         Some c \<Rightarrow>
           if state_of cs_Running c = Some True then io_return (ci_Id c)
           else io_bind (startContainer (wk_docker docker) (ci_Id c)) (\<lambda>_. io_return (ci_Id c))
       | None \<Rightarrow>
           io_bind (wk_inspectImage docker (sp_image spec)) (\<lambda>img.
           if img = None then
             io_throw (Error (''Docker image '' @ sp_image spec @ '' is not present locally''))
           else io_bind (wk_createContainer docker spec) (\<lambda>i.
             io_bind (startContainer (wk_docker docker) i) (\<lambda>_. io_return i)))))"

section \<open>Payloads\<close>

record volume_identity =
  vi_volumeId :: string
  vi_volumeName :: string
  vi_mountPath :: string

record retained_image =
  im_reference :: string
  im_imageId :: "string option"
  im_deploymentId :: "string option"
  im_commitHash :: "string option"

text \<open>The fields of \<open>RuntimeMetadata\<close> the worker runtime reads; of a replica, its container name.\<close>

record runtime_metadata =
  md_image :: "string option"
  md_imageStoreMode :: "string option"
  md_currentImage :: "retained_image option"
  md_previousImage :: "retained_image option"
  md_containerName :: "string option"
  md_replicaCount :: "int option"
  md_replicas :: "string option list option"

record worker_payload =
  wd_imageUrl :: string
  wd_commitHash :: string
  wd_projectId :: string
  wd_environmentId :: "string option"
  wd_serviceId :: string
  wd_deploymentId :: string
  wd_redactionContextVersion :: "string option"
  wd_envVars :: "(string \<times> string) list"
  wd_startCommand :: "string option"
  wd_healthCheckCommand :: "string option"
  wd_replicaCount :: jsnum
  wd_shutdownPolicy :: json
  wd_volume :: "volume_identity option"
  wd_resourceLimits :: json
  wd_runtimeMetadata :: "runtime_metadata option"

text \<open>\<open>we_hashProjectNetwork\<close> is \<open>hashProjectNetwork\<close> (\<open>build.ts\<close>): the first characters of a SHA-256 digest.\<close>

record worker_environment =
  we_serverId :: string
  we_imageStoreMode :: string
  we_dataDir :: string
  we_dataVolume :: string
  we_hashProjectNetwork :: "string \<Rightarrow> string"

section \<open>Commands\<close>

definition normalizeCommandParts :: "string list option \<Rightarrow> string list" where
  "normalizeCommandParts parts = filter (\<lambda>p. p \<noteq> []) (map trim (case parts of None \<Rightarrow> [] | Some ps \<Rightarrow> ps))"

definition normalizeWorkerCommand :: "string option \<Rightarrow> string option" where
  "normalizeWorkerCommand command =
     (case command of None \<Rightarrow> None | Some c \<Rightarrow> if trim c = [] then None else Some (trim c))"

record image_command =
  ic_entrypoint :: "string list"
  ic_command :: "string list"
  ic_display :: string

definition detectWorkerImageCommand :: "image_inspection option \<Rightarrow> image_command option" where
  "detectWorkerImageCommand i =
     (let entrypoint = normalizeCommandParts (Option.bind i ii_Entrypoint);
          command = normalizeCommandParts (Option.bind i ii_Cmd)
      in if entrypoint = [] \<and> command = [] then None
         else Some \<lparr>ic_entrypoint = entrypoint, ic_command = command, ic_display = join '' '' (entrypoint @ command)\<rparr>)"

definition imageHasHealthcheck :: "image_inspection option \<Rightarrow> bool" where
  "imageHasHealthcheck i =
     (case Option.bind i ii_HealthcheckTest of
        Some (t # _) \<Rightarrow> to_upper t \<noteq> ''NONE''
      | _ \<Rightarrow> False)"

definition WORKER_HEALTHCHECK_INTERVAL_NS :: int where "WORKER_HEALTHCHECK_INTERVAL_NS = 10000000000"
definition WORKER_HEALTHCHECK_TIMEOUT_NS :: int where "WORKER_HEALTHCHECK_TIMEOUT_NS = 5000000000"
definition WORKER_HEALTHCHECK_START_PERIOD_NS :: int where "WORKER_HEALTHCHECK_START_PERIOD_NS = 10000000000"

definition buildWorkerHealthcheck :: "string option \<Rightarrow> healthcheck option" where
  "buildWorkerHealthcheck command =
     map_option (\<lambda>c. \<lparr>hk_Test = [''CMD-SHELL'', c], hk_Interval = WORKER_HEALTHCHECK_INTERVAL_NS,
       hk_Timeout = WORKER_HEALTHCHECK_TIMEOUT_NS, hk_Retries = 3,
       hk_StartPeriod = WORKER_HEALTHCHECK_START_PERIOD_NS\<rparr>) (normalizeWorkerCommand command)"

section \<open>Names and labels\<close>

definition getWorkerProjectNetwork :: "worker_environment \<Rightarrow> string \<Rightarrow> string" where
  "getWorkerProjectNetwork environment projectId = ''nouva-project-'' @ we_hashProjectNetwork environment projectId"

text \<open>\<open>Name.replace(/^\//, "")\<close>, and \<open>Id || getContainerName(container)\<close>.\<close>

definition getContainerName :: "inspection \<Rightarrow> string" where
  "getContainerName c = (case ci_Name c of [] \<Rightarrow> [] | x # xs \<Rightarrow> if x = CHR ''/'' then xs else x # xs)"

definition getContainerIdentifier :: "inspection \<Rightarrow> string" where
  "getContainerIdentifier c = (if ci_Id c = [] then getContainerName c else ci_Id c)"

record label_input =
  li_serverId :: string
  li_kind :: string
  li_projectId :: string
  li_environmentId :: "string option"
  li_serviceId :: string
  li_deploymentId :: "string option"
  li_replicaIndex :: "nat option"
  li_scheduleId :: "string option"
  li_scheduleRunId :: "string option"
  li_occurrenceKey :: "string option"
  li_redactionContextVersion :: "string option"

text \<open>\<open>...(v ? { [key]: v } : {})\<close>: an empty string is left out too.\<close>

definition label_when :: "string \<Rightarrow> string option \<Rightarrow> (string \<times> string) list" where
  "label_when key v = (case v of None \<Rightarrow> [] | Some s \<Rightarrow> if s = [] then [] else [(key, s)])"

definition buildWorkerLabels :: "label_input \<Rightarrow> (string \<times> string) list" where
  "buildWorkerLabels inp =
     [(''nouva.managed'', ''true''), (''nouva.server.id'', li_serverId inp), (''nouva.kind'', li_kind inp),
      (''nouva.service.type'', ''worker''), (''nouva.project.id'', li_projectId inp),
      (''nouva.service.id'', li_serviceId inp)] @
     label_when ''nouva.environment.id'' (li_environmentId inp) @
     label_when ''nouva.deployment.id'' (li_deploymentId inp) @
     (case li_replicaIndex inp of None \<Rightarrow> [] | Some n \<Rightarrow> [(''nouva.replica.index'', show_nat n)]) @
     label_when ''nouva.schedule.id'' (li_scheduleId inp) @
     label_when ''nouva.schedule.run.id'' (li_scheduleRunId inp) @
     label_when ''nouva.schedule.occurrence.key'' (li_occurrenceKey inp) @
     label_when ''nouva.redaction.context.version'' (li_redactionContextVersion inp)"

definition buildWorkerReplicaContainerName :: "string \<Rightarrow> string \<Rightarrow> nat \<Rightarrow> string" where
  "buildWorkerReplicaContainerName serviceId deploymentId replicaIndex =
     ''nouva-worker-'' @ take 8 serviceId @ ''-'' @ take 8 deploymentId @ ''-'' @ show_nat replicaIndex"

definition buildWorkerJobContainerName :: "string \<Rightarrow> string \<Rightarrow> string" where
  "buildWorkerJobContainerName serviceId scheduleRunId =
     ''nouva-worker-job-'' @ take 8 serviceId @ ''-'' @ take 8 scheduleRunId"

section \<open>The specification of a replica\<close>

definition resolveWorkerShutdownPolicy :: "worker_payload \<Rightarrow> shutdown_policy" where
  "resolveWorkerShutdownPolicy payload =
     (case parseWorkerShutdownPolicy (wd_shutdownPolicy payload) of
        None \<Rightarrow> DEFAULT_WORKER_SHUTDOWN_POLICY | Some p \<Rightarrow> p)"

definition volume_mounts :: "volume_identity option \<Rightarrow> (string \<times> json) list" where
  "volume_mounts v = (case v of None \<Rightarrow> [] | Some v \<Rightarrow>
     [(''Mounts'', JArr [JObj [(''Type'', JStr ''volume''), (''Source'', JStr (vi_volumeName v)),
        (''Target'', JStr (vi_mountPath v))]])])"

definition resource_members :: "resource_settings \<Rightarrow> (string \<times> json) list" where
  "resource_members s = [(''NanoCpus'', jint (rs_NanoCpus s)), (''Memory'', jint (rs_Memory s)),
     (''MemorySwap'', jint (rs_MemorySwap s)), (''PidsLimit'', jint (rs_PidsLimit s))]"

record candidate_spec =
  cp_containerName :: string
  cp_projectNetwork :: string
  cp_hasHealthcheck :: bool
  cp_imageCommand :: "image_command option"
  cp_spec :: worker_spec

definition replica_labels :: "worker_environment \<Rightarrow> worker_payload \<Rightarrow> nat \<Rightarrow> (string \<times> string) list" where
  "replica_labels environment payload replicaIndex =
     buildWorkerLabels \<lparr>li_serverId = we_serverId environment, li_kind = ''worker'',
       li_projectId = wd_projectId payload, li_environmentId = wd_environmentId payload,
       li_serviceId = wd_serviceId payload, li_deploymentId = Some (wd_deploymentId payload),
       li_replicaIndex = Some replicaIndex, li_scheduleId = None, li_scheduleRunId = None,
       li_occurrenceKey = None, li_redactionContextVersion = wd_redactionContextVersion payload\<rparr>"

definition replica_spec ::
    "worker_environment \<Rightarrow> worker_payload \<Rightarrow> nat \<Rightarrow> resource_settings \<Rightarrow> worker_spec" where
  "replica_spec environment payload replicaIndex settings =
     (let startCommand = normalizeWorkerCommand (wd_startCommand payload);
          policy = resolveWorkerShutdownPolicy payload
      in \<lparr>sp_name = buildWorkerReplicaContainerName (wd_serviceId payload) (wd_deploymentId payload) replicaIndex,
        sp_image = wd_imageUrl payload,
        sp_env = map (\<lambda>(k, v). k @ ''='' @ v) (wd_envVars payload),
        sp_entrypoint = (if startCommand = None then [] else [''/bin/sh'', ''-lc'']),
        sp_cmd = (case startCommand of None \<Rightarrow> [] | Some c \<Rightarrow> [c]),
        sp_labels = replica_labels environment payload replicaIndex,
        sp_hostConfig = volume_mounts (wd_volume payload) @
          (''RestartPolicy'', JObj [(''Name'', JStr ''unless-stopped'')]) # resource_members settings,
        sp_networks = [getWorkerProjectNetwork environment (wd_projectId payload)],
        sp_tty = False,
        sp_healthcheck = buildWorkerHealthcheck (wd_healthCheckCommand payload),
        sp_stopSignal = wp_signal policy,
        sp_stopTimeoutSeconds = Some (wp_gracePeriodSeconds policy)\<rparr>)"

definition buildWorkerContainerSpec ::
    "worker_environment \<Rightarrow> worker_payload \<Rightarrow> image_inspection option \<Rightarrow> nat \<Rightarrow> js_error + candidate_spec" where
  "buildWorkerContainerSpec environment payload img replicaIndex =
     (let imageCommand = detectWorkerImageCommand img
      in if normalizeWorkerCommand (wd_startCommand payload) = None \<and> imageCommand = None then
           Inl (Error (''Worker image '' @ wd_imageUrl payload @ '' has no runnable default entrypoint or command. ''
             @ ''Set a worker start command or rebuild the image with a CMD or ENTRYPOINT.''))
         else case toDockerResourceSettings (wd_resourceLimits payload) of
           Inl e \<Rightarrow> Inl e
         | Inr settings \<Rightarrow> Inr \<lparr>
             cp_containerName = buildWorkerReplicaContainerName (wd_serviceId payload) (wd_deploymentId payload) replicaIndex,
             cp_projectNetwork = getWorkerProjectNetwork environment (wd_projectId payload),
             cp_hasHealthcheck = (buildWorkerHealthcheck (wd_healthCheckCommand payload) \<noteq> None \<or> imageHasHealthcheck img),
             cp_imageCommand = imageCommand,
             cp_spec = replica_spec environment payload replicaIndex settings\<rparr>)"

section \<open>Images\<close>

definition resolveCurrentRuntimeImage :: "runtime_metadata option \<Rightarrow> retained_image option" where
  "resolveCurrentRuntimeImage md =
     (case Option.bind md md_currentImage of
        Some i \<Rightarrow> Some i
      | None \<Rightarrow>
          (case Option.bind md md_image of
             Some ref \<Rightarrow> if ref = [] then None
               else Some \<lparr>im_reference = ref, im_imageId = None, im_deploymentId = None, im_commitHash = None\<rparr>
           | None \<Rightarrow> None))"

definition resolvePreviousRuntimeImage :: "runtime_metadata option \<Rightarrow> retained_image option" where
  "resolvePreviousRuntimeImage md = Option.bind md md_previousImage"

text \<open>A string that is present and not empty.\<close>

definition truthy :: "string option \<Rightarrow> bool" where "truthy s \<longleftrightarrow> s \<noteq> None \<and> s \<noteq> Some []"

fun sameRetainedImage :: "retained_image option \<Rightarrow> retained_image option \<Rightarrow> bool" where
  "sameRetainedImage (Some left) (Some right) =
     (if truthy (im_imageId left) \<and> truthy (im_imageId right) then im_imageId left = im_imageId right
      else im_reference left = im_reference right)"
| "sameRetainedImage left right = (left = None \<and> right = None)"

text \<open>\<open>image.reference || image.imageId\<close>.\<close>

definition image_reference :: "retained_image \<Rightarrow> string option" where
  "image_reference i = (if im_reference i = [] then im_imageId i else Some (im_reference i))"

definition getRetainedImageReferences :: "runtime_metadata option \<Rightarrow> string list" where
  "getRetainedImageReferences md =
     distinct_firsts (map the (filter truthy (map (\<lambda>i. Option.bind i image_reference)
       [resolveCurrentRuntimeImage md, resolvePreviousRuntimeImage md])))"

definition shouldRetainWorkerImage :: "runtime_metadata option \<Rightarrow> string \<Rightarrow> bool" where
  "shouldRetainWorkerImage md reference \<longleftrightarrow> reference \<in> set (getRetainedImageReferences md)"

definition ensureWorkerImage :: "'w worker_docker \<Rightarrow> worker_environment \<Rightarrow> string \<Rightarrow> ('w, image_inspection) io" where
  "ensureWorkerImage docker environment imageUrl =
     (let answer = (\<lambda>i. case i of
            None \<Rightarrow> io_throw (Error (''Worker image '' @ imageUrl @ '' is not available locally''))
          | Some i \<Rightarrow> io_return i)
      in io_bind (wk_inspectImage docker imageUrl) (\<lambda>inspection.
         if inspection = None \<and> we_imageStoreMode environment \<noteq> ''docker-local'' then
           io_bind (wk_pullImage docker imageUrl) (\<lambda>_.
           io_bind (wk_inspectImage docker imageUrl) answer)
         else answer inspection))"

section \<open>Checks of a payload\<close>

text \<open>\<open>Number.isInteger\<close> of a \<open>number\<close>.\<close>

definition whole :: "jsnum \<Rightarrow> int option" where
  "whole v = (case v of Fin q \<Rightarrow> if of_int \<lfloor>q\<rfloor> = q then Some \<lfloor>q\<rfloor> else None | _ \<Rightarrow> None)"

definition assertReplicaCount :: "jsnum \<Rightarrow> js_error + nat" where
  "assertReplicaCount replicaCount =
     (case whole replicaCount of
        Some n \<Rightarrow> if n < 0 \<or> n > 32 then Inl (Error ''Worker replicaCount must be an integer from 0 through 32'')
                  else Inr (nat n)
      | None \<Rightarrow> Inl (Error ''Worker replicaCount must be an integer from 0 through 32''))"

definition assertWorkerJobTimeout :: "jsnum \<Rightarrow> js_error + int" where
  "assertWorkerJobTimeout timeoutSeconds =
     (case whole timeoutSeconds of
        Some n \<Rightarrow> if n < 60 \<or> n > 24 * 60 * 60 then Inl (Error ''Worker job timeoutSeconds must be an integer from 60 through 86400'')
                  else Inr n
      | None \<Rightarrow> Inl (Error ''Worker job timeoutSeconds must be an integer from 60 through 86400''))"

definition assertVolumeWorkerPayload :: "worker_payload \<Rightarrow> nat \<Rightarrow> js_error + unit" where
  "assertVolumeWorkerPayload payload replicaCount =
     (if wd_volume payload \<noteq> None \<and> replicaCount > 1
      then Inl (Error ''Volume-backed workers support at most one continuous replica'') else Inr ())"

lemma whole_Some_iff: "whole v = Some n \<longleftrightarrow> v = Fin (of_int n)"
  by (auto simp: whole_def split: jsnum.splits)

lemma assertReplicaCount_iff: "assertReplicaCount v = Inr n \<longleftrightarrow> v = Fin (of_nat n) \<and> n \<le> 32"
proof (cases "whole v")
  case None
  have "v \<noteq> Fin (of_nat n)"
  proof
    assume "v = Fin (of_nat n)"
    then have "whole v = Some (int n)" by (simp add: whole_Some_iff)
    with None show False by simp
  qed
  with None show ?thesis by (simp add: assertReplicaCount_def)
next
  case (Some m)
  then have v: "v = Fin (of_int m)" by (simp add: whole_Some_iff)
  have "assertReplicaCount v = Inr n \<longleftrightarrow> m = int n \<and> n \<le> 32"
    using Some by (auto simp: assertReplicaCount_def)
  moreover have "(of_int m :: rat) = of_nat n \<longleftrightarrow> m = int n" by (metis of_int_eq_iff of_int_of_nat_eq)
  ultimately show ?thesis by (simp add: v)
qed

lemma sameRetainedImage_refl: "sameRetainedImage i i"
  by (cases i) auto

end
