(* ===== verification/Concurrency.thy ===== *)
theory Concurrency
  imports Monitors
begin

text \<open>
  Asynchronous functions that run side by side, as under \<open>Promise.all\<close> and \<open>Promise.allSettled\<close>. A task is
  a body and a state, one run of the body being what happens from one suspension of the function to
  the next: the pending call takes its effect, and the function runs on to its next \<open>await\<close>. Which of
  the suspended tasks goes on next is the choice of the event loop, \<open>pick\<close>: given the world and the
  number of suspended tasks, any function. A task that runs alone is the loop \<^const>\<open>io_loop\<close>.
\<close>

section \<open>Loops as least solutions\<close>

text \<open>Whatever solves a loop's equation agrees with the loop where the loop ends.\<close>

lemma io_loop_least:
  assumes run: "io_loop body s w = Some y"
    and solves: "\<And>s w y. io_bind (body s) (\<lambda>r. case r of Inl s' \<Rightarrow> R s' | Inr x \<Rightarrow> io_return x) w = Some y
      \<Longrightarrow> R s w = Some y"
  shows "R s w = Some y"
proof -
  have "body = body \<longrightarrow> R s w = Some y"
  proof (rule io_loop.raw_induct [where P = "\<lambda>b s w y. b = body \<longrightarrow> R s w = Some y", OF _ run], intro impI)
    fix f b s w y
    assume IH: "\<And>b s w y. f b s w = Some y \<Longrightarrow> b = body \<longrightarrow> R s w = Some y"
      and round: "io_bind (b s) (\<lambda>r. case r of Inl s' \<Rightarrow> f b s' | Inr x \<Rightarrow> io_return x) w = Some y"
      and b: "b = body"
    obtain r w2 where y: "y = (r, w2)" by (cases y)
    have "io_bind (body s) (\<lambda>r. case r of Inl s' \<Rightarrow> R s' | Inr x \<Rightarrow> io_return x) w = Some y"
      using round IH unfolding b y io_bind_sum_Some_iff by blast
    then show "R s w = Some y" by (rule solves)
  qed
  then show ?thesis by simp
qed

text \<open>What follows a loop, in terms of the state the loop ends in.\<close>

lemma io_loop_then:
  assumes run: "io_loop body s w = Some (r, w')"
    and leave: "\<And>s w x w'. body s w = Some (Inr (Inr x), w') \<Longrightarrow> G s w = K (Inr x) w'"
    and fail: "\<And>s w e w'. body s w = Some (Inl e, w') \<Longrightarrow> G s w = K (Inl e) w'"
    and round: "\<And>s s' w w'. body s w = Some (Inr (Inl s'), w') \<Longrightarrow> G s w = G s' w'"
  shows "G s w = K r w'"
proof -
  have "body = body \<longrightarrow> G s w = K (fst (r, w')) (snd (r, w'))"
  proof (rule io_loop.raw_induct [where P = "\<lambda>b s w y. b = body \<longrightarrow> G s w = K (fst y) (snd y)", OF _ run],
      intro impI)
    fix f b s w y
    assume IH: "\<And>b s w y. f b s w = Some y \<Longrightarrow> b = body \<longrightarrow> G s w = K (fst y) (snd y)"
      and go: "io_bind (b s) (\<lambda>r. case r of Inl s' \<Rightarrow> f b s' | Inr x \<Rightarrow> io_return x) w = Some y"
      and b: "b = body"
    obtain r w2 where y: "y = (r, w2)" by (cases y)
    from go [unfolded b y] consider (err) e where "body s w = Some (Inl e, w2)" "r = Inl e"
      | (again) s' w1 where "body s w = Some (Inr (Inl s'), w1)" "f body s' w1 = Some (r, w2)"
      | (out) x where "body s w = Some (Inr (Inr x), w2)" "r = Inr x"
      by (auto simp: io_bind_sum_Some_iff)
    then show "G s w = K (fst y) (snd y)"
    proof cases
      case again
      from IH [OF again(2)] have "G s' w1 = K r w2" by simp
      with round [OF again(1)] y show ?thesis by simp
    qed (use leave fail y in auto)
  qed
  then show ?thesis by simp
qed

section \<open>Running tasks side by side\<close>

text \<open>A task is suspended (\<^const>\<open>Inl\<close>) or settled (\<^const>\<open>Inr\<close>), rejected or fulfilled.\<close>

type_synonym ('s, 'a) task = "'s + (js_error + 'a)"

definition suspended :: "('s, 'a) task list \<Rightarrow> nat list" where
  "suspended ts = filter (\<lambda>i. isl (ts ! i)) [0..<length ts]"

fun resumed :: "js_error + ('s + 'a) \<Rightarrow> ('s, 'a) task" where
  "resumed (Inl e) = Inr (Inl e)"
| "resumed (Inr (Inl s)) = Inl s"
| "resumed (Inr (Inr x)) = Inr (Inr x)"

definition settle_round ::
    "('w \<Rightarrow> nat \<Rightarrow> nat) \<Rightarrow> ('s \<Rightarrow> ('w, 's + 'a) io) \<Rightarrow> ('s, 'a) task list \<Rightarrow>
     ('w, ('s, 'a) task list + (js_error + 'a) list) io" where
  "settle_round pick body ts = (\<lambda>w.
     let n = length (suspended ts)
     in if n = 0 then Some (Inr (Inr (map projr ts)), w)
        else let i = suspended ts ! (pick w n mod n)
             in io_bind (io_try (body (projl (ts ! i)))) (\<lambda>r. io_return (Inl (ts[i := resumed r]))) w)"

definition all_settled ::
    "('w \<Rightarrow> nat \<Rightarrow> nat) \<Rightarrow> ('s \<Rightarrow> ('w, 's + 'a) io) \<Rightarrow> 's list \<Rightarrow> ('w, (js_error + 'a) list) io" where
  "all_settled pick body ss = io_loop (settle_round pick body) (map Inl ss)"

lemma suspended_bound: "i \<in> set (suspended ts) \<Longrightarrow> i < length ts \<and> isl (ts ! i)"
  by (auto simp: suspended_def)

lemma suspended_Nil_iff: "suspended ts = [] \<longleftrightarrow> (\<forall>t \<in> set ts. \<not> isl t)"
  by (force simp: suspended_def filter_empty_conv in_set_conv_nth)

text \<open>The round with its choice made.\<close>

lemma settle_round_cases:
  assumes "settle_round pick body ts w = Some (r, w')"
  obtains (settled) "\<forall>t \<in> set ts. \<not> isl t" and "r = Inr (Inr (map projr ts))" and "w' = w"
  | (resumes) i s q where "i < length ts" and "ts ! i = Inl s" and "body s w = Some (q, w')"
      and "r = Inr (Inl (ts[i := resumed q]))"
proof (cases "suspended ts = []")
  case True
  with assms show ?thesis by (intro settled) (auto simp: settle_round_def suspended_Nil_iff)
next
  case False
  let ?n = "length (suspended ts)"
  let ?i = "suspended ts ! (pick w ?n mod ?n)"
  have "?i \<in> set (suspended ts)" using False by simp
  then have i: "?i < length ts" "isl (ts ! ?i)" by (auto dest: suspended_bound)
  then obtain s where s: "ts ! ?i = Inl s" by (auto simp: isl_def)
  from assms False s obtain q where "body s w = Some (q, w')" "r = Inr (Inl (ts[?i := resumed q]))"
    by (auto simp: settle_round_def Let_def io_bind_Some_iff)
  with i s show ?thesis by (intro resumes)
qed

text \<open>The event loop's choice does not see a log.\<close>

definition lift_pick :: "('w \<Rightarrow> nat \<Rightarrow> nat) \<Rightarrow> 'w \<times> 'c list \<Rightarrow> nat \<Rightarrow> nat" where
  "lift_pick pick = (\<lambda>(w, l). pick w)"

section \<open>Claims about tasks side by side\<close>

text \<open>
  What every task keeps true of the monitor's state in each of its steps is kept true by all of them
  together, in whatever order they run; \<open>Q i\<close> holds of the result of the \<open>i\<close>th task.
\<close>

definition task_ok :: "('s \<Rightarrow> bool) \<Rightarrow> ('a \<Rightarrow> bool) \<Rightarrow> ('s, 'a) task \<Rightarrow> bool" where
  "task_ok J Q t = (case t of Inl s \<Rightarrow> J s | Inr (Inl e) \<Rightarrow> True | Inr (Inr x) \<Rightarrow> Q x)"

lemma task_ok_simps [simp]:
  "task_ok J Q (Inl s) = J s" "task_ok J Q (Inr (Inl e))" "task_ok J Q (Inr (Inr x)) = Q x"
  by (simp_all add: task_ok_def)

lemma task_ok_resumed:
  "(case q of Inl e \<Rightarrow> True | Inr (Inl s') \<Rightarrow> J s' | Inr (Inr x) \<Rightarrow> Q x) \<Longrightarrow> task_ok J Q (resumed q)"
  by (cases q rule: resumed.cases) auto

definition results_ok :: "(nat \<Rightarrow> 'a \<Rightarrow> bool) \<Rightarrow> nat \<Rightarrow> js_error + (js_error + 'a) list \<Rightarrow> bool" where
  "results_ok Q n r \<longleftrightarrow> (case r of Inl e \<Rightarrow> False
     | Inr rs \<Rightarrow> length rs = n \<and> (\<forall>i < n. \<forall>x. rs ! i = Inr x \<longrightarrow> Q i x))"

lemma obeys_all_settled:
  fixes body :: "'s \<Rightarrow> ('w \<times> 'c list, 's + 'a) io"
  assumes init: "I m" and start: "\<And>i. i < length ss \<Longrightarrow> J i (ss ! i)"
    and step: "\<And>i s m. i < length ss \<Longrightarrow> J i s \<Longrightarrow> I m \<Longrightarrow> obeys mon m (body s)
      (\<lambda>r m'. I m' \<and> (case r of Inl e \<Rightarrow> True | Inr (Inl s') \<Rightarrow> J i s' | Inr (Inr x) \<Rightarrow> Q i x))"
  shows "obeys mon m (all_settled pick body ss) (\<lambda>r m'. I m' \<and> results_ok Q (length ss) r)"
  unfolding all_settled_def
proof (rule obeys_loop [where I = "\<lambda>ts m. I m \<and> length ts = length ss \<and>
    (\<forall>i < length ss. task_ok (J i) (Q i) (ts ! i))"])
  show "I m \<and> length (map Inl ss) = length ss \<and> (\<forall>i < length ss. task_ok (J i) (Q i) (map Inl ss ! i))"
    using init start by simp
next
  fix ts :: "('s, 'a) task list" and m
  assume I: "I m \<and> length ts = length ss \<and> (\<forall>i < length ss. task_ok (J i) (Q i) (ts ! i))"
  show "obeys mon m (settle_round pick body ts) (\<lambda>r m'. case r of
      Inl e \<Rightarrow> I m' \<and> results_ok Q (length ss) (Inl e)
    | Inr (Inl ts) \<Rightarrow> I m' \<and> length ts = length ss \<and> (\<forall>i < length ss. task_ok (J i) (Q i) (ts ! i))
    | Inr (Inr rs) \<Rightarrow> I m' \<and> results_ok Q (length ss) (Inr rs))"
  proof (rule obeysI)
    fix w l r w' l'
    assume "settle_round pick body ts (w, l) = Some (r, (w', l'))"
    then show "\<exists>k s'. l' = l @ k \<and> run_monitor mon m k = Some s' \<and> (case r of
        Inl e \<Rightarrow> I s' \<and> results_ok Q (length ss) (Inl e)
      | Inr (Inl ts) \<Rightarrow> I s' \<and> length ts = length ss \<and> (\<forall>i < length ss. task_ok (J i) (Q i) (ts ! i))
      | Inr (Inr rs) \<Rightarrow> I s' \<and> results_ok Q (length ss) (Inr rs))"
    proof (cases rule: settle_round_cases)
      case settled
      have "Q i x" if "i < length ss" "projr (ts ! i) = Inr x" for i x
      proof -
        have "task_ok (J i) (Q i) (ts ! i)" "\<not> isl (ts ! i)" using that(1) settled(1) I by auto
        with that(2) show ?thesis by (cases "ts ! i") auto
      qed
      with settled I show ?thesis by (intro exI [of _ "[]"] exI [of _ m]) (auto simp: results_ok_def)
    next
      case (resumes i s q)
      have J: "J i s" using I resumes(1,2) by fastforce
      from resumes(1) I have i: "i < length ss" by simp
      obtain k m' where k: "l' = l @ k" "run_monitor mon m k = Some m'" "I m'"
        "case q of Inl e \<Rightarrow> True | Inr (Inl s') \<Rightarrow> J i s' | Inr (Inr x) \<Rightarrow> Q i x"
        using obeysD [OF step [OF i J] resumes(3)] I by blast
      have "task_ok (J j) (Q j) (ts[i := resumed q] ! j)" if "j < length ss" for j
        using that I task_ok_resumed [OF k(4)] by (cases "i = j") auto
      with k I resumes show ?thesis by (intro exI [of _ k] exI [of _ m']) simp
    qed
  qed
qed

end
