(* ===== verification/Worker_Restore.thy ===== *)
theory Worker_Restore
  imports Worker_Spec Concurrency Readiness
begin

text \<open>
  \<open>agent/src/worker-runtime.ts\<close>, the parts of a rollout: the containers of a worker service and which of
  them the control plane records as live, the snapshots of its volume, the check that replicas run,
  and handing the service back to the previous version.
\<close>

section \<open>Sequences of calls\<close>

primrec io_map :: "('a \<Rightarrow> ('w, 'b) io) \<Rightarrow> 'a list \<Rightarrow> ('w, 'b list) io" where
  "io_map f [] = io_return []"
| "io_map f (x # xs) = io_bind (f x) (\<lambda>y. io_bind (io_map f xs) (\<lambda>ys. io_return (y # ys)))"

text \<open>
  A loop inside a \<open>try\<close>: the state the rounds before the one that throws have left, and what was thrown.
  No modelled round changes the state before the last call of it that can throw.
\<close>

primrec io_fold_catch ::
    "('s \<Rightarrow> 'a \<Rightarrow> ('w, 's) io) \<Rightarrow> 'a list \<Rightarrow> 's \<Rightarrow> ('w, 's \<times> js_error option) io" where
  "io_fold_catch f [] s = io_return (s, None)"
| "io_fold_catch f (x # xs) s = io_bind (io_try (f s x)) (\<lambda>r. case r of
       Inl e \<Rightarrow> io_return (s, Some e)
     | Inr s' \<Rightarrow> io_fold_catch f xs s')"

section \<open>The containers of a service\<close>

definition readiness_of :: "'w worker_docker \<Rightarrow> 'w readiness_docker" where
  "readiness_of docker = \<lparr>rk_inspectContainer = inspectContainer (wk_docker docker),
     rk_countContainerExits = countContainerExits (wk_docker docker)\<rparr>"

definition is_up :: "inspection \<Rightarrow> bool" where
  "is_up c \<longleftrightarrow> state_of cs_Running c = Some True"

fun first_by_identifier :: "string list \<Rightarrow> inspection list \<Rightarrow> inspection list" where
  "first_by_identifier seen [] = []"
| "first_by_identifier seen (c # cs) =
     (if getContainerIdentifier c \<in> set seen then first_by_identifier seen cs
      else c # first_by_identifier (getContainerIdentifier c # seen) cs)"

definition service_labels :: "string \<Rightarrow> (string \<times> string) list" where
  "service_labels serviceId = [(''nouva.managed'', ''true''), (''nouva.kind'', ''worker''), (''nouva.service.id'', serviceId)]"

definition listWorkerServiceContainers :: "'w worker_docker \<Rightarrow> string \<Rightarrow> ('w, inspection list) io" where
  "listWorkerServiceContainers docker serviceId =
     io_bind (listContainersByLabels (wk_docker docker) (service_labels serviceId)) (\<lambda>cs.
       io_return (first_by_identifier [] cs))"

text \<open>\<open>a < n\<close> of two numbers.\<close>

fun js_below :: "jsnum \<Rightarrow> int \<Rightarrow> bool" where
  "js_below (Fin q) n = (q < of_int n)"
| "js_below (Infinity neg) n = neg"
| "js_below NaN n = False"

definition recorded_names :: "runtime_metadata option \<Rightarrow> string list" where
  "recorded_names md = map the (filter truthy
     ((case Option.bind md md_replicas of None \<Rightarrow> [] | Some rs \<Rightarrow> rs) @ [Option.bind md md_containerName]))"

definition recordedLiveRuntime :: "runtime_metadata option \<Rightarrow> inspection \<Rightarrow> bool" where
  "recordedLiveRuntime md c =
     (if recorded_names md \<noteq> [] then getContainerName c \<in> set (recorded_names md)
      else
        let deploymentId = Option.bind (Option.bind md md_currentImage) im_deploymentId;
            replicaCount = (case Option.bind md md_replicaCount of None \<Rightarrow> 1 | Some n \<Rightarrow> n);
            replicaIndex = (case label_of c ''nouva.replica.index'' of None \<Rightarrow> Fin 0 | Some s \<Rightarrow> js_number s)
        in deploymentId \<noteq> None \<and> label_of c ''nouva.deployment.id'' = deploymentId \<and> js_below replicaIndex replicaCount)"

definition assertNoUnexpectedVolumeConsumer :: "'w worker_docker \<Rightarrow> string \<Rightarrow> string list \<Rightarrow> ('w, unit) io" where
  "assertNoUnexpectedVolumeConsumer docker volumeName allowedNames =
     io_bind (wk_listContainersUsingVolume docker volumeName) (\<lambda>consumers.
       if filter (\<lambda>c. is_up c \<and> getContainerName c \<notin> set allowedNames) consumers \<noteq> [] then
         io_throw (Error (''Volume '' @ volumeName @ '' has another running consumer''))
       else io_return ())"

definition assertContainersAbsent :: "'w worker_docker \<Rightarrow> string list \<Rightarrow> ('w, unit) io" where
  "assertContainersAbsent docker identifiers =
     io_for identifiers (\<lambda>i. io_bind (inspectContainer (wk_docker docker) i) (\<lambda>c.
       if c \<noteq> None then io_throw (Error (''Worker container '' @ i @ '' still exists after it was removed''))
       else io_return ()))"

definition assertContainersStopped :: "'w worker_docker \<Rightarrow> inspection list \<Rightarrow> ('w, unit) io" where
  "assertContainersStopped docker containers =
     io_for containers (\<lambda>c. io_bind (inspectContainer (wk_docker docker) (getContainerIdentifier c)) (\<lambda>current.
       if (case current of None \<Rightarrow> False | Some i \<Rightarrow> is_up i) then
         io_throw (Error (''Previous worker '' @ getContainerName c @ '' is still running''))
       else io_return ()))"

definition prepareCandidateSlot :: "'w worker_docker \<Rightarrow> string \<Rightarrow> ('w, bool) io" where
  "prepareCandidateSlot docker containerName =
     io_bind (inspectContainer (wk_docker docker) containerName) (\<lambda>existing.
       case existing of
         None \<Rightarrow> io_return False
       | Some c \<Rightarrow>
           let identifier = getContainerIdentifier c
           in if is_up c then
                io_bind (updateContainerRestartPolicy (wk_docker docker) identifier ''unless-stopped'') (\<lambda>_.
                io_return True)
              else io_bind (removeContainer (wk_docker docker) identifier False) (\<lambda>_.
                io_bind (assertContainersAbsent docker [identifier]) (\<lambda>_. io_return False)))"

section \<open>Snapshots of a volume\<close>

definition WORKER_VOLUME_SNAPSHOT_IMAGE :: string where "WORKER_VOLUME_SNAPSHOT_IMAGE = ''alpine:3.21''"
definition DEFAULT_WAIT_TIMEOUT_MS :: int where "DEFAULT_WAIT_TIMEOUT_MS = 30 * 60000"

record volume_task =
  vt_name :: string
  vt_projectId :: string
  vt_serviceId :: string
  vt_command :: string
  vt_mounts :: "(string \<times> string \<times> bool) list"

definition volume_task_spec :: "worker_environment \<Rightarrow> volume_task \<Rightarrow> worker_spec" where
  "volume_task_spec environment task = \<lparr>
     sp_name = vt_name task, sp_image = WORKER_VOLUME_SNAPSHOT_IMAGE, sp_env = [],
     sp_entrypoint = [''/bin/sh'', ''-ec''], sp_cmd = [vt_command task],
     sp_labels = buildWorkerLabels \<lparr>li_serverId = we_serverId environment, li_kind = ''worker_volume_task'',
       li_projectId = vt_projectId task, li_environmentId = None, li_serviceId = vt_serviceId task,
       li_deploymentId = None, li_replicaIndex = None, li_scheduleId = None, li_scheduleRunId = None,
       li_occurrenceKey = None, li_redactionContextVersion = None\<rparr>,
     sp_hostConfig = [(''AutoRemove'', JBool False),
       (''Mounts'', JArr (map (\<lambda>(source, target, readOnly). JObj [(''Type'', JStr ''volume''), (''Source'', JStr source),
          (''Target'', JStr target), (''ReadOnly'', JBool readOnly)]) (vt_mounts task)))],
     sp_networks = [], sp_tty = True, sp_healthcheck = None, sp_stopSignal = None, sp_stopTimeoutSeconds = None\<rparr>"

definition volume_task_body :: "'w worker_docker \<Rightarrow> volume_task \<Rightarrow> string \<Rightarrow> ('w, unit) io" where
  "volume_task_body docker task i =
     io_bind (startContainer (wk_docker docker) i) (\<lambda>_.
     io_bind (waitContainer (wk_docker docker) i DEFAULT_WAIT_TIMEOUT_MS) (\<lambda>status.
       if status \<noteq> 0 then
         io_bind (io_catch (containerLogs (wk_docker docker) i) (\<lambda>_. io_return [])) (\<lambda>logs.
         io_throw (Error (if trim logs \<noteq> [] then trim logs
           else ''Worker volume task '' @ vt_name task @ '' failed ('' @ show_int status @ '')'')))
       else io_return ()))"

definition runWorkerVolumeTask :: "'w worker_docker \<Rightarrow> worker_environment \<Rightarrow> volume_task \<Rightarrow> ('w, unit) io" where
  "runWorkerVolumeTask docker environment task =
     io_bind (wk_pullImage docker WORKER_VOLUME_SNAPSHOT_IMAGE) (\<lambda>_.
     io_bind (removeContainer (wk_docker docker) (vt_name task) True) (\<lambda>_.
     io_bind (wk_createContainer docker (volume_task_spec environment task)) (\<lambda>i.
     io_finally (volume_task_body docker task i) (removeContainer (wk_docker docker) i True))))"

definition shell_lines :: "string list \<Rightarrow> string" where "shell_lines = join [CHR 0x0A]"

definition buildWorkerVolumeSnapshotName :: "worker_payload \<Rightarrow> string" where
  "buildWorkerVolumeSnapshotName payload = wd_serviceId payload @ ''-'' @ wd_deploymentId payload @ ''.tar.gz''"

definition payload_task :: "worker_payload \<Rightarrow> string \<Rightarrow> string \<Rightarrow> (string \<times> string \<times> bool) list \<Rightarrow> volume_task" where
  "payload_task payload what command mounts = \<lparr>vt_name = what @ take 12 (wd_deploymentId payload),
     vt_projectId = wd_projectId payload, vt_serviceId = wd_serviceId payload, vt_command = command, vt_mounts = mounts\<rparr>"

definition snapshot_task :: "worker_environment \<Rightarrow> worker_payload \<Rightarrow> volume_identity \<Rightarrow> volume_task" where
  "snapshot_task environment payload v = payload_task payload ''nouva-worker-snapshot-'' (shell_lines
       [''mkdir -p /agent-data/worker-volume-snapshots'',
        ''final=/agent-data/worker-volume-snapshots/'' @ buildWorkerVolumeSnapshotName payload,
        ''if [ -s \"$final\" ]; then exit 0; fi'',
        ''required=$(du -sk /source | awk '{print $1}')'',
        ''available=$(df -Pk /agent-data | awk 'NR==2 {print $4}')'',
        ''if [ \"$available\" -le \"$required\" ]; then echo \"Insufficient snapshot capacity\" >&2; exit 1; fi'',
        ''tmp=\"$final.tmp\"'',
        ''rm -f \"$tmp\"'',
        ''tar -C /source -czpf \"$tmp\" .'',
        ''test -s \"$tmp\"'',
        ''mv \"$tmp\" \"$final\"''])
     [(vi_volumeName v, ''/source'', True), (we_dataVolume environment, ''/agent-data'', False)]"

definition createWorkerVolumeSnapshot ::
    "'w worker_docker \<Rightarrow> worker_environment \<Rightarrow> worker_payload \<Rightarrow> ('w, string) io" where
  "createWorkerVolumeSnapshot docker environment payload =
     (case wd_volume payload of
        None \<Rightarrow> io_throw (Error ''Worker volume snapshot requires a volume'')
      | Some v \<Rightarrow>
          io_bind (createVolume (wk_docker docker) (we_dataVolume environment) []) (\<lambda>_.
          io_bind (runWorkerVolumeTask docker environment (snapshot_task environment payload v)) (\<lambda>_.
          io_return (buildWorkerVolumeSnapshotName payload))))"

definition restore_task :: "worker_environment \<Rightarrow> worker_payload \<Rightarrow> volume_identity \<Rightarrow> string \<Rightarrow> volume_task" where
  "restore_task environment payload v snapshotName = payload_task payload ''nouva-worker-restore-'' (shell_lines
       [''archive=/agent-data/worker-volume-snapshots/'' @ snapshotName,
        ''test -s \"$archive\"'',
        ''find /target -mindepth 1 -maxdepth 1 -exec rm -rf -- {} +'',
        ''tar -C /target -xzpf \"$archive\"''])
     [(vi_volumeName v, ''/target'', False), (we_dataVolume environment, ''/agent-data'', True)]"

definition restoreWorkerVolumeSnapshot ::
    "'w worker_docker \<Rightarrow> worker_environment \<Rightarrow> worker_payload \<Rightarrow> string \<Rightarrow> ('w, unit) io" where
  "restoreWorkerVolumeSnapshot docker environment payload snapshotName =
     (case wd_volume payload of
        None \<Rightarrow> io_throw (Error ''Worker volume restore requires a volume'')
      | Some v \<Rightarrow> runWorkerVolumeTask docker environment (restore_task environment payload v snapshotName))"

definition cleanup_task :: "worker_environment \<Rightarrow> worker_payload \<Rightarrow> string \<Rightarrow> volume_task" where
  "cleanup_task environment payload snapshotName = payload_task payload ''nouva-worker-snapshot-cleanup-''
     (''rm -f /agent-data/worker-volume-snapshots/'' @ snapshotName)
     [(we_dataVolume environment, ''/agent-data'', False)]"

definition deleteWorkerVolumeSnapshotBestEffort ::
    "'w worker_docker \<Rightarrow> worker_environment \<Rightarrow> worker_payload \<Rightarrow> string \<Rightarrow> ('w, unit) io" where
  "deleteWorkerVolumeSnapshotBestEffort docker environment payload snapshotName =
     io_catch (runWorkerVolumeTask docker environment (cleanup_task environment payload snapshotName))
       (\<lambda>_. io_return ())"

text \<open>\<open>snapshotName.replace(/\.tar\.gz$/, "")\<close>.\<close>

definition without_suffix :: "string \<Rightarrow> string \<Rightarrow> string" where
  "without_suffix suf s = (if suffix suf s then take (length s - length suf) s else s)"

definition kept_name :: "string \<Rightarrow> int \<Rightarrow> string" where
  "kept_name snapshotName keptAt = ''kept/'' @ without_suffix ''.tar.gz'' snapshotName @ ''-'' @ show_int keptAt @ ''.tar.gz''"

definition keep_task :: "worker_environment \<Rightarrow> worker_payload \<Rightarrow> string \<Rightarrow> int \<Rightarrow> volume_task" where
  "keep_task environment payload snapshotName keptAt = payload_task payload ''nouva-worker-snapshot-keep-'' (shell_lines
       [''mkdir -p /agent-data/worker-volume-snapshots/kept'',
        ''mv /agent-data/worker-volume-snapshots/'' @ snapshotName @ '' /agent-data/worker-volume-snapshots/''
          @ kept_name snapshotName keptAt])
     [(we_dataVolume environment, ''/agent-data'', False)]"

definition keepWorkerVolumeSnapshot ::
    "'w worker_docker \<Rightarrow> worker_environment \<Rightarrow> worker_payload \<Rightarrow> string \<Rightarrow> int \<Rightarrow> ('w, string) io" where
  "keepWorkerVolumeSnapshot docker environment payload snapshotName keptAt =
     io_catch
       (io_bind (runWorkerVolumeTask docker environment (keep_task environment payload snapshotName keptAt)) (\<lambda>_.
        io_return (''worker-volume-snapshots/'' @ kept_name snapshotName keptAt)))
       (\<lambda>_. io_return (''worker-volume-snapshots/'' @ snapshotName))"

definition describeKeptSnapshot :: "string \<Rightarrow> string \<Rightarrow> string" where
  "describeKeptSnapshot path dataVolume =
     ''The volume was not restored; its contents from before this rollout are kept at '' @ path @ '' ''
     @ ''in the agent data volume '' @ dataVolume @ ''. Restore it by hand if the data needs recovering, ''
     @ ''then delete it.''"

section \<open>Whether replicas run\<close>

text \<open>
  \<open>Promise.all\<close> over the readiness waits of the replicas, each of which turns a failure into \<open>false\<close>. A
  step of such a wait is one round of its loop: the rounds only read.
\<close>

type_synonym replica_wait = "worker_wait \<times> int \<times> worker_seen"

definition replica_step :: "'w worker_docker \<Rightarrow> 'w clock \<Rightarrow> replica_wait \<Rightarrow> ('w, replica_wait + bool) io" where
  "replica_step docker clk = (\<lambda>(inp, deadline, seen).
     io_bind (io_try (worker_round (readiness_of docker) clk inp deadline seen)) (\<lambda>r. io_return (case r of
       Inl e \<Rightarrow> Inr False
     | Inr (Inl seen') \<Rightarrow> Inl (inp, deadline, seen')
     | Inr (Inr _) \<Rightarrow> Inr True)))"

definition replica_wait_input :: "inspection \<Rightarrow> worker_wait" where
  "replica_wait_input replica = (default_worker_wait (getContainerName replica) (state_of cs_Health replica \<noteq> None))
     \<lparr>ww_ignoreEarlierRestarts := True\<rparr>"

definition replica_wait_starts :: "'w clock \<Rightarrow> inspection \<Rightarrow> ('w, replica_wait) io" where
  "replica_wait_starts clk replica =
     io_bind (io_now clk) (\<lambda>t.
       let inp = replica_wait_input replica in io_return (inp, t + ww_timeoutMs inp, worker_start inp))"

definition anyReplicaRuns ::
    "('w \<Rightarrow> nat \<Rightarrow> nat) \<Rightarrow> 'w worker_docker \<Rightarrow> inspection list \<Rightarrow> 'w clock \<Rightarrow> ('w, bool) io" where
  "anyReplicaRuns pick docker replicas clk =
     io_bind (io_map (replica_wait_starts clk) replicas) (\<lambda>waits.
     io_bind (all_settled pick (replica_step docker clk) waits) (\<lambda>running.
     io_return (Inr True \<in> set running)))"

definition previousWorkerRuntimeRuns ::
    "('w \<Rightarrow> nat \<Rightarrow> nat) \<Rightarrow> 'w worker_docker \<Rightarrow> 'w clock \<Rightarrow> string \<Rightarrow> runtime_metadata option \<Rightarrow> ('w, bool) io" where
  "previousWorkerRuntimeRuns pick docker clk serviceId md =
     io_bind (io_try (listWorkerServiceContainers docker serviceId)) (\<lambda>r. case r of
       Inl e \<Rightarrow> io_return False
     | Inr cs \<Rightarrow> anyReplicaRuns pick docker (filter (recordedLiveRuntime md) cs) clk)"

section \<open>Handing the service back\<close>

definition readRestartLoopsBeforeStop ::
    "'w worker_docker \<Rightarrow> inspection list \<Rightarrow> 'w clock \<Rightarrow> ('w, (string \<times> int) list) io" where
  "readRestartLoopsBeforeStop docker containers clk =
     io_bind (io_map (\<lambda>c.
       io_bind (io_now clk) (\<lambda>inspectedAt.
       io_bind (inspectContainer (wk_docker docker) (getContainerIdentifier c)) (\<lambda>current. case current of
         None \<Rightarrow> io_return []
       | Some i \<Rightarrow> io_bind (countRestartLoop (readiness_of docker) i inspectedAt DEFAULT_WORKER_CRASH_LOOP_RESTART_COUNT)
           (\<lambda>n. io_return [(getContainerName c, n)])))) containers) (\<lambda>loops. io_return (concat loops))"

text \<open>A \<open>Map\<close> built from entries, the last of a key winning.\<close>

definition last_of :: "('k \<times> 'v) list \<Rightarrow> 'k \<Rightarrow> 'v option" where
  "last_of entries = map_of (rev entries)"

record restore_input =
  re_shutdowns :: "string shutdown_report list"
  re_isRecordedLive :: "inspection \<Rightarrow> bool"
  re_volumeName :: "string option"
  re_restartsBeforeStop :: "(string \<times> int) list"

record restore_state =
  wr_runningNames :: "string list"
  wr_foundRunning :: "inspection list"
  wr_toStart :: "inspection list"
  wr_restarted :: bool
  wr_completed :: bool

definition stop_outcome :: "restore_input \<Rightarrow> inspection \<Rightarrow> shutdown_outcome option" where
  "stop_outcome inp c = last_of (map (\<lambda>r. (ws_containerName r, ws_outcome r)) (re_shutdowns inp)) (getContainerName c)"

text \<open>The containers to leave alone: a process that survived SIGKILL, and one that was never live.\<close>

definition left_alone :: "restore_input \<Rightarrow> inspection \<Rightarrow> bool" where
  "left_alone inp c \<longleftrightarrow> stop_outcome inp c = Some Hung \<or>
     stop_outcome inp c = Some AlreadyStopped \<and> \<not> re_isRecordedLive inp c"

definition found_running :: "inspection \<Rightarrow> inspection \<Rightarrow> restore_state \<Rightarrow> restore_state" where
  "found_running c current s = s\<lparr>wr_runningNames := wr_runningNames s @ [getContainerName c],
     wr_foundRunning := wr_foundRunning s @ [current]\<rparr>"

definition restore_look ::
    "'w worker_docker \<Rightarrow> restore_input \<Rightarrow> restore_state \<Rightarrow> inspection \<Rightarrow> ('w, restore_state) io" where
  "restore_look docker inp s c =
     (let outcome = stop_outcome inp c; identifier = getContainerIdentifier c
      in if left_alone inp c then io_return s
         else io_bind (inspectContainer (wk_docker docker) identifier) (\<lambda>current. case current of
           None \<Rightarrow> io_return (s\<lparr>wr_completed := (wr_completed s \<and> outcome = None)\<rparr>)
         | Some i \<Rightarrow>
             if is_up i then
               io_bind (if outcome \<noteq> None
                        then updateContainerRestartPolicy (wk_docker docker) identifier ''unless-stopped''
                        else io_return ()) (\<lambda>_. io_return (found_running c i s))
             else if outcome \<noteq> None then io_return (s\<lparr>wr_toStart := wr_toStart s @ [c]\<rparr>)
             else io_return s))"

definition restore_start ::
    "'w worker_docker \<Rightarrow> 'w clock \<Rightarrow> restore_input \<Rightarrow> restore_state \<Rightarrow> inspection \<Rightarrow> ('w, restore_state) io" where
  "restore_start docker clk inp s c =
     (let identifier = getContainerIdentifier c; name = getContainerName c
      in io_bind (case re_volumeName inp of
             None \<Rightarrow> io_return ()
           | Some v \<Rightarrow> if v = [] then io_return () else assertNoUnexpectedVolumeConsumer docker v (wr_runningNames s)) (\<lambda>_.
         io_bind (updateContainerRestartPolicy (wk_docker docker) identifier ''unless-stopped'') (\<lambda>_.
         io_bind (startContainer (wk_docker docker) identifier) (\<lambda>_.
           let s = s\<lparr>wr_runningNames := wr_runningNames s @ [name]\<rparr>
           in io_bind (io_try (waitForWorkerReadiness (readiness_of docker) clk
                  ((default_worker_wait name False)\<lparr>ww_restartsBeforeStart :=
                     (case last_of (re_restartsBeforeStop inp) name of None \<Rightarrow> 0 | Some n \<Rightarrow> n)\<rparr>)))
                (\<lambda>r. io_return (if isl r then s else s\<lparr>wr_restarted := True\<rparr>))))))"

text \<open>What follows the \<open>try\<close>: whether the service runs.\<close>

definition restore_answer ::
    "('w \<Rightarrow> nat \<Rightarrow> nat) \<Rightarrow> 'w worker_docker \<Rightarrow> 'w clock \<Rightarrow> restore_state \<Rightarrow> ('w, bool \<times> bool) io" where
  "restore_answer pick docker clk s =
     io_bind (if wr_restarted s then io_return True else anyReplicaRuns pick docker (wr_foundRunning s) clk)
       (\<lambda>live. io_return (live, wr_completed s \<and> live))"

text \<open>The answer is \<open>(liveRuntimePreserved, rollbackCompleted)\<close>.\<close>

definition restorePreviousWorkerRuntime ::
    "('w \<Rightarrow> nat \<Rightarrow> nat) \<Rightarrow> 'w worker_docker \<Rightarrow> 'w clock \<Rightarrow> inspection list \<Rightarrow> restore_input \<Rightarrow> ('w, bool \<times> bool) io" where
  "restorePreviousWorkerRuntime pick docker clk previousContainers inp =
     io_bind (io_fold_catch (restore_look docker inp) previousContainers
       \<lparr>wr_runningNames = [], wr_foundRunning = [], wr_toStart = [], wr_restarted = False, wr_completed = True\<rparr>)
       (\<lambda>(s, e). if e \<noteq> None then restore_answer pick docker clk (s\<lparr>wr_completed := False\<rparr>)
         else io_bind (io_fold_catch (restore_start docker clk inp) (wr_toStart s) s)
           (\<lambda>(s, e). restore_answer pick docker clk (if e \<noteq> None then s\<lparr>wr_completed := False\<rparr> else s)))"

end
