(* ===== verification/Stop_Tasks.thy ===== *)
theory Stop_Tasks
  imports Concurrency Worker_Shutdown
begin

text \<open>
  The graceful stop of one container (\<open>agent/src/worker-shutdown.ts\<close>) as a task that can be suspended at
  each of its awaits, so that several stops can run side by side as \<open>Promise.allSettled\<close> runs them in a
  rollout. The task that runs alone is the function of \<open>Worker_Shutdown\<close>.
\<close>

text \<open>
  Where a stop is suspended: every state names the call that is pending. \<open>AwaitState\<close> and \<open>AwaitPause\<close> belong
  to \<open>waitUntilStopped\<close>, with its deadline and whether SIGKILL has been sent.
\<close>

datatype stop_point =
    AwaitInitial int
  | AwaitPolicy int string
  | AwaitSignal int string
  | AwaitState int string bool int
  | AwaitPause int string bool int int
  | AwaitKill int string

definition finished :: "('w, 'a) io \<Rightarrow> ('w, 's + 'a) io" where
  "finished m = io_bind m (\<lambda>x. io_return (Inr x))"

fun stop_step :: "'w docker \<Rightarrow> 'w clock \<Rightarrow> shutdown_input \<Rightarrow> stop_point \<Rightarrow>
    ('w, stop_point + string shutdown_report) io" where
  "stop_step docker clk input (AwaitInitial startedAt) =
     io_bind (readRunningState docker (si_identifier input)) (\<lambda>initial.
       let signal = resolveWorkerStopSignal (si_signal input) (rs_stopSignal initial)
       in if \<not> rs_running initial then
            finished (shutdown_report_of clk input startedAt signal AlreadyStopped (rs_exitCode initial))
          else io_return (Inl (AwaitPolicy startedAt signal)))"
| "stop_step docker clk input (AwaitPolicy startedAt signal) =
     io_bind (io_try (updateContainerRestartPolicy docker (si_identifier input) ''no'')) (\<lambda>u.
       case u of
         Inl e \<Rightarrow> if gone_meanwhile e then
             finished (shutdown_report_of clk input startedAt signal AlreadyStopped None) else io_throw e
       | Inr _ \<Rightarrow> io_return (Inl (AwaitSignal startedAt signal)))"
| "stop_step docker clk input (AwaitSignal startedAt signal) =
     io_bind (killContainer docker (si_identifier input) signal) (\<lambda>_.
       io_return (Inl (AwaitState startedAt signal False (startedAt + si_gracePeriodSeconds input * 1000))))"
| "stop_step docker clk input (AwaitState startedAt signal killed deadline) =
     io_bind (readRunningState docker (si_identifier input)) (\<lambda>s.
       if \<not> rs_running s then
         finished (shutdown_report_of clk input startedAt signal (if killed then Forced else ExitedInTime) (rs_exitCode s))
       else io_bind (io_now clk) (\<lambda>t.
         if deadline - t \<le> 0 then
           (if killed then finished (shutdown_report_of clk input startedAt signal Hung None)
            else io_return (Inl (AwaitKill startedAt signal)))
         else io_return (Inl (AwaitPause startedAt signal killed deadline
           (min WORKER_SHUTDOWN_POLL_INTERVAL_MS (deadline - t))))))"
| "stop_step docker clk input (AwaitPause startedAt signal killed deadline ms) =
     io_bind (wait clk ms) (\<lambda>_. io_return (Inl (AwaitState startedAt signal killed deadline)))"
| "stop_step docker clk input (AwaitKill startedAt signal) =
     io_bind (killContainer docker (si_identifier input) ''SIGKILL'') (\<lambda>_.
     io_bind (io_now clk) (\<lambda>t.
       io_return (Inl (AwaitState startedAt signal True (t + WORKER_SHUTDOWN_KILL_CONFIRM_MS)))))"

section \<open>The task is the function\<close>

text \<open>What the function still does from each suspension on.\<close>

definition after_wait :: "'w docker \<Rightarrow> 'w clock \<Rightarrow> shutdown_input \<Rightarrow> int \<Rightarrow> string \<Rightarrow> bool \<Rightarrow> int option option \<Rightarrow>
    ('w, string shutdown_report) io" where
  "after_wait docker clk input startedAt signal killed r =
     (case r of
        Some code \<Rightarrow> shutdown_report_of clk input startedAt signal (if killed then Forced else ExitedInTime) code
      | None \<Rightarrow> if killed then shutdown_report_of clk input startedAt signal Hung None
          else kill_and_confirm docker clk input startedAt signal)"

fun stop_rest :: "'w docker \<Rightarrow> 'w clock \<Rightarrow> shutdown_input \<Rightarrow> stop_point \<Rightarrow> ('w, string shutdown_report) io" where
  "stop_rest docker clk input (AwaitInitial startedAt) =
     io_bind (readRunningState docker (si_identifier input)) (stop_from docker clk input startedAt)"
| "stop_rest docker clk input (AwaitPolicy startedAt signal) =
     io_bind (io_try (updateContainerRestartPolicy docker (si_identifier input) ''no'')) (\<lambda>u.
       case u of
         Inl e \<Rightarrow> if gone_meanwhile e then shutdown_report_of clk input startedAt signal AlreadyStopped None
           else io_throw e
       | Inr _ \<Rightarrow> signal_and_wait docker clk input startedAt signal)"
| "stop_rest docker clk input (AwaitSignal startedAt signal) = signal_and_wait docker clk input startedAt signal"
| "stop_rest docker clk input (AwaitState startedAt signal killed deadline) =
     io_bind (waitUntilStopped docker (si_identifier input) deadline clk)
       (after_wait docker clk input startedAt signal killed)"
| "stop_rest docker clk input (AwaitPause startedAt signal killed deadline ms) =
     io_bind (wait clk ms) (\<lambda>_. io_bind (waitUntilStopped docker (si_identifier input) deadline clk)
       (after_wait docker clk input startedAt signal killed))"
| "stop_rest docker clk input (AwaitKill startedAt signal) = kill_and_confirm docker clk input startedAt signal"

lemma finished_bind:
  "io_bind (finished m) (\<lambda>r. case r of Inl s \<Rightarrow> f s | Inr x \<Rightarrow> io_return x) = m"
  unfolding finished_def io_bind_assoc io_bind_return sum.case
  by (rule ext) (auto simp: io_bind_def io_return_def split: Option.bind_splits sum.splits)

lemma kill_and_confirm_rest:
  "kill_and_confirm docker clk input startedAt signal =
     io_bind (killContainer docker (si_identifier input) ''SIGKILL'') (\<lambda>_.
     io_bind (io_now clk) (\<lambda>t.
       stop_rest docker clk input (AwaitState startedAt signal True (t + WORKER_SHUTDOWN_KILL_CONFIRM_MS))))"
  by (simp add: kill_and_confirm_def after_wait_def [abs_def] cong: option.case_cong)

lemma waitUntilStopped_unfold:
  "waitUntilStopped docker i deadline clk =
     io_bind (readRunningState docker i) (\<lambda>s.
       if \<not> rs_running s then io_return (Some (rs_exitCode s))
       else io_bind (io_now clk) (\<lambda>t.
         if deadline - t \<le> 0 then io_return None
         else io_bind (wait clk (min WORKER_SHUTDOWN_POLL_INTERVAL_MS (deadline - t)))
           (\<lambda>_. waitUntilStopped docker i deadline clk)))"
proof -
  have "waitUntilStopped docker i deadline clk =
      io_bind (wait_round docker i deadline clk ())
        (\<lambda>r. case r of Inl s' \<Rightarrow> waitUntilStopped docker i deadline clk | Inr x \<Rightarrow> io_return x)"
    unfolding waitUntilStopped_def by (rule ext) (subst io_loop.simps, simp)
  then show ?thesis
    by (simp add: wait_round_def io_bind_assoc if_distrib [of "\<lambda>m. io_bind m _"] cong: if_cong)
qed

text \<open>One step of the task, and the rest after it, are the rest.\<close>

lemma stop_rest_step:
  "io_bind (stop_step docker clk input p)
     (\<lambda>r. case r of Inl p' \<Rightarrow> stop_rest docker clk input p' | Inr x \<Rightarrow> io_return x) = stop_rest docker clk input p"
proof (cases p)
  case (AwaitInitial t0)
  then show ?thesis
    by (simp add: io_bind_assoc stop_from_def [abs_def] Let_def finished_bind if_distrib [of "\<lambda>m. io_bind m _"] cong: if_cong)
next
  case (AwaitPolicy t0 sig)
  have "io_bind (case u of Inl e \<Rightarrow> if gone_meanwhile e then
             finished (shutdown_report_of clk input t0 sig AlreadyStopped None) else io_throw e
       | Inr _ \<Rightarrow> io_return (Inl (AwaitSignal t0 sig)))
      (\<lambda>r. case r of Inl p' \<Rightarrow> stop_rest docker clk input p' | Inr x \<Rightarrow> io_return x) =
     (case u of Inl e \<Rightarrow> if gone_meanwhile e then shutdown_report_of clk input t0 sig AlreadyStopped None
           else io_throw e | Inr _ \<Rightarrow> signal_and_wait docker clk input t0 sig)" for u :: "js_error + unit"
    by (cases u) (simp_all add: finished_bind)
  with AwaitPolicy show ?thesis by (simp add: io_bind_assoc)
next
  case (AwaitSignal t0 sig)
  then show ?thesis by (simp add: io_bind_assoc signal_and_wait_def after_wait_def [abs_def] cong: option.case_cong)
next
  case (AwaitState t0 sig killed deadline)
  show ?thesis
    unfolding AwaitState stop_rest.simps
    by (subst waitUntilStopped_unfold)
      (simp add: io_bind_assoc finished_bind after_wait_def if_distrib [of "\<lambda>m. io_bind m _"] cong: if_cong)
next
  case (AwaitPause t0 sig killed deadline ms)
  then show ?thesis by (simp add: io_bind_assoc)
next
  case (AwaitKill t0 sig)
  then show ?thesis by (simp add: io_bind_assoc kill_and_confirm_rest)
qed

lemma stop_loop_rest: "io_loop (stop_step docker clk input) p w = Some y \<Longrightarrow> stop_rest docker clk input p w = Some y"
  by (erule io_loop_least) (simp add: stop_rest_step)

text \<open>Conversely, a wait that ends is a run of the task.\<close>

abbreviation stop_loop :: "'w docker \<Rightarrow> 'w clock \<Rightarrow> shutdown_input \<Rightarrow> stop_point \<Rightarrow> ('w, string shutdown_report) io" where
  "stop_loop docker clk input \<equiv> io_loop (stop_step docker clk input)"

lemma stop_loop_unfold:
  "stop_loop docker clk input p =
     io_bind (stop_step docker clk input p)
       (\<lambda>r. case r of Inl p' \<Rightarrow> stop_loop docker clk input p' | Inr x \<Rightarrow> io_return x)"
  by (rule ext) (subst io_loop.simps, simp)

definition after_wait_loop :: "'w docker \<Rightarrow> 'w clock \<Rightarrow> shutdown_input \<Rightarrow> int \<Rightarrow> string \<Rightarrow> bool \<Rightarrow> int option option \<Rightarrow>
    ('w, string shutdown_report) io" where
  "after_wait_loop docker clk input startedAt signal killed r =
     (case r of
        Some code \<Rightarrow> shutdown_report_of clk input startedAt signal (if killed then Forced else ExitedInTime) code
      | None \<Rightarrow> if killed then shutdown_report_of clk input startedAt signal Hung None
          else stop_loop docker clk input (AwaitKill startedAt signal))"

lemma stop_loop_state:
  "stop_loop docker clk input (AwaitState t0 sig killed deadline) =
     io_bind (wait_round docker (si_identifier input) deadline clk ()) (\<lambda>r. case r of
       Inl _ \<Rightarrow> stop_loop docker clk input (AwaitState t0 sig killed deadline)
     | Inr x \<Rightarrow> after_wait_loop docker clk input t0 sig killed x)"
proof -
  have pause: "stop_loop docker clk input (AwaitPause t0 sig killed deadline ms) =
      io_bind (wait clk ms) (\<lambda>_. stop_loop docker clk input (AwaitState t0 sig killed deadline))" for ms
    by (subst stop_loop_unfold) (simp add: io_bind_assoc)
  show ?thesis
    by (subst stop_loop_unfold)
      (simp add: io_bind_assoc finished_bind after_wait_loop_def pause wait_round_def
        if_distrib [of "\<lambda>m. io_bind m _"] cong: if_cong)
qed

lemma wait_then_loop:
  assumes "waitUntilStopped docker (si_identifier input) deadline clk w = Some (r, w')"
  shows "stop_loop docker clk input (AwaitState t0 sig killed deadline) w =
    (case r of Inl e \<Rightarrow> Some (Inl e, w') | Inr x \<Rightarrow> after_wait_loop docker clk input t0 sig killed x w')"
  using assms unfolding waitUntilStopped_def
proof (rule io_loop_then [where G = "\<lambda>_. stop_loop docker clk input (AwaitState t0 sig killed deadline)"
      and K = "\<lambda>r w'. case r of Inl e \<Rightarrow> Some (Inl e, w') | Inr x \<Rightarrow> after_wait_loop docker clk input t0 sig killed x w'",
      simplified])
qed (subst stop_loop_state, simp add: io_bind_def)+

lemma wait_bind_loop:
  assumes "io_bind (waitUntilStopped docker (si_identifier input) deadline clk) k w = Some y"
    and "\<And>x w. k x w = Some y \<Longrightarrow> after_wait_loop docker clk input t0 sig killed x w = Some y"
  shows "stop_loop docker clk input (AwaitState t0 sig killed deadline) w = Some y"
proof -
  obtain r w2 where y: "y = (r, w2)" by (cases y)
  show ?thesis using assms unfolding y io_bind_Some_iff by (auto simp: wait_then_loop)
qed

lemma kill_rest_loop:
  assumes "kill_and_confirm docker clk input t0 sig w = Some y"
  shows "stop_loop docker clk input (AwaitKill t0 sig) w = Some y"
proof -
  obtain r w2 where y: "y = (r, w2)" by (cases y)
  have "stop_loop docker clk input (AwaitKill t0 sig) =
      io_bind (killContainer docker (si_identifier input) ''SIGKILL'') (\<lambda>_. io_bind (io_now clk) (\<lambda>t.
        stop_loop docker clk input (AwaitState t0 sig True (t + WORKER_SHUTDOWN_KILL_CONFIRM_MS))))"
    by (subst stop_loop_unfold) (simp add: io_bind_assoc)
  moreover have "stop_loop docker clk input (AwaitState t0 sig True dl) w1 = Some (r, w2)"
    if "stop_rest docker clk input (AwaitState t0 sig True dl) w1 = Some (r, w2)" for dl w1
    using that unfolding stop_rest.simps
    by (rule wait_bind_loop) (auto simp: after_wait_def after_wait_loop_def split: option.splits)
  ultimately show ?thesis
    using assms unfolding y kill_and_confirm_rest by (auto simp: io_bind_Some_iff)
qed

lemma state_rest_loop:
  assumes "stop_rest docker clk input (AwaitState t0 sig killed deadline) w = Some y"
  shows "stop_loop docker clk input (AwaitState t0 sig killed deadline) w = Some y"
  using assms unfolding stop_rest.simps
  by (rule wait_bind_loop)
    (auto simp: after_wait_def after_wait_loop_def kill_rest_loop split: option.splits if_splits)

lemma io_bind_implies:
  assumes "io_bind m f w = Some y" and "\<And>x w. f x w = Some y \<Longrightarrow> g x w = Some y"
  shows "io_bind m g w = Some y"
  using assms by (auto simp: io_bind_def split: Option.bind_splits sum.splits)

lemma signal_rest_loop:
  assumes "signal_and_wait docker clk input t0 sig w = Some y"
  shows "stop_loop docker clk input (AwaitSignal t0 sig) w = Some y"
proof -
  obtain r w2 where y: "y = (r, w2)" by (cases y)
  have "signal_and_wait docker clk input t0 sig =
      io_bind (killContainer docker (si_identifier input) sig) (\<lambda>_. stop_rest docker clk input
        (AwaitState t0 sig False (t0 + si_gracePeriodSeconds input * 1000)))"
    by (simp add: signal_and_wait_def after_wait_def [abs_def] cong: option.case_cong)
  moreover have "stop_loop docker clk input (AwaitSignal t0 sig) =
      io_bind (killContainer docker (si_identifier input) sig) (\<lambda>_. stop_loop docker clk input
        (AwaitState t0 sig False (t0 + si_gracePeriodSeconds input * 1000)))"
    by (subst stop_loop_unfold) (simp add: io_bind_assoc)
  ultimately show ?thesis
    using assms state_rest_loop unfolding y by (fastforce simp: io_bind_Some_iff simp del: stop_rest.simps)
qed

lemma policy_rest_loop:
  assumes "stop_rest docker clk input (AwaitPolicy t0 sig) w = Some y"
  shows "stop_loop docker clk input (AwaitPolicy t0 sig) w = Some y"
  using assms unfolding stop_rest.simps
  by (subst stop_loop_unfold, unfold stop_step.simps io_bind_assoc)
    (erule io_bind_implies, auto simp: finished_bind signal_rest_loop split: sum.splits if_splits)

lemma rest_loop:
  assumes "stop_rest docker clk input (AwaitInitial t0) w = Some y"
  shows "stop_loop docker clk input (AwaitInitial t0) w = Some y"
  using assms unfolding stop_rest.simps
  by (subst stop_loop_unfold, unfold stop_step.simps io_bind_assoc)
    (erule io_bind_implies, auto simp: stop_from_def Let_def finished_bind intro!: policy_rest_loop split: if_splits)

text \<open>The stop of one container is its task, run alone: the function written as one sequential program, and
  the task with its six kinds of suspension that a rollout runs beside the stops of the other replicas,
  have the same results and the same effects in every world, including that they end or not.\<close>

theorem stop_task_is_stop:
  "stopWorkerContainerGracefully docker clk input =
     io_bind (io_now clk) (\<lambda>startedAt. io_loop (stop_step docker clk input) (AwaitInitial startedAt))"
proof -
  have "stop_rest docker clk input (AwaitInitial t0) w = stop_loop docker clk input (AwaitInitial t0) w" for t0 w
    using stop_loop_rest rest_loop by (metis not_Some_eq option.exhaust)
  then have "stop_rest docker clk input (AwaitInitial t0) = stop_loop docker clk input (AwaitInitial t0)" for t0
    by (rule ext)
  then show ?thesis by (simp add: stopWorkerContainerGracefully_def)
qed

end
