(* ===== verification/Worker_Deploy.thy ===== *)
theory Worker_Deploy
  imports Worker_Restore Stop_Tasks
begin

text \<open>
  \<open>deployWorkerRuntime\<close> (\<open>agent/src/worker-runtime.ts\<close>): a rollout of a worker service. The function is the
  composition of its phases, each a definition: preparing and planning, stopping the previous version
  (stop-first), starting and awaiting the candidates, handing back after a failure, and retiring.

  The list \<open>shutdowns\<close> that the closures push to is threaded through the phases: a phase that can throw
  answers what it has pushed together with what was thrown. The callback \<open>onProgress\<close> is a function of
  the world that returns.
\<close>

section \<open>Stopping several containers\<close>

record 'w deploy_deps =
  dd_docker :: "'w worker_docker"
  dd_clock :: "'w clock"
  dd_pick :: "'w \<Rightarrow> nat \<Rightarrow> nat"
  dd_onProgress :: "string \<Rightarrow> 'w \<Rightarrow> 'w"
  dd_environment :: worker_environment

definition say :: "'w deploy_deps \<Rightarrow> string \<Rightarrow> ('w, unit) io" where
  "say deps line = (\<lambda>w. Some (Inr (), dd_onProgress deps line w))"

type_synonym reports = "string shutdown_report list"

definition stop_input :: "shutdown_policy \<Rightarrow> (inspection \<Rightarrow> shutdown_role) \<Rightarrow> inspection \<Rightarrow> shutdown_input" where
  "stop_input policy roleOf c = \<lparr>si_identifier = getContainerIdentifier c, si_containerName = getContainerName c,
     si_role = roleOf c, si_signal = wp_signal policy, si_gracePeriodSeconds = wp_gracePeriodSeconds policy\<rparr>"

text \<open>The synchronous start of a stop, up to its first call, and its steps from there.\<close>

definition stop_starts ::
    "'w deploy_deps \<Rightarrow> shutdown_policy \<Rightarrow> (inspection \<Rightarrow> shutdown_role) \<Rightarrow> inspection \<Rightarrow>
     ('w, shutdown_input \<times> stop_point) io" where
  "stop_starts deps policy roleOf c =
     io_bind (io_now (dd_clock deps)) (\<lambda>t. io_return (stop_input policy roleOf c, AwaitInitial t))"

definition stop_body ::
    "'w deploy_deps \<Rightarrow> shutdown_input \<times> stop_point \<Rightarrow> ('w, (shutdown_input \<times> stop_point) + string shutdown_report) io" where
  "stop_body deps = (\<lambda>(inp, p).
     io_bind (stop_step (wk_docker (dd_docker deps)) (dd_clock deps) inp p) (\<lambda>r. io_return (case r of
       Inl p' \<Rightarrow> Inl (inp, p') | Inr x \<Rightarrow> Inr x)))"

definition stop_report ::
    "'w deploy_deps \<Rightarrow> shutdown_policy \<Rightarrow> (inspection \<Rightarrow> shutdown_role) \<Rightarrow> int \<Rightarrow>
     inspection \<times> (js_error + string shutdown_report) \<Rightarrow> ('w, string shutdown_report) io" where
  "stop_report deps policy roleOf startedAt = (\<lambda>(c, r). case r of
       Inr report \<Rightarrow> io_return report
     | Inl e \<Rightarrow> io_bind (io_now (dd_clock deps)) (\<lambda>t. io_return
         \<lparr>ws_containerName = getContainerName c, ws_role = roleOf c,
          ws_signal = resolveWorkerStopSignal (wp_signal policy) (ci_StopSignal c),
          ws_gracePeriodSeconds = wp_gracePeriodSeconds policy, ws_outcome = Unconfirmed, ws_exitCode = None,
          ws_elapsedMs = max 0 (t - startedAt)\<rparr>))"

text \<open>It never throws; the caller adds the reports to \<open>shutdowns\<close>.\<close>

definition stopAllGracefully ::
    "'w deploy_deps \<Rightarrow> shutdown_policy \<Rightarrow> inspection list \<Rightarrow> (inspection \<Rightarrow> shutdown_role) \<Rightarrow> ('w, reports) io" where
  "stopAllGracefully deps policy containers roleOf =
     io_bind (io_now (dd_clock deps)) (\<lambda>startedAt.
     io_bind (io_map (stop_starts deps policy roleOf) containers) (\<lambda>stops.
     io_bind (all_settled (dd_pick deps) (stop_body deps) stops) (\<lambda>settled.
     io_bind (io_map (stop_report deps policy roleOf startedAt) (zip containers settled)) (\<lambda>reports.
     io_bind (io_for reports (\<lambda>r. say deps (describeWorkerShutdownReport r))) (\<lambda>_.
     io_return reports)))))"

definition mayStillRun :: "'n shutdown_report \<Rightarrow> bool" where
  "mayStillRun r \<longleftrightarrow> ws_outcome r = Hung \<or> ws_outcome r = Unconfirmed"

definition describeUnstopped :: "'n shutdown_report \<Rightarrow> string" where
  "describeUnstopped r = (if ws_outcome r = Hung then ''did not stop even after SIGKILL''
     else ''could not be confirmed stopped because Docker returned an error'')"

section \<open>The plan of a rollout\<close>

record rollout =
  ro_payload :: worker_payload
  ro_policy :: shutdown_policy
  ro_image :: "image_inspection option"
  ro_candidates :: "candidate_spec list"
  ro_current :: "inspection list"
  ro_plan :: worker_rollout_plan

definition ro_candidateNames :: "rollout \<Rightarrow> string list" where
  "ro_candidateNames ro = map cp_containerName (ro_candidates ro)"

definition ro_isRecordedLive :: "rollout \<Rightarrow> inspection \<Rightarrow> bool" where
  "ro_isRecordedLive ro = recordedLiveRuntime (wd_runtimeMetadata (ro_payload ro))"

definition isLive :: "worker_payload \<Rightarrow> inspection \<Rightarrow> bool" where
  "isLive payload c \<longleftrightarrow> is_up c \<or> recordedLiveRuntime (wd_runtimeMetadata payload) c"

text \<open>\<open>pick\<close>: the current containers of those names, the last one of a name winning.\<close>

definition pick_names :: "inspection list \<Rightarrow> string list \<Rightarrow> inspection list" where
  "pick_names containers names =
     concat (map (\<lambda>n. case last_of (map (\<lambda>c. (getContainerName c, c)) containers) n of None \<Rightarrow> [] | Some c \<Rightarrow> [c]) names)"

definition plan_input :: "worker_payload \<Rightarrow> shutdown_policy \<Rightarrow> string list \<Rightarrow> inspection list \<Rightarrow> rollout_input" where
  "plan_input payload policy candidateNames containers =
     \<lparr>ri_rolloutPolicy = wp_rolloutPolicy policy, ri_hasVolume = (wd_volume payload \<noteq> None),
      ri_deploymentId = wd_deploymentId payload, ri_candidateNames = candidateNames,
      ri_containers = map (\<lambda>c. \<lparr>ew_name = getContainerName c, ew_deploymentId = label_of c ''nouva.deployment.id'',
        ew_live = isLive payload c\<rparr>) containers\<rparr>"

fun stop_first :: "worker_rollout_plan \<Rightarrow> bool" where
  "stop_first (StopFirst _ _ _ _) = True"
| "stop_first (CandidateFirst _ _) = False"

definition ro_previous :: "rollout \<Rightarrow> inspection list" where
  "ro_previous ro = (case ro_plan ro of StopFirst _ _ _ before \<Rightarrow> pick_names (ro_current ro) before
     | CandidateFirst _ _ \<Rightarrow> [])"

definition ro_stale :: "rollout \<Rightarrow> inspection list" where
  "ro_stale ro = (case ro_plan ro of StopFirst _ _ reset _ \<Rightarrow> pick_names (ro_current ro) reset
     | CandidateFirst _ _ \<Rightarrow> [])"

definition ro_retired :: "rollout \<Rightarrow> inspection list" where
  "ro_retired ro = (case ro_plan ro of CandidateFirst _ retire \<Rightarrow> pick_names (ro_current ro) retire
     | StopFirst _ _ _ _ \<Rightarrow> [])"

definition retiredRole :: "rollout \<Rightarrow> inspection \<Rightarrow> shutdown_role" where
  "retiredRole ro c = (if label_of c ''nouva.deployment.id'' = Some (wd_deploymentId (ro_payload ro))
     then SurplusReplica else PreviousWorker)"

fun strategy_text :: "worker_rollout_plan \<Rightarrow> string" where
  "strategy_text (CandidateFirst _ _) = ''candidate_ready_cutover''"
| "strategy_text (StopFirst StopFirstCutover _ _ _) = ''stop_first_cutover''"
| "strategy_text (StopFirst SingleWriterSnapshotCutover _ _ _) = ''single_writer_snapshot_cutover''"

section \<open>Results\<close>

datatype rollout_outcome = Committed | AbortedBeforeCutover
datatype rollout_phase = RetirePhase | ReadyPhase | RestorePhase

record rollout_result =
  rr_strategy :: string
  rr_outcome :: rollout_outcome
  rr_currentPhase :: rollout_phase
  rr_liveRuntimePreserved :: bool
  rr_rollbackCompleted :: bool
  rr_activeContainerNames :: "string list"
  rr_candidateContainerNames :: "string list"
  rr_policy :: shutdown_policy
  rr_shutdowns :: reports

definition rolloutResult ::
    "rollout \<Rightarrow> reports \<Rightarrow> rollout_outcome \<Rightarrow> rollout_phase \<Rightarrow> bool \<Rightarrow> bool \<Rightarrow> string list \<Rightarrow> rollout_result" where
  "rolloutResult ro shutdowns outcome phase live rolledBack active =
     \<lparr>rr_strategy = strategy_text (ro_plan ro), rr_outcome = outcome, rr_currentPhase = phase,
      rr_liveRuntimePreserved = live, rr_rollbackCompleted = rolledBack, rr_activeContainerNames = active,
      rr_candidateContainerNames = ro_candidateNames ro, rr_policy = ro_policy ro, rr_shutdowns = shutdowns\<rparr>"

record worker_instance =
  wi_replicaIndex :: nat
  wi_image :: string
  wi_containerId :: string
  wi_containerName :: string
  wi_networkName :: string

record deployed =
  de_imageUrl :: string
  de_imageStoreMode :: string
  de_currentImage :: retained_image
  de_previousImage :: "retained_image option"
  de_networkName :: string
  de_imageCommand :: "image_command option"
  de_workerCommand :: "string option"
  de_workerHealthCheckCommand :: "string option"
  de_rollout :: rollout_result
  de_instances :: "worker_instance list"

text \<open>\<open>RolloutFailed\<close> is a thrown \<open>WorkerRolloutError\<close>; any other error is a rejection.\<close>

datatype deploy_answer = RolloutFailed string rollout_result | Deployed deployed

section \<open>Preparing and planning\<close>

primrec first_error :: "(js_error + 'a) list \<Rightarrow> js_error + 'a list" where
  "first_error [] = Inr []"
| "first_error (x # xs) = (case x of Inl e \<Rightarrow> Inl e
     | Inr y \<Rightarrow> (case first_error xs of Inl e \<Rightarrow> Inl e | Inr ys \<Rightarrow> Inr (y # ys)))"

definition prepare_host :: "'w deploy_deps \<Rightarrow> worker_payload \<Rightarrow> ('w, unit) io" where
  "prepare_host deps payload =
     (let managed = [(''nouva.managed'', ''true''), (''nouva.server.id'', we_serverId (dd_environment deps))]
      in io_bind (wk_ensureNetwork (dd_docker deps) (getWorkerProjectNetwork (dd_environment deps) (wd_projectId payload))
             (managed @ [(''nouva.project.id'', wd_projectId payload)])) (\<lambda>_.
         case wd_volume payload of
           None \<Rightarrow> io_return ()
         | Some v \<Rightarrow> createVolume (wk_docker (dd_docker deps)) (vi_volumeName v)
             (managed @ [(''nouva.volume.id'', vi_volumeId v), (''nouva.project.id'', wd_projectId payload),
               (''nouva.service.id'', wd_serviceId payload)])))"

definition rollout_image :: "'w deploy_deps \<Rightarrow> worker_payload \<Rightarrow> nat \<Rightarrow> ('w, image_inspection option) io" where
  "rollout_image deps payload replicaCount =
     (if replicaCount > 0 then
        io_bind (ensureWorkerImage (dd_docker deps) (dd_environment deps) (wd_imageUrl payload)) (\<lambda>i. io_return (Some i))
      else wk_inspectImage (dd_docker deps) (wd_imageUrl payload))"

definition is_leftover :: "worker_payload \<Rightarrow> string list \<Rightarrow> inspection \<Rightarrow> bool" where
  "is_leftover payload candidateNames c \<longleftrightarrow> \<not> isLive payload c \<and> getContainerName c \<notin> set candidateNames"

definition remove_leftovers :: "'w deploy_deps \<Rightarrow> inspection list \<Rightarrow> ('w, unit) io" where
  "remove_leftovers deps leftovers =
     io_bind (io_for leftovers (\<lambda>c. removeContainer (wk_docker (dd_docker deps)) (getContainerIdentifier c) False)) (\<lambda>_.
     io_bind (assertContainersAbsent (dd_docker deps) (map getContainerIdentifier leftovers)) (\<lambda>_.
       if length leftovers > 0 then
         say deps (''Removed '' @ show_nat (length leftovers) @ '' stopped leftover worker container(s): ''
           @ join '', '' (map getContainerName leftovers))
       else io_return ()))"

definition check_consumers :: "'w deploy_deps \<Rightarrow> worker_payload \<Rightarrow> string list \<Rightarrow> ('w, unit) io" where
  "check_consumers deps payload allowed = (case wd_volume payload of
       None \<Rightarrow> io_return ()
     | Some v \<Rightarrow> assertNoUnexpectedVolumeConsumer (dd_docker deps) (vi_volumeName v) allowed)"

text \<open>What runs of the service is listed, its stopped leftovers removed, and the rollout planned.\<close>

definition plan_rollout ::
    "'w deploy_deps \<Rightarrow> worker_payload \<Rightarrow> image_inspection option \<Rightarrow> candidate_spec list \<Rightarrow> ('w, rollout) io" where
  "plan_rollout deps payload img candidates =
     (let candidateNames = map cp_containerName candidates; policy = resolveWorkerShutdownPolicy payload
      in io_bind (listWorkerServiceContainers (dd_docker deps) (wd_serviceId payload)) (\<lambda>listed.
      let current = filter (\<lambda>c. \<not> is_leftover payload candidateNames c) listed
      in io_bind (remove_leftovers deps (filter (is_leftover payload candidateNames) listed)) (\<lambda>_.
      io_bind (check_consumers deps payload (map getContainerName current)) (\<lambda>_.
      io_return \<lparr>ro_payload = payload, ro_policy = policy, ro_image = img, ro_candidates = candidates,
        ro_current = current, ro_plan = planWorkerRollout (plan_input payload policy candidateNames current)\<rparr>))))"

definition prepare_rollout :: "'w deploy_deps \<Rightarrow> worker_payload \<Rightarrow> ('w, rollout) io" where
  "prepare_rollout deps payload =
     io_bind (io_either (assertReplicaCount (wd_replicaCount payload))) (\<lambda>replicaCount.
     io_bind (io_either (assertVolumeWorkerPayload payload replicaCount)) (\<lambda>_.
     io_bind (prepare_host deps payload) (\<lambda>_.
     io_bind (rollout_image deps payload replicaCount) (\<lambda>img.
     io_bind (io_either (first_error (map (buildWorkerContainerSpec (dd_environment deps) payload img) [0..<replicaCount])))
       (plan_rollout deps payload img)))))"

definition signal_label :: "shutdown_policy \<Rightarrow> string" where
  "signal_label policy = (case wp_signal policy of None \<Rightarrow> ''image stop signal'' | Some s \<Rightarrow> s)
     @ '', '' @ show_int (wp_gracePeriodSeconds policy) @ ''s grace)''"

definition plan_line :: "rollout \<Rightarrow> string" where
  "plan_line ro = (case ro_plan ro of
       StopFirst _ reason _ _ \<Rightarrow> ''Stopping '' @ show_nat (length (ro_previous ro))
         @ '' previous worker container(s) before starting the new version (''
         @ (if reason = SingleWriterVolume then ''single-writer volume'' else ''no-overlap policy'') @ ''; ''
         @ signal_label (ro_policy ro)
     | CandidateFirst _ _ \<Rightarrow> ''Starting '' @ show_nat (length (ro_candidates ro)) @ '' worker container(s) before retiring ''
         @ show_nat (length (ro_retired ro)) @ '' previous one(s) ('' @ signal_label (ro_policy ro))"

section \<open>Stopping the previous version first\<close>

text \<open>\<open>reports.find(mayStillRun)\<close>.\<close>

definition unstopped :: "'n shutdown_report list \<Rightarrow> 'n shutdown_report option" where
  "unstopped reports = (case filter mayStillRun reports of [] \<Rightarrow> None | r # _ \<Rightarrow> Some r)"

definition reset_stale :: "'w deploy_deps \<Rightarrow> rollout \<Rightarrow> reports \<Rightarrow> ('w, (string \<times> int) list) io" where
  "reset_stale deps ro staleReports =
     (case unstopped staleReports of
        Some r \<Rightarrow> io_throw (Error (''Worker '' @ ws_containerName r @ '' from an interrupted rollout '' @ describeUnstopped r))
      | None \<Rightarrow>
          io_bind (io_for (ro_stale ro) (\<lambda>c. removeContainer (wk_docker (dd_docker deps)) (getContainerIdentifier c) False)) (\<lambda>_.
          io_bind (assertContainersAbsent (dd_docker deps) (map getContainerIdentifier (ro_stale ro))) (\<lambda>_.
          io_bind (check_consumers deps (ro_payload ro) (map getContainerName (ro_previous ro))) (\<lambda>_.
          readRestartLoopsBeforeStop (dd_docker deps) (ro_previous ro) (dd_clock deps)))))"

definition confirm_stopped :: "'w deploy_deps \<Rightarrow> rollout \<Rightarrow> reports \<Rightarrow> ('w, string option) io" where
  "confirm_stopped deps ro previousReports =
     (case unstopped previousReports of
        Some r \<Rightarrow> io_throw (Error (''Previous worker '' @ ws_containerName r @ '' '' @ describeUnstopped r
          @ '', so the new version was not started. Stop it on the server, then redeploy.''))
      | None \<Rightarrow>
          io_bind (assertContainersStopped (dd_docker deps) (ro_previous ro)) (\<lambda>_.
          if wd_volume (ro_payload ro) = None then io_return None
          else io_bind (check_consumers deps (ro_payload ro) []) (\<lambda>_.
            io_bind (createWorkerVolumeSnapshot (dd_docker deps) (dd_environment deps) (ro_payload ro)) (\<lambda>n.
            io_return (Some n)))))"

record stopped =
  sf_shutdowns :: reports
  sf_loops :: "(string \<times> int) list"
  sf_result :: "js_error + string option"

definition stop_previous_first :: "'w deploy_deps \<Rightarrow> rollout \<Rightarrow> ('w, stopped) io" where
  "stop_previous_first deps ro =
     io_bind (stopAllGracefully deps (ro_policy ro) (ro_stale ro) (\<lambda>_. CandidateWorker)) (\<lambda>staleReports.
     io_bind (io_try (reset_stale deps ro staleReports)) (\<lambda>r. case r of
       Inl e \<Rightarrow> io_return \<lparr>sf_shutdowns = staleReports, sf_loops = [], sf_result = Inl e\<rparr>
     | Inr loops \<Rightarrow>
         io_bind (stopAllGracefully deps (ro_policy ro) (ro_previous ro) (retiredRole ro)) (\<lambda>previousReports.
         io_bind (io_try (confirm_stopped deps ro previousReports)) (\<lambda>r.
         io_return \<lparr>sf_shutdowns = staleReports @ previousReports, sf_loops = loops, sf_result = r\<rparr>))))"

definition restore_previous :: "'w deploy_deps \<Rightarrow> rollout \<Rightarrow> reports \<Rightarrow> (string \<times> int) list \<Rightarrow> ('w, bool \<times> bool) io" where
  "restore_previous deps ro shutdowns loops =
     restorePreviousWorkerRuntime (dd_pick deps) (dd_docker deps) (dd_clock deps) (ro_previous ro)
       \<lparr>re_shutdowns = shutdowns, re_isRecordedLive = ro_isRecordedLive ro,
        re_volumeName = map_option vi_volumeName (wd_volume (ro_payload ro)), re_restartsBeforeStop = loops\<rparr>"

definition abort_before_cutover :: "'w deploy_deps \<Rightarrow> rollout \<Rightarrow> stopped \<Rightarrow> js_error \<Rightarrow> ('w, deploy_answer) io" where
  "abort_before_cutover deps ro s e =
     io_bind (restore_previous deps ro (sf_shutdowns s) (sf_loops s)) (\<lambda>(live, _).
     io_return (RolloutFailed (error_message e ''Stopping the previous worker failed'')
       (rolloutResult ro (sf_shutdowns s) AbortedBeforeCutover RestorePhase live False (map getContainerName (ro_previous ro)))))"

section \<open>Starting the candidates\<close>

definition adoptedLiveReplicas :: "rollout \<Rightarrow> inspection list" where
  "adoptedLiveReplicas ro = (if stop_first (ro_plan ro) then []
     else filter (\<lambda>c. is_up c \<and> ro_isRecordedLive ro c) (pick_names (ro_current ro) (ro_candidateNames ro)))"

text \<open>The replicas still adopted where the loop ends or throws, and the identifiers by name.\<close>

primrec start_candidates ::
    "'w deploy_deps \<Rightarrow> candidate_spec list \<Rightarrow> inspection list \<Rightarrow> (string \<times> string) list \<Rightarrow>
     ('w, inspection list \<times> (js_error + (string \<times> string) list)) io" where
  "start_candidates deps [] adopted ids = io_return (adopted, Inr ids)"
| "start_candidates deps (c # cs) adopted ids =
     io_bind (io_try (prepareCandidateSlot (dd_docker deps) (cp_containerName c))) (\<lambda>r. case r of
       Inl e \<Rightarrow> io_return (adopted, Inl e)
     | Inr kept \<Rightarrow>
         let adopted = (if kept then adopted else filter (\<lambda>a. getContainerName a \<noteq> cp_containerName c) adopted)
         in io_bind (io_try (ensureContainer (dd_docker deps) (cp_spec c))) (\<lambda>r. case r of
              Inl e \<Rightarrow> io_return (adopted, Inl e)
            | Inr i \<Rightarrow> start_candidates deps cs adopted (ids @ [(cp_containerName c, i)])))"

definition await_candidates :: "'w deploy_deps \<Rightarrow> rollout \<Rightarrow> inspection list \<Rightarrow> ('w, unit) io" where
  "await_candidates deps ro adopted =
     io_bind (io_for (ro_candidates ro) (\<lambda>c. waitForWorkerReadiness (readiness_of (dd_docker deps)) (dd_clock deps)
       ((default_worker_wait (cp_containerName c) (cp_hasHealthcheck c))
          \<lparr>ww_ignoreEarlierRestarts := cp_containerName c \<in> set (map getContainerName adopted)\<rparr>))) (\<lambda>_.
     if length (ro_candidates ro) > 0 then
       say deps (''New worker container(s) ready: '' @ join '', '' (ro_candidateNames ro))
     else io_return ())"

section \<open>A failed attempt\<close>

primrec inspect_all :: "'w worker_docker \<Rightarrow> string list \<Rightarrow> ('w, inspection list) io" where
  "inspect_all docker [] = io_return []"
| "inspect_all docker (n # ns) =
     io_bind (inspectContainer (wk_docker docker) n) (\<lambda>c.
     io_bind (inspect_all docker ns) (\<lambda>cs. io_return (case c of None \<Rightarrow> cs | Some c \<Rightarrow> c # cs)))"

primrec remove_stopped :: "'w worker_docker \<Rightarrow> (inspection \<times> string shutdown_report) list \<Rightarrow> bool \<Rightarrow> ('w, bool) io" where
  "remove_stopped docker [] done = io_return done"
| "remove_stopped docker (x # xs) done = (case x of (c, r) \<Rightarrow>
     if ws_outcome r = Hung then remove_stopped docker xs False
     else io_bind (removeContainer (wk_docker docker) (getContainerIdentifier c) (ws_outcome r = Unconfirmed))
       (\<lambda>_. remove_stopped docker xs done))"

primrec force_remove :: "'w worker_docker \<Rightarrow> string list \<Rightarrow> bool \<Rightarrow> ('w, bool) io" where
  "force_remove docker [] done = io_return done"
| "force_remove docker (n # ns) done =
     io_bind (io_try (io_bind (inspectContainer (wk_docker docker) n) (\<lambda>c. case c of
         None \<Rightarrow> io_return ()
       | Some c \<Rightarrow> removeContainer (wk_docker docker) (getContainerIdentifier c) True)))
       (\<lambda>r. force_remove docker ns (done \<and> \<not> isl r))"

definition discard_forced :: "'w deploy_deps \<Rightarrow> string list \<Rightarrow> reports \<Rightarrow> ('w, bool \<times> reports) io" where
  "discard_forced deps names reports =
     io_bind (say deps ''Could not stop the failed candidate(s) gracefully; force-removing them'') (\<lambda>_.
     io_bind (force_remove (dd_docker deps) names True) (\<lambda>done. io_return (done, reports)))"

text \<open>Whether none is left running, and what was pushed to \<open>shutdowns\<close>.\<close>

definition discardFailedCandidates :: "'w deploy_deps \<Rightarrow> rollout \<Rightarrow> string list \<Rightarrow> ('w, bool \<times> reports) io" where
  "discardFailedCandidates deps ro names =
     io_bind (io_try (inspect_all (dd_docker deps) names)) (\<lambda>r. case r of
       Inl e \<Rightarrow> discard_forced deps names []
     | Inr started \<Rightarrow>
         io_bind (stopAllGracefully deps (ro_policy ro) started (\<lambda>_. CandidateWorker)) (\<lambda>reports.
         io_bind (io_try (remove_stopped (dd_docker deps) (zip started reports) True)) (\<lambda>r. case r of
           Inl e \<Rightarrow> discard_forced deps names reports
         | Inr done \<Rightarrow> io_return (done, reports))))"

text \<open>Restoring the volume, then the previous version: \<open>(liveRuntimePreserved, rollbackCompleted, volumeRestored)\<close>.\<close>

definition restore_volume :: "'w deploy_deps \<Rightarrow> rollout \<Rightarrow> string option \<Rightarrow> ('w, bool) io" where
  "restore_volume deps ro snapshotName =
     (case snapshotName of
        None \<Rightarrow> io_return False
      | Some n \<Rightarrow> if wd_volume (ro_payload ro) = None then io_return False
          else io_bind (check_consumers deps (ro_payload ro) []) (\<lambda>_.
            io_bind (restoreWorkerVolumeSnapshot (dd_docker deps) (dd_environment deps) (ro_payload ro) n) (\<lambda>_.
            io_return True)))"

definition restore_all ::
    "'w deploy_deps \<Rightarrow> rollout \<Rightarrow> reports \<Rightarrow> (string \<times> int) list \<Rightarrow> string option \<Rightarrow> ('w, bool \<times> bool \<times> bool) io" where
  "restore_all deps ro shutdowns loops snapshotName =
     io_bind (io_try (restore_volume deps ro snapshotName)) (\<lambda>r. case r of
       Inl e \<Rightarrow> io_return (False, False, False)
     | Inr volumeRestored \<Rightarrow>
         io_bind (io_try (restore_previous deps ro shutdowns loops)) (\<lambda>r. io_return (case r of
           Inl e \<Rightarrow> (False, False, volumeRestored)
         | Inr (live, rolledBack) \<Rightarrow> (live, rolledBack, volumeRestored))))"

definition settle_snapshot ::
    "'w deploy_deps \<Rightarrow> rollout \<Rightarrow> string option \<Rightarrow> bool \<Rightarrow> ('w, string option) io" where
  "settle_snapshot deps ro snapshotName volumeRestored =
     (case snapshotName of
        None \<Rightarrow> io_return None
      | Some n \<Rightarrow>
          if volumeRestored then
            io_bind (deleteWorkerVolumeSnapshotBestEffort (dd_docker deps) (dd_environment deps) (ro_payload ro) n)
              (\<lambda>_. io_return None)
          else
            io_bind (io_now (dd_clock deps)) (\<lambda>t.
            io_bind (keepWorkerVolumeSnapshot (dd_docker deps) (dd_environment deps) (ro_payload ro) n t) (\<lambda>kept.
            io_bind (say deps (describeKeptSnapshot kept (we_dataVolume (dd_environment deps)))) (\<lambda>_.
            io_return (Some kept)))))"

definition give_back ::
    "'w deploy_deps \<Rightarrow> rollout \<Rightarrow> reports \<Rightarrow> (string \<times> int) list \<Rightarrow> string option \<Rightarrow> bool \<Rightarrow>
     ('w, bool \<times> bool \<times> string option) io" where
  "give_back deps ro shutdowns loops snapshotName candidatesStopped =
     io_bind (if candidatesStopped then restore_all deps ro shutdowns loops snapshotName
              else io_return (False, False, False)) (\<lambda>(live, rolledBack, volumeRestored).
     io_bind (settle_snapshot deps ro snapshotName volumeRestored) (\<lambda>kept.
     io_bind (say deps (if rolledBack then ''Restored the previous worker version after the new one failed''
        else ''Could not restore the previous worker version; the service has no running worker'')) (\<lambda>_.
     io_return (live, rolledBack, kept))))"

definition drop_image :: "'w deploy_deps \<Rightarrow> string \<Rightarrow> ('w, unit) io" where
  "drop_image deps reference = io_catch (wk_removeImage (dd_docker deps) reference True) (\<lambda>_. io_return ())"

definition failed_rollout ::
    "'w deploy_deps \<Rightarrow> rollout \<Rightarrow> reports \<Rightarrow> (string \<times> int) list \<Rightarrow> string option \<Rightarrow> inspection list \<Rightarrow> js_error \<Rightarrow>
     ('w, deploy_answer) io" where
  "failed_rollout deps ro shutdowns loops snapshotName adopted e =
     (let failed = filter (\<lambda>n. n \<notin> set (map getContainerName adopted)) (ro_candidateNames ro);
          untouched = adopted @ ro_retired ro;
          payload = ro_payload ro;
          stopFirst = stop_first (ro_plan ro)
      in io_bind (discardFailedCandidates deps ro failed) (\<lambda>(candidatesStopped, reports).
         io_bind (if stopFirst then give_back deps ro (shutdowns @ reports) loops snapshotName candidatesStopped
                  else io_bind (anyReplicaRuns (dd_pick deps) (dd_docker deps) untouched (dd_clock deps))
                    (\<lambda>live. io_return (live, False, None))) (\<lambda>(live, rolledBack, kept).
         io_bind (if we_imageStoreMode (dd_environment deps) = ''docker-local''
                    \<and> \<not> shouldRetainWorkerImage (wd_runtimeMetadata payload) (wd_imageUrl payload)
                  then drop_image deps (wd_imageUrl payload) else io_return ()) (\<lambda>_.
         io_return (RolloutFailed
           (error_message e ''Worker candidate failed readiness checks'' @ (case kept of None \<Rightarrow> []
              | Some k \<Rightarrow> ''. '' @ describeKeptSnapshot k (we_dataVolume (dd_environment deps))))
           (rolloutResult ro (shutdowns @ reports) AbortedBeforeCutover (if stopFirst then RestorePhase else ReadyPhase)
              live rolledBack (map getContainerName (ro_previous ro @ untouched))))))))"

section \<open>Retiring the previous version\<close>

definition removeRetired :: "'w deploy_deps \<Rightarrow> inspection \<Rightarrow> ('w, unit) io" where
  "removeRetired deps c =
     io_catch (removeContainer (wk_docker (dd_docker deps)) (getContainerIdentifier c) False)
       (\<lambda>_. say deps (''Could not remove retired worker container '' @ getContainerName c))"

definition next_current_image :: "rollout \<Rightarrow> retained_image" where
  "next_current_image ro =
     (let payload = ro_payload ro;
          fresh = (\<lambda>i. \<lparr>im_reference = wd_imageUrl payload, im_imageId = i,
            im_deploymentId = Some (wd_deploymentId payload), im_commitHash = Some (wd_commitHash payload)\<rparr>)
      in case ro_image ro of
           Some i \<Rightarrow> fresh (Some (ii_Id i))
         | None \<Rightarrow> (case resolveCurrentRuntimeImage (wd_runtimeMetadata payload) of Some c \<Rightarrow> c | None \<Rightarrow> fresh None))"

text \<open>The image only the deployment before the previous one still held.\<close>

definition image_to_drop :: "'w deploy_deps \<Rightarrow> rollout \<Rightarrow> string option" where
  "image_to_drop deps ro =
     (let md = wd_runtimeMetadata (ro_payload ro)
      in case resolvePreviousRuntimeImage md of
           None \<Rightarrow> None
         | Some old \<Rightarrow>
             if we_imageStoreMode (dd_environment deps) = ''docker-local''
                \<and> \<not> sameRetainedImage (Some old) (Some (next_current_image ro))
                \<and> \<not> sameRetainedImage (Some old) (resolveCurrentRuntimeImage md)
                \<and> truthy (image_reference old)
             then image_reference old else None)"

definition deployed_answer :: "'w deploy_deps \<Rightarrow> rollout \<Rightarrow> reports \<Rightarrow> (string \<times> string) list \<Rightarrow> deployed" where
  "deployed_answer deps ro shutdowns ids =
     (let payload = ro_payload ro
      in \<lparr>de_imageUrl = wd_imageUrl payload,
        de_imageStoreMode = we_imageStoreMode (dd_environment deps),
        de_currentImage = next_current_image ro,
        de_previousImage = resolveCurrentRuntimeImage (wd_runtimeMetadata payload),
        de_networkName = getWorkerProjectNetwork (dd_environment deps) (wd_projectId payload),
        de_imageCommand = (case ro_candidates ro of
            [] \<Rightarrow> detectWorkerImageCommand (ro_image ro)
          | c # _ \<Rightarrow> (case cp_imageCommand c of Some i \<Rightarrow> Some i | None \<Rightarrow> detectWorkerImageCommand (ro_image ro))),
        de_workerCommand = normalizeWorkerCommand (wd_startCommand payload),
        de_workerHealthCheckCommand = normalizeWorkerCommand (wd_healthCheckCommand payload),
        de_rollout = rolloutResult ro shutdowns Committed RetirePhase False False (ro_candidateNames ro),
        de_instances = map (\<lambda>(i, c). \<lparr>wi_replicaIndex = i, wi_image = wd_imageUrl payload,
            wi_containerId = (case last_of ids (cp_containerName c) of None \<Rightarrow> cp_containerName c | Some d \<Rightarrow> d),
            wi_containerName = cp_containerName c, wi_networkName = cp_projectNetwork c\<rparr>)
          (zip [0..<length (ro_candidates ro)] (ro_candidates ro))\<rparr>)"

definition commit_rollout ::
    "'w deploy_deps \<Rightarrow> rollout \<Rightarrow> reports \<Rightarrow> string option \<Rightarrow> (string \<times> string) list \<Rightarrow> ('w, deploy_answer) io" where
  "commit_rollout deps ro shutdowns snapshotName ids =
     io_bind (stopAllGracefully deps (ro_policy ro) (ro_retired ro) (retiredRole ro)) (\<lambda>retiredReports.
     io_bind (io_for (zip (ro_retired ro) retiredReports) (\<lambda>(c, r).
       if mayStillRun r then io_return () else removeRetired deps c)) (\<lambda>_.
     io_bind (io_for (ro_previous ro) (removeRetired deps)) (\<lambda>_.
     io_bind (case snapshotName of None \<Rightarrow> io_return ()
       | Some n \<Rightarrow> deleteWorkerVolumeSnapshotBestEffort (dd_docker deps) (dd_environment deps) (ro_payload ro) n) (\<lambda>_.
     io_bind (case image_to_drop deps ro of None \<Rightarrow> io_return () | Some reference \<Rightarrow> drop_image deps reference) (\<lambda>_.
     io_return (Deployed (deployed_answer deps ro (shutdowns @ retiredReports) ids)))))))"

section \<open>The rollout\<close>

definition run_candidates ::
    "'w deploy_deps \<Rightarrow> rollout \<Rightarrow> reports \<Rightarrow> (string \<times> int) list \<Rightarrow> string option \<Rightarrow> ('w, deploy_answer) io" where
  "run_candidates deps ro shutdowns loops snapshotName =
     io_bind (start_candidates deps (ro_candidates ro) (adoptedLiveReplicas ro) []) (\<lambda>(adopted, r). case r of
       Inl e \<Rightarrow> failed_rollout deps ro shutdowns loops snapshotName adopted e
     | Inr ids \<Rightarrow>
         io_bind (io_try (await_candidates deps ro adopted)) (\<lambda>r. case r of
           Inl e \<Rightarrow> failed_rollout deps ro shutdowns loops snapshotName adopted e
         | Inr _ \<Rightarrow> commit_rollout deps ro shutdowns snapshotName ids))"

definition run_rollout :: "'w deploy_deps \<Rightarrow> rollout \<Rightarrow> ('w, deploy_answer) io" where
  "run_rollout deps ro =
     (if stop_first (ro_plan ro) then
        io_bind (stop_previous_first deps ro) (\<lambda>s. case sf_result s of
          Inl e \<Rightarrow> abort_before_cutover deps ro s e
        | Inr snapshotName \<Rightarrow> run_candidates deps ro (sf_shutdowns s) (sf_loops s) snapshotName)
      else run_candidates deps ro [] [] None)"

definition deployWorkerRuntime :: "'w deploy_deps \<Rightarrow> worker_payload \<Rightarrow> ('w, deploy_answer) io" where
  "deployWorkerRuntime deps payload =
     io_bind (prepare_rollout deps payload) (\<lambda>ro.
     io_bind (say deps (plan_line ro)) (\<lambda>_. run_rollout deps ro))"

end
