(* ===== verification/Files.thy ===== *)
theory Files
  imports Docker_Types
begin

text \<open>
  Files that hold JSON, through \<open>node:fs/promises\<close>, and claims about the state a function leaves. A file
  is the value its text parses to, or text that \<open>JSON.parse\<close> rejects, with the message it throws then.
  What the operations do to the world, and when they fail, is up to the record that is passed in;
  \<open>keeps_files\<close> says what is relied on.
\<close>

section \<open>The file operations\<close>

datatype file_text = Json json | NotJson string

record 'w files =
  fs_readFile :: "string \<Rightarrow> ('w, file_text) io"
  fs_mkdir :: "string \<Rightarrow> ('w, unit) io"
  fs_writeFile :: "string \<Rightarrow> file_text \<Rightarrow> ('w, unit) io"
  fs_rename :: "string \<Rightarrow> string \<Rightarrow> ('w, unit) io"
  fs_rm :: "string \<Rightarrow> ('w, unit) io"

text \<open>\<open>(error as NodeJS.ErrnoException).code === "ENOENT"\<close>.\<close>

fun is_ENOENT :: "js_error \<Rightarrow> bool" where
  "is_ENOENT (SystemError code m) = (code = ''ENOENT'')"
| "is_ENOENT _ = False"

text \<open>\<open>JSON.parse\<close>.\<close>

fun json_parse :: "file_text \<Rightarrow> js_error + json" where
  "json_parse (Json v) = Inr v"
| "json_parse (NotJson m) = Inl (Error m)"

text \<open>\<open>JSON.stringify\<close> leaves out members that are \<open>undefined\<close>.\<close>

definition stringified :: "(string \<times> json) list \<Rightarrow> file_text" where
  "stringified r = Json (JObj (filter (\<lambda>(k, v). v \<noteq> JUndefined) r))"

lemma jprop_defined: "distinct (map fst r) \<Longrightarrow> jprop (filter (\<lambda>(k, v). v \<noteq> JUndefined) r) k = jprop r k"
proof (induction r)
  case (Cons x r)
  obtain k' v where x: "x = (k', v)" by (cases x)
  have "map_of (filter (\<lambda>(k, v). v \<noteq> JUndefined) r) k = None" if "k = k'"
    using Cons.prems that by (auto simp: x map_of_eq_None_iff)
  with Cons show ?case by (auto simp: x jprop_def)
qed simp

text \<open>The URL-safe Base64 of bytes, without padding: \<open>Buffer.from(s).toString("base64url")\<close>.\<close>

definition base64url_digit :: "nat \<Rightarrow> char" where
  "base64url_digit n = ''ABCDEFGHIJKLMNOPQRSTUVWXYZabcdefghijklmnopqrstuvwxyz0123456789-_'' ! n"

fun base64url :: "nat list \<Rightarrow> string" where
  "base64url (a # b # c # r) = base64url_digit (a div 4) # base64url_digit (a mod 4 * 16 + b div 16)
     # base64url_digit (b mod 16 * 4 + c div 64) # base64url_digit (c mod 64) # base64url r"
| "base64url [a, b] = [base64url_digit (a div 4), base64url_digit (a mod 4 * 16 + b div 16), base64url_digit (b mod 16 * 4)]"
| "base64url [a] = [base64url_digit (a div 4), base64url_digit (a mod 4 * 16)]"
| "base64url [] = []"

text \<open>The UTF-8 bytes of a string of Latin-1 characters, which is what a \<^typ>\<open>string\<close> can hold.\<close>

definition utf8_bytes :: "string \<Rightarrow> nat list" where
  "utf8_bytes s = concat (map (\<lambda>c. let n = of_char c in if n < 0x80 then [n] else [0xC0 + n div 64, 0x80 + n mod 64]) s)"

lemma base64url_digit_inj: "m < 64 \<Longrightarrow> n < 64 \<Longrightarrow> base64url_digit m = base64url_digit n \<longleftrightarrow> m = n"
proof -
  have d: "distinct ''ABCDEFGHIJKLMNOPQRSTUVWXYZabcdefghijklmnopqrstuvwxyz0123456789-_''" by code_simp
  assume "m < 64" "n < 64"
  then show ?thesis unfolding base64url_digit_def by (intro nth_eq_iff_index_eq [OF d]) simp_all
qed

lemma digits_split:
  assumes "x < k" and "y < (k :: nat)"
  shows "m * k + x = n * k + y \<longleftrightarrow> m = n \<and> x = y"
proof
  assume e: "m * k + x = n * k + y"
  from arg_cong [OF e, of "\<lambda>z. z mod k"] assms have "x = y" by simp
  with e assms show "m = n \<and> x = y" by simp
qed simp

lemma div_mod_inj: "(a :: nat) div k = b div k \<Longrightarrow> a mod k = b mod k \<Longrightarrow> a = b"
  by (metis div_mult_mod_eq)

lemma six_bits: "(a :: nat) < 256 \<Longrightarrow> a div 4 < 64" "a div 16 < 16 \<longleftrightarrow> a < 256" "a div 64 < 4 \<longleftrightarrow> a < 256"
    "a mod 4 * 16 < 64" "a mod 16 * 4 < 64" "a mod 64 < 64"
    "b < 256 \<Longrightarrow> a mod 4 * 16 + b div 16 < 64" "b < 256 \<Longrightarrow> a mod 16 * 4 + b div 64 < 64" for b :: nat
  by (simp_all add: div_less_iff_less_mult)

lemma base64url_inj:
  "list_all (\<lambda>b. b < 256) xs \<Longrightarrow> list_all (\<lambda>b. b < 256) ys \<Longrightarrow> base64url xs = base64url ys \<Longrightarrow> xs = ys"
proof (induction xs arbitrary: ys rule: base64url.induct)
  case (1 a b c r)
  obtain a' b' c' r' where ys: "ys = a' # b' # c' # r'"
    using 1(4) by (cases ys rule: base64url.cases) auto
  from 1(2,3) have small: "a < 256" "b < 256" "c < 256" "a' < 256" "b' < 256" "c' < 256"
    and r: "list_all (\<lambda>b. b < 256) r" "list_all (\<lambda>b. b < 256) r'" by (simp_all add: ys)
  have e: "a div 4 = a' div 4 \<and> a mod 4 * 16 + b div 16 = a' mod 4 * 16 + b' div 16 \<and>
    b mod 16 * 4 + c div 64 = b' mod 16 * 4 + c' div 64 \<and> c mod 64 = c' mod 64 \<and> base64url r = base64url r'"
    using 1(4) by (simp add: ys base64url_digit_inj six_bits small)
  have "a mod 4 = a' mod 4 \<and> b div 16 = b' div 16" "b mod 16 = b' mod 16 \<and> c div 64 = c' div 64"
    using e small by (simp_all add: digits_split six_bits)
  then have "a = a'" "b = b'" "c = c'" using e by (blast intro: div_mod_inj)+
  moreover have "r = r'" using 1(1) [OF r] e by blast
  ultimately show ?case by (simp add: ys)
next
  case (2 a b)
  then obtain a' b' where ys: "ys = [a', b']" by (cases ys rule: base64url.cases) auto
  from 2(1,2) have small: "a < 256" "b < 256" "a' < 256" "b' < 256" by (simp_all add: ys)
  have e: "a div 4 = a' div 4 \<and> a mod 4 * 16 + b div 16 = a' mod 4 * 16 + b' div 16 \<and> b mod 16 = b' mod 16"
    using 2(3) small by (simp add: ys base64url_digit_inj six_bits)
  then have "a mod 4 = a' mod 4 \<and> b div 16 = b' div 16" using small by (simp add: digits_split six_bits)
  with e have "a = a'" "b = b'" by (blast intro: div_mod_inj)+
  then show ?case by (simp add: ys)
next
  case (3 a)
  then obtain a' where ys: "ys = [a']" by (cases ys rule: base64url.cases) auto
  from 3(1,2) have small: "a < 256" "a' < 256" by (simp_all add: ys)
  from 3(3) have "a div 4 = a' div 4 \<and> a mod 4 = a' mod 4" by (simp add: ys base64url_digit_inj six_bits small)
  then have "a = a'" by (blast intro: div_mod_inj)
  then show ?case by (simp add: ys)
next
  case 4
  then show ?case by (cases ys rule: base64url.cases) auto
qed

lemma char_code_small: "(of_char c :: nat) < 256"
  by (cases c) (simp add: of_char_def horner_sum_simps)

lemma utf8_bytes_small: "list_all (\<lambda>b. b < 256) (utf8_bytes s)"
proof -
  have "192 + (of_char c :: nat) div 64 < 256" for c :: char
    using char_code_small [of c] six_bits(3) [of "of_char c"] by linarith
  then show ?thesis by (auto simp: utf8_bytes_def list_all_iff Let_def)
qed

lemma utf8_bytes_inj: "utf8_bytes s = utf8_bytes t \<Longrightarrow> s = t"
proof (induction s arbitrary: t)
  case Nil
  then show ?case by (cases t) (auto simp: utf8_bytes_def Let_def split: if_splits)
next
  case (Cons c s)
  then obtain d t' where t: "t = d # t'" by (cases t) (auto simp: utf8_bytes_def Let_def split: if_splits)
  have small: "(of_char c :: nat) < 256" "(of_char d :: nat) < 256" by (rule char_code_small)+
  have "(of_char c :: nat) = of_char d \<and> utf8_bytes s = utf8_bytes t'"
    using Cons.prems small unfolding t
    by (auto simp: utf8_bytes_def Let_def split: if_splits dest: div_mod_inj)
  then show ?case using Cons.IH by (simp add: t)
qed

section \<open>What a function leaves\<close>

definition ensures :: "('w \<Rightarrow> bool) \<Rightarrow> ('w, 'a) io \<Rightarrow> (js_error + 'a \<Rightarrow> 'w \<Rightarrow> bool) \<Rightarrow> bool" where
  "ensures P m Q \<longleftrightarrow> (\<forall>w r w'. P w \<longrightarrow> m w = Some (r, w') \<longrightarrow> Q r w')"

lemma ensuresI: "(\<And>w r w'. P w \<Longrightarrow> m w = Some (r, w') \<Longrightarrow> Q r w') \<Longrightarrow> ensures P m Q"
  by (auto simp: ensures_def)

lemma ensuresD: "ensures P m Q \<Longrightarrow> P w \<Longrightarrow> m w = Some (r, w') \<Longrightarrow> Q r w'"
  unfolding ensures_def by blast

lemma ensures_conseq: "ensures P m Q \<Longrightarrow> (\<And>w. P' w \<Longrightarrow> P w) \<Longrightarrow> (\<And>r w. Q r w \<Longrightarrow> Q' r w) \<Longrightarrow> ensures P' m Q'"
  unfolding ensures_def by blast

lemma ensures_return: "(\<And>w. P w \<Longrightarrow> Q (Inr x) w) \<Longrightarrow> ensures P (io_return x) Q"
  by (auto simp: ensures_def io_return_def)

lemma ensures_throw: "(\<And>w. P w \<Longrightarrow> Q (Inl e) w) \<Longrightarrow> ensures P (io_throw e) Q"
  by (auto simp: ensures_def io_throw_def)

lemma ensures_bind:
  assumes "ensures P m (\<lambda>r w. case r of Inl e \<Rightarrow> Q (Inl e) w | Inr x \<Rightarrow> R x w)"
    and "\<And>x. ensures (R x) (f x) Q"
  shows "ensures P (io_bind m f) Q"
  using assms by (fastforce simp: ensures_def io_bind_Some_iff split: sum.splits)

lemma ensures_pre: "(B \<Longrightarrow> ensures P m Q) \<Longrightarrow> ensures (\<lambda>w. P w \<and> B) m Q"
  by (auto simp: ensures_def)

section \<open>Invariants of the world\<close>

definition preserves :: "('w \<Rightarrow> bool) \<Rightarrow> ('w, 'a) io \<Rightarrow> bool" where
  "preserves I m \<longleftrightarrow> ensures I m (\<lambda>r. I)"

named_theorems preserves_rules "invariants of the world along the combinators"

lemma preservesI: "(\<And>w r w'. I w \<Longrightarrow> m w = Some (r, w') \<Longrightarrow> I w') \<Longrightarrow> preserves I m"
  by (auto simp: preserves_def ensures_def)

lemma preservesD: "preserves I m \<Longrightarrow> I w \<Longrightarrow> m w = Some (r, w') \<Longrightarrow> I w'"
  by (auto simp: preserves_def ensures_def)

lemma preserves_pure [preserves_rules]: "preserves I (io_return x)" "preserves I (io_throw e)" "preserves I (io_either r)"
  by (auto intro!: preservesI simp: io_return_def io_throw_def io_either_def split: sum.splits)

lemma preserves_bind [preserves_rules]:
  "preserves I m \<Longrightarrow> (\<And>x. preserves I (f x)) \<Longrightarrow> preserves I (io_bind m f)"
  unfolding preserves_def by (rule ensures_bind [where R = "\<lambda>_. I"]) (auto elim: ensures_conseq split: sum.splits)

lemma preserves_catch [preserves_rules]:
  "preserves I m \<Longrightarrow> (\<And>e. preserves I (h e)) \<Longrightarrow> preserves I (io_catch m h)"
proof (rule preservesI)
  fix w r w'
  assume m: "preserves I m" and h: "\<And>e. preserves I (h e)" and "I w" and "io_catch m h w = Some (r, w')"
  then consider x where "m w = Some (Inr x, w')" | e w1 where "m w = Some (Inl e, w1)" "h e w1 = Some (r, w')"
    by (auto simp: io_catch_Some_iff)
  then show "I w'" by cases (use \<open>I w\<close> preservesD [OF m] preservesD [OF h] in blast)+
qed

lemma preserves_try [preserves_rules]: "preserves I m \<Longrightarrow> preserves I (io_try m)"
  by (rule preservesI) (auto elim: preservesD)

lemma preserves_if [preserves_rules]: "preserves I m \<Longrightarrow> preserves I n \<Longrightarrow> preserves I (if c then m else n)"
  by simp

lemma preserves_option [preserves_rules]:
  "preserves I m \<Longrightarrow> (\<And>x. preserves I (f x)) \<Longrightarrow> preserves I (case v of None \<Rightarrow> m | Some x \<Rightarrow> f x)"
  by (cases v) auto

lemma preserves_sum [preserves_rules]:
  "(\<And>x. preserves I (f x)) \<Longrightarrow> (\<And>y. preserves I (g y)) \<Longrightarrow> preserves I (case v of Inl x \<Rightarrow> f x | Inr y \<Rightarrow> g y)"
  by (cases v) auto

end
