(* ===== verification/Worker_Watch.thy ===== *)
theory Worker_Watch
  imports Worker_Deploy Polling Files
begin

text \<open>
  A worker client that logs what is done through it, with the answers that matter, and the rules for
  the combinators the rollout is written with. \<open>does p m Q\<close>: every event of \<open>m\<close> satisfies \<open>p\<close>, and how it
  ends satisfies \<open>Q\<close>.
\<close>

section \<open>Events\<close>

datatype worker_event =
    Saw string "js_error + inspection option"
  | Listed "js_error + inspection list"
  | Created worker_spec "js_error + string"
  | Waited string "js_error + int"
  | Consumers string "js_error + inspection list"
  | Did docker_call
  | Restarted string
  | Stopped string
  | ReadFile string "js_error + file_text"
  | WroteFile string file_text "js_error + unit"
  | Renamed string string "js_error + unit"
  | Deleted string
  | Elsewhere

definition watch :: "'w worker_docker \<Rightarrow> ('w \<times> worker_event list) worker_docker" where
  "watch d = \<lparr>
     wk_docker = (traced_by Did (wk_docker d))\<lparr>
       inspectContainer := (\<lambda>i. log_result (Saw i) (inspectContainer (wk_docker d) i)),
       listContainersByLabels := (\<lambda>ls. log_result Listed (listContainersByLabels (wk_docker d) ls)),
       waitContainer := (\<lambda>i n. log_result (Waited i) (waitContainer (wk_docker d) i n))\<rparr>,
     wk_createContainer = (\<lambda>s. log_result (Created s) (wk_createContainer d s)),
     wk_stopContainer = (\<lambda>i. log_call (Stopped i) (wk_stopContainer d i)),
     wk_restartContainer = (\<lambda>i. log_call (Restarted i) (wk_restartContainer d i)),
     wk_ensureNetwork = (\<lambda>n ls. log_call Elsewhere (wk_ensureNetwork d n ls)),
     wk_inspectImage = (\<lambda>i. log_call Elsewhere (wk_inspectImage d i)),
     wk_pullImage = (\<lambda>i. log_call Elsewhere (wk_pullImage d i)),
     wk_removeImage = (\<lambda>i b. log_call Elsewhere (wk_removeImage d i b)),
     wk_listContainersUsingVolume = (\<lambda>v. log_result (Consumers v) (wk_listContainersUsingVolume d v))\<rparr>"

definition watch_files :: "'w files \<Rightarrow> ('w \<times> worker_event list) files" where
  "watch_files fs = \<lparr>
     fs_readFile = (\<lambda>p. log_result (ReadFile p) (fs_readFile fs p)),
     fs_mkdir = (\<lambda>p. log_call Elsewhere (fs_mkdir fs p)),
     fs_writeFile = (\<lambda>p t. log_result (WroteFile p t) (fs_writeFile fs p t)),
     fs_rename = (\<lambda>p q. log_result (Renamed p q) (fs_rename fs p q)),
     fs_rm = (\<lambda>p. log_call (Deleted p) (fs_rm fs p))\<rparr>"

lemma watch_files_simps [simp]:
  "fs_readFile (watch_files fs) p = log_result (ReadFile p) (fs_readFile fs p)"
  "fs_mkdir (watch_files fs) p = log_call Elsewhere (fs_mkdir fs p)"
  "fs_writeFile (watch_files fs) p t = log_result (WroteFile p t) (fs_writeFile fs p t)"
  "fs_rename (watch_files fs) p q = log_result (Renamed p q) (fs_rename fs p q)"
  "fs_rm (watch_files fs) p = log_call (Deleted p) (fs_rm fs p)"
  by (simp_all add: watch_files_def)

definition watch_deps :: "'w deploy_deps \<Rightarrow> ('w \<times> worker_event list) deploy_deps" where
  "watch_deps deps = \<lparr>dd_docker = watch (dd_docker deps), dd_clock = traced_clock (dd_clock deps),
     dd_pick = lift_pick (dd_pick deps), dd_onProgress = (\<lambda>line (w, l). (dd_onProgress deps line w, l)),
     dd_environment = dd_environment deps\<rparr>"

lemma watch_simps [simp]:
  "inspectContainer (wk_docker (watch d)) i = log_result (Saw i) (inspectContainer (wk_docker d) i)"
  "listContainersByLabels (wk_docker (watch d)) ls = log_result Listed (listContainersByLabels (wk_docker d) ls)"
  "waitContainer (wk_docker (watch d)) i ms = log_result (Waited i) (waitContainer (wk_docker d) i ms)"
  "countContainerExits (wk_docker (watch d)) i t0 t1 = log_call (Did (CountExits i t0 t1)) (countContainerExits (wk_docker d) i t0 t1)"
  "containerLogs (wk_docker (watch d)) i = log_call (Did (Logs i)) (containerLogs (wk_docker d) i)"
  "startContainer (wk_docker (watch d)) i = log_call (Did (Start i)) (startContainer (wk_docker d) i)"
  "killContainer (wk_docker (watch d)) i sg = log_call (Did (Kill i sg)) (killContainer (wk_docker d) i sg)"
  "removeContainer (wk_docker (watch d)) i b = log_call (Did (Remove i b)) (removeContainer (wk_docker d) i b)"
  "updateContainerRestartPolicy (wk_docker (watch d)) i p =
     log_call (Did (UpdatePolicy i p)) (updateContainerRestartPolicy (wk_docker d) i p)"
  "createVolume (wk_docker (watch d)) v ls = log_call (Did (CreateVolume v)) (createVolume (wk_docker d) v ls)"
  "wk_createContainer (watch d) s = log_result (Created s) (wk_createContainer d s)"
  "wk_stopContainer (watch d) i = log_call (Stopped i) (wk_stopContainer d i)"
  "wk_restartContainer (watch d) i = log_call (Restarted i) (wk_restartContainer d i)"
  "wk_ensureNetwork (watch d) n ls = log_call Elsewhere (wk_ensureNetwork d n ls)"
  "wk_inspectImage (watch d) i = log_call Elsewhere (wk_inspectImage d i)"
  "wk_pullImage (watch d) i = log_call Elsewhere (wk_pullImage d i)"
  "wk_removeImage (watch d) i b = log_call Elsewhere (wk_removeImage d i b)"
  "wk_listContainersUsingVolume (watch d) v = log_result (Consumers v) (wk_listContainersUsingVolume d v)"
  by (simp_all add: watch_def)

lemma watch_deps_simps [simp]:
  "dd_docker (watch_deps deps) = watch (dd_docker deps)"
  "dd_clock (watch_deps deps) = traced_clock (dd_clock deps)"
  "dd_pick (watch_deps deps) = lift_pick (dd_pick deps)"
  "dd_environment (watch_deps deps) = dd_environment deps"
  by (simp_all add: watch_deps_def)

lemma say_watch [simp]: "say (watch_deps deps) line = unlogged (say deps line)"
  by (auto simp: say_def watch_deps_def unlogged_def fun_eq_iff)

section \<open>Rules for the combinators\<close>

named_theorems obeys_rules "monitors along the combinators"

lemma obeys_either: "(\<And>e. Q (Inl e) s) \<Longrightarrow> (\<And>x. x = r \<Longrightarrow> Q x s) \<Longrightarrow> obeys mon s (io_either r) Q"
  by (cases r) (auto simp: io_either_def intro: obeys_return obeys_throw)

text \<open>An invariant of the monitor's state that a call keeps, whatever its answer.\<close>

definition keeps :: "('s, 'c) monitor \<Rightarrow> ('s \<Rightarrow> bool) \<Rightarrow> ('w \<times> 'c list, 'a) io \<Rightarrow> bool" where
  "keeps mon I m \<longleftrightarrow> (\<forall>s. I s \<longrightarrow> obeys mon s m (\<lambda>r. I))"

lemma keepsI: "(\<And>s. I s \<Longrightarrow> obeys mon s m (\<lambda>r. I)) \<Longrightarrow> keeps mon I m"
  by (simp add: keeps_def)

lemma keepsD: "keeps mon I m \<Longrightarrow> I s \<Longrightarrow> obeys mon s m (\<lambda>r. I)"
  by (simp add: keeps_def)

lemma keeps_pure [obeys_rules]: "keeps mon I (io_return x)" "keeps mon I (io_throw e)" "keeps mon I (unlogged m)"
  by (auto intro!: keepsI intro: obeys_return obeys_throw obeys_unlogged)

lemma keeps_either [obeys_rules]: "keeps mon I (io_either r)"
  by (auto intro!: keepsI intro: obeys_either)

lemma keeps_bind [obeys_rules]:
  "keeps mon I m \<Longrightarrow> (\<And>x. keeps mon I (f x)) \<Longrightarrow> keeps mon I (io_bind m f)"
  by (auto intro!: keepsI obeys_bind [where P = "\<lambda>r. I"] dest: keepsD)

lemma keeps_catch [obeys_rules]:
  "keeps mon I m \<Longrightarrow> (\<And>e. keeps mon I (h e)) \<Longrightarrow> keeps mon I (io_catch m h)"
  by (auto intro!: keepsI obeys_catch [where P = "\<lambda>r. I"] dest: keepsD)

lemma keeps_try [obeys_rules]: "keeps mon I m \<Longrightarrow> keeps mon I (io_try m)"
  by (auto intro!: keepsI obeys_try [where P = "\<lambda>r. I"] dest: keepsD)

lemma keeps_for [obeys_rules]: "(\<And>x. x \<in> set xs \<Longrightarrow> keeps mon I (f x)) \<Longrightarrow> keeps mon I (io_for xs f)"
  by (auto intro!: keepsI obeys_for dest: keepsD)

lemma keeps_map [obeys_rules]: "(\<And>x. x \<in> set xs \<Longrightarrow> keeps mon I (f x)) \<Longrightarrow> keeps mon I (io_map f xs)"
proof (induction xs)
  case (Cons x xs)
  then show ?case unfolding io_map.simps by (intro obeys_rules) auto
qed (simp add: obeys_rules)

lemma keeps_sum [obeys_rules]:
  "(\<And>x. v = Inl x \<Longrightarrow> keeps mon I (f x)) \<Longrightarrow> (\<And>y. v = Inr y \<Longrightarrow> keeps mon I (g y)) \<Longrightarrow>
   keeps mon I (case v of Inl x \<Rightarrow> f x | Inr y \<Rightarrow> g y)"
  by (cases v) auto

lemma keeps_fold_catch [obeys_rules]:
  "(\<And>s x. x \<in> set xs \<Longrightarrow> keeps mon I (f s x)) \<Longrightarrow> keeps mon I (io_fold_catch f xs s)"
proof (induction xs arbitrary: s)
  case (Cons x xs)
  then show ?case unfolding io_fold_catch.simps by (intro obeys_rules) auto
qed (simp add: obeys_rules)

lemma keeps_loop [obeys_rules]:
  assumes "\<And>s. keeps mon I (body s)"
  shows "keeps mon I (io_loop body s)"
proof (rule keepsI)
  fix m assume "I m"
  then show "obeys mon m (io_loop body s) (\<lambda>r. I)"
  proof (rule obeys_loop [where I = "\<lambda>_. I"])
    fix s' m' assume "I m'"
    with assms have "obeys mon m' (body s') (\<lambda>r. I)" by (rule keepsD)
    then show "obeys mon m' (body s') (\<lambda>r m'. case r of Inl e \<Rightarrow> I m' | Inr (Inl s') \<Rightarrow> I m' | Inr (Inr x) \<Rightarrow> I m')"
      by (rule obeys_conseq) (auto split: sum.splits)
  qed
qed

lemma keeps_all_settled [obeys_rules]:
  assumes "\<And>s. keeps mon I (body s)"
  shows "keeps mon I (all_settled pick body ss)"
proof (rule keepsI)
  fix m assume "I m"
  have "obeys mon m (all_settled pick body ss) (\<lambda>r m'. I m' \<and> results_ok (\<lambda>_ _. True) (length ss) r)"
  proof (rule obeys_all_settled [where J = "\<lambda>_ _. True"])
    fix s and m' assume "I m'"
    with assms have "obeys mon m' (body s) (\<lambda>r. I)" by (rule keepsD)
    then show "obeys mon m' (body s) (\<lambda>r m'. I m' \<and> (case r of Inl e \<Rightarrow> True | Inr (Inl s') \<Rightarrow> True | Inr (Inr x) \<Rightarrow> True))"
      by (rule obeys_conseq) (auto split: sum.splits)
  qed (use \<open>I m\<close> in auto)
  then show "obeys mon m (all_settled pick body ss) (\<lambda>r. I)" by (rule obeys_conseq) simp
qed

lemma keeps_finally [obeys_rules]:
  assumes "keeps mon I m" and "keeps mon I g"
  shows "keeps mon I (io_finally m g)"
proof (intro keepsI obeys_finally [where P = "\<lambda>r. I"])
  fix s assume "I s"
  with assms(1) show "obeys mon s m (\<lambda>r. I)" by (rule keepsD)
next
  fix r s' assume "I s'"
  with assms(2) have "obeys mon s' g (\<lambda>r. I)" by (rule keepsD)
  then show "obeys mon s' g (\<lambda>q s''. case q of Inl e \<Rightarrow> I s'' | Inr _ \<Rightarrow> I s'')"
    by (rule obeys_conseq) (auto split: sum.splits)
qed

lemma keeps_call [obeys_rules]:
  "(\<And>s. I s \<Longrightarrow> \<exists>s'. mon s c = Some s' \<and> I s') \<Longrightarrow> keeps mon I (log_call c m)"
  by (rule keepsI) (metis obeys_call)

lemma keeps_result [obeys_rules]:
  "(\<And>s r. I s \<Longrightarrow> \<exists>s'. mon s (f r) = Some s' \<and> I s') \<Longrightarrow> keeps mon I (log_result f m)"
  by (auto intro!: keepsI obeys_result)

lemma keeps_if [obeys_rules]: "(c \<Longrightarrow> keeps mon I m) \<Longrightarrow> (\<not> c \<Longrightarrow> keeps mon I n) \<Longrightarrow> keeps mon I (if c then m else n)"
  by simp

lemma keeps_option [obeys_rules]:
  "(v = None \<Longrightarrow> keeps mon I m) \<Longrightarrow> (\<And>x. v = Some x \<Longrightarrow> keeps mon I (f x)) \<Longrightarrow>
   keeps mon I (case v of None \<Rightarrow> m | Some x \<Rightarrow> f x)"
  by (cases v) auto

lemma keeps_prod [obeys_rules]:
  "(\<And>x y. v = (x, y) \<Longrightarrow> keeps mon I (f x y)) \<Longrightarrow> keeps mon I (case v of (x, y) \<Rightarrow> f x y)"
  by (cases v) auto

lemma keeps_Let [obeys_rules]: "keeps mon I (f v) \<Longrightarrow> keeps mon I (let x = v in f x)"
  by simp

text \<open>What a call's answer satisfies can be used by what follows it.\<close>

lemma keeps_bind_obeys:
  assumes "\<And>s. I s \<Longrightarrow> obeys mon s m (\<lambda>r s'. I s' \<and> (case r of Inl e \<Rightarrow> True | Inr x \<Rightarrow> P x))"
    and "\<And>x. P x \<Longrightarrow> keeps mon I (f x)"
  shows "keeps mon I (io_bind m f)"
  by (intro keepsI obeys_bind [where P = "\<lambda>r s'. I s' \<and> (case r of Inl e \<Rightarrow> True | Inr x \<Rightarrow> P x)"])
    (use assms in \<open>auto dest: keepsD\<close>)

end
