(* ===== verification/Worker_Calls.thy ===== *)
theory Worker_Calls
  imports Worker_Watch
begin

text \<open>
  What a monitor has to tolerate for an invariant of its state to survive the parts of a rollout. The
  locale \<open>tolerant\<close> is the interface between a claim about the order of calls and the functions that make
  them: \<open>X\<close> are the containers whose inspection the claim does not tolerate, \<open>Y\<close> those that must not be
  changed. Its lemmas say, function by function, that the invariant survives.
\<close>

definition answers :: "(js_error + 'a \<Rightarrow> bool) \<Rightarrow> ('w, 'a) io \<Rightarrow> bool" where
  "answers F m \<longleftrightarrow> (\<forall>w r w'. m w = Some (r, w') \<longrightarrow> F r)"

lemma obeys_answer:
  assumes "answers F m" and "\<And>r. F r \<Longrightarrow> \<exists>s'. mon s (f r) = Some s' \<and> Q r s'"
  shows "obeys mon s (log_result f m) Q"
proof (rule obeysI)
  fix w l r w' l'
  assume run: "log_result f m (w, l) = Some (r, (w', l'))"
  with assms(1) have "F r" by (auto simp: answers_def)
  with assms(2) obtain s' where "mon s (f r) = Some s'" "Q r s'" by blast
  with run show "\<exists>k s'. l' = l @ k \<and> run_monitor mon s k = Some s' \<and> Q r s'"
    by (intro exI [of _ "[f r]"] exI [of _ s']) auto
qed

section \<open>Answers that what follows relies on\<close>

definition yields :: "('s, 'c) monitor \<Rightarrow> ('s \<Rightarrow> bool) \<Rightarrow> ('a \<Rightarrow> bool) \<Rightarrow> ('w \<times> 'c list, 'a) io \<Rightarrow> bool" where
  "yields mon I Q m \<longleftrightarrow> (\<forall>s. I s \<longrightarrow> obeys mon s m (\<lambda>r s'. I s' \<and> (case r of Inl e \<Rightarrow> True | Inr x \<Rightarrow> Q x)))"

lemma yieldsI: "(\<And>s. I s \<Longrightarrow> obeys mon s m (\<lambda>r s'. I s' \<and> (case r of Inl e \<Rightarrow> True | Inr x \<Rightarrow> Q x))) \<Longrightarrow> yields mon I Q m"
  by (simp add: yields_def)

lemma yieldsD: "yields mon I Q m \<Longrightarrow> I s \<Longrightarrow> obeys mon s m (\<lambda>r s'. I s' \<and> (case r of Inl e \<Rightarrow> True | Inr x \<Rightarrow> Q x))"
  by (simp add: yields_def)

lemma yields_keeps: "yields mon I Q m \<Longrightarrow> keeps mon I m"
  by (auto intro!: keepsI elim!: obeys_conseq dest!: yieldsD)

lemma keeps_yields: "keeps mon I m \<Longrightarrow> yields mon I (\<lambda>_. True) m"
  by (auto intro!: yieldsI elim!: obeys_conseq dest!: keepsD split: sum.splits)

lemma yields_mono: "yields mon I P m \<Longrightarrow> (\<And>x. P x \<Longrightarrow> Q x) \<Longrightarrow> yields mon I Q m"
  by (auto intro!: yieldsI elim!: obeys_conseq dest!: yieldsD split: sum.splits)

lemma yields_return: "Q x \<Longrightarrow> yields mon I Q (io_return x)"
  by (auto intro!: yieldsI obeys_return)

lemma yields_throw: "yields mon I Q (io_throw e)"
  by (auto intro!: yieldsI obeys_throw)

lemma yields_either: "(\<And>x. r = Inr x \<Longrightarrow> Q x) \<Longrightarrow> yields mon I Q (io_either r)"
  by (cases r) (auto simp: io_either_def intro: yields_return yields_throw)

lemma yields_bind:
  assumes "yields mon I P m" and "\<And>x. P x \<Longrightarrow> yields mon I Q (f x)"
  shows "yields mon I Q (io_bind m f)"
  by (intro yieldsI obeys_bind [where P = "\<lambda>r s'. I s' \<and> (case r of Inl e \<Rightarrow> True | Inr x \<Rightarrow> P x)"])
    (use assms in \<open>auto dest: yieldsD\<close>)

lemma keeps_bind_yields:
  assumes "yields mon I P m" and "\<And>x. P x \<Longrightarrow> keeps mon I (f x)"
  shows "keeps mon I (io_bind m f)"
  by (rule yields_keeps [where Q = "\<lambda>_. True"]) (use assms in \<open>auto intro: yields_bind keeps_yields\<close>)

lemma yields_try: "yields mon I Q m \<Longrightarrow> yields mon I (\<lambda>r. case r of Inl e \<Rightarrow> True | Inr x \<Rightarrow> Q x) (io_try m)"
  by (intro yieldsI obeys_try [where P = "\<lambda>r s'. I s' \<and> (case r of Inl e \<Rightarrow> True | Inr x \<Rightarrow> Q x)"])
    (auto dest: yieldsD)

lemma yields_map:
  assumes "\<And>x. x \<in> set xs \<Longrightarrow> yields mon I (P x) (f x)"
  shows "yields mon I (list_all2 P xs) (io_map f xs)"
  using assms
proof (induction xs)
  case (Cons x xs)
  show ?case unfolding io_map.simps
  proof (rule yields_bind)
    fix y assume "P x y"
    then show "yields mon I (list_all2 P (x # xs)) (io_bind (io_map f xs) (\<lambda>ys. io_return (y # ys)))"
      using Cons by (intro yields_bind [where P = "list_all2 P xs"] yields_return) auto
  qed (use Cons.prems in auto)
qed (simp add: yields_return)

lemma yields_fold_catch:
  assumes "J s" and "\<And>s x. x \<in> set xs \<Longrightarrow> J s \<Longrightarrow> yields mon I J (f s x)"
  shows "yields mon I (\<lambda>(s, e). J s) (io_fold_catch f xs s)"
  using assms
proof (induction xs arbitrary: s)
  case (Cons x xs)
  show ?case unfolding io_fold_catch.simps
    by (rule yields_bind [OF yields_try [OF Cons.prems(2)]]) (use Cons in \<open>auto intro: yields_return split: sum.splits\<close>)
qed (simp add: yields_return)

lemma yields_if: "(c \<Longrightarrow> yields mon I Q m) \<Longrightarrow> (\<not> c \<Longrightarrow> yields mon I Q n) \<Longrightarrow> yields mon I Q (if c then m else n)"
  by simp

lemma yields_option:
  "(v = None \<Longrightarrow> yields mon I Q m) \<Longrightarrow> (\<And>x. v = Some x \<Longrightarrow> yields mon I Q (f x)) \<Longrightarrow>
   yields mon I Q (case v of None \<Rightarrow> m | Some x \<Rightarrow> f x)"
  by (cases v) auto

lemma yields_sum:
  "(\<And>x. v = Inl x \<Longrightarrow> yields mon I Q (f x)) \<Longrightarrow> (\<And>y. v = Inr y \<Longrightarrow> yields mon I Q (g y)) \<Longrightarrow>
   yields mon I Q (case v of Inl x \<Rightarrow> f x | Inr y \<Rightarrow> g y)"
  by (cases v) auto

text \<open>Tasks of which each keeps to what is known of it.\<close>

lemma yields_all_settled:
  assumes "\<And>i. i < length ss \<Longrightarrow> J i (ss ! i)"
    and "\<And>i s. i < length ss \<Longrightarrow> J i s \<Longrightarrow> yields mon I (\<lambda>r. case r of Inl s' \<Rightarrow> J i s' | Inr x \<Rightarrow> Q i x) (body s)"
  shows "yields mon I (\<lambda>rs. length rs = length ss \<and> (\<forall>i < length ss. \<forall>x. rs ! i = Inr x \<longrightarrow> Q i x)) (all_settled pick body ss)"
proof (rule yieldsI)
  fix s assume "I s"
  have "obeys mon s (all_settled pick body ss) (\<lambda>r m'. I m' \<and> results_ok Q (length ss) r)"
  proof (rule obeys_all_settled [where J = J])
    fix i s m assume "i < length ss" "J i s" "I m"
    with assms(2) have "obeys mon m (body s)
        (\<lambda>r s'. I s' \<and> (case r of Inl e \<Rightarrow> True | Inr x \<Rightarrow> case x of Inl s' \<Rightarrow> J i s' | Inr x \<Rightarrow> Q i x))"
      by (blast dest: yieldsD)
    then show "obeys mon m (body s) (\<lambda>r m'. I m' \<and> (case r of Inl e \<Rightarrow> True | Inr (Inl s') \<Rightarrow> J i s' | Inr (Inr x) \<Rightarrow> Q i x))"
      by (rule obeys_conseq) (auto split: sum.splits)
  qed (use assms(1) \<open>I s\<close> in auto)
  then show "obeys mon s (all_settled pick body ss) (\<lambda>r s'. I s' \<and> (case r of Inl e \<Rightarrow> True
      | Inr rs \<Rightarrow> length rs = length ss \<and> (\<forall>i < length ss. \<forall>x. rs ! i = Inr x \<longrightarrow> Q i x)))"
    by (rule obeys_conseq) (auto simp: results_ok_def split: sum.splits)
qed

section \<open>The interface\<close>

locale tolerant =
  fixes mon :: "('s, worker_event) monitor" and I :: "'s \<Rightarrow> bool" and X Y :: "string set"
  assumes saw: "i \<notin> X \<Longrightarrow> I s \<Longrightarrow> \<exists>s'. mon s (Saw i r) = Some s' \<and> I s'"
    and killed: "i \<notin> Y \<Longrightarrow> I s \<Longrightarrow> \<exists>s'. mon s (Did (Kill i sg)) = Some s' \<and> I s'"
    and updated: "i \<notin> Y \<Longrightarrow> I s \<Longrightarrow> \<exists>s'. mon s (Did (UpdatePolicy i p)) = Some s' \<and> I s'"
    and removed: "i \<notin> Y \<Longrightarrow> I s \<Longrightarrow> \<exists>s'. mon s (Did (Remove i b)) = Some s' \<and> I s'"
    and counted: "I s \<Longrightarrow> \<exists>s'. mon s (Did (CountExits i t0 t1)) = Some s' \<and> I s'"
    and logged: "I s \<Longrightarrow> \<exists>s'. mon s (Did (Logs i)) = Some s' \<and> I s'"
    and volume_made: "I s \<Longrightarrow> \<exists>s'. mon s (Did (CreateVolume v)) = Some s' \<and> I s'"
    and waited: "I s \<Longrightarrow> \<exists>s'. mon s (Waited i q) = Some s' \<and> I s'"
    and consumed: "I s \<Longrightarrow> \<exists>s'. mon s (Consumers v cs) = Some s' \<and> I s'"
    and elsewhere: "I s \<Longrightarrow> \<exists>s'. mon s Elsewhere = Some s' \<and> I s'"
begin

lemma inspect_kept: "i \<notin> X \<Longrightarrow> keeps mon I (inspectContainer (wk_docker (watch d)) i)"
  by (simp add: keeps_result saw)

lemma kill_kept: "i \<notin> Y \<Longrightarrow> keeps mon I (killContainer (wk_docker (watch d)) i sg)"
  by (simp add: keeps_call killed)

lemma update_kept: "i \<notin> Y \<Longrightarrow> keeps mon I (updateContainerRestartPolicy (wk_docker (watch d)) i p)"
  by (simp add: keeps_call updated)

lemma remove_kept: "i \<notin> Y \<Longrightarrow> keeps mon I (removeContainer (wk_docker (watch d)) i b)"
  by (simp add: keeps_call removed)

lemma reads_kept:
  "keeps mon I (countContainerExits (wk_docker (watch d)) i t0 t1)" "keeps mon I (containerLogs (wk_docker (watch d)) i)"
  "keeps mon I (waitContainer (wk_docker (watch d)) i ms)" "keeps mon I (createVolume (wk_docker (watch d)) v ls)"
  "keeps mon I (wk_ensureNetwork (watch d) v ls)" "keeps mon I (wk_inspectImage (watch d) v)"
  "keeps mon I (wk_pullImage (watch d) v)" "keeps mon I (wk_removeImage (watch d) v b)"
  "keeps mon I (wk_listContainersUsingVolume (watch d) v)"
  by (simp_all add: keeps_call keeps_result counted logged volume_made waited consumed elsewhere)

lemma clock_kept: "keeps mon I (io_now (traced_clock c))" "keeps mon I (wait (traced_clock c) ms)"
  by (simp_all add: obeys_rules)

lemma say_kept: "keeps mon I (say (watch_deps deps) line)"
  by (simp add: obeys_rules)

lemmas calls_kept = inspect_kept kill_kept update_kept remove_kept reads_kept clock_kept say_kept

lemma running_state_kept: "i \<notin> X \<Longrightarrow> keeps mon I (readRunningState (wk_docker (watch d)) i)"
  unfolding readRunningState_def by (intro obeys_rules calls_kept)

lemma report_kept: "keeps mon I (finished (shutdown_report_of (traced_clock c) inp t sg out code))"
  unfolding finished_def shutdown_report_of_def by (intro obeys_rules calls_kept)

lemma stop_step_kept:
  assumes "si_identifier inp \<notin> X" and "si_identifier inp \<notin> Y"
  shows "keeps mon I (stop_step (wk_docker (watch d)) (traced_clock c) inp p)"
  using assms
  by (cases p; simp only: stop_step.simps; intro obeys_rules calls_kept running_state_kept report_kept)

lemma recent_kept: "keeps mon I (countRecentRestarts (readiness_of (watch d)) i t)"
  unfolding countRecentRestarts_def readiness_of_def readiness_docker.simps by (intro obeys_rules calls_kept)

lemma loop_kept: "keeps mon I (countRestartLoop (readiness_of (watch d)) i t n)"
  unfolding countRestartLoop_def by (intro obeys_rules recent_kept)

lemma round_kept:
  assumes "ww_containerName inp \<notin> X"
  shows "keeps mon I (worker_round (readiness_of (watch d)) (traced_clock c) inp deadline seen)"
proof -
  have "keeps mon I (worker_verdict (traced_clock c) inp i seen)" for i seen
    unfolding worker_verdict_def by (intro obeys_rules calls_kept)
  then have "keeps mon I (worker_count (traced_clock c) inp i seen)" for i seen
    unfolding worker_count_def by (intro obeys_rules)
  moreover have "keeps mon I (worker_baseline (readiness_of (watch d)) inp i t seen)" for i t seen
    unfolding worker_baseline_def by (intro obeys_rules recent_kept)
  ultimately have "keeps mon I (worker_judge (readiness_of (watch d)) (traced_clock c) inp t seen r)" for t seen r
    unfolding worker_judge_def by (intro obeys_rules)
  moreover have "keeps mon I (rk_inspectContainer (readiness_of (watch d)) (ww_containerName inp))"
    unfolding readiness_of_def readiness_docker.simps by (rule inspect_kept [OF assms])
  ultimately show ?thesis unfolding worker_round_def by (intro obeys_rules calls_kept)
qed

lemma readiness_kept:
  "ww_containerName inp \<notin> X \<Longrightarrow> keeps mon I (waitForWorkerReadiness (readiness_of (watch d)) (traced_clock c) inp)"
  unfolding waitForWorkerReadiness_def by (intro obeys_rules calls_kept round_kept)

lemma stop_starts_yields:
  "yields mon I (\<lambda>x. fst x = stop_input policy roleOf c) (stop_starts (watch_deps deps) policy roleOf c)"
  unfolding stop_starts_def watch_deps_simps
  by (intro yields_bind [OF keeps_yields [OF clock_kept(1)]] yields_return) simp

lemma stop_body_yields:
  assumes "si_identifier inp \<notin> X" and "si_identifier inp \<notin> Y"
  shows "yields mon I (\<lambda>r. case r of Inl s' \<Rightarrow> fst s' = inp | Inr x \<Rightarrow> True) (stop_body (watch_deps deps) (inp, p))"
proof -
  have "keeps mon I (stop_step (wk_docker (watch (dd_docker deps))) (traced_clock (dd_clock deps)) inp p)"
    by (rule stop_step_kept [OF assms])
  then show ?thesis
    unfolding stop_body_def prod.case watch_deps_simps
    by (intro yields_bind [OF keeps_yields] yields_return) (auto split: sum.splits)
qed

text \<open>Stopping containers none of which the claim protects; there is one report for each.\<close>

lemma stop_all_yields:
  assumes "\<And>c. c \<in> set cs \<Longrightarrow> getContainerIdentifier c \<notin> X \<and> getContainerIdentifier c \<notin> Y"
  shows "yields mon I (\<lambda>reports. length reports = length cs) (stopAllGracefully (watch_deps deps) policy cs roleOf)"
proof -
  let ?inp = "\<lambda>i. stop_input policy roleOf (cs ! i)"
  have settle: "yields mon I (\<lambda>rs. length rs = length cs) (all_settled pick (stop_body (watch_deps deps)) stops)"
    if "list_all2 (\<lambda>c x. fst x = stop_input policy roleOf c) cs stops" for pick stops
  proof (rule yields_mono)
    have len: "length stops = length cs" using that list_all2_lengthD by fastforce
    show "yields mon I (\<lambda>rs. length rs = length stops \<and> (\<forall>i < length stops. \<forall>x. rs ! i = Inr x \<longrightarrow> True))
        (all_settled pick (stop_body (watch_deps deps)) stops)"
    proof (rule yields_all_settled [where J = "\<lambda>i s. fst s = ?inp i" and Q = "\<lambda>_ _. True"])
      fix i assume "i < length stops"
      with that len show "fst (stops ! i) = ?inp i" by (simp add: list_all2_conv_all_nth)
    next
      fix i and s :: "shutdown_input \<times> stop_point"
      assume i: "i < length stops" "fst s = ?inp i"
      then have "cs ! i \<in> set cs" using len by simp
      with assms have "si_identifier (?inp i) \<notin> X" "si_identifier (?inp i) \<notin> Y" by (auto simp: stop_input_def)
      from stop_body_yields [OF this] i(2) show "yields mon I (\<lambda>r. case r of Inl s' \<Rightarrow> fst s' = ?inp i | Inr x \<Rightarrow> True)
          (stop_body (watch_deps deps) s)" by (metis prod.collapse)
    qed
    show "length rs = length cs" if "length rs = length stops \<and> (\<forall>i < length stops. \<forall>x. rs ! i = Inr x \<longrightarrow> True)"
      for rs :: "(js_error + string shutdown_report) list" using that len by simp
  qed
  have "keeps mon I (stop_report (watch_deps deps) policy roleOf t x)" for t x
    unfolding stop_report_def by (intro obeys_rules; simp del: traced_clock_simps; intro obeys_rules clock_kept)
  then have reports: "yields mon I (list_all2 (\<lambda>_ _. True) xs) (io_map (stop_report (watch_deps deps) policy roleOf t) xs)" for t xs
    by (intro yields_map keeps_yields)
  show ?thesis
    unfolding stopAllGracefully_def watch_deps_simps(2)
  proof (rule yields_bind [OF keeps_yields [OF clock_kept(1)]],
      rule yields_bind [OF yields_map [OF stop_starts_yields]], rule yields_bind [OF settle], assumption,
      rule yields_bind [OF reports], rule yields_bind [OF keeps_yields])
    fix reports :: "string shutdown_report list"
    show "keeps mon I (io_for reports (\<lambda>r. say (watch_deps deps) (describeWorkerShutdownReport r)))"
      by (intro obeys_rules say_kept)
  qed (rule yields_return, auto dest: list_all2_lengthD)
qed

lemma stop_all_kept:
  assumes "\<And>c. c \<in> set cs \<Longrightarrow> getContainerIdentifier c \<notin> X \<and> getContainerIdentifier c \<notin> Y"
  shows "keeps mon I (stopAllGracefully (watch_deps deps) policy cs roleOf)"
  using stop_all_yields [OF assms] by (rule yields_keeps)

lemma replicas_kept:
  assumes "\<And>c. c \<in> set replicas \<Longrightarrow> getContainerName c \<notin> X"
  shows "keeps mon I (anyReplicaRuns pick (watch d) replicas (traced_clock c))"
proof -
  have start: "yields mon I (\<lambda>x. ww_containerName (fst x) = getContainerName r) (replica_wait_starts (traced_clock c) r)" for r
    unfolding replica_wait_starts_def Let_def
    by (intro yields_bind [OF keeps_yields [OF clock_kept(1)]] yields_return)
      (simp add: replica_wait_input_def default_worker_wait_def)
  have round: "yields mon I (\<lambda>r. case r of Inl s' \<Rightarrow> ww_containerName (fst s') = ww_containerName inp | Inr x \<Rightarrow> True)
      (replica_step (watch d) (traced_clock c) (inp, t, seen))" if "ww_containerName inp \<notin> X" for inp t seen
    unfolding replica_step_def prod.case
    by (intro yields_bind [OF keeps_yields [OF keeps_try [OF round_kept [OF that]]]] yields_return)
      (auto split: sum.splits)
  have "keeps mon I (all_settled pick (replica_step (watch d) (traced_clock c)) waits)"
    if "list_all2 (\<lambda>r x. ww_containerName (fst x) = getContainerName r) replicas waits" for waits
  proof (rule yields_keeps, rule yields_all_settled
      [where J = "\<lambda>i s. ww_containerName (fst s) = getContainerName (replicas ! i)" and Q = "\<lambda>_ _. True"])
    fix i assume "i < length waits"
    with that show "ww_containerName (fst (waits ! i)) = getContainerName (replicas ! i)"
      by (simp add: list_all2_conv_all_nth)
  next
    fix i and s :: replica_wait
    assume i: "i < length waits" "ww_containerName (fst s) = getContainerName (replicas ! i)"
    then have "ww_containerName (fst s) \<notin> X" using assms that list_all2_lengthD by (metis nth_mem)
    from round [OF this, of "fst (snd s)" "snd (snd s)"]
    show "yields mon I (\<lambda>r. case r of Inl s' \<Rightarrow> ww_containerName (fst s') = getContainerName (replicas ! i) | Inr x \<Rightarrow> True)
        (replica_step (watch d) (traced_clock c) s)" unfolding i(2) prod.collapse .
  qed
  then show ?thesis
    unfolding anyReplicaRuns_def
    by (intro keeps_bind_yields [OF yields_map [OF start]] keeps_bind keeps_pure) assumption
qed

lemma consumers_kept: "keeps mon I (assertNoUnexpectedVolumeConsumer (watch d) v names)"
  unfolding assertNoUnexpectedVolumeConsumer_def by (intro obeys_rules reads_kept)

lemma check_consumers_kept: "keeps mon I (check_consumers (watch_deps deps) payload names)"
  unfolding check_consumers_def watch_deps_simps by (intro obeys_rules consumers_kept)

lemma absent_kept: "(\<And>i. i \<in> set is \<Longrightarrow> i \<notin> X) \<Longrightarrow> keeps mon I (assertContainersAbsent (watch d) is)"
  unfolding assertContainersAbsent_def by (intro obeys_rules inspect_kept) auto

lemma loops_kept:
  "(\<And>c. c \<in> set cs \<Longrightarrow> getContainerIdentifier c \<notin> X) \<Longrightarrow>
   keeps mon I (readRestartLoopsBeforeStop (watch d) cs (traced_clock clk))"
  unfolding readRestartLoopsBeforeStop_def by (intro obeys_rules inspect_kept clock_kept loop_kept) auto

lemma removeRetired_kept: "getContainerIdentifier c \<notin> Y \<Longrightarrow> keeps mon I (removeRetired (watch_deps deps) c)"
  unfolding removeRetired_def watch_deps_simps by (intro obeys_rules remove_kept say_kept)

lemma drop_image_kept: "keeps mon I (drop_image (watch_deps deps) reference)"
  unfolding drop_image_def watch_deps_simps by (intro obeys_rules reads_kept)

lemma remove_stopped_kept:
  "(\<And>x. x \<in> set xs \<Longrightarrow> getContainerIdentifier (fst x) \<notin> Y) \<Longrightarrow> keeps mon I (remove_stopped (watch d) xs b)"
proof (induction xs arbitrary: b)
  case (Cons x xs)
  obtain c r where x: "x = (c, r)" by (cases x)
  have "getContainerIdentifier c \<notin> Y" using Cons.prems [of x] x by simp
  moreover have "keeps mon I (remove_stopped (watch d) xs b')" for b' using Cons by auto
  ultimately show ?case unfolding remove_stopped.simps x prod.case by (intro obeys_rules remove_kept)
qed (simp add: obeys_rules)

lemma prepare_host_kept: "keeps mon I (prepare_host (watch_deps deps) payload)"
  unfolding prepare_host_def watch_deps_simps by (intro obeys_rules reads_kept)

lemma rollout_image_kept: "keeps mon I (rollout_image (watch_deps deps) payload n)"
  unfolding rollout_image_def ensureWorkerImage_def watch_deps_simps by (intro obeys_rules reads_kept)

lemma remove_leftovers_kept:
  assumes "\<And>c. c \<in> set cs \<Longrightarrow> getContainerIdentifier c \<notin> X \<and> getContainerIdentifier c \<notin> Y"
  shows "keeps mon I (remove_leftovers (watch_deps deps) cs)"
  unfolding remove_leftovers_def watch_deps_simps
  by (intro obeys_rules remove_kept absent_kept say_kept) (use assms in auto)

end

section \<open>Candidates\<close>

text \<open>
  What Docker's names and identifiers are relied on for: \<open>N\<close> are the names of the candidate slots, and
  asking for such a name answers the container of that name, whose identifier is none of \<open>P\<close>, those of the
  other containers of the service; nor is the identifier of a container that is created.
\<close>

definition own_slots :: "'w worker_docker \<Rightarrow> string set \<Rightarrow> string set \<Rightarrow> bool" where
  "own_slots d N P \<longleftrightarrow> N \<inter> P = {} \<and> (\<forall>i \<in> P. \<not> prefix ''nouva-worker-'' i) \<and>
     (\<forall>n \<in> N. answers (\<lambda>r. \<forall>c. r = Inr (Some c) \<longrightarrow> ci_Id c \<notin> P \<and> getContainerIdentifier c \<notin> P)
        (inspectContainer (wk_docker d) n)) \<and>
     (\<forall>spec. answers (\<lambda>r. \<forall>i. r = Inr i \<longrightarrow> i \<notin> P) (wk_createContainer d spec))"

context tolerant
begin

lemma slot_yields:
  assumes "own_slots d N P" and "n \<in> N" and "X \<subseteq> P"
  shows "yields mon I (\<lambda>r. \<forall>c. r = Some c \<longrightarrow> ci_Id c \<notin> P \<and> getContainerIdentifier c \<notin> P)
    (inspectContainer (wk_docker (watch d)) n)"
proof (rule yieldsI)
  fix s assume "I s"
  have "n \<notin> X" and F: "answers (\<lambda>r. \<forall>c. r = Inr (Some c) \<longrightarrow> ci_Id c \<notin> P \<and> getContainerIdentifier c \<notin> P)
      (inspectContainer (wk_docker d) n)" using assms by (auto simp: own_slots_def)
  with \<open>I s\<close> show "obeys mon s (inspectContainer (wk_docker (watch d)) n)
      (\<lambda>r s'. I s' \<and> (case r of Inl e \<Rightarrow> True | Inr x \<Rightarrow> \<forall>c. x = Some c \<longrightarrow> ci_Id c \<notin> P \<and> getContainerIdentifier c \<notin> P))"
    unfolding watch_simps by (intro obeys_answer [OF F]) (auto dest!: saw split: sum.splits)
qed

lemma inspect_all_yields:
  assumes "own_slots d N P" and "set ns \<subseteq> N" and "X \<subseteq> P"
  shows "yields mon I (list_all (\<lambda>c. getContainerIdentifier c \<notin> P)) (inspect_all (watch d) ns)"
  using assms(2)
proof (induction ns)
  case (Cons n ns)
  show ?case unfolding inspect_all.simps
  proof (rule yields_bind [OF slot_yields [OF assms(1) _ assms(3)]])
    fix r assume r: "\<forall>c. r = Some c \<longrightarrow> ci_Id c \<notin> P \<and> getContainerIdentifier c \<notin> P"
    show "yields mon I (list_all (\<lambda>c. getContainerIdentifier c \<notin> P))
        (io_bind (inspect_all (watch d) ns) (\<lambda>cs. io_return (case r of None \<Rightarrow> cs | Some c \<Rightarrow> c # cs)))"
      by (rule yields_bind [OF Cons.IH], use Cons.prems in simp, rule yields_return)
        (use r in \<open>auto split: option.splits\<close>)
  qed (use Cons.prems in auto)
qed (simp add: yields_return)

lemma prepare_slot_kept:
  assumes "own_slots d N P" and "n \<in> N" and "X \<subseteq> P" and "Y \<subseteq> P"
  shows "keeps mon I (prepareCandidateSlot (watch d) n)"
  unfolding prepareCandidateSlot_def Let_def
proof (rule keeps_bind_yields [OF slot_yields [OF assms(1-3)]])
  fix r assume "\<forall>c. r = Some c \<longrightarrow> ci_Id c \<notin> P \<and> getContainerIdentifier c \<notin> P"
  with assms(3,4) show "keeps mon I (case r of None \<Rightarrow> io_return False | Some c \<Rightarrow>
      if is_up c then io_bind (updateContainerRestartPolicy (wk_docker (watch d)) (getContainerIdentifier c) ''unless-stopped'')
          (\<lambda>_. io_return True)
      else io_bind (removeContainer (wk_docker (watch d)) (getContainerIdentifier c) False) (\<lambda>_.
        io_bind (assertContainersAbsent (watch d) [getContainerIdentifier c]) (\<lambda>_. io_return False)))"
    by (intro obeys_rules update_kept remove_kept absent_kept) auto
qed

lemma force_remove_kept:
  assumes "own_slots d N P" and "set ns \<subseteq> N" and "X \<subseteq> P" and "Y \<subseteq> P"
  shows "keeps mon I (force_remove (watch d) ns b)"
  using assms(2)
proof (induction ns arbitrary: b)
  case (Cons n ns)
  have one: "keeps mon I (io_bind (inspectContainer (wk_docker (watch d)) n) (\<lambda>c. case c of None \<Rightarrow> io_return ()
      | Some c \<Rightarrow> removeContainer (wk_docker (watch d)) (getContainerIdentifier c) True))"
    by (rule keeps_bind_yields [OF slot_yields [OF assms(1) _ assms(3)]])
      (use Cons.prems assms(4) in \<open>auto intro!: obeys_rules remove_kept simp del: watch_simps\<close>)
  have "keeps mon I (force_remove (watch d) ns b')" for b' using Cons by simp
  then show ?case unfolding force_remove.simps by (intro keeps_bind keeps_try one)
qed (simp add: obeys_rules)

lemma discard_kept:
  assumes "own_slots (dd_docker deps) N P" and "set ns \<subseteq> N" and "X \<subseteq> P" and "Y \<subseteq> P"
  shows "keeps mon I (discardFailedCandidates (watch_deps deps) ro ns)"
proof -
  have forced: "keeps mon I (discard_forced (watch_deps deps) ns reports)" for reports
    unfolding discard_forced_def watch_deps_simps by (intro obeys_rules say_kept force_remove_kept [OF assms])
  show ?thesis
    unfolding discardFailedCandidates_def watch_deps_simps
  proof (rule keeps_bind_yields [OF yields_try [OF inspect_all_yields [OF assms(1-3)]]], intro keeps_sum)
    fix r :: "js_error + inspection list" and started
    assume "case r of Inl e \<Rightarrow> True | Inr x \<Rightarrow> list_all (\<lambda>c. getContainerIdentifier c \<notin> P) x" and "r = Inr started"
    then have "getContainerIdentifier c \<notin> X \<and> getContainerIdentifier c \<notin> Y" if "c \<in> set started" for c
      using assms(3,4) that by (auto simp: list_all_iff)
    then show "keeps mon I (io_bind (stopAllGracefully (watch_deps deps) (ro_policy ro) started (\<lambda>_. CandidateWorker)) (\<lambda>reports.
        io_bind (io_try (remove_stopped (watch (dd_docker deps)) (zip started reports) True))
          (\<lambda>r. case r of Inl e \<Rightarrow> discard_forced (watch_deps deps) ns reports | Inr done \<Rightarrow> io_return (done, reports))))"
      by (intro obeys_rules stop_all_kept remove_stopped_kept forced) (auto dest: set_zip_leftD)
  qed (rule forced)
qed

end

section \<open>Volume tasks and restarts\<close>

definition is_volume_task :: "worker_spec \<Rightarrow> bool" where
  "is_volume_task spec \<longleftrightarrow> map_of (sp_labels spec) ''nouva.kind'' = Some ''worker_volume_task''"

lemma volume_task_labelled [simp]: "is_volume_task (volume_task_spec environment task)"
  by (simp add: is_volume_task_def volume_task_spec_def buildWorkerLabels_def)

lemma replica_not_task: "\<not> is_volume_task (replica_spec environment payload i settings)"
  by (simp add: is_volume_task_def replica_spec_def replica_labels_def buildWorkerLabels_def Let_def)

lemma task_name_prefix: "prefix ''nouva-worker-'' (''nouva-worker-'' @ x)"
  by (simp add: prefix_def)

text \<open>A volume task may be created, and started once it was; the containers \<open>R\<close> may be started again.\<close>

locale task_tolerant = tolerant +
  fixes P R :: "string set" and T :: "'s \<Rightarrow> string \<Rightarrow> bool"
  assumes task_created: "is_volume_task spec \<Longrightarrow> (\<And>i. r = Inr i \<Longrightarrow> i \<notin> P) \<Longrightarrow> I s \<Longrightarrow>
      \<exists>s'. mon s (Created spec r) = Some s' \<and> I s' \<and> (\<forall>i. r = Inr i \<longrightarrow> T s' i)"
    and task_started: "T s i \<Longrightarrow> I s \<Longrightarrow> \<exists>s'. mon s (Did (Start i)) = Some s' \<and> I s'"
    and restarted: "i \<in> R \<Longrightarrow> I s \<Longrightarrow> \<exists>s'. mon s (Did (Start i)) = Some s' \<and> I s'"
begin

lemma volume_task_kept:
  assumes "own_slots d N P" and "Y \<subseteq> P" and "prefix ''nouva-worker-'' (vt_name task)"
  shows "keeps mon I (runWorkerVolumeTask (watch d) environment task)"
  unfolding runWorkerVolumeTask_def
proof (rule keeps_bind [OF reads_kept(7)], rule keeps_bind)
  have "vt_name task \<notin> Y" using assms by (auto simp: own_slots_def)
  then show "keeps mon I (removeContainer (wk_docker (watch d)) (vt_name task) True)" by (rule remove_kept)
next
  have F: "answers (\<lambda>r. \<forall>i. r = Inr i \<longrightarrow> i \<notin> P) (wk_createContainer d (volume_task_spec environment task))"
    using assms(1) by (simp add: own_slots_def)
  have rest: "keeps mon I (io_bind (waitContainer (wk_docker (watch d)) i DEFAULT_WAIT_TIMEOUT_MS) (\<lambda>status.
      if status \<noteq> 0 then
        io_bind (io_catch (containerLogs (wk_docker (watch d)) i) (\<lambda>_. io_return [])) (\<lambda>logs.
        io_throw (Error (if trim logs \<noteq> [] then trim logs
          else ''Worker volume task '' @ vt_name task @ '' failed ('' @ show_int status @ '')'')))
      else io_return ()))" for i
    by (intro obeys_rules reads_kept)
  have body: "obeys mon s (volume_task_body (watch d) task i) (\<lambda>r. I)" if "I s" "T s i" for s i
    unfolding volume_task_body_def
  proof (rule obeys_bind [where P = "\<lambda>r. I"])
    show "obeys mon s (startContainer (wk_docker (watch d)) i) (\<lambda>r. I)"
      using task_started [OF that(2,1)] by (auto intro: obeys_call)
  qed (use rest in \<open>auto dest: keepsD simp del: watch_simps\<close>)
  show "keeps mon I (io_bind (wk_createContainer (watch d) (volume_task_spec environment task)) (\<lambda>i.
      io_finally (volume_task_body (watch d) task i) (removeContainer (wk_docker (watch d)) i True)))"
  proof (rule keepsI, rule obeys_bind [where P = "\<lambda>r s'. I s' \<and> (\<forall>i. r = Inr i \<longrightarrow> T s' i \<and> i \<notin> P)"])
    fix s assume "I s"
    with task_created show "obeys mon s (wk_createContainer (watch d) (volume_task_spec environment task))
        (\<lambda>r s'. I s' \<and> (\<forall>i. r = Inr i \<longrightarrow> T s' i \<and> i \<notin> P))"
      unfolding watch_simps by (intro obeys_answer [OF F]) fastforce
  next
    fix i s' assume s': "I s' \<and> (\<forall>j. Inr i = Inr j \<longrightarrow> T s' j \<and> j \<notin> P)"
    then have "i \<notin> Y" using assms(2) by auto
    from s' show "obeys mon s' (io_finally (volume_task_body (watch d) task i) (removeContainer (wk_docker (watch d)) i True)) (\<lambda>r. I)"
      by (intro obeys_finally [where P = "\<lambda>r. I"] body)
        (auto intro!: obeys_conseq [OF keepsD [OF remove_kept [OF \<open>i \<notin> Y\<close>]]] simp del: watch_simps split: sum.splits)
  qed simp
qed

lemma snapshot_tasks_kept:
  assumes "own_slots d N P" and "Y \<subseteq> P"
  shows "keeps mon I (createWorkerVolumeSnapshot (watch d) environment payload)"
    "keeps mon I (restoreWorkerVolumeSnapshot (watch d) environment payload n)"
    "keeps mon I (deleteWorkerVolumeSnapshotBestEffort (watch d) environment payload n)"
    "keeps mon I (keepWorkerVolumeSnapshot (watch d) environment payload n t)"
  unfolding createWorkerVolumeSnapshot_def restoreWorkerVolumeSnapshot_def
    deleteWorkerVolumeSnapshotBestEffort_def keepWorkerVolumeSnapshot_def
  by (intro obeys_rules reads_kept volume_task_kept [OF assms],
      simp add: snapshot_task_def restore_task_def cleanup_task_def keep_task_def payload_task_def)+

lemma restore_previous_kept:
  assumes "X = {}" and "Y = {}" and "\<And>c. c \<in> set previous \<Longrightarrow> getContainerIdentifier c \<in> R"
  shows "keeps mon I (restorePreviousWorkerRuntime pick (watch d) (traced_clock clk) previous inp)"
proof -
  have answer: "keeps mon I (restore_answer pick (watch d) (traced_clock clk) s)" for s
    unfolding restore_answer_def by (intro obeys_rules replicas_kept) (simp add: assms(1))
  have look: "yields mon I (\<lambda>s. set (wr_toStart s) \<subseteq> set previous) (restore_look (watch d) inp s c)"
    if "c \<in> set previous" "set (wr_toStart s) \<subseteq> set previous" for s c
    unfolding restore_look_def Let_def
    by (intro yields_if yields_return yields_option yields_bind [OF keeps_yields] obeys_rules inspect_kept update_kept)
      (use that assms(1,2) in \<open>auto simp: found_running_def\<close>)
  have start: "keeps mon I (startContainer (wk_docker (watch d)) i)" if "i \<in> R" for i
    using that by (simp add: keeps_call restarted)
  have again: "yields mon I (\<lambda>_. True) (restore_start (watch d) (traced_clock clk) inp s c)" if "c \<in> set previous" for s c
    unfolding restore_start_def Let_def
    by (intro keeps_yields obeys_rules consumers_kept update_kept start readiness_kept)
      (use that assms in auto)
  show ?thesis
    unfolding restorePreviousWorkerRuntime_def
  proof (rule keeps_bind_yields [OF yields_fold_catch [where J = "\<lambda>s. set (wr_toStart s) \<subseteq> set previous"]])
    fix x :: "restore_state \<times> js_error option"
    assume x: "case x of (s, e) \<Rightarrow> set (wr_toStart s) \<subseteq> set previous"
    have "keeps mon I (io_bind (io_fold_catch (restore_start (watch d) (traced_clock clk) inp) (wr_toStart s) s)
        (\<lambda>(s, e). restore_answer pick (watch d) (traced_clock clk) (if e \<noteq> None then s\<lparr>wr_completed := False\<rparr> else s)))"
      if "set (wr_toStart s) \<subseteq> set previous" for s
      by (rule keeps_bind [OF yields_keeps [OF yields_fold_catch [where J = "\<lambda>_. True"]]])
        (use that again answer in \<open>auto intro!: keeps_prod\<close>)
    with x answer show "keeps mon I (case x of (s, e) \<Rightarrow>
        if e \<noteq> None then restore_answer pick (watch d) (traced_clock clk) (s\<lparr>wr_completed := False\<rparr>)
        else io_bind (io_fold_catch (restore_start (watch d) (traced_clock clk) inp) (wr_toStart s) s)
          (\<lambda>(s, e). restore_answer pick (watch d) (traced_clock clk) (if e \<noteq> None then s\<lparr>wr_completed := False\<rparr> else s)))"
      by (auto intro!: keeps_if simp del: not_None_eq)
  qed (use look in auto)
qed

text \<open>All that follows a failure, where no container is protected from inspections or changes.\<close>

lemma failed_rollout_kept:
  assumes "own_slots (dd_docker deps) N P" and "X = {}" and "Y = {}"
    and "set (ro_candidateNames ro) \<subseteq> N" and "\<And>c. c \<in> set (ro_previous ro) \<Longrightarrow> getContainerIdentifier c \<in> R"
  shows "keeps mon I (failed_rollout (watch_deps deps) ro shutdowns loops snapshotName adopted e)"
proof -
  have Y: "Y \<subseteq> P" and X: "X \<subseteq> P" by (simp_all add: assms)
  note tasks = snapshot_tasks_kept [OF assms(1) Y]
  have previous: "keeps mon I (restore_previous (watch_deps deps) ro sh lo)" for sh lo
    unfolding restore_previous_def watch_deps_simps by (intro restore_previous_kept assms(2,3,5))
  have "keeps mon I (restore_volume (watch_deps deps) ro sn)" for sn
    unfolding restore_volume_def watch_deps_simps by (intro obeys_rules check_consumers_kept tasks)
  then have "keeps mon I (restore_all (watch_deps deps) ro sh lo sn)" for sh lo sn
    unfolding restore_all_def by (intro obeys_rules previous)
  moreover have "keeps mon I (settle_snapshot (watch_deps deps) ro sn b)" for sn b
    unfolding settle_snapshot_def watch_deps_simps(1,2,4) by (intro obeys_rules say_kept clock_kept tasks)
  ultimately have returned: "keeps mon I (give_back (watch_deps deps) ro sh lo sn b)" for sh lo sn b
    unfolding give_back_def by (intro obeys_rules say_kept)
  show ?thesis
    unfolding failed_rollout_def Let_def watch_deps_simps(1,2,3)
    by (intro obeys_rules discard_kept [OF assms(1) _ X Y] returned replicas_kept drop_image_kept)
      (use assms(2,4) in auto)
qed

lemma abort_kept:
  assumes "X = {}" and "Y = {}" and "\<And>c. c \<in> set (ro_previous ro) \<Longrightarrow> getContainerIdentifier c \<in> R"
  shows "keeps mon I (abort_before_cutover (watch_deps deps) ro s e)"
  unfolding abort_before_cutover_def restore_previous_def watch_deps_simps
  by (intro obeys_rules restore_previous_kept assms)

lemma commit_kept:
  assumes "own_slots (dd_docker deps) N P" and "X = {}" and "Y = {}"
  shows "keeps mon I (commit_rollout (watch_deps deps) ro shutdowns snapshotName ids)"
proof -
  have Y: "Y \<subseteq> P" by (simp add: assms)
  show ?thesis
    unfolding commit_rollout_def watch_deps_simps(1,4)
    by (intro obeys_rules stop_all_kept removeRetired_kept drop_image_kept snapshot_tasks_kept [OF assms(1) Y])
      (simp_all add: assms(2,3))
qed

end

end
