(* ===== verification/Worker_Overlap.thy ===== *)
theory Worker_Overlap
  imports Worker_Calls Worker_Shutdown_Props
begin

text \<open>
  No overlap: where the volume or the policy of a worker forbids two versions side by side, a rollout
  starts nothing of the new version before every other live container has been seen stopped.
\<close>

section \<open>What must be stopped\<close>

definition candidate_names :: "worker_payload \<Rightarrow> string list" where
  "candidate_names payload = (case assertReplicaCount (wd_replicaCount payload) of
       Inl e \<Rightarrow> []
     | Inr n \<Rightarrow> map (buildWorkerReplicaContainerName (wd_serviceId payload) (wd_deploymentId payload)) [0..<n])"

text \<open>The live containers outside the candidate slots.\<close>

definition live_others :: "worker_payload \<Rightarrow> inspection list \<Rightarrow> inspection list" where
  "live_others payload cs = filter (\<lambda>c. isLive payload c \<and> getContainerName c \<notin> set (candidate_names payload)) cs"

definition exclusive :: "worker_payload \<Rightarrow> inspection list \<Rightarrow> bool" where
  "exclusive payload cs \<longleftrightarrow> wd_volume payload \<noteq> None \<or>
     wp_rolloutPolicy (resolveWorkerShutdownPolicy payload) = NoOverlap \<and>
     (\<exists>c \<in> set (live_others payload cs). label_of c ''nouva.deployment.id'' \<noteq> Some (wd_deploymentId payload))"

definition must_stop :: "worker_payload \<Rightarrow> inspection list \<Rightarrow> string list" where
  "must_stop payload cs = (if exclusive payload cs then map getContainerIdentifier (live_others payload cs) else [])"

text \<open>
  What is relied on of Docker: names and identifiers are unique, and a name is answered with the container
  of that name. \<open>P\<close> are the identifiers of the service's containers outside the candidate slots.
\<close>

definition docker_identifies :: "'w worker_docker \<Rightarrow> worker_payload \<Rightarrow> string set \<Rightarrow> bool" where
  "docker_identifies d payload P \<longleftrightarrow> own_slots d (set (candidate_names payload)) P \<and>
     (\<forall>ls. answers (\<lambda>r. \<forall>cs. r = Inr cs \<longrightarrow> distinct (map getContainerName cs) \<and> distinct (map getContainerIdentifier cs) \<and>
          (\<forall>c \<in> set cs. getContainerName c \<notin> set (candidate_names payload) \<longrightarrow> getContainerIdentifier c \<in> P))
        (listContainersByLabels (wk_docker d) ls))"

section \<open>The rollout that is prepared\<close>

lemma first_by_identifier_distinct:
  "distinct (map getContainerIdentifier cs) \<Longrightarrow> getContainerIdentifier ` set cs \<inter> set seen = {} \<Longrightarrow>
   first_by_identifier seen cs = cs"
  by (induction cs arbitrary: seen) (auto simp: insert_commute)

lemma last_of_distinct:
  "distinct (map fst xs) \<Longrightarrow> last_of xs k = Some v \<longleftrightarrow> (k, v) \<in> set xs"
  unfolding last_of_def by (subst map_of_eq_Some_iff) (auto simp: rev_map [symmetric])

lemma pick_names_set:
  assumes "distinct (map getContainerName cs)"
  shows "set (pick_names cs names) = {c \<in> set cs. getContainerName c \<in> set names}"
proof -
  have d: "distinct (map fst (map (\<lambda>c. (getContainerName c, c)) cs))" using assms by (simp add: comp_def)
  have l: "last_of (map (\<lambda>c. (getContainerName c, c)) cs) k = Some v \<longleftrightarrow> v \<in> set cs \<and> getContainerName v = k" for k v
    unfolding last_of_distinct [OF d] by auto
  have "v \<in> set (case last_of (map (\<lambda>c. (getContainerName c, c)) cs) k of None \<Rightarrow> [] | Some c \<Rightarrow> [c])
      \<longleftrightarrow> v \<in> set cs \<and> getContainerName v = k" for k v
    unfolding l [symmetric] by (auto split: option.splits)
  then show ?thesis unfolding pick_names_def by auto
qed

lemma replica_spec_name [simp]: "sp_name (replica_spec environment payload i settings) =
    buildWorkerReplicaContainerName (wd_serviceId payload) (wd_deploymentId payload) i"
  by (simp add: replica_spec_def Let_def)

lemma first_error_names:
  "first_error (map (buildWorkerContainerSpec environment payload img) ns) = Inr cands \<Longrightarrow>
   map cp_containerName cands = map (buildWorkerReplicaContainerName (wd_serviceId payload) (wd_deploymentId payload)) ns \<and>
   (\<forall>c \<in> set cands. sp_name (cp_spec c) = cp_containerName c \<and> \<not> is_volume_task (cp_spec c))"
proof (induction ns arbitrary: cands)
  case (Cons n ns)
  from Cons.prems obtain c cs where c: "buildWorkerContainerSpec environment payload img n = Inr c"
    and cs: "first_error (map (buildWorkerContainerSpec environment payload img) ns) = Inr cs" and "cands = c # cs"
    by (auto split: sum.splits)
  moreover have "cp_containerName c = buildWorkerReplicaContainerName (wd_serviceId payload) (wd_deploymentId payload) n
      \<and> sp_name (cp_spec c) = cp_containerName c \<and> \<not> is_volume_task (cp_spec c)"
    using c replica_not_task
    by (auto simp: buildWorkerContainerSpec_def Let_def split: if_splits sum.splits)
  ultimately show ?case using Cons.IH [OF cs] by simp
qed simp

text \<open>How the prepared rollout relates to the listing \<open>cs\<close> it was made from.\<close>

definition prepared :: "worker_payload \<Rightarrow> inspection list \<Rightarrow> rollout \<Rightarrow> bool" where
  "prepared payload cs ro \<longleftrightarrow> ro_payload ro = payload \<and> ro_candidateNames ro = candidate_names payload \<and>
     (\<forall>c \<in> set (ro_candidates ro). sp_name (cp_spec c) = cp_containerName c \<and> \<not> is_volume_task (cp_spec c)) \<and>
     ro_current ro = filter (\<lambda>c. \<not> is_leftover payload (candidate_names payload) c) cs \<and>
     ro_plan ro = planWorkerRollout (plan_input payload (resolveWorkerShutdownPolicy payload) (candidate_names payload) (ro_current ro))"

lemma prepared_others:
  assumes "prepared payload cs ro" and "distinct (map getContainerName cs)"
  shows "set (ro_previous ro) = (if stop_first (ro_plan ro) then set (live_others payload cs) else {})"
    and "set (ro_retired ro) = (if stop_first (ro_plan ro) then {} else set (live_others payload cs))"
proof -
  let ?inp = "plan_input payload (resolveWorkerShutdownPolicy payload) (candidate_names payload) (ro_current ro)"
  have cur: "set (ro_current ro) = {c \<in> set cs. isLive payload c \<or> getContainerName c \<in> set (candidate_names payload)}"
    using assms(1) by (auto simp: prepared_def is_leftover_def)
  have d: "distinct (map getContainerName (ro_current ro))"
    using assms by (simp add: prepared_def distinct_map_filter)
  have names: "set (map ew_name (plan_others ?inp)) = {getContainerName c | c. c \<in> set (ro_current ro) \<and>
      getContainerName c \<notin> set (candidate_names payload)}"
    by (force simp: plan_others_def plan_input_def)
  have picked: "set (pick_names (ro_current ro) (map ew_name (plan_others ?inp))) = set (live_others payload cs)"
    unfolding pick_names_set [OF d] names using d cur
    by (auto simp: live_others_def distinct_map inj_on_def)
  have plan: "ro_plan ro = planWorkerRollout ?inp" using assms(1) by (simp add: prepared_def)
  show "set (ro_previous ro) = (if stop_first (ro_plan ro) then set (live_others payload cs) else {})"
    by (cases rule: planWorkerRollout_cases [of ?inp]) (simp_all add: ro_previous_def plan picked)
  show "set (ro_retired ro) = (if stop_first (ro_plan ro) then {} else set (live_others payload cs))"
    by (cases rule: planWorkerRollout_cases [of ?inp]) (simp_all add: ro_retired_def plan picked)
qed

text \<open>The plan stops first whenever there is something that must be stopped and something to start.\<close>

lemma prepared_must_stop:
  assumes "prepared payload cs ro" and "distinct (map getContainerName cs)"
  shows "stop_first (ro_plan ro) \<Longrightarrow> set (must_stop payload cs) = getContainerIdentifier ` set (ro_previous ro)"
    and "\<not> stop_first (ro_plan ro) \<Longrightarrow> must_stop payload cs = [] \<or> ro_candidates ro = []"
proof -
  let ?inp = "plan_input payload (resolveWorkerShutdownPolicy payload) (candidate_names payload) (ro_current ro)"
  have "ro_current ro = filter (\<lambda>c. \<not> is_leftover payload (candidate_names payload) c) cs"
    using assms(1) by (simp add: prepared_def)
  then have live: "filter ew_live (plan_others ?inp) = map (\<lambda>c. \<lparr>ew_name = getContainerName c,
      ew_deploymentId = label_of c ''nouva.deployment.id'', ew_live = isLive payload c\<rparr>) (live_others payload cs)"
    by (simp add: plan_others_def plan_input_def filter_map comp_def live_others_def is_leftover_def conj_commute)
      (rule arg_cong [where f = "map _"], rule filter_cong, auto)
  have plan: "ro_plan ro = planWorkerRollout ?inp" using assms(1) by (simp add: prepared_def)
  have sf: "stop_first (planWorkerRollout ?inp) \<longleftrightarrow> candidate_names payload \<noteq> [] \<and> live_others payload cs \<noteq> [] \<and> exclusive payload cs"
    unfolding planWorkerRollout_def Let_def live
    by (auto simp: exclusive_def plan_input_def list_ex_iff)
  show "stop_first (ro_plan ro) \<Longrightarrow> set (must_stop payload cs) = getContainerIdentifier ` set (ro_previous ro)"
    using sf prepared_others(1) [OF assms] plan by (simp add: must_stop_def)
  have "ro_candidates ro = [] \<longleftrightarrow> candidate_names payload = []"
    using assms(1) by (auto simp: prepared_def ro_candidateNames_def dest: sym)
  then show "\<not> stop_first (ro_plan ro) \<Longrightarrow> must_stop payload cs = [] \<or> ro_candidates ro = []"
    using sf plan by (auto simp: must_stop_def)
qed

section \<open>Watching for an overlap\<close>

record guard =
  gd_must :: "string list option"
  gd_stopped :: "string set"
  gd_tasks :: "string set"

definition held :: "guard \<Rightarrow> bool" where
  "held g \<longleftrightarrow> (case gd_must g of None \<Rightarrow> False | Some m \<Rightarrow> set m \<subseteq> gd_stopped g)"

definition restartable :: "guard \<Rightarrow> string \<Rightarrow> bool" where
  "restartable g i \<longleftrightarrow> (case gd_must g of None \<Rightarrow> False | Some m \<Rightarrow> i \<in> set m) \<or> i \<in> gd_tasks g"

fun guard_step :: "worker_payload \<Rightarrow> guard \<Rightarrow> worker_event \<Rightarrow> guard option" where
  "guard_step payload g (Saw i r) = Some (case r of
       Inl e \<Rightarrow> g
     | Inr c \<Rightarrow> g\<lparr>gd_stopped := (if (case c of None \<Rightarrow> False | Some c \<Rightarrow> is_up c) then gd_stopped g - {i}
         else insert i (gd_stopped g))\<rparr>)"
| "guard_step payload g (Listed r) = (case r of
       Inl e \<Rightarrow> Some g
     | Inr cs \<Rightarrow> if gd_must g = None then Some (g\<lparr>gd_must := Some (must_stop payload cs)\<rparr>) else None)"
| "guard_step payload g (Created spec r) =
     (if is_volume_task spec then Some (g\<lparr>gd_tasks := (case r of Inl e \<Rightarrow> gd_tasks g | Inr i \<Rightarrow> insert i (gd_tasks g))\<rparr>)
      else if held g then Some g else None)"
| "guard_step payload g (Did c) = (case c of
       Start i \<Rightarrow> if restartable g i \<or> held g then Some (g\<lparr>gd_stopped := gd_stopped g - {i}\<rparr>) else None
     | _ \<Rightarrow> Some g)"
| "guard_step payload g _ = Some g"

definition no_guard :: guard where
  "no_guard = \<lparr>gd_must = None, gd_stopped = {}, gd_tasks = {}\<rparr>"

section \<open>The two regimes of a rollout\<close>

text \<open>Before the candidates may start, and after they failed, the monitor only knows what must be stopped;
  between, all of it is stopped.\<close>

definition known :: "string list \<Rightarrow> guard \<Rightarrow> bool" where
  "known M g \<longleftrightarrow> gd_must g = Some M"

definition cleared :: "string list \<Rightarrow> guard \<Rightarrow> bool" where
  "cleared M g \<longleftrightarrow> gd_must g = Some M \<and> set M \<subseteq> gd_stopped g"

interpretation unlisted: tolerant "guard_step payload" "\<lambda>g. gd_must g = None" "{}" "{}" for payload
  by unfold_locales (auto split: sum.splits)

interpretation known: task_tolerant "guard_step payload" "known M" "{}" "{}" P "set M" "\<lambda>g i. i \<in> gd_tasks g"
  for payload M P
  by unfold_locales (auto simp: known_def restartable_def split: sum.splits)

interpretation cleared: task_tolerant "guard_step payload" "cleared M" "set M" "{}" "set M" "{}" "\<lambda>g i. i \<notin> set M"
  for payload M
  by unfold_locales (auto simp: cleared_def held_def split: sum.splits)

lemma cleared_known: "cleared M g \<Longrightarrow> known M g"
  by (simp add: cleared_def known_def)

text \<open>Confirming that containers have stopped clears them.\<close>

lemma stopped_seen:
  assumes "known M s"
  shows "obeys (guard_step payload) s (assertContainersStopped (watch d) cs) (\<lambda>r s'. known M s' \<and>
    (r = Inr () \<longrightarrow> getContainerIdentifier ` set cs \<subseteq> gd_stopped s'))"
proof -
  let ?look = "\<lambda>c. io_bind (inspectContainer (wk_docker (watch d)) (getContainerIdentifier c)) (\<lambda>current.
      if (case current of None \<Rightarrow> False | Some i \<Rightarrow> is_up i) then
        io_throw (Error (''Previous worker '' @ getContainerName c @ '' is still running'')) else io_return ())"
  have one: "obeys (guard_step payload) s (?look c) (\<lambda>r s'. known M s' \<and>
      (r = Inr () \<longrightarrow> getContainerIdentifier c \<in> gd_stopped s' \<and> gd_stopped s \<subseteq> gd_stopped s'))"
    if "known M s" for s c
  proof (rule obeys_bind [where P = "\<lambda>r s'. known M s' \<and> (\<forall>x. r = Inr x \<longrightarrow>
        \<not> (case x of None \<Rightarrow> False | Some i \<Rightarrow> is_up i) \<longrightarrow> s' = s\<lparr>gd_stopped := insert (getContainerIdentifier c) (gd_stopped s)\<rparr>)"])
    show "obeys (guard_step payload) s (inspectContainer (wk_docker (watch d)) (getContainerIdentifier c))
        (\<lambda>r s'. known M s' \<and> (\<forall>x. r = Inr x \<longrightarrow> \<not> (case x of None \<Rightarrow> False | Some i \<Rightarrow> is_up i) \<longrightarrow>
          s' = s\<lparr>gd_stopped := insert (getContainerIdentifier c) (gd_stopped s)\<rparr>))"
      using that unfolding watch_simps by (intro obeys_result) (auto simp: known_def split: sum.splits)
  qed (auto intro: obeys_throw obeys_return)
  have "obeys (guard_step payload) s (io_for cs ?look) (\<lambda>r s'. known M s' \<and>
      (r = Inr () \<longrightarrow> A \<union> getContainerIdentifier ` set cs \<subseteq> gd_stopped s'))" if "known M s" "A \<subseteq> gd_stopped s" for A
    using that
  proof (induction cs arbitrary: s A)
    case (Cons c cs)
    show ?case unfolding io_for.simps
    proof (rule obeys_bind [OF one [OF Cons.prems(1)]])
      fix u :: unit and s1
      assume s1: "known M s1 \<and> (Inr u = Inr () \<longrightarrow> getContainerIdentifier c \<in> gd_stopped s1 \<and> gd_stopped s \<subseteq> gd_stopped s1)"
      then have "insert (getContainerIdentifier c) A \<subseteq> gd_stopped s1" using Cons.prems(2) by auto
      from Cons.IH [OF conjunct1 [OF s1] this]
      show "obeys (guard_step payload) s1 (io_for cs ?look) (\<lambda>r s'. known M s' \<and>
          (r = Inr () \<longrightarrow> A \<union> getContainerIdentifier ` set (c # cs) \<subseteq> gd_stopped s'))"
        by (rule obeys_conseq) auto
    qed auto
  qed (auto intro: obeys_return)
  from this [OF assms, of "{}"] show ?thesis unfolding assertContainersStopped_def by simp
qed

section \<open>Stopping first\<close>

lemma own_slots_mono: "own_slots d N P \<Longrightarrow> M \<subseteq> P \<Longrightarrow> own_slots d N M"
  by (fastforce simp: own_slots_def answers_def)

lemma confirm_clears:
  assumes "known M s" and "set M = getContainerIdentifier ` set (ro_previous ro)"
    and "own_slots (dd_docker deps) N (set M)"
  shows "obeys (guard_step payload) s (confirm_stopped (watch_deps deps) ro reports)
    (\<lambda>r s'. known M s' \<and> (\<forall>n. r = Inr n \<longrightarrow> cleared M s'))"
proof (cases "unstopped reports")
  case None
  have rest: "keeps (guard_step payload) (cleared M)
      (if wd_volume (ro_payload ro) = None then io_return None
       else io_bind (check_consumers (watch_deps deps) (ro_payload ro) []) (\<lambda>_.
         io_bind (createWorkerVolumeSnapshot (watch (dd_docker deps)) (dd_environment deps) (ro_payload ro)) (\<lambda>n.
         io_return (Some n))))"
    by (intro obeys_rules cleared.check_consumers_kept cleared.snapshot_tasks_kept [OF assms(3)]) simp
  show ?thesis
    unfolding confirm_stopped_def None option.case watch_deps_simps(1,4)
  proof (rule obeys_bind [OF stopped_seen [OF assms(1)]])
    fix u :: unit and s'
    assume "known M s' \<and> (Inr u = Inr () \<longrightarrow> getContainerIdentifier ` set (ro_previous ro) \<subseteq> gd_stopped s')"
    then have "cleared M s'" by (simp add: cleared_def known_def assms(2))
    with rest have "obeys (guard_step payload) s' (if wd_volume (ro_payload ro) = None then io_return None
       else io_bind (check_consumers (watch_deps deps) (ro_payload ro) []) (\<lambda>_.
         io_bind (createWorkerVolumeSnapshot (watch (dd_docker deps)) (dd_environment deps) (ro_payload ro)) (\<lambda>n.
         io_return (Some n)))) (\<lambda>r. cleared M)" by (rule keepsD)
    then show "obeys (guard_step payload) s' (if wd_volume (ro_payload ro) = None then io_return None
       else io_bind (check_consumers (watch_deps deps) (ro_payload ro) []) (\<lambda>_.
         io_bind (createWorkerVolumeSnapshot (watch (dd_docker deps)) (dd_environment deps) (ro_payload ro)) (\<lambda>n.
         io_return (Some n)))) (\<lambda>r s'. known M s' \<and> (\<forall>n. r = Inr n \<longrightarrow> cleared M s'))"
      by (rule obeys_conseq) (auto intro: cleared_known)
  qed simp
next
  case (Some r)
  with assms(1) show ?thesis by (auto simp: confirm_stopped_def intro: obeys_throw)
qed

lemma stop_first_clears:
  assumes "known M s" and "set M = getContainerIdentifier ` set (ro_previous ro)"
    and "own_slots (dd_docker deps) N (set M)"
  shows "obeys (guard_step payload) s (stop_previous_first (watch_deps deps) ro)
    (\<lambda>r s'. known M s' \<and> (\<forall>st n. r = Inr st \<longrightarrow> sf_result st = Inr n \<longrightarrow> cleared M s'))"
proof -
  have stop: "keeps (guard_step payload) (known M) (stopAllGracefully (watch_deps deps) (ro_policy ro) cs roleOf)" for cs roleOf
    by (rule known.stop_all_kept) simp
  have "keeps (guard_step payload) (known M) (reset_stale (watch_deps deps) ro reports)" for reports
    unfolding reset_stale_def watch_deps_simps(1,2)
    by (intro obeys_rules known.remove_kept known.absent_kept known.check_consumers_kept known.loops_kept) simp_all
  then have reset: "keeps (guard_step payload) (known M) (io_try (reset_stale (watch_deps deps) ro reports))" for reports
    by (rule keeps_try)
  have confirm: "obeys (guard_step payload) s' (io_try (confirm_stopped (watch_deps deps) ro reports))
      (\<lambda>r s'. known M s' \<and> (\<forall>n. r = Inr (Inr n) \<longrightarrow> cleared M s'))" if "known M s'" for s' reports
    by (rule obeys_try [OF confirm_clears [OF that assms(2,3)]]) simp
  have second: "obeys (guard_step payload) s1
      (case r of Inl e \<Rightarrow> io_return \<lparr>sf_shutdowns = staleReports, sf_loops = [], sf_result = Inl e\<rparr>
       | Inr loops \<Rightarrow>
         io_bind (stopAllGracefully (watch_deps deps) (ro_policy ro) (ro_previous ro) (retiredRole ro)) (\<lambda>previousReports.
         io_bind (io_try (confirm_stopped (watch_deps deps) ro previousReports)) (\<lambda>r.
         io_return \<lparr>sf_shutdowns = staleReports @ previousReports, sf_loops = loops, sf_result = r\<rparr>)))
      (\<lambda>r s'. known M s' \<and> (\<forall>st n. r = Inr st \<longrightarrow> sf_result st = Inr n \<longrightarrow> cleared M s'))"
    if "known M s1" for s1 staleReports and r :: "js_error + (string \<times> int) list"
    using that
    by (cases r) (auto intro!: obeys_return obeys_bind [OF keepsD [OF stop]] obeys_bind [OF confirm])
  show ?thesis
    unfolding stop_previous_first_def
    by (intro obeys_bind [OF keepsD [OF stop assms(1)]] obeys_bind [OF keepsD [OF reset]] second) auto
qed

section \<open>The candidates\<close>

lemma ensure_cleared:
  assumes "own_slots d N (set M)" and "sp_name spec \<in> N" and "\<not> is_volume_task spec"
  shows "keeps (guard_step payload) (cleared M) (ensureContainer (watch d) spec)"
proof -
  have start: "keeps (guard_step payload) (cleared M) (startContainer (wk_docker (watch d)) i)" if "i \<notin> set M" for i
    using that by (auto intro!: keeps_call simp: cleared_def held_def)
  have F: "answers (\<lambda>r. \<forall>i. r = Inr i \<longrightarrow> i \<notin> set M) (wk_createContainer d spec)"
    using assms(1) by (simp add: own_slots_def)
  have create: "yields (guard_step payload) (cleared M) (\<lambda>i. i \<notin> set M) (wk_createContainer (watch d) spec)"
    unfolding watch_simps
    by (intro yieldsI obeys_answer [OF F]) (auto simp: assms(3) cleared_def held_def split: sum.splits)
  have slot: "yields (guard_step payload) (cleared M) (\<lambda>r. \<forall>c. r = Some c \<longrightarrow> ci_Id c \<notin> set M \<and> getContainerIdentifier c \<notin> set M)
      (inspectContainer (wk_docker (watch d)) (sp_name spec))"
    by (rule cleared.slot_yields [OF assms(1,2)]) simp
  have found: "keeps (guard_step payload) (cleared M)
      (if state_of cs_Running c = Some True then io_return (ci_Id c)
       else io_bind (startContainer (wk_docker (watch d)) (ci_Id c)) (\<lambda>_. io_return (ci_Id c)))" if "ci_Id c \<notin> set M" for c
    by (intro obeys_rules start that)
  have missing: "keeps (guard_step payload) (cleared M)
      (io_bind (wk_inspectImage (watch d) (sp_image spec)) (\<lambda>img.
       if img = None then io_throw (Error (''Docker image '' @ sp_image spec @ '' is not present locally''))
       else io_bind (wk_createContainer (watch d) spec) (\<lambda>i.
         io_bind (startContainer (wk_docker (watch d)) i) (\<lambda>_. io_return i))))"
    by (rule keeps_bind [OF cleared.reads_kept(6)], rule keeps_if, rule keeps_pure,
        rule keeps_bind_yields [OF create], intro obeys_rules start)
  show ?thesis
    unfolding ensureContainer_def
    by (rule keeps_bind [OF yields_keeps [OF slot]], rule keeps_bind_yields [OF slot], rule keeps_option)
      (use found missing in auto)
qed

lemma candidates_known:
  assumes "own_slots (dd_docker deps) N (set M)"
    and "\<And>c. c \<in> set cands \<Longrightarrow> cp_containerName c \<in> N \<and> sp_name (cp_spec c) = cp_containerName c \<and> \<not> is_volume_task (cp_spec c)"
    and "cleared M s \<or> known M s \<and> cands = []"
  shows "obeys (guard_step payload) s (start_candidates (watch_deps deps) cands adopted ids) (\<lambda>r. known M)"
proof -
  have "keeps (guard_step payload) (cleared M) (start_candidates (watch_deps deps) cands adopted ids)"
    using assms(2)
  proof (induction cands arbitrary: adopted ids)
    case (Cons c cs)
    have slot: "keeps (guard_step payload) (cleared M) (prepareCandidateSlot (watch (dd_docker deps)) (cp_containerName c))"
      using Cons.prems [of c] by (intro cleared.prepare_slot_kept [OF assms(1)]) simp_all
    have ensure: "keeps (guard_step payload) (cleared M) (ensureContainer (watch (dd_docker deps)) (cp_spec c))"
      using Cons.prems [of c] by (intro ensure_cleared [OF assms(1)]) simp_all
    have "keeps (guard_step payload) (cleared M) (start_candidates (watch_deps deps) cs a b)" for a b
      using Cons by simp
    then show ?case
      unfolding start_candidates.simps watch_deps_simps(1) Let_def by (intro obeys_rules slot ensure)
  qed (simp add: obeys_rules)
  then have "obeys (guard_step payload) s (start_candidates (watch_deps deps) cands adopted ids) (\<lambda>r. known M)" if "cleared M s"
    using that by (blast intro: obeys_conseq [OF keepsD] cleared_known)
  then show ?thesis using assms(3) by (auto intro: obeys_return)
qed

lemma run_candidates_obeys:
  assumes "own_slots (dd_docker deps) (set (ro_candidateNames ro)) (set M)"
    and "\<And>c. c \<in> set (ro_candidates ro) \<Longrightarrow> sp_name (cp_spec c) = cp_containerName c \<and> \<not> is_volume_task (cp_spec c)"
    and "cleared M s \<or> known M s \<and> ro_candidates ro = []"
    and "\<And>c. c \<in> set (ro_previous ro) \<Longrightarrow> getContainerIdentifier c \<in> set M"
  shows "obeys (guard_step payload) s (run_candidates (watch_deps deps) ro shutdowns loops snapshotName) (\<lambda>r. known M)"
proof -
  have failed: "keeps (guard_step payload) (known M) (failed_rollout (watch_deps deps) ro shutdowns loops snapshotName adopted e)"
    for adopted e
    by (rule known.failed_rollout_kept [OF assms(1)]) (use assms(4) in auto)
  have await: "keeps (guard_step payload) (known M) (await_candidates (watch_deps deps) ro adopted)" for adopted
    unfolding await_candidates_def watch_deps_simps(1,2) by (intro obeys_rules known.readiness_kept known.say_kept) simp
  have "keeps (guard_step payload) (known M) (commit_rollout (watch_deps deps) ro shutdowns snapshotName ids)" for ids
    by (rule known.commit_kept [OF assms(1)]) simp_all
  with failed await have rest: "keeps (guard_step payload) (known M) (case x of (adopted, r) \<Rightarrow> case r of
      Inl e \<Rightarrow> failed_rollout (watch_deps deps) ro shutdowns loops snapshotName adopted e
    | Inr ids \<Rightarrow> io_bind (io_try (await_candidates (watch_deps deps) ro adopted)) (\<lambda>r. case r of
        Inl e \<Rightarrow> failed_rollout (watch_deps deps) ro shutdowns loops snapshotName adopted e
      | Inr _ \<Rightarrow> commit_rollout (watch_deps deps) ro shutdowns snapshotName ids))" for x
    by (intro obeys_rules)
  show ?thesis
    unfolding run_candidates_def
    by (rule obeys_bind [OF candidates_known [OF assms(1) _ assms(3)]])
      (use assms(2) rest in \<open>auto simp: ro_candidateNames_def dest: keepsD\<close>)
qed

lemma run_rollout_obeys:
  assumes "prepared payload cs ro" and "distinct (map getContainerName cs)" and "known (must_stop payload cs) s"
    and "own_slots (dd_docker deps) (set (candidate_names payload)) (set (must_stop payload cs))"
  shows "obeys (guard_step payload) s (run_rollout (watch_deps deps) ro) (\<lambda>r. known (must_stop payload cs))"
proof -
  let ?M = "must_stop payload cs"
  have N: "ro_candidateNames ro = candidate_names payload"
    and spec: "\<And>c. c \<in> set (ro_candidates ro) \<Longrightarrow> sp_name (cp_spec c) = cp_containerName c \<and> \<not> is_volume_task (cp_spec c)"
    using assms(1) by (auto simp: prepared_def)
  note run = run_candidates_obeys [OF assms(4) [folded N] spec]
  show ?thesis
  proof (cases "stop_first (ro_plan ro)")
    case True
    note M = prepared_must_stop(1) [OF assms(1,2) True]
    have previous: "\<And>c. c \<in> set (ro_previous ro) \<Longrightarrow> getContainerIdentifier c \<in> set ?M" by (simp add: M)
    have abort: "keeps (guard_step payload) (known ?M) (abort_before_cutover (watch_deps deps) ro st e)" for st e
      by (rule known.abort_kept) (use previous in auto)
    show ?thesis
      unfolding run_rollout_def if_P [OF True]
    proof (rule obeys_bind [OF stop_first_clears [OF assms(3) M assms(4)]])
      fix st :: stopped and s' assume st: "known ?M s' \<and> (\<forall>st' n. Inr st = Inr st' \<longrightarrow> sf_result st' = Inr n \<longrightarrow> cleared ?M s')"
      show "obeys (guard_step payload) s' (case sf_result st of Inl e \<Rightarrow> abort_before_cutover (watch_deps deps) ro st e
          | Inr snapshotName \<Rightarrow> run_candidates (watch_deps deps) ro (sf_shutdowns st) (sf_loops st) snapshotName) (\<lambda>r. known ?M)"
        using st previous by (cases "sf_result st") (auto intro!: keepsD [OF abort] run)
    qed simp
  next
    case False
    from prepared_must_stop(2) [OF assms(1,2) False] assms(3)
    have "cleared ?M s \<or> known ?M s \<and> ro_candidates ro = []" by (auto simp: cleared_def known_def)
    moreover have "set (ro_previous ro) = {}" using prepared_others(1) [OF assms(1,2)] False by simp
    ultimately show ?thesis unfolding run_rollout_def if_not_P [OF False] by (intro run) auto
  qed
qed

section \<open>The whole deployment\<close>

lemma candidate_names_eq: "assertReplicaCount (wd_replicaCount payload) = Inr n \<Longrightarrow>
    first_error (map (buildWorkerContainerSpec environment payload img) [0..<n]) = Inr cands \<Longrightarrow>
    map cp_containerName cands = candidate_names payload"
  by (simp add: candidate_names_def first_error_names)

lemma must_stop_own:
  assumes "docker_identifies d payload P"
    and "\<And>c. c \<in> set cs \<Longrightarrow> getContainerName c \<notin> set (candidate_names payload) \<Longrightarrow> getContainerIdentifier c \<in> P"
  shows "own_slots d (set (candidate_names payload)) (set (must_stop payload cs))"
proof (rule own_slots_mono)
  show "own_slots d (set (candidate_names payload)) P" using assms(1) unfolding docker_identifies_def by (rule conjunct1)
  show "set (must_stop payload cs) \<subseteq> P" using assms(2) by (auto simp: must_stop_def live_others_def)
qed

text \<open>A listing of the service's containers fixes what must be stopped.\<close>

lemma listing_fixes:
  assumes "docker_identifies d payload P" and "gd_must s = None"
  shows "obeys (guard_step payload) s (listWorkerServiceContainers (watch d) (wd_serviceId payload))
    (\<lambda>r s'. \<forall>cs. r = Inr cs \<longrightarrow> distinct (map getContainerName cs) \<and> known (must_stop payload cs) s' \<and>
       own_slots d (set (candidate_names payload)) (set (must_stop payload cs)))"
proof -
  let ?ok = "\<lambda>r. \<forall>cs. r = Inr cs \<longrightarrow> distinct (map getContainerName cs) \<and> distinct (map getContainerIdentifier cs) \<and>
          (\<forall>c \<in> set cs. getContainerName c \<notin> set (candidate_names payload) \<longrightarrow> getContainerIdentifier c \<in> P)"
  have F: "answers ?ok (listContainersByLabels (wk_docker d) (service_labels (wd_serviceId payload)))"
    using assms(1) by (simp add: docker_identifies_def)
  have "obeys (guard_step payload) s (log_result Listed (listContainersByLabels (wk_docker d) (service_labels (wd_serviceId payload))))
      (\<lambda>r s'. ?ok r \<and> (\<forall>cs. r = Inr cs \<longrightarrow> known (must_stop payload cs) s'))"
  proof (rule obeys_answer [OF F])
    fix r :: "js_error + inspection list" assume "?ok r"
    then show "\<exists>s'. guard_step payload s (Listed r) = Some s' \<and> ?ok r \<and> (\<forall>cs. r = Inr cs \<longrightarrow> known (must_stop payload cs) s')"
      by (cases r) (simp_all add: assms(2) known_def)
  qed
  then show ?thesis
    unfolding listWorkerServiceContainers_def watch_simps
  proof (rule obeys_bind)
    fix cs s'
    assume cs: "?ok (Inr cs) \<and> (\<forall>cs'. Inr cs = Inr cs' \<longrightarrow> known (must_stop payload cs') s')"
    then have "first_by_identifier [] cs = cs" by (intro first_by_identifier_distinct) auto
    moreover from cs have "own_slots d (set (candidate_names payload)) (set (must_stop payload cs))"
      by (intro must_stop_own [OF assms(1)]) auto
    ultimately show "obeys (guard_step payload) s' (io_return (first_by_identifier [] cs))
      (\<lambda>r s'. \<forall>cs. r = Inr cs \<longrightarrow> distinct (map getContainerName cs) \<and> known (must_stop payload cs) s' \<and>
         own_slots d (set (candidate_names payload)) (set (must_stop payload cs)))"
      using cs by (intro obeys_return) auto
  qed simp
qed

text \<open>A rollout that was prepared, with what the monitor knows of it.\<close>

definition in_hand :: "'w deploy_deps \<Rightarrow> worker_payload \<Rightarrow> js_error + rollout \<Rightarrow> guard \<Rightarrow> bool" where
  "in_hand deps payload r s \<longleftrightarrow> (\<forall>ro. r = Inr ro \<longrightarrow> (\<exists>cs. prepared payload cs ro \<and> distinct (map getContainerName cs) \<and>
     known (must_stop payload cs) s \<and>
     own_slots (dd_docker deps) (set (candidate_names payload)) (set (must_stop payload cs))))"

lemma in_hand_error [simp]: "in_hand deps payload (Inl e) s"
  by (simp add: in_hand_def)

lemma plan_obeys:
  assumes "docker_identifies (dd_docker deps) payload P" and "gd_must s = None"
    and n: "assertReplicaCount (wd_replicaCount payload) = Inr n"
    and cands: "first_error (map (buildWorkerContainerSpec environment payload img) [0..<n]) = Inr candidates"
  shows "obeys (guard_step payload) s (plan_rollout (watch_deps deps) payload img candidates) (in_hand deps payload)"
  unfolding plan_rollout_def watch_deps_simps(1) Let_def candidate_names_eq [OF n cands]
proof (rule obeys_bind [OF listing_fixes [OF assms(1,2)]])
  fix cs s'
  let ?current = "filter (\<lambda>c. \<not> is_leftover payload (candidate_names payload) c) cs"
  let ?ro = "\<lparr>ro_payload = payload, ro_policy = resolveWorkerShutdownPolicy payload, ro_image = img, ro_candidates = candidates,
       ro_current = ?current,
       ro_plan = planWorkerRollout (plan_input payload (resolveWorkerShutdownPolicy payload) (candidate_names payload) ?current)\<rparr>"
  let ?I = "known (must_stop payload cs)"
  assume cs: "\<forall>cs'. Inr cs = Inr cs' \<longrightarrow> distinct (map getContainerName cs') \<and> known (must_stop payload cs') s' \<and>
     own_slots (dd_docker deps) (set (candidate_names payload)) (set (must_stop payload cs'))"
  have "yields (guard_step payload) ?I (\<lambda>ro. ro = ?ro) (io_bind (remove_leftovers (watch_deps deps) xs) (\<lambda>_.
      io_bind (check_consumers (watch_deps deps) payload ns) (\<lambda>_. io_return ?ro)))" for xs ns
    by (rule yields_bind [OF keeps_yields [OF known.remove_leftovers_kept]], simp,
        rule yields_bind [OF keeps_yields [OF known.check_consumers_kept]], rule yields_return) simp
  from yieldsD [OF this] have "obeys (guard_step payload) s' (io_bind (remove_leftovers (watch_deps deps) xs) (\<lambda>_.
      io_bind (check_consumers (watch_deps deps) payload ns) (\<lambda>_. io_return ?ro)))
      (\<lambda>r s'. ?I s' \<and> (case r of Inl e \<Rightarrow> True | Inr ro \<Rightarrow> ro = ?ro))" for xs ns
    using cs by blast
  moreover have "prepared payload cs ?ro"
    using first_error_names [OF cands] candidate_names_eq [OF n cands] by (simp add: prepared_def ro_candidateNames_def)
  then have "in_hand deps payload r s1" if "?I s1 \<and> (case r of Inl e \<Rightarrow> True | Inr ro \<Rightarrow> ro = ?ro)" for r s1
    using cs that unfolding in_hand_def by (cases r) auto
  ultimately show "obeys (guard_step payload) s'
      (io_bind (remove_leftovers (watch_deps deps) (filter (is_leftover payload (candidate_names payload)) cs)) (\<lambda>_.
       io_bind (check_consumers (watch_deps deps) payload (map getContainerName ?current)) (\<lambda>_. io_return ?ro))) (in_hand deps payload)"
    by (rule obeys_conseq)
qed simp

lemma either_seen: "obeys mon s (io_either r) (\<lambda>x s'. s' = s \<and> x = r)"
  by (cases r) (auto simp: io_either_def intro: obeys_return obeys_throw)

lemma prepare_obeys:
  assumes "docker_identifies (dd_docker deps) payload P" and "gd_must s = None"
  shows "obeys (guard_step payload) s (prepare_rollout (watch_deps deps) payload) (in_hand deps payload)"
  unfolding prepare_rollout_def watch_deps_simps(4)
proof (rule obeys_bind [OF either_seen], rule obeys_bind [OF either_seen],
    rule obeys_bind [OF keepsD [OF unlisted.prepare_host_kept]],
    use assms(2) in simp, rule obeys_bind [OF keepsD [OF unlisted.rollout_image_kept]], assumption,
    rule obeys_bind [OF either_seen])
  fix n u img candidates and v :: unit and s1 s2 s3 s4 s5 :: guard
  assume "s1 = s \<and> Inr n = assertReplicaCount (wd_replicaCount payload)" "gd_must s4 = None"
    "s5 = s4 \<and> Inr candidates = first_error (map (buildWorkerContainerSpec (dd_environment deps) payload img) [0..<n])"
  then show "obeys (guard_step payload) s5 (plan_rollout (watch_deps deps) payload img candidates) (in_hand deps payload)"
    using plan_obeys [OF assms(1)] by metis
qed simp_all

lemma deploy_obeys:
  assumes "docker_identifies (dd_docker deps) payload P"
  shows "obeys (guard_step payload) no_guard (deployWorkerRuntime (watch_deps deps) payload) (\<lambda>r s. True)"
  unfolding deployWorkerRuntime_def
proof (rule obeys_bind [OF prepare_obeys [OF assms]])
  fix ro s
  assume "in_hand deps payload (Inr ro) s"
  then obtain cs where cs: "prepared payload cs ro" "distinct (map getContainerName cs)" "known (must_stop payload cs) s"
    "own_slots (dd_docker deps) (set (candidate_names payload)) (set (must_stop payload cs))"
    by (auto simp: in_hand_def)
  have "obeys (guard_step payload) s' (run_rollout (watch_deps deps) ro) (\<lambda>r s. True)" if "known (must_stop payload cs) s'" for s'
    using run_rollout_obeys [OF cs(1,2) that cs(4)] by (rule obeys_conseq) simp
  then show "obeys (guard_step payload) s (io_bind (say (watch_deps deps) (plan_line ro)) (\<lambda>_. run_rollout (watch_deps deps) ro)) (\<lambda>r s. True)"
    by (intro obeys_bind [OF keepsD [OF known.say_kept cs(3)]]) auto
qed (auto simp: no_guard_def)

section \<open>What the log of a deployment says\<close>

text \<open>The last word of a log about a container: seen not running, or gone, and not started since.\<close>

fun stopped_word :: "string \<Rightarrow> bool \<Rightarrow> worker_event \<Rightarrow> bool" where
  "stopped_word i b (Saw j r) = (if j = i then (case r of Inl e \<Rightarrow> b | Inr None \<Rightarrow> True | Inr (Some c) \<Rightarrow> \<not> is_up c) else b)"
| "stopped_word i b (Did c) = (case c of Start j \<Rightarrow> b \<and> j \<noteq> i | _ \<Rightarrow> b)"
| "stopped_word i b _ = b"

definition seen_stopped :: "string \<Rightarrow> worker_event list \<Rightarrow> bool" where
  "seen_stopped i k = foldl (stopped_word i) False k"

fun listing :: "worker_event \<Rightarrow> inspection list list" where
  "listing (Listed (Inr cs)) = [cs]"
| "listing _ = []"

fun task_id :: "worker_event \<Rightarrow> string list" where
  "task_id (Created spec (Inr i)) = (if is_volume_task spec then [i] else [])"
| "task_id _ = []"

definition listings :: "worker_event list \<Rightarrow> inspection list list" where
  "listings k = concat (map listing k)"

definition task_ids :: "worker_event list \<Rightarrow> string list" where
  "task_ids k = concat (map task_id k)"

text \<open>An event that brings up the new version: a container is created that is no volume task, or one is
  started that is neither a volume task nor a container that had to be stopped.\<close>

fun launches :: "worker_payload \<Rightarrow> worker_event list \<Rightarrow> worker_event \<Rightarrow> bool" where
  "launches payload pre (Created spec r) = (\<not> is_volume_task spec)"
| "launches payload pre (Did c) = (case c of
     Start i \<Rightarrow> i \<notin> set (task_ids pre) \<and> i \<notin> set (concat (map (must_stop payload) (listings pre))) | _ \<Rightarrow> False)"
| "launches payload pre _ = False"

definition guard_matches :: "worker_payload \<Rightarrow> worker_event list \<Rightarrow> guard \<Rightarrow> bool" where
  "guard_matches payload k g \<longleftrightarrow>
     (case gd_must g of None \<Rightarrow> listings k = [] | Some m \<Rightarrow> \<exists>cs. listings k = [cs] \<and> m = must_stop payload cs) \<and>
     gd_stopped g = {i. seen_stopped i k} \<and> gd_tasks g = set (task_ids k)"

lemma guard_matches_step:
  assumes "guard_matches payload k g" and "guard_step payload g ev = Some g'"
  shows "guard_matches payload (k @ [ev]) g'"
  using assms
  by (cases "(payload, g, ev)" rule: guard_step.cases)
    (auto simp: guard_matches_def listings_def task_ids_def seen_stopped_def split: option.splits sum.splits if_splits docker_call.splits)

lemma guard_matches_log:
  "run_monitor (guard_step payload) no_guard k = Some g \<Longrightarrow> guard_matches payload k g"
proof (induction k arbitrary: g rule: rev_induct)
  case Nil
  then show ?case by (auto simp: guard_matches_def no_guard_def listings_def task_ids_def seen_stopped_def)
next
  case (snoc ev k)
  then obtain g1 where "run_monitor (guard_step payload) no_guard k = Some g1" "guard_step payload g1 ev = Some g"
    by (auto simp: run_monitor_append split: Option.bind_splits option.splits)
  with snoc.IH show ?case by (blast intro: guard_matches_step)
qed

lemma guarded_launch:
  assumes "guard_step payload g ev = Some g'" and "guard_matches payload k g" and "launches payload k ev"
  shows "held g"
  using assms
  by (cases "(payload, k, ev)" rule: launches.cases)
    (auto simp: guard_matches_def restartable_def split: if_splits option.splits docker_call.splits)

section \<open>A host with one worker\<close>

definition old_worker :: "int \<Rightarrow> inspection" where
  "old_worker t = (bare_inspection ''old'')\<lparr>ci_State := Some (no_state\<lparr>cs_Running := Some (t < 700), cs_ExitCode := Some 0\<rparr>)\<rparr>"

definition refused :: "string \<Rightarrow> ('w, 'a) io" where
  "refused what = io_throw (Error (what @ '' is refused''))"

definition one_worker_host :: "int worker_docker" where
  "one_worker_host = \<lparr>
     wk_docker = (running_until 700)\<lparr>
       inspectContainer := (\<lambda>i t. Some (Inr (if i = ''old'' then Some (old_worker t) else None), t)),
       listContainersByLabels := (\<lambda>_ t. Some (Inr [old_worker t], t)),
       startContainer := refused\<rparr>,
     wk_createContainer = (\<lambda>s. refused (sp_name s)),
     wk_stopContainer = (\<lambda>i. io_return ()),
     wk_restartContainer = (\<lambda>i. io_return ()),
     wk_ensureNetwork = (\<lambda>n ls. io_return ()),
     wk_inspectImage = (\<lambda>i. io_return (Some \<lparr>ii_Id = i, ii_Entrypoint = None, ii_Cmd = Some [''run''], ii_HealthcheckTest = None\<rparr>)),
     wk_pullImage = (\<lambda>i. io_return ()),
     wk_removeImage = (\<lambda>i b. io_return ()),
     wk_listContainersUsingVolume = (\<lambda>v. io_return [])\<rparr>"

definition one_worker_deps :: "int deploy_deps" where
  "one_worker_deps = \<lparr>dd_docker = one_worker_host, dd_clock = int_clock, dd_pick = (\<lambda>w n. 0), dd_onProgress = (\<lambda>line t. t),
     dd_environment = \<lparr>we_serverId = ''s'', we_imageStoreMode = ''registry'', we_dataDir = ''/d'', we_dataVolume = ''dv'',
       we_hashProjectNetwork = (\<lambda>p. p)\<rparr>\<rparr>"

definition no_overlap_payload :: worker_payload where
  "no_overlap_payload = \<lparr>wd_imageUrl = ''img'', wd_commitHash = ''abc'', wd_projectId = ''p'', wd_environmentId = None,
     wd_serviceId = ''svc'', wd_deploymentId = ''d2'', wd_redactionContextVersion = None, wd_envVars = [],
     wd_startCommand = None, wd_healthCheckCommand = None, wd_replicaCount = Fin 1,
     wd_shutdownPolicy = policy_value \<lparr>wp_signal = None, wp_gracePeriodSeconds = 1, wp_rolloutPolicy = NoOverlap\<rparr>,
     wd_volume = None, wd_resourceLimits = JObj [(''cpuMillicores'', jint 1), (''memoryBytes'', jint 1), (''pidsLimit'', jint 1)], wd_runtimeMetadata = None\<rparr>"

text \<open>The first event of a log that brings up the new version, with what came before it.\<close>

fun first_launch :: "worker_payload \<Rightarrow> worker_event list \<Rightarrow> worker_event list \<Rightarrow> (worker_event list \<times> worker_event \<times> worker_event list) option" where
  "first_launch payload pre [] = None"
| "first_launch payload pre (ev # k) = (if launches payload pre ev then Some (pre, ev, k) else first_launch payload (pre @ [ev]) k)"

lemma first_launch_Some: "first_launch payload pre k = Some (pre', ev, post) \<Longrightarrow> pre @ k = pre' @ ev # post \<and> launches payload pre' ev"
  by (induction payload pre k rule: first_launch.induct) (auto split: if_splits)

definition launch_seen :: bool where
  "launch_seen = (case deployWorkerRuntime (watch_deps one_worker_deps) no_overlap_payload (0, []) of
     None \<Rightarrow> False
   | Some (r, (w, k)) \<Rightarrow> (case first_launch no_overlap_payload [] k of None \<Rightarrow> False
       | Some (pre, ev, post) \<Rightarrow> map (must_stop no_overlap_payload) (listings pre) = [[''old'']]))"

lemma launch_seen_ok: "launch_seen" by code_simp

lemma one_worker_identifies: "docker_identifies one_worker_host no_overlap_payload {''old''}"
proof -
  have "''old'' \<notin> set (candidate_names no_overlap_payload)" by code_simp
  then show ?thesis
    by (auto simp: docker_identifies_def own_slots_def answers_def one_worker_host_def refused_def old_worker_def
        io_throw_def bare_inspection_def getContainerIdentifier_def getContainerName_def)
qed

text \<open>C9 Two versions never run side by side where they must not. Whatever a deployment does, the first time
  and every time it creates or starts a container of the new version, it has listed the service's containers
  exactly once, and each container of the listing that must be stopped (a live container outside the candidate
  slots, where the worker has a volume, or has the no-overlap policy and another deployment is live) was last
  seen stopped or gone and has not been started since. The only starts outside the claim are those of the
  volume tasks and of the previous containers themselves, when they are given back after a failure.\<close>

theorem exclusive_deploy_never_overlaps:
  assumes "docker_identifies (dd_docker deps) payload P"
    and "deployWorkerRuntime (watch_deps deps) payload (w, []) = Some (r, (w', pre @ ev # post))"
    and "launches payload pre ev"
  shows "\<exists>cs. listings pre = [cs] \<and> (\<forall>i \<in> set (must_stop payload cs). seen_stopped i pre)"
proof -
  from deploy_obeys [OF assms(1)] assms(2) obtain s
    where "run_monitor (guard_step payload) no_guard (pre @ ev # post) = Some s" by (auto elim: obeysD)
  then obtain g g' where g: "run_monitor (guard_step payload) no_guard pre = Some g" "guard_step payload g ev = Some g'"
    by (auto simp: run_monitor_append split: Option.bind_splits option.splits)
  note m = guard_matches_log [OF g(1)]
  from guarded_launch [OF g(2) m assms(3)] m show ?thesis
    by (auto simp: held_def guard_matches_def split: option.splits)
qed


lemma exclusive_deploy_never_overlaps_witness:
  "\<exists>r w' pre ev post. deployWorkerRuntime (watch_deps one_worker_deps) no_overlap_payload (0, []) = Some (r, (w', pre @ ev # post))
     \<and> launches no_overlap_payload pre ev \<and> map (must_stop no_overlap_payload) (listings pre) = [[''old'']] \<and> seen_stopped ''old'' pre"
proof -
  from launch_seen_ok obtain r w k pre ev post where
    run: "deployWorkerRuntime (watch_deps one_worker_deps) no_overlap_payload (0, []) = Some (r, (w, k))" and
    "first_launch no_overlap_payload [] k = Some (pre, ev, post)" and
    must: "map (must_stop no_overlap_payload) (listings pre) = [[''old'']]"
    by (auto simp: launch_seen_def split: option.splits)
  then have k: "k = pre @ ev # post" and ev: "launches no_overlap_payload pre ev" by (auto dest: first_launch_Some)
  have d: "dd_docker one_worker_deps = one_worker_host" by (simp add: one_worker_deps_def)
  from exclusive_deploy_never_overlaps [OF one_worker_identifies [folded d] run [unfolded k] ev] must
  have "seen_stopped ''old'' pre" by auto
  with run [unfolded k] ev must show ?thesis by (intro exI conjI)
qed

end
