(* ===== verification/Worker_Jobs.thy ===== *)
theory Worker_Jobs
  imports Worker_Restore JS_Date Files
begin

text \<open>
  Scheduled worker jobs (\<open>agent/src/worker-runtime.ts\<close>): a command that is run once per scheduled run, in a
  container of its own. A receipt in the agent's data volume records how far a run has come; it is what
  keeps a retry from running the command again. The four operations start, inspect, stop and clean up.
\<close>

section \<open>Receipts\<close>

text \<open>The fields a read receipt is not checked for may hold any value.\<close>

record job_receipt =
  wj_projectId :: string
  wj_serviceId :: string
  wj_deploymentId :: string
  wj_scheduleRunId :: string
  wj_scheduleId :: string
  wj_occurrenceKey :: string
  wj_jobName :: string
  wj_imageUrl :: string
  wj_containerId :: string
  wj_containerName :: string
  wj_status :: string
  wj_exitCode :: json
  wj_createdAt :: json
  wj_completedAt :: json

definition receipt_members :: "job_receipt \<Rightarrow> (string \<times> json) list" where
  "receipt_members r =
     [(''version'', jint 1), (''projectId'', JStr (wj_projectId r)), (''serviceId'', JStr (wj_serviceId r)),
      (''deploymentId'', JStr (wj_deploymentId r)), (''scheduleRunId'', JStr (wj_scheduleRunId r)),
      (''scheduleId'', JStr (wj_scheduleId r)), (''occurrenceKey'', JStr (wj_occurrenceKey r)),
      (''jobName'', JStr (wj_jobName r)), (''imageUrl'', JStr (wj_imageUrl r)),
      (''containerId'', JStr (wj_containerId r)), (''containerName'', JStr (wj_containerName r)),
      (''status'', JStr (wj_status r)), (''exitCode'', wj_exitCode r), (''createdAt'', wj_createdAt r),
      (''completedAt'', wj_completedAt r)]"

text \<open>\<open>path.join\<close> of a normalised data directory.\<close>

definition getWorkerJobReceiptPath :: "string \<Rightarrow> string \<Rightarrow> string" where
  "getWorkerJobReceiptPath dataDir scheduleRunId =
     dataDir @ ''/worker-job-receipts/'' @ base64url (utf8_bytes scheduleRunId) @ ''.json''"

definition invalid_receipt :: "string \<Rightarrow> js_error" where
  "invalid_receipt scheduleRunId = Error (''Worker job receipt for '' @ scheduleRunId @ '' is invalid'')"

fun text_of :: "json \<Rightarrow> string" where
  "text_of (JStr s) = s"
| "text_of _ = []"

definition checked_receipt :: "string \<Rightarrow> (string \<times> json) list \<Rightarrow> js_error + job_receipt" where
  "checked_receipt scheduleRunId r =
     (let str = (\<lambda>k. text_of (jprop r k))
      in if jprop r ''version'' \<noteq> jint 1 \<or> jprop r ''scheduleRunId'' \<noteq> JStr scheduleRunId
           \<or> list_ex (\<lambda>k. json_str (jprop r k) = None)
               [''projectId'', ''serviceId'', ''deploymentId'', ''scheduleId'', ''occurrenceKey'', ''jobName'', ''imageUrl'',
                ''containerId'', ''containerName'', ''status'']
         then Inl (invalid_receipt scheduleRunId)
         else Inr \<lparr>wj_projectId = str ''projectId'', wj_serviceId = str ''serviceId'', wj_deploymentId = str ''deploymentId'',
            wj_scheduleRunId = scheduleRunId, wj_scheduleId = str ''scheduleId'', wj_occurrenceKey = str ''occurrenceKey'',
            wj_jobName = str ''jobName'', wj_imageUrl = str ''imageUrl'', wj_containerId = str ''containerId'',
            wj_containerName = str ''containerName'', wj_status = str ''status'', wj_exitCode = jprop r ''exitCode'',
            wj_createdAt = jprop r ''createdAt'', wj_completedAt = jprop r ''completedAt''\<rparr>)"

text \<open>What was parsed: a property of \<open>null\<close> throws, one of anything else that is no object is \<open>undefined\<close>.\<close>

fun parsed_receipt :: "string \<Rightarrow> json \<Rightarrow> js_error + job_receipt" where
  "parsed_receipt scheduleRunId (JObj r) = checked_receipt scheduleRunId r"
| "parsed_receipt scheduleRunId JNull = Inl (Error ''Cannot read properties of null (reading 'version')'')"
| "parsed_receipt scheduleRunId _ = Inl (invalid_receipt scheduleRunId)"

record 'w job_deps =
  jd_docker :: "'w worker_docker"
  jd_environment :: worker_environment
  jd_files :: "'w files"
  jd_clock :: "'w clock"
  jd_pid :: string

definition receipt_path :: "'w job_deps \<Rightarrow> string \<Rightarrow> string" where
  "receipt_path deps scheduleRunId = getWorkerJobReceiptPath (we_dataDir (jd_environment deps)) scheduleRunId"

text \<open>The \<open>try\<close> block spans the reading, the parsing and the checks; only the first can answer \<open>ENOENT\<close>.\<close>

definition readWorkerJobReceipt :: "'w job_deps \<Rightarrow> string \<Rightarrow> ('w, job_receipt option) io" where
  "readWorkerJobReceipt deps scheduleRunId =
     io_catch
       (io_bind (fs_readFile (jd_files deps) (receipt_path deps scheduleRunId)) (\<lambda>raw.
        case json_parse raw of
          Inl e \<Rightarrow> io_throw e
        | Inr v \<Rightarrow> (case parsed_receipt scheduleRunId v of
            Inl e \<Rightarrow> io_throw e
          | Inr r \<Rightarrow> io_return (Some r))))
       (\<lambda>e. if is_ENOENT e then io_return None else io_throw e)"

text \<open>The temporary file has the agent's process id in its name.\<close>

definition receipts_dir :: "'w job_deps \<Rightarrow> string" where
  "receipts_dir deps = we_dataDir (jd_environment deps) @ ''/worker-job-receipts''"

definition writeWorkerJobReceipt :: "'w job_deps \<Rightarrow> job_receipt \<Rightarrow> ('w, unit) io" where
  "writeWorkerJobReceipt deps r =
     (let receiptPath = receipt_path deps (wj_scheduleRunId r);
          temporaryPath = receiptPath @ ''.'' @ jd_pid deps @ ''.tmp''
      in io_bind (fs_mkdir (jd_files deps) (receipts_dir deps)) (\<lambda>_.
         io_bind (fs_writeFile (jd_files deps) temporaryPath (stringified (receipt_members r))) (\<lambda>_.
         fs_rename (jd_files deps) temporaryPath receiptPath)))"

definition isWorkerJobTerminal :: "job_receipt \<Rightarrow> bool" where
  "isWorkerJobTerminal r \<longleftrightarrow> wj_status r \<in> set [''succeeded'', ''failed'', ''cancelled'', ''missing'']"

section \<open>Recovering a receipt from its container\<close>

definition readWorkerJobReceiptTimestamp :: "string option \<Rightarrow> string option" where
  "readWorkerJobReceiptTimestamp v =
     (case v of None \<Rightarrow> None
      | Some s \<Rightarrow> if s = [] \<or> starts_with ''0001-'' s then None else map_option to_iso_string (date_parse s))"

definition readRequiredWorkerJobLabel :: "(string \<times> string) list \<Rightarrow> string \<Rightarrow> string option" where
  "readRequiredWorkerJobLabel labels key =
     (case map_of labels key of None \<Rightarrow> None | Some v \<Rightarrow> if trim v = [] then None else Some (trim v))"

definition required_text :: "string option \<Rightarrow> string option" where
  "required_text v = (case v of None \<Rightarrow> None | Some s \<Rightarrow> if trim s = [] then None else Some (trim s))"

text \<open>\<open>new Date().toISOString()\<close>, unless there is a timestamp.\<close>

definition or_now :: "'w clock \<Rightarrow> string option \<Rightarrow> ('w, string) io" where
  "or_now clk v = (case v of Some s \<Rightarrow> io_return s | None \<Rightarrow> io_bind (io_now clk) (\<lambda>t. io_return (to_iso_string t)))"

text \<open>\<open>expected\<close>: labels with the values they must have, an empty or missing value being no expectation.\<close>

definition mismatched :: "(string \<times> string) list \<Rightarrow> (string \<times> string) list \<Rightarrow> bool" where
  "mismatched labels expected \<longleftrightarrow> list_ex (\<lambda>(k, v). v \<noteq> [] \<and> map_of labels k \<noteq> Some v) expected"

definition is_job_container :: "inspection \<Rightarrow> (string \<times> string) list \<Rightarrow> string \<Rightarrow> string \<Rightarrow> bool" where
  "is_job_container container labels serviceId scheduleRunId \<longleftrightarrow>
     map_of labels ''nouva.managed'' = Some ''true'' \<and> map_of labels ''nouva.kind'' = Some ''worker_job'' \<and>
     map_of labels ''nouva.service.type'' = Some ''worker'' \<and> map_of labels ''nouva.service.id'' = Some serviceId \<and>
     map_of labels ''nouva.schedule.run.id'' = Some scheduleRunId \<and>
     getContainerName container = buildWorkerJobContainerName serviceId scheduleRunId"

text \<open>What the container's state says of the run.\<close>

definition recovered_state :: "'w clock \<Rightarrow> inspection \<Rightarrow> job_receipt \<Rightarrow> ('w, job_receipt) io" where
  "recovered_state clk container r =
     (if state_of cs_Running container = Some True then io_return (r\<lparr>wj_status := ''running''\<rparr>)
      else if map_option to_lower (state_of cs_Status container) = Some ''created'' then io_return r
      else
        let exitCode = (case state_of cs_ExitCode container of None \<Rightarrow> 1 | Some c \<Rightarrow> c)
        in io_bind (or_now clk (readWorkerJobReceiptTimestamp (state_of cs_FinishedAt container))) (\<lambda>completedAt.
           io_return (r\<lparr>wj_status := if exitCode = 0 then ''succeeded'' else ''failed'', wj_exitCode := jint exitCode,
             wj_completedAt := JStr completedAt\<rparr>)))"

definition recoverWorkerJobReceiptFromContainer ::
    "'w clock \<Rightarrow> inspection \<Rightarrow> string \<Rightarrow> string \<Rightarrow> (string \<times> string) list \<Rightarrow> ('w, job_receipt option) io" where
  "recoverWorkerJobReceiptFromContainer clk container serviceId scheduleRunId expected =
     (let labels = (case ci_Labels container of None \<Rightarrow> [] | Some ls \<Rightarrow> ls)
      in if \<not> is_job_container container labels serviceId scheduleRunId \<or> mismatched labels expected then io_return None
         else case (readRequiredWorkerJobLabel labels ''nouva.project.id'', readRequiredWorkerJobLabel labels ''nouva.deployment.id'',
             readRequiredWorkerJobLabel labels ''nouva.schedule.id'', readRequiredWorkerJobLabel labels ''nouva.schedule.occurrence.key'',
             required_text (ci_Image container), required_text (Some (ci_Id container))) of
           (Some projectId, Some deploymentId, Some scheduleId, Some occurrenceKey, Some imageUrl, Some containerId) \<Rightarrow>
             io_bind (or_now clk (readWorkerJobReceiptTimestamp (state_of cs_StartedAt container))) (\<lambda>createdAt.
             io_bind (recovered_state clk container \<lparr>wj_projectId = projectId, wj_serviceId = serviceId,
               wj_deploymentId = deploymentId, wj_scheduleRunId = scheduleRunId, wj_scheduleId = scheduleId,
               wj_occurrenceKey = occurrenceKey, wj_jobName = getContainerName container, wj_imageUrl = imageUrl,
               wj_containerId = containerId, wj_containerName = getContainerName container, wj_status = ''created'',
               wj_exitCode = JNull, wj_createdAt = JStr createdAt, wj_completedAt = JNull\<rparr>) (\<lambda>r. io_return (Some r)))
         | _ \<Rightarrow> io_return None)"

definition recoverMissingWorkerJobReceipt ::
    "'w job_deps \<Rightarrow> string \<Rightarrow> string \<Rightarrow> (string \<times> string) list \<Rightarrow> ('w, job_receipt option) io" where
  "recoverMissingWorkerJobReceipt deps serviceId scheduleRunId expected =
     (let containerName = buildWorkerJobContainerName serviceId scheduleRunId
      in io_bind (inspectContainer (wk_docker (jd_docker deps)) containerName) (\<lambda>container. case container of
           None \<Rightarrow> io_return None
         | Some c \<Rightarrow> io_bind (recoverWorkerJobReceiptFromContainer (jd_clock deps) c serviceId scheduleRunId expected) (\<lambda>r. case r of
             None \<Rightarrow> io_throw (Error (''Worker job container '' @ containerName
               @ '' exists but does not match the scheduled run receipt''))
           | Some r \<Rightarrow> io_bind (writeWorkerJobReceipt deps r) (\<lambda>_. io_return (Some r)))))"

section \<open>Answers\<close>

definition buildWorkerJobRuntimeInstance :: "worker_environment \<Rightarrow> job_receipt \<Rightarrow> string \<Rightarrow> json" where
  "buildWorkerJobRuntimeInstance environment r status = JObj
     [(''kind'', JStr ''worker_job''), (''status'', JStr status), (''projectId'', JStr (wj_projectId r)),
      (''serviceId'', JStr (wj_serviceId r)), (''deploymentId'', JStr (wj_deploymentId r)),
      (''scheduleId'', JStr (wj_scheduleId r)), (''scheduleRunId'', JStr (wj_scheduleRunId r)),
      (''workerScheduleRunId'', JStr (wj_scheduleRunId r)), (''occurrenceKey'', JStr (wj_occurrenceKey r)),
      (''replicaIndex'', JNull), (''name'', JStr (wj_containerName r)), (''image'', JStr (wj_imageUrl r)),
      (''containerId'', JStr (wj_containerId r)), (''containerName'', JStr (wj_containerName r)),
      (''networkName'', JStr (getWorkerProjectNetwork environment (wj_projectId r))),
      (''exitCode'', wj_exitCode r), (''startedAt'', wj_createdAt r), (''completedAt'', wj_completedAt r)]"

text \<open>\<open>containerReceipt\<close> is the receipt as it is written.\<close>

record job_answer =
  an_job :: json
  an_runtimeInstances :: "json list option"
  an_receipt :: job_receipt
  an_timeoutSeconds :: "jsnum option"

definition job_answer_of :: "worker_environment \<Rightarrow> job_receipt \<Rightarrow> job_answer" where
  "job_answer_of environment r = \<lparr>an_job = buildWorkerJobRuntimeInstance environment r (wj_status r),
     an_runtimeInstances = None, an_receipt = r, an_timeoutSeconds = None\<rparr>"

text \<open>A running container is answered as running, whatever its receipt still says.\<close>

definition running_answer :: "worker_environment \<Rightarrow> job_receipt \<Rightarrow> job_answer" where
  "running_answer environment r = (job_answer_of environment (r\<lparr>wj_status := ''running''\<rparr>))\<lparr>an_receipt := r\<rparr>"

definition with_instances :: "job_answer \<Rightarrow> job_answer" where
  "with_instances a = a\<lparr>an_runtimeInstances := Some [an_job a]\<rparr>"

text \<open>\<open>receipt.completedAt ?? new Date().toISOString()\<close>.\<close>

definition completed_at :: "'w clock \<Rightarrow> job_receipt \<Rightarrow> ('w, json) io" where
  "completed_at clk r =
     (if wj_completedAt r = JNull \<or> wj_completedAt r = JUndefined then
        io_bind (io_now clk) (\<lambda>t. io_return (JStr (to_iso_string t)))
      else io_return (wj_completedAt r))"

definition toTerminalWorkerJobReceipt :: "'w clock \<Rightarrow> job_receipt \<Rightarrow> inspection option \<Rightarrow> ('w, job_receipt) io" where
  "toTerminalWorkerJobReceipt clk r inspected =
     io_bind (completed_at clk r) (\<lambda>completedAt. io_return (case inspected of
       None \<Rightarrow> r\<lparr>wj_status := ''missing'', wj_completedAt := completedAt\<rparr>
     | Some c \<Rightarrow>
         let exitCode = (case state_of cs_ExitCode c of None \<Rightarrow> 1 | Some n \<Rightarrow> n)
         in r\<lparr>wj_status := if exitCode = 0 then ''succeeded'' else ''failed'', wj_exitCode := jint exitCode,
              wj_completedAt := completedAt\<rparr>))"

section \<open>Starting\<close>

record job_payload =
  jp_projectId :: string
  jp_environmentId :: "string option"
  jp_serviceId :: string
  jp_deploymentId :: string
  jp_redactionContextVersion :: "string option"
  jp_scheduleId :: string
  jp_scheduleRunId :: string
  jp_occurrenceKey :: string
  jp_jobName :: string
  jp_imageUrl :: string
  jp_envVars :: "(string \<times> string) list"
  jp_command :: string
  jp_timeoutSeconds :: jsnum
  jp_volume :: "volume_identity option"
  jp_resourceLimits :: json

definition assertWorkerJobVolumeAvailable :: "'w worker_docker \<Rightarrow> volume_identity option \<Rightarrow> ('w, unit) io" where
  "assertWorkerJobVolumeAvailable docker volume = (case volume of
       None \<Rightarrow> io_return ()
     | Some v \<Rightarrow> io_bind (wk_listContainersUsingVolume docker (vi_volumeName v)) (\<lambda>consumers.
         if list_ex (\<lambda>c. state_of cs_Running c = Some True) consumers then
           io_throw (Error (''Volume '' @ vi_volumeName v @ '' already has a running consumer''))
         else io_return ()))"

definition write_and_answer :: "'w job_deps \<Rightarrow> job_receipt \<Rightarrow> ('w, job_answer) io" where
  "write_and_answer deps r =
     io_bind (writeWorkerJobReceipt deps r) (\<lambda>_. io_return (job_answer_of (jd_environment deps) r))"

definition expected_labels :: "job_payload \<Rightarrow> (string \<times> string) list" where
  "expected_labels p = [(''nouva.project.id'', jp_projectId p), (''nouva.deployment.id'', jp_deploymentId p),
     (''nouva.schedule.id'', jp_scheduleId p), (''nouva.schedule.occurrence.key'', jp_occurrenceKey p)]"

text \<open>A run that has a receipt: its command is not run again, unless its container was never started.\<close>

definition resume_job :: "'w job_deps \<Rightarrow> job_receipt \<Rightarrow> ('w, job_answer) io" where
  "resume_job deps r =
     (if isWorkerJobTerminal r then io_return (with_instances (job_answer_of (jd_environment deps) r))
      else io_bind (inspectContainer (wk_docker (jd_docker deps)) (wj_containerId r)) (\<lambda>existing.
        if Option.bind existing (state_of cs_Running) = Some True then
          io_return (running_answer (jd_environment deps) r)
        else if wj_status r = ''created'' \<and> Option.bind existing (state_of cs_Status) = Some ''created'' then
          io_bind (startContainer (wk_docker (jd_docker deps)) (wj_containerId r)) (\<lambda>_.
            write_and_answer deps (r\<lparr>wj_status := ''running''\<rparr>))
        else io_bind (toTerminalWorkerJobReceipt (jd_clock deps) r existing) (write_and_answer deps)))"

definition job_container :: "worker_environment \<Rightarrow> job_payload \<Rightarrow> string \<Rightarrow> resource_settings \<Rightarrow> worker_spec" where
  "job_container environment p command settings =
     \<lparr>sp_name = buildWorkerJobContainerName (jp_serviceId p) (jp_scheduleRunId p), sp_image = jp_imageUrl p,
      sp_env = map (\<lambda>(k, v). k @ ''='' @ v) (jp_envVars p), sp_entrypoint = [''/bin/sh'', ''-lc''], sp_cmd = [command],
      sp_labels = buildWorkerLabels \<lparr>li_serverId = we_serverId environment, li_kind = ''worker_job'',
        li_projectId = jp_projectId p, li_environmentId = jp_environmentId p, li_serviceId = jp_serviceId p,
        li_deploymentId = Some (jp_deploymentId p), li_replicaIndex = None, li_scheduleId = Some (jp_scheduleId p),
        li_scheduleRunId = Some (jp_scheduleRunId p), li_occurrenceKey = Some (jp_occurrenceKey p),
        li_redactionContextVersion = jp_redactionContextVersion p\<rparr>,
      sp_hostConfig = volume_mounts (jp_volume p) @
        (''RestartPolicy'', JObj [(''Name'', JStr ''no'')]) # resource_members settings,
      sp_networks = [getWorkerProjectNetwork environment (jp_projectId p)],
      sp_tty = False, sp_healthcheck = None, sp_stopSignal = None, sp_stopTimeoutSeconds = None\<rparr>"

definition fresh_receipt :: "job_payload \<Rightarrow> string \<Rightarrow> int \<Rightarrow> job_receipt" where
  "fresh_receipt p containerId t =
     \<lparr>wj_projectId = jp_projectId p, wj_serviceId = jp_serviceId p, wj_deploymentId = jp_deploymentId p,
      wj_scheduleRunId = jp_scheduleRunId p, wj_scheduleId = jp_scheduleId p, wj_occurrenceKey = jp_occurrenceKey p,
      wj_jobName = jp_jobName p, wj_imageUrl = jp_imageUrl p, wj_containerId = containerId,
      wj_containerName = buildWorkerJobContainerName (jp_serviceId p) (jp_scheduleRunId p), wj_status = ''created'',
      wj_exitCode = JNull, wj_createdAt = JStr (to_iso_string t), wj_completedAt = JNull\<rparr>"

text \<open>The receipt is durable before the command starts.\<close>

definition launch_job :: "'w job_deps \<Rightarrow> job_payload \<Rightarrow> string \<Rightarrow> ('w, job_answer) io" where
  "launch_job deps p command =
     io_bind (io_either (toDockerResourceSettings (jp_resourceLimits p))) (\<lambda>settings.
     io_bind (wk_createContainer (jd_docker deps) (job_container (jd_environment deps) p command settings)) (\<lambda>containerId.
     io_bind (io_now (jd_clock deps)) (\<lambda>t.
     io_bind (writeWorkerJobReceipt deps (fresh_receipt p containerId t)) (\<lambda>_.
     io_bind (startContainer (wk_docker (jd_docker deps)) containerId) (\<lambda>_.
     io_bind (write_and_answer deps ((fresh_receipt p containerId t)\<lparr>wj_status := ''running''\<rparr>)) (\<lambda>a.
     io_return ((with_instances a)\<lparr>an_timeoutSeconds := Some (jp_timeoutSeconds p)\<rparr>)))))))"

definition first_start :: "'w job_deps \<Rightarrow> job_payload \<Rightarrow> string \<Rightarrow> ('w, job_answer) io" where
  "first_start deps p command =
     (let environment = jd_environment deps;
          containerName = buildWorkerJobContainerName (jp_serviceId p) (jp_scheduleRunId p)
      in io_bind (assertWorkerJobVolumeAvailable (jd_docker deps) (jp_volume p)) (\<lambda>_.
         io_bind (wk_ensureNetwork (jd_docker deps) (getWorkerProjectNetwork environment (jp_projectId p))
           [(''nouva.managed'', ''true''), (''nouva.server.id'', we_serverId environment), (''nouva.project.id'', jp_projectId p)]) (\<lambda>_.
         io_bind (ensureWorkerImage (jd_docker deps) environment (jp_imageUrl p)) (\<lambda>_.
         io_bind (inspectContainer (wk_docker (jd_docker deps)) containerName) (\<lambda>existing.
           if existing \<noteq> None then
             io_throw (Error (''Worker job container '' @ containerName @ '' exists but its receipt could not be recovered. ''
               @ ''Refusing to run the command again.''))
           else launch_job deps p command)))))"

text \<open>The receipt of a run, from its file or else from its container.\<close>

definition find_receipt :: "'w job_deps \<Rightarrow> string \<Rightarrow> string \<Rightarrow> (string \<times> string) list \<Rightarrow> ('w, job_receipt option) io" where
  "find_receipt deps serviceId scheduleRunId expected =
     io_bind (readWorkerJobReceipt deps scheduleRunId) (\<lambda>r. case r of
       Some r \<Rightarrow> io_return (Some r)
     | None \<Rightarrow> recoverMissingWorkerJobReceipt deps serviceId scheduleRunId expected)"

definition startWorkerJob :: "'w job_deps \<Rightarrow> job_payload \<Rightarrow> ('w, job_answer) io" where
  "startWorkerJob deps p =
     (case normalizeWorkerCommand (Some (jp_command p)) of
        None \<Rightarrow> io_throw (Error ''Scheduled worker jobs require an explicit command'')
      | Some command \<Rightarrow>
          io_bind (io_either (assertWorkerJobTimeout (jp_timeoutSeconds p))) (\<lambda>_.
          io_bind (find_receipt deps (jp_serviceId p) (jp_scheduleRunId p) (expected_labels p)) (\<lambda>r. case r of
            Some r \<Rightarrow> resume_job deps r
          | None \<Rightarrow> first_start deps p command)))"

section \<open>Inspecting, stopping and cleaning up\<close>

definition required_receipt :: "'w job_deps \<Rightarrow> string \<Rightarrow> ('w, job_receipt) io" where
  "required_receipt deps scheduleRunId =
     io_bind (readWorkerJobReceipt deps scheduleRunId) (\<lambda>r. case r of
       None \<Rightarrow> io_throw (Error (''Worker job receipt '' @ scheduleRunId @ '' was not found''))
     | Some r \<Rightarrow> io_return r)"

definition inspectWorkerJob :: "'w job_deps \<Rightarrow> string \<Rightarrow> ('w, job_answer) io" where
  "inspectWorkerJob deps scheduleRunId =
     io_bind (required_receipt deps scheduleRunId) (\<lambda>r.
       if isWorkerJobTerminal r then io_return (job_answer_of (jd_environment deps) r)
       else io_bind (inspectContainer (wk_docker (jd_docker deps)) (wj_containerId r)) (\<lambda>inspected.
         if Option.bind inspected (state_of cs_Running) = Some True then io_return (running_answer (jd_environment deps) r)
         else io_bind (toTerminalWorkerJobReceipt (jd_clock deps) r inspected) (write_and_answer deps)))"

definition stopWorkerJob :: "'w job_deps \<Rightarrow> string \<Rightarrow> ('w, job_answer) io" where
  "stopWorkerJob deps scheduleRunId =
     io_bind (required_receipt deps scheduleRunId) (\<lambda>r.
       if isWorkerJobTerminal r then io_return (job_answer_of (jd_environment deps) r)
       else io_bind (wk_stopContainer (jd_docker deps) (wj_containerId r)) (\<lambda>_.
         io_bind (inspectContainer (wk_docker (jd_docker deps)) (wj_containerId r)) (\<lambda>inspected.
         io_bind (io_now (jd_clock deps)) (\<lambda>t.
         write_and_answer deps (r\<lparr>wj_status := ''cancelled'',
           wj_exitCode := (case Option.bind inspected (state_of cs_ExitCode) of None \<Rightarrow> wj_exitCode r | Some n \<Rightarrow> jint n),
           wj_completedAt := JStr (to_iso_string t)\<rparr>)))))"

text \<open>The receipt that was cleaned up, if there was one, and the identifier of the container that is gone.\<close>

definition remove_job :: "'w job_deps \<Rightarrow> job_receipt \<Rightarrow> string \<Rightarrow> ('w, job_receipt option \<times> string) io" where
  "remove_job deps r scheduleRunId =
     io_bind (inspectContainer (wk_docker (jd_docker deps)) (wj_containerId r)) (\<lambda>inspected.
       if Option.bind inspected (state_of cs_Running) = Some True then
         io_throw (Error (''Worker job '' @ scheduleRunId @ '' is still running and cannot be cleaned up''))
       else io_bind (removeContainer (wk_docker (jd_docker deps)) (wj_containerId r) True) (\<lambda>_.
         io_bind (inspectContainer (wk_docker (jd_docker deps)) (wj_containerId r)) (\<lambda>after.
           if after \<noteq> None then
             io_throw (Error (''Worker job container '' @ wj_containerName r @ '' still exists after cleanup''))
           else io_bind (fs_rm (jd_files deps) (receipt_path deps scheduleRunId)) (\<lambda>_.
             io_return (Some r, wj_containerId r)))))"

definition cleanupWorkerJob :: "'w job_deps \<Rightarrow> string \<Rightarrow> string \<Rightarrow> ('w, job_receipt option \<times> string) io" where
  "cleanupWorkerJob deps serviceId scheduleRunId =
     io_bind (find_receipt deps serviceId scheduleRunId []) (\<lambda>r. case r of
       None \<Rightarrow> io_return (None, buildWorkerJobContainerName serviceId scheduleRunId)
     | Some r \<Rightarrow> remove_job deps r scheduleRunId)"

end
