(* ===== verification/Worker_Jobs_Props.thy ===== *)
theory Worker_Jobs_Props
  imports Worker_Jobs Worker_Calls
begin

text \<open>
  What is relied on of worker jobs: a written receipt reads back, the receipts of different runs are
  different files, a settled run is answered from its receipt alone, a container is created and started
  along one protocol, and no container's command is ever started a second time.
\<close>

section \<open>Receipts read back\<close>

lemma receipt_members_distinct: "distinct (map fst (receipt_members r))"
  by (simp add: receipt_members_def)

lemma written_receipt_reads_back:
  "json_parse (stringified (receipt_members r)) = Inr v \<Longrightarrow> parsed_receipt (wj_scheduleRunId r) v = Inr r"
  by (auto simp: stringified_def checked_receipt_def Let_def jprop_defined [OF receipt_members_distinct])
    (simp_all add: receipt_members_def)

lemma read_written_receipt:
  assumes "fs_readFile (jd_files deps) (receipt_path deps scheduleRunId) w = Some (Inr (stringified (receipt_members r)), w')"
    and "wj_scheduleRunId r = scheduleRunId"
  shows "readWorkerJobReceipt deps scheduleRunId w = Some (Inr (Some r), w')"
proof -
  obtain v where v: "json_parse (stringified (receipt_members r)) = Inr v" by (simp add: stringified_def)
  from written_receipt_reads_back [OF v] assms(2) have "parsed_receipt scheduleRunId v = Inr r" by simp
  then show ?thesis
    using assms(1) by (simp add: readWorkerJobReceipt_def io_catch_def io_bind_def v io_return_def)
qed

text \<open>The receipts of two runs are different files, so that no run can be answered, resumed or cleaned up
  on the receipt of another: the file name is an injective encoding of the whole run identifier, unlike the
  container name, which holds only its first eight characters.\<close>

theorem receipt_files_distinct:
  "receipt_path deps a = receipt_path deps b \<longleftrightarrow> a = b"
  by (auto simp: receipt_path_def getWorkerJobReceiptPath_def dest!: base64url_inj [OF utf8_bytes_small utf8_bytes_small] utf8_bytes_inj)

section \<open>A host with one job\<close>

text \<open>One container \<open>c\<close>, which exits at once, one receipt file and the draft beside it.\<close>

record job_world =
  jx_exists :: bool
  jx_runs :: nat
  jx_file :: "file_text option"
  jx_draft :: "file_text option"

definition job_disk :: "job_world files" where
  "job_disk = \<lparr>
     fs_readFile = (\<lambda>p w. Some (case jx_file w of None \<Rightarrow> Inl (SystemError ''ENOENT'' ''no such file'') | Some t \<Rightarrow> Inr t, w)),
     fs_mkdir = (\<lambda>p. io_return ()),
     fs_writeFile = (\<lambda>p t w. Some (Inr (), w\<lparr>jx_draft := Some t\<rparr>)),
     fs_rename = (\<lambda>p q w. Some (Inr (), w\<lparr>jx_file := jx_draft w, jx_draft := None\<rparr>)),
     fs_rm = (\<lambda>p w. Some (Inr (), w\<lparr>jx_file := None\<rparr>))\<rparr>"

definition job_shown :: "job_world \<Rightarrow> inspection" where
  "job_shown w = (bare_inspection ''c'')\<lparr>ci_State := Some (no_state\<lparr>cs_Running := Some False,
     cs_Status := Some (if jx_runs w = 0 then ''created'' else ''exited''), cs_ExitCode := Some 0\<rparr>)\<rparr>"

definition job_daemon :: "job_world docker" where
  "job_daemon = \<lparr>inspectContainer = (\<lambda>i w. Some (Inr (if jx_exists w then Some (job_shown w) else None), w)),
     listContainersByLabels = (\<lambda>_. io_return []), listManagedContainers = io_return [],
     countContainerExits = (\<lambda>_ _ _. io_return 0), containerLogs = (\<lambda>_. io_return []),
     containerLogEntries = (\<lambda>_ _. io_return []), createContainer = (\<lambda>s. io_return (sp_name s)),
     startContainer = (\<lambda>i w. Some (Inr (), if i = ''c'' then w\<lparr>jx_runs := Suc (jx_runs w)\<rparr> else w)),
     waitContainer = (\<lambda>_ _. io_return 0), stopContainer = (\<lambda>_ _. io_return ()), killContainer = (\<lambda>_ _. io_return True),
     removeContainer = (\<lambda>_ _ w. Some (Inr (), w\<lparr>jx_exists := False\<rparr>)), updateContainerRestartPolicy = (\<lambda>_ _. io_return ()),
     inspectVolume = (\<lambda>_. io_return True), createVolume = (\<lambda>_ _. io_return ()),
     removeVolume = (\<lambda>_ _. io_return ())\<rparr>"

definition job_host :: "job_world worker_docker" where
  "job_host = \<lparr>wk_docker = job_daemon,
     wk_createContainer = (\<lambda>s w. Some (Inr ''c'', w\<lparr>jx_exists := True, jx_runs := 0\<rparr>)),
     wk_stopContainer = (\<lambda>i. io_return ()), wk_restartContainer = (\<lambda>i. io_return ()),
     wk_ensureNetwork = (\<lambda>n ls. io_return ()),
     wk_inspectImage = (\<lambda>i. io_return (Some \<lparr>ii_Id = i, ii_Entrypoint = None, ii_Cmd = Some [''run''], ii_HealthcheckTest = None\<rparr>)),
     wk_pullImage = (\<lambda>i. io_return ()), wk_removeImage = (\<lambda>i b. io_return ()),
     wk_listContainersUsingVolume = (\<lambda>v. io_return [])\<rparr>"

definition one_job :: "job_world job_deps" where
  "one_job = \<lparr>jd_docker = job_host,
     jd_environment = \<lparr>we_serverId = ''s'', we_imageStoreMode = ''registry'', we_dataDir = ''/d'', we_dataVolume = ''dv'',
       we_hashProjectNetwork = (\<lambda>p. p)\<rparr>,
     jd_files = job_disk, jd_clock = \<lparr>now = (\<lambda>w. (0, w)), wait = (\<lambda>ms. io_return ())\<rparr>, jd_pid = ''7''\<rparr>"

definition one_job_payload :: job_payload where
  "one_job_payload = \<lparr>jp_projectId = ''p'', jp_environmentId = None, jp_serviceId = ''svc'', jp_deploymentId = ''d'',
     jp_redactionContextVersion = None, jp_scheduleId = ''sch'', jp_scheduleRunId = ''run1'', jp_occurrenceKey = ''o'',
     jp_jobName = ''nightly'', jp_imageUrl = ''img'', jp_envVars = [], jp_command = ''true'', jp_timeoutSeconds = Fin 60,
     jp_volume = None, jp_resourceLimits = JObj [(''cpuMillicores'', jint 1), (''memoryBytes'', jint 1), (''pidsLimit'', jint 1)]\<rparr>"

definition no_jobs :: job_world where
  "no_jobs = \<lparr>jx_exists = False, jx_runs = 0, jx_file = None, jx_draft = None\<rparr>"

section \<open>A settled run\<close>

text \<open>A run whose receipt says that it succeeded, failed, was cancelled or is missing is settled: starting,
  inspecting and stopping it each read the receipt, answer it, and do nothing else; in particular nothing is
  asked of Docker, the command is not run again and the receipt is not overwritten.\<close>

theorem settled_job_is_answered:
  assumes "fs_readFile (jd_files deps) (receipt_path deps (wj_scheduleRunId r)) w = Some (Inr (stringified (receipt_members r)), w')"
    and "isWorkerJobTerminal r"
  shows "inspectWorkerJob deps (wj_scheduleRunId r) w = Some (Inr (job_answer_of (jd_environment deps) r), w') \<and>
    stopWorkerJob deps (wj_scheduleRunId r) w = Some (Inr (job_answer_of (jd_environment deps) r), w') \<and>
    (jp_scheduleRunId p = wj_scheduleRunId r \<longrightarrow> normalizeWorkerCommand (Some (jp_command p)) \<noteq> None \<longrightarrow>
     isl (assertWorkerJobTimeout (jp_timeoutSeconds p)) \<or>
     startWorkerJob deps p w = Some (Inr (with_instances (job_answer_of (jd_environment deps) r)), w'))"
proof -
  note read = read_written_receipt [OF assms(1) refl]
  have "required_receipt deps (wj_scheduleRunId r) w = Some (Inr r, w')"
    using read by (simp add: required_receipt_def io_bind_def io_return_def)
  then show ?thesis
    using read assms(2)
    by (auto simp: inspectWorkerJob_def stopWorkerJob_def startWorkerJob_def find_receipt_def resume_job_def io_bind_def
        io_return_def io_either_def split: sum.splits)
qed

definition settled_receipt :: job_receipt where
  "settled_receipt = (fresh_receipt one_job_payload ''c'' 0)\<lparr>wj_status := ''succeeded'', wj_exitCode := jint 0\<rparr>"

lemma settled_job_is_answered_witness:
  "let w = no_jobs\<lparr>jx_file := Some (stringified (receipt_members settled_receipt))\<rparr> in
   inspectWorkerJob one_job ''run1'' w = Some (Inr (job_answer_of (jd_environment one_job) settled_receipt), w) \<and>
   startWorkerJob one_job one_job_payload w = Some (Inr (with_instances (job_answer_of (jd_environment one_job) settled_receipt)), w)"
proof -
  let ?w = "no_jobs\<lparr>jx_file := Some (stringified (receipt_members settled_receipt))\<rparr>"
  have run: "wj_scheduleRunId settled_receipt = ''run1''" "jp_scheduleRunId one_job_payload = ''run1''"
    by (simp_all add: settled_receipt_def fresh_receipt_def one_job_payload_def)
  have "fs_readFile (jd_files one_job) (receipt_path one_job (wj_scheduleRunId settled_receipt)) ?w
      = Some (Inr (stringified (receipt_members settled_receipt)), ?w)"
    by (simp add: one_job_def job_disk_def)
  moreover have "isWorkerJobTerminal settled_receipt" by code_simp
  ultimately have "inspectWorkerJob one_job (wj_scheduleRunId settled_receipt) ?w
      = Some (Inr (job_answer_of (jd_environment one_job) settled_receipt), ?w) \<and>
    stopWorkerJob one_job (wj_scheduleRunId settled_receipt) ?w
      = Some (Inr (job_answer_of (jd_environment one_job) settled_receipt), ?w) \<and>
    (jp_scheduleRunId one_job_payload = wj_scheduleRunId settled_receipt \<longrightarrow>
     normalizeWorkerCommand (Some (jp_command one_job_payload)) \<noteq> None \<longrightarrow>
     isl (assertWorkerJobTimeout (jp_timeoutSeconds one_job_payload)) \<or>
     startWorkerJob one_job one_job_payload ?w = Some (Inr (with_instances (job_answer_of (jd_environment one_job) settled_receipt)), ?w))"
    by (rule settled_job_is_answered)
  moreover have "normalizeWorkerCommand (Some (jp_command one_job_payload)) \<noteq> None" by code_simp
  moreover have "\<not> isl (assertWorkerJobTimeout (jp_timeoutSeconds one_job_payload))" by code_simp
  ultimately show ?thesis unfolding run Let_def by blast
qed

section \<open>No command is started twice\<close>

text \<open>
  What is relied on of Docker, \<open>runs w i\<close> being how often the command of container \<open>i\<close> has been started in the
  world \<open>w\<close>: only a start starts a command, at most once each, and only the started container's; a new
  container has not been started; one that Docker reports as created has not been started either. Everything
  may fail at any time, with or without its effect.
\<close>

definition starts_none :: "('w \<Rightarrow> string \<Rightarrow> nat) \<Rightarrow> ('w, 'a) io \<Rightarrow> bool" where
  "starts_none runs m \<longleftrightarrow> (\<forall>w r w'. m w = Some (r, w') \<longrightarrow> runs w' = runs w)"

definition counts_runs :: "('w \<Rightarrow> string \<Rightarrow> nat) \<Rightarrow> 'w job_deps \<Rightarrow> bool" where
  "counts_runs runs deps \<longleftrightarrow>
     (\<forall>i. starts_none runs (inspectContainer (wk_docker (jd_docker deps)) i)) \<and>
     (\<forall>i w c w'. inspectContainer (wk_docker (jd_docker deps)) i w = Some (Inr (Some c), w') \<longrightarrow>
        state_of cs_Status c = Some ''created'' \<longrightarrow> runs w' i = 0) \<and>
     (\<forall>spec w r w'. wk_createContainer (jd_docker deps) spec w = Some (r, w') \<longrightarrow>
        (case r of Inl e \<Rightarrow> runs w' = runs w | Inr i \<Rightarrow> runs w' = (runs w)(i := 0))) \<and>
     (\<forall>i w r w'. startContainer (wk_docker (jd_docker deps)) i w = Some (r, w') \<longrightarrow>
        (\<exists>n \<le> Suc (runs w i). runs w' = (runs w)(i := n))) \<and>
     (\<forall>i. starts_none runs (wk_stopContainer (jd_docker deps) i)) \<and>
     (\<forall>i b. starts_none runs (removeContainer (wk_docker (jd_docker deps)) i b)) \<and>
     (\<forall>n ls. starts_none runs (wk_ensureNetwork (jd_docker deps) n ls)) \<and>
     (\<forall>i. starts_none runs (wk_inspectImage (jd_docker deps) i)) \<and>
     (\<forall>i. starts_none runs (wk_pullImage (jd_docker deps) i)) \<and>
     (\<forall>v. starts_none runs (wk_listContainersUsingVolume (jd_docker deps) v)) \<and>
     (\<forall>p. starts_none runs (fs_readFile (jd_files deps) p)) \<and> (\<forall>p. starts_none runs (fs_mkdir (jd_files deps) p)) \<and>
     (\<forall>p t. starts_none runs (fs_writeFile (jd_files deps) p t)) \<and>
     (\<forall>p q. starts_none runs (fs_rename (jd_files deps) p q)) \<and> (\<forall>p. starts_none runs (fs_rm (jd_files deps) p)) \<and>
     starts_none runs (io_now (jd_clock deps))"

text \<open>The four operations in any order, each failing or not.\<close>

datatype job_op = StartJob job_payload | InspectJob string | StopJob string | CleanupJob string string

fun perform :: "'w job_deps \<Rightarrow> job_op \<Rightarrow> ('w, unit) io" where
  "perform deps (StartJob p) = io_bind (startWorkerJob deps p) (\<lambda>_. io_return ())"
| "perform deps (InspectJob i) = io_bind (inspectWorkerJob deps i) (\<lambda>_. io_return ())"
| "perform deps (StopJob i) = io_bind (stopWorkerJob deps i) (\<lambda>_. io_return ())"
| "perform deps (CleanupJob s i) = io_bind (cleanupWorkerJob deps s i) (\<lambda>_. io_return ())"

primrec job_history :: "'w job_deps \<Rightarrow> job_op list \<Rightarrow> ('w, unit) io" where
  "job_history deps [] = io_return ()"
| "job_history deps (x # xs) = io_bind (io_try (perform deps x)) (\<lambda>_. job_history deps xs)"

text \<open>The claim as an invariant, \<open>r0\<close> being how often commands had been started at first.\<close>

definition at_most_once :: "(string \<Rightarrow> nat) \<Rightarrow> (string \<Rightarrow> nat) \<Rightarrow> bool" where
  "at_most_once r0 f \<longleftrightarrow> (\<forall>i. f i \<le> max 1 (r0 i))"

abbreviation once :: "('w \<Rightarrow> string \<Rightarrow> nat) \<Rightarrow> (string \<Rightarrow> nat) \<Rightarrow> 'w \<Rightarrow> bool" where
  "once runs r0 w \<equiv> at_most_once r0 (runs w)"

lemma at_most_once_update: "at_most_once r0 f \<Longrightarrow> n \<le> 1 \<Longrightarrow> at_most_once r0 (f(i := n))"
  by (auto simp: at_most_once_def le_max_iff_disj)

lemma starts_none_preserves: "starts_none runs m \<Longrightarrow> preserves (\<lambda>w. J (runs w)) m"
  by (auto intro!: preservesI simp: starts_none_def)

lemma counts_created:
  "counts_runs runs deps \<Longrightarrow> inspectContainer (wk_docker (jd_docker deps)) i w = Some (Inr (Some c), w') \<Longrightarrow>
   state_of cs_Status c = Some ''created'' \<Longrightarrow> runs w' i = 0"
  unfolding counts_runs_def by (drule conjunct2, drule conjunct1, (erule allE)+, drule (1) mp, erule (1) mp)

lemma counts_new:
  "counts_runs runs deps \<Longrightarrow> wk_createContainer (jd_docker deps) spec w = Some (r, w') \<Longrightarrow>
   (case r of Inl e \<Rightarrow> runs w' = runs w | Inr i \<Rightarrow> runs w' = (runs w)(i := 0))"
  unfolding counts_runs_def by (drule conjunct2, drule conjunct2, drule conjunct1, (erule allE)+, erule (1) mp)

lemma counts_start:
  "counts_runs runs deps \<Longrightarrow> startContainer (wk_docker (jd_docker deps)) i w = Some (r, w') \<Longrightarrow>
   \<exists>n \<le> Suc (runs w i). runs w' = (runs w)(i := n)"
  unfolding counts_runs_def by (drule conjunct2, drule conjunct2, drule conjunct2, drule conjunct1, (erule allE)+, erule (1) mp)

lemma quiet:
  assumes "counts_runs runs deps"
  shows "preserves (\<lambda>w. J (runs w)) (inspectContainer (wk_docker (jd_docker deps)) i)"
    and "preserves (\<lambda>w. J (runs w)) (wk_stopContainer (jd_docker deps) i)"
    and "preserves (\<lambda>w. J (runs w)) (removeContainer (wk_docker (jd_docker deps)) i b)"
    and "preserves (\<lambda>w. J (runs w)) (wk_ensureNetwork (jd_docker deps) i ls)"
    and "preserves (\<lambda>w. J (runs w)) (wk_inspectImage (jd_docker deps) i)"
    and "preserves (\<lambda>w. J (runs w)) (wk_pullImage (jd_docker deps) i)"
    and "preserves (\<lambda>w. J (runs w)) (wk_listContainersUsingVolume (jd_docker deps) i)"
    and "preserves (\<lambda>w. J (runs w)) (fs_readFile (jd_files deps) i)"
    and "preserves (\<lambda>w. J (runs w)) (fs_mkdir (jd_files deps) i)"
    and "preserves (\<lambda>w. J (runs w)) (fs_writeFile (jd_files deps) i t)"
    and "preserves (\<lambda>w. J (runs w)) (fs_rename (jd_files deps) i p)"
    and "preserves (\<lambda>w. J (runs w)) (fs_rm (jd_files deps) i)"
    and "preserves (\<lambda>w. J (runs w)) (io_now (jd_clock deps))"
  by (rule starts_none_preserves, use assms in \<open>simp add: counts_runs_def\<close>)+

lemma answer_quiet:
  assumes "counts_runs runs deps"
  shows "preserves (\<lambda>w. J (runs w)) (writeWorkerJobReceipt deps r)"
    and "preserves (\<lambda>w. J (runs w)) (write_and_answer deps r)"
    and "preserves (\<lambda>w. J (runs w)) (toTerminalWorkerJobReceipt (jd_clock deps) r c)"
  unfolding write_and_answer_def writeWorkerJobReceipt_def toTerminalWorkerJobReceipt_def completed_at_def Let_def
  by (intro preserves_rules quiet [OF assms])+

lemma receipt_quiet:
  assumes "counts_runs runs deps"
  shows "preserves (\<lambda>w. J (runs w)) (readWorkerJobReceipt deps i)"
    and "preserves (\<lambda>w. J (runs w)) (find_receipt deps s i expected)"
proof -
  show read: "preserves (\<lambda>w. J (runs w)) (readWorkerJobReceipt deps i)"
    unfolding readWorkerJobReceipt_def by (intro preserves_rules quiet [OF assms])
  have now: "preserves (\<lambda>w. J (runs w)) (or_now (jd_clock deps) v)" for v
    unfolding or_now_def by (intro preserves_rules quiet [OF assms])
  have "preserves (\<lambda>w. J (runs w)) (recovered_state (jd_clock deps) c r)" for c r
    unfolding recovered_state_def Let_def by (intro preserves_rules now)
  then have recover: "preserves (\<lambda>w. J (runs w)) (recoverWorkerJobReceiptFromContainer (jd_clock deps) c s i expected)" for c
    unfolding recoverWorkerJobReceiptFromContainer_def Let_def
    by (intro preserves_rules now) (auto split: prod.splits option.splits intro!: preserves_rules now)
  show "preserves (\<lambda>w. J (runs w)) (find_receipt deps s i expected)"
    unfolding find_receipt_def recoverMissingWorkerJobReceipt_def Let_def
    by (intro preserves_rules read recover answer_quiet [OF assms] quiet [OF assms])
qed

text \<open>A start of a container whose command has not been started.\<close>

lemma first_start_once:
  assumes "counts_runs runs deps" and "once runs r0 w" and "runs w i = 0"
    and "startContainer (wk_docker (jd_docker deps)) i w = Some (r, w')"
  shows "once runs r0 w'"
proof -
  from counts_start [OF assms(1,4)] obtain n where "n \<le> Suc (runs w i)" "runs w' = (runs w)(i := n)" by blast
  with assms(2,3) show ?thesis by (simp add: at_most_once_update)
qed

lemma start_then_once:
  assumes "counts_runs runs deps" and "\<And>x. preserves (once runs r0) (f x)"
  shows "ensures (\<lambda>w. once runs r0 w \<and> runs w i = 0)
    (io_bind (startContainer (wk_docker (jd_docker deps)) i) f) (\<lambda>r. once runs r0)"
  by (rule ensures_bind [where R = "\<lambda>_. once runs r0"], rule ensuresI)
    (use first_start_once [OF assms(1)] assms(2) in \<open>auto simp: preserves_def split: sum.splits\<close>)

lemma resume_once:
  assumes "counts_runs runs deps"
  shows "preserves (once runs r0) (resume_job deps r)"
proof -
  let ?ins = "inspectContainer (wk_docker (jd_docker deps)) (wj_containerId r)"
  have look: "ensures (once runs r0) ?ins (\<lambda>q w. case q of Inl e \<Rightarrow> once runs r0 w | Inr c \<Rightarrow> once runs r0 w \<and>
      (Option.bind c (state_of cs_Status) = Some ''created'' \<longrightarrow> runs w (wj_containerId r) = 0))"
  proof (rule ensuresI)
    fix w q w' assume I: "once runs r0 w" and run: "?ins w = Some (q, w')"
    from preservesD [OF quiet(1) [OF assms, where J = "at_most_once r0"] I run] have "once runs r0 w'" .
    moreover have "runs w' (wj_containerId r) = 0" if "q = Inr (Some c)" "state_of cs_Status c = Some ''created''" for c
      using counts_created [OF assms run [unfolded that(1)] that(2)] .
    ultimately show "case q of Inl e \<Rightarrow> once runs r0 w' | Inr c \<Rightarrow> once runs r0 w' \<and>
      (Option.bind c (state_of cs_Status) = Some ''created'' \<longrightarrow> runs w' (wj_containerId r) = 0)"
      by (cases q) (auto split: Option.bind_splits)
  qed
  note q = answer_quiet [OF assms, where J = "at_most_once r0"]
  have go: "ensures (\<lambda>w. once runs r0 w \<and> (Option.bind existing (state_of cs_Status) = Some ''created'' \<longrightarrow> runs w (wj_containerId r) = 0))
      (if Option.bind existing (state_of cs_Running) = Some True then io_return (running_answer (jd_environment deps) r)
       else if wj_status r = ''created'' \<and> Option.bind existing (state_of cs_Status) = Some ''created'' then
         io_bind (startContainer (wk_docker (jd_docker deps)) (wj_containerId r)) (\<lambda>_.
           write_and_answer deps (r\<lparr>wj_status := ''running''\<rparr>))
       else io_bind (toTerminalWorkerJobReceipt (jd_clock deps) r existing) (write_and_answer deps))
      (\<lambda>r. once runs r0)" for existing
  proof (cases "wj_status r = ''created'' \<and> Option.bind existing (state_of cs_Status) = Some ''created''")
    case True
    then show ?thesis
      by (auto intro!: ensures_return ensures_conseq [OF start_then_once [OF assms q(2)]])
  next
    case False
    from preserves_bind [OF q(3) q(2)] have "ensures (once runs r0)
        (io_bind (toTerminalWorkerJobReceipt (jd_clock deps) r existing) (write_and_answer deps)) (\<lambda>r. once runs r0)"
      by (simp add: preserves_def)
    with False show ?thesis by (auto intro!: ensures_return elim: ensures_conseq)
  qed
  show ?thesis
    unfolding resume_job_def
    by (intro preserves_if preserves_pure, unfold preserves_def, rule ensures_bind [OF look go])
qed

lemma launch_once:
  assumes "counts_runs runs deps"
  shows "preserves (once runs r0) (launch_job deps p command)"
proof -
  have new: "ensures (once runs r0) (wk_createContainer (jd_docker deps) spec)
      (\<lambda>q w. case q of Inl e \<Rightarrow> once runs r0 w | Inr i \<Rightarrow> once runs r0 w \<and> runs w i = 0)" for spec
    by (rule ensuresI, drule counts_new [OF assms]) (auto split: sum.splits intro: at_most_once_update)
  have written: "preserves (\<lambda>w. once runs r0 w \<and> runs w i = 0) (writeWorkerJobReceipt deps r)"
    "preserves (\<lambda>w. once runs r0 w \<and> runs w i = 0) (io_now (jd_clock deps))" for i r
    using answer_quiet(1) [OF assms, where J = "\<lambda>f. at_most_once r0 f \<and> f i = 0"]
      quiet(13) [OF assms, where J = "\<lambda>f. at_most_once r0 f \<and> f i = 0"] by blast+
  have rest: "preserves (once runs r0) (io_bind (write_and_answer deps r) (\<lambda>a.
      io_return ((with_instances a)\<lparr>an_timeoutSeconds := Some (jp_timeoutSeconds p)\<rparr>)))" for r
    using answer_quiet(2) [OF assms, where J = "at_most_once r0"] by (intro preserves_rules)
  have after: "ensures (\<lambda>w. once runs r0 w \<and> runs w i = 0) (io_bind (writeWorkerJobReceipt deps r1) (\<lambda>_.
      io_bind (startContainer (wk_docker (jd_docker deps)) i) (\<lambda>_. io_bind (write_and_answer deps r2) (\<lambda>a.
      io_return ((with_instances a)\<lparr>an_timeoutSeconds := Some (jp_timeoutSeconds p)\<rparr>))))) (\<lambda>r. once runs r0)" for i r1 r2
    by (rule ensures_bind [where R = "\<lambda>_ w. once runs r0 w \<and> runs w i = 0"])
      (use written(1) [of i r1] start_then_once [OF assms rest] in \<open>auto simp: preserves_def elim!: ensures_conseq split: sum.splits\<close>)
  have made: "ensures (\<lambda>w. once runs r0 w \<and> runs w i = 0) (io_bind (io_now (jd_clock deps)) (\<lambda>t.
      io_bind (writeWorkerJobReceipt deps (r1 t)) (\<lambda>_.
      io_bind (startContainer (wk_docker (jd_docker deps)) i) (\<lambda>_. io_bind (write_and_answer deps (r2 t)) (\<lambda>a.
      io_return ((with_instances a)\<lparr>an_timeoutSeconds := Some (jp_timeoutSeconds p)\<rparr>)))))) (\<lambda>r. once runs r0)" for i r1 r2
    by (rule ensures_bind [where R = "\<lambda>_ w. once runs r0 w \<and> runs w i = 0"])
      (use written(2) [of i] after in \<open>auto simp: preserves_def elim!: ensures_conseq split: sum.splits\<close>)
  have "preserves (once runs r0) (io_bind (wk_createContainer (jd_docker deps) spec) (\<lambda>containerId.
      io_bind (io_now (jd_clock deps)) (\<lambda>t.
      io_bind (writeWorkerJobReceipt deps (r1 containerId t)) (\<lambda>_.
      io_bind (startContainer (wk_docker (jd_docker deps)) containerId) (\<lambda>_. io_bind (write_and_answer deps (r2 containerId t)) (\<lambda>a.
      io_return ((with_instances a)\<lparr>an_timeoutSeconds := Some (jp_timeoutSeconds p)\<rparr>)))))))" for spec r1 r2
    unfolding preserves_def by (rule ensures_bind [OF new made])
  then show ?thesis unfolding launch_job_def by (intro preserves_bind [OF preserves_pure(3)])
qed

lemma start_once:
  assumes "counts_runs runs deps"
  shows "preserves (once runs r0) (startWorkerJob deps p)"
proof -
  note q = quiet [OF assms, where J = "at_most_once r0"]
  have "preserves (once runs r0) (assertWorkerJobVolumeAvailable (jd_docker deps) v)" for v
    unfolding assertWorkerJobVolumeAvailable_def by (intro preserves_rules q)
  moreover have "preserves (once runs r0) (ensureWorkerImage (jd_docker deps) (jd_environment deps) i)" for i
    unfolding ensureWorkerImage_def Let_def by (intro preserves_rules q)
  ultimately have "preserves (once runs r0) (first_start deps p command)" for command
    unfolding first_start_def Let_def by (intro preserves_rules q launch_once [OF assms])
  then show ?thesis
    unfolding startWorkerJob_def
    by (intro preserves_rules receipt_quiet(2) [OF assms, where J = "at_most_once r0"] resume_once [OF assms])
qed

lemma perform_once:
  assumes "counts_runs runs deps"
  shows "preserves (once runs r0) (perform deps x)"
proof -
  let ?J = "at_most_once r0"
  note rules = quiet [OF assms, where J = ?J] answer_quiet [OF assms, where J = ?J] receipt_quiet [OF assms, where J = ?J]
  have required: "preserves (once runs r0) (required_receipt deps i)" for i
    unfolding required_receipt_def by (intro preserves_rules rules)
  show ?thesis
    by (cases x; simp only: perform.simps; intro preserves_bind preserves_pure start_once [OF assms];
        unfold inspectWorkerJob_def stopWorkerJob_def cleanupWorkerJob_def remove_job_def; intro preserves_rules rules required)
qed


lemma one_job_counts: "counts_runs (\<lambda>w i. if i = ''c'' then jx_runs w else 0) one_job"
  by (auto simp: counts_runs_def starts_none_def one_job_def job_host_def job_daemon_def job_disk_def job_shown_def
      bare_inspection_def io_return_def io_now_def fun_eq_iff split: if_splits intro: exI [of _ "Suc (jx_runs w)" for w] exI [of _ 0])

text \<open>The first start runs the command; the second finds it done; the inspection then only reads.\<close>

definition ran_receipt :: job_receipt where
  "ran_receipt = (fresh_receipt one_job_payload ''c'' 0)\<lparr>wj_status := ''running''\<rparr>"

definition has_receipt :: "job_receipt \<Rightarrow> job_world" where
  "has_receipt r = \<lparr>jx_exists = True, jx_runs = 1, jx_file = Some (stringified (receipt_members r)), jx_draft = None\<rparr>"

lemmas one_job_simps = one_job_def job_host_def job_daemon_def job_disk_def no_jobs_def io_bind_def io_return_def io_now_def
  io_catch_def io_either_def

lemma one_job_valid: "normalizeWorkerCommand (Some (jp_command one_job_payload)) = Some ''true''"
  "assertWorkerJobTimeout (jp_timeoutSeconds one_job_payload) = Inr 60"
  "toDockerResourceSettings (jp_resourceLimits one_job_payload) =
     Inr \<lparr>rs_NanoCpus = 1000000, rs_Memory = 1, rs_MemorySwap = 1, rs_PidsLimit = 1\<rparr>"
  "jp_scheduleRunId one_job_payload = ''run1''" "jp_volume one_job_payload = None"
  by code_simp+

lemma one_job_first: "\<exists>a. startWorkerJob one_job one_job_payload no_jobs = Some (Inr a, has_receipt ran_receipt)"
  unfolding startWorkerJob_def one_job_valid option.case
  by (simp add: one_job_simps find_receipt_def readWorkerJobReceipt_def recoverMissingWorkerJobReceipt_def Let_def first_start_def
      assertWorkerJobVolumeAvailable_def one_job_valid ensureWorkerImage_def launch_job_def writeWorkerJobReceipt_def
      write_and_answer_def has_receipt_def ran_receipt_def)

lemma one_job_reads:
  "wj_scheduleRunId r = ''run1'' \<Longrightarrow> readWorkerJobReceipt one_job ''run1'' (has_receipt r) = Some (Inr (Some r), has_receipt r)"
  by (rule read_written_receipt) (simp_all add: has_receipt_def one_job_def job_disk_def)

lemma ran_simps: "wj_scheduleRunId ran_receipt = ''run1''" "wj_status ran_receipt = ''running''" "wj_containerId ran_receipt = ''c''"
  "wj_completedAt ran_receipt = JNull"
  by (simp_all add: ran_receipt_def fresh_receipt_def one_job_payload_def)

definition done_receipt :: job_receipt where
  "done_receipt = ran_receipt\<lparr>wj_status := ''succeeded'', wj_exitCode := jint 0, wj_completedAt := JStr (to_iso_string 0)\<rparr>"

lemma one_job_again: "\<exists>a. startWorkerJob one_job one_job_payload (has_receipt ran_receipt) = Some (Inr a, has_receipt done_receipt)"
  using one_job_reads [OF ran_simps(1)]
  unfolding startWorkerJob_def one_job_valid option.case find_receipt_def resume_job_def
  by (simp add: io_bind_def io_return_def io_either_def isWorkerJobTerminal_def ran_simps)
    (simp add: one_job_def job_host_def job_daemon_def job_disk_def has_receipt_def job_shown_def toTerminalWorkerJobReceipt_def
      completed_at_def ran_simps write_and_answer_def writeWorkerJobReceipt_def done_receipt_def io_bind_def io_return_def io_now_def)

lemma one_job_inspected: "\<exists>a. inspectWorkerJob one_job ''run1'' (has_receipt done_receipt) = Some (Inr a, has_receipt done_receipt)"
proof -
  have "wj_scheduleRunId done_receipt = ''run1''" "isWorkerJobTerminal done_receipt"
    by (simp_all add: done_receipt_def ran_simps isWorkerJobTerminal_def)
  then show ?thesis
    using one_job_reads [of done_receipt] by (simp add: inspectWorkerJob_def required_receipt_def io_bind_def io_return_def)
qed


section \<open>A job that was never started\<close>

text \<open>
  What inspecting a run does where its receipt was written and its container created, but the command never
  started, because the agent was interrupted in between: Docker shows the container with exit code 0, and the
  run is recorded as succeeded. A later start then answers the receipt and never runs the command.
\<close>

definition interrupted :: job_world where
  "interrupted = (has_receipt (fresh_receipt one_job_payload ''c'' 0))\<lparr>jx_runs := 0\<rparr>"

lemma unstarted_job_recorded_as_succeeded:
  "\<exists>a w'. inspectWorkerJob one_job ''run1'' interrupted = Some (Inr a, w') \<and> wj_status (an_receipt a) = ''succeeded'' \<and>
     jx_file w' = Some (stringified (receipt_members (an_receipt a))) \<and> jx_runs w' = 0"
proof -
  let ?r = "fresh_receipt one_job_payload ''c'' 0"
  have r: "wj_scheduleRunId ?r = ''run1''" "wj_status ?r = ''created''" "wj_containerId ?r = ''c''" "wj_completedAt ?r = JNull"
    by (simp_all add: fresh_receipt_def one_job_payload_def)
  have "fs_readFile (jd_files one_job) (receipt_path one_job ''run1'') interrupted
      = Some (Inr (stringified (receipt_members ?r)), interrupted)"
    by (simp add: interrupted_def has_receipt_def one_job_def job_disk_def)
  from read_written_receipt [OF this r(1)] show ?thesis
    by (simp add: inspectWorkerJob_def required_receipt_def io_bind_def io_return_def isWorkerJobTerminal_def r)
      (simp add: one_job_def job_host_def job_daemon_def job_disk_def interrupted_def has_receipt_def job_shown_def
        toTerminalWorkerJobReceipt_def completed_at_def r write_and_answer_def writeWorkerJobReceipt_def job_answer_of_def
        io_bind_def io_return_def io_now_def)
qed

end
