(* ===== verification/Worker_Jobs_Protocol.thy ===== *)
theory Worker_Jobs_Protocol
  imports Worker_Jobs_Props
begin

text \<open>
  The order of the calls of a job. A start goes along \<open>job_protocol\<close>: nothing is created unless the run has
  neither a receipt nor a container, and nothing is started unless its receipt is durable. A cleanup removes
  the receipt last, and only of a container that was seen stopped and then gone.
\<close>

definition watch_jobs :: "'w job_deps \<Rightarrow> ('w \<times> worker_event list) job_deps" where
  "watch_jobs deps = \<lparr>jd_docker = watch (jd_docker deps), jd_environment = jd_environment deps,
     jd_files = watch_files (jd_files deps), jd_clock = traced_clock (jd_clock deps), jd_pid = jd_pid deps\<rparr>"

lemma watch_jobs_simps [simp]:
  "jd_docker (watch_jobs deps) = watch (jd_docker deps)"
  "jd_environment (watch_jobs deps) = jd_environment deps"
  "jd_files (watch_jobs deps) = watch_files (jd_files deps)"
  "jd_clock (watch_jobs deps) = traced_clock (jd_clock deps)"
  "jd_pid (watch_jobs deps) = jd_pid deps"
  "receipt_path (watch_jobs deps) i = receipt_path deps i"
  "receipts_dir (watch_jobs deps) = receipts_dir deps"
  by (simp_all add: watch_jobs_def receipt_path_def receipts_dir_def)

section \<open>The protocol of a start\<close>

datatype job_stage =
    Asked              \<comment> \<open>nothing has been looked at\<close>
  | Unrecorded         \<comment> \<open>the run has no receipt\<close>
  | Known              \<comment> \<open>it has one, or a container to recover one from\<close>
  | Startable string   \<comment> \<open>its container was seen created and not running\<close>
  | Vacant             \<comment> \<open>it has neither receipt nor container\<close>
  | Checked            \<comment> \<open>nor has it since the network and the image were made ready\<close>
  | Made string        \<comment> \<open>its container was created\<close>
  | Noted string       \<comment> \<open>and the receipt written beside its file\<close>
  | Recorded string    \<comment> \<open>and moved into place\<close>
  | Over               \<comment> \<open>nothing more may be created or started\<close>

text \<open>A file text that records the run as having the container, created and not started.\<close>

definition records :: "string \<Rightarrow> string \<Rightarrow> file_text \<Rightarrow> bool" where
  "records run i t \<longleftrightarrow> (case json_parse t of Inl e \<Rightarrow> False | Inr v \<Rightarrow> (case parsed_receipt run v of
     Inl e \<Rightarrow> False | Inr r \<Rightarrow> wj_containerId r = i \<and> wj_status r = ''created''))"

fun quiet_event :: "worker_event \<Rightarrow> bool" where
  "quiet_event Elsewhere = True"
| "quiet_event (Consumers v cs) = True"
| "quiet_event (WroteFile p t r) = True"
| "quiet_event (Renamed p q r) = True"
| "quiet_event _ = False"

definition never_started :: "inspection option \<Rightarrow> bool" where
  "never_started c \<longleftrightarrow> Option.bind c (state_of cs_Running) \<noteq> Some True \<and> Option.bind c (state_of cs_Status) = Some ''created''"

definition quietly :: "job_stage \<Rightarrow> worker_event \<Rightarrow> job_stage option" where
  "quietly s ev = (if quiet_event ev then Some s else None)"

definition starting :: "string \<Rightarrow> worker_event \<Rightarrow> bool" where
  "starting i ev \<longleftrightarrow> ev = Did (Start i)"

definition job_name :: "job_payload \<Rightarrow> string" where
  "job_name p = buildWorkerJobContainerName (jp_serviceId p) (jp_scheduleRunId p)"

definition job_file :: "'w job_deps \<Rightarrow> job_payload \<Rightarrow> string" where
  "job_file deps p = receipt_path deps (jp_scheduleRunId p)"

definition job_draft :: "'w job_deps \<Rightarrow> job_payload \<Rightarrow> string" where
  "job_draft deps p = job_file deps p @ ''.'' @ jd_pid deps @ ''.tmp''"

fun job_protocol :: "'w job_deps \<Rightarrow> job_payload \<Rightarrow> job_stage \<Rightarrow> worker_event \<Rightarrow> job_stage option" where
  "job_protocol deps p Asked ev = (case ev of
     ReadFile f r \<Rightarrow> if f = job_file deps p
       then Some (case r of Inl e \<Rightarrow> if is_ENOENT e then Unrecorded else Over | Inr t \<Rightarrow> Known) else None
   | _ \<Rightarrow> None)"
| "job_protocol deps p Unrecorded ev = (case ev of
     Saw n r \<Rightarrow> if n = job_name p
       then Some (case r of Inl e \<Rightarrow> Over | Inr c \<Rightarrow> if c = None then Vacant else Known) else None
   | _ \<Rightarrow> None)"
| "job_protocol deps p Known ev = (case ev of
     Saw i r \<Rightarrow> Some (case r of Inl e \<Rightarrow> Over | Inr c \<Rightarrow> if never_started c then Startable i else Over)
   | _ \<Rightarrow> quietly Known ev)"
| "job_protocol deps p (Startable i) ev = (if starting i ev then Some Over else quietly (Startable i) ev)"
| "job_protocol deps p Vacant ev = (case ev of
     Saw n r \<Rightarrow> if n = job_name p then Some (if r = Inr None then Checked else Over) else None
   | _ \<Rightarrow> quietly Vacant ev)"
| "job_protocol deps p Checked ev = (case ev of
     Created spec r \<Rightarrow> if sp_name spec = job_name p
       then Some (case r of Inl e \<Rightarrow> Over | Inr i \<Rightarrow> Made i) else None
   | _ \<Rightarrow> None)"
| "job_protocol deps p (Made i) ev = (case ev of
     WroteFile f t r \<Rightarrow> if f = job_draft deps p \<and> records (jp_scheduleRunId p) i t
       then Some (if isl r then Over else Noted i) else None
   | _ \<Rightarrow> if ev = Elsewhere then Some (Made i) else None)"
| "job_protocol deps p (Noted i) ev = (case ev of
     Renamed f g r \<Rightarrow> if f = job_draft deps p \<and> g = job_file deps p
       then Some (if isl r then Over else Recorded i) else None
   | _ \<Rightarrow> None)"
| "job_protocol deps p (Recorded i) ev = (if starting i ev then Some Over else None)"
| "job_protocol deps p Over ev = quietly Over ev"

fun calm :: "job_stage \<Rightarrow> bool" where
  "calm Known = True"
| "calm (Startable i) = True"
| "calm Vacant = True"
| "calm Over = True"
| "calm _ = False"

lemma calm_quiet: "calm s \<Longrightarrow> quiet_event ev \<Longrightarrow> job_protocol deps p s ev = Some s"
  by (cases s; cases ev) (auto simp: quietly_def starting_def)

section \<open>Every start keeps to it\<close>

text \<open>What a monitor has to tolerate for an invariant to survive the quiet parts of a job's operations.\<close>

locale quiet_writes =
  fixes mon :: "('s, worker_event) monitor" and I :: "'s \<Rightarrow> bool"
  assumes quiet: "quiet_event ev \<Longrightarrow> I s \<Longrightarrow> \<exists>s'. mon s ev = Some s' \<and> I s'"
begin

lemma calls_kept:
  "keeps mon I (fs_mkdir (watch_files fs) d)" "keeps mon I (fs_writeFile (watch_files fs) d t)"
  "keeps mon I (fs_rename (watch_files fs) d e)" "keeps mon I (wk_ensureNetwork (watch dk) d ls)"
  "keeps mon I (wk_inspectImage (watch dk) d)" "keeps mon I (wk_pullImage (watch dk) d)"
  "keeps mon I (wk_listContainersUsingVolume (watch dk) d)" "keeps mon I (io_now (traced_clock c))"
  unfolding watch_files_simps watch_simps by (auto intro!: keeps_call keeps_result obeys_rules quiet)

lemma write_kept:
  "keeps mon I (writeWorkerJobReceipt (watch_jobs deps) r)"
  "keeps mon I (write_and_answer (watch_jobs deps) r)"
  "keeps mon I (toTerminalWorkerJobReceipt (traced_clock c) r i)"
  "keeps mon I (or_now (traced_clock c) v)"
  unfolding write_and_answer_def writeWorkerJobReceipt_def toTerminalWorkerJobReceipt_def completed_at_def or_now_def Let_def
    watch_jobs_simps
  by (intro obeys_rules calls_kept)+

lemma recover_kept: "keeps mon I (recoverWorkerJobReceiptFromContainer (traced_clock c) i sv run expected)"
proof -
  have "keeps mon I (recovered_state (traced_clock c) i r)" for r
    unfolding recovered_state_def Let_def by (intro obeys_rules write_kept)
  then show ?thesis
    unfolding recoverWorkerJobReceiptFromContainer_def Let_def
    by (intro obeys_rules) (auto split: prod.splits option.splits intro!: obeys_rules write_kept)
qed

lemma prepare_kept:
  "keeps mon I (assertWorkerJobVolumeAvailable (watch dk) v)" "keeps mon I (ensureWorkerImage (watch dk) e im)"
  unfolding assertWorkerJobVolumeAvailable_def ensureWorkerImage_def Let_def by (intro obeys_rules calls_kept)+

end

interpretation calm: quiet_writes "job_protocol deps p" "\<lambda>x. x = s \<and> calm s" for deps :: "'w job_deps" and p s
  by unfold_locales (auto dest: calm_quiet)

lemma calmD: "keeps mon (\<lambda>x. x = s \<and> calm s) m \<Longrightarrow> calm s \<Longrightarrow> obeys mon s m (\<lambda>r x. x = s)"
  by (auto elim!: obeys_conseq dest!: keepsD)

text \<open>Finding the receipt of a run.\<close>

definition found :: "js_error + job_receipt option \<Rightarrow> job_stage \<Rightarrow> bool" where
  "found r s \<longleftrightarrow> (case r of Inl e \<Rightarrow> True | Inr c \<Rightarrow> if c = None then s = Vacant else s = Known)"

definition read_so_far :: "js_error + job_receipt option \<Rightarrow> job_stage \<Rightarrow> bool" where
  "read_so_far r s \<longleftrightarrow> (case r of Inl e \<Rightarrow> is_ENOENT e \<longrightarrow> s = Unrecorded | Inr c \<Rightarrow> c \<noteq> None \<and> s = Known)"

lemma no_ENOENT:
  "json_parse t = Inl e \<Longrightarrow> \<not> is_ENOENT e" "parsed_receipt i v = Inl e \<Longrightarrow> \<not> is_ENOENT e"
  by (cases t; auto) (cases "(i, v)" rule: parsed_receipt.cases;
      auto simp: checked_receipt_def invalid_receipt_def Let_def split: if_splits)

lemma read_stage:
  "obeys (job_protocol deps p) Asked (readWorkerJobReceipt (watch_jobs deps) (jp_scheduleRunId p))
     (\<lambda>r s. case r of Inl e \<Rightarrow> True | Inr c \<Rightarrow> if c = None then s = Unrecorded else s = Known)"
  unfolding readWorkerJobReceipt_def watch_jobs_simps watch_files_simps
proof (rule obeys_catch [where P = read_so_far], rule obeys_bind_result)
  fix r
  have known: "obeys (job_protocol deps p) Known (case json_parse t of Inl e \<Rightarrow> io_throw e
        | Inr v \<Rightarrow> (case parsed_receipt (jp_scheduleRunId p) v of Inl e \<Rightarrow> io_throw e | Inr r \<Rightarrow> io_return (Some r)))
      read_so_far" for t
    using no_ENOENT by (auto intro!: obeys_return obeys_throw simp: read_so_far_def split: sum.splits)
  show "\<exists>s'. job_protocol deps p Asked (ReadFile (receipt_path deps (jp_scheduleRunId p)) r) = Some s' \<and>
      (case r of Inl e \<Rightarrow> read_so_far (Inl e) s' | Inr raw \<Rightarrow> obeys (job_protocol deps p) s' (case json_parse raw of Inl e \<Rightarrow> io_throw e
        | Inr v \<Rightarrow> (case parsed_receipt (jp_scheduleRunId p) v of Inl e \<Rightarrow> io_throw e | Inr r \<Rightarrow> io_return (Some r))) read_so_far)"
    by (cases r) (simp_all add: job_file_def read_so_far_def known)
qed (auto intro!: obeys_return obeys_throw simp: read_so_far_def)

lemma find_stage:
  "obeys (job_protocol deps p) Asked (find_receipt (watch_jobs deps) (jp_serviceId p) (jp_scheduleRunId p) expected) found"
  unfolding find_receipt_def
proof (rule obeys_bind [OF read_stage])
  fix x :: "job_receipt option" and s
  assume x: "case Inr x of Inl e \<Rightarrow> True | Inr c \<Rightarrow> if c = None then s = Unrecorded else s = Known"
  have written: "obeys (job_protocol deps p) Known (io_bind (writeWorkerJobReceipt (watch_jobs deps) r) (\<lambda>_. io_return (Some r))) found" for r
    by (rule obeys_bind [OF calmD [OF calm.write_kept(1)]]) (auto intro!: obeys_return simp: found_def)
  have recovered: "obeys (job_protocol deps p) Known (io_bind
        (recoverWorkerJobReceiptFromContainer (traced_clock (jd_clock deps)) c (jp_serviceId p) (jp_scheduleRunId p) expected) (\<lambda>r. case r of
             None \<Rightarrow> io_throw e
           | Some r \<Rightarrow> io_bind (writeWorkerJobReceipt (watch_jobs deps) r) (\<lambda>_. io_return (Some r)))) found" for c e
    by (rule obeys_bind [OF calmD [OF calm.recover_kept]])
      (auto intro!: obeys_throw written simp: found_def split: option.splits)
  have "obeys (job_protocol deps p) Unrecorded
      (recoverMissingWorkerJobReceipt (watch_jobs deps) (jp_serviceId p) (jp_scheduleRunId p) expected) found"
    unfolding recoverMissingWorkerJobReceipt_def Let_def watch_jobs_simps watch_simps
    by (rule obeys_bind_result)
      (auto simp: job_name_def recovered found_def intro!: obeys_return split: sum.splits option.splits)
  then show "obeys (job_protocol deps p) s (case x of None \<Rightarrow>
        recoverMissingWorkerJobReceipt (watch_jobs deps) (jp_serviceId p) (jp_scheduleRunId p) expected
      | Some r \<Rightarrow> io_return (Some r)) found"
    using x by (auto intro!: obeys_return simp: found_def split: option.splits)
qed (simp add: found_def)

text \<open>Resuming a run that is known.\<close>

abbreviation anyhow :: "js_error + 'a \<Rightarrow> job_stage \<Rightarrow> bool" where
  "anyhow r s \<equiv> True"

lemma keeps_anyhow: "keeps mon (\<lambda>x. x = s \<and> calm s) m \<Longrightarrow> calm s \<Longrightarrow> obeys mon s m anyhow"
  by (rule obeys_conseq [OF calmD]) simp_all

lemma resume_stage: "obeys (job_protocol deps p) Known (resume_job (watch_jobs deps) r) anyhow"
proof -
  have settle: "calm s \<Longrightarrow> obeys (job_protocol deps p) s
      (io_bind (toTerminalWorkerJobReceipt (jd_clock (watch_jobs deps)) r c) (write_and_answer (watch_jobs deps))) anyhow" for s c
    unfolding watch_jobs_simps by (intro keeps_anyhow keeps_bind calm.write_kept)
  have start: "obeys (job_protocol deps p) (Startable i)
      (io_bind (log_call (Did (Start i)) m) (\<lambda>_. write_and_answer (watch_jobs deps) r')) anyhow" for i m r'
    by (rule obeys_bind_call [where s' = Over]) (auto simp: starting_def intro: keeps_anyhow [OF calm.write_kept(2)])
  have look: "obeys (job_protocol deps p) (if never_started c then Startable (wj_containerId r) else Over)
      (if Option.bind c (state_of cs_Running) = Some True then io_return (running_answer (jd_environment (watch_jobs deps)) r)
       else if wj_status r = ''created'' \<and> Option.bind c (state_of cs_Status) = Some ''created'' then
         io_bind (log_call (Did (Start (wj_containerId r))) m) (\<lambda>_. write_and_answer (watch_jobs deps) (r\<lparr>wj_status := ''running''\<rparr>))
       else io_bind (toTerminalWorkerJobReceipt (jd_clock (watch_jobs deps)) r c) (write_and_answer (watch_jobs deps))) anyhow" for c m
    using settle start by (auto simp: never_started_def intro!: obeys_return)
  note look = look [unfolded watch_jobs_simps]
  show ?thesis
  proof (cases "isWorkerJobTerminal r")
    case False
    show ?thesis
      unfolding resume_job_def watch_jobs_simps watch_simps if_not_P [OF False]
      apply (rule obeys_bind_result)
      subgoal for q by (cases q) (simp_all add: look)
      done
  qed (simp add: resume_job_def obeys_return)
qed

text \<open>Launching a run that is not.\<close>

lemma fresh_recorded: "records (jp_scheduleRunId p) i (stringified (receipt_members (fresh_receipt p i t)))"
proof -
  obtain v where v: "json_parse (stringified (receipt_members (fresh_receipt p i t))) = Inr v" by (simp add: stringified_def)
  from written_receipt_reads_back [OF v] show ?thesis by (simp add: records_def v) (simp add: fresh_receipt_def)
qed

lemma launch_stage: "obeys (job_protocol deps p) Checked (launch_job (watch_jobs deps) p command) anyhow"
proof -
  have run: "wj_scheduleRunId (fresh_receipt p i t) = jp_scheduleRunId p" for i t by (simp add: fresh_receipt_def)
  have wrote: "obeys (job_protocol deps p) (Made i) (writeWorkerJobReceipt (watch_jobs deps) (fresh_receipt p i t))
      (\<lambda>r s. \<not> isl r \<longrightarrow> s = Recorded i)" for i t
    unfolding writeWorkerJobReceipt_def Let_def watch_jobs_simps watch_files_simps run
    by (rule obeys_bind_call [where s' = "Made i"]; (rule obeys_bind_result obeys_result)?)
      (auto simp: job_draft_def job_file_def fresh_recorded intro!: obeys_result split: sum.splits)
  have started: "obeys (job_protocol deps p) (Recorded i) (io_bind (log_call (Did (Start i)) m) (\<lambda>_.
      io_bind (write_and_answer (watch_jobs deps) r) (\<lambda>a. io_return (f a)))) anyhow" for i m r and f :: "job_answer \<Rightarrow> job_answer"
    by (rule obeys_bind_call [where s' = Over]) (auto simp: starting_def intro!: keeps_anyhow [OF keeps_bind [OF calm.write_kept(2)]] obeys_rules)
  have now: "keeps mon (\<lambda>x. x = s) (io_now (traced_clock c))" for mon :: "('s, worker_event) monitor" and s c
    by (simp add: obeys_rules)
  have made: "obeys (job_protocol deps p) (Made i) (io_bind (io_now (traced_clock (jd_clock deps))) (\<lambda>t.
      io_bind (writeWorkerJobReceipt (watch_jobs deps) (fresh_receipt p i t)) (\<lambda>_.
      io_bind (log_call (Did (Start i)) m) (\<lambda>_.
      io_bind (write_and_answer (watch_jobs deps) ((fresh_receipt p i t)\<lparr>wj_status := ''running''\<rparr>)) (\<lambda>a.
      io_return ((with_instances a)\<lparr>an_timeoutSeconds := Some (jp_timeoutSeconds p)\<rparr>)))))) anyhow" for i m
    by (rule obeys_bind [OF keepsD [OF now refl]]) (auto intro!: obeys_bind [OF wrote] started)
  show ?thesis
    unfolding launch_job_def watch_jobs_simps watch_simps
    by (rule obeys_bind [OF obeys_either [where Q = "\<lambda>r s. s = Checked"]], simp, simp, rule obeys_bind_result)
      (use made in \<open>auto simp: job_container_def job_name_def split: sum.splits\<close>)
qed

lemma vacant_step:
  assumes "keeps (job_protocol deps p) (\<lambda>x. x = Vacant \<and> calm Vacant) m" and "\<And>x. obeys (job_protocol deps p) Vacant (f x) anyhow"
  shows "obeys (job_protocol deps p) Vacant (io_bind m f) anyhow"
  by (rule obeys_bind [OF calmD [OF assms(1)]]) (use assms(2) in simp_all)

lemma first_start_stage: "obeys (job_protocol deps p) Vacant (first_start (watch_jobs deps) p command) anyhow"
proof -
  have "obeys (job_protocol deps p) Vacant (io_bind (inspectContainer (wk_docker (watch dk)) (job_name p)) (\<lambda>existing.
      if existing \<noteq> None then io_throw e else launch_job (watch_jobs deps) p command)) anyhow" for dk :: "'a worker_docker" and e
    unfolding watch_simps by (rule obeys_bind_result) (auto intro: obeys_throw launch_stage split: sum.splits)
  then show ?thesis
    unfolding first_start_def Let_def watch_jobs_simps job_name_def [symmetric]
    by (intro vacant_step [OF calm.prepare_kept(1)] vacant_step [OF calm.calls_kept(4)] vacant_step [OF calm.prepare_kept(2)]) simp
qed

lemma start_stage: "obeys (job_protocol deps p) Asked (startWorkerJob (watch_jobs deps) p) anyhow"
proof (cases "normalizeWorkerCommand (Some (jp_command p))")
  case (Some command)
  have "obeys (job_protocol deps p) Asked (io_bind (find_receipt (watch_jobs deps) (jp_serviceId p) (jp_scheduleRunId p) (expected_labels p))
      (\<lambda>r. case r of None \<Rightarrow> first_start (watch_jobs deps) p command | Some r \<Rightarrow> resume_job (watch_jobs deps) r)) anyhow"
    by (rule obeys_bind [OF find_stage]) (auto simp: found_def intro: first_start_stage resume_stage split: option.splits)
  then show ?thesis
    unfolding startWorkerJob_def Some option.case
    by (intro obeys_bind [OF obeys_either [where Q = "\<lambda>r s. s = Asked"]]) simp_all
qed (simp add: startWorkerJob_def obeys_throw)

text \<open>C11 The calls of a start follow the protocol of a job. A container is created only after the receipt was
  found not to exist and Docker answered, twice, that there is no container of the run's name; it is of that
  name. Nothing is started but that container, once the receipt that records it as created was written
  beside the receipt's file and moved into place, or a container whose last inspection, after a receipt was
  found or recovered, showed it created and not running. After a start nothing is created or started.\<close>

theorem job_start_follows_protocol:
  assumes "startWorkerJob (watch_jobs deps) p (w, []) = Some (r, (w', k))"
  shows "run_monitor (job_protocol deps p) Asked k \<noteq> None"
  using obeysD [OF start_stage assms] by auto

lemma one_job_watched:
  "\<exists>a k. startWorkerJob (watch_jobs one_job) one_job_payload (no_jobs, []) = Some (Inr a, (has_receipt ran_receipt, k)) \<and>
     Did (Start ''c'') \<in> set k"
  unfolding startWorkerJob_def one_job_valid option.case
  by (simp add: one_job_simps find_receipt_def readWorkerJobReceipt_def recoverMissingWorkerJobReceipt_def Let_def first_start_def
      assertWorkerJobVolumeAvailable_def one_job_valid ensureWorkerImage_def launch_job_def writeWorkerJobReceipt_def
      write_and_answer_def has_receipt_def ran_receipt_def watch_jobs_def log_result_def log_call_def traced_clock_def)

lemma job_start_follows_protocol_witness:
  "\<exists>r w' k. startWorkerJob (watch_jobs one_job) one_job_payload (no_jobs, []) = Some (r, (w', k)) \<and> Did (Start ''c'') \<in> set k \<and>
     run_monitor (job_protocol one_job one_job_payload) Asked k \<noteq> None"
proof -
  from one_job_watched obtain a k where
    run: "startWorkerJob (watch_jobs one_job) one_job_payload (no_jobs, []) = Some (Inr a, (has_receipt ran_receipt, k))"
    and "Did (Start ''c'') \<in> set k" by blast
  with job_start_follows_protocol [OF run] show ?thesis by blast
qed

section \<open>A cleanup\<close>

text \<open>The last calls before an event, newest first.\<close>

definition remembering :: "worker_event list \<Rightarrow> worker_event \<Rightarrow> worker_event list option" where
  "remembering k ev = Some (k @ [ev])"

lemma remembering_run: "run_monitor remembering s k = Some (s @ k)"
  by (induction k arbitrary: s) (auto simp: remembering_def)

definition undeleted :: "worker_event list \<Rightarrow> bool" where
  "undeleted k \<longleftrightarrow> (\<forall>f. Deleted f \<notin> set k)"

lemma undeleted_Nil: "undeleted []"
  by (simp add: undeleted_def)

interpretation undeleted: quiet_writes remembering undeleted
  by unfold_locales (auto simp: remembering_def undeleted_def)

text \<open>The log of a cleanup that came to delete the receipt.\<close>

definition cleaned :: "string \<Rightarrow> worker_event list \<Rightarrow> bool" where
  "cleaned f k \<longleftrightarrow> (\<exists>pre i c. k = pre @ [Saw i (Inr c), Did (Remove i True), Saw i (Inr None), Deleted f] \<and>
     undeleted pre \<and> Option.bind c (state_of cs_Running) \<noteq> Some True)"

lemma remove_job_log:
  assumes "undeleted k"
  shows "obeys remembering k (remove_job (watch_jobs deps) r i) (\<lambda>r k. undeleted k \<or> cleaned (receipt_path deps i) k)"
proof -
  let ?j = "wj_containerId r"
  let ?Q = "\<lambda>r k. undeleted k \<or> cleaned (receipt_path deps i) k"
  have saw: "undeleted (k @ [Saw n q])" "undeleted (k @ [Saw n q, Did c])" "undeleted (k @ [Saw n q, Did c, Saw n2 q2])" for n q c n2 q2
    using assms by (auto simp: undeleted_def)
  have last: "obeys remembering (k @ [Saw ?j (Inr c), Did (Remove ?j True), Saw ?j (Inr None)])
      (io_bind (log_call (Deleted (receipt_path deps i)) m) (\<lambda>_. io_return x)) ?Q"
    if "Option.bind c (state_of cs_Running) \<noteq> Some True" for c m x
    using assms that by (intro obeys_bind_call) (auto simp: remembering_def cleaned_def intro!: obeys_return)
  have gone: "obeys remembering (k @ [Saw ?j (Inr c), Did (Remove ?j True)]) (io_bind (log_result (Saw ?j) m) (\<lambda>after.
      if after \<noteq> None then io_throw e else io_bind (log_call (Deleted (receipt_path deps i)) m') (\<lambda>_. io_return x))) ?Q"
    if "Option.bind c (state_of cs_Running) \<noteq> Some True" for c m e m' x
    by (rule obeys_bind_result) (auto simp: remembering_def saw simp del: not_None_eq intro!: obeys_throw last that split: sum.splits)
  have removed: "obeys remembering (k @ [Saw ?j (Inr c)]) (io_bind (log_call (Did (Remove ?j True)) m0) (\<lambda>_.
      io_bind (log_result (Saw ?j) m) (\<lambda>after. if after \<noteq> None then io_throw e
        else io_bind (log_call (Deleted (receipt_path deps i)) m') (\<lambda>_. io_return x)))) ?Q"
    if "Option.bind c (state_of cs_Running) \<noteq> Some True" for c m0 m e m' x
    by (rule obeys_bind_call) (use gone [OF that] in \<open>auto simp: remembering_def saw\<close>)
  show ?thesis
    unfolding remove_job_def watch_jobs_simps watch_simps watch_files_simps
    by (rule obeys_bind_result) (auto simp: remembering_def saw simp del: not_None_eq intro!: obeys_throw removed split: sum.splits)
qed

lemma find_undeleted: "keeps remembering undeleted (find_receipt (watch_jobs deps) sv i expected)"
proof -
  have ev: "\<exists>s'. remembering s e = Some s' \<and> undeleted s'" if "undeleted s" "\<forall>f. e \<noteq> Deleted f" for s e
    using that by (auto simp: remembering_def undeleted_def)
  have "keeps remembering undeleted (fs_readFile (watch_files fs) f)" "keeps remembering undeleted (inspectContainer (wk_docker (watch d)) n)" for fs f d n
    by (auto intro!: keeps_result ev)
  then show ?thesis
    unfolding find_receipt_def readWorkerJobReceipt_def recoverMissingWorkerJobReceipt_def Let_def watch_jobs_simps
    by (intro obeys_rules undeleted.write_kept undeleted.recover_kept)
qed


lemma one_job_cleaned:
  "\<exists>r w' k. cleanupWorkerJob (watch_jobs one_job) ''svc'' ''run1'' (has_receipt done_receipt, []) = Some (r, (w', k)) \<and>
     (\<exists>f. Deleted f \<in> set k)"
proof -
  have r: "wj_scheduleRunId done_receipt = ''run1''" by (simp add: done_receipt_def ran_simps)
  have c: "wj_containerId done_receipt = ''c''" by (simp add: done_receipt_def ran_simps)
  have "fs_readFile (jd_files (watch_jobs one_job)) (receipt_path (watch_jobs one_job) ''run1'') (has_receipt done_receipt, [])
      = Some (Inr (stringified (receipt_members done_receipt)), (has_receipt done_receipt,
          [ReadFile (receipt_path one_job ''run1'') (Inr (stringified (receipt_members done_receipt)))]))"
    by (simp add: has_receipt_def one_job_def job_disk_def log_result_def)
  from read_written_receipt [OF this r] show ?thesis
    by (simp add: cleanupWorkerJob_def find_receipt_def io_bind_def io_return_def)
      (simp add: remove_job_def c one_job_def job_host_def job_daemon_def job_disk_def has_receipt_def job_shown_def
        io_bind_def io_return_def log_result_def log_call_def watch_jobs_def)
qed


end
