(* ===== verification/Log_Matcher.thy ===== *)
theory Log_Matcher
  imports Prelude "HOL-Library.Sublist"
begin

text \<open>
  The matcher of \<open>packages/runtime/src/logging.ts\<close>: an automaton, kept as an array of nodes, that finds at
  every position of a text the longest secret that starts there, reading the text once from its end. It is
  built as a trie of the reversed secrets and then given its failure links breadth first. The theorem is that
  it computes what comparing every secret at every position would.
\<close>

section \<open>Nodes\<close>

record 'c matcher_node =
  mn_failure :: nat
  mn_maxOutputLength :: nat
  mn_transitions :: "('c \<times> nat) list"

type_synonym 'c matcher = "'c matcher_node list"

definition new_node :: "'c matcher_node" where
  "new_node = \<lparr>mn_failure = 0, mn_maxOutputLength = 0, mn_transitions = []\<rparr>"

text \<open>\<open>nodes[state]?.transitions.get(character)\<close>, \<open>nodes[state]?.failure ?? 0\<close> and its output.\<close>

definition transition :: "'c matcher \<Rightarrow> nat \<Rightarrow> 'c \<Rightarrow> nat option" where
  "transition nodes state c = (if state < length nodes then map_of (mn_transitions (nodes ! state)) c else None)"

definition failure_of :: "'c matcher \<Rightarrow> nat \<Rightarrow> nat" where
  "failure_of nodes state = (if state < length nodes then mn_failure (nodes ! state) else 0)"

definition output_of :: "'c matcher \<Rightarrow> nat \<Rightarrow> nat" where
  "output_of nodes state = (if state < length nodes then mn_maxOutputLength (nodes ! state) else 0)"

definition children :: "'c matcher \<Rightarrow> nat \<Rightarrow> ('c \<times> nat) list" where
  "children nodes state = (if state < length nodes then mn_transitions (nodes ! state) else [])"

section \<open>Building\<close>

fun add_character :: "'c \<Rightarrow> 'c matcher \<times> nat \<Rightarrow> 'c matcher \<times> nat" where
  "add_character c (nodes, state) =
     (case transition nodes state c of
        Some next \<Rightarrow> (nodes, next)
      | None \<Rightarrow> (nodes[state := (nodes ! state)\<lparr>mn_transitions := mn_transitions (nodes ! state) @ [(c, length nodes)]\<rparr>] @ [new_node],
          length nodes))"

definition mark_output :: "nat \<Rightarrow> nat \<Rightarrow> 'c matcher \<Rightarrow> 'c matcher" where
  "mark_output state n nodes =
     nodes[state := (nodes ! state)\<lparr>mn_maxOutputLength := max (mn_maxOutputLength (nodes ! state)) n\<rparr>]"

definition add_secret :: "'c list \<Rightarrow> 'c matcher \<Rightarrow> 'c matcher" where
  "add_secret secret nodes =
     (let (nodes', state) = fold add_character (rev secret) (nodes, 0) in mark_output state (length secret) nodes')"

text \<open>The loop up the failure links, to a node with a transition, or to the root.\<close>

partial_function (option) follow :: "'c matcher \<Rightarrow> 'c \<Rightarrow> nat \<Rightarrow> nat option" where
  "follow nodes c state =
     (if state \<noteq> 0 \<and> transition nodes state c = None then follow nodes c (failure_of nodes state) else Some state)"

definition next_state :: "'c matcher \<Rightarrow> 'c \<Rightarrow> nat \<Rightarrow> nat option" where
  "next_state nodes c state =
     Option.bind (follow nodes c state) (\<lambda>f. Some (case transition nodes f c of None \<Rightarrow> 0 | Some t \<Rightarrow> t))"

primrec link_children :: "nat \<Rightarrow> ('c \<times> nat) list \<Rightarrow> 'c matcher \<Rightarrow> 'c matcher option" where
  "link_children state [] nodes = Some nodes"
| "link_children state (t # ts) nodes =
     Option.bind (next_state nodes (fst t) (failure_of nodes state)) (\<lambda>f.
       link_children state ts (nodes[snd t := (nodes ! snd t)\<lparr>mn_failure := f\<rparr>]))"

text \<open>The queue from its index on.\<close>

partial_function (option) link_states :: "nat list \<Rightarrow> 'c matcher \<Rightarrow> 'c matcher option" where
  "link_states queue nodes =
     (if queue = [] then Some nodes
      else if hd queue < length nodes then
        Option.bind (link_children (hd queue) (children nodes (hd queue))
            (mark_output (hd queue) (output_of nodes (failure_of nodes (hd queue))) nodes)) (\<lambda>nodes'.
          link_states (tl queue @ map snd (children nodes (hd queue))) nodes')
      else link_states (tl queue) nodes)"

definition createLiteralSecretMatcher :: "'c list list \<Rightarrow> 'c matcher option" where
  "createLiteralSecretMatcher secretValues =
     (let nodes = fold add_secret secretValues [new_node] in link_states (map snd (children nodes 0)) nodes)"

declare follow.simps [code] link_states.simps [code]

section \<open>Scanning\<close>

text \<open>The loop from the last character to the first: the state it is in, and the longest matches so far.\<close>

primrec scan :: "'c matcher \<Rightarrow> 'c list \<Rightarrow> (nat \<times> nat list) option" where
  "scan nodes [] = Some (0, [])"
| "scan nodes (c # cs) =
     Option.bind (scan nodes cs) (\<lambda>(state, ls).
     Option.bind (next_state nodes c state) (\<lambda>s. Some (s, output_of nodes s # ls)))"

section \<open>What it computes\<close>

text \<open>The longest secret a text starts with, by trying them all.\<close>

fun longest_match :: "'c list list \<Rightarrow> 'c list \<Rightarrow> nat" where
  "longest_match [] w = 0"
| "longest_match (s # ss) w = (if prefix s w then max (length s) (longest_match ss w) else longest_match ss w)"

primrec longest_matches :: "'c list list \<Rightarrow> 'c list \<Rightarrow> nat list" where
  "longest_matches secrets [] = []"
| "longest_matches secrets (c # cs) = longest_match secrets (c # cs) # longest_matches secrets cs"

section \<open>Words\<close>

text \<open>The longest word of a set that a word starts with, and the longest that is shorter than it.\<close>

definition longest_in :: "'c list set \<Rightarrow> 'c list \<Rightarrow> 'c list \<Rightarrow> bool" where
  "longest_in S w u \<longleftrightarrow> u \<in> S \<and> prefix u w \<and> (\<forall>v \<in> S. prefix v w \<longrightarrow> prefix v u)"

definition fails_to :: "'c list set \<Rightarrow> 'c list \<Rightarrow> 'c list \<Rightarrow> bool" where
  "fails_to S w u \<longleftrightarrow> u \<in> S \<and> strict_prefix u w \<and> (\<forall>v \<in> S. strict_prefix v w \<longrightarrow> prefix v u)"

definition suffix_closed :: "'c list set \<Rightarrow> bool" where
  "suffix_closed S \<longleftrightarrow> [] \<in> S \<and> (\<forall>c v. c # v \<in> S \<longrightarrow> v \<in> S)"

lemma suffix_closed_Nil [simp]: "suffix_closed S \<Longrightarrow> [] \<in> S"
  by (simp add: suffix_closed_def)

lemma suffix_closedD: "suffix_closed S \<Longrightarrow> c # v \<in> S \<Longrightarrow> v \<in> S"
  by (auto simp: suffix_closed_def)

lemma longest_in_self: "w \<in> S \<Longrightarrow> longest_in S w w"
  by (simp add: longest_in_def)

lemma longest_in_step:
  assumes "suffix_closed S" "longest_in S w u" "longest_in S (c # u) x"
  shows "longest_in S (c # w) x"
  unfolding longest_in_def
proof (intro conjI ballI impI)
  show "x \<in> S" using assms(3) by (simp add: longest_in_def)
  show "prefix x (c # w)" using assms(2,3) by (auto simp: longest_in_def prefix_Cons)
  fix v assume v: "v \<in> S" "prefix v (c # w)"
  then have "prefix v (c # u)" using assms(1,2) by (auto simp: longest_in_def prefix_Cons dest: suffix_closedD)
  with v assms(3) show "prefix v x" by (simp add: longest_in_def)
qed

lemma longest_in_fails:
  assumes "suffix_closed S" "c # u \<notin> S" "fails_to S u f" "longest_in S (c # f) x"
  shows "longest_in S (c # u) x"
  unfolding longest_in_def
proof (intro conjI ballI impI)
  show "x \<in> S" using assms(4) by (simp add: longest_in_def)
  show "prefix x (c # u)" using assms(3,4) by (auto simp: longest_in_def fails_to_def prefix_Cons strict_prefix_def)
  fix v assume v: "v \<in> S" "prefix v (c # u)"
  then have "prefix v (c # f)"
    using assms(1-3) by (auto simp: fails_to_def prefix_Cons strict_prefix_def dest: suffix_closedD)
  with v assms(4) show "prefix v x" by (simp add: longest_in_def)
qed

lemma longest_in_Nil: "suffix_closed S \<Longrightarrow> [c] \<notin> S \<Longrightarrow> longest_in S [c] []"
  by (auto simp: longest_in_def prefix_Cons)

lemma fails_to_step:
  assumes "suffix_closed S" "fails_to S u f" "longest_in S (c # f) x"
  shows "fails_to S (c # u) x"
  unfolding fails_to_def
proof (intro conjI ballI impI)
  show "x \<in> S" using assms(3) by (simp add: longest_in_def)
  show "strict_prefix x (c # u)"
    using assms(2,3) by (auto simp: longest_in_def fails_to_def prefix_Cons strict_prefix_def)
  fix v assume v: "v \<in> S" "strict_prefix v (c # u)"
  then have "prefix v (c # f)"
    using assms(1,2) by (auto simp: fails_to_def prefix_Cons strict_prefix_def dest: suffix_closedD)
  with v assms(3) show "prefix v x" by (simp add: longest_in_def)
qed

lemma fails_to_Nil: "suffix_closed S \<Longrightarrow> fails_to S [c] []"
  by (auto simp: fails_to_def strict_prefix_def prefix_Cons)

lemma fails_to_shorter: "fails_to S w u \<Longrightarrow> length u < length w"
  by (simp add: fails_to_def prefix_length_less)

lemma longest_match_longest_in:
  "longest_in S w u \<Longrightarrow> set secrets \<subseteq> S \<Longrightarrow> longest_match secrets u = longest_match secrets w"
proof (induction secrets)
  case (Cons s ss)
  have "prefix s u \<longleftrightarrow> prefix s w"
    using Cons.prems by (auto simp: longest_in_def intro: prefix_order.trans)
  with Cons show ?case by simp
qed simp

lemma longest_match_fails_to:
  "fails_to S u f \<Longrightarrow> set secrets \<subseteq> S \<Longrightarrow>
    longest_match secrets u = max (if u \<in> set secrets then length u else 0) (longest_match secrets f)"
proof (induction secrets)
  case (Cons s ss)
  have "prefix s u \<longleftrightarrow> s = u \<or> prefix s f"
    using Cons.prems by (auto simp: fails_to_def strict_prefix_def intro: prefix_order.trans)
  moreover have "prefix s f \<Longrightarrow> length s \<le> length f" by (rule prefix_length_le)
  ultimately show ?case using Cons fails_to_shorter [OF Cons.prems(1)] by auto
qed simp

section \<open>The trie\<close>

text \<open>Every node stands for a word, the reading of the text from its characters on.\<close>

definition words :: "'c matcher \<Rightarrow> (nat \<Rightarrow> 'c list) \<Rightarrow> 'c list set" where
  "words nodes lab = lab ` {..<length nodes}"

definition trie :: "'c matcher \<Rightarrow> (nat \<Rightarrow> 'c list) \<Rightarrow> bool" where
  "trie nodes lab \<longleftrightarrow> nodes \<noteq> [] \<and> lab 0 = [] \<and> inj_on lab {..<length nodes} \<and> suffix_closed (words nodes lab) \<and>
     (\<forall>s < length nodes. distinct (map fst (children nodes s))) \<and>
     (\<forall>s < length nodes. \<forall>c t. (c, t) \<in> set (children nodes s) \<longleftrightarrow> t < length nodes \<and> lab t = c # lab s)"

lemma trie_simps:
  assumes "trie nodes lab"
  shows trie_pos: "0 < length nodes" and trie_root: "lab 0 = []" and trie_words: "suffix_closed (words nodes lab)"
    and trie_inj: "s < length nodes \<Longrightarrow> t < length nodes \<Longrightarrow> lab s = lab t \<longleftrightarrow> s = t"
    and trie_children: "s < length nodes \<Longrightarrow> (c, t) \<in> set (children nodes s) \<longleftrightarrow> t < length nodes \<and> lab t = c # lab s"
    and trie_distinct: "s < length nodes \<Longrightarrow> distinct (map fst (children nodes s))"
  using assms by (auto simp: trie_def inj_on_eq_iff)

lemma transition_children: "transition nodes s c = map_of (children nodes s) c"
  by (simp add: transition_def children_def)

lemma trie_transition:
  assumes "trie nodes lab" "s < length nodes"
  shows "transition nodes s c = Some t \<longleftrightarrow> t < length nodes \<and> lab t = c # lab s"
  using assms by (simp add: transition_children trie_distinct trie_children)

lemma trie_no_transition:
  assumes "trie nodes lab" "s < length nodes"
  shows "transition nodes s c = None \<longleftrightarrow> c # lab s \<notin> words nodes lab"
proof -
  have "transition nodes s c = None \<longleftrightarrow> (\<nexists>t. transition nodes s c = Some t)" by (cases "transition nodes s c") auto
  also have "\<dots> \<longleftrightarrow> c # lab s \<notin> words nodes lab"
    unfolding trie_transition [OF assms] words_def by (metis (no_types, lifting) imageE image_eqI lessThan_iff)
  finally show ?thesis .
qed

lemma wordsI: "s < length nodes \<Longrightarrow> lab s \<in> words nodes lab"
  by (simp add: words_def)

lemma trie_root_iff: "trie nodes lab \<Longrightarrow> s < length nodes \<Longrightarrow> lab s = [] \<longleftrightarrow> s = 0"
  using trie_inj [of nodes lab s 0] trie_root [of nodes lab] trie_pos [of nodes lab] by auto

text \<open>A trie is its transitions.\<close>

lemma trie_cong:
  assumes "map mn_transitions nodes' = map mn_transitions nodes"
  shows "trie nodes' lab = trie nodes lab" and "words nodes' lab = words nodes lab"
    and "children nodes' = children nodes" and "length nodes' = length nodes"
proof -
  show l: "length nodes' = length nodes" using assms by (rule map_eq_imp_length_eq)
  then show w: "words nodes' lab = words nodes lab" by (simp add: words_def)
  show c: "children nodes' = children nodes"
  proof
    fix s show "children nodes' s = children nodes s"
      using arg_cong [OF assms, of "\<lambda>xs. xs ! s"] l by (cases "s < length nodes") (auto simp: children_def)
  qed
  have "nodes' = [] \<longleftrightarrow> nodes = []" using l by (cases nodes; cases nodes') auto
  with l w c show "trie nodes' lab = trie nodes lab" by (simp add: trie_def)
qed

section \<open>Adding secrets\<close>

text \<open>The trie of some secrets, before it is linked.\<close>

definition unlinked :: "'c matcher \<Rightarrow> (nat \<Rightarrow> 'c list) \<Rightarrow> 'c list set \<Rightarrow> bool" where
  "unlinked nodes lab R \<longleftrightarrow> trie nodes lab \<and> R \<subseteq> words nodes lab \<and>
     (\<forall>s < length nodes. output_of nodes s = (if lab s \<in> R then length (lab s) else 0)) \<and>
     (\<forall>s. failure_of nodes s = 0)"

lemma unlinked_start: "unlinked [new_node] (\<lambda>_. []) {}"
  by (auto simp: unlinked_def trie_def words_def suffix_closed_def children_def output_of_def failure_of_def new_node_def inj_on_def)

lemma add_character_trie:
  assumes t: "trie nodes lab" "s < length nodes" "transition nodes s c = None"
    and n: "nodes' = nodes[s := (nodes ! s)\<lparr>mn_transitions := mn_transitions (nodes ! s) @ [(c, length nodes)]\<rparr>] @ [new_node]"
    and l: "lab' = lab(length nodes := c # lab s)"
  shows "trie nodes' lab'" and "words nodes' lab' = insert (c # lab s) (words nodes lab)"
proof -
  have len: "length nodes' = Suc (length nodes)" using n by simp
  have lab: "lab' i = (if i = length nodes then c # lab s else lab i)" for i by (simp add: l)
  show w: "words nodes' lab' = insert (c # lab s) (words nodes lab)"
    by (auto simp: words_def len lessThan_Suc lab)
  have fresh: "c # lab s \<notin> words nodes lab" using trie_no_transition [OF t(1,2)] t(3) by simp
  have ne: "lab i \<noteq> c # lab s" if "i < length nodes" for i using fresh wordsI [OF that, of lab] by metis
  have "inj_on lab {..<length nodes}" using t(1) by (simp add: trie_def)
  then have inj: "inj_on lab' {..<length nodes'}"
    using ne ne [symmetric] by (auto simp: len lessThan_Suc inj_on_def lab)
  have cl: "suffix_closed (words nodes' lab')"
    using trie_words [OF t(1)] wordsI [OF t(2), of lab] unfolding w by (auto simp: suffix_closed_def)
  have ch: "children nodes' i = (if i = s then children nodes s @ [(c, length nodes)] else children nodes i)" for i
    using t(2) by (auto simp: children_def n nth_append nth_list_update new_node_def)
  have "c \<notin> fst ` set (children nodes s)" using t(3) by (simp add: transition_children map_of_eq_None_iff)
  then have d: "distinct (map fst (children nodes' i))" if "i < length nodes'" for i
    using that t(2) trie_distinct [OF t(1)] by (auto simp: ch len less_Suc_eq)
      (simp_all add: children_def)
  have "(a, j) \<in> set (children nodes' i) \<longleftrightarrow> j < length nodes' \<and> lab' j = a # lab' i" if i: "i < length nodes'" for i a j
  proof (cases "i = length nodes")
    case True
    have "lab' j \<noteq> a # c # lab s" if "j < length nodes'"
    proof
      assume "lab' j = a # c # lab s"
      then have j: "j < length nodes" "lab j = a # c # lab s" using that by (auto simp: lab len split: if_splits)
      have "c # lab s \<in> words nodes lab"
        by (rule suffix_closedD [OF trie_words [OF t(1)]]) (use j wordsI [OF j(1), of lab] in simp)
      with fresh show False by blast
    qed
    moreover have "children nodes' i = []" using True t(2) by (simp add: ch) (simp add: children_def)
    ultimately show ?thesis using True by (auto simp: lab)
  next
    case False
    then have i': "i < length nodes" using i len by simp
    show ?thesis
      using t(2) i' trie_children [OF t(1) i'] trie_inj [OF t(1) i' t(2)]
      by (auto simp: ch lab len less_Suc_eq)
  qed
  with inj cl d show "trie nodes' lab'"
    using t trie_root [OF t(1)] by (auto simp: trie_def n lab)
qed

lemma add_character_unlinked:
  assumes u: "unlinked nodes lab R" and s: "s < length nodes" and r: "add_character c (nodes, s) = (nodes', s')"
  shows "\<exists>lab'. unlinked nodes' lab' R \<and> s' < length nodes' \<and> lab' s' = c # lab s"
proof (cases "transition nodes s c")
  case (Some t)
  with u s r show ?thesis by (auto simp: unlinked_def trie_transition)
next
  case None
  let ?lab = "lab(length nodes := c # lab s)"
  have n: "nodes' = nodes[s := (nodes ! s)\<lparr>mn_transitions := mn_transitions (nodes ! s) @ [(c, length nodes)]\<rparr>] @ [new_node]"
    and s': "s' = length nodes" using r None by auto
  have t: "trie nodes lab" using u by (simp add: unlinked_def)
  note new = add_character_trie [OF t s None n refl]
  have fresh: "c # lab s \<notin> R" using u None trie_no_transition [OF t s] by (auto simp: unlinked_def)
  have "output_of nodes' i = output_of nodes i" for i
    using s by (auto simp: output_of_def n nth_append nth_list_update new_node_def less_Suc_eq)
  moreover have "output_of nodes (length nodes) = 0" by (simp add: output_of_def)
  moreover have "failure_of nodes' i = failure_of nodes i" for i
    using s by (auto simp: failure_of_def n nth_append nth_list_update new_node_def less_Suc_eq)
  ultimately have "unlinked nodes' ?lab R"
    using u new fresh by (auto simp: unlinked_def n less_Suc_eq)
  then show ?thesis using s' by (intro exI [of _ ?lab]) (auto simp: n)
qed

lemma add_characters_unlinked:
  assumes "unlinked nodes lab R" and "fold add_character (rev w) (nodes, 0) = (nodes', s')"
  shows "\<exists>lab'. unlinked nodes' lab' R \<and> s' < length nodes' \<and> lab' s' = w"
  using assms(2)
proof (induction w arbitrary: nodes' s')
  case Nil
  with assms(1) trie_pos [of nodes lab] trie_root [of nodes lab] show ?case
    by (intro exI [of _ lab]) (auto simp: unlinked_def)
next
  case (Cons c w)
  obtain n1 s1 where m: "fold add_character (rev w) (nodes, 0) = (n1, s1)" by fastforce
  from Cons.IH [OF this] obtain l1 where "unlinked n1 l1 R" "s1 < length n1" "l1 s1 = w" by blast
  with add_character_unlinked [of n1 l1 R s1 c nodes' s'] m Cons.prems show ?case by simp
qed

lemma map_list_update_same: "f x = f (xs ! s) \<Longrightarrow> map f (xs[s := x]) = map f xs"
  by (cases "s < length xs") (auto simp: nth_list_update intro: nth_equalityI)

lemma mark_output_keeps:
  "map mn_transitions (mark_output s n nodes) = map mn_transitions nodes"
  "failure_of (mark_output s n nodes) = failure_of nodes"
  "s < length nodes \<Longrightarrow> output_of (mark_output s n nodes) i = (if i = s then max (output_of nodes s) n else output_of nodes i)"
  by (auto simp: mark_output_def failure_of_def output_of_def fun_eq_iff nth_list_update intro!: map_list_update_same)
    (metis (mono_tags, lifting) list_update_beyond matcher_node.select_convs(1) matcher_node.surjective
      matcher_node.update_convs(2) not_less nth_list_update)

lemma add_secret_unlinked:
  assumes "unlinked nodes lab R"
  shows "\<exists>lab'. unlinked (add_secret w nodes) lab' (insert w R)"
proof -
  obtain n1 s1 where m: "fold add_character (rev w) (nodes, 0) = (n1, s1)" by fastforce
  from add_characters_unlinked [OF assms this] obtain l1 where l: "unlinked n1 l1 R" "s1 < length n1" "l1 s1 = w" by blast
  note c = trie_cong [OF mark_output_keeps(1) [of s1 "length w" n1]]
  have "l1 i = l1 s1 \<longleftrightarrow> i = s1" if "i < length n1" for i
    using l that trie_inj [of n1 l1 i s1] by (auto simp: unlinked_def)
  then have "unlinked (mark_output s1 (length (l1 s1)) n1) l1 (insert (l1 s1) R)"
    using l(1,2) wordsI [OF l(2), of l1]
    by (auto simp: unlinked_def c [unfolded l(3) [symmetric]] mark_output_keeps(2) mark_output_keeps(3) [OF l(2)])
  then show ?thesis by (auto simp: add_secret_def m l(3))
qed

lemma add_secrets_unlinked:
  "unlinked nodes lab R \<Longrightarrow> \<exists>lab'. unlinked (fold add_secret ws nodes) lab' (R \<union> set ws)"
proof (induction ws arbitrary: nodes lab R)
  case (Cons w ws)
  from add_secret_unlinked [OF Cons.prems, of w] Cons.IH show ?case by fastforce
qed auto

section \<open>The failure links\<close>

definition linked :: "'c matcher \<Rightarrow> (nat \<Rightarrow> 'c list) \<Rightarrow> nat \<Rightarrow> bool" where
  "linked nodes lab s \<longleftrightarrow> failure_of nodes s < length nodes \<and> fails_to (words nodes lab) (lab s) (lab (failure_of nodes s))"

text \<open>Following the links from a state whose links, and those of all states that are no deeper, are right.\<close>

lemma next_state_simps:
  "transition nodes s c = Some t \<Longrightarrow> next_state nodes c s = Some t"
  "transition nodes 0 c = None \<Longrightarrow> next_state nodes c 0 = Some 0"
  "transition nodes s c = None \<Longrightarrow> s \<noteq> 0 \<Longrightarrow> next_state nodes c s = next_state nodes c (failure_of nodes s)"
  by (simp_all add: next_state_def follow.simps [of nodes c s] follow.simps [of nodes c 0])

lemma next_state_longest:
  assumes t: "trie nodes lab" and s: "s < length nodes"
    and links: "\<And>i. i < length nodes \<Longrightarrow> i \<noteq> 0 \<Longrightarrow> length (lab i) \<le> length (lab s) \<Longrightarrow> linked nodes lab i"
  shows "\<exists>x. next_state nodes c s = Some x \<and> x < length nodes \<and> longest_in (words nodes lab) (c # lab s) (lab x)"
  using s links
proof (induction "length (lab s)" arbitrary: s rule: less_induct)
  case less
  show ?case
  proof (cases "transition nodes s c")
    case (Some x)
    then have "x < length nodes" "lab x = c # lab s" using trie_transition [OF t less.prems(1)] by auto
    then show ?thesis using Some wordsI [of x nodes lab] by (auto simp: next_state_simps intro: longest_in_self)
  next
    case None
    then have no: "c # lab s \<notin> words nodes lab" using trie_no_transition [OF t less.prems(1)] by simp
    show ?thesis
    proof (cases "s = 0")
      case True
      then show ?thesis
        using None no trie_pos [OF t] trie_root [OF t] longest_in_Nil [OF trie_words [OF t], of c] by (simp add: next_state_simps)
    next
      case False
      let ?f = "failure_of nodes s"
      have l: "linked nodes lab s" using less.prems(2) [OF less.prems(1) False] by simp
      then have f: "?f < length nodes" "length (lab ?f) < length (lab s)" by (auto simp: linked_def dest: fails_to_shorter)
      have "linked nodes lab i" if "i < length nodes" "i \<noteq> 0" "length (lab i) \<le> length (lab ?f)" for i
        using less.prems(2) that f(2) by simp
      from less.hyps [OF f(2) f(1) this] obtain x where
        x: "next_state nodes c ?f = Some x" "x < length nodes" "longest_in (words nodes lab) (c # lab ?f) (lab x)" by blast
      then show ?thesis
        using l None False longest_in_fails [OF trie_words [OF t] no _ x(3)] by (auto simp: linked_def next_state_simps)
    qed
  qed
qed

lemma link_children_links:
  assumes "trie nodes lab" "state < length nodes" "state \<noteq> 0" "set ts \<subseteq> set (children nodes state)" "distinct (map fst ts)"
    and "\<And>i. i < length nodes \<Longrightarrow> i \<noteq> 0 \<Longrightarrow> length (lab i) \<le> length (lab state) \<Longrightarrow> linked nodes lab i"
  shows "\<exists>nodes'. link_children state ts nodes = Some nodes' \<and> map mn_transitions nodes' = map mn_transitions nodes \<and>
     output_of nodes' = output_of nodes \<and> (\<forall>i. i \<notin> snd ` set ts \<longrightarrow> failure_of nodes' i = failure_of nodes i) \<and>
     (\<forall>i \<in> snd ` set ts. linked nodes' lab i)"
  using assms
proof (induction ts arbitrary: nodes)
  case (Cons t ts)
  note prems = Cons.prems
  let ?f = "failure_of nodes state"
  have l: "linked nodes lab state" using prems(6) [OF prems(2,3)] by simp
  then have f: "?f < length nodes" "length (lab ?f) < length (lab state)" by (auto simp: linked_def dest: fails_to_shorter)
  have "linked nodes lab i" if "i < length nodes" "i \<noteq> 0" "length (lab i) \<le> length (lab ?f)" for i
    using prems(6) that f(2) by simp
  from next_state_longest [OF prems(1) f(1) this] obtain x where
    x: "next_state nodes (fst t) ?f = Some x" "x < length nodes" "longest_in (words nodes lab) (fst t # lab ?f) (lab x)" by blast
  have child: "snd t < length nodes" "lab (snd t) = fst t # lab state"
    using prems(4) trie_children [OF prems(1,2), of "fst t" "snd t"] by auto
  let ?n = "nodes[snd t := (nodes ! snd t)\<lparr>mn_failure := x\<rparr>]"
  have tr: "map mn_transitions ?n = map mn_transitions nodes"
    by (simp add: map_list_update_same)
  note c = trie_cong [OF tr]
  have fl: "failure_of ?n i = (if i = snd t then x else failure_of nodes i)" for i
    using child(1) by (auto simp: failure_of_def nth_list_update)
  have ou: "output_of ?n = output_of nodes" using child(1) by (auto simp: output_of_def nth_list_update fun_eq_iff)
  have "fails_to (words nodes lab) (lab (snd t)) (lab x)"
    using fails_to_step [OF trie_words [OF prems(1)] _ x(3)] l child(2) by (simp add: linked_def)
  then have lt: "linked ?n lab (snd t)" using x(2) by (simp add: linked_def c fl)
  have ln: "linked ?n lab i" if "i < length nodes" "i \<noteq> 0" "length (lab i) \<le> length (lab state)" for i
    using prems(6) [OF that] that(3) child(2) by (auto simp: linked_def c fl)
  have "\<exists>nodes'. link_children state ts ?n = Some nodes' \<and> map mn_transitions nodes' = map mn_transitions ?n \<and>
     output_of nodes' = output_of ?n \<and> (\<forall>i. i \<notin> snd ` set ts \<longrightarrow> failure_of nodes' i = failure_of ?n i) \<and>
     (\<forall>i \<in> snd ` set ts. linked nodes' lab i)"
    using prems ln by (intro Cons.IH) (simp_all add: c)
  then obtain n' where n': "link_children state ts ?n = Some n'" "map mn_transitions n' = map mn_transitions ?n"
     "output_of n' = output_of ?n" "\<And>i. i \<notin> snd ` set ts \<Longrightarrow> failure_of n' i = failure_of ?n i"
     "\<And>i. i \<in> snd ` set ts \<Longrightarrow> linked n' lab i" by blast
  have other: "snd t \<notin> snd ` set ts"
  proof
    assume "snd t \<in> snd ` set ts"
    then obtain d where d: "(d, snd t) \<in> set ts" by force
    then have "lab (snd t) = d # lab state" using prems(4) trie_children [OF prems(1,2), of d "snd t"] by auto
    with child(2) d prems(5) show False by force
  qed
  have "linked n' lab (snd t)"
    using lt n'(4) [OF other] trie_cong(2,4) [OF n'(2)] by (simp add: linked_def)
  then show ?case
    using n' tr x(1) by (intro exI [of _ n']) (auto simp: fl ou)
qed auto

text \<open>
  The queue holds the states whose links are set and whose children are not yet reached, in the order of
  their depths, which differ by one at most; the states taken from it have their final outputs.
\<close>

definition queue_order :: "(nat \<Rightarrow> nat) \<Rightarrow> nat set \<Rightarrow> nat list \<Rightarrow> bool" where
  "queue_order depth D Q \<longleftrightarrow> sorted (map depth Q) \<and> distinct Q \<and> D \<inter> set Q = {} \<and>
     (\<forall>d \<in> D. \<forall>q \<in> set Q. depth d \<le> depth q) \<and> (\<forall>p \<in> set Q. \<forall>q \<in> set Q. depth q \<le> depth p + 1)"

definition reached :: "'c matcher \<Rightarrow> (nat \<Rightarrow> 'c list) \<Rightarrow> nat set \<Rightarrow> nat set \<Rightarrow> bool" where
  "reached nodes lab D A \<longleftrightarrow> A \<subseteq> {0<..<length nodes} \<and>
     (\<forall>s \<in> {0<..<length nodes}. s \<in> A \<longleftrightarrow> (\<exists>c. \<exists>p \<in> insert 0 D. p < length nodes \<and> lab s = c # lab p))"

definition linking :: "'c matcher \<Rightarrow> (nat \<Rightarrow> 'c list) \<Rightarrow> 'c list list \<Rightarrow> nat set \<Rightarrow> nat list \<Rightarrow> bool" where
  "linking nodes lab secrets D Q \<longleftrightarrow> trie nodes lab \<and> set secrets \<subseteq> words nodes lab \<and>
     queue_order (\<lambda>s. length (lab s)) D Q \<and> reached nodes lab D (D \<union> set Q) \<and>
     (\<forall>s \<in> D \<union> set Q. linked nodes lab s) \<and>
     (\<forall>s < length nodes. output_of nodes s = (if s \<in> D then longest_match secrets (lab s)
        else if lab s \<in> set secrets then length (lab s) else 0))"

text \<open>All states that are less deep than the next one have been taken, all as deep are in the queue.\<close>

lemma trie_parent:
  assumes "trie nodes lab" "s < length nodes" "s \<noteq> 0"
  obtains c p where "p < length nodes" "lab s = c # lab p"
proof -
  from assms obtain c w where w: "lab s = c # w" using trie_root_iff [OF assms(1,2)] by (cases "lab s") auto
  then have "w \<in> words nodes lab" using wordsI [OF assms(2), of lab] suffix_closedD [OF trie_words [OF assms(1)]] by simp
  then obtain p where "p < length nodes" "w = lab p" by (auto simp: words_def)
  with w that show thesis by blast
qed

lemma reached_shallow:
  assumes t: "trie nodes lab" and r: "reached nodes lab D (D \<union> set Q)" and o: "queue_order (\<lambda>s. length (lab s)) D Q"
    and s: "s < length nodes" "s \<noteq> 0" and q: "\<forall>q \<in> set Q. length (lab s) < length (lab q)"
  shows "s \<in> D"
  using s q
proof (induction "length (lab s)" arbitrary: s rule: less_induct)
  case less
  from trie_parent [OF t less.prems(1,2)] obtain c p where p: "p < length nodes" "lab s = c # lab p" by blast
  have "p \<in> insert 0 D"
  proof (cases "p = 0")
    case False
    have "\<forall>q \<in> set Q. length (lab p) < length (lab q)" using less.prems(3) p(2) by auto
    with less.hyps [OF _ p(1) False] p(2) show ?thesis by simp
  qed simp
  then have "s \<in> D \<union> set Q" using r less.prems p unfolding reached_def by auto
  with less.prems(3) show ?case by blast
qed

lemma reached_level:
  assumes t: "trie nodes lab" and r: "reached nodes lab D (D \<union> set Q)" and o: "queue_order (\<lambda>s. length (lab s)) D Q"
    and s: "s < length nodes" "s \<noteq> 0" and q: "\<forall>q \<in> set Q. length (lab s) \<le> length (lab q)"
  shows "s \<in> D \<union> set Q"
proof -
  from trie_parent [OF t s] obtain c p where p: "p < length nodes" "lab s = c # lab p" by blast
  have "\<forall>q \<in> set Q. length (lab p) < length (lab q)" using q p(2) by fastforce
  then have "p \<in> insert 0 D" using reached_shallow [OF t r o p(1)] by (cases "p = 0") auto
  then show ?thesis using r s p unfolding reached_def by auto
qed

lemma map_constant: "\<forall>x \<in> set xs. f x = k \<Longrightarrow> map f xs = replicate (length xs) k"
  by (induction xs) auto

lemma queue_order_step:
  assumes "queue_order depth D (s # Q)" "distinct ts" "\<forall>t \<in> set ts. depth t = depth s + 1" "set ts \<inter> (D \<union> set (s # Q)) = {}"
  shows "queue_order depth (insert s D) (Q @ ts)"
proof -
  have m: "map depth ts = replicate (length ts) (depth s + 1)" using assms(3) by (rule map_constant)
  have sq: "depth s \<le> depth q" "depth q \<le> depth s + 1" if "q \<in> set Q" for q
    using assms(1) that by (auto simp: queue_order_def)
  have ds: "depth d \<le> depth s" if "d \<in> D" for d using assms(1) that by (auto simp: queue_order_def)
  have "sorted (map depth (Q @ ts))"
    using assms(1,3) sq by (auto simp: queue_order_def sorted_append m)
  moreover have "distinct (Q @ ts)" using assms(1,2,4) by (auto simp: queue_order_def)
  moreover have "insert s D \<inter> set (Q @ ts) = {}" using assms(1,4) by (auto simp: queue_order_def)
  moreover have "depth d \<le> depth q" if "d \<in> insert s D" "q \<in> set (Q @ ts)" for d q
    using that assms(3) sq [of q] ds [of d] by fastforce
  moreover have "depth q \<le> depth p + 1" if "p \<in> set (Q @ ts)" "q \<in> set (Q @ ts)" for p q
    using that assms(3) sq [of q] sq [of p] by fastforce
  ultimately show ?thesis unfolding queue_order_def by blast
qed

lemma longest_match_Nil [simp]: "longest_match secrets [] = 0"
  by (induction secrets) auto

lemma linking_failure_output:
  assumes i: "linking nodes lab secrets D (s # Q)"
  shows "output_of nodes (failure_of nodes s) = longest_match secrets (lab (failure_of nodes s))"
proof -
  let ?f = "failure_of nodes s"
  have t: "trie nodes lab" and l: "linked nodes lab s" and r: "reached nodes lab D (D \<union> set (s # Q))"
    and o: "queue_order (\<lambda>s. length (lab s)) D (s # Q)"
    using i by (auto simp: linking_def)
  then have f: "?f < length nodes" "length (lab ?f) < length (lab s)" by (auto simp: linked_def dest: fails_to_shorter)
  show ?thesis
  proof (cases "?f = 0")
    case True
    then show ?thesis using i trie_root [OF t] trie_pos [OF t] by (auto simp: linking_def)
  next
    case False
    have "\<forall>q \<in> set (s # Q). length (lab ?f) < length (lab q)" using f(2) o by (auto simp: queue_order_def)
    then have "?f \<in> D" using reached_shallow [OF t r o f(1) False] by simp
    then show ?thesis using i f(1) by (auto simp: linking_def)
  qed
qed

lemma linking_step:
  assumes i: "linking nodes lab secrets D (s # Q)"
  shows "\<exists>nodes'. link_children s (children nodes s) (mark_output s (output_of nodes (failure_of nodes s)) nodes) = Some nodes' \<and>
    linking nodes' lab secrets (insert s D) (Q @ map snd (children nodes s)) \<and> length nodes' = length nodes"
proof -
  have t: "trie nodes lab" and ls: "linked nodes lab s" and r: "reached nodes lab D (D \<union> set (s # Q))"
    and o: "queue_order (\<lambda>s. length (lab s)) D (s # Q)" and w: "set secrets \<subseteq> words nodes lab"
    and la: "\<And>x. x \<in> D \<union> set (s # Q) \<Longrightarrow> linked nodes lab x"
    and ou: "\<And>x. x < length nodes \<Longrightarrow> output_of nodes x = (if x \<in> D then longest_match secrets (lab x)
        else if lab x \<in> set secrets then length (lab x) else 0)"
    using i by (auto simp: linking_def)
  have s: "s < length nodes" "s \<noteq> 0" "s \<notin> D" using r o by (auto simp: reached_def queue_order_def)
  let ?n = "mark_output s (output_of nodes (failure_of nodes s)) nodes"
  note c = trie_cong [OF mark_output_keeps(1) [of s "output_of nodes (failure_of nodes s)" nodes]]
  have lev: "linked nodes lab x" if "x < length nodes" "x \<noteq> 0" "length (lab x) \<le> length (lab s)" for x
  proof -
    have "\<forall>q \<in> set (s # Q). length (lab x) \<le> length (lab q)" using that(3) o by (auto simp: queue_order_def)
    then show ?thesis by (intro la reached_level [OF t r o that(1,2)])
  qed
  have "\<exists>n'. link_children s (children nodes s) ?n = Some n' \<and> map mn_transitions n' = map mn_transitions ?n \<and>
     output_of n' = output_of ?n \<and> (\<forall>x. x \<notin> snd ` set (children nodes s) \<longrightarrow> failure_of n' x = failure_of ?n x) \<and>
     (\<forall>x \<in> snd ` set (children nodes s). linked n' lab x)"
    using t s lev trie_distinct [OF t s(1)] by (intro link_children_links) (simp_all add: c linked_def mark_output_keeps)
  then obtain n' where n': "link_children s (children nodes s) ?n = Some n'" "map mn_transitions n' = map mn_transitions nodes"
     "output_of n' = output_of ?n" "\<And>x. x \<notin> snd ` set (children nodes s) \<Longrightarrow> failure_of n' x = failure_of nodes x"
     "\<And>x. x \<in> snd ` set (children nodes s) \<Longrightarrow> linked n' lab x"
    by (auto simp: mark_output_keeps)
  note c' = trie_cong [OF n'(2)]
  have kids: "x \<in> snd ` set (children nodes s) \<longleftrightarrow> x < length nodes \<and> (\<exists>a. lab x = a # lab s)" for x
    using trie_children [OF t s(1)] by force
  have fresh: "x \<notin> D \<union> set (s # Q)" if x: "x \<in> snd ` set (children nodes s)" for x
  proof
    assume m: "x \<in> D \<union> set (s # Q)"
    then have "x \<in> {0<..<length nodes}" using r by (auto simp: reached_def)
    with m r obtain a p where p: "p \<in> insert 0 D" "p < length nodes" "lab x = a # lab p" unfolding reached_def by blast
    with x have "p = s" using trie_inj [OF t p(2) s(1)] by (auto simp: kids)
    with p s show False by auto
  qed
  have dist: "distinct (map snd (children nodes s))"
  proof (rule distinct_conv_nth [THEN iffD2], intro allI impI)
    fix a b assume ab: "a < length (map snd (children nodes s))" "b < length (map snd (children nodes s))" "a \<noteq> b"
    let ?k = "children nodes s"
    have "(fst (?k ! a), snd (?k ! a)) \<in> set ?k" "(fst (?k ! b), snd (?k ! b)) \<in> set ?k" using ab by auto
    then have "lab (snd (?k ! a)) = fst (?k ! a) # lab s" "lab (snd (?k ! b)) = fst (?k ! b) # lab s"
      using trie_children [OF t s(1)] by blast+
    moreover have "fst (?k ! a) \<noteq> fst (?k ! b)"
      using ab trie_distinct [OF t s(1)] by (auto simp: distinct_conv_nth)
    ultimately show "map snd ?k ! a \<noteq> map snd ?k ! b" using ab by auto
  qed
  have "queue_order (\<lambda>s. length (lab s)) (insert s D) (Q @ map snd (children nodes s))"
  proof (rule queue_order_step [OF o dist])
    show "\<forall>x \<in> set (map snd (children nodes s)). length (lab x) = length (lab s) + 1" using kids by fastforce
    show "set (map snd (children nodes s)) \<inter> (D \<union> set (s # Q)) = {}" using fresh by fastforce
  qed
  moreover have "reached n' lab (insert s D) (insert s D \<union> set (Q @ map snd (children nodes s)))"
    unfolding reached_def
  proof (intro conjI ballI)
    show "insert s D \<union> set (Q @ map snd (children nodes s)) \<subseteq> {0<..<length n'}"
    proof
      fix x assume "x \<in> insert s D \<union> set (Q @ map snd (children nodes s))"
      then consider "x \<in> D \<union> set (s # Q)" | "x \<in> snd ` set (children nodes s)" by auto
      then show "x \<in> {0<..<length n'}"
      proof cases
        case 1
        with r show ?thesis unfolding reached_def c'(4) by blast
      next
        case 2
        then have "x < length nodes" "lab x \<noteq> []" using kids by auto
        then show ?thesis using trie_root [OF t] by (cases "x = 0") (auto simp: c'(4))
      qed
    qed
    fix x assume "x \<in> {0<..<length n'}"
    then have "x \<in> D \<union> set (s # Q) \<longleftrightarrow> (\<exists>a. \<exists>p \<in> insert 0 D. p < length nodes \<and> lab x = a # lab p)" "x < length nodes"
      using r by (auto simp: reached_def c'(4))
    then show "x \<in> insert s D \<union> set (Q @ map snd (children nodes s)) \<longleftrightarrow>
      (\<exists>a. \<exists>p \<in> insert 0 (insert s D). p < length n' \<and> lab x = a # lab p)"
      using s(1) kids [of x] by (auto simp: c'(4))
  qed
  moreover have "linked n' lab x" if "x \<in> insert s D \<union> set (Q @ map snd (children nodes s))" for x
  proof (cases "x \<in> snd ` set (children nodes s)")
    case False
    then show ?thesis using n'(4) [OF False] la [of x] that by (auto simp: linked_def c')
  qed (rule n'(5))
  moreover have "output_of n' x = (if x \<in> insert s D then longest_match secrets (lab x)
        else if lab x \<in> set secrets then length (lab x) else 0)" if x: "x < length nodes" for x
  proof (cases "x = s")
    case True
    have "longest_match secrets (lab s) = max (if lab s \<in> set secrets then length (lab s) else 0)
        (longest_match secrets (lab (failure_of nodes s)))"
      by (rule longest_match_fails_to [OF _ w]) (use ls in \<open>simp add: linked_def\<close>)
    then show ?thesis
      using True s ou [OF s(1)] by (simp add: n'(3) mark_output_keeps(3) linking_failure_output [OF i])
  next
    case False
    then show ?thesis using x s(1) ou by (simp add: n'(3) mark_output_keeps(3))
  qed
  ultimately have "linking n' lab secrets (insert s D) (Q @ map snd (children nodes s))"
    using t w by (auto simp: linking_def c')
  with n'(1) c'(4) show ?thesis by blast
qed

text \<open>Linking ends, each state being taken once, and every output is final.\<close>

definition automaton :: "'c matcher \<Rightarrow> (nat \<Rightarrow> 'c list) \<Rightarrow> 'c list list \<Rightarrow> bool" where
  "automaton nodes lab secrets \<longleftrightarrow> trie nodes lab \<and> set secrets \<subseteq> words nodes lab \<and>
     (\<forall>s < length nodes. s \<noteq> 0 \<longrightarrow> linked nodes lab s) \<and>
     (\<forall>s < length nodes. output_of nodes s = longest_match secrets (lab s))"

lemma linking_ends:
  assumes "linking nodes lab secrets D Q"
  shows "\<exists>nodes'. link_states Q nodes = Some nodes' \<and> automaton nodes' lab secrets"
  using assms
proof (induction "card ({0<..<length nodes} - D)" arbitrary: nodes D Q rule: less_induct)
  case less
  note i = less.prems
  show ?case
  proof (cases Q)
    case Nil
    have "s \<in> D" if "s < length nodes" "s \<noteq> 0" for s
      using i Nil that reached_shallow [of nodes lab D "[]" s] by (simp add: linking_def)
    moreover have "output_of nodes 0 = longest_match secrets (lab 0)"
      using i trie_pos [of nodes lab] trie_root [of nodes lab] by (auto simp: linking_def)
    ultimately have "automaton nodes lab secrets"
      using i Nil unfolding automaton_def linking_def by (metis (no_types, lifting) Un_iff)
    then show ?thesis using Nil by (simp add: link_states.simps [of "[]"])
  next
    case (Cons s Q')
    from linking_step [OF i [unfolded Cons]] obtain n' where
      n': "link_children s (children nodes s) (mark_output s (output_of nodes (failure_of nodes s)) nodes) = Some n'"
        "linking n' lab secrets (insert s D) (Q' @ map snd (children nodes s))" "length n' = length nodes" by blast
    have s: "s \<in> {0<..<length nodes}" "s \<notin> D" using i Cons by (auto simp: linking_def reached_def queue_order_def)
    then have "{0<..<length n'} - insert s D \<subset> {0<..<length nodes} - D" unfolding n'(3) by blast
    then have "card ({0<..<length n'} - insert s D) < card ({0<..<length nodes} - D)" by (rule psubset_card_mono [rotated]) simp
    from less.hyps [OF this n'(2)] show ?thesis
      using n'(1) s(1) Cons by (simp add: link_states.simps [of "s # Q'"])
  qed
qed

lemma linking_start:
  assumes "unlinked nodes lab (set secrets)"
  shows "linking nodes lab secrets {} (map snd (children nodes 0))"
proof -
  have t: "trie nodes lab" using assms by (simp add: unlinked_def)
  have kids: "x \<in> snd ` set (children nodes 0) \<longleftrightarrow> x < length nodes \<and> (\<exists>a. lab x = [a])" for x
    using trie_children [OF t trie_pos [OF t]] trie_root [OF t] by force
  have "distinct (map snd (children nodes 0))"
    using trie_distinct [OF t trie_pos [OF t]] trie_children [OF t trie_pos [OF t]]
    by (auto simp: distinct_map inj_on_def)
  moreover have one: "\<forall>x \<in> set (map snd (children nodes 0)). length (lab x) = 1" using kids by fastforce
  ultimately have "queue_order (\<lambda>s. length (lab s)) {} (map snd (children nodes 0))"
    unfolding queue_order_def map_constant [OF one] by auto
  moreover have "reached nodes lab {} ({} \<union> set (map snd (children nodes 0)))"
    unfolding reached_def
  proof (intro conjI ballI)
    show "{} \<union> set (map snd (children nodes 0)) \<subseteq> {0<..<length nodes}"
    proof
      fix x assume "x \<in> {} \<union> set (map snd (children nodes 0))"
      then have "x < length nodes" "lab x \<noteq> []" using kids by auto
      then show "x \<in> {0<..<length nodes}" using trie_root [OF t] by (cases "x = 0") auto
    qed
    fix x assume "x \<in> {0<..<length nodes}"
    then show "x \<in> {} \<union> set (map snd (children nodes 0)) \<longleftrightarrow>
      (\<exists>a. \<exists>p \<in> insert 0 {}. p < length nodes \<and> lab x = a # lab p)"
      using kids [of x] trie_root [OF t] trie_pos [OF t] by auto
  qed
  moreover have "linked nodes lab x" if "x \<in> set (map snd (children nodes 0))" for x
    using assms that kids [of x] trie_root [OF t] trie_pos [OF t] fails_to_Nil [OF trie_words [OF t]]
    by (auto simp: linked_def unlinked_def)
  ultimately show ?thesis using assms by (simp add: linking_def unlinked_def)
qed

lemma matcher_automaton:
  "\<exists>m lab. createLiteralSecretMatcher secrets = Some m \<and> automaton m lab secrets"
proof -
  from add_secrets_unlinked [OF unlinked_start, of secrets]
  obtain lab where "unlinked (fold add_secret secrets [new_node]) lab (set secrets)" by auto
  from linking_ends [OF linking_start [OF this]] show ?thesis by (auto simp: createLiteralSecretMatcher_def Let_def)
qed

lemma single_node_no_secrets:
  assumes "createLiteralSecretMatcher secrets = Some m" "length m \<le> 1" "[] \<notin> set secrets"
  shows "secrets = []"
proof -
  from matcher_automaton [of secrets] assms(1) obtain lab where a: "automaton m lab secrets" by auto
  have "s = []" if "s \<in> set secrets" for s
  proof -
    from that a obtain i where "i < length m" "s = lab i" by (auto simp: automaton_def words_def)
    moreover from this assms(2) have "i = 0" by simp
    ultimately show ?thesis using a trie_root [of m lab] by (simp add: automaton_def)
  qed
  with assms(3) show ?thesis by (cases secrets) auto
qed

section \<open>The matches\<close>

lemma scan_automaton:
  assumes "automaton m lab secrets"
  shows "\<exists>s. scan m value = Some (s, longest_matches secrets value) \<and> s < length m \<and> longest_in (words m lab) value (lab s)"
proof (induction "value")
  case Nil
  have t: "trie m lab" using assms by (simp add: automaton_def)
  then show ?case using trie_pos [OF t] trie_root [OF t] trie_words [OF t] by (auto simp: longest_in_def)
next
  case (Cons c cs)
  have t: "trie m lab" using assms by (simp add: automaton_def)
  from Cons obtain s where s: "scan m cs = Some (s, longest_matches secrets cs)" "s < length m" "longest_in (words m lab) cs (lab s)"
    by blast
  from next_state_longest [OF t s(2), of c] assms obtain x where
    x: "next_state m c s = Some x" "x < length m" "longest_in (words m lab) (c # lab s) (lab x)" by (auto simp: automaton_def)
  have l: "longest_in (words m lab) (c # cs) (lab x)" by (rule longest_in_step [OF trie_words [OF t] s(3) x(3)])
  have "output_of m x = longest_match secrets (c # cs)"
    using assms x(2) longest_match_longest_in [OF l] by (simp add: automaton_def)
  then show ?case using s x l by simp
qed

lemma matcher_correct:
  "\<exists>m s. createLiteralSecretMatcher secrets = Some m \<and> scan m value = Some (s, longest_matches secrets value)"
proof -
  from matcher_automaton [of secrets] obtain m lab where "createLiteralSecretMatcher secrets = Some m" "automaton m lab secrets" by blast
  with scan_automaton [of m lab secrets "value"] show ?thesis by blast
qed

text \<open>C18 The matcher is always built, and a scan of any text with it always ends: it finds, at every position of
  the text, the length of the longest secret that starts there, zero if none does, exactly as comparing every
  secret with the text at every position would, for any secrets, overlapping or nested in each other.\<close>

theorem matcher_finds_longest:
  "\<exists>m s. createLiteralSecretMatcher secrets = Some m \<and> scan m value = Some (s, longest_matches secrets value)"
  by (rule matcher_correct)

end
