(* ===== verification/JS_Regex.thy ===== *)
theory JS_Regex
  imports Prelude
begin

text \<open>
  Regular expressions as the language runs them: a pattern, at a position of a text, has a list of matches in
  the order in which backtracking finds them, and the first one counts. Patterns are over single characters;
  the flag \<open>i\<close> is written into the character classes.
\<close>

section \<open>Patterns\<close>

text \<open>A greedy repetition, a group that is captured, and the assertion \<open>\b\<close>.\<close>

datatype regex =
    Chars "char \<Rightarrow> bool"
  | Empty
  | Then regex regex
  | Either regex regex
  | Many regex
  | Capture nat regex
  | Boundary

definition word_char :: "char \<Rightarrow> bool" where
  "word_char c = (let n = (of_char c :: nat) in 48 \<le> n \<and> n \<le> 57 \<or> 65 \<le> n \<and> n \<le> 90 \<or> 97 \<le> n \<and> n \<le> 122 \<or> n = 95)"

fun word_at :: "string \<Rightarrow> nat \<Rightarrow> bool" where
  "word_at [] i = False"
| "word_at (c # s) 0 = word_char c"
| "word_at (c # s) (Suc i) = word_at s i"

definition boundary_at :: "string \<Rightarrow> nat \<Rightarrow> bool" where
  "boundary_at s i \<longleftrightarrow> (i > 0 \<and> word_at s (i - 1)) \<noteq> word_at s i"

section \<open>Matching\<close>

text \<open>The position a match has reached, with the groups captured on the way.\<close>

type_synonym match = "nat \<times> (nat \<times> string) list"

text \<open>An iteration that consumes nothing ends a repetition, so that the rest of the text bounds their number.\<close>

fun iterate :: "nat \<Rightarrow> (match \<Rightarrow> match list) \<Rightarrow> match \<Rightarrow> match list" where
  "iterate 0 f m = [m]"
| "iterate (Suc n) f m = concat (map (iterate n f) (filter (\<lambda>m'. fst m < fst m') (f m))) @ [m]"

primrec matches :: "string \<Rightarrow> regex \<Rightarrow> match \<Rightarrow> match list" where
  "matches s (Chars p) m = (if fst m < length s \<and> p (s ! fst m) then [(Suc (fst m), snd m)] else [])"
| "matches s Empty m = [m]"
| "matches s (Then a b) m = concat (map (matches s b) (matches s a m))"
| "matches s (Either a b) m = matches s a m @ matches s b m"
| "matches s (Many a) m = iterate (length s - fst m) (matches s a) m"
| "matches s (Capture k a) m =
     map (\<lambda>m'. (fst m', (k, take (fst m' - fst m) (drop (fst m) s)) # snd m')) (matches s a m)"
| "matches s Boundary m = (if boundary_at s (fst m) then [m] else [])"

definition match_at :: "string \<Rightarrow> regex \<Rightarrow> nat \<Rightarrow> match option" where
  "match_at s r i = (case matches s r (i, []) of [] \<Rightarrow> None | m # _ \<Rightarrow> Some m)"

definition captured :: "match \<Rightarrow> nat \<Rightarrow> string" where
  "captured m k = (case map_of (snd m) k of None \<Rightarrow> [] | Some t \<Rightarrow> t)"

text \<open>\<open>/^r$/.test(s)\<close>.\<close>

definition test_whole :: "regex \<Rightarrow> string \<Rightarrow> bool" where
  "test_whole r s \<longleftrightarrow> list_ex (\<lambda>m. fst m = length s) (matches s r (0, []))"

text \<open>\<open>s.replace(/r/g, ...)\<close> from a position on.\<close>

function replace_from :: "string \<Rightarrow> regex \<Rightarrow> (match \<Rightarrow> string) \<Rightarrow> nat \<Rightarrow> string" where
  "replace_from s r f i =
     (case match_at s r i of
        Some m \<Rightarrow>
          if i < fst m \<and> i < length s then f m @ replace_from s r f (fst m)
          else f m @ (if i < length s then s ! i # replace_from s r f (Suc i) else [])
      | None \<Rightarrow> if i < length s then s ! i # replace_from s r f (Suc i) else [])"
  by pat_completeness auto
termination
  by (relation "measure (\<lambda>(s, r, f, i). length s - i)") auto

declare replace_from.simps [simp del]

definition replace_all :: "regex \<Rightarrow> (match \<Rightarrow> string) \<Rightarrow> string \<Rightarrow> string" where
  "replace_all r f s = replace_from s r f 0"

section \<open>Notations\<close>

definition one_of :: "string \<Rightarrow> regex" where "one_of cs = Chars (\<lambda>c. c \<in> set cs)"

definition none_of :: "string \<Rightarrow> regex" where "none_of cs = Chars (\<lambda>c. c \<notin> set cs)"

definition in_range :: "char \<Rightarrow> char \<Rightarrow> char \<Rightarrow> bool" where
  "in_range a b c \<longleftrightarrow> (of_char a :: nat) \<le> of_char c \<and> (of_char c :: nat) \<le> of_char b"

definition chain :: "regex list \<Rightarrow> regex" where "chain rs = foldr Then rs Empty"

definition choice :: "regex list \<Rightarrow> regex" where "choice rs = foldr Either (butlast rs) (last rs)"

definition optional :: "regex \<Rightarrow> regex" where "optional r = Either r Empty"

definition many1 :: "regex \<Rightarrow> regex" where "many1 r = Then r (Many r)"

definition literal :: "string \<Rightarrow> regex" where "literal s = chain (map (\<lambda>c. one_of [c]) s)"

definition repeated :: "nat \<Rightarrow> regex \<Rightarrow> regex" where "repeated n r = chain (replicate n r)"

text \<open>A word under the flag \<open>i\<close>, a class of letters, digits and further characters.\<close>

definition any_case :: "string \<Rightarrow> regex" where
  "any_case s = chain (map (\<lambda>c. Chars (\<lambda>d. to_lower_char d = to_lower_char c)) s)"

definition alnum_or :: "string \<Rightarrow> regex" where
  "alnum_or cs = Chars (\<lambda>c. in_range CHR ''A'' CHR ''Z'' c \<or> in_range CHR ''a'' CHR ''z'' c \<or> in_range CHR ''0'' CHR ''9'' c \<or> c \<in> set cs)"

section \<open>Matches move forward\<close>

lemma iterate_forward:
  assumes "\<And>m m'. m' \<in> set (f m) \<Longrightarrow> fst m \<le> fst m'" "m' \<in> set (iterate n f m)"
  shows "fst m \<le> fst m'"
  using assms(2)
proof (induction n arbitrary: m)
  case (Suc n)
  then consider "m' = m" | x where "fst m < fst x" "m' \<in> set (iterate n f x)" by auto
  then show ?case using Suc.IH by cases (auto intro: less_imp_le_nat order_trans)
qed simp

lemma matches_forward: "m' \<in> set (matches s r m) \<Longrightarrow> fst m \<le> fst m'"
proof (induction r arbitrary: m m')
  case (Then a b)
  then obtain x where "x \<in> set (matches s a m)" "m' \<in> set (matches s b x)" by auto
  with Then.IH show ?case by (blast intro: order_trans)
next
  case (Many a)
  then show ?case using iterate_forward [of "matches s a"] by (metis matches.simps(5))
qed (auto split: if_splits)

lemma iterate_bound:
  assumes "\<And>m m'. m' \<in> set (f m) \<Longrightarrow> fst m \<le> k \<Longrightarrow> fst m' \<le> k" "m' \<in> set (iterate n f m)" "fst m \<le> k"
  shows "fst m' \<le> k"
  using assms(2,3)
proof (induction n arbitrary: m)
  case (Suc n)
  then consider "m' = m" | x where "x \<in> set (f m)" "m' \<in> set (iterate n f x)" by auto
  then show ?case using Suc assms(1) by cases blast+
qed simp

lemma matches_bound: "m' \<in> set (matches s r m) \<Longrightarrow> fst m \<le> length s \<Longrightarrow> fst m' \<le> length s"
proof (induction r arbitrary: m m')
  case (Many a)
  then show ?case using iterate_bound [of "matches s a" "length s"] by (metis matches.simps(5))
next
  case (Then a b)
  then obtain x where "x \<in> set (matches s a m)" "m' \<in> set (matches s b x)" by auto
  with Then show ?case by blast
qed (auto split: if_splits)

lemma replace_from_Cons_free:
  "(\<forall>j. i \<le> j \<longrightarrow> match_at s r j = None) \<Longrightarrow> replace_from s r f i = drop i s"
proof (induction "length s - i" arbitrary: i)
  case 0
  then show ?case by (subst replace_from.simps) simp
next
  case (Suc n)
  then have "replace_from s r f (Suc i) = drop (Suc i) s" by simp
  then show ?case using Suc by (subst replace_from.simps) (simp add: Cons_nth_drop_Suc)
qed

text \<open>A text in which the pattern matches nowhere is left as it is.\<close>

lemma replace_all_free: "(\<forall>j. match_at s r j = None) \<Longrightarrow> replace_all r f s = s"
  by (simp add: replace_all_def replace_from_Cons_free)

text \<open>A pattern that has to consume a character of a class matches nothing in a text without one.\<close>

primrec consumes :: "(char \<Rightarrow> bool) \<Rightarrow> regex \<Rightarrow> bool" where
  "consumes p (Chars q) \<longleftrightarrow> (\<forall>c. q c \<longrightarrow> p c)"
| "consumes p Empty \<longleftrightarrow> False"
| "consumes p (Then a b) \<longleftrightarrow> consumes p a \<or> consumes p b"
| "consumes p (Either a b) \<longleftrightarrow> consumes p a \<and> consumes p b"
| "consumes p (Many a) \<longleftrightarrow> False"
| "consumes p (Capture k a) \<longleftrightarrow> consumes p a"
| "consumes p Boundary \<longleftrightarrow> False"

lemma consumes_no_match: "consumes p r \<Longrightarrow> \<forall>c \<in> set s. \<not> p c \<Longrightarrow> matches s r m = []"
  by (induction r arbitrary: m) auto

lemma replace_all_consumes: "consumes p r \<Longrightarrow> \<forall>c \<in> set s. \<not> p c \<Longrightarrow> replace_all r f s = s"
  by (rule replace_all_free) (simp add: match_at_def consumes_no_match)

lemma consumes_chain [simp]: "consumes p (chain rs) \<longleftrightarrow> (\<exists>r \<in> set rs. consumes p r)"
  by (induction rs) (auto simp: chain_def)

lemma consumes_choice [simp]: "rs \<noteq> [] \<Longrightarrow> consumes p (choice rs) \<longleftrightarrow> (\<forall>r \<in> set rs. consumes p r)"
proof (induction rs)
  case (Cons r rs)
  then show ?case by (cases rs) (auto simp: choice_def)
qed simp

lemma consumes_derived [simp]:
  "consumes p (one_of cs) \<longleftrightarrow> (\<forall>c \<in> set cs. p c)"
  "consumes p (literal s) \<longleftrightarrow> (\<exists>c \<in> set s. p c)"
  "consumes p (many1 r) \<longleftrightarrow> consumes p r"
  by (auto simp: one_of_def literal_def many1_def)

text \<open>A literal matches itself, and a pattern that starts with one only texts that do.\<close>

lemma literal_match: "m' \<in> set (matches s (literal p) m) \<Longrightarrow> prefix p (drop (fst m) s)"
proof (induction p arbitrary: m)
  case (Cons c p)
  then have c: "fst m < length s" "s ! fst m = c" "m' \<in> set (matches s (literal p) (Suc (fst m), snd m))"
    by (auto simp: literal_def chain_def one_of_def split: if_splits)
  from Cons.IH [OF c(3)] c(1,2) show ?case by (simp add: Cons_nth_drop_Suc [symmetric])
qed simp

lemma test_whole_literal: "test_whole (chain (literal p # rs)) s \<Longrightarrow> prefix p s"
  using literal_match [of _ s p "(0, [])"] by (auto simp: test_whole_def chain_def list_ex_iff)

end
