(* ===== verification/Log_Redaction.thy ===== *)
theory Log_Redaction
  imports Log_Matcher JS_Regex JS_Date Files
begin

text \<open>
  Redaction of texts (\<open>packages/runtime/src/logging.ts\<close>): which values of an environment are searched for,
  how far each of them may reach, the search itself, and the shapes of credentials that are masked whatever
  their value. The redaction of structured values is \<open>Log_Values\<close>.
\<close>

definition REDACTED_LOG_VALUE :: string where "REDACTED_LOG_VALUE = ''[REDACTED]''"

definition HIDDEN_ENVIRONMENT_COMMIT_MESSAGE :: string where
  "HIDDEN_ENVIRONMENT_COMMIT_MESSAGE = ''[commit message hidden]''"

section \<open>Names\<close>

definition SENSITIVE_LOG_KEY_NAMES :: "string list" where
  "SENSITIVE_LOG_KEY_NAMES = [''authorization'', ''body'', ''cookie'', ''credential'', ''formdata'', ''idempotencykey'',
     ''password'', ''payload'', ''proxyauthorization'', ''rawbody'', ''requestbody'', ''responsebody'', ''secret'',
     ''setcookie'', ''token'']"

definition SENSITIVE_ENVIRONMENT_NAMES :: "string list" where
  "SENSITIVE_ENVIRONMENT_NAMES = [''connectionstring'', ''databaseurl'', ''environmentmapencryptionkeys'', ''redisurl'']"

definition normalizeLogKey :: "string \<Rightarrow> string" where
  "normalizeLogKey v = filter (\<lambda>c. \<not> (c \<in> set ''-_.'' \<or> is_space c)) (to_lower v)"

definition isSensitiveLogKey :: "string \<Rightarrow> bool" where
  "isSensitiveLogKey v =
     (let n = normalizeLogKey v
      in n \<in> set SENSITIVE_LOG_KEY_NAMES \<or>
         list_ex (contains n) [''authorization'', ''cookie'', ''credential'', ''idempotencykey'', ''password'', ''privatekey'',
           ''secret'', ''signature'', ''token'', ''apikey'', ''accesskey''])"

definition ends_with :: "string \<Rightarrow> string \<Rightarrow> bool" where "ends_with s e \<longleftrightarrow> suffix e s"

definition SECRET_ATTRIBUTE_ENVIRONMENT_NAME_SUFFIXES :: "string list" where
  "SECRET_ATTRIBUTE_ENVIRONMENT_NAME_SUFFIXES =
     [''dir'', ''disabled'', ''domain'', ''enabled'', ''file'', ''name'', ''names'', ''path'', ''version'']"

definition PUBLIC_ENVIRONMENT_NAME_PREFIX :: string where "PUBLIC_ENVIRONMENT_NAME_PREFIX = ''nextpublic''"

definition FLAG_ENVIRONMENT_VALUES :: "string list" where
  "FLAG_ENVIRONMENT_VALUES = [''0'', ''1'', ''false'', ''no'', ''off'', ''on'', ''true'', ''yes'']"

definition isSecretAttributeEnvironmentName :: "string \<Rightarrow> bool" where
  "isSecretAttributeEnvironmentName n \<longleftrightarrow> starts_with n PUBLIC_ENVIRONMENT_NAME_PREFIX \<or>
     list_ex (ends_with n) SECRET_ATTRIBUTE_ENVIRONMENT_NAME_SUFFIXES"

definition isSensitiveEnvironmentName :: "string \<Rightarrow> bool" where
  "isSensitiveEnvironmentName v =
     (let n = normalizeLogKey v
      in if isSecretAttributeEnvironmentName n then False
         else isSensitiveLogKey v \<or> n \<in> set SENSITIVE_ENVIRONMENT_NAMES \<or> ends_with n ''dsn'' \<or> ends_with n ''key'' \<or>
           contains n ''privatekey'')"

definition isFlagEnvironmentValue :: "string \<Rightarrow> bool" where
  "isFlagEnvironmentValue v \<longleftrightarrow> to_lower (trim v) \<in> set FLAG_ENVIRONMENT_VALUES"

section \<open>How far a value reaches\<close>

definition MIN_SUBSTRING_TOKEN_LENGTH :: nat where "MIN_SUBSTRING_TOKEN_LENGTH = 3"
definition MAX_WORD_TOKEN_LENGTH :: nat where "MAX_WORD_TOKEN_LENGTH = 12"

definition lower_letter :: regex where "lower_letter = Chars (in_range CHR ''a'' CHR ''z'')"
definition upper_letter :: regex where "upper_letter = Chars (in_range CHR ''A'' CHR ''Z'')"
definition decimal :: regex where "decimal = Chars (in_range CHR ''0'' CHR ''9'')"

definition WORD_TOKEN_PATTERN :: regex where
  "WORD_TOKEN_PATTERN = Either (Then (Either upper_letter lower_letter) (Many lower_letter)) (many1 upper_letter)"

definition PORT_NUMBER_PATTERN :: regex where
  "PORT_NUMBER_PATTERN = Then (Chars (in_range CHR ''1'' CHR ''9'')) (repeated 4 (optional decimal))"

definition isPortNumber :: "string \<Rightarrow> bool" where
  "isPortNumber v \<longleftrightarrow> test_whole PORT_NUMBER_PATTERN v \<and> digits_value v \<le> 65535"

datatype token_match = MatchBoundary | MatchSubstring

datatype provenance = Customer | Platform

definition classifyRedactionToken :: "string \<Rightarrow> provenance \<Rightarrow> token_match" where
  "classifyRedactionToken token p =
     (if length token < MIN_SUBSTRING_TOKEN_LENGTH then MatchBoundary
      else if p \<noteq> Platform then MatchSubstring
      else if length token \<le> MAX_WORD_TOKEN_LENGTH \<and> test_whole WORD_TOKEN_PATTERN token then MatchBoundary else MatchSubstring)"

definition token_class :: "string list \<Rightarrow> string \<Rightarrow> token_match" where
  "token_class platformGenerated token =
     classifyRedactionToken token (if token \<in> set platformGenerated then Platform else Customer)"

text \<open>The values that match at boundaries and those that match anywhere.\<close>

definition partitionRedactionTokens :: "string list \<Rightarrow> string list \<Rightarrow> string list \<times> string list" where
  "partitionRedactionTokens tokens platformGenerated =
     (filter (\<lambda>t. token_class platformGenerated t = MatchBoundary) tokens,
      filter (\<lambda>t. token_class platformGenerated t \<noteq> MatchBoundary) tokens)"

section \<open>Collecting the values\<close>

text \<open>A stable sort, longest first.\<close>

definition uniqueSortedSecretValues :: "string list \<Rightarrow> string list" where
  "uniqueSortedSecretValues vs = sort_key (\<lambda>v. - int (length v)) (distinct_firsts (filter (\<lambda>v. v \<noteq> []) vs))"

definition normalizedConfiguredSecretValues :: "string list \<Rightarrow> string list" where
  "normalizedConfiguredSecretValues vs =
     uniqueSortedSecretValues (filter (\<lambda>v. v \<noteq> [] \<and> v \<noteq> REDACTED_LOG_VALUE \<and> v \<noteq> ''undefined'') vs)"

text \<open>An environment: its entries, each with a value or \<open>undefined\<close>.\<close>

type_synonym environment = "(string \<times> string option) list"

definition entry_secrets :: "string \<times> string option \<Rightarrow> string list" where
  "entry_secrets e = (if fst e \<noteq> [] then [fst e] else []) @
     (case snd e of Some v \<Rightarrow> if v \<noteq> [] then [v] else [] | None \<Rightarrow> [])"

definition collectEnvironmentMapSecretValues :: "environment \<Rightarrow> string list" where
  "collectEnvironmentMapSecretValues env = uniqueSortedSecretValues (concat (map entry_secrets env))"

definition collectEnvironmentMapValues :: "environment \<Rightarrow> string list" where
  "collectEnvironmentMapValues env =
     uniqueSortedSecretValues (filter (\<lambda>v. \<not> isFlagEnvironmentValue v) (List.map_filter snd env))"

text \<open>
  The values of the process's own environment. \<open>json_of\<close> is \<open>JSON.parse\<close>: a value, or nothing where it throws.
\<close>

definition keyring_values :: "(string \<Rightarrow> json option) \<Rightarrow> string \<Rightarrow> string list" where
  "keyring_values json_of v = (case json_of v of
       Some (JObj r) \<Rightarrow> List.map_filter (\<lambda>m. json_str (snd m)) r
     | _ \<Rightarrow> [])"

definition configured_values :: "(string \<Rightarrow> json option) \<Rightarrow> string \<times> string option \<Rightarrow> string list" where
  "configured_values json_of e = (case snd e of
       None \<Rightarrow> []
     | Some v \<Rightarrow>
         if \<not> isSensitiveEnvironmentName (fst e) \<or> isFlagEnvironmentValue v then []
         else v # (if normalizeLogKey (fst e) \<noteq> ''environmentmapencryptionkeys'' then [] else keyring_values json_of v))"

definition collectConfiguredSecretValues :: "(string \<Rightarrow> json option) \<Rightarrow> environment \<Rightarrow> string list" where
  "collectConfiguredSecretValues json_of env =
     normalizedConfiguredSecretValues (concat (map (configured_values json_of) env))"

section \<open>A deployment's values\<close>

text \<open>
  \<open>le\<close> stands for \<open>left.localeCompare(right) \<le> 0\<close>, the collation of the host's locale. The sort is by
  length first and stable.
\<close>

primrec insert_by :: "('a \<Rightarrow> 'a \<Rightarrow> bool) \<Rightarrow> 'a \<Rightarrow> 'a list \<Rightarrow> 'a list" where
  "insert_by le x [] = [x]"
| "insert_by le x (y # ys) = (if le x y then x # y # ys else y # insert_by le x ys)"

definition sort_by :: "('a \<Rightarrow> 'a \<Rightarrow> bool) \<Rightarrow> 'a list \<Rightarrow> 'a list" where
  "sort_by le xs = foldr (insert_by le) xs []"

definition longer_first :: "(string \<Rightarrow> string \<Rightarrow> bool) \<Rightarrow> string \<Rightarrow> string \<Rightarrow> bool" where
  "longer_first le a b \<longleftrightarrow> length b < length a \<or> length a = length b \<and> le a b"

record deployment_values =
  dv_platformGeneratedValues :: "string list"
  dv_secretValues :: "string list"

definition platform_value :: "environment \<Rightarrow> string list \<Rightarrow> string \<times> string option \<Rightarrow> string option" where
  "platform_value rt customerValues e = (case snd e of
       None \<Rightarrow> None
     | Some v \<Rightarrow> if v = [] \<or> isFlagEnvironmentValue v \<or> fst e \<in> fst ` set rt \<or> v \<in> set customerValues then None else Some v)"

definition collectDeploymentLogRedactionValues ::
    "(string \<Rightarrow> string \<Rightarrow> bool) \<Rightarrow> environment \<Rightarrow> environment \<Rightarrow> deployment_values" where
  "collectDeploymentLogRedactionValues le bld rt =
     (let customerValues = collectEnvironmentMapValues rt
      in \<lparr>dv_platformGeneratedValues = distinct_firsts (List.map_filter (platform_value rt customerValues) bld),
          dv_secretValues = sort_by (longer_first le)
            (distinct_firsts (customerValues @ collectEnvironmentMapValues bld))\<rparr>)"

definition sanitizeEnvironmentCommitMessage :: "string option \<Rightarrow> environment list \<Rightarrow> string option" where
  "sanitizeEnvironmentCommitMessage message maps = (case message of
       None \<Rightarrow> None
     | Some m \<Rightarrow>
         if list_ex (contains m) (distinct_firsts (concat (map collectEnvironmentMapSecretValues maps)))
         then Some HIDDEN_ENVIRONMENT_COMMIT_MESSAGE else Some m)"

section \<open>Options\<close>

text \<open>An absent list of values is the empty one, except for the two that change what is collected.\<close>

record log_options =
  lo_assignedNames :: "string list"
  lo_environmentVariables :: "environment option"
  lo_exactStructuredValues :: "string list"
  lo_operationalValues :: "string list"
  lo_platformGeneratedValues :: "string list"
  lo_preserveObjectKeys :: bool
  lo_secretValues :: "string list option"

text \<open>\<open>encodeURIComponent\<close>.\<close>

definition percent_digit :: "nat \<Rightarrow> char" where "percent_digit n = ''0123456789ABCDEF'' ! (n mod 16)"

definition percent_byte :: "nat \<Rightarrow> string" where
  "percent_byte n = (if word_char (char_of n) \<or> char_of n \<in> set ''-.!~*'' \<or> n \<in> {39, 40, 41} then [char_of n]
     else [CHR ''%'', percent_digit (n div 16), percent_digit n])"

definition encodeURIComponent :: "string \<Rightarrow> string" where
  "encodeURIComponent s = concat (map percent_byte (utf8_bytes s))"

definition resolveOperationalValueExclusions :: "log_options \<Rightarrow> string list" where
  "resolveOperationalValueExclusions o1 =
     concat (map (\<lambda>v. [v, encodeURIComponent v]) (filter (\<lambda>v. v \<noteq> []) (lo_operationalValues o1))) @
     filter isPortNumber (lo_platformGeneratedValues o1)"

definition excludeOperationalValues :: "string list \<Rightarrow> log_options \<Rightarrow> string list" where
  "excludeOperationalValues vs o1 = filter (\<lambda>v. v \<notin> set (resolveOperationalValueExclusions o1)) vs"

text \<open>\<open>configured\<close>: what \<^const>\<open>collectConfiguredSecretValues\<close> answers for the process.\<close>

definition environment_secrets :: "log_options \<Rightarrow> string list" where
  "environment_secrets o1 = (case lo_environmentVariables o1 of None \<Rightarrow> [] | Some env \<Rightarrow> collectEnvironmentMapSecretValues env)"

definition resolveSecretValues :: "string list \<Rightarrow> log_options \<Rightarrow> string list" where
  "resolveSecretValues configured o1 =
     uniqueSortedSecretValues (excludeOperationalValues
       ((case lo_secretValues o1 of None \<Rightarrow> configured | Some vs \<Rightarrow> uniqueSortedSecretValues vs) @ environment_secrets o1) o1)"

definition resolveExactStructuredValues :: "string list \<Rightarrow> log_options \<Rightarrow> string list" where
  "resolveExactStructuredValues configured o1 =
     uniqueSortedSecretValues (excludeOperationalValues
       (lo_exactStructuredValues o1 @ resolveSecretValues configured o1 @ environment_secrets o1) o1)"

record redaction =
  rd_assignedNames :: "string list"
  rd_boundaryTextValues :: "string list"
  rd_exactStructuredValues :: "string list"
  rd_preserveObjectKeys :: bool
  rd_substringMatcher :: "char matcher"

definition compileLogRedaction :: "string list \<Rightarrow> log_options \<Rightarrow> redaction option" where
  "compileLogRedaction configured o1 =
     (let (boundary, substring) = partitionRedactionTokens (resolveSecretValues configured o1) (lo_platformGeneratedValues o1)
      in Option.bind (createLiteralSecretMatcher substring) (\<lambda>m. Some
           \<lparr>rd_assignedNames = lo_assignedNames o1, rd_boundaryTextValues = boundary,
            rd_exactStructuredValues = resolveExactStructuredValues configured o1,
            rd_preserveObjectKeys = lo_preserveObjectKeys o1, rd_substringMatcher = m\<rparr>))"

section \<open>Searching a text\<close>

definition lexical_boundary :: "string \<Rightarrow> nat \<Rightarrow> nat \<Rightarrow> bool" where
  "lexical_boundary v start len \<longleftrightarrow> \<not> (start > 0 \<and> word_at v (start - 1)) \<and> \<not> word_at v (start + len)"

text \<open>\<open>value.indexOf(s, from)\<close>.\<close>

definition index_from :: "string \<Rightarrow> string \<Rightarrow> nat \<Rightarrow> nat option" where
  "index_from v s from = List.find (\<lambda>i. prefix s (drop i v)) [from..<Suc (length v)]"

definition mark_boundary :: "string \<Rightarrow> string \<Rightarrow> nat \<Rightarrow> nat list \<Rightarrow> nat list" where
  "mark_boundary v s i ls =
     (if lexical_boundary v i (length s) \<and> ls ! i < length s then ls[i := length s] else ls)"

partial_function (option) boundary_loop :: "string \<Rightarrow> string \<Rightarrow> nat option \<Rightarrow> nat list \<Rightarrow> nat list option" where
  "boundary_loop v s offset ls = (case offset of
       None \<Rightarrow> Some ls
     | Some i \<Rightarrow> boundary_loop v s (index_from v s (Suc i)) (mark_boundary v s i ls))"

declare boundary_loop.simps [code]

primrec addBoundaryMatches :: "string \<Rightarrow> string list \<Rightarrow> nat list \<Rightarrow> nat list option" where
  "addBoundaryMatches v [] ls = Some ls"
| "addBoundaryMatches v (s # ss) ls =
     Option.bind (boundary_loop v s (index_from v s 0) ls) (addBoundaryMatches v ss)"

text \<open>The loop that writes the text with the matches masked; \<open>from\<close> is the start of the segment to keep.\<close>

function mask_from :: "string \<Rightarrow> nat list \<Rightarrow> nat \<Rightarrow> nat \<Rightarrow> string" where
  "mask_from v ls from i =
     (if i < length v then
        (if ls ! i = 0 then mask_from v ls from (Suc i)
         else take (i - from) (drop from v) @ REDACTED_LOG_VALUE @ mask_from v ls (i + ls ! i) (i + ls ! i))
      else drop from v)"
  by pat_completeness auto
termination
  by (relation "measure (\<lambda>(v, ls, from, i). length v - i)") auto

declare mask_from.simps [simp del]

definition redactLiteralSecretsWithMatcher :: "string \<Rightarrow> char matcher \<Rightarrow> string list \<Rightarrow> string option" where
  "redactLiteralSecretsWithMatcher v m boundary =
     (if length m \<le> 1 \<and> boundary = [] \<or> v = [] then Some v
      else Option.bind (scan m v) (\<lambda>(state, found).
           Option.bind (addBoundaryMatches v boundary found) (\<lambda>ls.
             Some (if list_ex (\<lambda>n. n \<noteq> 0) ls then mask_from v ls 0 0 else v))))"

section \<open>The shapes of credentials\<close>

definition letter :: regex where "letter = Chars (\<lambda>c. in_range CHR ''A'' CHR ''Z'' c \<or> in_range CHR ''a'' CHR ''z'' c)"

definition name_class :: regex where "name_class = Many (alnum_or ''_-'')"

definition separated :: "string \<Rightarrow> string \<Rightarrow> string \<Rightarrow> regex" where
  "separated a seps b = chain [any_case a, optional (one_of seps), any_case b]"

definition sensitive_words :: "regex list" where
  "sensitive_words = [any_case ''authorization'', any_case ''cookie'', separated ''idempotency'' ''-_ '' ''key'', any_case ''token'',
     any_case ''secret'', any_case ''password'', any_case ''credential'', separated ''api'' ''-_ '' ''key'',
     separated ''access'' ''-_ '' ''key'', separated ''private'' ''-_ '' ''key'', any_case ''signature'']"

definition space_class :: regex where "space_class = Chars is_space"

definition quote_class :: regex where "quote_class = one_of [CHR 0x22, CHR 0x27]"

text \<open>\<open>["']?\s*[:=]\s*\<close>.\<close>

definition assignment :: regex where
  "assignment = chain [optional quote_class, Many space_class, one_of '':='', Many space_class]"

definition none_of_or_space :: "string \<Rightarrow> regex" where
  "none_of_or_space cs = Chars (\<lambda>c. c \<notin> set cs \<and> \<not> is_space c)"

definition newlines :: string where "newlines = [CHR 0x0D, CHR 0x0A]"

definition backslash :: char where "backslash = CHR 0x5C"

text \<open>A quoted_text text: escapes of any character but a line end, or anything but the quote.\<close>

definition quoted_text :: "char \<Rightarrow> regex" where
  "quoted_text q = chain [one_of [q], Many (Either (Then (one_of [backslash]) (none_of newlines)) (none_of [q])), one_of [q]]"

definition SENSITIVE_HEADER_PATTERN :: regex where
  "SENSITIVE_HEADER_PATTERN = chain [Boundary, Capture 1 (choice [any_case ''authorization'', separated ''proxy'' ''-_ '' ''authorization'',
     any_case ''cookie'', separated ''set'' ''-_ '' ''cookie'', separated ''idempotency'' ''-_ '' ''key'']), Boundary,
     assignment, Many (none_of newlines)]"

definition URI_USERINFO_PATTERN :: regex where
  "URI_USERINFO_PATTERN = chain [Boundary, Capture 1 (chain [letter, Many (alnum_or ''+.-''), literal ''://'']),
     Capture 2 (many1 (none_of_or_space ''/@'')), one_of ''@'']"

definition SENSITIVE_QUERY_VALUE_PATTERN :: regex where
  "SENSITIVE_QUERY_VALUE_PATTERN = chain [Capture 1 (chain [one_of ''?&'', name_class, choice sensitive_words, name_class, one_of ''='']),
     Capture 2 (many1 (none_of_or_space ''&#''))]"

definition SENSITIVE_TEXT_PATTERN :: regex where
  "SENSITIVE_TEXT_PATTERN = chain [Boundary,
     Capture 1 (chain [name_class, choice (sensitive_words @ [any_case ''body'', any_case ''payload'', any_case ''formdata'']), name_class]),
     Boundary, assignment,
     choice [quoted_text CHR 0x22, quoted_text CHR 0x27, chain [one_of ''['', many1 (none_of_or_space '',}]''), one_of '']''],
       many1 (none_of_or_space '',}]'')]]"

definition BEARER_OR_BASIC_PATTERN :: regex where
  "BEARER_OR_BASIC_PATTERN = chain [Boundary, Capture 1 (choice [any_case ''Bearer'', any_case ''Basic'']),
     many1 space_class, many1 (none_of_or_space '',;'')]"

definition NOUVA_TOKEN_PATTERN :: regex where
  "NOUVA_TOKEN_PATTERN = chain [Boundary, literal ''nouva_v1_'', many1 (alnum_or ''_-''), Boundary]"

definition GITHUB_TOKEN_PATTERN :: regex where
  "GITHUB_TOKEN_PATTERN = chain [Boundary, choice [chain [literal ''gh'', one_of ''pousr'', literal ''_'', many1 (alnum_or ''_'')],
     chain [literal ''github_pat_'', many1 (alnum_or ''_'')]], Boundary]"

definition redactCredentialShapes :: "string \<Rightarrow> string" where
  "redactCredentialShapes v =
     replace_all GITHUB_TOKEN_PATTERN (\<lambda>m. REDACTED_LOG_VALUE)
     (replace_all NOUVA_TOKEN_PATTERN (\<lambda>m. REDACTED_LOG_VALUE)
     (replace_all BEARER_OR_BASIC_PATTERN (\<lambda>m. captured m 1 @ '' '' @ REDACTED_LOG_VALUE)
     (replace_all SENSITIVE_TEXT_PATTERN (\<lambda>m. captured m 1 @ ''='' @ REDACTED_LOG_VALUE)
     (replace_all SENSITIVE_QUERY_VALUE_PATTERN (\<lambda>m. captured m 1 @ REDACTED_LOG_VALUE)
     (replace_all URI_USERINFO_PATTERN (\<lambda>m. captured m 1 @ REDACTED_LOG_VALUE @ ''@'')
     (replace_all SENSITIVE_HEADER_PATTERN (\<lambda>m. captured m 1 @ ''='' @ REDACTED_LOG_VALUE) v))))))"

text \<open>A text without the marks that every shape has is none.\<close>

lemma shapes_free:
  assumes "\<forall>c \<in> set v. c \<notin> set '':=@_'' \<and> \<not> is_space c"
  shows "redactCredentialShapes v = v"
proof -
  let ?p = "\<lambda>c. c \<in> set '':=@_'' \<or> is_space c"
  have "consumes ?p GITHUB_TOKEN_PATTERN" "consumes ?p NOUVA_TOKEN_PATTERN" "consumes ?p BEARER_OR_BASIC_PATTERN"
    "consumes ?p SENSITIVE_TEXT_PATTERN" "consumes ?p SENSITIVE_QUERY_VALUE_PATTERN" "consumes ?p URI_USERINFO_PATTERN"
    "consumes ?p SENSITIVE_HEADER_PATTERN"
    by (auto simp: GITHUB_TOKEN_PATTERN_def NOUVA_TOKEN_PATTERN_def BEARER_OR_BASIC_PATTERN_def SENSITIVE_TEXT_PATTERN_def
        SENSITIVE_QUERY_VALUE_PATTERN_def URI_USERINFO_PATTERN_def SENSITIVE_HEADER_PATTERN_def space_class_def assignment_def)
  then show ?thesis
    using assms by (simp add: redactCredentialShapes_def replace_all_consumes [where p = ?p])
qed

section \<open>Redacting a text\<close>

definition redactTextWithSecretMatcher :: "string \<Rightarrow> char matcher \<Rightarrow> string list \<Rightarrow> string option" where
  "redactTextWithSecretMatcher v m boundary =
     map_option redactCredentialShapes (redactLiteralSecretsWithMatcher v m boundary)"

definition redactTextWithSecrets :: "string \<Rightarrow> string list \<Rightarrow> string list \<Rightarrow> string option" where
  "redactTextWithSecrets v secretValues platformGenerated =
     (let (boundary, substring) = partitionRedactionTokens (uniqueSortedSecretValues secretValues) platformGenerated
      in Option.bind (createLiteralSecretMatcher substring) (\<lambda>m. redactTextWithSecretMatcher v m boundary))"

definition redactLogText :: "string list \<Rightarrow> string \<Rightarrow> log_options \<Rightarrow> string option" where
  "redactLogText configured v o1 = redactTextWithSecrets v (resolveSecretValues configured o1) (lo_platformGeneratedValues o1)"

definition redact_text :: "redaction \<Rightarrow> string \<Rightarrow> string option" where
  "redact_text r v = redactTextWithSecretMatcher v (rd_substringMatcher r) (rd_boundaryTextValues r)"

definition createLogTextRedactor :: "string list \<Rightarrow> log_options \<Rightarrow> (string \<Rightarrow> string option) option" where
  "createLogTextRedactor configured o1 = map_option redact_text (compileLogRedaction configured o1)"

definition sanitizeLogUrl :: "string option \<Rightarrow> string" where
  "sanitizeLogUrl v = (case v of
       None \<Rightarrow> ''/''
     | Some u \<Rightarrow> let path = takeWhile (\<lambda>c. c \<notin> set ''?#'') u in if path = [] then ''/'' else path)"

end
