(* ===== verification/Log_Values.thy ===== *)
theory Log_Values
  imports Log_Redaction
begin

text \<open>
  Redaction of values (\<open>packages/runtime/src/logging.ts\<close>): what is logged of a value of any kind, the
  serialisers and the logger, and the entry points of \<open>agent/src/security.ts\<close>. Values refer to objects of a
  heap, which may refer to each other in cycles. A result is nothing when the code does not return.
\<close>

section \<open>Results\<close>

type_synonym 'a res = "(js_error + 'a) option"

definition res_bind :: "'a res \<Rightarrow> ('a \<Rightarrow> 'b res) \<Rightarrow> 'b res" where
  "res_bind m f = (case m of None \<Rightarrow> None | Some (Inl e) \<Rightarrow> Some (Inl e) | Some (Inr x) \<Rightarrow> f x)"

definition res_return :: "'a \<Rightarrow> 'a res" where "res_return x = Some (Inr x)"

definition res_text :: "string option \<Rightarrow> json res" where "res_text m = map_option (\<lambda>s. Inr (JStr s)) m"

primrec res_map :: "('a \<Rightarrow> 'b res) \<Rightarrow> 'a list \<Rightarrow> 'b list res" where
  "res_map f [] = res_return []"
| "res_map f (x # xs) = res_bind (f x) (\<lambda>y. res_bind (res_map f xs) (\<lambda>ys. res_return (y # ys)))"

primrec res_fold :: "('a \<Rightarrow> 'b \<Rightarrow> 'b res) \<Rightarrow> 'a list \<Rightarrow> 'b \<Rightarrow> 'b res" where
  "res_fold f [] b = res_return b"
| "res_fold f (x # xs) b = res_bind (f x b) (res_fold f xs)"

section \<open>Values\<close>

datatype js_value =
    VUndefined
  | VNull
  | VBool bool
  | VNum jsnum
  | VBigInt int
  | VString string
  | VSymbol
  | VFunction
  | VRef nat

text \<open>
  The objects the code tells apart: a date by its time, binary data by its length, the entries of parameters,
  headers and forms (a form's entry may be a file), errors by message, name and stack, and plain objects by
  their own enumerable members, or by nothing where \<open>Object.entries\<close> throws.
\<close>

datatype js_object =
    ODate "int option"
  | OUrl string
  | OBuffer nat
  | OBytes nat
  | OSearchParams "(string \<times> string) list"
  | OHeaders "(string \<times> string) list"
  | OFormData "(string \<times> string option) list"
  | OError string string "string option"
  | OMap "(js_value \<times> js_value) list"
  | OSet "js_value list"
  | OArray "js_value list"
  | OPlain "(string \<times> js_value) list option"

type_synonym js_heap = "js_object list"

text \<open>The members every object inherits; reading one of them from a new object finds a function or an object.\<close>

definition INHERITED_MEMBERS :: "string list" where
  "INHERITED_MEMBERS = [''constructor'', ''__defineGetter__'', ''__defineSetter__'', ''hasOwnProperty'', ''__lookupGetter__'',
     ''__lookupSetter__'', ''isPrototypeOf'', ''propertyIsEnumerable'', ''toString'', ''valueOf'', ''__proto__'', ''toLocaleString'']"

text \<open>Assigning to \<open>__proto__\<close> of a new object adds no member.\<close>

definition put_member :: "(string \<times> 'a) list \<Rightarrow> string \<Rightarrow> 'a \<Rightarrow> (string \<times> 'a) list" where
  "put_member r k v = (if k = ''__proto__'' then r else obj_put r k v)"

section \<open>Sanitizing\<close>

definition sanitizeStructuredText :: "redaction \<Rightarrow> string \<Rightarrow> string option" where
  "sanitizeStructuredText r v = (if v \<in> set (rd_exactStructuredValues r) then Some REDACTED_LOG_VALUE else redact_text r v)"

definition sanitize_string :: "redaction \<Rightarrow> string \<Rightarrow> string option" where
  "sanitize_string r v = (if v \<in> set (rd_assignedNames r) then Some (redactCredentialShapes v) else sanitizeStructuredText r v)"

text \<open>An entry of parameters or of a form: its values are collected under the redacted name.\<close>

definition sanitized_entry :: "redaction \<Rightarrow> string \<Rightarrow> string option \<Rightarrow> string option" where
  "sanitized_entry r k v = (if isSensitiveLogKey k then Some REDACTED_LOG_VALUE
     else case v of None \<Rightarrow> Some ''[File]'' | Some s \<Rightarrow> sanitize_string r s)"

definition add_entry :: "redaction \<Rightarrow> string \<times> string option \<Rightarrow> (string \<times> string list) list \<Rightarrow> (string \<times> string list) list res" where
  "add_entry r e result = (case sanitizeStructuredText r (fst e) of
       None \<Rightarrow> None
     | Some safeKey \<Rightarrow> (case sanitized_entry r (fst e) (snd e) of
         None \<Rightarrow> None
       | Some v \<Rightarrow> (case map_of result safeKey of
           Some vs \<Rightarrow> res_return (put_member result safeKey (vs @ [v]))
         | None \<Rightarrow>
             if safeKey \<in> set INHERITED_MEMBERS then Some (Inl (Error ''values.push is not a function''))
             else res_return (put_member result safeKey [v]))))"

definition sanitize_entries :: "redaction \<Rightarrow> (string \<times> string option) list \<Rightarrow> json res" where
  "sanitize_entries r es = res_bind (res_fold (add_entry r) es [])
     (\<lambda>result. res_return (JObj (map (\<lambda>(k, vs). (k, JArr (map JStr vs))) result)))"

definition add_header :: "redaction \<Rightarrow> string \<times> string \<Rightarrow> (string \<times> json) list \<Rightarrow> (string \<times> json) list res" where
  "add_header r e result = (case sanitizeStructuredText r (fst e) of
       None \<Rightarrow> None
     | Some safeKey \<Rightarrow> map_option (\<lambda>v. Inr (put_member result safeKey (JStr v))) (sanitized_entry r (fst e) (Some (snd e))))"

text \<open>\<open>san\<close> is the sanitizing of a value inside the object.\<close>

definition add_member ::
    "(js_value \<Rightarrow> json res) \<Rightarrow> redaction \<Rightarrow> string \<times> js_value \<Rightarrow> (string \<times> json) list \<Rightarrow> (string \<times> json) list res" where
  "add_member san r e result =
     (case if rd_preserveObjectKeys r then Some (fst e) else sanitizeStructuredText r (fst e) of
        None \<Rightarrow> None
      | Some safeKey \<Rightarrow>
          res_bind (if isSensitiveLogKey (fst e) then res_return (JStr REDACTED_LOG_VALUE) else san (snd e))
            (\<lambda>v. res_return (put_member result safeKey v)))"

definition sanitize_error :: "redaction \<Rightarrow> string \<Rightarrow> string \<Rightarrow> string option \<Rightarrow> json res" where
  "sanitize_error r message name stack =
     res_bind (res_text (sanitize_string r message)) (\<lambda>m.
     res_bind (res_text (sanitize_string r (if name = [] then ''Error'' else name))) (\<lambda>n.
     case stack of
       None \<Rightarrow> res_return (JObj [(''message'', m), (''type'', n)])
     | Some s \<Rightarrow>
         if s = [] then res_return (JObj [(''message'', m), (''type'', n)])
         else res_bind (res_text (sanitize_string r s)) (\<lambda>t. res_return (JObj [(''message'', m), (''type'', n), (''stack'', t)]))))"

definition sanitizeObjectValue :: "(js_value \<Rightarrow> json res) \<Rightarrow> redaction \<Rightarrow> js_object \<Rightarrow> json res" where
  "sanitizeObjectValue san r obj = (case obj of
       ODate t \<Rightarrow> res_return (JStr (case t of None \<Rightarrow> ''[Invalid Date]'' | Some ms \<Rightarrow> to_iso_string ms))
     | OUrl u \<Rightarrow> res_text (redact_text r u)
     | OBuffer n \<Rightarrow> res_return (JStr (''[Buffer '' @ show_nat n @ '' bytes]''))
     | OBytes n \<Rightarrow> res_return (JStr (''[Binary '' @ show_nat n @ '' bytes]''))
     | OSearchParams es \<Rightarrow> sanitize_entries r (map (\<lambda>(k, v). (k, Some v)) es)
     | OHeaders es \<Rightarrow> res_bind (res_fold (add_header r) es []) (\<lambda>ms. res_return (JObj ms))
     | OFormData es \<Rightarrow> sanitize_entries r es
     | OError message name stack \<Rightarrow> sanitize_error r message name stack
     | OMap es \<Rightarrow> res_bind (res_map (\<lambda>e. res_bind (san (fst e)) (\<lambda>k. res_bind (san (snd e)) (\<lambda>v. res_return (JArr [k, v])))) es)
         (\<lambda>xs. res_return (JArr xs))
     | OSet vs \<Rightarrow> res_bind (res_map san vs) (\<lambda>xs. res_return (JArr xs))
     | OArray vs \<Rightarrow> res_bind (res_map san vs) (\<lambda>xs. res_return (JArr xs))
     | OPlain None \<Rightarrow> res_return (JObj [])
     | OPlain (Some ms) \<Rightarrow> res_bind (res_fold (add_member san r) ms []) (\<lambda>ms'. res_return (JObj ms')))"

text \<open>
  \<open>seen\<close> holds the objects being sanitized: an object is in it while its members are. A reference always
  points into the heap.
\<close>

function sanitizeValue :: "js_heap \<Rightarrow> redaction \<Rightarrow> nat list \<Rightarrow> js_value \<Rightarrow> json res" where
  "sanitizeValue h r seen VUndefined = res_return JUndefined"
| "sanitizeValue h r seen VNull = res_return JNull"
| "sanitizeValue h r seen (VBool b) = res_return (JBool b)"
| "sanitizeValue h r seen (VNum n) = res_return (JNum n)"
| "sanitizeValue h r seen (VBigInt i) = res_return (JStr (show_int i))"
| "sanitizeValue h r seen (VString s) = res_text (sanitize_string r s)"
| "sanitizeValue h r seen VSymbol = res_return (JStr ''[Symbol]'')"
| "sanitizeValue h r seen VFunction = res_return (JStr ''[Function]'')"
| "sanitizeValue h r seen (VRef a) =
     (if a \<in> set seen then res_return (JStr ''[Circular]'')
      else if a < length h then sanitizeObjectValue (\<lambda>v. sanitizeValue h r (a # seen) v) r (h ! a)
      else res_return JUndefined)"
  by pat_completeness auto
termination
proof (relation "measure (\<lambda>(h, r, seen, v). card ({..<length h} - set seen))")
  fix h :: js_heap and r :: redaction and seen :: "nat list" and a :: nat and v :: js_value
  assume "a \<notin> set seen" "a < length h"
  then have "{..<length h} - set (a # seen) \<subset> {..<length h} - set seen" by auto
  then show "((h, r, a # seen, v), h, r, seen, VRef a) \<in> measure (\<lambda>(h, r, seen, v). card ({..<length h} - set seen))"
    by (simp add: psubset_card_mono)
qed simp

definition sanitizeLogValue :: "string list \<Rightarrow> log_options \<Rightarrow> js_heap \<Rightarrow> js_value \<Rightarrow> json res" where
  "sanitizeLogValue configured o1 h v =
     (case compileLogRedaction configured o1 of None \<Rightarrow> None | Some r \<Rightarrow> sanitizeValue h r [] v)"

section \<open>Serialisers\<close>

fun asRecord :: "json \<Rightarrow> (string \<times> json) list" where
  "asRecord (JObj ms) = ms"
| "asRecord _ = []"

definition text_or :: "json \<Rightarrow> string \<Rightarrow> string" where
  "text_or v d = (case v of JStr s \<Rightarrow> s | _ \<Rightarrow> d)"

record safe_error =
  se_message :: string
  se_stack :: string
  se_type :: string

definition safe_error_of :: "json \<Rightarrow> safe_error" where
  "safe_error_of v = (case v of
       JObj ms \<Rightarrow> \<lparr>se_message = text_or (jprop ms ''message'') ''Unknown error'', se_stack = text_or (jprop ms ''stack'') [],
         se_type = text_or (jprop ms ''type'') ''Error''\<rparr>
     | _ \<Rightarrow> \<lparr>se_message = text_or v ''Unknown error'', se_stack = [], se_type = ''Error''\<rparr>)"

definition serializeSafeError :: "string list \<Rightarrow> log_options \<Rightarrow> js_heap \<Rightarrow> js_value \<Rightarrow> safe_error res" where
  "serializeSafeError configured o1 h e =
     res_bind (sanitizeLogValue configured o1 h e) (\<lambda>v. res_return (safe_error_of v))"

record log_request =
  rq_hostname :: "string option"
  rq_method :: "string option"
  rq_remoteAddress :: "string option"
  rq_remotePort :: "jsnum option"
  rq_url :: "string option"

definition redact_field :: "redaction \<Rightarrow> string option \<Rightarrow> json res" where
  "redact_field r v = (case v of None \<Rightarrow> res_return JUndefined | Some s \<Rightarrow> res_text (redact_text r s))"

definition serializeSafeRequestForLog ::
    "string list \<Rightarrow> log_options \<Rightarrow> (string option \<Rightarrow> string) \<Rightarrow> log_request \<Rightarrow> (string \<times> json) list res" where
  "serializeSafeRequestForLog configured o1 sanitizeUrl q =
     (case compileLogRedaction configured o1 of None \<Rightarrow> None | Some r \<Rightarrow>
       res_bind (redact_field r (rq_hostname q)) (\<lambda>hostname.
       res_bind (redact_field r (rq_method q)) (\<lambda>verb.
       res_bind (redact_field r (rq_remoteAddress q)) (\<lambda>address.
       res_bind (res_text (redact_text r (sanitizeUrl (rq_url q)))) (\<lambda>url.
         res_return [(''hostname'', hostname), (''method'', verb), (''remoteAddress'', address),
           (''remotePort'', case rq_remotePort q of None \<Rightarrow> JUndefined | Some n \<Rightarrow> JNum n), (''url'', url)])))))"

section \<open>The logger\<close>

text \<open>\<open>write\<close> is given the record whose JSON text it gets, and the level; it may throw.\<close>

type_synonym 'w log_write = "(string \<times> json) list \<Rightarrow> string \<Rightarrow> ('w, unit) io"

definition io_res :: "'a res \<Rightarrow> ('w, 'a) io" where
  "io_res m = (\<lambda>w. map_option (\<lambda>r. (r, w)) m)"

definition log_record ::
    "redaction \<Rightarrow> js_heap \<Rightarrow> js_value option \<Rightarrow> string \<Rightarrow> string \<Rightarrow> js_value option \<Rightarrow> (string \<times> json) list res" where
  "log_record r h bindings level message members =
     (let sanitized = (\<lambda>v. case v of None \<Rightarrow> res_return (JObj []) | Some x \<Rightarrow> sanitizeValue h r [] x)
      in res_bind (sanitized bindings) (\<lambda>b.
         res_bind (sanitized members) (\<lambda>f.
         res_bind (res_text (redact_text r message)) (\<lambda>m.
           res_return (obj_spread (obj_spread (obj_spread [] (asRecord b)) (asRecord f)) [(''level'', JStr level), (''message'', m)])))))"

definition log_emit ::
    "'w log_write \<Rightarrow> redaction \<Rightarrow> js_heap \<Rightarrow> js_value option \<Rightarrow> string \<Rightarrow> string \<Rightarrow> js_value option \<Rightarrow> ('w, unit) io" where
  "log_emit write r h bindings level message members =
     io_bind (io_res (log_record r h bindings level message members)) (\<lambda>rec.
       io_catch (write rec level) (\<lambda>_.
         io_catch (write [(''level'', JStr level), (''message'', JStr ''Unable to serialize log entry'')] level) (\<lambda>_. io_return ())))"

section \<open>The agent's entry points\<close>

definition plain_options :: log_options where
  "plain_options = \<lparr>lo_assignedNames = [], lo_environmentVariables = None, lo_exactStructuredValues = [], lo_operationalValues = [],
     lo_platformGeneratedValues = [], lo_preserveObjectKeys = False, lo_secretValues = None\<rparr>"

definition redactSensitiveText :: "string list \<Rightarrow> string \<Rightarrow> environment option \<Rightarrow> string list \<Rightarrow> string option" where
  "redactSensitiveText configured v env operational =
     redactLogText configured v (plain_options\<lparr>lo_environmentVariables := env, lo_operationalValues := operational\<rparr>)"

definition createBuildLogRedactor :: "string list \<Rightarrow> environment \<Rightarrow> string list \<Rightarrow> (string \<Rightarrow> string option) option" where
  "createBuildLogRedactor configured env platform =
     createLogTextRedactor configured (plain_options\<lparr>lo_platformGeneratedValues := platform,
       lo_secretValues := Some (configured @ collectEnvironmentMapValues env)\<rparr>)"

definition sanitizeSensitiveValue ::
    "string list \<Rightarrow> js_heap \<Rightarrow> js_value \<Rightarrow> environment option \<Rightarrow> string list \<Rightarrow> string list \<Rightarrow> json res" where
  "sanitizeSensitiveValue configured h v env operational assigned =
     sanitizeLogValue configured (plain_options\<lparr>lo_assignedNames := assigned, lo_environmentVariables := env,
       lo_operationalValues := operational\<rparr>) h v"

definition protocol_options :: "string list \<Rightarrow> environment \<Rightarrow> string list \<Rightarrow> string list \<Rightarrow> log_options" where
  "protocol_options configured env operational assigned =
     plain_options\<lparr>lo_assignedNames := assigned, lo_operationalValues := operational, lo_preserveObjectKeys := True,
       lo_secretValues := Some (configured @ collectEnvironmentMapValues env)\<rparr>"

definition sanitizeSensitiveProtocolValue ::
    "string list \<Rightarrow> js_heap \<Rightarrow> js_value \<Rightarrow> environment \<Rightarrow> string list \<Rightarrow> string list \<Rightarrow> json res" where
  "sanitizeSensitiveProtocolValue configured h v env operational assigned =
     sanitizeLogValue configured (protocol_options configured env operational assigned) h v"

end
