(* ===== verification/Log_Redaction_Props.thy ===== *)
theory Log_Redaction_Props
  imports Log_Redaction
begin

text \<open>
  What the search masks: every position at which a secret starts lies in a masked part of the text, every
  masked part is a secret, and the rest is kept. And whose values a deployment's redaction holds.
\<close>

section \<open>Boundary matches\<close>

fun boundary_match :: "string list \<Rightarrow> string \<Rightarrow> nat \<Rightarrow> nat" where
  "boundary_match [] v i = 0"
| "boundary_match (s # ss) v i =
     (if prefix s (drop i v) \<and> lexical_boundary v i (length s) then max (length s) (boundary_match ss v i)
      else boundary_match ss v i)"

lemma index_from_Some:
  assumes "index_from v s i = Some j"
  shows "i \<le> j" "prefix s (drop j v)" "s \<noteq> [] \<Longrightarrow> j < length v" "\<And>k. i \<le> k \<Longrightarrow> k < j \<Longrightarrow> \<not> prefix s (drop k v)"
proof -
  let ?xs = "[i..<Suc (length v)]"
  obtain n where n: "n < length ?xs" "prefix s (drop (?xs ! n) v)" "j = ?xs ! n"
      "\<And>m. m < n \<Longrightarrow> \<not> prefix s (drop (?xs ! m) v)"
    using assms unfolding index_from_def find_Some_iff by auto
  then have j: "j = i + n" by (simp del: upt_Suc)
  show "i \<le> j" "prefix s (drop j v)" using n j by auto
  then show "s \<noteq> [] \<Longrightarrow> j < length v" by (cases "j < length v") auto
  fix k assume "i \<le> k" "k < j"
  then show "\<not> prefix s (drop k v)" using n(1) n(4) [of "k - i"] j by (simp del: upt_Suc)
qed

lemma index_from_None:
  assumes "index_from v s i = None" "i \<le> k" "k \<le> length v"
  shows "\<not> prefix s (drop k v)"
  using assms unfolding index_from_def find_None_iff by auto

lemma length_mark_boundary [simp]: "length (mark_boundary v s i ls) = length ls"
  by (simp add: mark_boundary_def)

lemma nth_mark_boundary:
  assumes "length ls = length v" "j < length v"
  shows "mark_boundary v s i ls ! j = (if j = i \<and> lexical_boundary v i (length s) then max (ls ! j) (length s) else ls ! j)"
  using assms by (auto simp: mark_boundary_def nth_list_update max_def)

lemma boundary_loop_marks:
  assumes "s \<noteq> []" "length ls = length v"
  shows "\<exists>ls'. boundary_loop v s (index_from v s i) ls = Some ls' \<and> length ls' = length v \<and>
    (\<forall>j < length v. ls' ! j =
      (if i \<le> j \<and> prefix s (drop j v) \<and> lexical_boundary v j (length s) then max (ls ! j) (length s) else ls ! j))"
  using assms(2)
proof (induction "Suc (length v) - i" arbitrary: i ls rule: less_induct)
  case less
  show ?case
  proof (cases "index_from v s i")
    case None
    then show ?thesis using less.prems index_from_None [OF None] by (subst boundary_loop.simps) auto
  next
    case (Some k)
    note k = index_from_Some [OF Some]
    have kv: "k < length v" using k(3) assms(1) .
    obtain ls' where ls': "boundary_loop v s (index_from v s (Suc k)) (mark_boundary v s k ls) = Some ls'"
        "length ls' = length v" "\<And>j. j < length v \<Longrightarrow> ls' ! j =
          (if Suc k \<le> j \<and> prefix s (drop j v) \<and> lexical_boundary v j (length s)
           then max (mark_boundary v s k ls ! j) (length s) else mark_boundary v s k ls ! j)"
      using less.hyps [of "Suc k" "mark_boundary v s k ls"] k(1) kv less.prems by fastforce
    have "ls' ! j = (if i \<le> j \<and> prefix s (drop j v) \<and> lexical_boundary v j (length s) then max (ls ! j) (length s) else ls ! j)"
      if j: "j < length v" for j
    proof -
      consider "j < k" | "j = k" | "k < j" by linarith
      then show ?thesis
        using k(1,2) k(4) [of j] ls'(3) [OF j] nth_mark_boundary [OF less.prems j, of s k] by cases auto
    qed
    then show ?thesis using ls' Some by (subst boundary_loop.simps) auto
  qed
qed

lemma addBoundaryMatches_max:
  assumes "[] \<notin> set ss" "length ls = length v"
  shows "\<exists>ls'. addBoundaryMatches v ss ls = Some ls' \<and> length ls' = length v \<and>
    (\<forall>j < length v. ls' ! j = max (ls ! j) (boundary_match ss v j))"
  using assms
proof (induction ss arbitrary: ls)
  case (Cons s ss)
  then have "s \<noteq> []" by auto
  from boundary_loop_marks [OF this Cons.prems(2), of 0] obtain l1 where
    l1: "boundary_loop v s (index_from v s 0) ls = Some l1" "length l1 = length v" "\<And>j. j < length v \<Longrightarrow> l1 ! j =
      (if prefix s (drop j v) \<and> lexical_boundary v j (length s) then max (ls ! j) (length s) else ls ! j)" by auto
  from Cons.IH [OF _ l1(2)] Cons.prems(1) obtain l2 where
    "addBoundaryMatches v ss l1 = Some l2" "length l2 = length v" "\<And>j. j < length v \<Longrightarrow> l2 ! j = max (l1 ! j) (boundary_match ss v j)"
    by auto
  with l1 show ?case by (intro exI [of _ l2]) (auto simp: max_def)
qed simp

section \<open>Masking\<close>

text \<open>A text in pieces: characters that are kept, and parts that are masked.\<close>

type_synonym pieces = "(char + string) list"

definition original :: "pieces \<Rightarrow> string" where
  "original ps = concat (map (case_sum (\<lambda>c. [c]) (\<lambda>s. s)) ps)"

definition rendered :: "pieces \<Rightarrow> string" where
  "rendered ps = concat (map (case_sum (\<lambda>c. [c]) (\<lambda>s. REDACTED_LOG_VALUE)) ps)"

lemma pieces_simps [simp]:
  "original [] = []" "rendered [] = []"
  "original (Inl c # ps) = c # original ps" "rendered (Inl c # ps) = c # rendered ps"
  "original (Inr s # ps) = s @ original ps" "rendered (Inr s # ps) = REDACTED_LOG_VALUE @ rendered ps"
  "original (ps @ qs) = original ps @ original qs"
  by (simp_all add: original_def rendered_def)

text \<open>
  The pieces of a text from a position on: a masked piece has the length found at its position, and no match
  was found where a character is kept.
\<close>

definition pieces_of :: "string \<Rightarrow> nat list \<Rightarrow> nat \<Rightarrow> pieces \<Rightarrow> bool" where
  "pieces_of v ls i ps \<longleftrightarrow> original ps = drop i v \<and>
     (\<forall>pre p post. ps = pre @ p # post \<longrightarrow> (let k = i + length (original pre) in k < length v \<and>
        (case p of Inl c \<Rightarrow> ls ! k = 0 | Inr s \<Rightarrow> ls ! k \<noteq> 0 \<and> s = take (ls ! k) (drop k v))))"

lemma pieces_ofD:
  assumes "pieces_of v ls i (pre @ p # post)"
  shows "i + length (original pre) < length v"
    and "p = Inl c \<Longrightarrow> ls ! (i + length (original pre)) = 0"
    and "p = Inr s \<Longrightarrow> ls ! (i + length (original pre)) \<noteq> 0 \<and>
      s = take (ls ! (i + length (original pre))) (drop (i + length (original pre)) v)"
proof -
  have "let k = i + length (original pre) in k < length v \<and>
        (case p of Inl c \<Rightarrow> ls ! k = 0 | Inr s \<Rightarrow> ls ! k \<noteq> 0 \<and> s = take (ls ! k) (drop k v))"
    using assms unfolding pieces_of_def by blast
  then show "i + length (original pre) < length v"
    and "p = Inl c \<Longrightarrow> ls ! (i + length (original pre)) = 0"
    and "p = Inr s \<Longrightarrow> ls ! (i + length (original pre)) \<noteq> 0 \<and>
      s = take (ls ! (i + length (original pre))) (drop (i + length (original pre)) v)"
    by (simp_all add: Let_def)
qed

lemma pieces_of_step:
  assumes "i < length v" "case p of Inl c \<Rightarrow> ls ! i = 0 \<and> c = v ! i | Inr s \<Rightarrow> ls ! i \<noteq> 0 \<and> s = take (ls ! i) (drop i v)"
    and "pieces_of v ls (i + length (original [p])) ps" "i + length (original [p]) \<le> length v"
  shows "pieces_of v ls i (p # ps)"
  unfolding pieces_of_def
proof (intro conjI allI impI)
  show "original (p # ps) = drop i v"
  proof (cases p)
    case (Inl c)
    then show ?thesis using assms by (simp add: pieces_of_def Cons_nth_drop_Suc)
  next
    case (Inr s)
    then have "original ps = drop (length s) (drop i v)" using assms(3) by (simp add: pieces_of_def add.commute)
    moreover have "s = take (length s) (drop i v)" using assms(2) Inr by (auto simp: min_def)
    ultimately show ?thesis using Inr by (metis append_take_drop_id pieces_simps(5))
  qed
  fix pre q post assume q: "p # ps = pre @ q # post"
  show "let k = i + length (original pre) in k < length v \<and>
        (case q of Inl c \<Rightarrow> ls ! k = 0 | Inr s \<Rightarrow> ls ! k \<noteq> 0 \<and> s = take (ls ! k) (drop k v))"
  proof (cases pre)
    case Nil
    then show ?thesis using q assms(1,2) by (auto split: sum.splits)
  next
    case (Cons a pre')
    then have "ps = pre' @ q # post" "original pre = original [p] @ original pre'"
      using q by (auto simp: original_def)
    then show ?thesis
      using assms(3) pieces_ofD [of v ls "i + length (original [p])" pre' q post] by (auto simp: Let_def add.assoc split: sum.splits)
  qed
qed

lemma mask_from_pieces:
  assumes "length ls = length v" "\<And>k. k < length v \<Longrightarrow> k + ls ! k \<le> length v" "from \<le> i" "i \<le> length v"
  shows "\<exists>ps. pieces_of v ls i ps \<and> mask_from v ls from i = take (i - from) (drop from v) @ rendered ps"
  using assms(3,4)
proof (induction "length v - i" arbitrary: "from" i rule: less_induct)
  case less
  show ?case
  proof (cases "i < length v")
    case False
    then show ?thesis
      using less.prems by (intro exI [of _ "[]"]) (simp add: pieces_of_def mask_from.simps [of v ls "from" "length v"])
  next
    case True
    show ?thesis
    proof (cases "ls ! i = 0")
      case zero: True
      have "\<exists>ps. pieces_of v ls (Suc i) ps \<and> mask_from v ls from (Suc i) = take (Suc i - from) (drop from v) @ rendered ps"
        using less.hyps [of "Suc i" "from"] less.prems True by simp
      then obtain ps where ps: "pieces_of v ls (Suc i) ps"
          "mask_from v ls from (Suc i) = take (Suc i - from) (drop from v) @ rendered ps" by blast
      have "take (Suc i - from) (drop from v) = take (i - from) (drop from v) @ [v ! i]"
        using less.prems True by (simp add: Suc_diff_le take_Suc_conv_app_nth)
      then show ?thesis
        using ps True zero pieces_of_step [OF True, where p = "Inl (v ! i)" and ls = ls and ps = ps]
        by (intro exI [of _ "Inl (v ! i) # ps"]) (simp add: mask_from.simps [of v ls "from" i])
    next
      case nonzero: False
      let ?n = "ls ! i"
      have "\<exists>ps. pieces_of v ls (i + ?n) ps \<and> mask_from v ls (i + ?n) (i + ?n) = rendered ps"
        using less.hyps [of "i + ?n" "i + ?n"] assms(2) [OF True] nonzero True by simp
      then obtain ps where ps: "pieces_of v ls (i + ?n) ps" "mask_from v ls (i + ?n) (i + ?n) = rendered ps" by blast
      have "length (take ?n (drop i v)) = ?n" using assms(2) [OF True] by simp
      then show ?thesis
        using ps True nonzero pieces_of_step [OF True, where p = "Inr (take ?n (drop i v))" and ls = ls and ps = ps] assms(2) [OF True]
        by (intro exI [of _ "Inr (take ?n (drop i v)) # ps"]) (simp add: mask_from.simps [of v ls "from" i])
    qed
  qed
qed

section \<open>What is masked\<close>

lemma length_longest_matches [simp]: "length (longest_matches ss v) = length v"
  by (induction v) auto

lemma nth_longest_matches: "i < length v \<Longrightarrow> longest_matches ss v ! i = longest_match ss (drop i v)"
  by (induction v arbitrary: i) (auto simp: nth_Cons drop_Cons' split: nat.splits)

lemma longest_match_secret:
  "longest_match ss w \<noteq> 0 \<Longrightarrow> \<exists>s \<in> set ss. prefix s w \<and> length s = longest_match ss w"
  by (induction ss) (auto simp: max_def split: if_splits)

lemma longest_match_ge: "s \<in> set ss \<Longrightarrow> prefix s w \<Longrightarrow> length s \<le> longest_match ss w"
  by (induction ss) auto

lemma boundary_match_secret:
  "boundary_match ss v i \<noteq> 0 \<Longrightarrow> \<exists>s \<in> set ss. prefix s (drop i v) \<and> length s = boundary_match ss v i"
  by (induction ss) (auto simp: max_def split: if_splits)

lemma boundary_match_ge:
  "s \<in> set ss \<Longrightarrow> prefix s (drop i v) \<Longrightarrow> lexical_boundary v i (length s) \<Longrightarrow> length s \<le> boundary_match ss v i"
  by (induction ss) auto

text \<open>The search, with the pieces it leaves.\<close>

definition masked_soundly :: "string \<Rightarrow> string list \<Rightarrow> string list \<Rightarrow> pieces \<Rightarrow> bool" where
  "masked_soundly v substring boundary ps \<longleftrightarrow> original ps = v \<and>
     (\<forall>pre s post. ps = pre @ Inr s # post \<longrightarrow> s \<in> set substring \<union> set boundary) \<and>
     (\<forall>pre c post. ps = pre @ Inl c # post \<longrightarrow>
        (\<forall>s \<in> set substring. s \<noteq> [] \<longrightarrow> \<not> prefix s (c # original post)) \<and>
        (\<forall>s \<in> set boundary. prefix s (c # original post) \<longrightarrow> \<not> lexical_boundary v (length (original pre)) (length s)))"

lemma masked_by_lengths:
  assumes nb: "[] \<notin> set boundary" and l: "length ls = length v"
    and ls: "\<And>j. j < length v \<Longrightarrow> ls ! j = max (longest_match substring (drop j v)) (boundary_match boundary v j)"
    and p: "pieces_of v ls 0 ps"
  shows "masked_soundly v substring boundary ps"
  unfolding masked_soundly_def
proof (intro conjI allI impI ballI)
  have o: "original ps = v" using p by (simp add: pieces_of_def)
  then show "original ps = v" .
  have at: "drop (length (original pre)) v = original (q # post)" if "ps = pre @ q # post" for pre q post
    using o that by auto
  {
    fix pre :: pieces and s post assume q: "ps = pre @ Inr s # post"
    let ?k = "length (original pre)"
    have k: "?k < length v" "ls ! ?k \<noteq> 0" "s = take (ls ! ?k) (drop ?k v)"
      using pieces_ofD [OF p [unfolded q]] by auto
    then consider "longest_match substring (drop ?k v) = ls ! ?k" | "boundary_match boundary v ?k = ls ! ?k"
      using ls [OF k(1)] by (auto simp: max_def split: if_splits)
    then show "s \<in> set substring \<union> set boundary"
    proof cases
      case 1
      with k obtain t where "t \<in> set substring" "prefix t (drop ?k v)" "length t = ls ! ?k"
        using longest_match_secret [of substring "drop ?k v"] by auto
      then show ?thesis using k(3) by (auto simp: prefix_def)
    next
      case 2
      with k obtain t where "t \<in> set boundary" "prefix t (drop ?k v)" "length t = ls ! ?k"
        using boundary_match_secret [of boundary v ?k] by auto
      then show ?thesis using k(3) by (auto simp: prefix_def)
    qed
  }
  fix pre :: pieces and c post assume q: "ps = pre @ Inl c # post"
  let ?k = "length (original pre)"
  have k: "?k < length v" "ls ! ?k = 0" using pieces_ofD [OF p [unfolded q]] by auto
  then have z: "longest_match substring (drop ?k v) = 0" "boundary_match boundary v ?k = 0" using ls [OF k(1)] by auto
  have d: "drop ?k v = c # original post" using at [OF q] by simp
  {
    fix s assume "s \<in> set substring" "s \<noteq> []"
    then show "\<not> prefix s (c # original post)" using longest_match_ge [of s substring "drop ?k v"] z(1) unfolding d by auto
  next
    fix s assume "s \<in> set boundary" "prefix s (c # original post)"
    then show "\<not> lexical_boundary v ?k (length s)"
      using boundary_match_ge [of s boundary ?k v] z(2) nb unfolding d by auto
  }
qed

lemma literal_redaction:
  assumes m: "createLiteralSecretMatcher substring = Some m" and nb: "[] \<notin> set boundary" "[] \<notin> set substring"
  shows "\<exists>ps. redactLiteralSecretsWithMatcher v m boundary = Some (rendered ps) \<and> masked_soundly v substring boundary ps"
proof -
  obtain s where s: "scan m v = Some (s, longest_matches substring v)"
    using matcher_correct [of substring v] m by auto
  obtain ls where ls: "addBoundaryMatches v boundary (longest_matches substring v) = Some ls" "length ls = length v"
      "\<And>j. j < length v \<Longrightarrow> ls ! j = max (longest_match substring (drop j v)) (boundary_match boundary v j)"
    using addBoundaryMatches_max [OF nb(1), of "longest_matches substring v" v] by (auto simp: nth_longest_matches)
  have bound: "k + ls ! k \<le> length v" if "k < length v" for k
  proof -
    have "longest_match substring (drop k v) \<le> length (drop k v)"
      using longest_match_secret [of substring "drop k v"] prefix_length_le [of _ "drop k v"]
      by (cases "longest_match substring (drop k v) = 0") fastforce+
    moreover have "boundary_match boundary v k \<le> length (drop k v)"
      using boundary_match_secret [of boundary v k] prefix_length_le [of _ "drop k v"]
      by (cases "boundary_match boundary v k = 0") fastforce+
    ultimately show ?thesis using ls(3) [OF that] that by simp
  qed
  from mask_from_pieces [OF ls(2) bound, of 0 0] obtain ps where
    ps: "pieces_of v ls 0 ps" "mask_from v ls 0 0 = rendered ps" by auto
  note sound = masked_by_lengths [OF nb(1) ls(2,3) ps(1)]
  have kept: "rendered (map Inl v) = v" "pieces_of v ls 0 (map Inl v)" if "\<forall>n \<in> set ls. n = 0"
  proof -
    show "rendered (map Inl v) = v" by (simp add: rendered_def comp_def concat_map_singleton)
    have o: "original (map Inl w) = w" for w by (simp add: original_def comp_def concat_map_singleton)
    show "pieces_of v ls 0 (map Inl v)"
      unfolding pieces_of_def
    proof (intro conjI allI impI)
      fix pre :: pieces and p post assume "map Inl v = pre @ p # post"
      then obtain a c b where "v = a @ c # b" "pre = map Inl a" "p = Inl c"
        by (auto simp: map_eq_append_conv map_eq_Cons_conv)
      then show "let k = 0 + length (original pre) in k < length v \<and>
        (case p of Inl c \<Rightarrow> ls ! k = 0 | Inr s \<Rightarrow> ls ! k \<noteq> 0 \<and> s = take (ls ! k) (drop k v))"
        using that ls(2) by (simp add: o)
    qed (simp add: o)
  qed
  show ?thesis
  proof (cases "length m \<le> 1 \<and> boundary = [] \<or> v = []")
    case False
    show ?thesis
    proof (cases "list_ex (\<lambda>n. n \<noteq> 0) ls")
      case True
      then show ?thesis using False s ls ps sound by (auto simp: redactLiteralSecretsWithMatcher_def)
    next
      case none: False
      then show ?thesis
        using False s ls kept masked_by_lengths [OF nb(1) ls(2,3)]
        by (intro exI [of _ "map Inl v"]) (auto simp: redactLiteralSecretsWithMatcher_def list_ex_iff)
    qed
  next
    case True
    have "\<forall>n \<in> set ls. n = 0"
    proof (cases "v = []")
      case False
      with True have "length m \<le> 1" "boundary = []" by auto
      then have "substring = []" using m nb(2) single_node_no_secrets by blast
      with \<open>boundary = []\<close> ls(2,3) show ?thesis by (auto simp: in_set_conv_nth)
    qed (use ls(2) in simp)
    then show ?thesis
      using True kept masked_by_lengths [OF nb(1) ls(2,3)]
      by (intro exI [of _ "map Inl v"]) (auto simp: redactLiteralSecretsWithMatcher_def)
  qed
qed

lemma set_uniqueSorted [simp]: "set (uniqueSortedSecretValues vs) = set vs - {[]}"
  by (auto simp: uniqueSortedSecretValues_def)

lemma distinct_firsts_id: "distinct vs \<Longrightarrow> distinct_firsts vs = vs"
  by (induction vs) (auto simp: removeAll_id)

lemma sort_key_sorted: "sorted (map f xs) \<Longrightarrow> sort_key f xs = xs"
proof (induction xs)
  case (Cons x xs)
  then show ?case by (cases xs) auto
qed simp

lemma uniqueSorted_idem [simp]: "uniqueSortedSecretValues (uniqueSortedSecretValues vs) = uniqueSortedSecretValues vs"
proof -
  let ?u = "uniqueSortedSecretValues vs"
  have "distinct ?u" "sorted (map (\<lambda>v. - int (length v)) ?u)" "filter (\<lambda>v. v \<noteq> []) ?u = ?u"
    by (auto simp: uniqueSortedSecretValues_def filter_id_conv)
  then show ?thesis by (subst uniqueSortedSecretValues_def) (simp add: distinct_firsts_id sort_key_sorted)
qed

lemma resolveSecretValues_unique [simp]:
  "uniqueSortedSecretValues (resolveSecretValues configured o1) = resolveSecretValues configured o1"
  "[] \<notin> set (resolveSecretValues configured o1)"
  by (simp_all add: resolveSecretValues_def)

text \<open>The redactor compiled once for many texts, as the logger and the build log publisher use it, redacts every
  text as a call for that text alone does: compiling always succeeds, and the two searches agree.\<close>

lemma compiled_redactor_agrees:
  "\<exists>redactor. createLogTextRedactor configured o1 = Some redactor \<and> (\<forall>v. redactor v = redactLogText configured v o1)"
proof -
  obtain boundary substring where p:
    "partitionRedactionTokens (resolveSecretValues configured o1) (lo_platformGeneratedValues o1) = (boundary, substring)" by fastforce
  obtain m where m: "createLiteralSecretMatcher substring = Some m" using matcher_correct [of substring] by blast
  then show ?thesis
    by (intro exI) (auto simp: createLogTextRedactor_def compileLogRedaction_def p redactLogText_def redactTextWithSecrets_def
        redact_text_def)
qed

lemma redaction_in_pieces:
  "\<exists>ps. redactLogText configured v o1 = Some (redactCredentialShapes (rendered ps)) \<and> original ps = v \<and>
     (\<forall>pre s post. ps = pre @ Inr s # post \<longrightarrow> s \<in> set (resolveSecretValues configured o1)) \<and>
     (\<forall>pre c post. ps = pre @ Inl c # post \<longrightarrow> (\<forall>s \<in> set (resolveSecretValues configured o1). prefix s (c # original post) \<longrightarrow>
        token_class (lo_platformGeneratedValues o1) s = MatchBoundary \<and>
        \<not> lexical_boundary v (length (original pre)) (length s)))"
proof -
  obtain boundary substring where p:
    "partitionRedactionTokens (resolveSecretValues configured o1) (lo_platformGeneratedValues o1) = (boundary, substring)" by fastforce
  have b: "set boundary = {s \<in> set (resolveSecretValues configured o1). token_class (lo_platformGeneratedValues o1) s = MatchBoundary}"
    and u: "set substring = {s \<in> set (resolveSecretValues configured o1). token_class (lo_platformGeneratedValues o1) s \<noteq> MatchBoundary}"
    using p by (auto simp: partitionRedactionTokens_def)
  then have "[] \<notin> set boundary" "[] \<notin> set substring" by auto
  obtain m where m: "createLiteralSecretMatcher substring = Some m" using matcher_correct [of substring] by blast
  from literal_redaction [OF m \<open>[] \<notin> set boundary\<close> \<open>[] \<notin> set substring\<close>, of v] obtain ps where
    ps: "redactLiteralSecretsWithMatcher v m boundary = Some (rendered ps)" "masked_soundly v substring boundary ps" by blast
  have "s \<noteq> []" if "s \<in> set (resolveSecretValues configured o1)" for s using that by auto
  then show ?thesis
    using ps(2) unfolding masked_soundly_def
    by (intro exI [of _ ps]) (simp add: redactLogText_def redactTextWithSecrets_def p m redactTextWithSecretMatcher_def ps(1) b u, blast)
qed

text \<open>C19 Whatever the secrets and the text, the redaction returns, and it is the text cut into pieces, some
  characters kept and some parts masked, before the shapes of credentials are masked as well. Every masked part
  is one of the secrets, and no secret starts at a character that is kept, wherever it may be, except that a
  secret which may only match as a word of its own can start there inside a longer word.\<close>

theorem no_secret_starts_in_kept_text:
  "\<exists>ps. redactLogText configured v o1 = Some (redactCredentialShapes (rendered ps)) \<and> original ps = v \<and>
     (\<forall>pre s post. ps = pre @ Inr s # post \<longrightarrow> s \<in> set (resolveSecretValues configured o1)) \<and>
     (\<forall>pre c post. ps = pre @ Inl c # post \<longrightarrow> (\<forall>s \<in> set (resolveSecretValues configured o1). prefix s (c # original post) \<longrightarrow>
        token_class (lo_platformGeneratedValues o1) s = MatchBoundary \<and>
        \<not> lexical_boundary v (length (original pre)) (length s)))"
  by (rule redaction_in_pieces)

definition two_secrets :: log_options where
  "two_secrets = \<lparr>lo_assignedNames = [], lo_environmentVariables = None, lo_exactStructuredValues = [], lo_operationalValues = [],
     lo_platformGeneratedValues = [], lo_preserveObjectKeys = False, lo_secretValues = Some [''abc'', ''bcdefgh'']\<rparr>"

text \<open>The search by comparing every secret at every position, for secrets that match anywhere.\<close>

definition mask_text :: "string list \<Rightarrow> string \<Rightarrow> string" where
  "mask_text ss v = (let ls = longest_matches ss v in if list_ex (\<lambda>n. n \<noteq> 0) ls then mask_from v ls 0 0 else v)"

lemma redact_by_comparing:
  assumes "createLiteralSecretMatcher ss = Some m" "[] \<notin> set ss" "ss \<noteq> []" "v \<noteq> []"
  shows "redactTextWithSecretMatcher v m [] = Some (redactCredentialShapes (mask_text ss v))"
proof -
  obtain s where "scan m v = Some (s, longest_matches ss v)" using matcher_correct [of ss v] assms(1) by auto
  moreover have "\<not> length m \<le> 1" using single_node_no_secrets [OF assms(1) _ assms(2)] assms(3) by auto
  ultimately show ?thesis
    using assms(4) by (simp add: redactTextWithSecretMatcher_def redactLiteralSecretsWithMatcher_def mask_text_def Let_def)
qed

lemma redactLogText_by_comparing:
  assumes "partitionRedactionTokens (resolveSecretValues configured o1) (lo_platformGeneratedValues o1) = ([], ss)"
    and "ss \<noteq> []" "v \<noteq> []"
  shows "redactLogText configured v o1 = Some (redactCredentialShapes (mask_text ss v))"
proof -
  obtain m where m: "createLiteralSecretMatcher ss = Some m" using matcher_correct [of ss] by blast
  have "set ss \<subseteq> set (resolveSecretValues configured o1)" using assms(1) by (auto simp: partitionRedactionTokens_def)
  then have "[] \<notin> set ss" by auto
  from redact_by_comparing [OF m this assms(2,3)] show ?thesis
    by (simp add: redactLogText_def redactTextWithSecrets_def assms(1) m)
qed

lemma two_secrets_partition:
  "partitionRedactionTokens (resolveSecretValues [] two_secrets) (lo_platformGeneratedValues two_secrets) = ([], [''bcdefgh'', ''abc''])"
  by code_simp

text \<open>
  A secret that starts inside another one is not masked where it reaches beyond it: five of its seven
  characters are logged.
\<close>

lemma overlapping_secret_leaks: "redactLogText [] ''abcdefgh'' two_secrets = Some ''[REDACTED]defgh''"
proof -
  have "mask_text [''bcdefgh'', ''abc''] ''abcdefgh'' = ''[REDACTED]defgh''" by code_simp
  moreover have "redactCredentialShapes ''[REDACTED]defgh'' = ''[REDACTED]defgh''" by (rule shapes_free) (simp add: js_defs)
  ultimately show ?thesis by (simp add: redactLogText_by_comparing [OF two_secrets_partition])
qed

theorem no_secret_starts_in_kept_text_witness:
  "\<exists>ps. redactLogText [] ''abc'' two_secrets = Some (redactCredentialShapes (rendered ps)) \<and> ps = [Inr ''abc'']"
proof -
  obtain ps where ps: "redactLogText [] ''abc'' two_secrets = Some (redactCredentialShapes (rendered ps))" "original ps = ''abc''"
     "\<And>pre s post. ps = pre @ Inr s # post \<Longrightarrow> s \<in> set (resolveSecretValues [] two_secrets)"
     "\<And>pre c post s. ps = pre @ Inl c # post \<Longrightarrow> s \<in> set (resolveSecretValues [] two_secrets) \<Longrightarrow> prefix s (c # original post) \<Longrightarrow>
        token_class (lo_platformGeneratedValues two_secrets) s = MatchBoundary"
    using no_secret_starts_in_kept_text [of "[]" "''abc''" two_secrets] by blast
  have r: "set (resolveSecretValues [] two_secrets) = {''bcdefgh'', ''abc''}" by code_simp
  have t: "token_class (lo_platformGeneratedValues two_secrets) ''abc'' = MatchSubstring" by code_simp
  obtain p qs where p: "ps = p # qs" using ps(2) by (cases ps) auto
  show ?thesis
  proof (cases p)
    case (Inl c)
    moreover from this ps(2) p have "c # original qs = ''abc''" by simp
    ultimately have "token_class (lo_platformGeneratedValues two_secrets) ''abc'' = MatchBoundary"
      using ps(4) [of "[]" c qs "''abc''"] r p by simp
    with t show ?thesis by simp
  next
    case (Inr s)
    have "s = ''bcdefgh'' \<or> s = ''abc''" using ps(3) [of "[]" s qs] r p Inr by simp
    moreover have "s @ original qs = ''abc''" using ps(2) p Inr by simp
    ultimately have s: "s = ''abc''" "original qs = []" by auto
    have "qs = []"
    proof (cases qs)
      case (Cons q qs')
      with s(2) obtain u where "q = Inr u" "u = []" by (cases q) auto
      then show ?thesis using ps(3) [of "[p]" u qs'] r p Cons by simp
    qed simp
    then show ?thesis using ps(1) p Inr s(1) by blast
  qed
qed

section \<open>A deployment's values\<close>

lemma set_insert_by [simp]: "set (insert_by le x ys) = insert x (set ys)"
  by (induction ys) auto

lemma distinct_insert_by: "distinct (insert_by le x ys) \<longleftrightarrow> x \<notin> set ys \<and> distinct ys"
  by (induction ys) auto

lemma set_sort_by [simp]: "set (sort_by le xs) = set xs"
  by (induction xs) (auto simp: sort_by_def)

lemma distinct_sort_by [simp]: "distinct (sort_by le xs) \<longleftrightarrow> distinct xs"
  by (induction xs) (auto simp: sort_by_def distinct_insert_by set_sort_by [unfolded sort_by_def])

lemma sorted_insert_longer:
  "sorted (map (\<lambda>v. - int (length v)) ys) \<Longrightarrow> sorted (map (\<lambda>v. - int (length v)) (insert_by (longer_first le) x ys))"
  by (induction ys) (auto simp: longer_first_def)

lemma sorted_sort_longer [simp]: "sorted (map (\<lambda>v. - int (length v)) (sort_by (longer_first le) xs))"
  by (induction xs) (auto simp: sort_by_def intro: sorted_insert_longer)

text \<open>C25 The values a deployment's logs are searched for are the values of both its maps, flags apart, each once
  and longest first. The customer wins every tie: a value counts as the platform's only if it is one of the
  build map's own and the customer holds it under no name at all.\<close>

theorem customer_values_stay_strict:
  "let r = collectDeploymentLogRedactionValues le bld rt;
       values = (\<lambda>env. {v. \<exists>k. (k, Some v) \<in> set env \<and> v \<noteq> [] \<and> \<not> isFlagEnvironmentValue v})
   in set (dv_secretValues r) = values bld \<union> values rt \<and> distinct (dv_secretValues r) \<and>
      sorted (map (\<lambda>v. - int (length v)) (dv_secretValues r)) \<and>
      set (dv_platformGeneratedValues r) \<subseteq> values bld - values rt"
proof -
  have collected: "set (collectEnvironmentMapValues env) = {v. \<exists>k. (k, Some v) \<in> set env \<and> v \<noteq> [] \<and> \<not> isFlagEnvironmentValue v}"
    for env
    by (force simp: collectEnvironmentMapValues_def List.map_filter_def)
  let ?r = "collectDeploymentLogRedactionValues le bld rt"
  have "v \<in> set (collectEnvironmentMapValues bld) - set (collectEnvironmentMapValues rt)"
    if "v \<in> set (dv_platformGeneratedValues ?r)" for v
  proof -
    from that obtain k where "(k, Some v) \<in> set bld" "platform_value rt (collectEnvironmentMapValues rt) (k, Some v) = Some v"
      by (auto simp: collectDeploymentLogRedactionValues_def Let_def List.map_filter_def platform_value_def
          split: option.splits if_splits)
    then show ?thesis unfolding collected [of bld] by (auto simp: platform_value_def split: if_splits)
  qed
  moreover have "set (dv_secretValues ?r) = set (collectEnvironmentMapValues bld) \<union> set (collectEnvironmentMapValues rt)"
    "distinct (dv_secretValues ?r)" "sorted (map (\<lambda>v. - int (length v)) (dv_secretValues ?r))"
    by (auto simp: collectDeploymentLogRedactionValues_def Let_def)
  ultimately show ?thesis unfolding Let_def collected [symmetric] by blast
qed

end
