(* ===== verification/Log_Values_Props.thy ===== *)
theory Log_Values_Props
  imports Log_Values Log_Redaction_Props
begin

text \<open>
  What the redaction of values guarantees: it ends on every heap, it throws only on parameters and forms, and
  what is logged does not depend on the values it hides. And what the logger does about failures.
\<close>

section \<open>Results\<close>

lemma res_bind_simps [simp]:
  "res_bind (res_return x) f = f x" "res_bind None f = None" "res_bind (Some (Inl e)) f = Some (Inl e)"
  "res_bind (Some (Inr x)) f = f x"
  by (simp_all add: res_bind_def res_return_def)

text \<open>A result that is there, and is an error only if \<open>P\<close>.\<close>

definition res_settles :: "bool \<Rightarrow> 'a res \<Rightarrow> bool" where
  "res_settles P m \<longleftrightarrow> m \<noteq> None \<and> (\<forall>e. m = Some (Inl e) \<longrightarrow> P)"

lemma res_settles_return [simp, intro]: "res_settles P (res_return x)"
  by (simp add: res_settles_def res_return_def)

lemma res_settles_bind [intro]: "res_settles P m \<Longrightarrow> (\<And>x. res_settles P (f x)) \<Longrightarrow> res_settles P (res_bind m f)"
  by (auto simp: res_settles_def res_bind_def split: option.splits sum.splits)

lemma res_settles_text [simp]: "res_settles P (res_text m) \<longleftrightarrow> m \<noteq> None"
  by (cases m) (auto simp: res_settles_def res_text_def)

lemma res_settles_map [intro]: "(\<And>x. x \<in> set xs \<Longrightarrow> res_settles P (f x)) \<Longrightarrow> res_settles P (res_map f xs)"
  by (induction xs) auto

lemma res_settles_fold [intro]: "(\<And>x b. x \<in> set xs \<Longrightarrow> res_settles P (f x b)) \<Longrightarrow> res_settles P (res_fold f xs b)"
  by (induction xs arbitrary: b) auto

lemma res_settles_mono: "res_settles P m \<Longrightarrow> (P \<Longrightarrow> Q) \<Longrightarrow> res_settles Q m"
  by (auto simp: res_settles_def)

section \<open>It ends\<close>

definition searches :: "redaction \<Rightarrow> bool" where
  "searches r \<longleftrightarrow> (\<forall>v. redact_text r v \<noteq> None)"

lemma sanitize_texts:
  assumes "searches r"
  shows "sanitizeStructuredText r v \<noteq> None" "sanitize_string r v \<noteq> None" "sanitized_entry r k e \<noteq> None" "redact_text r v \<noteq> None"
  using assms by (auto simp: searches_def sanitizeStructuredText_def sanitize_string_def sanitized_entry_def split: option.splits)

lemma compiled_searches:
  assumes "compileLogRedaction configured o1 = Some r"
  shows "searches r"
proof -
  obtain redactor where "createLogTextRedactor configured o1 = Some redactor" "\<And>v. redactor v = redactLogText configured v o1"
    using compiled_redactor_agrees [of configured o1] by blast
  then have "redact_text r v = redactLogText configured v o1" for v using assms by (simp add: createLogTextRedactor_def)
  then show ?thesis using redaction_in_pieces [of configured _ o1] by (fastforce simp: searches_def)
qed

lemma compile_succeeds: "\<exists>r. compileLogRedaction configured o1 = Some r"
  using compiled_redactor_agrees [of configured o1] by (auto simp: createLogTextRedactor_def)

text \<open>The objects whose names are collected, those of parameters and forms.\<close>

fun entry_names :: "js_object \<Rightarrow> string list" where
  "entry_names (OSearchParams es) = map fst es"
| "entry_names (OFormData es) = map fst es"
| "entry_names _ = []"

definition collects_names :: "js_heap \<Rightarrow> bool" where
  "collects_names h \<longleftrightarrow> list_ex (\<lambda>obj. entry_names obj \<noteq> []) h"

lemma add_entry_settles:
  assumes "searches r" shows "res_settles True (add_entry r e result)"
  using sanitize_texts(1) [OF assms, of "fst e"] sanitize_texts(3) [OF assms, of "fst e" "snd e"]
  by (auto simp: add_entry_def res_settles_def res_return_def split: option.splits)

lemma sanitize_entries_settles:
  assumes "searches r" shows "res_settles (es \<noteq> []) (sanitize_entries r es)"
proof (cases es)
  case Nil
  then show ?thesis by (simp add: sanitize_entries_def)
next
  case (Cons e es')
  have "res_settles True (sanitize_entries r es)"
    unfolding sanitize_entries_def using add_entry_settles [OF assms] by (intro res_settles_bind res_settles_fold) auto
  then show ?thesis using Cons by (simp add: res_settles_def)
qed

lemma object_settles:
  assumes r: "searches r" and san: "\<And>v. res_settles P (san v)" and p: "entry_names obj \<noteq> [] \<Longrightarrow> P"
  shows "res_settles P (sanitizeObjectValue san r obj)"
proof (cases obj)
  case (OSearchParams es)
  then show ?thesis
    using res_settles_mono [OF sanitize_entries_settles [OF r], of "map (\<lambda>(k, v). (k, Some v)) es" P] p
    by (simp add: sanitizeObjectValue_def)
next
  case (OFormData es)
  then show ?thesis using res_settles_mono [OF sanitize_entries_settles [OF r], of es P] p by (simp add: sanitizeObjectValue_def)
next
  case (OHeaders es)
  have "res_settles P (add_header r e result)" for e result
    using sanitize_texts(1) [OF r, of "fst e"] sanitize_texts(3) [OF r, of "fst e" "Some (snd e)"]
    by (auto simp: add_header_def res_settles_def split: option.splits)
  then have "res_settles P (res_fold (add_header r) es [])" by (rule res_settles_fold)
  then show ?thesis unfolding OHeaders sanitizeObjectValue_def by auto
next
  case (OPlain ms)
  have "res_settles P (add_member san r e result)" for e result
    using sanitize_texts(1) [OF r, of "fst e"] san by (auto simp: add_member_def split: option.splits)
  then have "res_settles P (res_fold (add_member san r) ms' [])" for ms' by (rule res_settles_fold)
  then show ?thesis unfolding OPlain sanitizeObjectValue_def by (cases ms) auto
next
  case (OError message name stack)
  have "res_settles P (res_text (sanitize_string r s))" for s using sanitize_texts(2) [OF r] by simp
  then have "res_settles P (sanitize_error r message name stack)"
    unfolding sanitize_error_def by (intro res_settles_bind) (auto split: option.split)
  then show ?thesis using OError by (simp add: sanitizeObjectValue_def)
qed (use sanitize_texts [OF r] san in \<open>auto simp: sanitizeObjectValue_def intro!: res_settles_bind res_settles_map\<close>)

lemma sanitizeValue_settles:
  assumes "searches r" shows "res_settles (collects_names h) (sanitizeValue h r seen v)"
  using assms
proof (induction h r seen v rule: sanitizeValue.induct)
  case (9 h r seen a)
  show ?case
  proof (cases "a \<in> set seen \<or> length h \<le> a")
    case False
    then have a: "a \<notin> set seen" "a < length h" by auto
    have "entry_names (h ! a) \<noteq> [] \<Longrightarrow> collects_names h" using a(2) by (auto simp: collects_names_def list_ex_iff)
    with a 9 show ?thesis by (auto intro!: object_settles)
  qed auto
qed (auto simp: sanitize_texts)

text \<open>C21 The redaction of a value returns whatever objects it reaches and however they refer to each other, in
  cycles or not, and it throws only if there are parameters or a form with an entry among them.\<close>

theorem sanitizing_returns:
  "\<exists>result. sanitizeLogValue configured o1 h v = Some result \<and> (isl result \<longrightarrow> collects_names h)"
proof -
  obtain r where r: "compileLogRedaction configured o1 = Some r" using compile_succeeds by blast
  have "res_settles (collects_names h) (sanitizeValue h r [] v)" by (rule sanitizeValue_settles [OF compiled_searches [OF r]])
  then show ?thesis by (auto simp: sanitizeLogValue_def r res_settles_def isl_def)
qed

section \<open>What is hidden\<close>

text \<open>A string that is one of the values to hide, and no name the platform assigned.\<close>

definition hidden :: "redaction \<Rightarrow> string \<Rightarrow> bool" where
  "hidden r s \<longleftrightarrow> s \<in> set (rd_exactStructuredValues r) \<and> s \<notin> set (rd_assignedNames r)"

inductive alike :: "redaction \<Rightarrow> js_value \<Rightarrow> js_value \<Rightarrow> bool" for r where
  alike_same: "alike r v v"
| alike_hidden: "hidden r s \<Longrightarrow> hidden r t \<Longrightarrow> alike r (VString s) (VString t)"

definition alike_text :: "redaction \<Rightarrow> string \<times> string \<Rightarrow> string \<times> string \<Rightarrow> bool" where
  "alike_text r a b \<longleftrightarrow> fst a = fst b \<and> (isSensitiveLogKey (fst a) \<or> snd a = snd b \<or> hidden r (snd a) \<and> hidden r (snd b))"

definition alike_member :: "redaction \<Rightarrow> string \<times> js_value \<Rightarrow> string \<times> js_value \<Rightarrow> bool" where
  "alike_member r a b \<longleftrightarrow> fst a = fst b \<and> (isSensitiveLogKey (fst a) \<or> alike r (snd a) (snd b))"

text \<open>Objects that differ only in strings to hide and in what is under sensitive names.\<close>

inductive alike_object :: "redaction \<Rightarrow> js_object \<Rightarrow> js_object \<Rightarrow> bool" for r where
  object_same: "alike_object r x x"
| object_params: "list_all2 (alike_text r) a b \<Longrightarrow> alike_object r (OSearchParams a) (OSearchParams b)"
| object_headers: "list_all2 (alike_text r) a b \<Longrightarrow> alike_object r (OHeaders a) (OHeaders b)"
| object_map: "list_all2 (\<lambda>x y. alike r (fst x) (fst y) \<and> alike r (snd x) (snd y)) a b \<Longrightarrow> alike_object r (OMap a) (OMap b)"
| object_set: "list_all2 (alike r) a b \<Longrightarrow> alike_object r (OSet a) (OSet b)"
| object_array: "list_all2 (alike r) a b \<Longrightarrow> alike_object r (OArray a) (OArray b)"
| object_plain: "list_all2 (alike_member r) a b \<Longrightarrow> alike_object r (OPlain (Some a)) (OPlain (Some b))"

definition alike_heaps :: "redaction \<Rightarrow> js_heap \<Rightarrow> js_heap \<Rightarrow> bool" where
  "alike_heaps r g h \<longleftrightarrow> list_all2 (alike_object r) g h"

lemma res_fold_cong2:
  "list_all2 (\<lambda>x y. \<forall>b. f x b = g y b) xs ys \<Longrightarrow> res_fold f xs b = res_fold g ys b"
  by (induction xs ys arbitrary: b rule: list_all2_induct) (auto simp: res_bind_def split: option.splits sum.splits)

lemma res_map_cong2: "list_all2 (\<lambda>x y. f x = g y) xs ys \<Longrightarrow> res_map f xs = res_map g ys"
  by (induction rule: list_all2_induct) auto

lemma hidden_string: "hidden r s \<Longrightarrow> sanitize_string r s = Some REDACTED_LOG_VALUE"
  by (simp add: hidden_def sanitize_string_def sanitizeStructuredText_def)

lemma alike_entry: "alike_text r a b \<Longrightarrow> sanitized_entry r (fst a) (Some (snd a)) = sanitized_entry r (fst b) (Some (snd b))"
  by (auto simp: alike_text_def sanitized_entry_def hidden_string)

lemma alike_name: "alike_text r a b \<Longrightarrow> fst a = fst b"
  by (simp add: alike_text_def)

lemma alike_header: "alike_text r a b \<Longrightarrow> add_header r a res = add_header r b res"
  using alike_entry [of r a b] alike_name [of r a b] by (simp add: add_header_def cong: option.case_cong)

lemma alike_param: "alike_text r a b \<Longrightarrow> add_entry r (fst a, Some (snd a)) res = add_entry r (fst b, Some (snd b)) res"
  using alike_entry [of r a b] alike_name [of r a b] by (simp add: add_entry_def cong: option.case_cong)

lemma alike_params:
  assumes "list_all2 (alike_text r) a b"
  shows "sanitize_entries r (map (\<lambda>(k, v). (k, Some v)) a) = sanitize_entries r (map (\<lambda>(k, v). (k, Some v)) b)"
proof -
  have "list_all2 (\<lambda>x y. \<forall>res. add_entry r x res = add_entry r y res)
      (map (\<lambda>(k, v). (k, Some v)) a) (map (\<lambda>(k, v). (k, Some v)) b)"
    unfolding list_all2_map1 list_all2_map2 using assms
    by (rule list_all2_mono) (use alike_param in \<open>auto simp: case_prod_beta\<close>)
  then show ?thesis by (simp add: sanitize_entries_def res_fold_cong2)
qed

lemma alike_objects:
  assumes san: "\<And>v w. alike r v w \<Longrightarrow> f v = g w" and o: "alike_object r x y"
  shows "sanitizeObjectValue f r x = sanitizeObjectValue g r y"
  using o
proof cases
  case object_same
  have "f = g" using san alike_same by blast
  with object_same show ?thesis by simp
next
  case (object_params a b)
  then show ?thesis using alike_params by (simp add: sanitizeObjectValue_def)
next
  case (object_headers a b)
  then have "list_all2 (\<lambda>x y. \<forall>res. add_header r x res = add_header r y res) a b"
    by (auto intro: list_all2_mono alike_header)
  then show ?thesis using object_headers by (simp add: sanitizeObjectValue_def res_fold_cong2)
next
  case (object_map a b)
  then have "list_all2 (\<lambda>x y. res_bind (f (fst x)) (\<lambda>k. res_bind (f (snd x)) (\<lambda>v. res_return (JArr [k, v]))) =
      res_bind (g (fst y)) (\<lambda>k. res_bind (g (snd y)) (\<lambda>v. res_return (JArr [k, v])))) a b"
    using san by (auto elim!: list_all2_mono)
  from res_map_cong2 [OF this] show ?thesis using object_map by (simp add: sanitizeObjectValue_def)
next
  case (object_set a b)
  then have "list_all2 (\<lambda>x y. f x = g y) a b" using san by (auto elim!: list_all2_mono)
  then show ?thesis using object_set by (simp add: sanitizeObjectValue_def res_map_cong2)
next
  case (object_array a b)
  then have "list_all2 (\<lambda>x y. f x = g y) a b" using san by (auto elim!: list_all2_mono)
  then show ?thesis using object_array by (simp add: sanitizeObjectValue_def res_map_cong2)
next
  case (object_plain a b)
  have "add_member f r x res = add_member g r y res" if "alike_member r x y" for x y res
    using that san [of "snd x" "snd y"] unfolding alike_member_def add_member_def
    by (cases "isSensitiveLogKey (fst y)"; cases "sanitizeStructuredText r (fst y)") auto
  with object_plain have "list_all2 (\<lambda>x y. \<forall>res. add_member f r x res = add_member g r y res) a b"
    by (auto elim!: list_all2_mono)
  then show ?thesis using object_plain by (simp add: sanitizeObjectValue_def res_fold_cong2)
qed

lemma alike_values:
  assumes "alike_heaps r g h" "alike r v w"
  shows "sanitizeValue g r seen v = sanitizeValue h r seen w"
  using assms
proof (induction g r seen v arbitrary: w rule: sanitizeValue.induct)
  case (6 g r seen s)
  from 6(2) show ?case by cases (auto simp: hidden_string)
next
  case (9 g r seen a)
  from 9(3) have w: "w = VRef a" by cases simp
  have l: "length g = length h" using 9(2) by (auto simp: alike_heaps_def dest: list_all2_lengthD)
  have "sanitizeObjectValue (sanitizeValue g r (a # seen)) r (g ! a) = sanitizeObjectValue (sanitizeValue h r (a # seen)) r (h ! a)"
    if "a \<notin> set seen" "a < length g"
    using 9(1) [OF that 9(2)] 9(2) that(2) by (intro alike_objects) (auto simp: alike_heaps_def list_all2_conv_all_nth)
  then show ?case by (simp add: w l)
qed (auto elim: alike.cases)

text \<open>C20 What is logged does not depend on what is to be hidden. Two values, on two heaps of the same shape, that
  differ only in what is under sensitive names, whatever it is, and in strings that are each a value to hide and
  no assigned name, in an array, a set, a map, a header, a parameter or a member, are redacted to the same.\<close>

theorem hidden_values_do_not_show:
  assumes "compileLogRedaction configured o1 = Some r" "alike_heaps r g h" "alike r v w"
  shows "sanitizeLogValue configured o1 g v = sanitizeLogValue configured o1 h w"
  using alike_values [OF assms(2,3)] by (simp add: sanitizeLogValue_def assms(1))

text \<open>A record in a cycle, with a password and a secret in an array.\<close>

definition cyclic_heap :: "string \<Rightarrow> string \<Rightarrow> js_heap" where
  "cyclic_heap password secret =
     [OPlain (Some [(''password'', VString password), (''self'', VRef 0), (''list'', VRef 1)]), OArray [VString secret, VNum NaN]]"

theorem hidden_values_do_not_show_witness:
  "sanitizeLogValue [] two_secrets (cyclic_heap ''x'' ''abc'') (VRef 0) =
     sanitizeLogValue [] two_secrets (cyclic_heap ''longer'' ''bcdefgh'') (VRef 0)"
proof -
  obtain r where r: "compileLogRedaction [] two_secrets = Some r" using compile_succeeds by blast
  have "resolveExactStructuredValues [] two_secrets = [''bcdefgh'', ''abc'']" "lo_assignedNames two_secrets = []" by code_simp+
  then have "hidden r ''abc''" "hidden r ''bcdefgh''"
    using r by (auto simp: compileLogRedaction_def hidden_def split: prod.splits bind_splits)
  moreover have "isSensitiveLogKey ''password''" by code_simp
  ultimately have "alike_heaps r (cyclic_heap ''x'' ''abc'') (cyclic_heap ''longer'' ''bcdefgh'')"
    unfolding alike_heaps_def cyclic_heap_def list_all2_Cons
    by (auto intro!: object_plain object_array alike_same alike_hidden simp: alike_member_def)
  from hidden_values_do_not_show [OF r this alike_same] show ?thesis .
qed

text \<open>
  A parameter with the name of an inherited member: reading it from the new object finds a function, which has
  no \<open>push\<close>, and the redaction throws.
\<close>

lemma inherited_parameter_throws:
  "\<exists>e. sanitizeLogValue [] plain_options [OSearchParams [(''constructor'', ''1'')]] (VRef 0) = Some (Inl e)"
proof -
  obtain r where r: "compileLogRedaction [] plain_options = Some r" using compile_succeeds by blast
  have n: "resolveSecretValues [] plain_options = []" "resolveExactStructuredValues [] plain_options = []" by code_simp+
  have "createLiteralSecretMatcher [] = Some [new_node :: char matcher_node]" by code_simp
  with r n have "rd_substringMatcher r = [new_node]" "rd_boundaryTextValues r = []" "rd_exactStructuredValues r = []"
    "rd_assignedNames r = []"
    by (auto simp: compileLogRedaction_def partitionRedactionTokens_def plain_options_def)
  moreover have "redactCredentialShapes ''constructor'' = ''constructor''" "redactCredentialShapes ''1'' = ''1''"
    by (rule shapes_free; simp add: js_defs)+
  ultimately have "sanitizeStructuredText r ''constructor'' = Some ''constructor''" "sanitizeStructuredText r ''1'' = Some ''1''"
    by (simp_all add: sanitizeStructuredText_def redact_text_def redactTextWithSecretMatcher_def redactLiteralSecretsWithMatcher_def)
  moreover have "\<not> isSensitiveLogKey ''constructor''" by code_simp
  ultimately show ?thesis
    using \<open>rd_assignedNames r = []\<close>
    by (simp add: sanitizeLogValue_def r sanitizeObjectValue_def sanitize_entries_def add_entry_def sanitized_entry_def
        sanitize_string_def INHERITED_MEMBERS_def)
qed

section \<open>The shape of a protocol value\<close>

text \<open>
  A value of plain objects and arrays, as the wire protocol has them, and a result of the same shape: every
  member under its own name and in its place, a text for a text, the rest unchanged. The types of a result's
  readers are kept, except under sensitive names and in a cycle, where there is a text.
\<close>

definition plain_heap :: "js_heap \<Rightarrow> bool" where
  "plain_heap h \<longleftrightarrow> list_all (\<lambda>obj. case obj of
       OArray vs \<Rightarrow> True
     | OPlain (Some ms) \<Rightarrow> distinct (map fst ms) \<and> ''__proto__'' \<notin> fst ` set ms
     | _ \<Rightarrow> False) h"

inductive same_shape :: "js_heap \<Rightarrow> nat list \<Rightarrow> js_value \<Rightarrow> json \<Rightarrow> bool" for h where
  shape_undefined: "same_shape h seen VUndefined JUndefined"
| shape_null: "same_shape h seen VNull JNull"
| shape_bool: "same_shape h seen (VBool b) (JBool b)"
| shape_num: "same_shape h seen (VNum n) (JNum n)"
| shape_string: "same_shape h seen (VString s) (JStr t)"
| shape_cycle: "a \<in> set seen \<Longrightarrow> same_shape h seen (VRef a) (JStr t)"
| shape_array: "a \<notin> set seen \<Longrightarrow> a < length h \<Longrightarrow> h ! a = OArray vs \<Longrightarrow> list_all2 (same_shape h (a # seen)) vs js \<Longrightarrow>
    same_shape h seen (VRef a) (JArr js)"
| shape_object: "a \<notin> set seen \<Longrightarrow> a < length h \<Longrightarrow> h ! a = OPlain (Some ms) \<Longrightarrow>
    list_all2 (\<lambda>m j. fst j = fst m \<and> (if isSensitiveLogKey (fst m) then snd j = JStr REDACTED_LOG_VALUE
      else same_shape h (a # seen) (snd m) (snd j))) ms js \<Longrightarrow>
    same_shape h seen (VRef a) (JObj js)"

text \<open>The values a wire protocol has.\<close>

fun wire_value :: "js_heap \<Rightarrow> js_value \<Rightarrow> bool" where
  "wire_value h (VRef a) \<longleftrightarrow> a < length h"
| "wire_value h (VBigInt i) \<longleftrightarrow> False"
| "wire_value h VSymbol \<longleftrightarrow> False"
| "wire_value h VFunction \<longleftrightarrow> False"
| "wire_value h v \<longleftrightarrow> True"

definition wire_heap :: "js_heap \<Rightarrow> bool" where
  "wire_heap h \<longleftrightarrow> plain_heap h \<and> list_all (\<lambda>obj. case obj of
       OArray vs \<Rightarrow> list_all (wire_value h) vs
     | OPlain (Some ms) \<Rightarrow> list_all (\<lambda>m. wire_value h (snd m)) ms
     | _ \<Rightarrow> True) h"

lemma res_map_shapes:
  "list_all (\<lambda>v. \<exists>j. f v = Some (Inr j) \<and> P v j) vs \<Longrightarrow> \<exists>js. res_map f vs = Some (Inr js) \<and> list_all2 P vs js"
  by (induction vs) (fastforce simp: res_return_def)+

lemma obj_put_fresh: "k \<notin> fst ` set r \<Longrightarrow> obj_put r k v = r @ [(k, v)]"
  by (induction r) auto

lemma res_fold_members:
  assumes "rd_preserveObjectKeys r" "distinct (map fst ms)" "''__proto__'' \<notin> fst ` set ms" "fst ` set ms \<inter> fst ` set out = {}"
    and "list_all (\<lambda>m. isSensitiveLogKey (fst m) \<or> (\<exists>j. f (snd m) = Some (Inr j) \<and> P (snd m) j)) ms"
  shows "\<exists>js. res_fold (add_member f r) ms out = Some (Inr (out @ js)) \<and> list_all2 (\<lambda>m j. fst j = fst m \<and>
    (if isSensitiveLogKey (fst m) then snd j = JStr REDACTED_LOG_VALUE else P (snd m) (snd j))) ms js"
  using assms(2-)
proof (induction ms arbitrary: out)
  case Nil
  then show ?case by (simp add: res_return_def)
next
  case (Cons m ms)
  have put: "put_member out (fst m) j = out @ [(fst m, j)]" for j
  proof -
    have "fst m \<notin> fst ` set out" "fst m \<noteq> ''__proto__''" using Cons.prems by auto
    then show ?thesis unfolding put_member_def by (metis obj_put_fresh)
  qed
  have "\<exists>j. add_member f r m out = Some (Inr (out @ [(fst m, j)])) \<and>
      (if isSensitiveLogKey (fst m) then j = JStr REDACTED_LOG_VALUE else P (snd m) j)"
  proof (cases "isSensitiveLogKey (fst m)")
    case True
    then show ?thesis by (simp add: add_member_def assms(1) put) (simp add: res_return_def)
  next
    case False
    then obtain j where "f (snd m) = Some (Inr j)" "P (snd m) j" using Cons.prems(4) by auto
    with False show ?thesis by (simp add: add_member_def assms(1) put) (simp add: res_return_def)
  qed
  then obtain j where j: "add_member f r m out = Some (Inr (out @ [(fst m, j)]))"
      "if isSensitiveLogKey (fst m) then j = JStr REDACTED_LOG_VALUE else P (snd m) j" by blast
  obtain js where js: "res_fold (add_member f r) ms ((out @ [(fst m, j)])) = Some (Inr ((out @ [(fst m, j)]) @ js))"
      "list_all2 (\<lambda>m j. fst j = fst m \<and>
        (if isSensitiveLogKey (fst m) then snd j = JStr REDACTED_LOG_VALUE else P (snd m) (snd j))) ms js"
  proof -
    have o: "fst ` set ms \<inter> fst ` set (out @ [(fst m, j)]) = {}" using Cons.prems(1,3) by auto
    have d: "distinct (map fst ms)" "''__proto__'' \<notin> fst ` set ms" using Cons.prems(1,2) by auto
    have "list_all (\<lambda>m. isSensitiveLogKey (fst m) \<or> (\<exists>j. f (snd m) = Some (Inr j) \<and> P (snd m) j)) ms"
      using Cons.prems(4) unfolding list.pred_inject(2) by (rule conjunct2)
    from Cons.IH [OF d o this] that show thesis by (elim exE conjE)
  qed
  show ?case using j js by (intro exI [of _ "(fst m, j) # js"]) (simp split: if_splits)
qed

lemma sanitize_shape:
  assumes "searches r" "rd_preserveObjectKeys r" "wire_heap h" "wire_value h v"
  shows "\<exists>j. sanitizeValue h r seen v = Some (Inr j) \<and> same_shape h seen v j"
  using assms
proof (induction h r seen v rule: sanitizeValue.induct)
  case (6 h r seen s)
  then show ?case using sanitize_texts(2) [of r s] by (cases "sanitize_string r s") (auto simp: res_text_def intro: shape_string)
next
  case (9 h r seen a)
  have a: "a < length h" using "9.prems"(4) by simp
  show ?case
  proof (cases "a \<in> set seen")
    case True
    then show ?thesis by (auto simp: res_return_def intro: shape_cycle)
  next
    case False
    have ih: "\<exists>j. sanitizeValue h r (a # seen) x = Some (Inr j) \<and> same_shape h (a # seen) x j" if "wire_value h x" for x
      using "9.IH" [OF False a] "9.prems" that by blast
    have w: "case h ! a of OArray vs \<Rightarrow> list_all (wire_value h) vs
       | OPlain (Some ms) \<Rightarrow> distinct (map fst ms) \<and> ''__proto__'' \<notin> fst ` set ms \<and> list_all (\<lambda>m. wire_value h (snd m)) ms
       | _ \<Rightarrow> False"
      using "9.prems"(3) a unfolding wire_heap_def plain_heap_def list_all_length
      by (auto split: js_object.splits option.splits)
    show ?thesis
    proof (cases "h ! a")
      case (OArray vs)
      then have "list_all (\<lambda>x. \<exists>j. sanitizeValue h r (a # seen) x = Some (Inr j) \<and> same_shape h (a # seen) x j) vs"
        using w ih by (auto simp: list_all_iff)
      from res_map_shapes [OF this] show ?thesis
        using False a OArray by (auto simp: sanitizeObjectValue_def res_return_def intro: shape_array)
    next
      case (OPlain m)
      then obtain ms where ms: "m = Some ms" using w by (cases m) auto
      then have "list_all (\<lambda>m. isSensitiveLogKey (fst m) \<or>
          (\<exists>j. sanitizeValue h r (a # seen) (snd m) = Some (Inr j) \<and> same_shape h (a # seen) (snd m) j)) ms"
        using w ih OPlain by (auto simp: list_all_iff)
      from res_fold_members [OF "9.prems"(2) _ _ _ this, of "[]"] w show ?thesis
        using False a OPlain ms by (auto simp: sanitizeObjectValue_def res_return_def intro: shape_object)
    qed (use w in auto)
  qed
qed (auto simp: res_return_def intro: same_shape.intros)

text \<open>C23 The redacted copy of a protocol value has the types of the original: on any heap of plain objects and
  arrays, as a parsed message is, it is a value of the same shape, with the same members under the same names
  in the same order, arrays of the same length, texts for texts and every number, flag and null as it was.\<close>

theorem protocol_value_keeps_shape:
  assumes "wire_heap h" "wire_value h v"
  shows "\<exists>j. sanitizeSensitiveProtocolValue configured h v env operational assigned = Some (Inr j) \<and> same_shape h [] v j"
proof -
  obtain r where r: "compileLogRedaction configured (protocol_options configured env operational assigned) = Some r"
    using compile_succeeds by blast
  then have "rd_preserveObjectKeys r" by (auto simp: compileLogRedaction_def protocol_options_def split: prod.splits bind_splits)
  from sanitize_shape [OF compiled_searches [OF r] this assms, of "[]"] show ?thesis
    by (simp add: sanitizeSensitiveProtocolValue_def sanitizeLogValue_def r)
qed

theorem protocol_value_keeps_shape_witness:
  "\<exists>j. sanitizeSensitiveProtocolValue [] (cyclic_heap ''x'' ''abc'') (VRef 0) [] [] [] = Some (Inr j) \<and>
     same_shape (cyclic_heap ''x'' ''abc'') [] (VRef 0) j"
  by (rule protocol_value_keeps_shape) (simp_all add: wire_heap_def plain_heap_def cyclic_heap_def)

section \<open>The logger\<close>

text \<open>C22 An entry of the logger is written with its own level and its own redacted message, whatever the members
  and bindings are called, and a failure to write it, or to write that it failed, never reaches the caller: the
  logger throws only where the redaction does, on parameters or a form with an entry.\<close>

theorem logging_never_throws:
  assumes "compileLogRedaction configured o1 = Some r"
    and "\<And>entry w. write entry level w \<noteq> None"
  shows "\<exists>result w'. log_emit write r h bindings level message members w = Some (result, w') \<and> (isl result \<longrightarrow> collects_names h) \<and>
    (\<forall>entry. log_record r h bindings level message members = Some (Inr entry) \<longrightarrow>
       jprop entry ''level'' = JStr level \<and> Some (jprop entry ''message'') = map_option JStr (redact_text r message))"
proof -
  have r: "searches r" by (rule compiled_searches [OF assms(1)])
  have v: "res_settles (collects_names h) (case x of None \<Rightarrow> res_return (JObj []) | Some x \<Rightarrow> sanitizeValue h r [] x)" for x
    using sanitizeValue_settles [OF r] by (cases x) auto
  have "res_settles (collects_names h) (log_record r h bindings level message members)"
    unfolding log_record_def Let_def by (intro res_settles_bind res_settles_return v) (simp add: sanitize_texts [OF r])
  moreover have "\<exists>w'. io_catch (write entry level) (\<lambda>_. io_catch (write [(''level'', JStr level),
      (''message'', JStr ''Unable to serialize log entry'')] level) (\<lambda>_. io_return ())) w = Some (Inr (), w')" for entry w
  proof -
    have ends: "\<exists>x w'. write entry level w = Some (x, w')" for entry w using assms(2) [of entry w] by (cases "write entry level w") auto
    obtain x w1 where x: "write entry level w = Some (x, w1)" using ends by blast
    obtain y w2 where y: "write [(''level'', JStr level), (''message'', JStr ''Unable to serialize log entry'')] level w1 = Some (y, w2)"
      using ends by blast
    show ?thesis by (cases x; cases y) (simp_all add: io_catch_def io_return_def x y)
  qed
  moreover have "jprop entry ''level'' = JStr level \<and> Some (jprop entry ''message'') = map_option JStr (redact_text r message)"
    if "log_record r h bindings level message members = Some (Inr entry)" for entry
    using that unfolding log_record_def Let_def res_bind_def res_text_def res_return_def
    by (auto simp: obj_spread_def jprop_def split: option.splits sum.splits)
  ultimately show ?thesis
    unfolding log_emit_def io_bind_def io_res_def res_settles_def
    by (cases "log_record r h bindings level message members") (fastforce split: sum.splits)+
qed

theorem sanitizing_returns_witness:
  "\<exists>v. sanitizeLogValue [] two_secrets (cyclic_heap ''x'' ''abc'') (VRef 0) = Some (Inr v)"
proof -
  obtain result where "sanitizeLogValue [] two_secrets (cyclic_heap ''x'' ''abc'') (VRef 0) = Some result"
      "isl result \<longrightarrow> collects_names (cyclic_heap ''x'' ''abc'')"
    using sanitizing_returns by blast
  moreover have "\<not> collects_names (cyclic_heap ''x'' ''abc'')" by (simp add: collects_names_def cyclic_heap_def)
  ultimately show ?thesis by (cases result) auto
qed

text \<open>A console that always fails.\<close>

theorem logging_never_throws_witness:
  "\<exists>r w'. compileLogRedaction [] two_secrets = Some r \<and>
     log_emit (\<lambda>_ _. io_throw (Error ''EPIPE'')) r (cyclic_heap ''x'' ''abc'') None ''info'' ''hello'' (Some (VRef 0)) () = Some (Inr (), w')"
proof -
  obtain r where r: "compileLogRedaction [] two_secrets = Some r" using compile_succeeds by blast
  have "(\<lambda>_ _. io_throw (Error ''EPIPE'')) entry ''info'' w \<noteq> None" for entry :: "(string \<times> json) list" and w :: unit
    by simp
  from logging_never_throws [of "[]" two_secrets r "\<lambda>_ _. io_throw (Error ''EPIPE'')" "''info''", OF r this, of "cyclic_heap ''x'' ''abc''" None "''hello''" "Some (VRef 0)" "()"]
  obtain result w' where l: "log_emit (\<lambda>_ _. io_throw (Error ''EPIPE'')) r (cyclic_heap ''x'' ''abc'') None ''info'' ''hello''
      (Some (VRef 0)) () = Some (result, w')" "isl result \<longrightarrow> collects_names (cyclic_heap ''x'' ''abc'')" by blast
  have "\<not> collects_names (cyclic_heap ''x'' ''abc'')" by (simp add: collects_names_def cyclic_heap_def)
  with l(2) have "result = Inr ()" by (cases result) auto
  with r l(1) show ?thesis by blast
qed

end
