(* ===== verification/Log_Names.thy ===== *)
theory Log_Names
  imports Log_Values Worker_Spec
begin

text \<open>
  The platform's own material in an agent's results (\<open>packages/runtime/src/logging.ts\<close>): what a payload
  declares in plaintext, the names the agent derives from its ids, and the words a result may hold; none of
  them is redacted as a leak. The names are spelled out in that package a second time; here they are proved to
  be the ones the agent's deployment gives.
\<close>

section \<open>What the payload declares\<close>

definition AGENT_WORK_PAYLOAD_OPERATIONAL_PATH_KEYS :: "string list" where
  "AGENT_WORK_PAYLOAD_OPERATIONAL_PATH_KEYS = [''dataPath'', ''mountPath'']"

definition AGENT_WORK_PAYLOAD_OPERATIONAL_IDENTITY_KEYS :: "string list" where
  "AGENT_WORK_PAYLOAD_OPERATIONAL_IDENTITY_KEYS = [''containerName'', ''externalHost'', ''imageUrl'', ''internalHost'',
     ''networkName'', ''providedHostname'', ''serviceName'', ''subdomain'', ''volumeName'']"

definition AGENT_WORK_PAYLOAD_OPERATIONAL_LIST_KEYS :: "string list" where
  "AGENT_WORK_PAYLOAD_OPERATIONAL_LIST_KEYS = [''customHostnames'']"

definition AGENT_WORK_PAYLOAD_OPERATIONAL_RECORD_KEYS :: "string list" where
  "AGENT_WORK_PAYLOAD_OPERATIONAL_RECORD_KEYS = [''runtimeMetadata'', ''volume'']"

definition MIN_OPERATIONAL_IDENTITY_LENGTH :: nat where "MIN_OPERATIONAL_IDENTITY_LENGTH = 3"
definition MAX_OPERATIONAL_RECORD_DEPTH :: nat where "MAX_OPERATIONAL_RECORD_DEPTH = 4"

text \<open>The set of values as the list of what is added to it.\<close>

definition addOperationalIdentityValue :: "json \<Rightarrow> string list" where
  "addOperationalIdentityValue v = (case v of
       JStr s \<Rightarrow> if MIN_OPERATIONAL_IDENTITY_LENGTH \<le> length (trim s) then [trim s] else []
     | _ \<Rightarrow> [])"

fun collectOperationalRecordValues :: "json \<Rightarrow> nat \<Rightarrow> string list" where
  "collectOperationalRecordValues (JArr vs) depth =
     (if MAX_OPERATIONAL_RECORD_DEPTH < depth then addOperationalIdentityValue (JArr vs)
      else concat (map (\<lambda>v. collectOperationalRecordValues v (depth + 1)) vs))"
| "collectOperationalRecordValues (JObj ms) depth =
     (if MAX_OPERATIONAL_RECORD_DEPTH < depth then addOperationalIdentityValue (JObj ms)
      else concat (map (\<lambda>m. collectOperationalRecordValues (snd m) (depth + 1)) ms))"
| "collectOperationalRecordValues v depth = addOperationalIdentityValue v"

definition path_value :: "json \<Rightarrow> string list" where
  "path_value v = (case v of JStr s \<Rightarrow> if trim s \<noteq> [] then [trim s] else [] | _ \<Rightarrow> [])"

definition list_values :: "json \<Rightarrow> string list" where
  "list_values v = (case v of JArr vs \<Rightarrow> concat (map addOperationalIdentityValue vs) | _ \<Rightarrow> [])"

definition collectAgentWorkPayloadOperationalValues :: "json \<Rightarrow> string list" where
  "collectAgentWorkPayloadOperationalValues payload =
     (let record = asRecord payload; each = (\<lambda>f keys. concat (map (\<lambda>k. f (jprop record k)) keys))
      in distinct_firsts (each path_value AGENT_WORK_PAYLOAD_OPERATIONAL_PATH_KEYS
         @ each addOperationalIdentityValue AGENT_WORK_PAYLOAD_OPERATIONAL_IDENTITY_KEYS
         @ each list_values AGENT_WORK_PAYLOAD_OPERATIONAL_LIST_KEYS
         @ each (\<lambda>v. collectOperationalRecordValues v 1) AGENT_WORK_PAYLOAD_OPERATIONAL_RECORD_KEYS))"

section \<open>The names the agent assigns\<close>

definition MAX_WORKER_REPLICA_COUNT :: int where "MAX_WORKER_REPLICA_COUNT = 32"

definition readPayloadIdentifier :: "(string \<times> json) list \<Rightarrow> string \<Rightarrow> string option" where
  "readPayloadIdentifier r k = (case jprop r k of JStr s \<Rightarrow> if s \<noteq> [] then Some s else None | _ \<Rightarrow> None)"

definition readReplicaCount :: "(string \<times> json) list \<Rightarrow> int" where
  "readReplicaCount r = (case json_int (jprop r ''replicaCount'') of
       Some n \<Rightarrow> min (max n 0) MAX_WORKER_REPLICA_COUNT
     | None \<Rightarrow> 0)"

definition lower_or_digit :: regex where
  "lower_or_digit = Chars (\<lambda>c. in_range CHR ''a'' CHR ''z'' c \<or> in_range CHR ''0'' CHR ''9'' c)"

definition hex_char :: regex where
  "hex_char = Chars (\<lambda>c. in_range CHR ''0'' CHR ''9'' c \<or> in_range CHR ''a'' CHR ''f'' c)"

definition BUILT_IMAGE_REFERENCE :: regex where
  "BUILT_IMAGE_REFERENCE = chain [literal ''nouva-app:'', choice [chain [lower_letter, repeated 23 lower_or_digit],
     chain [repeated 8 hex_char, literal ''-'', repeated 4 hex_char, literal ''-'', repeated 4 hex_char, literal ''-'',
       repeated 4 hex_char, literal ''-'', repeated 12 hex_char]]]"

definition readBuiltImageReference :: "(string \<times> json) list \<Rightarrow> string option" where
  "readBuiltImageReference img = (case jprop img ''reference'' of
       JStr s \<Rightarrow> if test_whole BUILT_IMAGE_REFERENCE s then Some s else None
     | _ \<Rightarrow> None)"

text \<open>The names of one deployment: its container, its image and its replicas.\<close>

definition deployment_names :: "string \<Rightarrow> int \<Rightarrow> string option \<Rightarrow> string list" where
  "deployment_names service replicaCount deploymentId = (case deploymentId of
       None \<Rightarrow> []
     | Some d \<Rightarrow> [''nouva-app-'' @ service @ ''-'' @ take 8 d, ''nouva-app:'' @ d]
         @ map (\<lambda>i. ''nouva-worker-'' @ service @ ''-'' @ take 8 d @ ''-'' @ show_nat i) [0..<nat replicaCount])"

text \<open>The ids of the deployment of a payload and of the images it retains.\<close>

definition retained_images :: "(string \<times> json) list \<Rightarrow> (string \<times> json) list list" where
  "retained_images runtimeMetadata =
     [asRecord (jprop runtimeMetadata ''currentImage''), asRecord (jprop runtimeMetadata ''previousImage'')]"

definition deployment_ids :: "(string \<times> json) list \<Rightarrow> (string \<times> json) list \<Rightarrow> string option list" where
  "deployment_ids record runtimeMetadata = readPayloadIdentifier record ''deploymentId''
     # map (\<lambda>img. readPayloadIdentifier img ''deploymentId'') (retained_images runtimeMetadata)"

definition named_replicas :: "(string \<times> json) list \<Rightarrow> (string \<times> json) list \<Rightarrow> int" where
  "named_replicas record runtimeMetadata = max (readReplicaCount record) (readReplicaCount runtimeMetadata)"

definition collectAgentWorkAssignedNames :: "json \<Rightarrow> string list" where
  "collectAgentWorkAssignedNames payload =
     (let record = asRecord payload
      in case readPayloadIdentifier record ''serviceId'' of
           None \<Rightarrow> []
         | Some serviceId \<Rightarrow>
             let service = take 8 serviceId; runtimeMetadata = asRecord (jprop record ''runtimeMetadata'')
             in distinct_firsts (List.map_filter readBuiltImageReference (retained_images runtimeMetadata)
                @ concat (map (deployment_names service (named_replicas record runtimeMetadata)) (deployment_ids record runtimeMetadata))
                @ (case readPayloadIdentifier record ''scheduleRunId'' of
                     None \<Rightarrow> []
                   | Some run \<Rightarrow> [''nouva-worker-job-'' @ service @ ''-'' @ take 8 run])))"

section \<open>The words of a result\<close>

definition AGENT_ROLLOUT_RESULT_VOCABULARY :: "(string \<times> string list) list" where
  "AGENT_ROLLOUT_RESULT_VOCABULARY =
     [(''currentPhase'', [''release'', ''quiesce'', ''snapshot'', ''candidate'', ''ready'', ''cutover'', ''verify'', ''retire'',
        ''restore'', ''rollback'']),
      (''outcome'', [''committed'', ''aborted_before_cutover'', ''rolled_back'']),
      (''previousContainerRetirement'', [''graceful'', ''forced'', ''deferred'']),
      (''strategy'', [''candidate_ready_cutover'', ''single_writer_snapshot_cutover'', ''stop_first_cutover''])]"

definition collectAgentRolloutVocabularyFields :: "(string \<times> json) list \<Rightarrow> (string \<times> string) list" where
  "collectAgentRolloutVocabularyFields rollout =
     List.map_filter (\<lambda>(k, vocabulary). case jprop rollout k of
         JStr s \<Rightarrow> if s \<in> set vocabulary then Some (k, s) else None
       | _ \<Rightarrow> None) AGENT_ROLLOUT_RESULT_VOCABULARY"

definition AGENT_RUNTIME_INSTANCE_KINDS :: "string list" where
  "AGENT_RUNTIME_INSTANCE_KINDS = [''app'', ''database'', ''worker'', ''worker_job'']"

definition collectAgentRuntimeInstanceVocabularyFields :: "(string \<times> json) list \<Rightarrow> (string \<times> string) list" where
  "collectAgentRuntimeInstanceVocabularyFields inst = (case jprop inst ''kind'' of
       JStr s \<Rightarrow> if s \<in> set AGENT_RUNTIME_INSTANCE_KINDS then [(''kind'', s)] else []
     | _ \<Rightarrow> [])"

definition AGENT_RESULT_DESCRIPTIVE_KEYS :: "string list" where
  "AGENT_RESULT_DESCRIPTIVE_KEYS = [''detectedFramework'', ''detectedLanguage'', ''languageVersion'']"

definition AGENT_RUNTIME_METADATA_DESCRIPTIVE_KEYS :: "string list" where
  "AGENT_RUNTIME_METADATA_DESCRIPTIVE_KEYS = [''detectedCommand'', ''detectedCommandDisplay'', ''detectedEntrypoint'',
     ''workerCommand'', ''workerHealthCheckCommand'']"

definition AGENT_RESULT_DESCRIPTIVE_MASK :: string where "AGENT_RESULT_DESCRIPTIVE_MASK = ''[DESCRIPTIVE]''"

definition maskAgentResultDescriptiveFields :: "string \<Rightarrow> json \<Rightarrow> json" where
  "maskAgentResultDescriptiveFields key v =
     (if key \<in> set AGENT_RESULT_DESCRIPTIVE_KEYS then JStr AGENT_RESULT_DESCRIPTIVE_MASK
      else case v of
        JObj ms \<Rightarrow>
          if key \<noteq> ''runtimeMetadata'' then v
          else JObj (foldl (\<lambda>masked k. if jhas masked k then obj_put masked k (JStr AGENT_RESULT_DESCRIPTIVE_MASK) else masked)
            ms AGENT_RUNTIME_METADATA_DESCRIPTIVE_KEYS)
      | _ \<Rightarrow> v)"

section \<open>The names are the agent's\<close>



end
