(* ===== verification/Volume_Wipe.thy ===== *)
theory Volume_Wipe
  imports Docker_Types JS_Date Files Log_Redaction
begin

text \<open>
  Volumes: the durable receipt of a wipe (\<open>agent/src/volume-wipe-receipt.ts\<close>) and the handlers of
  \<open>agent/src/index.ts\<close> that delete a volume or wipe it. A wipe removes the volume, creates an empty one,
  records that in a receipt and provisions the database on it; it is retried, and the receipt is all a retry
  has to tell the customer's data from the replacement.
\<close>

section \<open>Receipts\<close>

record volume_receipt =
  vr_volumeName :: string
  vr_repositoryGeneration :: int
  vr_workItemId :: json
  vr_recordedAt :: json

definition getVolumeWipeReceiptPath :: "string \<Rightarrow> string \<Rightarrow> string" where
  "getVolumeWipeReceiptPath dataDir volumeName = dataDir @ ''/volume-wipes/'' @ encodeURIComponent volumeName @ ''.json''"

text \<open>The check of what was parsed, with the receipt it then is.\<close>

fun volume_receipt_of :: "json \<Rightarrow> volume_receipt option" where
  "volume_receipt_of (JObj r) =
     (case (json_str (jprop r ''volumeName''), json_int (jprop r ''repositoryGeneration'')) of
        (Some v, Some g) \<Rightarrow>
          if jprop r ''version'' = jint 1 \<and> jprop r ''phase'' = JStr ''volume-replaced'' then
            Some \<lparr>vr_volumeName = v, vr_repositoryGeneration = g, vr_workItemId = jprop r ''workItemId'',
              vr_recordedAt = jprop r ''recordedAt''\<rparr>
          else None
      | _ \<Rightarrow> None)"
| "volume_receipt_of _ = None"

definition parse_volume_receipt :: "string \<Rightarrow> file_text \<Rightarrow> js_error + volume_receipt" where
  "parse_volume_receipt receiptPath contents = (case json_parse contents of
       Inl e \<Rightarrow> Inl (Error (''Volume wipe receipt '' @ receiptPath @ '' is not valid JSON''))
     | Inr v \<Rightarrow> (case volume_receipt_of v of
         None \<Rightarrow> Inl (Error (''Volume wipe receipt '' @ receiptPath @ '' does not have a recognised shape''))
       | Some r \<Rightarrow> Inr r))"

definition readVolumeWipeReceipt :: "'w files \<Rightarrow> string \<Rightarrow> string \<Rightarrow> ('w, volume_receipt option) io" where
  "readVolumeWipeReceipt fs dataDir volumeName =
     (let receiptPath = getVolumeWipeReceiptPath dataDir volumeName
      in io_bind (io_catch (io_bind (fs_readFile fs receiptPath) (\<lambda>c. io_return (Some c)))
           (\<lambda>e. if is_ENOENT e then io_return None
             else io_throw (Error (''Volume wipe receipt '' @ receiptPath @ '' could not be read: '' @ error_text e))))
         (\<lambda>contents. case contents of
            None \<Rightarrow> io_return None
          | Some c \<Rightarrow> io_bind (io_either (parse_volume_receipt receiptPath c)) (\<lambda>r. io_return (Some r))))"

definition volume_receipt_members :: "string \<Rightarrow> int \<Rightarrow> string option \<Rightarrow> int \<Rightarrow> (string \<times> json) list" where
  "volume_receipt_members volumeName generation workItemId t =
     [(''version'', jint 1), (''volumeName'', JStr volumeName), (''repositoryGeneration'', jint generation),
      (''phase'', JStr ''volume-replaced''),
      (''workItemId'', case workItemId of None \<Rightarrow> JNull | Some w \<Rightarrow> JStr w), (''recordedAt'', JStr (to_iso_string t))]"

definition writeVolumeWipeReceipt ::
    "'w files \<Rightarrow> 'w clock \<Rightarrow> string \<Rightarrow> string \<Rightarrow> int \<Rightarrow> string option \<Rightarrow> ('w, unit) io" where
  "writeVolumeWipeReceipt fs clk dataDir volumeName generation workItemId =
     (let receiptPath = getVolumeWipeReceiptPath dataDir volumeName; temporaryPath = receiptPath @ ''.tmp''
      in io_bind (fs_mkdir fs (dataDir @ ''/volume-wipes'')) (\<lambda>_.
         io_bind (io_now clk) (\<lambda>t.
         io_bind (fs_writeFile fs temporaryPath (stringified (volume_receipt_members volumeName generation workItemId t))) (\<lambda>_.
         fs_rename fs temporaryPath receiptPath))))"

definition hasReplacedVolumeForGeneration :: "volume_receipt option \<Rightarrow> string \<Rightarrow> int \<Rightarrow> bool" where
  "hasReplacedVolumeForGeneration receipt volumeName generation = (case receipt of
       None \<Rightarrow> False
     | Some r \<Rightarrow> vr_volumeName r = volumeName \<and> vr_repositoryGeneration r = generation)"

section \<open>Payloads\<close>

text \<open>A volume on its own, or with the database service it is attached to.\<close>

record attached_service =
  as_serviceId :: string
  as_variant :: string
  as_containerId :: "string option"
  as_containerName :: "string option"

record volume_payload =
  vp_projectId :: string
  vp_volumeId :: string
  vp_volumeName :: string
  vp_generation :: json
  vp_service :: "attached_service option"

definition readPayloadRepositoryGeneration :: "volume_payload \<Rightarrow> int option" where
  "readPayloadRepositoryGeneration p = json_int (vp_generation p)"

definition buildManagedVolumeLabels :: "string \<Rightarrow> string \<Rightarrow> string option \<Rightarrow> (string \<times> string) list" where
  "buildManagedVolumeLabels volumeId projectId serviceId =
     [(''nouva.managed'', ''true''), (''nouva.resource'', ''volume''), (''nouva.volume.id'', volumeId)]
     @ (if projectId \<noteq> [] then [(''nouva.project.id'', projectId)] else [])
     @ (case serviceId of Some s \<Rightarrow> if s \<noteq> [] then [(''nouva.service.id'', s)] else [] | None \<Rightarrow> [])"

definition getDatabaseContainerName :: "attached_service \<Rightarrow> string" where
  "getDatabaseContainerName s = ''nouva-'' @ as_variant s @ ''-'' @ take 12 (as_serviceId s)"

section \<open>Handlers\<close>

text \<open>
  What the handlers use: the Docker client, the file system and the clock, and the checking of the public
  port and the provisioning of the database, which are operations of the model's environment.
\<close>

record ('w, 'p) wipe_deps =
  wd_docker :: "'w docker"
  wd_files :: "'w files"
  wd_clock :: "'w clock"
  wd_dataDir :: string
  wd_preflight :: "volume_payload \<Rightarrow> ('w, unit) io"
  wd_provision :: "volume_payload \<Rightarrow> ('w, 'p) io"

definition verifyContainerAbsent :: "'w docker \<Rightarrow> string \<Rightarrow> ('w, unit) io" where
  "verifyContainerAbsent docker identifier =
     (if identifier = [] then io_return ()
      else io_bind (inspectContainer docker identifier) (\<lambda>c. if c = None then io_return ()
        else io_throw (Error (''Docker container '' @ identifier @ '' still exists after cleanup''))))"

definition verifyVolumeAbsent :: "'w docker \<Rightarrow> string \<Rightarrow> ('w, unit) io" where
  "verifyVolumeAbsent docker volumeName =
     io_bind (inspectVolume docker volumeName) (\<lambda>present. if \<not> present then io_return ()
       else io_throw (Error (''Docker volume '' @ volumeName @ '' still exists after cleanup'')))"

definition handleDeleteVolume :: "'w docker \<Rightarrow> volume_payload \<Rightarrow> ('w, string) io" where
  "handleDeleteVolume docker p =
     io_bind (removeVolume docker (vp_volumeName p) True) (\<lambda>_.
     io_bind (verifyVolumeAbsent docker (vp_volumeName p)) (\<lambda>_. io_return (vp_volumeName p)))"

definition identifier_of :: "volume_payload \<Rightarrow> string option" where
  "identifier_of p = (case vp_service p of
       None \<Rightarrow> None
     | Some s \<Rightarrow> (case as_containerId s of Some i \<Rightarrow> Some i | None \<Rightarrow> as_containerName s))"

definition already_replaced :: "('w, 'p) wipe_deps \<Rightarrow> volume_payload \<Rightarrow> ('w, bool) io" where
  "already_replaced deps p = (case readPayloadRepositoryGeneration p of
       None \<Rightarrow> io_return False
     | Some g \<Rightarrow> io_bind (readVolumeWipeReceipt (wd_files deps) (wd_dataDir deps) (vp_volumeName p)) (\<lambda>r.
         io_return (hasReplacedVolumeForGeneration r (vp_volumeName p) g)))"

definition recordVolumeReplaced :: "('w, 'p) wipe_deps \<Rightarrow> volume_payload \<Rightarrow> string option \<Rightarrow> ('w, unit) io" where
  "recordVolumeReplaced deps p workItemId = (case readPayloadRepositoryGeneration p of
       None \<Rightarrow> io_return ()
     | Some g \<Rightarrow> writeVolumeWipeReceipt (wd_files deps) (wd_clock deps) (wd_dataDir deps) (vp_volumeName p) g workItemId)"

text \<open>The volume removed, seen gone, created again and recorded.\<close>

definition replace_volume :: "('w, 'p) wipe_deps \<Rightarrow> volume_payload \<Rightarrow> string option \<Rightarrow> ('w, unit) io" where
  "replace_volume deps p workItemId =
     io_bind (removeVolume (wd_docker deps) (vp_volumeName p) True) (\<lambda>_.
     io_bind (verifyVolumeAbsent (wd_docker deps) (vp_volumeName p)) (\<lambda>_.
     io_bind (createVolume (wd_docker deps) (vp_volumeName p)
       (buildManagedVolumeLabels (vp_volumeId p) (vp_projectId p) (map_option as_serviceId (vp_service p)))) (\<lambda>_.
     recordVolumeReplaced deps p workItemId)))"

definition container_targets :: "volume_payload \<Rightarrow> attached_service \<Rightarrow> string list" where
  "container_targets p s = distinct_firsts (filter (\<lambda>t. t \<noteq> [])
     ((case identifier_of p of None \<Rightarrow> [] | Some i \<Rightarrow> [i]) @ [getDatabaseContainerName s]))"

text \<open>The destructive phase of an attached volume: its containers first.\<close>

definition destroy :: "('w, 'p) wipe_deps \<Rightarrow> volume_payload \<Rightarrow> attached_service \<Rightarrow> string option \<Rightarrow> ('w, unit) io" where
  "destroy deps p s workItemId =
     io_bind (io_for (container_targets p s) (\<lambda>t. removeContainer (wd_docker deps) t True)) (\<lambda>_.
     io_bind (io_for (container_targets p s) (verifyContainerAbsent (wd_docker deps))) (\<lambda>_.
     replace_volume deps p workItemId))"

definition replacement_present :: "('w, 'p) wipe_deps \<Rightarrow> volume_payload \<Rightarrow> ('w, unit) io" where
  "replacement_present deps p =
     io_bind (inspectVolume (wd_docker deps) (vp_volumeName p)) (\<lambda>present. if present then io_return ()
       else io_throw (Error (''Replacement Docker volume '' @ vp_volumeName p @ '' was not created'')))"

text \<open>The result of the provisioning, if there was one, and the container that is gone.\<close>

definition handleWipeVolume ::
    "('w, 'p) wipe_deps \<Rightarrow> volume_payload \<Rightarrow> string option \<Rightarrow> ('w, 'p option \<times> string option) io" where
  "handleWipeVolume deps p workItemId =
     io_bind (already_replaced deps p) (\<lambda>alreadyReplaced. case vp_service p of
         None \<Rightarrow>
           io_bind (if alreadyReplaced then io_return () else replace_volume deps p workItemId) (\<lambda>_.
           io_bind (replacement_present deps p) (\<lambda>_. io_return (None, None)))
       | Some s \<Rightarrow>
           io_bind (wd_preflight deps p) (\<lambda>_.
           io_bind (if alreadyReplaced then io_return () else destroy deps p s workItemId) (\<lambda>_.
           io_bind (wd_provision deps p) (\<lambda>result.
           io_bind (replacement_present deps p) (\<lambda>_. io_return (Some result, identifier_of p))))))"

end
