(* ===== verification/Volume_Wipe_Props.thy ===== *)
theory Volume_Wipe_Props
  imports Volume_Wipe
begin

text \<open>
  What the receipt guarantees: over any retries of a wipe, each of which may fail at any call, the volume is
  not removed again once provisioning on its replacement has begun; and a receipt of another generation, or of
  another volume, never keeps a wipe from destroying the data.
\<close>

section \<open>What is observed of the world\<close>

text \<open>
  The files, whether provisioning has begun on the replacement, whether the volume was removed after that, and
  whether it was removed at all.
\<close>

record wipe_view =
  wv_file :: "string \<Rightarrow> file_text option"
  wv_provisioned :: bool
  wv_lost :: bool
  wv_removed :: bool

text \<open>An operation that changes nothing of it, whether it succeeds or not.\<close>

definition unseen :: "('w \<Rightarrow> wipe_view) \<Rightarrow> ('w, 'a) io \<Rightarrow> bool" where
  "unseen view m \<longleftrightarrow> (\<forall>w r w'. m w = Some (r, w') \<longrightarrow> view w' = view w)"

text \<open>
  A file that is read is what is stored, and a missing one is not; a file that is written may be left in any
  state when the writing fails, a renamed one is at either place. Removing the volume is noted even where it
  fails, and so is the beginning of the provisioning.
\<close>

definition wipe_world :: "('w \<Rightarrow> wipe_view) \<Rightarrow> ('w, 'p) wipe_deps \<Rightarrow> bool" where
  "wipe_world view deps \<longleftrightarrow>
     (\<forall>p w t w'. fs_readFile (wd_files deps) p w = Some (Inr t, w') \<longrightarrow> wv_file (view w) p = Some t \<and> view w' = view w) \<and>
     (\<forall>p w e w'. fs_readFile (wd_files deps) p w = Some (Inl e, w') \<longrightarrow>
        view w' = view w \<and> (is_ENOENT e \<longrightarrow> wv_file (view w) p = None)) \<and>
     (\<forall>p. unseen view (fs_mkdir (wd_files deps) p)) \<and> unseen view (io_now (wd_clock deps)) \<and>
     (\<forall>p t w r w'. fs_writeFile (wd_files deps) p t w = Some (r, w') \<longrightarrow>
        (\<exists>x. view w' = (view w)\<lparr>wv_file := (wv_file (view w))(p := x)\<rparr> \<and> (\<not> isl r \<longrightarrow> x = Some t))) \<and>
     (\<forall>p q w r w'. fs_rename (wd_files deps) p q w = Some (r, w') \<longrightarrow>
        view w' = (view w)\<lparr>wv_file := (wv_file (view w))(q := wv_file (view w) p, p := None)\<rparr> \<or> isl r \<and> view w' = view w) \<and>
     (\<forall>v f w r w'. removeVolume (wd_docker deps) v f w = Some (r, w') \<longrightarrow>
        view w' = (view w)\<lparr>wv_lost := wv_lost (view w) \<or> wv_provisioned (view w), wv_removed := True\<rparr>) \<and>
     (\<forall>v. unseen view (inspectVolume (wd_docker deps) v)) \<and> (\<forall>v ls. unseen view (createVolume (wd_docker deps) v ls)) \<and>
     (\<forall>i. unseen view (inspectContainer (wd_docker deps) i)) \<and> (\<forall>i f. unseen view (removeContainer (wd_docker deps) i f)) \<and>
     (\<forall>p. unseen view (wd_preflight deps p)) \<and>
     (\<forall>p w r w'. wd_provision deps p w = Some (r, w') \<longrightarrow> view w' = (view w)\<lparr>wv_provisioned := True\<rparr>)"

lemma wipe_read: "wipe_world view deps \<Longrightarrow> fs_readFile (wd_files deps) p w = Some (Inr t, w') \<Longrightarrow> wv_file (view w) p = Some t \<and> view w' = view w"
  by (auto simp only: wipe_world_def)

lemma wipe_read_fails: "wipe_world view deps \<Longrightarrow> fs_readFile (wd_files deps) p w = Some (Inl e, w') \<Longrightarrow> view w' = view w \<and> (is_ENOENT e \<longrightarrow> wv_file (view w) p = None)"
  by (auto simp only: wipe_world_def)

lemma wipe_mkdir: "wipe_world view deps \<Longrightarrow> unseen view (fs_mkdir (wd_files deps) p)"
  by (auto simp only: wipe_world_def)

lemma wipe_now: "wipe_world view deps \<Longrightarrow> unseen view (io_now (wd_clock deps))"
  by (auto simp only: wipe_world_def)

lemma wipe_write: "wipe_world view deps \<Longrightarrow> fs_writeFile (wd_files deps) p t w = Some (r, w') \<Longrightarrow>
  \<exists>x. view w' = (view w)\<lparr>wv_file := (wv_file (view w))(p := x)\<rparr> \<and> (\<not> isl r \<longrightarrow> x = Some t)"
  by (auto simp only: wipe_world_def)

lemma wipe_rename: "wipe_world view deps \<Longrightarrow> fs_rename (wd_files deps) p p' w = Some (r, w') \<Longrightarrow>
  view w' = (view w)\<lparr>wv_file := (wv_file (view w))(p' := wv_file (view w) p, p := None)\<rparr> \<or> isl r \<and> view w' = view w"
  by (auto simp only: wipe_world_def)

lemma wipe_remove: "wipe_world view deps \<Longrightarrow> removeVolume (wd_docker deps) v f w = Some (r, w') \<Longrightarrow>
  view w' = (view w)\<lparr>wv_lost := wv_lost (view w) \<or> wv_provisioned (view w), wv_removed := True\<rparr>"
  by (auto simp only: wipe_world_def)

lemma wipe_inspect: "wipe_world view deps \<Longrightarrow> unseen view (inspectVolume (wd_docker deps) v)"
  by (auto simp only: wipe_world_def)

lemma wipe_create: "wipe_world view deps \<Longrightarrow> unseen view (createVolume (wd_docker deps) v ls)"
  by (auto simp only: wipe_world_def)

lemma wipe_container: "wipe_world view deps \<Longrightarrow> unseen view (inspectContainer (wd_docker deps) i)"
  by (auto simp only: wipe_world_def)

lemma wipe_container_gone: "wipe_world view deps \<Longrightarrow> unseen view (removeContainer (wd_docker deps) i f)"
  by (auto simp only: wipe_world_def)

lemma wipe_preflight: "wipe_world view deps \<Longrightarrow> unseen view (wd_preflight deps q)"
  by (auto simp only: wipe_world_def)

lemma wipe_provision: "wipe_world view deps \<Longrightarrow> wd_provision deps q w = Some (r', w') \<Longrightarrow> view w' = (view w)\<lparr>wv_provisioned := True\<rparr>"
  by (auto simp only: wipe_world_def)

lemma unseen_preserves: "unseen view m \<Longrightarrow> preserves (\<lambda>w. P (view w)) m"
  by (rule preservesI) (simp add: unseen_def)

lemma preserves_for: "(\<And>x. preserves I (f x)) \<Longrightarrow> preserves I (io_for xs f)"
  by (induction xs) (auto intro: preserves_rules)

section \<open>The receipt\<close>

text \<open>The file says that the volume was replaced for the generation.\<close>

definition recorded :: "('w, 'p) wipe_deps \<Rightarrow> string \<Rightarrow> int \<Rightarrow> wipe_view \<Rightarrow> bool" where
  "recorded deps n g v \<longleftrightarrow> (\<exists>t r. wv_file v (getVolumeWipeReceiptPath (wd_dataDir deps) n) = Some t \<and>
     (\<exists>j. json_parse t = Inr j \<and> volume_receipt_of j = Some r) \<and> hasReplacedVolumeForGeneration (Some r) n g)"

lemma written_receipt:
  "\<exists>j r. json_parse (stringified (volume_receipt_members v g i t)) = Inr j \<and> volume_receipt_of j = Some r \<and>
     hasReplacedVolumeForGeneration (Some r) v g"
  by (cases i) (simp_all add: stringified_def volume_receipt_members_def hasReplacedVolumeForGeneration_def)

lemma already_replaced_sees:
  assumes "wipe_world view deps" "readPayloadRepositoryGeneration p = Some g" "already_replaced deps p w = Some (Inr b, w')"
  shows "view w' = view w \<and> b = recorded deps (vp_volumeName p) g (view w)"
proof -
  let ?path = "getVolumeWipeReceiptPath (wd_dataDir deps) (vp_volumeName p)"
  note a = assms(3)
  from a assms(2) obtain r w1 where r: "readVolumeWipeReceipt (wd_files deps) (wd_dataDir deps) (vp_volumeName p) w = Some (Inr r, w1)"
      "b = hasReplacedVolumeForGeneration r (vp_volumeName p) g" "w' = w1"
    by (auto simp: already_replaced_def io_bind_Some_iff)
  from r(1) consider
      t x where "fs_readFile (wd_files deps) ?path w = Some (Inr t, w1)" "parse_volume_receipt ?path t = Inr x" "r = Some x"
    | e where "fs_readFile (wd_files deps) ?path w = Some (Inl e, w1)" "is_ENOENT e" "r = None"
    unfolding readVolumeWipeReceipt_def Let_def
    by (auto simp: io_bind_Some_iff io_catch_Some_iff io_either_def split: sum.splits if_splits option.splits)
  then show ?thesis
  proof cases
    case 1
    then obtain j where "json_parse t = Inr j" "volume_receipt_of j = Some x"
      by (auto simp: parse_volume_receipt_def split: sum.splits option.splits)
    with 1 wipe_read [OF assms(1) 1(1)] r show ?thesis by (auto simp: recorded_def)
  next
    case 2
    with wipe_read_fails [OF assms(1) 2(1)] r show ?thesis by (auto simp: recorded_def hasReplacedVolumeForGeneration_def)
  qed
qed

lemma unseenI:
  assumes "\<And>v. preserves (\<lambda>w. view w = v) m" shows "unseen view m"
  unfolding unseen_def using preservesD [OF assms refl] by blast

lemma wipe_read_unseen: "wipe_world view deps \<Longrightarrow> unseen view (fs_readFile (wd_files deps) p)"
  unfolding unseen_def
proof (intro allI impI)
  fix w r w' assume "wipe_world view deps" and "fs_readFile (wd_files deps) p w = Some (r, w')"
  then show "view w' = view w" by (cases r) (simp_all add: wipe_read wipe_read_fails)
qed

lemma already_replaced_unseen:
  assumes "wipe_world view deps" shows "unseen view (already_replaced deps p)"
  unfolding already_replaced_def readVolumeWipeReceipt_def Let_def
  by (intro unseenI preserves_rules unseen_preserves [OF wipe_read_unseen [OF assms]])

section \<open>Once provisioned, kept\<close>

text \<open>Of the destructive phase: nothing is lost, as nothing is provisioned yet, and if it succeeds the receipt is there.\<close>

definition intact :: "wipe_view \<Rightarrow> bool" where
  "intact v \<longleftrightarrow> \<not> wv_lost v \<and> \<not> wv_provisioned v"

definition replaced :: "('w \<Rightarrow> wipe_view) \<Rightarrow> ('w, 'p) wipe_deps \<Rightarrow> string \<Rightarrow> int \<Rightarrow> js_error + 'a \<Rightarrow> 'w \<Rightarrow> bool" where
  "replaced view deps n g r w \<longleftrightarrow> intact (view w) \<and> (\<not> isl r \<longrightarrow> recorded deps n g (view w))"

lemma intact_step:
  assumes "preserves (\<lambda>w. intact (view w)) m" and "\<And>x. ensures (\<lambda>w. intact (view w)) (f x) (replaced view deps n g)"
  shows "ensures (\<lambda>w. intact (view w)) (io_bind m f) (replaced view deps n g)"
proof (rule ensures_bind [where R = "\<lambda>_ w. intact (view w)"])
  show "ensures (\<lambda>w. intact (view w)) m (\<lambda>r w. case r of Inl e \<Rightarrow> replaced view deps n g (Inl e) w | Inr x \<Rightarrow> intact (view w))"
    by (rule ensures_conseq [OF assms(1) [unfolded preserves_def]]) (auto simp: replaced_def split: sum.splits)
qed (rule assms(2))

lemma write_ensures:
  assumes w: "wipe_world view deps"
  shows "ensures (\<lambda>w. intact (view w)) (writeVolumeWipeReceipt (wd_files deps) (wd_clock deps) (wd_dataDir deps) n g i)
    (replaced view deps n g)"
  unfolding writeVolumeWipeReceipt_def Let_def
proof (rule intact_step [OF unseen_preserves [OF wipe_mkdir [OF w]]],
    rule intact_step [OF unseen_preserves [OF wipe_now [OF w]]])
  fix t
  let ?path = "getVolumeWipeReceiptPath (wd_dataDir deps) n" and ?t = "stringified (volume_receipt_members n g i t)"
  let ?written = "\<lambda>w. intact (view w) \<and> wv_file (view w) (?path @ ''.tmp'') = Some ?t"
  have wr: "ensures (\<lambda>w. intact (view w)) (fs_writeFile (wd_files deps) (?path @ ''.tmp'') ?t)
      (\<lambda>r w. case r of Inl e \<Rightarrow> replaced view deps n g (Inl e) w | Inr x \<Rightarrow> ?written w)"
  proof (rule ensuresI)
    fix w r w' assume i: "intact (view w)" and "fs_writeFile (wd_files deps) (?path @ ''.tmp'') ?t w = Some (r, w')"
    from wipe_write [OF w this(2)] i
    show "case r of Inl e \<Rightarrow> replaced view deps n g (Inl e) w' | Inr x \<Rightarrow> ?written w'"
      by (auto simp: replaced_def intact_def split: sum.splits)
  qed
  have there: "recorded deps n g v" if "wv_file v ?path = Some ?t" for v
    using that written_receipt [of n g i t] by (fastforce simp: recorded_def)
  have "ensures ?written (fs_rename (wd_files deps) (?path @ ''.tmp'') ?path) (replaced view deps n g)"
  proof (rule ensuresI)
    fix w r w' assume i: "?written w" and "fs_rename (wd_files deps) (?path @ ''.tmp'') ?path w = Some (r, w')"
    from wipe_rename [OF w this(2)] i there [of "view w'"] show "replaced view deps n g r w'"
      by (auto simp: replaced_def intact_def)
  qed
  with wr show "ensures (\<lambda>w. intact (view w)) (io_bind (fs_writeFile (wd_files deps) (?path @ ''.tmp'') ?t)
      (\<lambda>_. fs_rename (wd_files deps) (?path @ ''.tmp'') ?path)) (replaced view deps n g)"
    by (rule ensures_bind)
qed

lemma replace_ensures:
  assumes w: "wipe_world view deps" and g: "readPayloadRepositoryGeneration p = Some g"
  shows "ensures (\<lambda>w. intact (view w)) (replace_volume deps p i) (replaced view deps (vp_volumeName p) g)"
proof -
  have removed: "preserves (\<lambda>w. intact (view w)) (removeVolume (wd_docker deps) v f)" for v f
    by (rule preservesI, drule wipe_remove [OF w]) (simp add: intact_def)
  show ?thesis unfolding replace_volume_def recordVolumeReplaced_def g option.case verifyVolumeAbsent_def
    by (intro intact_step write_ensures [OF w] removed preserves_rules unseen_preserves [OF wipe_inspect [OF w]]
        unseen_preserves [OF wipe_create [OF w]])
qed

lemma destroy_ensures:
  assumes w: "wipe_world view deps" and g: "readPayloadRepositoryGeneration p = Some g"
  shows "ensures (\<lambda>w. intact (view w)) (destroy deps p s i) (replaced view deps (vp_volumeName p) g)"
  unfolding destroy_def verifyContainerAbsent_def
  by (intro intact_step replace_ensures [OF w g] preserves_for preserves_rules
      unseen_preserves [OF wipe_container [OF w]] unseen_preserves [OF wipe_container_gone [OF w]])

text \<open>What every attempt keeps.\<close>

definition wipe_safe :: "('w, 'p) wipe_deps \<Rightarrow> string \<Rightarrow> int \<Rightarrow> wipe_view \<Rightarrow> bool" where
  "wipe_safe deps n g v \<longleftrightarrow> \<not> wv_lost v \<and> (wv_provisioned v \<longrightarrow> recorded deps n g v)"

definition kept :: "('w, 'p) wipe_deps \<Rightarrow> string \<Rightarrow> int \<Rightarrow> wipe_view \<Rightarrow> bool" where
  "kept deps n g v \<longleftrightarrow> \<not> wv_lost v \<and> recorded deps n g v"

lemma kept_safe: "kept deps n g v \<Longrightarrow> wipe_safe deps n g v"
  by (simp add: kept_def wipe_safe_def)

lemma once_ensures:
  assumes "ensures (\<lambda>w. intact (view w)) m (replaced view deps n g)"
  shows "ensures (\<lambda>w. wipe_safe deps n g (view w) \<and> b = recorded deps n g (view w)) (if b then io_return () else m)
    (\<lambda>r w. case r of Inl e \<Rightarrow> wipe_safe deps n g (view w) | Inr x \<Rightarrow> kept deps n g (view w))"
proof (cases b)
  case False
  with assms show ?thesis
    by (auto simp: wipe_safe_def kept_def intact_def replaced_def elim!: ensures_conseq split: sum.splits)
qed (auto simp: kept_def wipe_safe_def intro: ensures_return)

lemma present_keeps:
  assumes "wipe_world view deps" shows "preserves (\<lambda>w. P (view w)) (replacement_present deps p)"
  unfolding replacement_present_def by (intro preserves_rules unseen_preserves [OF wipe_inspect [OF assms]])

lemma provision_keeps:
  assumes w: "wipe_world view deps"
  shows "preserves (\<lambda>w. kept deps n g (view w)) (wd_provision deps p)"
  by (rule preservesI, drule wipe_provision [OF w]) (simp add: kept_def recorded_def)

lemma wipe_keeps:
  assumes w: "wipe_world view deps" and g: "readPayloadRepositoryGeneration p = Some g" and n: "n = vp_volumeName p"
  shows "preserves (\<lambda>w. wipe_safe deps n g (view w)) (handleWipeVolume deps p i)"
  unfolding handleWipeVolume_def preserves_def
proof (rule ensures_bind [where R = "\<lambda>b w. wipe_safe deps n g (view w) \<and> b = recorded deps n g (view w)"])
  show "ensures (\<lambda>w. wipe_safe deps n g (view w)) (already_replaced deps p)
      (\<lambda>r w. case r of Inl e \<Rightarrow> wipe_safe deps n g (view w) | Inr b \<Rightarrow> wipe_safe deps n g (view w) \<and> b = recorded deps n g (view w))"
  proof (rule ensuresI)
    fix w0 r w' assume "wipe_safe deps n g (view w0)" and r: "already_replaced deps p w0 = Some (r, w')"
    moreover from r have "view w' = view w0" using already_replaced_unseen [OF w] by (simp add: unseen_def)
    ultimately show "case r of Inl e \<Rightarrow> wipe_safe deps n g (view w') | Inr b \<Rightarrow> wipe_safe deps n g (view w') \<and> b = recorded deps n g (view w')"
      using already_replaced_sees [OF w g] by (auto simp: n split: sum.splits)
  qed
next
  fix b
  let ?P = "\<lambda>w. wipe_safe deps n g (view w) \<and> b = recorded deps n g (view w)"
  let ?safe = "\<lambda>r :: js_error + 'b option \<times> string option. \<lambda>w. wipe_safe deps n g (view w)"
  have after: "ensures (\<lambda>w. kept deps n g (view w)) m ?safe"
    if "preserves (\<lambda>w. kept deps n g (view w)) m" for m :: "('a, 'b option \<times> string option) io"
    using that by (auto simp: preserves_def elim!: ensures_conseq intro: kept_safe)
  have attached: "ensures ?P (io_bind (wd_preflight deps p) (\<lambda>_.
      io_bind (if b then io_return () else destroy deps p s i) (\<lambda>_.
      io_bind (wd_provision deps p) (\<lambda>result.
      io_bind (replacement_present deps p) (\<lambda>_. io_return (Some result, identifier_of p)))))) ?safe" for s
  proof (rule ensures_bind [where R = "\<lambda>_. ?P"])
    show "ensures ?P (wd_preflight deps p) (\<lambda>r w. case r of Inl e \<Rightarrow> wipe_safe deps n g (view w) | Inr x \<Rightarrow> ?P w)"
      using wipe_preflight [OF w] by (auto simp: ensures_def unseen_def split: sum.splits)
  next
    show "ensures ?P (io_bind (if b then io_return () else destroy deps p s i) (\<lambda>_.
      io_bind (wd_provision deps p) (\<lambda>result.
      io_bind (replacement_present deps p) (\<lambda>_. io_return (Some result, identifier_of p))))) ?safe"
      by (rule ensures_bind, rule once_ensures, unfold n, rule destroy_ensures [OF w g], rule after [unfolded n],
          intro preserves_rules provision_keeps [OF w] present_keeps [OF w])
  qed
  have alone: "ensures ?P (io_bind (if b then io_return () else replace_volume deps p i) (\<lambda>_.
      io_bind (replacement_present deps p) (\<lambda>_. io_return (None, None)))) ?safe"
    by (rule ensures_bind, rule once_ensures, unfold n, rule replace_ensures [OF w g], rule after [unfolded n],
        intro preserves_rules present_keeps [OF w])
  show "ensures ?P (case vp_service p of
         None \<Rightarrow>
           io_bind (if b then io_return () else replace_volume deps p i) (\<lambda>_.
           io_bind (replacement_present deps p) (\<lambda>_. io_return (None, None)))
       | Some s \<Rightarrow>
           io_bind (wd_preflight deps p) (\<lambda>_.
           io_bind (if b then io_return () else destroy deps p s i) (\<lambda>_.
           io_bind (wd_provision deps p) (\<lambda>result.
           io_bind (replacement_present deps p) (\<lambda>_. io_return (Some result, identifier_of p)))))) ?safe"
    by (cases "vp_service p") (simp_all only: option.case attached alone)
qed

section \<open>Retries\<close>

text \<open>The attempts the work item is retried for, whatever each ends with; one that never returns is the last.\<close>

fun wipe_attempts :: "('w, 'p) wipe_deps \<Rightarrow> (volume_payload \<times> string option) list \<Rightarrow> ('w, unit) io" where
  "wipe_attempts deps [] = io_return ()"
| "wipe_attempts deps ((p, i) # ps) = io_bind (io_try (handleWipeVolume deps p i)) (\<lambda>_. wipe_attempts deps ps)"

lemma attempts_keep:
  assumes "wipe_world view deps" and "\<forall>(p, i) \<in> set ps. vp_volumeName p = n \<and> readPayloadRepositoryGeneration p = Some g"
  shows "preserves (\<lambda>w. wipe_safe deps n g (view w)) (wipe_attempts deps ps)"
  using assms(2)
  by (induction ps) (auto intro!: preserves_rules wipe_keeps [OF assms(1)])


section \<open>Nothing else keeps a wipe from wiping\<close>

definition removes :: "('w \<Rightarrow> wipe_view) \<Rightarrow> ('w, 'a) io \<Rightarrow> bool" where
  "removes view m \<longleftrightarrow> (\<forall>w x w'. m w = Some (Inr x, w') \<longrightarrow> wv_removed (view w'))"

lemma removes_first:
  assumes "removes view m" and "\<And>x. preserves (\<lambda>w. wv_removed (view w)) (f x)"
  shows "removes view (io_bind m f)"
  unfolding removes_def
proof (intro allI impI)
  fix w y w' assume "io_bind m f w = Some (Inr y, w')"
  then obtain x w1 where 1: "m w = Some (Inr x, w1)" and 2: "f x w1 = Some (Inr y, w')" by (rule io_bind_InrE)
  from 1 assms(1) have "wv_removed (view w1)" unfolding removes_def by blast
  from preservesD [OF assms(2) this 2] show "wv_removed (view w')" .
qed

lemma removes_then: "(\<And>x. removes view (f x)) \<Longrightarrow> removes view (io_bind m f)"
  unfolding removes_def by (blast elim: io_bind_InrE)

lemma replace_removes:
  assumes w: "wipe_world view deps" shows "removes view (replace_volume deps p i)"
proof -
  have wr: "preserves (\<lambda>w. wv_removed (view w)) (fs_writeFile (wd_files deps) q t)" for q t
    by (rule preservesI, drule wipe_write [OF w]) auto
  have mv: "preserves (\<lambda>w. wv_removed (view w)) (fs_rename (wd_files deps) q q')" for q q'
    by (rule preservesI, drule wipe_rename [OF w]) auto
  have "removes view (removeVolume (wd_docker deps) v f)" for v f
    unfolding removes_def using wipe_remove [OF w] by fastforce
  then show ?thesis
    unfolding replace_volume_def verifyVolumeAbsent_def recordVolumeReplaced_def writeVolumeWipeReceipt_def Let_def
    by (rule removes_first) (intro preserves_rules wr mv unseen_preserves [OF wipe_inspect [OF w]]
        unseen_preserves [OF wipe_create [OF w]] unseen_preserves [OF wipe_mkdir [OF w]] unseen_preserves [OF wipe_now [OF w]])
qed

lemma destroy_removes: "wipe_world view deps \<Longrightarrow> removes view (destroy deps p s i)"
  unfolding destroy_def by (intro removes_then replace_removes)

text \<open>The receipt the code goes by is one of this volume and this generation.\<close>

lemma already_replaced_only:
  assumes "wipe_world view deps" and "already_replaced deps p w = Some (Inr True, w')"
  shows "\<exists>g. readPayloadRepositoryGeneration p = Some g \<and> recorded deps (vp_volumeName p) g (view w)"
  using assms(2) already_replaced_sees [OF assms(1) _ assms(2)]
  by (cases "readPayloadRepositoryGeneration p") (auto simp: already_replaced_def)

lemma wiping_removes:
  assumes w: "wipe_world view deps"
  shows "removes view (case vp_service p of
         None \<Rightarrow> io_bind (replace_volume deps p i) (\<lambda>_. io_bind (replacement_present deps p) (\<lambda>_. io_return (None, None)))
       | Some s \<Rightarrow> io_bind (wd_preflight deps p) (\<lambda>_. io_bind (destroy deps p s i) (\<lambda>_.
           io_bind (wd_provision deps p) (\<lambda>result.
           io_bind (replacement_present deps p) (\<lambda>_. io_return (Some result, identifier_of p))))))"
proof -
  have pr: "preserves (\<lambda>w. wv_removed (view w)) (wd_provision deps p)"
    by (rule preservesI, drule wipe_provision [OF w]) simp
  show ?thesis
  proof (cases "vp_service p")
    case None
    show ?thesis unfolding None option.case
      by (rule removes_first [OF replace_removes [OF w]]) (intro preserves_rules present_keeps [OF w])
  next
    case (Some s)
    show ?thesis unfolding Some option.case
      by (rule removes_then, rule removes_first [OF destroy_removes [OF w]])
        (intro preserves_rules pr present_keeps [OF w])
  qed
qed

lemma finished_wipe_removes:
  assumes w: "wipe_world view deps" and r: "handleWipeVolume deps p i w = Some (Inr x, w')"
    and none: "\<nexists>g. readPayloadRepositoryGeneration p = Some g \<and> recorded deps (vp_volumeName p) g (view w)"
  shows "wv_removed (view w')"
proof -
  from r obtain b w1 where b: "already_replaced deps p w = Some (Inr b, w1)"
      and rest: "(case vp_service p of
         None \<Rightarrow> io_bind (if b then io_return () else replace_volume deps p i) (\<lambda>_.
           io_bind (replacement_present deps p) (\<lambda>_. io_return (None, None)))
       | Some s \<Rightarrow> io_bind (wd_preflight deps p) (\<lambda>_. io_bind (if b then io_return () else destroy deps p s i) (\<lambda>_.
           io_bind (wd_provision deps p) (\<lambda>result.
           io_bind (replacement_present deps p) (\<lambda>_. io_return (Some result, identifier_of p)))))) w1 = Some (Inr x, w')"
    unfolding handleWipeVolume_def by (rule io_bind_InrE)
  have "\<not> b"
  proof
    assume "b"
    with b have "already_replaced deps p w = Some (Inr True, w1)" by simp
    with already_replaced_only [OF w] none show False by blast
  qed
  then have "b = False" by simp
  from rest [unfolded this if_False] wiping_removes [OF w, of p i] show ?thesis unfolding removes_def by blast
qed


section \<open>A receipt that cannot be read\<close>

definition doubtful :: "file_text \<Rightarrow> bool" where
  "doubtful t \<longleftrightarrow> (case json_parse t of Inl e \<Rightarrow> True | Inr j \<Rightarrow> volume_receipt_of j = None)"

lemma doubtful_parse: "doubtful t \<Longrightarrow> isl (parse_volume_receipt f t)"
  by (auto simp: doubtful_def parse_volume_receipt_def split: sum.splits)

lemma doubtful_read:
  assumes w: "wipe_world view deps" and t: "wv_file (view w) (getVolumeWipeReceiptPath (wd_dataDir deps) n) = Some t" and d: "doubtful t"
    and r: "readVolumeWipeReceipt (wd_files deps) (wd_dataDir deps) n w = Some (r, w')"
  shows "isl r"
proof (rule ccontr)
  let ?path = "getVolumeWipeReceiptPath (wd_dataDir deps) n"
  assume "\<not> isl r"
  with r consider t' x where "fs_readFile (wd_files deps) ?path w = Some (Inr t', w')" "parse_volume_receipt ?path t' = Inr x"
    | e where "fs_readFile (wd_files deps) ?path w = Some (Inl e, w')" "is_ENOENT e"
    unfolding readVolumeWipeReceipt_def Let_def
    by (auto simp: io_bind_Some_iff io_catch_Some_iff io_either_def split: sum.splits if_splits option.splits)
  then show False
  proof cases
    case 1
    with wipe_read [OF w 1(1)] t doubtful_parse [OF d, of ?path] show False by simp
  next
    case 2
    with wipe_read_fails [OF w 2(1)] t show False by simp
  qed
qed

lemma doubtful_stops:
  assumes w: "wipe_world view deps" and g: "readPayloadRepositoryGeneration p = Some g"
    and t: "wv_file (view w) (getVolumeWipeReceiptPath (wd_dataDir deps) (vp_volumeName p)) = Some t" and d: "doubtful t"
    and r: "handleWipeVolume deps p i w = Some (r, w')"
  shows "isl r \<and> view w' = view w"
proof -
  have a: "isl s" if "already_replaced deps p w = Some (s, w1)" for s w1
    using that doubtful_read [OF w t d] unfolding already_replaced_def g option.case io_bind_Some_iff by fastforce
  from r obtain e where e: "already_replaced deps p w = Some (Inl e, w')" and "r = Inl e"
    unfolding handleWipeVolume_def io_bind_Some_iff using a by fastforce
  with already_replaced_unseen [OF w, of p] show ?thesis by (simp add: unseen_def)
qed


section \<open>A host on which provisioning always fails\<close>

definition demo_files :: "(wipe_view \<times> bool) files" where
  "demo_files =
     \<lparr>fs_readFile = \<lambda>p (v, b). case wv_file v p of None \<Rightarrow> Some (Inl (SystemError ''ENOENT'' ''no such file''), v, b) | Some t \<Rightarrow> Some (Inr t, v, b),
      fs_mkdir = \<lambda>p. io_return (),
      fs_writeFile = \<lambda>p t (v, b). Some (Inr (), v\<lparr>wv_file := (wv_file v)(p \<mapsto> t)\<rparr>, b),
      fs_rename = \<lambda>p q (v, b). Some (Inr (), v\<lparr>wv_file := (wv_file v)(q := wv_file v p, p := None)\<rparr>, b),
      fs_rm = \<lambda>p. io_return ()\<rparr>"

definition demo_docker :: "(wipe_view \<times> bool) docker" where
  "demo_docker = \<lparr>inspectContainer = (\<lambda>i. io_return None),
     listContainersByLabels = (\<lambda>_. io_return []), listManagedContainers = io_return [],
     countContainerExits = (\<lambda>_ _ _. io_return 0), containerLogs = (\<lambda>_. io_return []),
     containerLogEntries = (\<lambda>_ _. io_return []), createContainer = (\<lambda>s. io_return (sp_name s)),
     startContainer = (\<lambda>i. io_return ()), waitContainer = (\<lambda>_ _. io_return 0), stopContainer = (\<lambda>_ _. io_return ()),
     killContainer = (\<lambda>_ _. io_return True), removeContainer = (\<lambda>i f. io_return ()),
     updateContainerRestartPolicy = (\<lambda>_ _. io_return ()), inspectVolume = (\<lambda>n (v, b). Some (Inr b, v, b)),
     createVolume = (\<lambda>n ls (v, b). Some (Inr (), v, True)),
     removeVolume = (\<lambda>n f (v, b). Some (Inr (), v\<lparr>wv_lost := wv_lost v \<or> wv_provisioned v, wv_removed := True\<rparr>, False))\<rparr>"

definition demo_deps :: "(wipe_view \<times> bool, unit) wipe_deps" where
  "demo_deps = \<lparr>wd_docker = demo_docker, wd_files = demo_files, wd_clock = \<lparr>now = \<lambda>w. (0, w), wait = \<lambda>n. io_return ()\<rparr>,
     wd_dataDir = ''/data'', wd_preflight = \<lambda>p. io_return (),
     wd_provision = \<lambda>p (v, b). Some (Inl (Error ''unhealthy''), v\<lparr>wv_provisioned := True\<rparr>, b)\<rparr>"

lemmas demo_defs = demo_deps_def demo_docker_def demo_files_def

lemma demo_world: "wipe_world fst demo_deps"
  by (auto simp: wipe_world_def unseen_def demo_defs io_now_def split: option.splits)

definition demo_payload :: "attached_service option \<Rightarrow> volume_payload" where
  "demo_payload s = \<lparr>vp_projectId = ''p'', vp_volumeId = ''v'', vp_volumeName = ''vol'', vp_generation = jint 2, vp_service = s\<rparr>"

definition demo_service :: attached_service where
  "demo_service = \<lparr>as_serviceId = ''0123456789abcdef'', as_variant = ''postgres'', as_containerId = Some ''c1'', as_containerName = None\<rparr>"

definition demo_view :: "file_text option \<Rightarrow> wipe_view" where
  "demo_view t = \<lparr>wv_file = (\<lambda>p. if p = ''/data/volume-wipes/vol.json'' then t else None), wv_provisioned = False, wv_lost = False, wv_removed = False\<rparr>"

lemma demo_generation: "readPayloadRepositoryGeneration (demo_payload s) = Some 2"
  by (simp add: readPayloadRepositoryGeneration_def demo_payload_def)

lemma demo_name: "vp_volumeName (demo_payload s) = ''vol''"
  by (simp add: demo_payload_def)

lemma demo_path: "getVolumeWipeReceiptPath (wd_dataDir demo_deps) ''vol'' = ''/data/volume-wipes/vol.json''"
  by code_simp

lemma demo_runs: "\<exists>r w'. wipe_attempts demo_deps [(demo_payload (Some demo_service), None), (demo_payload (Some demo_service), None)]
    (demo_view None, True) = Some (r, w') \<and> wv_provisioned (fst w')"
proof -
  have "map_option (\<lambda>(r, w'). wv_provisioned (fst w'))
    (wipe_attempts demo_deps [(demo_payload (Some demo_service), None), (demo_payload (Some demo_service), None)] (demo_view None, True)) = Some True"
    by code_simp
  then show ?thesis by auto
qed

lemma demo_wipes: "\<exists>x w'. handleWipeVolume demo_deps (demo_payload None) None (demo_view None, True) = Some (Inr x, w')"
proof -
  have "map_option (\<lambda>(r, w'). \<not> isl r)
    (handleWipeVolume demo_deps (demo_payload None) None (demo_view None, True)) = Some True"
    by code_simp
  then obtain r w' where "handleWipeVolume demo_deps (demo_payload None) None (demo_view None, True) = Some (r, w')" "\<not> isl r" by auto
  then show ?thesis by (cases r) auto
qed

lemma demo_stops: "\<exists>r w'. handleWipeVolume demo_deps (demo_payload None) None (demo_view (Some (NotJson ''cut'')), True) = Some (r, w')"
proof -
  have "map_option (\<lambda>(r, w'). isl r)
    (handleWipeVolume demo_deps (demo_payload None) None (demo_view (Some (NotJson ''cut'')), True)) = Some True"
    by code_simp
  then show ?thesis by auto
qed




end
