(* ===== verification/Worker_Service.thy ===== *)
theory Worker_Service
  imports Worker_Watch
begin

text \<open>
  The containers of a whole service: their removal (\<open>agent/src/service-container-cleanup.ts\<close> and
  \<open>removeWorkerServiceRuntime\<close> of \<open>agent/src/worker-runtime.ts\<close>) and the restart of its live replicas
  (\<open>restartWorkerServiceRuntime\<close>).
\<close>

section \<open>Removing\<close>

definition cleanup_labels :: "string \<Rightarrow> string option \<Rightarrow> (string \<times> string) list" where
  "cleanup_labels serviceId deploymentId = [(''nouva.managed'', ''true''), (''nouva.service.id'', serviceId)]
     @ (case deploymentId of None \<Rightarrow> [] | Some d \<Rightarrow> [(''nouva.deployment.id'', d)])"

text \<open>What Docker lists is checked again: a label of another value is another service's container.\<close>

definition owned :: "(string \<times> string) list \<Rightarrow> inspection \<Rightarrow> bool" where
  "owned labels c = list_all (\<lambda>(k, v). label_of c k = Some v) labels"

definition list_owned :: "'w docker \<Rightarrow> (string \<times> string) list \<Rightarrow> ('w, inspection list) io" where
  "list_owned docker labels = io_bind (listContainersByLabels docker labels) (\<lambda>cs. io_return (filter (owned labels) cs))"

definition remove_owned :: "'w docker \<Rightarrow> inspection \<Rightarrow> ('w, unit) io" where
  "remove_owned docker c =
     (if ci_Id c = [] then io_throw (Error ''Managed container has no ID'') else removeContainer docker (ci_Id c) True)"

definition removeManagedServiceContainers :: "'w docker \<Rightarrow> string \<Rightarrow> string option \<Rightarrow> ('w, inspection list) io" where
  "removeManagedServiceContainers docker serviceId deploymentId =
     (if serviceId = [] \<or> deploymentId = Some [] then io_throw (Error ''Container cleanup requires a scope'')
      else let labels = cleanup_labels serviceId deploymentId
        in io_bind (list_owned docker labels) (\<lambda>containers.
           io_bind (io_for containers (remove_owned docker)) (\<lambda>_.
           io_bind (list_owned docker labels) (\<lambda>left.
           if left \<noteq> [] then io_throw (Error ''Managed service containers still exist after cleanup'')
           else io_return containers))))"

text \<open>The entries of \<open>runtimeInstances\<close>: an index that is not an integer is \<open>null\<close>.\<close>

record runtime_instance =
  in_kind :: string
  in_status :: string
  in_replicaIndex :: "int option"
  in_workerScheduleRunId :: "string option"
  in_containerId :: string
  in_containerName :: string

definition instance_index :: "inspection \<Rightarrow> int option" where
  "instance_index c = (case label_of c ''nouva.replica.index'' of None \<Rightarrow> None | Some s \<Rightarrow> json_int (JNum (js_number s)))"

definition removed_instance :: "inspection \<Rightarrow> runtime_instance" where
  "removed_instance c =
     (let job = label_of c ''nouva.kind'' = Some ''worker_job''
      in \<lparr>in_kind = (if job then ''worker_job'' else ''worker''), in_status = ''removed'', in_replicaIndex = instance_index c,
          in_workerScheduleRunId = (if job then label_of c ''nouva.schedule.run.id'' else None),
          in_containerId = ci_Id c, in_containerName = getContainerName c\<rparr>)"

record removed_service =
  rs_instances :: "runtime_instance list"
  rs_containers :: "string list"
  rs_images :: "string list"

definition images_to_remove :: "runtime_metadata option \<Rightarrow> string list" where
  "images_to_remove md =
     (if Option.bind md md_imageStoreMode = Some ''docker-local'' then getRetainedImageReferences md else [])"

definition removeWorkerServiceRuntime ::
    "'w worker_docker \<Rightarrow> string \<Rightarrow> runtime_metadata option \<Rightarrow> ('w, removed_service) io" where
  "removeWorkerServiceRuntime docker serviceId md =
     io_bind (removeManagedServiceContainers (wk_docker docker) serviceId None) (\<lambda>containers.
     io_bind (io_for (images_to_remove md) (\<lambda>r. wk_removeImage docker r True)) (\<lambda>_.
     io_return \<lparr>rs_instances = map removed_instance containers, rs_containers = map getContainerIdentifier containers,
       rs_images = images_to_remove md\<rparr>))"

section \<open>Restarting\<close>

definition mountsVolume :: "inspection \<Rightarrow> bool" where
  "mountsVolume c = list_ex (\<lambda>t. t = Some ''volume'') (ci_HostMountTypes c)"

definition restart_policy :: "json \<Rightarrow> shutdown_policy" where
  "restart_policy shutdownPolicy =
     (case parseWorkerShutdownPolicy shutdownPolicy of None \<Rightarrow> DEFAULT_WORKER_SHUTDOWN_POLICY | Some p \<Rightarrow> p)"

definition leftovers :: "runtime_metadata option \<Rightarrow> inspection list \<Rightarrow> inspection list" where
  "leftovers md cs = filter (\<lambda>c. \<not> recordedLiveRuntime md c \<and> \<not> is_up c) cs"

definition running_others :: "runtime_metadata option \<Rightarrow> inspection list \<Rightarrow> inspection list" where
  "running_others md cs = filter (\<lambda>c. \<not> recordedLiveRuntime md c \<and> is_up c) cs"

definition restarted_instance :: "inspection \<Rightarrow> runtime_instance" where
  "restarted_instance c = \<lparr>in_kind = ''worker'', in_status = ''running'', in_replicaIndex = instance_index c,
     in_workerScheduleRunId = None, in_containerId = ci_Id c, in_containerName = getContainerName c\<rparr>"

datatype restart_result = Superseded | Live "runtime_instance list"

definition forbids_others :: "json \<Rightarrow> inspection list \<Rightarrow> bool" where
  "forbids_others shutdownPolicy cs \<longleftrightarrow>
     wp_rolloutPolicy (restart_policy shutdownPolicy) = NoOverlap \<or> list_ex mountsVolume cs"

definition restart_one :: "'w worker_docker \<Rightarrow> inspection \<Rightarrow> ('w, unit) io" where
  "restart_one docker c =
     io_bind (updateContainerRestartPolicy (wk_docker docker) (getContainerIdentifier c) ''unless-stopped'') (\<lambda>_.
     wk_restartContainer docker (getContainerIdentifier c))"

text \<open>What follows the removal of the stopped leftovers.\<close>

definition restart_live ::
    "'w worker_docker \<Rightarrow> string \<Rightarrow> runtime_metadata option \<Rightarrow> json \<Rightarrow> inspection list \<Rightarrow> ('w, restart_result) io" where
  "restart_live docker serviceId md shutdownPolicy cs =
     (let live = filter (recordedLiveRuntime md) cs; others = running_others md cs
      in if live = [] then
           (if others \<noteq> [] then io_return Superseded
            else io_throw (Error (''Worker '' @ serviceId @ '' has no live runtime containers to restart'')))
         else if others \<noteq> [] \<and> forbids_others shutdownPolicy cs then
           io_throw (Error (''Worker '' @ serviceId @ '' still runs '' @ join '', '' (map getContainerName others)
             @ '' outside its live runtime, and restarting now would run it alongside the live replicas, which a no_overlap policy or a volume forbids. Stop that container or redeploy first.''))
         else io_bind (io_for live (restart_one docker)) (\<lambda>_. io_return (Live (map restarted_instance live))))"

definition restartWorkerServiceRuntime ::
    "'w worker_docker \<Rightarrow> string \<Rightarrow> runtime_metadata option \<Rightarrow> json \<Rightarrow> ('w, restart_result) io" where
  "restartWorkerServiceRuntime docker serviceId md shutdownPolicy =
     io_bind (listWorkerServiceContainers docker serviceId) (\<lambda>cs.
     io_bind (io_for (leftovers md cs) (\<lambda>c. removeContainer (wk_docker docker) (getContainerIdentifier c) False)) (\<lambda>_.
     io_bind (assertContainersAbsent docker (map getContainerIdentifier (leftovers md cs))) (\<lambda>_.
     restart_live docker serviceId md shutdownPolicy cs)))"

end
