(* ===== verification/Worker_Service_Props.thy ===== *)
theory Worker_Service_Props
  imports Worker_Service Worker_Calls
begin

text \<open>
  The order of the calls of a removal and of a restart, over any Docker client: monitors that follow the calls
  and what the client answered.
\<close>

section \<open>A restart\<close>

text \<open>
  The containers that were listed, those removed and not seen gone since, and the one whose restart policy was
  set last.
\<close>

record restart_view =
  rv_listed :: "inspection list option"
  rv_pending :: "string list"
  rv_policed :: "string option"

definition restart_view0 :: restart_view where
  "restart_view0 = \<lparr>rv_listed = None, rv_pending = [], rv_policed = None\<rparr>"

definition may_restart :: "runtime_metadata option \<Rightarrow> json \<Rightarrow> inspection list \<Rightarrow> string \<Rightarrow> bool" where
  "may_restart md policy cs i \<longleftrightarrow> (\<exists>c \<in> set cs. getContainerIdentifier c = i \<and> recordedLiveRuntime md c) \<and>
     (forbids_others policy cs \<longrightarrow> running_others md cs = [])"

text \<open>
  One listing; a removal only, and without force, of a container that is not recorded as live and was listed
  stopped; a restart only of a recorded one whose policy was just set, with every removed container seen gone,
  and with nothing else of the service running where the policy or a volume forbids it. Nothing else is done.
\<close>

fun restart_protocol :: "runtime_metadata option \<Rightarrow> json \<Rightarrow> (restart_view, worker_event) monitor" where
  "restart_protocol md policy v (Listed (Inl e)) = Some v"
| "restart_protocol md policy v (Listed (Inr cs)) = (if rv_listed v = None then Some (v\<lparr>rv_listed := Some (first_by_identifier [] cs)\<rparr>) else None)"
| "restart_protocol md policy v (Did (Remove i force)) = (case rv_listed v of
       Some cs \<Rightarrow> if \<not> force \<and> i \<in> set (map getContainerIdentifier (leftovers md cs)) \<and> rv_policed v = None
         then Some (v\<lparr>rv_pending := i # rv_pending v\<rparr>) else None
     | None \<Rightarrow> None)"
| "restart_protocol md policy v (Saw i r) = Some (if r = Inr None then v\<lparr>rv_pending := removeAll i (rv_pending v)\<rparr> else v)"
| "restart_protocol md policy v (Did (UpdatePolicy i p)) = (case rv_listed v of
       Some cs \<Rightarrow> if p = ''unless-stopped'' \<and> may_restart md policy cs i then Some (v\<lparr>rv_policed := Some i\<rparr>) else None
     | None \<Rightarrow> None)"
| "restart_protocol md policy v (Restarted i) = (case rv_listed v of
       Some cs \<Rightarrow> if may_restart md policy cs i \<and> rv_policed v = Some i \<and> rv_pending v = [] then Some v else None
     | None \<Rightarrow> None)"
| "restart_protocol md policy v _ = None"

definition pending_in :: "inspection list \<Rightarrow> string set \<Rightarrow> restart_view \<Rightarrow> bool" where
  "pending_in cs A v \<longleftrightarrow> rv_listed v = Some cs \<and> set (rv_pending v) \<subseteq> A \<and> rv_policed v = None"

lemma leftovers_removed:
  assumes "set xs \<subseteq> set (leftovers md cs)" and "pending_in cs (getContainerIdentifier ` set (leftovers md cs)) v"
  shows "obeys (restart_protocol md policy) v
    (io_for xs (\<lambda>c. removeContainer (wk_docker (watch d)) (getContainerIdentifier c) False))
    (\<lambda>r. pending_in cs (getContainerIdentifier ` set (leftovers md cs)))"
  using assms(2)
proof (rule obeys_for)
  fix c v assume "c \<in> set xs" and p: "pending_in cs (getContainerIdentifier ` set (leftovers md cs)) v"
  with assms(1) have c: "c \<in> set (leftovers md cs)" by blast
  show "obeys (restart_protocol md policy) v (removeContainer (wk_docker (watch d)) (getContainerIdentifier c) False)
      (\<lambda>r. pending_in cs (getContainerIdentifier ` set (leftovers md cs)))"
    unfolding watch_simps
    by (rule obeys_call [where s' = "v\<lparr>rv_pending := getContainerIdentifier c # rv_pending v\<rparr>"])
      (use p c in \<open>auto simp: pending_in_def\<close>)
qed

lemma absent_seen:
  "pending_in cs (set is \<union> A) v \<Longrightarrow> obeys (restart_protocol md policy) v (assertContainersAbsent (watch d) is)
    (\<lambda>r v'. \<not> isl r \<longrightarrow> pending_in cs A v')"
proof (induction "is" arbitrary: v)
  case Nil
  then show ?case by (auto simp: assertContainersAbsent_def intro: obeys_return)
next
  case (Cons i "is")
  show ?case unfolding assertContainersAbsent_def io_for.simps watch_simps
  proof (rule obeys_bind [where P = "\<lambda>r v'. \<not> isl r \<longrightarrow> pending_in cs (set is \<union> A) v'"])
    show "obeys (restart_protocol md policy) v (io_bind (log_result (Saw i) (inspectContainer (wk_docker d) i)) (\<lambda>c.
       if c \<noteq> None then io_throw (Error (''Worker container '' @ i @ '' still exists after it was removed''))
       else io_return ())) (\<lambda>r v'. \<not> isl r \<longrightarrow> pending_in cs (set is \<union> A) v')"
      using Cons.prems
      by (intro obeys_bind_result) (auto simp: pending_in_def intro!: obeys_return obeys_throw split: sum.splits)
  next
    fix x v' assume "\<not> isl (Inr x :: js_error + unit) \<longrightarrow> pending_in cs (set is \<union> A) v'"
    then have "pending_in cs (set is \<union> A) v'" by simp
    from Cons.IH [OF this] show "obeys (restart_protocol md policy) v' (io_for is (\<lambda>i. io_bind (log_result (Saw i) (inspectContainer (wk_docker d) i)) (\<lambda>c.
       if c \<noteq> None then io_throw (Error (''Worker container '' @ i @ '' still exists after it was removed''))
       else io_return ()))) (\<lambda>r v'. \<not> isl r \<longrightarrow> pending_in cs A v')"
      unfolding assertContainersAbsent_def watch_simps .
  qed simp
qed

lemma live_restarted:
  fixes v :: restart_view
  assumes "rv_listed v = Some cs" "rv_pending v = []" "forbids_others policy cs \<longrightarrow> running_others md cs = []"
  shows "obeys (restart_protocol md policy) v (io_for (filter (recordedLiveRuntime md) cs) (restart_one (watch d)))
    (\<lambda>r v'. rv_listed v' = Some cs \<and> rv_pending v' = [])"
proof (rule obeys_for)
  fix c and v :: restart_view assume "c \<in> set (filter (recordedLiveRuntime md) cs)" and v: "rv_listed v = Some cs \<and> rv_pending v = []"
  then have m: "may_restart md policy cs (getContainerIdentifier c)" using assms(3) by (auto simp: may_restart_def)
  show "obeys (restart_protocol md policy) v (restart_one (watch d) c) (\<lambda>r v'. rv_listed v' = Some cs \<and> rv_pending v' = [])"
    unfolding restart_one_def watch_simps
    by (rule obeys_bind_call [where s' = "v\<lparr>rv_policed := Some (getContainerIdentifier c)\<rparr>"])
      (use m v in \<open>auto intro!: obeys_call\<close>)
qed (use assms in simp)

lemma restart_obeys:
  "obeys (restart_protocol md policy) restart_view0 (restartWorkerServiceRuntime (watch d) serviceId md policy) (\<lambda>r v. True)"
  unfolding restartWorkerServiceRuntime_def
proof (rule obeys_bind [where P = "\<lambda>r v. \<forall>cs. r = Inr cs \<longrightarrow> pending_in cs {} v"])
  show "obeys (restart_protocol md policy) restart_view0 (listWorkerServiceContainers (watch d) serviceId)
      (\<lambda>r v. \<forall>cs. r = Inr cs \<longrightarrow> pending_in cs {} v)"
    unfolding listWorkerServiceContainers_def watch_simps
  proof (rule obeys_bind_result)
    fix r :: "js_error + inspection list"
    show "\<exists>s'. restart_protocol md policy restart_view0 (Listed r) = Some s' \<and>
        (case r of Inl e \<Rightarrow> \<forall>cs. (Inl e :: js_error + inspection list) = Inr cs \<longrightarrow> pending_in cs {} s'
         | Inr x \<Rightarrow> obeys (restart_protocol md policy) s' (io_return (first_by_identifier [] x)) (\<lambda>r v. \<forall>cs. r = Inr cs \<longrightarrow> pending_in cs {} v))"
      by (cases r) (auto simp: restart_view0_def pending_in_def intro!: obeys_return)
  qed
next
  fix cs v assume "\<forall>cs'. (Inr cs :: js_error + inspection list) = Inr cs' \<longrightarrow> pending_in cs' {} v"
  then have p: "pending_in cs (getContainerIdentifier ` set (leftovers md cs)) v" by (auto simp: pending_in_def)
  show "obeys (restart_protocol md policy) v
     (io_bind (io_for (leftovers md cs) (\<lambda>c. removeContainer (wk_docker (watch d)) (getContainerIdentifier c) False)) (\<lambda>_.
     io_bind (assertContainersAbsent (watch d) (map getContainerIdentifier (leftovers md cs))) (\<lambda>_.
     restart_live (watch d) serviceId md policy cs))) (\<lambda>r v. True)"
  proof (rule obeys_bind [OF leftovers_removed [OF subset_refl p]])
    fix x v' assume "pending_in cs (getContainerIdentifier ` set (leftovers md cs)) v'"
    then have "pending_in cs (set (map getContainerIdentifier (leftovers md cs)) \<union> {}) v'" by simp
    then show "obeys (restart_protocol md policy) v' (io_bind (assertContainersAbsent (watch d) (map getContainerIdentifier (leftovers md cs)))
        (\<lambda>_. restart_live (watch d) serviceId md policy cs)) (\<lambda>r v. True)"
    proof (rule obeys_bind [OF absent_seen])
      fix y and v'' :: restart_view assume "\<not> isl (Inr y :: js_error + unit) \<longrightarrow> pending_in cs {} v''"
      then have v: "rv_listed v'' = Some cs" "rv_pending v'' = []" by (auto simp: pending_in_def)
      show "obeys (restart_protocol md policy) v'' (restart_live (watch d) serviceId md policy cs) (\<lambda>r v. True)"
        unfolding restart_live_def Let_def
        by (auto intro!: obeys_return obeys_throw obeys_bind [OF live_restarted [OF v]])
    qed simp
  qed simp
qed simp

text \<open>C13 a restart of a worker follows the protocol, over any Docker client: only recorded replicas are restarted, none while
  a removed container was not seen gone, and none beside a running container of another version where that is forbidden.\<close>

theorem restart_never_mixes:
  assumes "restartWorkerServiceRuntime (watch d) serviceId md policy (w, []) = Some (r, (w', events))"
  shows "run_monitor (restart_protocol md policy) restart_view0 events \<noteq> None"
  using obeys_final [OF restart_obeys assms] by auto

section \<open>A removal\<close>

datatype removal_stage =
    Unlisted
  | Removing "string list"   \<comment> \<open>what was listed of the service\<close>
  | Cleared                  \<comment> \<open>a later listing had nothing of it\<close>

text \<open>
  A container is removed only if it was listed with the labels of the service. The images go once a listing
  after the removals has shown that nothing of the service is left.
\<close>

fun removal_protocol :: "(string \<times> string) list \<Rightarrow> (removal_stage, worker_event) monitor" where
  "removal_protocol ls Unlisted (Listed (Inl e)) = Some Unlisted"
| "removal_protocol ls Unlisted (Listed (Inr cs)) = Some (Removing (map ci_Id (filter (owned ls) cs)))"
| "removal_protocol ls (Removing is) (Did (Remove i force)) = (if i \<in> set is \<and> i \<noteq> [] then Some (Removing is) else None)"
| "removal_protocol ls (Removing is) (Listed r) =
     Some (case r of Inl e \<Rightarrow> Removing is | Inr cs \<Rightarrow> if filter (owned ls) cs = [] then Cleared else Removing is)"
| "removal_protocol ls Cleared Elsewhere = Some Cleared"
| "removal_protocol ls _ _ = None"

lemma owned_removed:
  assumes "set (map ci_Id cs) \<subseteq> set is"
  shows "obeys (removal_protocol ls) (Removing is) (io_for cs (remove_owned (wk_docker (watch d)))) (\<lambda>r s. s = Removing is)"
proof (rule obeys_for)
  fix c s assume "c \<in> set cs" and s: "s = Removing is"
  with assms show "obeys (removal_protocol ls) s (remove_owned (wk_docker (watch d)) c) (\<lambda>r s. s = Removing is)"
    unfolding remove_owned_def watch_simps by (auto intro!: obeys_throw obeys_call)
qed simp

lemma service_removed:
  assumes "serviceId \<noteq> []" and "ls = cleanup_labels serviceId None"
  shows "obeys (removal_protocol ls) Unlisted (removeManagedServiceContainers (wk_docker (watch d)) serviceId None)
    (\<lambda>r s. \<not> isl r \<longrightarrow> s = Cleared)"
  unfolding removeManagedServiceContainers_def Let_def list_owned_def watch_simps io_bind_assoc io_bind_return
  using assms
proof (simp only: simp_thms option.distinct if_False, intro obeys_bind_result)
  fix r :: "js_error + inspection list"
  let ?rest = "\<lambda>cs. io_bind (io_for (filter (owned (cleanup_labels serviceId None)) cs) (remove_owned (wk_docker (watch d)))) (\<lambda>_.
      io_bind (log_result Listed (listContainersByLabels (wk_docker d) (cleanup_labels serviceId None))) (\<lambda>left.
        if filter (owned (cleanup_labels serviceId None)) left \<noteq> [] then io_throw (Error ''Managed service containers still exist after cleanup'')
        else io_return (filter (owned (cleanup_labels serviceId None)) cs)))"
  have "obeys (removal_protocol (cleanup_labels serviceId None)) (Removing (map ci_Id (filter (owned (cleanup_labels serviceId None)) cs))) (?rest cs)
      (\<lambda>r s. \<not> isl r \<longrightarrow> s = Cleared)" for cs
    by (rule obeys_bind [OF owned_removed])
      (auto intro!: obeys_bind_result obeys_throw obeys_return split: sum.splits)
  then show "\<exists>s'. removal_protocol (cleanup_labels serviceId None) Unlisted (Listed r) = Some s' \<and>
      (case r of Inl e \<Rightarrow> \<not> isl (Inl e :: js_error + inspection list) \<longrightarrow> s' = Cleared
       | Inr x \<Rightarrow> obeys (removal_protocol (cleanup_labels serviceId None)) s' (?rest x) (\<lambda>r s. \<not> isl r \<longrightarrow> s = Cleared))"
    by (cases r) auto
qed

lemma images_removed:
  "obeys (removal_protocol ls) Cleared (io_for is (\<lambda>r. wk_removeImage (watch d) r True)) (\<lambda>r s. s = Cleared)"
  by (rule obeys_for) (auto intro!: obeys_call)

lemma removal_obeys:
  "obeys (removal_protocol (cleanup_labels serviceId None)) Unlisted (removeWorkerServiceRuntime (watch d) serviceId md)
    (\<lambda>r s. \<not> isl r \<longrightarrow> s = Cleared)"
proof (cases "serviceId = []")
  case True
  then show ?thesis by (auto simp: removeWorkerServiceRuntime_def removeManagedServiceContainers_def intro: obeys_throw)
next
  case False
  show ?thesis unfolding removeWorkerServiceRuntime_def
  proof (rule obeys_bind [OF service_removed [OF False refl]])
    fix cs s assume "\<not> isl (Inr cs :: js_error + inspection list) \<longrightarrow> s = Cleared"
    then have s: "s = Cleared" by simp
    show "obeys (removal_protocol (cleanup_labels serviceId None)) s
       (io_bind (io_for (images_to_remove md) (\<lambda>r. wk_removeImage (watch d) r True)) (\<lambda>_.
          io_return \<lparr>rs_instances = map removed_instance cs, rs_containers = map getContainerIdentifier cs,
            rs_images = images_to_remove md\<rparr>)) (\<lambda>r s. \<not> isl r \<longrightarrow> s = Cleared)"
      unfolding s by (rule obeys_bind [OF images_removed]) (auto intro: obeys_return)
  qed simp
qed

text \<open>C14 a removal of a service touches only containers listed with the labels of the service, and one that returns has seen, after
  its removals and before its first image, that nothing of the service is left.\<close>

theorem service_removal_is_complete:
  assumes "removeWorkerServiceRuntime (watch d) serviceId md (w, []) = Some (r, (w', events))"
  shows "\<exists>stage. run_monitor (removal_protocol (cleanup_labels serviceId None)) Unlisted events = Some stage \<and>
    (\<not> isl r \<longrightarrow> stage = Cleared)"
  using obeys_final [OF removal_obeys assms] by auto

section \<open>A host with a live worker and a stopped leftover\<close>

definition service_container :: "string \<Rightarrow> bool \<Rightarrow> inspection" where
  "service_container i up = (bare_inspection i)\<lparr>ci_State := Some (no_state\<lparr>cs_Running := Some up\<rparr>),
     ci_Labels := Some (service_labels ''svc'')\<rparr>"

definition service_host :: "string list worker_docker" where
  "service_host = \<lparr>
     wk_docker = \<lparr>inspectContainer = (\<lambda>i is. Some (Inr (if i \<in> set is then Some (service_container i (i = ''new'')) else None), is)),
       listContainersByLabels = (\<lambda>_ is. Some (Inr (map (\<lambda>i. service_container i (i = ''new'')) is), is)), listManagedContainers = io_return [],
       countContainerExits = (\<lambda>_ _ _. io_return 0), containerLogs = (\<lambda>_. io_return []),
       containerLogEntries = (\<lambda>_ _. io_return []), createContainer = (\<lambda>s. io_return (sp_name s)),
       startContainer = (\<lambda>i. io_return ()), waitContainer = (\<lambda>_ _. io_return 0), stopContainer = (\<lambda>_ _. io_return ()),
       killContainer = (\<lambda>_ _. io_return True), removeContainer = (\<lambda>i f is. Some (Inr (), removeAll i is)),
       updateContainerRestartPolicy = (\<lambda>_ _. io_return ()), inspectVolume = (\<lambda>_. io_return True),
       createVolume = (\<lambda>_ _. io_return ()), removeVolume = (\<lambda>_ _. io_return ())\<rparr>,
     wk_createContainer = (\<lambda>s. io_return (sp_name s)), wk_stopContainer = (\<lambda>i. io_return ()), wk_restartContainer = (\<lambda>i. io_return ()),
     wk_ensureNetwork = (\<lambda>n ls. io_return ()), wk_inspectImage = (\<lambda>i. io_return None), wk_pullImage = (\<lambda>i. io_return ()),
     wk_removeImage = (\<lambda>i b. io_return ()), wk_listContainersUsingVolume = (\<lambda>v. io_return [])\<rparr>"

definition service_metadata :: runtime_metadata where
  "service_metadata = \<lparr>md_image = None, md_imageStoreMode = Some ''docker-local'',
     md_currentImage = Some \<lparr>im_reference = ''img'', im_imageId = None, im_deploymentId = Some ''d'', im_commitHash = None\<rparr>,
     md_previousImage = None, md_containerName = Some ''new'', md_replicaCount = None, md_replicas = None\<rparr>"

lemma restart_never_mixes_witness:
  "\<exists>r w' events. restartWorkerServiceRuntime (watch service_host) ''svc'' (Some service_metadata) JNull ([''old'', ''new''], []) = Some (r, (w', events))
    \<and> w' = [''new''] \<and> Restarted ''new'' \<in> set events \<and> run_monitor (restart_protocol (Some service_metadata) JNull) restart_view0 events \<noteq> None"
proof -
  have "map_option (\<lambda>(r, (w', events)). (w', list_ex (\<lambda>ev. ev = Restarted ''new'') events))
      (restartWorkerServiceRuntime (watch service_host) ''svc'' (Some service_metadata) JNull ([''old'', ''new''], [])) = Some ([''new''], True)"
    by code_simp
  then obtain r w' events where
      r: "restartWorkerServiceRuntime (watch service_host) ''svc'' (Some service_metadata) JNull ([''old'', ''new''], []) = Some (r, (w', events))"
      "w' = [''new'']" "Restarted ''new'' \<in> set events"
    by (auto simp: list_ex_iff)
  with restart_never_mixes [OF r(1)] show ?thesis by blast
qed

lemma service_removal_is_complete_witness:
  "\<exists>r w' events. removeWorkerServiceRuntime (watch service_host) ''svc'' (Some service_metadata) ([''old'', ''new''], []) = Some (r, (w', events))
    \<and> w' = [] \<and> \<not> isl r \<and> run_monitor (removal_protocol (cleanup_labels ''svc'' None)) Unlisted events = Some Cleared"
proof -
  have "map_option (\<lambda>(r, (w', events)). (w', isl r))
      (removeWorkerServiceRuntime (watch service_host) ''svc'' (Some service_metadata) ([''old'', ''new''], [])) = Some ([], False)"
    by code_simp
  then obtain r w' events where
      r: "removeWorkerServiceRuntime (watch service_host) ''svc'' (Some service_metadata) ([''old'', ''new''], []) = Some (r, (w', events))"
      "w' = []" "\<not> isl r"
    by auto
  with service_removal_is_complete [OF r(1)] show ?thesis by auto
qed

end
