(* ===== verification/Spec2Isabelle.thy ===== *)
theory Spec2Isabelle
  imports Release_Ledger Release_Protocol Worker_Shutdown_Props Worker_Rollout Work_Scheduler Work_Reporting_Props Update_Agent_Props
    Readiness_Props Database_Props Server_Capacity_Props Build_Logs_Props Host_Props Backup_Props
    Worker_Overlap Worker_Jobs_Protocol Log_Values_Props Log_Names Volume_Wipe_Props Worker_Service_Props
begin

text \<open>
  A model of the Nouva agent.
\<close>

end
